(* ===== verification/Rust_Prelude.thy ===== *)
theory Rust_Prelude
  imports Main "HOL-Library.Sublist"
begin

text \<open>
  The prelude of the development: the parts of the Rust standard library that the mail server
  uses on strings and results, and the generic lemmas the component theories share.

  A Rust \<open>String\<close>, \<open>&str\<close> or \<open>Vec<u8>\<close> is the list of its bytes, an Isabelle \<open>string\<close>; case
  mapping (\<open>to_lowercase\<close>, \<open>to_uppercase\<close>) and \<open>trim\<close> act on the ASCII range, which is the range
  every protocol keyword, address and token of the program lies in.  \<open>Result<T, E>\<close> is the sum
  \<open>E + T\<close> with \<open>Inl\<close> the error, \<open>Option<T>\<close> is \<open>'a option\<close>, and a \<open>usize\<close> or \<open>u64\<close> that cannot
  overflow is a \<open>nat\<close>.
\<close>

named_theorems result_simps \<open>evaluation rules of the result combinators\<close>
named_theorems str_simps \<open>rules of the string functions\<close>

section \<open>Results\<close>

type_synonym ('e, 'a) result = "'e + 'a"

abbreviation Err :: "'e \<Rightarrow> 'e + 'a" where "Err \<equiv> Inl"
abbreviation Ok :: "'a \<Rightarrow> 'e + 'a" where "Ok \<equiv> Inr"

definition rbind :: "'e + 'a \<Rightarrow> ('a \<Rightarrow> 'e + 'b) \<Rightarrow> 'e + 'b" where
  "rbind r f = (case r of Inl e \<Rightarrow> Inl e | Inr a \<Rightarrow> f a)"

definition is_ok :: "'e + 'a \<Rightarrow> bool" where
  "is_ok r = (case r of Inl _ \<Rightarrow> False | Inr _ \<Rightarrow> True)"

definition ok_opt :: "'e + 'a \<Rightarrow> 'a option" where
  "ok_opt r = (case r of Inl _ \<Rightarrow> None | Inr a \<Rightarrow> Some a)"

definition unwrap_or :: "'a \<Rightarrow> 'a option \<Rightarrow> 'a" where
  "unwrap_or d x = (case x of None \<Rightarrow> d | Some a \<Rightarrow> a)"

lemma rbind_simps [simp, result_simps]:
  "rbind (Inl e) f = Inl e"
  "rbind (Inr a) f = f a"
  by (simp_all add: rbind_def)

lemma rbind_assoc: "rbind (rbind r f) g = rbind r (\<lambda>a. rbind (f a) g)"
  by (cases r) simp_all

lemma rbind_Inr_iff: "rbind r f = Inr b \<longleftrightarrow> (\<exists>a. r = Inr a \<and> f a = Inr b)"
  by (cases r) simp_all

lemma is_ok_simps [simp, result_simps]:
  "is_ok (Inl e) = False"
  "is_ok (Inr a) = True"
  by (simp_all add: is_ok_def)

lemma ok_opt_simps [simp, result_simps]:
  "ok_opt (Inl e) = None"
  "ok_opt (Inr a) = Some a"
  by (simp_all add: ok_opt_def)

lemma unwrap_or_simps [simp, result_simps]:
  "unwrap_or d None = d"
  "unwrap_or d (Some a) = a"
  by (simp_all add: unwrap_or_def)

section \<open>Characters\<close>

abbreviation CR :: char where "CR \<equiv> CHR 0x0D"
abbreviation LF :: char where "LF \<equiv> CHR 0x0A"

abbreviation CRLF :: string where "CRLF \<equiv> [CR, LF]"

definition code_point :: "char \<Rightarrow> nat" where
  "code_point c = of_char c"

definition is_whitespace :: "char \<Rightarrow> bool" where
  "is_whitespace c = (code_point c = 32 \<or> (9 \<le> code_point c \<and> code_point c \<le> 13))"

definition is_digit :: "char \<Rightarrow> bool" where
  "is_digit c = (48 \<le> code_point c \<and> code_point c \<le> 57)"

definition is_lower :: "char \<Rightarrow> bool" where
  "is_lower c = (97 \<le> code_point c \<and> code_point c \<le> 122)"

definition is_upper :: "char \<Rightarrow> bool" where
  "is_upper c = (65 \<le> code_point c \<and> code_point c \<le> 90)"

definition is_alphanumeric :: "char \<Rightarrow> bool" where
  "is_alphanumeric c = (is_lower c \<or> is_upper c \<or> is_digit c)"

definition is_control :: "char \<Rightarrow> bool" where
  "is_control c = (code_point c < 32 \<or> code_point c = 127)"

definition lower_char :: "char \<Rightarrow> char" where
  "lower_char c = (if is_upper c then char_of (code_point c + 32) else c)"

definition upper_char :: "char \<Rightarrow> char" where
  "upper_char c = (if is_lower c then char_of (code_point c - 32) else c)"

lemma code_point_lt: "code_point c < 256"
  by (simp add: code_point_def)

lemma code_point_char_of: "n < 256 \<Longrightarrow> code_point (char_of n) = n"
  by (simp add: code_point_def)

lemma code_point_inject: "code_point c = code_point d \<longleftrightarrow> c = d"
  by (simp add: code_point_def)

lemma code_point_lower: "code_point (lower_char c) = (if is_upper c then code_point c + 32 else code_point c)"
  by (simp add: lower_char_def is_upper_def code_point_char_of)

lemma not_upper_lower_char: "\<not> is_upper (lower_char c)"
  by (auto simp: is_upper_def code_point_lower)

lemma lower_char_id: "\<not> is_upper c \<Longrightarrow> lower_char c = c"
  by (simp add: lower_char_def)

lemma lower_char_idem [simp]: "lower_char (lower_char c) = lower_char c"
  by (rule lower_char_id) (rule not_upper_lower_char)

lemma lower_char_upper: "lower_char (upper_char c) = lower_char c"
proof (cases "is_lower c")
  case True
  then have "code_point (upper_char c) = code_point c - 32"
    using code_point_lt [of c] by (simp add: upper_char_def code_point_char_of)
  then have "code_point (lower_char (upper_char c)) = code_point (lower_char c)"
    using True by (auto simp: code_point_lower is_upper_def is_lower_def)
  then show ?thesis by (simp add: code_point_inject)
qed (simp add: upper_char_def)

lemma upper_char_lower: "upper_char (lower_char c) = upper_char c"
proof (cases "is_upper c")
  case True
  then have 1: "code_point (lower_char c) = code_point c + 32"
    by (simp add: code_point_lower)
  then have "is_lower (lower_char c)" using True by (simp add: is_upper_def is_lower_def)
  then have "code_point (upper_char (lower_char c)) = code_point c"
    using 1 code_point_lt [of c] by (simp add: upper_char_def code_point_char_of)
  moreover have "upper_char c = c"
    using True by (simp add: upper_char_def is_lower_def is_upper_def)
  ultimately show ?thesis by (simp add: code_point_inject)
qed (simp add: lower_char_def)

lemma lower_eq_iff_upper_eq: "lower_char c = lower_char d \<longleftrightarrow> upper_char c = upper_char d"
  by (metis lower_char_upper upper_char_lower)

text \<open>A character that is no letter is its own lower-case form, and nothing else maps to it.\<close>

lemma is_lower_lower_char: "is_upper c \<Longrightarrow> is_lower (lower_char c)"
  by (simp add: is_lower_def is_upper_def code_point_lower)

lemma lower_char_eq_nonletter:
  assumes "\<not> is_lower d" "\<not> is_upper d"
  shows "lower_char c = d \<longleftrightarrow> c = d"
proof (cases "is_upper c")
  case True
  with assms show ?thesis using is_lower_lower_char [of c] by auto
qed (simp add: lower_char_id)

section \<open>Strings\<close>

definition to_lowercase :: "string \<Rightarrow> string" where
  "to_lowercase s = map lower_char s"

definition to_uppercase :: "string \<Rightarrow> string" where
  "to_uppercase s = map upper_char s"

fun starts_with :: "string \<Rightarrow> string \<Rightarrow> bool" where
  "starts_with [] s = True"
| "starts_with (x # p) [] = False"
| "starts_with (x # p) (y # s) = (x = y \<and> starts_with p s)"

definition ends_with :: "string \<Rightarrow> string \<Rightarrow> bool" where
  "ends_with p s = starts_with (rev p) (rev s)"

definition strip_prefix :: "string \<Rightarrow> string \<Rightarrow> string option" where
  "strip_prefix p s = (if starts_with p s then Some (drop (length p) s) else None)"

definition strip_suffix :: "string \<Rightarrow> string \<Rightarrow> string option" where
  "strip_suffix p s = (if ends_with p s then Some (take (length s - length p) s) else None)"

definition trim_start_by :: "(char \<Rightarrow> bool) \<Rightarrow> string \<Rightarrow> string" where
  "trim_start_by P s = dropWhile P s"

definition trim_end_by :: "(char \<Rightarrow> bool) \<Rightarrow> string \<Rightarrow> string" where
  "trim_end_by P s = rev (dropWhile P (rev s))"

definition trim_by :: "(char \<Rightarrow> bool) \<Rightarrow> string \<Rightarrow> string" where
  "trim_by P s = trim_end_by P (trim_start_by P s)"

definition trim :: "string \<Rightarrow> string" where
  "trim s = trim_by is_whitespace s"

fun contains_str :: "string \<Rightarrow> string \<Rightarrow> bool" where
  "contains_str p [] = (p = [])"
| "contains_str p (x # xs) = (starts_with p (x # xs) \<or> contains_str p xs)"

fun split_once :: "char \<Rightarrow> string \<Rightarrow> (string \<times> string) option" where
  "split_once c [] = None"
| "split_once c (x # xs) =
    (if x = c then Some ([], xs)
     else map_option (\<lambda>(a, b). (x # a, b)) (split_once c xs))"

fun split_once_str :: "string \<Rightarrow> string \<Rightarrow> (string \<times> string) option" where
  "split_once_str p [] = (if p = [] then Some ([], []) else None)"
| "split_once_str p (x # xs) =
    (if starts_with p (x # xs) then Some ([], drop (length p) (x # xs))
     else map_option (\<lambda>(a, b). (x # a, b)) (split_once_str p xs))"

definition cons_first :: "'a \<Rightarrow> 'a list list \<Rightarrow> 'a list list" where
  "cons_first x ys = (case ys of [] \<Rightarrow> [[x]] | y # zs \<Rightarrow> (x # y) # zs)"

fun split_on :: "char \<Rightarrow> string \<Rightarrow> string list" where
  "split_on c [] = [[]]"
| "split_on c (x # xs) = (if x = c then [] # split_on c xs else cons_first x (split_on c xs))"

fun splitn :: "nat \<Rightarrow> char \<Rightarrow> string \<Rightarrow> string list" where
  "splitn 0 c s = []"
| "splitn (Suc 0) c s = [s]"
| "splitn (Suc (Suc n)) c s =
    (case split_once c s of None \<Rightarrow> [s] | Some (a, b) \<Rightarrow> a # splitn (Suc n) c b)"

fun split_whitespace_acc :: "string \<Rightarrow> string \<Rightarrow> string list" where
  "split_whitespace_acc w [] = (if w = [] then [] else [rev w])"
| "split_whitespace_acc w (x # xs) =
    (if is_whitespace x
     then (if w = [] then [] else [rev w]) @ split_whitespace_acc [] xs
     else split_whitespace_acc (x # w) xs)"

definition split_whitespace :: "string \<Rightarrow> string list" where
  "split_whitespace s = split_whitespace_acc [] s"

definition strip_cr :: "string \<Rightarrow> string" where
  "strip_cr s = unwrap_or s (strip_suffix [CR] s)"

definition str_lines :: "string \<Rightarrow> string list" where
  "str_lines s = (let ps = split_on LF s
              in map strip_cr (butlast ps) @
                 (if last ps = [] then [] else [last ps]))"

fun join_with :: "string \<Rightarrow> string list \<Rightarrow> string" where
  "join_with sep [] = []"
| "join_with sep [x] = x"
| "join_with sep (x # y # ys) = x @ sep @ join_with sep (y # ys)"

section \<open>Facts on strings\<close>

lemma cons_first_simps [simp, str_simps]:
  "cons_first x [] = [[x]]"
  "cons_first x (y # zs) = (x # y) # zs"
  by (simp_all add: cons_first_def)

lemma cons_first_not_Nil [simp]: "cons_first x ys \<noteq> []"
  by (cases ys) simp_all

lemma to_lowercase_simps [simp, str_simps]:
  "to_lowercase [] = []"
  "to_lowercase (c # s) = lower_char c # to_lowercase s"
  "to_lowercase (s @ t) = to_lowercase s @ to_lowercase t"
  "length (to_lowercase s) = length s"
  by (simp_all add: to_lowercase_def)

lemma to_uppercase_simps [simp, str_simps]:
  "to_uppercase [] = []"
  "to_uppercase (c # s) = upper_char c # to_uppercase s"
  "to_uppercase (s @ t) = to_uppercase s @ to_uppercase t"
  "length (to_uppercase s) = length s"
  by (simp_all add: to_uppercase_def)

lemma to_lowercase_idem [simp]: "to_lowercase (to_lowercase s) = to_lowercase s"
  by (simp add: to_lowercase_def)

lemma to_lowercase_eq_iff_upper: "to_lowercase s = to_lowercase t \<longleftrightarrow> to_uppercase s = to_uppercase t"
  by (induction s t rule: list_induct2') (simp_all add: lower_eq_iff_upper_eq)

lemma starts_with_iff: "starts_with p s \<longleftrightarrow> (\<exists>r. s = p @ r)"
  by (induction p s rule: starts_with.induct) auto

lemma starts_with_append [simp]: "starts_with p (p @ s)"
  by (simp add: starts_with_iff)

lemma starts_with_lower: "starts_with p s \<Longrightarrow> starts_with (to_lowercase p) (to_lowercase s)"
  by (auto simp: starts_with_iff)

lemma strip_prefix_append [simp, str_simps]: "strip_prefix p (p @ s) = Some s"
  by (simp add: strip_prefix_def)

lemma strip_prefix_Some_iff: "strip_prefix p s = Some r \<longleftrightarrow> s = p @ r"
  by (auto simp: strip_prefix_def starts_with_iff)

lemma split_once_append [simp, str_simps]: "c \<notin> set a \<Longrightarrow> split_once c (a @ c # b) = Some (a, b)"
  by (induction a) auto

lemma split_once_Some_iff: "split_once c s = Some (a, b) \<longleftrightarrow> s = a @ c # b \<and> c \<notin> set a"
proof (induction s arbitrary: a)
  case (Cons x xs)
  then show ?case by (cases a) auto
qed simp

lemma split_once_None_iff: "split_once c s = None \<longleftrightarrow> c \<notin> set s"
  by (induction s) auto

lemma split_on_not_Nil [simp]: "split_on c s \<noteq> []"
  by (induction s) auto

lemma split_on_nosep [simp, str_simps]: "c \<notin> set s \<Longrightarrow> split_on c s = [s]"
  by (induction s) auto

lemma split_on_append [simp, str_simps]: "c \<notin> set a \<Longrightarrow> split_on c (a @ c # b) = a # split_on c b"
  by (induction a) auto

lemma join_split_on [simp]: "join_with [c] (split_on c s) = s"
proof (induction s)
  case (Cons x xs)
  then show ?case by (cases "split_on c xs"; cases "tl (split_on c xs)") auto
qed simp

lemma split_on_no_sep: "p \<in> set (split_on c s) \<Longrightarrow> c \<notin> set p"
proof (induction s arbitrary: p)
  case (Cons x xs)
  then show ?case by (cases "split_on c xs") (auto split: if_splits)
qed simp

lemma length_split_on: "length (split_on c s) = Suc (count_list s c)"
proof (induction s)
  case (Cons x xs)
  then show ?case by (cases "split_on c xs") auto
qed simp

lemma split_on_two_iff:
  "split_on c s = [a, b] \<longleftrightarrow> s = a @ c # b \<and> c \<notin> set a \<and> c \<notin> set b"
proof
  assume *: "split_on c s = [a, b]"
  then have "c \<notin> set a" "c \<notin> set b" using split_on_no_sep [of _ c s] by simp_all
  moreover have "s = a @ c # b" using join_split_on [of c s] unfolding * by simp
  ultimately show "s = a @ c # b \<and> c \<notin> set a \<and> c \<notin> set b" by blast
qed simp

lemma length_two_conv: "length xs = 2 \<longleftrightarrow> (\<exists>a b. xs = [a, b])"
  by (auto simp: length_Suc_conv numeral_2_eq_2)

lemma set_trim_start: "set (trim_start_by P s) \<subseteq> set s"
  by (auto simp: trim_start_by_def dest: set_dropWhileD)

lemma set_trim_end: "set (trim_end_by P s) \<subseteq> set s"
  by (auto simp: trim_end_by_def dest: set_dropWhileD)

lemma set_trim: "set (trim s) \<subseteq> set s"
  unfolding trim_def trim_by_def using set_trim_start set_trim_end by fastforce

lemma trim_end_by_append: "P c \<Longrightarrow> trim_end_by P (s @ [c]) = trim_end_by P s"
  by (simp add: trim_end_by_def)

lemma trim_end_by_stop: "\<not> P c \<Longrightarrow> trim_end_by P (s @ [c]) = s @ [c]"
  by (simp add: trim_end_by_def)

lemma nonletter_in_lowercase:
  "\<not> is_lower c \<Longrightarrow> \<not> is_upper c \<Longrightarrow> c \<in> set (to_lowercase s) \<longleftrightarrow> c \<in> set s"
  by (auto simp: to_lowercase_def lower_char_eq_nonletter image_iff)
    (metis lower_char_eq_nonletter)+

lemma sep_in_lowercase [simp]:
  "CHR ''@'' \<in> set (to_lowercase s) \<longleftrightarrow> CHR ''@'' \<in> set s"
  "CHR ''='' \<in> set (to_lowercase s) \<longleftrightarrow> CHR ''='' \<in> set s"
  "CHR ''+'' \<in> set (to_lowercase s) \<longleftrightarrow> CHR ''+'' \<in> set s"
  by (rule nonletter_in_lowercase; simp add: is_lower_def is_upper_def code_point_def)+

section \<open>Lines as read_line returns them\<close>

text \<open>\<open>read_line\<close> gives everything up to and including the next line feed, or what is left.\<close>

fun cut_lines :: "string \<Rightarrow> string list" where
  "cut_lines [] = []"
| "cut_lines (c # cs) =
    (if c = LF then [LF] # cut_lines cs
     else (case cut_lines cs of [] \<Rightarrow> [[c]] | l # ls \<Rightarrow> (c # l) # ls))"

fun line_list :: "string list \<Rightarrow> bool" where
  "line_list [] = True"
| "line_list [l] = (l \<noteq> [] \<and> LF \<notin> set (butlast l))"
| "line_list (l # l' # ls) = (l \<noteq> [] \<and> LF \<notin> set (butlast l) \<and> last l = LF \<and> line_list (l' # ls))"

lemma cut_lines_line: "LF \<notin> set l \<Longrightarrow> cut_lines (l @ LF # s) = (l @ [LF]) # cut_lines s"
  by (induction l) auto

lemma cut_lines_rest: "LF \<notin> set l \<Longrightarrow> l \<noteq> [] \<Longrightarrow> cut_lines l = [l]"
proof (induction l)
  case (Cons c l)
  then show ?case by (cases "l = []") auto
qed simp

lemma concat_cut_lines [simp]: "concat (cut_lines s) = s"
proof (induction s)
  case (Cons c cs)
  then show ?case by (cases "cut_lines cs") auto
qed simp

lemma line_list_Cons:
  "line_list (l # ls) \<longleftrightarrow> l \<noteq> [] \<and> LF \<notin> set (butlast l) \<and> (ls \<noteq> [] \<longrightarrow> last l = LF) \<and> line_list ls"
  by (cases ls) auto

lemma line_list_cut_lines: "line_list (cut_lines s)"
proof (induction s)
  case (Cons c cs)
  then show ?case by (cases "cut_lines cs") (auto simp: line_list_Cons)
qed simp

lemma cut_lines_concat: "line_list ls \<Longrightarrow> cut_lines (concat ls) = ls"
proof (induction ls)
  case (Cons l ls)
  then have l: "l \<noteq> []" "LF \<notin> set (butlast l)" "ls \<noteq> [] \<longrightarrow> last l = LF" "line_list ls"
    by (simp_all add: line_list_Cons)
  show ?case
  proof (cases "last l = LF")
    case True
    with l(1) have "l = butlast l @ [LF]" by (metis append_butlast_last_id)
    with cut_lines_line [OF l(2), of "concat ls"] Cons.IH [OF l(4)] show ?thesis
      by (metis append_Cons append_Nil append_assoc concat.simps(2))
  next
    case False
    have "set l = insert (last l) (set (butlast l))" using l(1) by (cases l rule: rev_cases) auto
    with False l have "ls = []" "LF \<notin> set l" by auto
    with cut_lines_rest [of l] l(1) show ?thesis by simp
  qed
qed simp

section \<open>Decimal numbers\<close>

definition digit_char :: "nat \<Rightarrow> char" where
  "digit_char n = char_of (48 + n)"

fun show_nat :: "nat \<Rightarrow> string" where
  "show_nat n = (if n < 10 then [digit_char n] else show_nat (n div 10) @ [digit_char (n mod 10)])"

declare show_nat.simps [simp del]

fun parse_digits :: "nat \<Rightarrow> string \<Rightarrow> nat option" where
  "parse_digits acc [] = Some acc"
| "parse_digits acc (c # cs) =
    (if is_digit c then parse_digits (acc * 10 + (code_point c - 48)) cs else None)"

definition parse_uint :: "nat \<Rightarrow> string \<Rightarrow> nat option" where
  "parse_uint bound s =
    (let ds = (case s of [] \<Rightarrow> [] | c # cs \<Rightarrow> if c = CHR ''+'' then cs else s)
     in if ds = [] then None
        else case parse_digits 0 ds of None \<Rightarrow> None
             | Some n \<Rightarrow> if n < bound then Some n else None)"

lemma code_point_digit [simp]: "n < 10 \<Longrightarrow> code_point (digit_char n) = 48 + n"
  by (simp add: digit_char_def code_point_char_of)

lemma is_digit_digit_char [simp]: "n < 10 \<Longrightarrow> is_digit (digit_char n)"
  by (simp add: is_digit_def)

lemma parse_digits_append:
  "parse_digits acc (s @ t) = Option.bind (parse_digits acc s) (\<lambda>n. parse_digits n t)"
  by (induction s arbitrary: acc) auto

lemma show_nat_digits: "c \<in> set (show_nat n) \<Longrightarrow> is_digit c"
proof (induction n rule: show_nat.induct)
  case (1 n)
  then show ?case by (subst (asm) (2) show_nat.simps) (auto split: if_splits)
qed

lemma show_nat_not_Nil [simp]: "show_nat n \<noteq> []"
  by (subst show_nat.simps) simp

lemma parse_show_digits [simp]: "parse_digits 0 (show_nat n) = Some n"
proof (induction n rule: show_nat.induct)
  case (1 n)
  then show ?case by (subst show_nat.simps) (simp add: parse_digits_append)
qed

lemma is_digit_not_sep:
  "is_digit c \<Longrightarrow> c \<noteq> CHR ''='' \<and> c \<noteq> CHR ''@'' \<and> c \<noteq> CHR ''+'' \<and> c \<noteq> CHR ''.'' \<and> c \<noteq> CHR '':'' \<and> c \<noteq> CHR ''/'' \<and> c \<noteq> CR \<and> c \<noteq> LF \<and> c \<noteq> CHR '' '' \<and> c \<noteq> CHR ''-''"
  by (auto simp: is_digit_def code_point_def)

lemma show_nat_no_sep:
  "CHR ''='' \<notin> set (show_nat n)" "CHR ''@'' \<notin> set (show_nat n)" "CHR ''+'' \<notin> set (show_nat n)"
  "CHR ''.'' \<notin> set (show_nat n)" "CHR ''/'' \<notin> set (show_nat n)" "CR \<notin> set (show_nat n)"
  "LF \<notin> set (show_nat n)" "CHR '' '' \<notin> set (show_nat n)"
  using show_nat_digits is_digit_not_sep by blast+

lemma parse_show_uint [simp]: "n < b \<Longrightarrow> parse_uint b (show_nat n) = Some n"
proof -
  assume "n < b"
  moreover obtain c cs where "show_nat n = c # cs" by (cases "show_nat n") auto
  moreover from this have "c \<noteq> CHR ''+''" using show_nat_no_sep(3) [of n] by auto
  ultimately show ?thesis using parse_show_digits [of n] by (simp add: parse_uint_def)
qed

lemma parse_uint_bound: "parse_uint b s = Some n \<Longrightarrow> n < b"
  by (auto simp: parse_uint_def Let_def split: if_splits option.splits)

lemma show_nat_inject: "show_nat m = show_nat n \<longleftrightarrow> m = n"
  by (metis parse_show_digits option.inject)

section \<open>Evaluation bundles\<close>

text \<open>The unfoldings that evaluate the string functions on literals; used in the witnesses.\<close>

lemmas char_eval = lower_char_def upper_char_def is_lower_def is_upper_def is_digit_def
  is_alphanumeric_def is_whitespace_def is_control_def code_point_def char_of_def bit_Suc_0_iff

lemmas trim_eval = trim_def trim_by_def trim_end_by_def trim_start_by_def

lemmas str_eval = char_eval trim_eval ends_with_def strip_prefix_def strip_suffix_def str_lines_def
  strip_cr_def split_whitespace_def

lemmas num_eval = show_nat.simps digit_char_def parse_uint_def char_eval

end
