(* ===== verification/Db_Schema.thy ===== *)
theory Db_Schema
  imports Rust_Prelude
begin

text \<open>
  The database: the tables of \<open>migrations/sqlite\<close> and \<open>migrations/postgres\<close> as lists of rows, the
  \<open>DbPool\<close> of \<open>src/src/db/mod.rs\<close>, the statements the code sends and what a failed statement does.

  A row type is a record with one field per column the code reads or writes; a UUID is its text, a
  time is a number of seconds.  A statement takes one entry of the fault schedule \<open>db_faults\<close> and
  fails with \<open>DbFault\<close>, changing nothing, when that entry is \<open>True\<close>; otherwise it can still be refused
  by a constraint.  \<open>ON DELETE CASCADE\<close> is written out table by table.  The two back ends run
  the same statements unless a definition tells them apart.
\<close>

type_synonym uuid = string
type_synonym time = int

section \<open>Rows\<close>

record user_row =
  us_id :: uuid
  us_email :: string
  us_password_hash :: string
  us_is_admin :: bool
  us_bypass_alias_limit :: bool
  us_disable_autoclean :: bool
  us_can_send_firsthand :: bool
  us_created_at :: time
  us_updated_at :: time
  us_last_login_at :: "time option"
  us_last_login_ip :: "string option"

record domain_row =
  dm_id :: uuid
  dm_name :: string
  dm_active :: bool
  dm_created_at :: time
  dm_dkim_private :: "string option"
  dm_dkim_public :: "string option"
  dm_dkim_selector :: string
  dm_pending_private :: "string option"
  dm_pending_public :: "string option"
  dm_pending_selector :: "string option"

record alias_row =
  al_id :: uuid
  al_user_id :: uuid
  al_domain_id :: uuid
  al_subdomain :: string
  al_destination :: string
  al_auto_forward :: bool
  al_active :: bool
  al_created_at :: time

record email_row =
  re_id :: uuid
  re_alias_id :: "uuid option"
  re_sender :: string
  re_subject :: string
  re_body_key :: uuid
  re_viewed :: bool
  re_forwarded :: bool
  re_received_at :: time
  re_last_activity :: time
  re_message_id :: "string option"
  re_thread_id :: "uuid option"
  re_has_attachments :: bool
  re_is_favorite :: bool

record reply_row =
  rp_id :: uuid
  rp_email_id :: uuid
  rp_body_text :: string
  rp_sent_at :: time
  rp_message_id :: "string option"
  rp_body_key :: "uuid option"

record sent_row =
  se_id :: uuid
  se_user_id :: uuid
  se_from_alias_id :: uuid
  se_to :: string
  se_cc :: "string option"
  se_bcc :: "string option"
  se_subject :: string
  se_body_key :: uuid
  se_status :: string
  se_error :: "string option"
  se_message_id :: "string option"
  se_created_at :: time
  se_updated_at :: time
  se_sent_at :: "time option"
  se_has_attachments :: bool
  se_is_favorite :: bool

record api_key_row =
  ak_id :: uuid
  ak_user_id :: uuid
  ak_key_hash :: string
  ak_name :: string
  ak_created_at :: time

record mapping_row =
  rm_id :: uuid
  rm_alias_id :: uuid
  rm_original_sender :: string
  rm_token :: string
  rm_created_at :: time

record queue_job =
  qj_id :: uuid
  qj_from_envelope :: string
  qj_to_recipient :: string
  qj_attempts :: int
  qj_max_attempts :: int
  qj_last_error :: "string option"
  qj_status :: string
  qj_next_retry_at :: time
  qj_created_at :: time

record attachment_row =
  at_id :: uuid
  at_email_id :: uuid
  at_filename :: "string option"
  at_content_type :: "string option"
  at_size_bytes :: int
  at_part_index :: nat
  at_is_inline :: bool
  at_content_id :: "string option"
  at_created_at :: time
  at_reply_id :: "uuid option"

record label_row =
  lb_id :: uuid
  lb_user_id :: uuid
  lb_name :: string
  lb_color :: string
  lb_created_at :: time

record filter_row =
  fl_id :: uuid
  fl_user_id :: uuid
  fl_keyword :: string
  fl_label_id :: uuid
  fl_created_at :: time

record email_label_row =
  el_email_id :: uuid
  el_label_id :: uuid
  el_created_at :: time

section \<open>The pool\<close>

datatype backend = Postgres | Sqlite

datatype sqlx_error = DbFault | UniqueViolation | ForeignKeyViolation | RowNotFound | ProtocolError

record db =
  backend :: backend
  t_users :: "user_row list"
  t_domains :: "domain_row list"
  t_aliases :: "alias_row list"
  t_emails :: "email_row list"
  t_replies :: "reply_row list"
  t_sent :: "sent_row list"
  t_api_keys :: "api_key_row list"
  t_mappings :: "mapping_row list"
  t_queue :: "queue_job list"
  t_attachments :: "attachment_row list"
  t_labels :: "label_row list"
  t_filters :: "filter_row list"
  t_email_labels :: "email_label_row list"
  db_faults :: "bool list"

definition empty_db :: "backend \<Rightarrow> db" where
  "empty_db b = \<lparr>backend = b, t_users = [], t_domains = [], t_aliases = [], t_emails = [], t_replies = [],
     t_sent = [], t_api_keys = [], t_mappings = [], t_queue = [], t_attachments = [], t_labels = [],
     t_filters = [], t_email_labels = [], db_faults = []\<rparr>"

type_synonym 'a dbm = "db \<Rightarrow> (sqlx_error + 'a) \<times> db"

definition db_return :: "'a \<Rightarrow> 'a dbm" where
  "db_return a = (\<lambda>d. (Ok a, d))"

definition db_fail :: "sqlx_error \<Rightarrow> 'a dbm" where
  "db_fail e = (\<lambda>d. (Err e, d))"

definition db_bind :: "'a dbm \<Rightarrow> ('a \<Rightarrow> 'b dbm) \<Rightarrow> 'b dbm" where
  "db_bind m f = (\<lambda>d. case m d of (Inl e, d') \<Rightarrow> (Inl e, d') | (Inr a, d') \<Rightarrow> f a d')"

text \<open>One statement: refused by the schedule, refused by a constraint, or carried out.\<close>

definition stmt :: "(db \<Rightarrow> sqlx_error + ('a \<times> db)) \<Rightarrow> 'a dbm" where
  "stmt f = (\<lambda>d.
     let fault = (case db_faults d of [] \<Rightarrow> False | b # _ \<Rightarrow> b);
         d' = d\<lparr>db_faults := tl (db_faults d)\<rparr>
     in if fault then (Err DbFault, d')
        else (case f d' of Inl e \<Rightarrow> (Inl e, d') | Inr (a, d'') \<Rightarrow> (Inr a, d'')))"

definition query :: "(db \<Rightarrow> 'a) \<Rightarrow> 'a dbm" where
  "query f = stmt (\<lambda>d. Inr (f d, d))"

definition query_one :: "(db \<Rightarrow> 'a list) \<Rightarrow> 'a dbm" where
  "query_one f = stmt (\<lambda>d. case f d of [] \<Rightarrow> Inl RowNotFound | a # _ \<Rightarrow> Inr (a, d))"

definition query_optional :: "(db \<Rightarrow> 'a list) \<Rightarrow> 'a option dbm" where
  "query_optional f = stmt (\<lambda>d. Inr (case f d of [] \<Rightarrow> None | a # _ \<Rightarrow> Some a, d))"

definition exec :: "(db \<Rightarrow> db) \<Rightarrow> unit dbm" where
  "exec g = stmt (\<lambda>d. Inr ((), g d))"

definition exec_count :: "(db \<Rightarrow> nat) \<Rightarrow> (db \<Rightarrow> db) \<Rightarrow> nat dbm" where
  "exec_count n g = stmt (\<lambda>d. Inr (n d, g d))"

text \<open>A transaction undoes the tables when a statement in it, or the commit, fails.\<close>

definition rollback_to :: "db \<Rightarrow> db \<Rightarrow> db" where
  "rollback_to d d' = d\<lparr>db_faults := db_faults d'\<rparr>"

definition transaction :: "'a dbm \<Rightarrow> 'a dbm" where
  "transaction m = (\<lambda>d.
     case exec (\<lambda>d. d) d of
       (Inl e, d1) \<Rightarrow> (Inl e, d1)
     | (Inr _, d1) \<Rightarrow> (case m d1 of
         (Inl e, d2) \<Rightarrow> (Inl e, rollback_to d1 d2)
       | (Inr a, d2) \<Rightarrow> (case exec (\<lambda>d. d) d2 of
           (Inl e, d3) \<Rightarrow> (Inl e, rollback_to d1 d3)
         | (Inr _, d3) \<Rightarrow> (Inr a, d3))))"

end
