(* ===== verification/Db_Tables.thy ===== *)
theory Db_Tables
  imports Db_Schema
begin

text \<open>
  What the statements do to the tables: rows looked up, inserted under the unique and foreign-key
  constraints of the migrations, updated in place and deleted with their cascades; and the
  well-formedness of the database, which every statement keeps.
\<close>

section \<open>Tables\<close>

definition has :: "('r \<Rightarrow> 'k) \<Rightarrow> 'r list \<Rightarrow> 'k \<Rightarrow> bool" where
  "has key rows k = list_ex (\<lambda>r. key r = k) rows"

definition uniq :: "('r \<Rightarrow> 'k) \<Rightarrow> 'r list \<Rightarrow> bool" where
  "uniq key rows = distinct (map key rows)"

definition refs :: "('r \<Rightarrow> 'k) \<Rightarrow> 'r list \<Rightarrow> ('p \<Rightarrow> 'k) \<Rightarrow> 'p list \<Rightarrow> bool" where
  "refs f rows key parents = list_all (\<lambda>r. has key parents (f r)) rows"

definition refs_opt :: "('r \<Rightarrow> 'k option) \<Rightarrow> 'r list \<Rightarrow> ('p \<Rightarrow> 'k) \<Rightarrow> 'p list \<Rightarrow> bool" where
  "refs_opt f rows key parents =
     list_all (\<lambda>r. case f r of None \<Rightarrow> True | Some k \<Rightarrow> has key parents k) rows"

definition update_rows :: "('r \<Rightarrow> bool) \<Rightarrow> ('r \<Rightarrow> 'r) \<Rightarrow> 'r list \<Rightarrow> 'r list" where
  "update_rows p f rows = map (\<lambda>r. if p r then f r else r) rows"

definition find_row :: "('r \<Rightarrow> 'k) \<Rightarrow> 'k \<Rightarrow> 'r list \<Rightarrow> 'r option" where
  "find_row key k rows = find (\<lambda>r. key r = k) rows"

lemma has_simps [simp]:
  "has key [] k = False"
  "has key (r # rows) k \<longleftrightarrow> key r = k \<or> has key rows k"
  "has key (rows @ rows') k \<longleftrightarrow> has key rows k \<or> has key rows' k"
  by (simp_all add: has_def)

lemma has_iff: "has key rows k \<longleftrightarrow> (\<exists>r \<in> set rows. key r = k)"
  by (simp add: has_def list_ex_iff)

lemma uniq_append1 [simp]: "uniq key (rows @ [r]) \<longleftrightarrow> uniq key rows \<and> \<not> has key rows (key r)"
  by (auto simp: uniq_def has_iff intro: rev_image_eqI)

lemma uniq_Nil [simp]: "uniq key []"
  by (simp add: uniq_def)

lemma uniq_filter [simp]: "uniq key rows \<Longrightarrow> uniq key (filter p rows)"
  by (simp add: uniq_def distinct_map_filter)

lemma map_update_rows: "(\<And>r. key (f r) = key r) \<Longrightarrow> map key (update_rows p f rows) = map key rows"
  by (simp add: update_rows_def)

lemma uniq_update [simp]: "(\<And>r. key (f r) = key r) \<Longrightarrow> uniq key (update_rows p f rows) = uniq key rows"
  by (simp add: uniq_def map_update_rows)

lemma has_update [simp]: "(\<And>r. key (f r) = key r) \<Longrightarrow> has key (update_rows p f rows) k = has key rows k"
  unfolding has_iff update_rows_def by (auto split: if_splits)

lemma has_filter: "has key (filter p rows) k \<longleftrightarrow> (\<exists>r \<in> set rows. p r \<and> key r = k)"
  by (auto simp: has_iff)

lemma refs_simps [simp]:
  "refs f [] key ps"
  "refs f (rows @ [r]) key ps \<longleftrightarrow> refs f rows key ps \<and> has key ps (f r)"
  by (simp_all add: refs_def)

lemma refs_opt_simps [simp]:
  "refs_opt f [] key ps"
  "refs_opt f (rows @ [r]) key ps \<longleftrightarrow>
     refs_opt f rows key ps \<and> (case f r of None \<Rightarrow> True | Some k \<Rightarrow> has key ps k)"
  by (simp_all add: refs_opt_def)

lemma refs_iff: "refs f rows key ps \<longleftrightarrow> (\<forall>r \<in> set rows. has key ps (f r))"
  by (simp add: refs_def list_all_iff)

lemma refs_opt_iff: "refs_opt f rows key ps \<longleftrightarrow> (\<forall>r \<in> set rows. \<forall>k. f r = Some k \<longrightarrow> has key ps k)"
  by (auto simp: refs_opt_def list_all_iff split: option.splits)

lemma refs_more: "refs f rows key ps \<Longrightarrow> refs f rows key (ps @ qs)"
  by (simp add: refs_iff)

lemma refs_opt_more: "refs_opt f rows key ps \<Longrightarrow> refs_opt f rows key (ps @ qs)"
  by (auto simp: refs_opt_iff)

lemma refs_filter_child [simp]: "refs f rows key ps \<Longrightarrow> refs f (filter p rows) key ps"
  by (auto simp: refs_iff)

lemma refs_opt_filter_child [simp]: "refs_opt f rows key ps \<Longrightarrow> refs_opt f (filter p rows) key ps"
  by (auto simp: refs_opt_iff)

lemma refs_update_parent [simp]:
  "(\<And>r. key (g r) = key r) \<Longrightarrow> refs f rows key (update_rows p g ps) = refs f rows key ps"
  by (simp add: refs_iff)

lemma refs_opt_update_parent [simp]:
  "(\<And>r. key (g r) = key r) \<Longrightarrow> refs_opt f rows key (update_rows p g ps) = refs_opt f rows key ps"
  by (simp add: refs_opt_iff)

lemma refs_update_child [simp]:
  "(\<And>r. f (g r) = f r) \<Longrightarrow> refs f (update_rows p g rows) key ps = refs f rows key ps"
  by (induction rows) (simp_all add: refs_def update_rows_def)

lemma refs_opt_update_child [simp]:
  "(\<And>r. f (g r) = f r) \<Longrightarrow> refs_opt f (update_rows p g rows) key ps = refs_opt f rows key ps"
  by (induction rows) (simp_all add: refs_opt_def update_rows_def)

text \<open>Removing parents by key keeps the references of the children that do not name a removed key.\<close>

lemma refs_filter_parent:
  "refs f rows key ps \<Longrightarrow> \<forall>r \<in> set rows. \<not> bad (f r) \<Longrightarrow> refs f rows key (filter (\<lambda>p. \<not> bad (key p)) ps)"
  by (auto simp: refs_iff has_iff) metis

lemma refs_opt_filter_parent:
  "refs_opt f rows key ps \<Longrightarrow> \<forall>r \<in> set rows. \<forall>k. f r = Some k \<longrightarrow> \<not> bad k \<Longrightarrow>
   refs_opt f rows key (filter (\<lambda>p. \<not> bad (key p)) ps)"
  by (auto simp: refs_opt_iff has_iff) metis

section \<open>A table as a store\<close>

text \<open>What the code relies on of a table with a primary key: reading gives what was written, and the
  lookup by key after an insert, an update or a delete.\<close>

locale keyed_table =
  fixes rows :: "'d \<Rightarrow> 'r list"
    and modify :: "('r list \<Rightarrow> 'r list) \<Rightarrow> 'd \<Rightarrow> 'd"
    and key :: "'r \<Rightarrow> 'k"
  assumes rows_modify: "rows (modify f d) = f (rows d)"
    and modify_modify: "modify g (modify f d) = modify (\<lambda>rs. g (f rs)) d"
    and modify_id: "modify (\<lambda>rs. rs) d = d"
begin

lemma lookup_insert:
  "\<not> has key (rows d) (key r) \<Longrightarrow> find_row key (key r) (rows (modify (\<lambda>rs. rs @ [r]) d)) = Some r"
  by (auto simp: rows_modify find_row_def has_iff find_None_iff find_Some_iff nth_append)

lemma lookup_insert_other:
  "key r \<noteq> k \<Longrightarrow> find_row key k (rows (modify (\<lambda>rs. rs @ [r]) d)) = find_row key k (rows d)"
proof -
  assume "key r \<noteq> k"
  then have "find_row key k (rs @ [r]) = find_row key k rs" for rs
    by (induction rs) (simp_all add: find_row_def)
  then show ?thesis by (simp add: rows_modify)
qed

lemma lookup_update:
  assumes "\<And>r. key (f r) = key r"
  shows "find_row key k (rows (modify (update_rows p f) d)) =
     map_option (\<lambda>r. if p r then f r else r) (find_row key k (rows d))"
proof -
  have "find_row key k (update_rows p f rs) = map_option (\<lambda>r. if p r then f r else r) (find_row key k rs)" for rs
    by (induction rs) (simp_all add: find_row_def update_rows_def assms)
  then show ?thesis by (simp add: rows_modify)
qed

lemma lookup_delete: "find_row key k (rows (modify (filter (\<lambda>r. key r \<noteq> k)) d)) = None"
  by (simp add: rows_modify find_row_def find_None_iff)

lemma lookup_unique:
  "uniq key (rows d) \<Longrightarrow> r \<in> set (rows d) \<Longrightarrow> find_row key (key r) (rows d) = Some r"
proof -
  have "uniq key rs \<Longrightarrow> r \<in> set rs \<Longrightarrow> find_row key (key r) rs = Some r" for rs
    by (induction rs) (auto simp: find_row_def uniq_def)
  then show "uniq key (rows d) \<Longrightarrow> r \<in> set (rows d) \<Longrightarrow> ?thesis" by blast
qed

end

interpretation users: keyed_table t_users t_users_update us_id by unfold_locales simp_all
interpretation domains: keyed_table t_domains t_domains_update dm_id by unfold_locales simp_all
interpretation aliases: keyed_table t_aliases t_aliases_update al_id by unfold_locales simp_all
interpretation emails: keyed_table t_emails t_emails_update re_id by unfold_locales simp_all
interpretation sent: keyed_table t_sent t_sent_update se_id by unfold_locales simp_all
interpretation labels: keyed_table t_labels t_labels_update lb_id by unfold_locales simp_all
interpretation mappings: keyed_table t_mappings t_mappings_update rm_token by unfold_locales simp_all
interpretation queue: keyed_table t_queue t_queue_update qj_id by unfold_locales simp_all

end
