(* ===== verification/Db_Integrity.thy ===== *)
theory Db_Integrity
  imports Db_Tables
begin

text \<open>
  The constraints of the migrations: rows are inserted under their unique and foreign keys, deletes
  cascade, and \<open>db_wf\<close> says that all of them hold.  \<open>keeps\<close> is the rule by which the operations of the
  component theories are shown to keep it: statement by statement, whatever the fault schedule.
\<close>

section \<open>Inserts under constraints\<close>

text \<open>The first constraint a row violates; \<open>DO NOTHING\<close> and \<open>DO UPDATE\<close> are written at the statement.\<close>

fun violation :: "(bool \<times> sqlx_error) list \<Rightarrow> sqlx_error option" where
  "violation [] = None"
| "violation ((bad, e) # cs) = (if bad then Some e else violation cs)"

definition insert_stmt :: "(db \<Rightarrow> (bool \<times> sqlx_error) list) \<Rightarrow> (db \<Rightarrow> db) \<Rightarrow> (db \<Rightarrow> 'a) \<Rightarrow> 'a dbm" where
  "insert_stmt constraints change result = stmt (\<lambda>d. case violation (constraints d) of
     Some e \<Rightarrow> Inl e
   | None \<Rightarrow> Inr (result d, change d))"

definition user_constraints :: "user_row \<Rightarrow> db \<Rightarrow> (bool \<times> sqlx_error) list" where
  "user_constraints r d =
     [(has us_id (t_users d) (us_id r), UniqueViolation),
      (has us_email (t_users d) (us_email r), UniqueViolation)]"

definition domain_constraints :: "domain_row \<Rightarrow> db \<Rightarrow> (bool \<times> sqlx_error) list" where
  "domain_constraints r d =
     [(has dm_id (t_domains d) (dm_id r), UniqueViolation),
      (has dm_name (t_domains d) (dm_name r), UniqueViolation)]"

definition alias_constraints :: "alias_row \<Rightarrow> db \<Rightarrow> (bool \<times> sqlx_error) list" where
  "alias_constraints r d =
     [(has al_id (t_aliases d) (al_id r), UniqueViolation),
      (has (\<lambda>a. (al_subdomain a, al_domain_id a)) (t_aliases d) (al_subdomain r, al_domain_id r), UniqueViolation),
      (\<not> has us_id (t_users d) (al_user_id r), ForeignKeyViolation),
      (\<not> has dm_id (t_domains d) (al_domain_id r), ForeignKeyViolation)]"

definition email_constraints :: "email_row \<Rightarrow> db \<Rightarrow> (bool \<times> sqlx_error) list" where
  "email_constraints r d =
     [(has re_id (t_emails d) (re_id r), UniqueViolation),
      (case re_alias_id r of None \<Rightarrow> False | Some a \<Rightarrow> \<not> has al_id (t_aliases d) a, ForeignKeyViolation),
      (case re_thread_id r of None \<Rightarrow> False
       | Some t \<Rightarrow> t \<noteq> re_id r \<and> \<not> has re_id (t_emails d) t, ForeignKeyViolation)]"

definition reply_constraints :: "reply_row \<Rightarrow> db \<Rightarrow> (bool \<times> sqlx_error) list" where
  "reply_constraints r d =
     [(has rp_id (t_replies d) (rp_id r), UniqueViolation),
      (\<not> has re_id (t_emails d) (rp_email_id r), ForeignKeyViolation)]"

definition sent_constraints :: "sent_row \<Rightarrow> db \<Rightarrow> (bool \<times> sqlx_error) list" where
  "sent_constraints r d =
     [(has se_id (t_sent d) (se_id r), UniqueViolation),
      (case se_message_id r of None \<Rightarrow> False | Some m \<Rightarrow> has se_message_id (t_sent d) (Some m), UniqueViolation),
      (\<not> has us_id (t_users d) (se_user_id r), ForeignKeyViolation),
      (\<not> has al_id (t_aliases d) (se_from_alias_id r), ForeignKeyViolation)]"

definition api_key_constraints :: "api_key_row \<Rightarrow> db \<Rightarrow> (bool \<times> sqlx_error) list" where
  "api_key_constraints r d =
     [(has ak_id (t_api_keys d) (ak_id r), UniqueViolation),
      (has ak_key_hash (t_api_keys d) (ak_key_hash r), UniqueViolation),
      (\<not> has us_id (t_users d) (ak_user_id r), ForeignKeyViolation)]"

definition mapping_constraints :: "mapping_row \<Rightarrow> db \<Rightarrow> (bool \<times> sqlx_error) list" where
  "mapping_constraints r d =
     [(has rm_id (t_mappings d) (rm_id r), UniqueViolation),
      (has rm_token (t_mappings d) (rm_token r), UniqueViolation),
      (has (\<lambda>m. (rm_alias_id m, rm_original_sender m)) (t_mappings d) (rm_alias_id r, rm_original_sender r), UniqueViolation),
      (\<not> has al_id (t_aliases d) (rm_alias_id r), ForeignKeyViolation)]"

definition queue_constraints :: "queue_job \<Rightarrow> db \<Rightarrow> (bool \<times> sqlx_error) list" where
  "queue_constraints r d = [(has qj_id (t_queue d) (qj_id r), UniqueViolation)]"

definition attachment_constraints :: "attachment_row \<Rightarrow> db \<Rightarrow> (bool \<times> sqlx_error) list" where
  "attachment_constraints r d =
     [(has at_id (t_attachments d) (at_id r), UniqueViolation),
      (case at_reply_id r of None \<Rightarrow> False | Some p \<Rightarrow> \<not> has rp_id (t_replies d) p, ForeignKeyViolation)]"

definition label_constraints :: "label_row \<Rightarrow> db \<Rightarrow> (bool \<times> sqlx_error) list" where
  "label_constraints r d =
     [(has lb_id (t_labels d) (lb_id r), UniqueViolation),
      (has (\<lambda>l. (lb_user_id l, lb_name l)) (t_labels d) (lb_user_id r, lb_name r), UniqueViolation),
      (\<not> has us_id (t_users d) (lb_user_id r), ForeignKeyViolation)]"

definition filter_constraints :: "filter_row \<Rightarrow> db \<Rightarrow> (bool \<times> sqlx_error) list" where
  "filter_constraints r d =
     [(has fl_id (t_filters d) (fl_id r), UniqueViolation),
      (\<not> has us_id (t_users d) (fl_user_id r), ForeignKeyViolation),
      (\<not> has lb_id (t_labels d) (fl_label_id r), ForeignKeyViolation)]"

text \<open>The primary key of \<open>email_labels\<close> is the pair, and the inserts say \<open>ON CONFLICT DO NOTHING\<close>.\<close>

definition email_label_constraints :: "email_label_row \<Rightarrow> db \<Rightarrow> (bool \<times> sqlx_error) list" where
  "email_label_constraints r d =
     [(\<not> has re_id (t_emails d) (el_email_id r), ForeignKeyViolation),
      (\<not> has lb_id (t_labels d) (el_label_id r), ForeignKeyViolation)]"

definition labelled :: "db \<Rightarrow> uuid \<Rightarrow> uuid \<Rightarrow> bool" where
  "labelled d email label = has (\<lambda>e. (el_email_id e, el_label_id e)) (t_email_labels d) (email, label)"

definition add_email_label :: "email_label_row \<Rightarrow> db \<Rightarrow> db" where
  "add_email_label r d =
     (if labelled d (el_email_id r) (el_label_id r) then d
      else d\<lparr>t_email_labels := t_email_labels d @ [r]\<rparr>)"

section \<open>Deletes with their cascades\<close>

text \<open>\<open>received_emails.thread_id\<close> refers to the same table: deleting a mail deletes the mails below it,
  and so on.  Each round adds the children of what is already listed; as every round but the last
  adds a row, as many rounds as there are rows reach all of them.\<close>

primrec closure_rounds :: "nat \<Rightarrow> email_row list \<Rightarrow> uuid list \<Rightarrow> uuid list" where
  "closure_rounds 0 rows ids = ids"
| "closure_rounds (Suc n) rows ids =
     closure_rounds n rows (ids @ map re_id (filter
       (\<lambda>r. (case re_thread_id r of None \<Rightarrow> False | Some t \<Rightarrow> t \<in> set ids) \<and> re_id r \<notin> set ids) rows))"

definition thread_closure :: "email_row list \<Rightarrow> uuid list \<Rightarrow> uuid list" where
  "thread_closure rows ids = closure_rounds (length rows) rows ids"

definition opt_in :: "uuid option \<Rightarrow> uuid list \<Rightarrow> bool" where
  "opt_in x ids = (case x of None \<Rightarrow> False | Some i \<Rightarrow> i \<in> set ids)"

definition purge_replies :: "uuid list \<Rightarrow> db \<Rightarrow> db" where
  "purge_replies rids d =
     d\<lparr>t_replies := filter (\<lambda>r. rp_id r \<notin> set rids) (t_replies d),
       t_attachments := filter (\<lambda>a. \<not> opt_in (at_reply_id a) rids) (t_attachments d)\<rparr>"

definition purge_emails :: "uuid list \<Rightarrow> db \<Rightarrow> db" where
  "purge_emails roots d =
     (let ids = thread_closure (t_emails d) roots;
          d' = purge_replies (map rp_id (filter (\<lambda>r. rp_email_id r \<in> set ids) (t_replies d))) d
      in d'\<lparr>t_emails := filter (\<lambda>r. re_id r \<notin> set ids) (t_emails d'),
            t_email_labels := filter (\<lambda>e. el_email_id e \<notin> set ids) (t_email_labels d')\<rparr>)"

definition purge_labels :: "uuid list \<Rightarrow> db \<Rightarrow> db" where
  "purge_labels ids d =
     d\<lparr>t_labels := filter (\<lambda>l. lb_id l \<notin> set ids) (t_labels d),
       t_filters := filter (\<lambda>f. fl_label_id f \<notin> set ids) (t_filters d),
       t_email_labels := filter (\<lambda>e. el_label_id e \<notin> set ids) (t_email_labels d)\<rparr>"

definition purge_aliases :: "uuid list \<Rightarrow> db \<Rightarrow> db" where
  "purge_aliases ids d =
     (let d' = purge_emails (map re_id (filter (\<lambda>r. opt_in (re_alias_id r) ids) (t_emails d))) d
      in d'\<lparr>t_aliases := filter (\<lambda>a. al_id a \<notin> set ids) (t_aliases d'),
            t_sent := filter (\<lambda>s. se_from_alias_id s \<notin> set ids) (t_sent d'),
            t_mappings := filter (\<lambda>m. rm_alias_id m \<notin> set ids) (t_mappings d')\<rparr>)"

definition purge_domains :: "uuid list \<Rightarrow> db \<Rightarrow> db" where
  "purge_domains ids d =
     (let d' = purge_aliases (map al_id (filter (\<lambda>a. al_domain_id a \<in> set ids) (t_aliases d))) d
      in d'\<lparr>t_domains := filter (\<lambda>r. dm_id r \<notin> set ids) (t_domains d')\<rparr>)"

section \<open>Well-formedness\<close>

definition keys_wf :: "db \<Rightarrow> bool" where
  "keys_wf d =
     (uniq us_id (t_users d) \<and> uniq us_email (t_users d) \<and>
      uniq dm_id (t_domains d) \<and> uniq dm_name (t_domains d) \<and>
      uniq al_id (t_aliases d) \<and> uniq (\<lambda>a. (al_subdomain a, al_domain_id a)) (t_aliases d) \<and>
      uniq re_id (t_emails d) \<and> uniq rp_id (t_replies d) \<and> uniq se_id (t_sent d) \<and>
      distinct (filter (\<lambda>m. m \<noteq> None) (map se_message_id (t_sent d))) \<and>
      uniq ak_id (t_api_keys d) \<and> uniq ak_key_hash (t_api_keys d) \<and>
      uniq rm_id (t_mappings d) \<and> uniq rm_token (t_mappings d) \<and>
      uniq (\<lambda>m. (rm_alias_id m, rm_original_sender m)) (t_mappings d) \<and>
      uniq qj_id (t_queue d) \<and> uniq at_id (t_attachments d) \<and>
      uniq lb_id (t_labels d) \<and> uniq (\<lambda>l. (lb_user_id l, lb_name l)) (t_labels d) \<and>
      uniq fl_id (t_filters d) \<and>
      uniq (\<lambda>e. (el_email_id e, el_label_id e)) (t_email_labels d))"

definition refs_wf :: "db \<Rightarrow> bool" where
  "refs_wf d =
     (refs al_user_id (t_aliases d) us_id (t_users d) \<and>
      refs al_domain_id (t_aliases d) dm_id (t_domains d) \<and>
      refs_opt re_alias_id (t_emails d) al_id (t_aliases d) \<and>
      refs_opt re_thread_id (t_emails d) re_id (t_emails d) \<and>
      refs rp_email_id (t_replies d) re_id (t_emails d) \<and>
      refs se_user_id (t_sent d) us_id (t_users d) \<and>
      refs se_from_alias_id (t_sent d) al_id (t_aliases d) \<and>
      refs ak_user_id (t_api_keys d) us_id (t_users d) \<and>
      refs rm_alias_id (t_mappings d) al_id (t_aliases d) \<and>
      refs_opt at_reply_id (t_attachments d) rp_id (t_replies d) \<and>
      refs lb_user_id (t_labels d) us_id (t_users d) \<and>
      refs fl_user_id (t_filters d) us_id (t_users d) \<and>
      refs fl_label_id (t_filters d) lb_id (t_labels d) \<and>
      refs el_email_id (t_email_labels d) re_id (t_emails d) \<and>
      refs el_label_id (t_email_labels d) lb_id (t_labels d))"

definition db_wf :: "db \<Rightarrow> bool" where
  "db_wf d = (keys_wf d \<and> refs_wf d)"

lemma db_wf_empty: "db_wf (empty_db b)"
  by (simp add: db_wf_def keys_wf_def refs_wf_def empty_db_def)

lemma db_wf_faults [simp]: "db_wf (d\<lparr>db_faults := fs\<rparr>) = db_wf d"
  by (simp add: db_wf_def keys_wf_def refs_wf_def)

section \<open>The constraints keep the database well-formed\<close>

lemmas wf_defs = db_wf_def keys_wf_def refs_wf_def

lemma wf_insert_user:
  "db_wf d \<Longrightarrow> violation (user_constraints r d) = None \<Longrightarrow> db_wf (d\<lparr>t_users := t_users d @ [r]\<rparr>)"
  by (simp add: wf_defs user_constraints_def refs_more refs_opt_more split: if_splits)

lemma wf_insert_domain:
  "db_wf d \<Longrightarrow> violation (domain_constraints r d) = None \<Longrightarrow> db_wf (d\<lparr>t_domains := t_domains d @ [r]\<rparr>)"
  by (simp add: wf_defs domain_constraints_def refs_more refs_opt_more split: if_splits)

lemma wf_insert_alias:
  "db_wf d \<Longrightarrow> violation (alias_constraints r d) = None \<Longrightarrow> db_wf (d\<lparr>t_aliases := t_aliases d @ [r]\<rparr>)"
  by (simp add: wf_defs alias_constraints_def refs_more refs_opt_more split: if_splits)

lemma wf_insert_email:
  "db_wf d \<Longrightarrow> violation (email_constraints r d) = None \<Longrightarrow> db_wf (d\<lparr>t_emails := t_emails d @ [r]\<rparr>)"
  by (simp add: wf_defs email_constraints_def refs_more refs_opt_more split: if_splits option.splits) auto

lemma wf_insert_reply:
  "db_wf d \<Longrightarrow> violation (reply_constraints r d) = None \<Longrightarrow> db_wf (d\<lparr>t_replies := t_replies d @ [r]\<rparr>)"
  by (simp add: wf_defs reply_constraints_def refs_more refs_opt_more split: if_splits)

lemma wf_insert_sent:
  "db_wf d \<Longrightarrow> violation (sent_constraints r d) = None \<Longrightarrow> db_wf (d\<lparr>t_sent := t_sent d @ [r]\<rparr>)"
  by (auto simp: wf_defs sent_constraints_def refs_more refs_opt_more has_iff split: if_splits option.splits)

lemma wf_insert_api_key:
  "db_wf d \<Longrightarrow> violation (api_key_constraints r d) = None \<Longrightarrow> db_wf (d\<lparr>t_api_keys := t_api_keys d @ [r]\<rparr>)"
  by (simp add: wf_defs api_key_constraints_def refs_more refs_opt_more split: if_splits)

lemma wf_insert_mapping:
  "db_wf d \<Longrightarrow> violation (mapping_constraints r d) = None \<Longrightarrow> db_wf (d\<lparr>t_mappings := t_mappings d @ [r]\<rparr>)"
  by (simp add: wf_defs mapping_constraints_def refs_more refs_opt_more split: if_splits)

lemma wf_insert_queue:
  "db_wf d \<Longrightarrow> violation (queue_constraints r d) = None \<Longrightarrow> db_wf (d\<lparr>t_queue := t_queue d @ [r]\<rparr>)"
  by (simp add: wf_defs queue_constraints_def split: if_splits)

lemma wf_insert_attachment:
  "db_wf d \<Longrightarrow> violation (attachment_constraints r d) = None \<Longrightarrow>
   db_wf (d\<lparr>t_attachments := t_attachments d @ [r]\<rparr>)"
  by (simp add: wf_defs attachment_constraints_def refs_more refs_opt_more split: if_splits option.splits)

lemma wf_insert_label:
  "db_wf d \<Longrightarrow> violation (label_constraints r d) = None \<Longrightarrow> db_wf (d\<lparr>t_labels := t_labels d @ [r]\<rparr>)"
  by (simp add: wf_defs label_constraints_def refs_more refs_opt_more split: if_splits)

lemma wf_insert_filter:
  "db_wf d \<Longrightarrow> violation (filter_constraints r d) = None \<Longrightarrow> db_wf (d\<lparr>t_filters := t_filters d @ [r]\<rparr>)"
  by (simp add: wf_defs filter_constraints_def refs_more refs_opt_more split: if_splits)

lemma wf_insert_email_label:
  "db_wf d \<Longrightarrow> violation (email_label_constraints r d) = None \<Longrightarrow> db_wf (add_email_label r d)"
  by (simp add: wf_defs email_label_constraints_def add_email_label_def labelled_def refs_more refs_opt_more
      split: if_splits)

lemmas wf_inserts = wf_insert_user wf_insert_domain wf_insert_alias wf_insert_email wf_insert_reply
  wf_insert_sent wf_insert_api_key wf_insert_mapping wf_insert_queue wf_insert_attachment
  wf_insert_label wf_insert_filter wf_insert_email_label

text \<open>The cascade over \<open>thread_id\<close> is closed: no surviving mail refers to a deleted one.\<close>

definition closed_under_threads :: "email_row list \<Rightarrow> uuid list \<Rightarrow> bool" where
  "closed_under_threads rows ids = list_all (\<lambda>r. opt_in (re_thread_id r) ids \<longrightarrow> re_id r \<in> set ids) rows"

definition missing :: "email_row list \<Rightarrow> uuid list \<Rightarrow> nat" where
  "missing rows ids = length (filter (\<lambda>r. re_id r \<notin> set ids) rows)"

lemma closure_fix:
  "closed_under_threads rows ids \<Longrightarrow> closure_rounds n rows ids = ids"
proof (induction n)
  case (Suc n)
  then have "filter (\<lambda>r. (case re_thread_id r of None \<Rightarrow> False | Some t \<Rightarrow> t \<in> set ids) \<and> re_id r \<notin> set ids) rows = []"
    by (auto simp: closed_under_threads_def list_all_iff opt_in_def filter_empty_conv split: option.splits)
  with Suc show ?case by simp
qed simp

lemma filter_length_less:
  "(\<And>x. x \<in> set xs \<Longrightarrow> q x \<Longrightarrow> p x) \<Longrightarrow> x \<in> set xs \<Longrightarrow> p x \<Longrightarrow> \<not> q x \<Longrightarrow>
   length (filter q xs) < length (filter p xs)"
proof -
  assume a: "\<And>x. x \<in> set xs \<Longrightarrow> q x \<Longrightarrow> p x" "x \<in> set xs" "p x" "\<not> q x"
  have "filter q xs = filter q (filter p xs)" using a(1) by (induction xs) auto
  moreover have "x \<in> set (filter p xs)" using a by simp
  ultimately show ?thesis using a(4) by (metis length_filter_less)
qed

lemma closure_closed: "missing rows ids \<le> n \<Longrightarrow> closed_under_threads rows (closure_rounds n rows ids)"
proof (induction n arbitrary: ids)
  case 0
  then show ?case by (auto simp: missing_def closed_under_threads_def list_all_iff filter_empty_conv)
next
  case (Suc n)
  show ?case
  proof (cases "closed_under_threads rows ids")
    case True
    then show ?thesis by (simp only: closure_fix)
  next
    case False
    then obtain r where r: "r \<in> set rows" "opt_in (re_thread_id r) ids" "re_id r \<notin> set ids"
      by (auto simp: closed_under_threads_def list_all_iff)
    let ?new = "map re_id (filter (\<lambda>r. (case re_thread_id r of None \<Rightarrow> False | Some t \<Rightarrow> t \<in> set ids) \<and> re_id r \<notin> set ids) rows)"
    have "re_id r \<in> set (ids @ ?new)" using r by (auto simp: opt_in_def split: option.splits)
    then have "missing rows (ids @ ?new) < missing rows ids"
      unfolding missing_def using r by (intro filter_length_less [where x = r]) auto
    then show ?thesis using Suc by simp
  qed
qed

lemma thread_closure_closed: "closed_under_threads rows (thread_closure rows ids)"
  unfolding thread_closure_def by (rule closure_closed) (simp add: missing_def)

lemma closure_extends: "i \<in> set ids \<Longrightarrow> i \<in> set (closure_rounds n rows ids)"
  by (induction n arbitrary: ids) simp_all

lemma thread_closure_extends: "i \<in> set ids \<Longrightarrow> i \<in> set (thread_closure rows ids)"
  unfolding thread_closure_def by (rule closure_extends)

lemma filter_refs_parent [intro]:
  "refs f rows key ps \<Longrightarrow> (\<And>r. r \<in> set rows \<Longrightarrow> f r \<notin> I) \<Longrightarrow> refs f rows key (filter (\<lambda>p. key p \<notin> I) ps)"
  by (auto simp: refs_iff has_iff) metis

lemma filter_refs_opt_parent [intro]:
  "refs_opt f rows key ps \<Longrightarrow> (\<And>r k. r \<in> set rows \<Longrightarrow> f r = Some k \<Longrightarrow> k \<notin> I) \<Longrightarrow>
   refs_opt f rows key (filter (\<lambda>p. key p \<notin> I) ps)"
  by (auto simp: refs_opt_iff has_iff) metis

lemma distinct_filter_map_filter:
  "distinct (filter P (map f xs)) \<Longrightarrow> distinct (filter P (map f (filter Q xs)))"
  by (induction xs) auto

lemma keys_wf_purge:
  "keys_wf d \<Longrightarrow> keys_wf (purge_replies ids d)" "keys_wf d \<Longrightarrow> keys_wf (purge_labels ids d)"
  by (simp_all add: keys_wf_def purge_replies_def purge_labels_def)

lemma wf_purge_replies: "db_wf d \<Longrightarrow> db_wf (purge_replies ids d)"
proof -
  assume d: "db_wf d"
  have "refs_opt at_reply_id (filter (\<lambda>a. \<not> opt_in (at_reply_id a) ids) (t_attachments d)) rp_id
      (filter (\<lambda>r. rp_id r \<notin> set ids) (t_replies d))"
    using d by (intro filter_refs_opt_parent) (auto simp: wf_defs opt_in_def split: option.splits)
  with d show ?thesis by (simp add: wf_defs purge_replies_def)
qed

lemma wf_purge_labels: "db_wf d \<Longrightarrow> db_wf (purge_labels ids d)"
proof -
  assume d: "db_wf d"
  have "refs fl_label_id (filter (\<lambda>f. fl_label_id f \<notin> set ids) (t_filters d)) lb_id
      (filter (\<lambda>l. lb_id l \<notin> set ids) (t_labels d))"
    "refs el_label_id (filter (\<lambda>e. el_label_id e \<notin> set ids) (t_email_labels d)) lb_id
      (filter (\<lambda>l. lb_id l \<notin> set ids) (t_labels d))"
    using d by (intro filter_refs_parent; auto simp: wf_defs)+
  with d show ?thesis by (simp add: wf_defs purge_labels_def)
qed

lemma wf_purge_emails: "db_wf d \<Longrightarrow> db_wf (purge_emails roots d)"
proof -
  assume wf: "db_wf d"
  let ?ids = "thread_closure (t_emails d) roots"
  let ?d = "purge_replies (map rp_id (filter (\<lambda>r. rp_email_id r \<in> set ?ids) (t_replies d))) d"
  let ?emails = "filter (\<lambda>r. re_id r \<notin> set ?ids) (t_emails d)"
  have d: "db_wf ?d" using wf by (rule wf_purge_replies)
  have same: "t_emails ?d = t_emails d" "t_email_labels ?d = t_email_labels d" by (simp_all add: purge_replies_def)
  have thread: "refs_opt re_thread_id ?emails re_id ?emails"
    using wf thread_closure_closed [of "t_emails d" roots]
    by (intro filter_refs_opt_parent)
      (auto simp: wf_defs closed_under_threads_def list_all_iff opt_in_def)
  have replies: "refs rp_email_id (t_replies ?d) re_id ?emails"
    using d same by (intro filter_refs_parent) (auto simp: wf_defs purge_replies_def)
  have labels: "refs el_email_id (filter (\<lambda>e. el_email_id e \<notin> set ?ids) (t_email_labels d)) re_id ?emails"
    using wf by (intro filter_refs_parent) (auto simp: wf_defs)
  from d thread replies labels same show ?thesis
    by (simp add: wf_defs purge_emails_def Let_def)
qed

lemma purge_emails_gone:
  "r \<in> set (t_emails (purge_emails roots d)) \<Longrightarrow> re_id r \<notin> set roots"
  using thread_closure_extends [of "re_id r" roots "t_emails d"]
  by (auto simp: purge_emails_def Let_def purge_replies_def)

lemma purge_emails_tables [simp]:
  "t_users (purge_emails ids d) = t_users d" "t_domains (purge_emails ids d) = t_domains d"
  "t_aliases (purge_emails ids d) = t_aliases d" "t_sent (purge_emails ids d) = t_sent d"
  "t_api_keys (purge_emails ids d) = t_api_keys d" "t_mappings (purge_emails ids d) = t_mappings d"
  "t_queue (purge_emails ids d) = t_queue d" "t_labels (purge_emails ids d) = t_labels d"
  "t_filters (purge_emails ids d) = t_filters d"
  by (simp_all add: purge_emails_def Let_def purge_replies_def)

lemma purge_emails_subset: "set (t_emails (purge_emails ids d)) \<subseteq> set (t_emails d)"
  by (auto simp: purge_emails_def Let_def purge_replies_def)

lemma wf_purge_aliases: "db_wf d \<Longrightarrow> db_wf (purge_aliases ids d)"
proof -
  assume wf: "db_wf d"
  let ?d = "purge_emails (map re_id (filter (\<lambda>r. opt_in (re_alias_id r) ids) (t_emails d))) d"
  let ?aliases = "filter (\<lambda>a. al_id a \<notin> set ids) (t_aliases d)"
  have d: "db_wf ?d" using wf by (rule wf_purge_emails)
  have emails: "refs_opt re_alias_id (t_emails ?d) al_id ?aliases"
  proof (intro filter_refs_opt_parent)
    show "refs_opt re_alias_id (t_emails ?d) al_id (t_aliases d)" using d by (simp add: wf_defs)
    fix r k
    assume r: "r \<in> set (t_emails ?d)" "re_alias_id r = Some k"
    with purge_emails_gone [OF r(1)] purge_emails_subset [of _ d] show "k \<notin> set ids"
      by (fastforce simp: opt_in_def)
  qed
  have sent: "refs se_from_alias_id (filter (\<lambda>s. se_from_alias_id s \<notin> set ids) (t_sent d)) al_id ?aliases"
    using wf by (intro filter_refs_parent) (auto simp: wf_defs)
  have mappings: "refs rm_alias_id (filter (\<lambda>m. rm_alias_id m \<notin> set ids) (t_mappings d)) al_id ?aliases"
    using wf by (intro filter_refs_parent) (auto simp: wf_defs)
  from d emails sent mappings show ?thesis
    by (simp add: wf_defs purge_aliases_def Let_def distinct_filter_map_filter)
qed

lemma wf_purge_domains: "db_wf d \<Longrightarrow> db_wf (purge_domains ids d)"
proof -
  assume wf: "db_wf d"
  let ?aids = "map al_id (filter (\<lambda>a. al_domain_id a \<in> set ids) (t_aliases d))"
  let ?d = "purge_aliases ?aids d"
  have d: "db_wf ?d" using wf by (rule wf_purge_aliases)
  have aliases: "t_aliases ?d = filter (\<lambda>a. al_id a \<notin> set ?aids) (t_aliases d)" "t_domains ?d = t_domains d"
    by (simp_all add: purge_aliases_def Let_def)
  have "refs al_domain_id (t_aliases ?d) dm_id (filter (\<lambda>r. dm_id r \<notin> set ids) (t_domains d))"
    using d aliases by (intro filter_refs_parent) (auto simp: wf_defs)
  with d aliases show ?thesis by (simp add: wf_defs purge_domains_def Let_def)
qed

lemmas wf_purges = wf_purge_replies wf_purge_labels wf_purge_emails wf_purge_aliases wf_purge_domains

section \<open>Keeping a predicate, statement by statement\<close>

definition keeps :: "(db \<Rightarrow> bool) \<Rightarrow> 'a dbm \<Rightarrow> bool" where
  "keeps P m = (\<forall>d r d'. P d \<longrightarrow> m d = (r, d') \<longrightarrow> P d')"

text \<open>A predicate on the tables does not look at the fault schedule.\<close>

definition on_tables :: "(db \<Rightarrow> bool) \<Rightarrow> bool" where
  "on_tables P = (\<forall>d fs. P (d\<lparr>db_faults := fs\<rparr>) = P d)"

named_theorems keeps_rules \<open>introduction rules of keeps\<close>

lemma on_tables_wf [simp]: "on_tables db_wf"
  by (simp add: on_tables_def)

lemma keepsD: "keeps P m \<Longrightarrow> P d \<Longrightarrow> m d = (r, d') \<Longrightarrow> P d'"
  by (auto simp: keeps_def)

lemma keeps_snd: "keeps P m \<Longrightarrow> P d \<Longrightarrow> P (snd (m d))"
  by (metis keepsD prod.collapse)

lemma keeps_return [keeps_rules]: "keeps P (db_return a)"
  by (simp add: keeps_def db_return_def)

lemma keeps_fail [keeps_rules]: "keeps P (db_fail e)"
  by (simp add: keeps_def db_fail_def)

lemma keeps_bind [keeps_rules]: "keeps P m \<Longrightarrow> (\<And>a. keeps P (f a)) \<Longrightarrow> keeps P (db_bind m f)"
proof -
  assume m: "keeps P m" and f: "\<And>a. keeps P (f a)"
  have "P d'" if "P d" "db_bind m f d = (r, d')" for d r d'
  proof (cases "m d")
    case (Pair r1 d1)
    with keepsD [OF m that(1)] keepsD [OF f, of d1 _ r d'] that(2) show ?thesis
      by (cases r1) (auto simp: db_bind_def)
  qed
  then show ?thesis unfolding keeps_def by blast
qed

lemma keeps_if [keeps_rules]: "(b \<Longrightarrow> keeps P m) \<Longrightarrow> (\<not> b \<Longrightarrow> keeps P n) \<Longrightarrow> keeps P (if b then m else n)"
  by simp

lemma keeps_option [keeps_rules]:
  "keeps P m \<Longrightarrow> (\<And>a. keeps P (f a)) \<Longrightarrow> keeps P (case x of None \<Rightarrow> m | Some a \<Rightarrow> f a)"
  by (cases x) simp_all

lemma keeps_stmt:
  assumes "on_tables P" and "\<And>d a d'. P d \<Longrightarrow> f d = Inr (a, d') \<Longrightarrow> P d'"
  shows "keeps P (stmt f)"
  unfolding keeps_def
proof (intro allI impI)
  fix d r d'
  assume "P d" and run: "stmt f d = (r, d')"
  let ?d = "d\<lparr>db_faults := tl (db_faults d)\<rparr>"
  have "P ?d" using assms(1) \<open>P d\<close> by (simp add: on_tables_def)
  with assms(2) [of ?d] run show "P d'"
    by (auto simp: stmt_def Let_def split: if_splits sum.splits prod.splits)
qed

lemma keeps_query [keeps_rules]: "on_tables P \<Longrightarrow> keeps P (query f)"
  unfolding query_def by (rule keeps_stmt) auto

lemma keeps_query_one [keeps_rules]: "on_tables P \<Longrightarrow> keeps P (query_one f)"
  unfolding query_one_def by (rule keeps_stmt) (auto split: list.splits)

lemma keeps_query_optional [keeps_rules]: "on_tables P \<Longrightarrow> keeps P (query_optional f)"
  unfolding query_optional_def by (rule keeps_stmt) (auto split: list.splits)

lemma keeps_exec [keeps_rules]: "on_tables P \<Longrightarrow> (\<And>d. P d \<Longrightarrow> P (g d)) \<Longrightarrow> keeps P (exec g)"
  unfolding exec_def by (rule keeps_stmt) auto

lemma keeps_exec_count [keeps_rules]: "on_tables P \<Longrightarrow> (\<And>d. P d \<Longrightarrow> P (g d)) \<Longrightarrow> keeps P (exec_count n g)"
  unfolding exec_count_def by (rule keeps_stmt) auto

lemma keeps_insert [keeps_rules]:
  "on_tables P \<Longrightarrow> (\<And>d. P d \<Longrightarrow> violation (c d) = None \<Longrightarrow> P (g d)) \<Longrightarrow> keeps P (insert_stmt c g res)"
  unfolding insert_stmt_def by (rule keeps_stmt) (auto split: option.splits)

lemma keeps_transaction [keeps_rules]:
  assumes P: "on_tables P" and m: "keeps P m"
  shows "keeps P (transaction m)"
  unfolding keeps_def
proof (intro allI impI)
  fix d r d'
  assume "P d" and run: "transaction m d = (r, d')"
  have id: "keeps P (exec (\<lambda>d. d))" using P by (rule keeps_exec)
  obtain r1 d1 where 1: "exec (\<lambda>d. d) d = (r1, d1)" by (cases "exec (\<lambda>d. d) d")
  obtain r2 d2 where 2: "m d1 = (r2, d2)" by (cases "m d1")
  obtain r3 d3 where 3: "exec (\<lambda>d. d) d2 = (r3, d3)" by (cases "exec (\<lambda>d. d) d2")
  have "P d1" "P d2" "P d3" using keepsD [OF id \<open>P d\<close> 1] keepsD [OF m _ 2] keepsD [OF id _ 3] by blast+
  with run 1 2 3 P show "P d'"
    by (auto simp: transaction_def rollback_to_def on_tables_def split: sum.splits)
qed

text \<open>A query changes no table at all.\<close>

definition reads_only :: "'a dbm \<Rightarrow> bool" where
  "reads_only m = (\<forall>d. snd (m d)\<lparr>db_faults := []\<rparr> = d\<lparr>db_faults := []\<rparr>)"

lemma reads_only_query: "reads_only (query f)" "reads_only (query_one g)" "reads_only (query_optional h)"
  by (auto simp: reads_only_def query_def query_one_def query_optional_def stmt_def Let_def split: list.splits)

text \<open>Statements without a fault.\<close>

lemma stmt_no_fault:
  "db_faults d = [] \<Longrightarrow> stmt f d = (case f d of Inl e \<Rightarrow> (Inl e, d) | Inr (a, d') \<Rightarrow> (Inr a, d'))"
proof -
  assume "db_faults d = []"
  then have "d\<lparr>db_faults := tl (db_faults d)\<rparr> = d" by (cases d) simp
  then show ?thesis using \<open>db_faults d = []\<close> unfolding stmt_def Let_def by (simp only: list.case if_False)
qed

lemma no_fault_simps:
  assumes "db_faults d = []"
  shows "query f d = (Ok (f d), d)"
    and "exec g d = (Ok (), g d)"
    and "exec_count n g d = (Ok (n d), g d)"
    and "query_optional h d = (Ok (case h d of [] \<Rightarrow> None | a # _ \<Rightarrow> Some a), d)"
    and "query_one k d = (case k d of [] \<Rightarrow> (Err RowNotFound, d) | a # _ \<Rightarrow> (Ok a, d))"
    and "insert_stmt c g' res d = (case violation (c d) of Some e \<Rightarrow> (Err e, d) | None \<Rightarrow> (Ok (res d), g' d))"
  using assms
  by (simp_all add: query_def exec_def exec_count_def query_optional_def query_one_def insert_stmt_def
      stmt_no_fault split: list.splits option.splits)

lemma db_bind_simps: "db_return a d = (Ok a, d)" "db_fail e d = (Err e, d)"
  "m d = (Inr a, d1) \<Longrightarrow> db_bind m f d = f a d1" "m d = (Inl e, d1) \<Longrightarrow> db_bind m f d = (Inl e, d1)"
  by (simp_all add: db_return_def db_fail_def db_bind_def)

lemma db_bind_Ok_iff:
  "db_bind m f d = (Inr b, d') \<longleftrightarrow> (\<exists>a d1. m d = (Inr a, d1) \<and> f a d1 = (Inr b, d'))"
  by (auto simp: db_bind_def split: prod.splits sum.splits)

lemma stmt_Ok_iff:
  "stmt f d = (Inr a, d') \<longleftrightarrow>
   (db_faults d = [] \<or> \<not> hd (db_faults d)) \<and> f (d\<lparr>db_faults := tl (db_faults d)\<rparr>) = Inr (a, d')"
  by (auto simp: stmt_def Let_def split: list.splits sum.splits if_splits)

end
