(* ===== verification/Mime.thy ===== *)
theory Mime
  imports Rust_Prelude
begin

text \<open>
  Building and rewriting MIME messages: \<open>src/src/outbound/mime.rs\<close>, and the metadata extraction of
  \<open>src/src/inbound/parser.rs\<close>.

  The crate mail_parser is a parameter: a function from the message bytes to the view of the parsed
  message the code asks for (\<open>parsed_message\<close>).  So are the base64 encoder, the RFC 2822 text of the
  clock and the random UUIDs of a message (\<open>mime_env\<close>).
\<close>

section \<open>Lossy UTF-8 decoding\<close>

text \<open>\<open>String::from_utf8_lossy\<close> replaces every maximal ill-formed prefix of a sequence by U+FFFD.\<close>

definition replacement_char :: string where
  "replacement_char = [CHR 0xEF, CHR 0xBF, CHR 0xBD]"

definition in_range :: "nat \<Rightarrow> nat \<Rightarrow> char \<Rightarrow> bool" where
  "in_range lo hi c = (lo \<le> code_point c \<and> code_point c \<le> hi)"

definition utf8_second :: "char \<Rightarrow> char \<Rightarrow> bool" where
  "utf8_second b c =
     (let n = code_point b in
      if n = 0xE0 then in_range 0xA0 0xBF c
      else if n = 0xED then in_range 0x80 0x9F c
      else if n = 0xF0 then in_range 0x90 0xBF c
      else if n = 0xF4 then in_range 0x80 0x8F c
      else in_range 0x80 0xBF c)"

definition utf8_width :: "char \<Rightarrow> nat" where
  "utf8_width b =
     (if in_range 0x00 0x7F b then 1
      else if in_range 0xC2 0xDF b then 2
      else if in_range 0xE0 0xEF b then 3
      else if in_range 0xF0 0xF4 b then 4
      else 0)"

text \<open>How many bytes after \<open>b\<close> belong to its sequence, and whether the sequence is complete.\<close>

definition utf8_tail :: "char \<Rightarrow> string \<Rightarrow> nat \<times> bool" where
  "utf8_tail b bs =
     (let cont = (\<lambda>k. k < length bs \<and> in_range 0x80 0xBF (bs ! k));
          second = (bs \<noteq> [] \<and> utf8_second b (hd bs))
      in case utf8_width b of
           0 \<Rightarrow> (0, False)
         | Suc 0 \<Rightarrow> (0, True)
         | Suc (Suc 0) \<Rightarrow> if second then (1, True) else (0, False)
         | Suc (Suc (Suc 0)) \<Rightarrow>
             if \<not> second then (0, False) else if cont 1 then (2, True) else (1, False)
         | _ \<Rightarrow>
             if \<not> second then (0, False) else if \<not> cont 1 then (1, False)
             else if cont 2 then (3, True) else (2, False))"

fun from_utf8_lossy :: "string \<Rightarrow> string" where
  "from_utf8_lossy [] = []"
| "from_utf8_lossy (b # bs) = (case utf8_tail b bs of (n, complete) \<Rightarrow>
     (if complete then b # take n bs else replacement_char) @ from_utf8_lossy (drop n bs))"

lemma from_utf8_lossy_ascii: "\<forall>c \<in> set s. code_point c < 128 \<Longrightarrow> from_utf8_lossy s = s"
  by (induction s) (auto simp: utf8_tail_def utf8_width_def in_range_def Let_def)

section \<open>Messages\<close>

record mime_attachment =
  ma_filename :: "string option"
  ma_content_type :: string
  ma_data :: string
  ma_is_inline :: bool
  ma_content_id :: "string option"

record mime_email =
  me_from :: string
  me_to :: string
  me_subject :: string
  me_text_body :: string
  me_html_body :: "string option"
  me_message_id :: "string option"
  me_in_reply_to :: "string option"
  me_references :: "string option"
  me_attachments :: "mime_attachment list"

text \<open>What one call to \<open>build_mime\<close> gets from outside: the date line, the UUID of the Message-ID, the
  UUIDs of the three boundaries (hyphens removed), and the base64 encoder.\<close>

record mime_env =
  date_text :: string
  uuid_message :: string
  uuid_mixed :: string
  uuid_related :: string
  uuid_alternative :: string
  base64 :: "string \<Rightarrow> string"

definition sanitize_header :: "string \<Rightarrow> string" where
  "sanitize_header value = filter (\<lambda>c. c \<noteq> CR \<and> c \<noteq> LF) value"

definition generate_message_id :: "string \<Rightarrow> string \<Rightarrow> string" where
  "generate_message_id uuid domain = ''<'' @ uuid @ ''@'' @ sanitize_header domain @ ''>''"

definition format_message_id :: "string \<Rightarrow> string" where
  "format_message_id raw =
     (let i = trim raw
      in if i = [] then []
         else if starts_with ''<'' i \<and> ends_with ''>'' i then i
         else ''<'' @ i @ ''>'')"

definition header_line :: "string \<Rightarrow> string \<Rightarrow> string" where
  "header_line name value = name @ '': '' @ value @ CRLF"

definition terminate_crlf :: "string \<Rightarrow> string" where
  "terminate_crlf s = s @ (if ends_with CRLF s then [] else CRLF)"

definition nth_or :: "'a \<Rightarrow> nat \<Rightarrow> 'a list \<Rightarrow> 'a" where
  "nth_or d n xs = (if n < length xs then xs ! n else d)"

definition mime_subject :: "mime_email \<Rightarrow> string" where
  "mime_subject email =
     (if me_in_reply_to email \<noteq> None \<and> \<not> starts_with ''re:'' (to_lowercase (me_subject email))
      then ''Re: '' @ me_subject email
      else me_subject email)"

definition mime_message_id :: "mime_env \<Rightarrow> mime_email \<Rightarrow> string" where
  "mime_message_id env email =
     (case me_message_id email of
        Some i \<Rightarrow> i
      | None \<Rightarrow> generate_message_id (uuid_message env)
                  (nth_or ''localhost'' 1 (split_on (CHR ''@'') (me_from email))))"

definition write_alt_part :: "string \<Rightarrow> mime_email \<Rightarrow> string" where
  "write_alt_part alt_boundary email =
     (case me_html_body email of
        Some html \<Rightarrow>
          ''Content-Type: multipart/alternative; boundary=\"'' @ alt_boundary @ ''\"'' @ CRLF @ CRLF @
          ''--'' @ alt_boundary @ CRLF @
          ''Content-Type: text/plain; charset=\"utf-8\"'' @ CRLF @
          ''Content-Transfer-Encoding: 8bit'' @ CRLF @ CRLF @
          terminate_crlf (me_text_body email) @
          ''--'' @ alt_boundary @ CRLF @
          ''Content-Type: text/html; charset=\"utf-8\"'' @ CRLF @
          ''Content-Transfer-Encoding: 8bit'' @ CRLF @ CRLF @
          terminate_crlf html @
          ''--'' @ alt_boundary @ ''--'' @ CRLF
      | None \<Rightarrow>
          ''Content-Type: text/plain; charset=\"utf-8\"'' @ CRLF @
          ''Content-Transfer-Encoding: 8bit'' @ CRLF @ CRLF @
          terminate_crlf (me_text_body email))"

text \<open>Lines of \<open>n + 1\<close> bytes, the last one shorter.\<close>

fun chunks_crlf :: "nat \<Rightarrow> string \<Rightarrow> string" where
  "chunks_crlf n [] = []"
| "chunks_crlf n (c # cs) =
    take (Suc n) (c # cs) @ CRLF @ chunks_crlf n (drop n cs)"

definition write_attachment :: "(string \<Rightarrow> string) \<Rightarrow> mime_attachment \<Rightarrow> string" where
  "write_attachment b64 a =
     (let content_type = sanitize_header (ma_content_type a);
          filename = sanitize_header (unwrap_or ''attachment'' (ma_filename a));
          disposition = (if ma_is_inline a then ''inline'' else ''attachment'')
      in ''Content-Type: '' @ content_type @ ''; name=\"'' @ filename @ ''\"'' @ CRLF @
         ''Content-Transfer-Encoding: base64'' @ CRLF @
         ''Content-Disposition: '' @ disposition @ ''; filename=\"'' @ filename @ ''\"'' @ CRLF @
         (case ma_content_id a of
            Some cid \<Rightarrow> ''Content-ID: <'' @ sanitize_header cid @ ''>'' @ CRLF
          | None \<Rightarrow> []) @
         CRLF @
         chunks_crlf 75 (b64 (ma_data a)))"

definition write_parts :: "(string \<Rightarrow> string) \<Rightarrow> string \<Rightarrow> mime_attachment list \<Rightarrow> string" where
  "write_parts b64 boundary as =
     concat (map (\<lambda>a. ''--'' @ boundary @ CRLF @ write_attachment b64 a) as)"

definition write_related :: "mime_env \<Rightarrow> mime_email \<Rightarrow> string" where
  "write_related env email =
     (let related_boundary = ''=_Related_'' @ uuid_related env
      in ''Content-Type: multipart/related; boundary=\"'' @ related_boundary @ ''\"'' @ CRLF @ CRLF @
         ''--'' @ related_boundary @ CRLF @
         write_alt_part (''=_Alternative_'' @ uuid_alternative env) email @
         write_parts (base64 env) related_boundary (filter ma_is_inline (me_attachments email)) @
         ''--'' @ related_boundary @ ''--'' @ CRLF)"

definition mime_headers :: "mime_env \<Rightarrow> mime_email \<Rightarrow> string" where
  "mime_headers env email =
     header_line ''From'' (sanitize_header (me_from email)) @
     header_line ''To'' (sanitize_header (me_to email)) @
     header_line ''Subject'' (sanitize_header (mime_subject email)) @
     header_line ''Date'' (date_text env) @
     header_line ''Message-ID'' (sanitize_header (format_message_id (mime_message_id env email))) @
     (case me_in_reply_to email of
        Some irt \<Rightarrow> header_line ''In-Reply-To'' (sanitize_header (format_message_id irt))
      | None \<Rightarrow> []) @
     (case me_references email of
        Some refs \<Rightarrow> header_line ''References'' (sanitize_header (format_message_id refs))
      | None \<Rightarrow> []) @
     header_line ''MIME-Version'' ''1.0''"

definition build_mime :: "mime_env \<Rightarrow> mime_email \<Rightarrow> string" where
  "build_mime env email =
     (let has_real = list_ex (\<lambda>a. \<not> ma_is_inline a) (me_attachments email);
          has_inline = list_ex ma_is_inline (me_attachments email);
          mixed_boundary = ''=_Mixed_'' @ uuid_mixed env;
          alt_boundary = ''=_Alternative_'' @ uuid_alternative env
      in mime_headers env email @
         (if has_real then
            ''Content-Type: multipart/mixed; boundary=\"'' @ mixed_boundary @ ''\"'' @ CRLF @ CRLF @
            ''--'' @ mixed_boundary @ CRLF @
            (if has_inline then write_related env email else write_alt_part alt_boundary email) @
            write_parts (base64 env) mixed_boundary (filter (\<lambda>a. \<not> ma_is_inline a) (me_attachments email)) @
            ''--'' @ mixed_boundary @ ''--'' @ CRLF
          else if has_inline then write_related env email
          else write_alt_part alt_boundary email))"

section \<open>What the parser gives\<close>

record mail_part =
  mp_inline_binary :: bool
  mp_disposition_inline :: "bool option"
  mp_content_id :: "string option"
  mp_name :: "string option"
  mp_ctype :: "(string \<times> string option) option"
  mp_contents :: string

record parsed_message =
  pm_subject :: "string option"
  pm_from :: "(string option \<times> string option) list option"
  pm_message_id :: "string option"
  pm_in_reply_to :: "string option"
  pm_references :: "string option"
  pm_body_text :: "string option"
  pm_body_html :: "string option"
  pm_attachments :: "mail_part list"

type_synonym mail_parser = "string \<Rightarrow> parsed_message option"

definition part_is_inline :: "mail_part \<Rightarrow> bool" where
  "part_is_inline part =
     (mp_inline_binary part \<or> mp_disposition_inline part = Some True \<or> mp_content_id part \<noteq> None)"

definition strip_angle :: "string \<Rightarrow> string" where
  "strip_angle raw =
     (let s = trim raw
      in unwrap_or s (Option.bind (strip_prefix ''<'' s) (strip_suffix ''>'')))"

definition part_attachment :: "mail_part \<Rightarrow> mime_attachment" where
  "part_attachment part =
     \<lparr>ma_filename = mp_name part,
      ma_content_type = (case mp_ctype part of Some (ty, _) \<Rightarrow> ty | None \<Rightarrow> ''application/octet-stream''),
      ma_data = mp_contents part,
      ma_is_inline = part_is_inline part,
      ma_content_id = map_option strip_angle (mp_content_id part)\<rparr>"

definition rewrite_body_for_forward ::
  "mail_parser \<Rightarrow> mime_env \<Rightarrow> string \<Rightarrow> string \<Rightarrow> string \<Rightarrow> string \<Rightarrow> string" where
  "rewrite_body_for_forward parse env body original_sender reply_from_email destination_email =
     (case parse body of
        Some message \<Rightarrow>
          (let original_sender_name =
                 (case pm_from message of
                    Some ((Some name, _) # _) \<Rightarrow> name
                  | _ \<Rightarrow> original_sender);
               display_from = ''\"'' @ original_sender_name @ '' via Relay\" <'' @ reply_from_email @ ''>''
           in build_mime env
                \<lparr>me_from = display_from, me_to = destination_email,
                 me_subject = unwrap_or ''No Subject'' (pm_subject message),
                 me_text_body = unwrap_or [] (pm_body_text message),
                 me_html_body = pm_body_html message,
                 me_message_id = pm_message_id message,
                 me_in_reply_to = pm_in_reply_to message,
                 me_references = pm_references message,
                 me_attachments = map part_attachment (pm_attachments message)\<rparr>)
      | None \<Rightarrow> from_utf8_lossy body)"

definition prepare_reply_for_relay ::
  "mail_parser \<Rightarrow> mime_env \<Rightarrow> string \<Rightarrow> string \<Rightarrow> string \<Rightarrow> string" where
  "prepare_reply_for_relay parse env body alias_address original_sender =
     (case parse body of
        Some message \<Rightarrow>
          build_mime env
            \<lparr>me_from = alias_address, me_to = original_sender,
             me_subject = unwrap_or ''No Subject'' (pm_subject message),
             me_text_body = unwrap_or [] (pm_body_text message),
             me_html_body = pm_body_html message,
             me_message_id = None,
             me_in_reply_to = pm_in_reply_to message,
             me_references = pm_references message,
             me_attachments = map part_attachment (pm_attachments message)\<rparr>
      | None \<Rightarrow> from_utf8_lossy body)"

section \<open>Metadata for the database\<close>

record email_metadata =
  em_sender :: string
  em_subject :: string
  em_message_id :: "string option"
  em_in_reply_to :: "string option"
  em_references :: "string list"

record attachment_metadata =
  am_filename :: "string option"
  am_content_type :: "string option"
  am_size_bytes :: int
  am_part_index :: nat
  am_is_inline :: bool
  am_content_id :: "string option"

definition part_metadata :: "nat \<Rightarrow> mail_part \<Rightarrow> attachment_metadata" where
  "part_metadata index part =
     \<lparr>am_filename = mp_name part,
      am_content_type = map_option
        (\<lambda>(ty, sub). case sub of Some subtype \<Rightarrow> ty @ ''/'' @ subtype | None \<Rightarrow> ty) (mp_ctype part),
      am_size_bytes = int (length (mp_contents part)),
      am_part_index = index,
      am_is_inline = part_is_inline part,
      am_content_id = map_option strip_angle (mp_content_id part)\<rparr>"

definition extract_full_metadata ::
  "mail_parser \<Rightarrow> string \<Rightarrow> string \<Rightarrow> email_metadata \<times> attachment_metadata list" where
  "extract_full_metadata parse body envelope_sender =
     (let message = parse body;
          subject = unwrap_or ''No Subject'' (Option.bind message pm_subject);
          friendly_sender =
            Option.bind (Option.bind message pm_from)
              (\<lambda>addrs. case addrs of (_, address) # _ \<Rightarrow> address | [] \<Rightarrow> None)
      in (\<lparr>em_sender = unwrap_or envelope_sender friendly_sender,
           em_subject = subject,
           em_message_id = map_option format_message_id (Option.bind message pm_message_id),
           em_in_reply_to = map_option format_message_id (Option.bind message pm_in_reply_to),
           em_references = (case Option.bind message pm_references of
                Some r \<Rightarrow> map format_message_id (split_whitespace r) | None \<Rightarrow> [])\<rparr>,
          case message of
            Some msg \<Rightarrow> map (\<lambda>(i, p). part_metadata i p) (enumerate 0 (pm_attachments msg))
          | None \<Rightarrow> []))"

section \<open>Header safety\<close>

definition no_newline :: "string \<Rightarrow> bool" where
  "no_newline s = (CR \<notin> set s \<and> LF \<notin> set s)"

definition render_headers :: "(string \<times> string) list \<Rightarrow> string" where
  "render_headers hs = concat (map (\<lambda>(name, value). header_line name value) hs)"

lemma render_headers_simps [simp]:
  "render_headers [] = []"
  "render_headers ((n, v) # hs) = header_line n v @ render_headers hs"
  "render_headers (hs @ hs') = render_headers hs @ render_headers hs'"
  by (simp_all add: render_headers_def)

lemma no_newline_sanitize [simp]: "no_newline (sanitize_header v)"
  by (simp add: no_newline_def sanitize_header_def)

lemma sanitize_id: "no_newline v \<Longrightarrow> sanitize_header v = v"
  by (induction v) (auto simp: no_newline_def sanitize_header_def)

definition mime_header_list :: "mime_env \<Rightarrow> mime_email \<Rightarrow> (string \<times> string) list" where
  "mime_header_list env email =
     [(''From'', sanitize_header (me_from email)),
      (''To'', sanitize_header (me_to email)),
      (''Subject'', sanitize_header (mime_subject email)),
      (''Date'', date_text env),
      (''Message-ID'', sanitize_header (format_message_id (mime_message_id env email)))] @
     (case me_in_reply_to email of
        Some irt \<Rightarrow> [(''In-Reply-To'', sanitize_header (format_message_id irt))] | None \<Rightarrow> []) @
     (case me_references email of
        Some refs \<Rightarrow> [(''References'', sanitize_header (format_message_id refs))] | None \<Rightarrow> []) @
     [(''MIME-Version'', ''1.0'')]"

lemma mime_headers_render: "mime_headers env email = render_headers (mime_header_list env email)"
  by (simp add: mime_headers_def mime_header_list_def split: option.splits)

lemma mime_header_values:
  assumes "no_newline (date_text env)" "(n, v) \<in> set (mime_header_list env email)"
  shows "no_newline v"
  using assms by (auto simp: mime_header_list_def split: option.splits) (simp add: no_newline_def)+

lemma mime_header_names: "(n, v) \<in> set (mime_header_list env email) \<Longrightarrow> no_newline n"
proof -
  assume "(n, v) \<in> set (mime_header_list env email)"
  then have "n \<in> {''From'', ''To'', ''Subject'', ''Date'', ''Message-ID'', ''In-Reply-To'', ''References'',
      ''MIME-Version''}"
    by (auto simp: mime_header_list_def split: option.splits)
  then show ?thesis by (elim insertE emptyE) (simp_all add: no_newline_def)
qed

lemma cut_lines_headers:
  assumes "\<forall>(n, v) \<in> set hs. no_newline n \<and> no_newline v"
  shows "cut_lines (render_headers hs @ s) = map (\<lambda>(n, v). header_line n v) hs @ cut_lines s"
  using assms
proof (induction hs)
  case (Cons h hs)
  obtain n v where h: "h = (n, v)" by (cases h)
  with Cons.prems have "LF \<notin> set (n @ '': '' @ v @ [CR])" by (auto simp: no_newline_def)
  from cut_lines_line [OF this, of "render_headers hs @ s"] Cons h show ?case
    by (simp add: header_line_def)
qed simp

text \<open>C22: Header injection is impossible. Whatever sender, recipient, subject, Message-ID, threading
  ids and attachments a message is built from, the first lines of the result are exactly the fixed
  header lines in their order, one per field: no field value starts a header line of its own.\<close>
theorem build_mime_header_lines:
  assumes "no_newline (date_text env)"
  shows "\<exists>rest. cut_lines (build_mime env email) =
     map (\<lambda>(n, v). header_line n v) (mime_header_list env email) @ cut_lines rest \<and>
     (\<forall>(n, v) \<in> set (mime_header_list env email). no_newline v)"
proof -
  have names: "\<forall>(n, v) \<in> set (mime_header_list env email). no_newline n \<and> no_newline v"
    using mime_header_values [OF assms, of _ _ email] mime_header_names [of _ _ env email] by blast
  obtain rest where "build_mime env email = mime_headers env email @ rest"
    by (simp add: build_mime_def Let_def)
  with cut_lines_headers [OF names, of rest] names show ?thesis
    by (intro exI [of _ rest]) (auto simp: mime_headers_render)
qed

definition sample_env :: mime_env where
  "sample_env = \<lparr>date_text = ''Thu'', uuid_message = ''u1'', uuid_mixed = ''u2'', uuid_related = ''u3'',
     uuid_alternative = ''u4'', base64 = (\<lambda>s. s)\<rparr>"

definition sample_email :: mime_email where
  "sample_email = \<lparr>me_from = ''a@b'', me_to = ''x'' @ CRLF @ ''Bcc: y'', me_subject = ''s'', me_text_body = ''t'',
     me_html_body = None, me_message_id = None, me_in_reply_to = None, me_references = None,
     me_attachments = []\<rparr>"

lemma build_mime_header_lines_witness:
  "\<exists>rest. cut_lines (build_mime sample_env sample_email) =
     map (\<lambda>(n, v). header_line n v) (mime_header_list sample_env sample_email) @ cut_lines rest"
  using build_mime_header_lines [of sample_env sample_email] by (auto simp: sample_env_def no_newline_def)

text \<open>A reply that the parser can read leaves with the alias as its sender: the header block names
  the alias in From and the correspondent in To, and the Message-ID is a fresh one in the alias's
  domain, not the one the user's mail provider wrote.\<close>
theorem relayed_reply_hides_sender:
  assumes "parse body = Some message" "CHR ''@'' \<notin> set sub" "CHR ''@'' \<notin> set host"
    and "no_newline sub" "no_newline host" "no_newline uuid" "uuid = uuid_message env"
  shows "\<exists>rest subject. prepare_reply_for_relay parse env body (sub @ ''@'' @ host) original_sender =
     header_line ''From'' (sub @ ''@'' @ host) @
     header_line ''To'' (sanitize_header original_sender) @
     header_line ''Subject'' subject @
     header_line ''Date'' (date_text env) @
     header_line ''Message-ID'' (''<'' @ uuid @ ''@'' @ host @ ''>'') @ rest"
proof -
  have "ends_with ''>'' (''<'' @ uuid @ ''@'' @ host @ ''>'')" by (simp add: ends_with_def)
  moreover have "trim (''<'' @ uuid @ ''@'' @ host @ ''>'') = ''<'' @ uuid @ ''@'' @ host @ ''>''"
    by (simp add: trim_eval is_whitespace_def code_point_def)
  ultimately have "format_message_id (generate_message_id uuid host) = ''<'' @ uuid @ ''@'' @ host @ ''>''"
    using assms by (simp add: format_message_id_def generate_message_id_def sanitize_id)
  moreover have "sanitize_header (''<'' @ uuid @ ''@'' @ host @ ''>'') = ''<'' @ uuid @ ''@'' @ host @ ''>''"
    "sanitize_header (sub @ ''@'' @ host) = sub @ ''@'' @ host"
    using assms by (auto intro!: sanitize_id simp: no_newline_def)
  ultimately show ?thesis
    using assms
    by (simp add: prepare_reply_for_relay_def build_mime_def mime_headers_def mime_message_id_def
        nth_or_def Let_def) blast
qed

definition sample_message :: parsed_message where
  "sample_message = \<lparr>pm_subject = None, pm_from = None, pm_message_id = Some ''secret@mail.example'',
     pm_in_reply_to = None, pm_references = None, pm_body_text = Some ''hello'', pm_body_html = None,
     pm_attachments = []\<rparr>"

lemma relayed_reply_hides_sender_witness:
  "\<exists>rest subject. prepare_reply_for_relay (\<lambda>_. Some sample_message) sample_env ''raw'' ''shop@ex.org'' ''x@y'' =
     header_line ''From'' ''shop@ex.org'' @ header_line ''To'' ''x@y'' @
     header_line ''Subject'' subject @ header_line ''Date'' ''Thu'' @
     header_line ''Message-ID'' ''<u1@ex.org>'' @ rest"
proof -
  have p: "no_newline ''shop''" "no_newline ''ex.org''" "no_newline ''u1''" "sanitize_header ''x@y'' = ''x@y''"
    "date_text sample_env = ''Thu''" "''u1'' = uuid_message sample_env"
    by (simp_all add: no_newline_def sanitize_header_def sample_env_def)
  have at: "CHR ''@'' \<notin> set ''shop''" "CHR ''@'' \<notin> set ''ex.org''" by simp_all
  from relayed_reply_hides_sender [of "\<lambda>_. Some sample_message", OF refl at p(1-3) p(6), of "''raw''" "''x@y''"]
  show ?thesis unfolding p(4,5) append_Cons append_Nil .
qed

end
