(* ===== verification/Db_Mail.thy ===== *)
theory Db_Mail
  imports Db_Integrity Mime
begin

text \<open>
  Received mail: the queries and updates of \<open>src/src/db/mod.rs\<close> and \<open>src/src/db/attachments.rs\<close>.

  Fresh UUIDs and the clock are arguments. Where the Postgres and the SQLite branch of a function send
  different statements, the definition asks for the back end.
\<close>

section \<open>Joined rows\<close>

record received_email =
  rv_id :: uuid
  rv_alias_id :: uuid
  rv_alias_address :: string
  rv_user_id :: uuid
  rv_sender :: string
  rv_subject :: string
  rv_body_key :: uuid
  rv_received_at :: time
  rv_last_activity :: time
  rv_viewed :: bool
  rv_forwarded :: bool
  rv_message_id :: "string option"
  rv_thread_id :: "uuid option"
  rv_has_attachments :: bool
  rv_is_favorite :: bool

definition alias_domains :: "db \<Rightarrow> (alias_row \<times> domain_row) list" where
  "alias_domains d =
     concat (map (\<lambda>a. map (\<lambda>m. (a, m)) (filter (\<lambda>m. dm_id m = al_domain_id a) (t_domains d))) (t_aliases d))"

definition address_of :: "alias_row \<Rightarrow> domain_row \<Rightarrow> string" where
  "address_of a m = al_subdomain a @ ''@'' @ dm_name m"

definition view_email :: "email_row \<Rightarrow> alias_row \<times> domain_row \<Rightarrow> received_email" where
  "view_email e am = (case am of (a, m) \<Rightarrow>
     \<lparr>rv_id = re_id e, rv_alias_id = al_id a, rv_alias_address = address_of a m, rv_user_id = al_user_id a,
      rv_sender = re_sender e, rv_subject = re_subject e, rv_body_key = re_body_key e,
      rv_received_at = re_received_at e, rv_last_activity = re_last_activity e, rv_viewed = re_viewed e,
      rv_forwarded = re_forwarded e, rv_message_id = re_message_id e, rv_thread_id = re_thread_id e,
      rv_has_attachments = re_has_attachments e, rv_is_favorite = re_is_favorite e\<rparr>)"

definition views_of :: "db \<Rightarrow> email_row \<Rightarrow> received_email list" where
  "views_of d e = map (view_email e) (filter (\<lambda>(a, m). re_alias_id e = Some (al_id a)) (alias_domains d))"

definition received_views :: "db \<Rightarrow> received_email list" where
  "received_views d = concat (map (views_of d) (t_emails d))"

definition aliases_of_user :: "db \<Rightarrow> uuid \<Rightarrow> uuid list" where
  "aliases_of_user d user = map al_id (filter (\<lambda>a. al_user_id a = user) (t_aliases d))"

text \<open>\<open>alias_id IN (SELECT id FROM aliases WHERE user_id = ?)\<close>, which is also what the Postgres join
  \<open>e.alias_id = a.id AND a.user_id = $n\<close> selects.\<close>

definition owned_by :: "db \<Rightarrow> uuid \<Rightarrow> email_row \<Rightarrow> bool" where
  "owned_by d user e = opt_in (re_alias_id e) (aliases_of_user d user)"

section \<open>LIKE\<close>

text \<open>Case-insensitive \<open>LIKE\<close> (SQLite) and \<open>ILIKE\<close> (Postgres, where a backslash escapes).\<close>

function like :: "bool \<Rightarrow> string \<Rightarrow> string \<Rightarrow> bool" where
  "like esc [] s = (s = [])"
| "like esc (p # ps) s =
    (if esc \<and> p = CHR 0x5C
     then (case ps of [] \<Rightarrow> False
           | q # qs \<Rightarrow> (case s of [] \<Rightarrow> False | c # cs \<Rightarrow> lower_char c = lower_char q \<and> like esc qs cs))
     else if p = CHR ''%''
     then like esc ps s \<or> (case s of [] \<Rightarrow> False | c # cs \<Rightarrow> like esc (p # ps) cs)
     else (case s of [] \<Rightarrow> False
           | c # cs \<Rightarrow> (p = CHR ''_'' \<or> lower_char c = lower_char p) \<and> like esc ps cs))"
  by pat_completeness auto

termination
  by (relation "measure (\<lambda>(esc, ps, s). length ps + length s)") auto

definition search_matches :: "db \<Rightarrow> string \<Rightarrow> string \<Rightarrow> bool" where
  "search_matches d term text = like (backend d = Postgres) (''%'' @ term @ ''%'') text"

definition opt_holds :: "('a \<Rightarrow> bool) \<Rightarrow> 'a option \<Rightarrow> bool" where
  "opt_holds P x = (case x of None \<Rightarrow> True | Some a \<Rightarrow> P a)"

definition email_has_label :: "db \<Rightarrow> uuid \<Rightarrow> string \<Rightarrow> bool" where
  "email_has_label d email name =
     list_ex (\<lambda>el. el_email_id el = email \<and>
       list_ex (\<lambda>l. lb_id l = el_label_id el \<and> to_lowercase (lb_name l) = to_lowercase name) (t_labels d))
     (t_email_labels d)"

definition page :: "nat \<Rightarrow> nat \<Rightarrow> 'a list \<Rightarrow> 'a list" where
  "page limit offset xs = take limit (drop offset xs)"

section \<open>Queries\<close>

definition get_alias_details_for_email :: "uuid \<Rightarrow> uuid \<Rightarrow> (string \<times> string) option dbm" where
  "get_alias_details_for_email email_id user_id = query_optional (\<lambda>d.
     concat (map (\<lambda>e. map (\<lambda>(a, m). (al_subdomain a, dm_name m))
       (filter (\<lambda>(a, m). re_alias_id e = Some (al_id a) \<and> al_user_id a = user_id) (alias_domains d)))
       (filter (\<lambda>e. re_id e = email_id) (t_emails d))))"

definition get_email_by_id :: "uuid \<Rightarrow> uuid \<Rightarrow> received_email option dbm" where
  "get_email_by_id email_id user_id = query_optional (\<lambda>d.
     filter (\<lambda>v. rv_id v = email_id \<and> rv_user_id v = user_id) (received_views d))"

definition inbox_matches ::
  "db \<Rightarrow> uuid \<Rightarrow> string option \<Rightarrow> string option \<Rightarrow> string option \<Rightarrow> received_email \<Rightarrow> bool" where
  "inbox_matches d user_id alias_address search label v =
     (rv_user_id v = user_id \<and> rv_thread_id v = None \<and>
      opt_holds (\<lambda>a. rv_alias_address v = a) alias_address \<and>
      opt_holds (\<lambda>q. search_matches d q (rv_subject v) \<or> search_matches d q (rv_sender v)) search \<and>
      opt_holds (email_has_label d (rv_id v)) label)"

definition get_email_by_user_id ::
  "uuid \<Rightarrow> nat \<Rightarrow> nat \<Rightarrow> string option \<Rightarrow> string option \<Rightarrow> string option \<Rightarrow> received_email list dbm" where
  "get_email_by_user_id user_id limit offset alias_address search label = query (\<lambda>d.
     page limit offset (sort_key (\<lambda>v. - rv_last_activity v)
       (filter (inbox_matches d user_id alias_address search label) (received_views d))))"

definition get_email_count_by_user_id ::
  "uuid \<Rightarrow> string option \<Rightarrow> string option \<Rightarrow> string option \<Rightarrow> nat dbm" where
  "get_email_count_by_user_id user_id alias_address search label = query (\<lambda>d.
     length (filter (inbox_matches d user_id alias_address search label) (received_views d)))"

definition get_child_emails :: "uuid \<Rightarrow> received_email list dbm" where
  "get_child_emails thread_id = query (\<lambda>d.
     sort_key rv_received_at (filter (\<lambda>v. rv_thread_id v = Some thread_id) (received_views d)))"

definition get_attachments_for_email :: "uuid \<Rightarrow> attachment_row list dbm" where
  "get_attachments_for_email email_id = query (\<lambda>d.
     sort_key at_part_index (filter (\<lambda>a. at_email_id a = email_id) (t_attachments d)))"

definition get_attachment_by_id :: "uuid \<Rightarrow> attachment_row option dbm" where
  "get_attachment_by_id attachment_id = query_optional (\<lambda>d.
     filter (\<lambda>a. at_id a = attachment_id) (t_attachments d))"

definition get_attachments_for_reply :: "uuid \<Rightarrow> attachment_row list dbm" where
  "get_attachments_for_reply reply_id = query (\<lambda>d.
     sort_key at_part_index (filter (\<lambda>a. at_reply_id a = Some reply_id) (t_attachments d)))"

definition get_alias_count :: "uuid \<Rightarrow> nat dbm" where
  "get_alias_count user_id = query (\<lambda>d. length (filter (\<lambda>a. al_user_id a = user_id) (t_aliases d)))"

text \<open>\<open>find_thread_id_by_references\<close>: a received mail with one of the ids, else a reply of ours with one,
  resolved to its root by \<open>COALESCE(thread_id, id)\<close>. Neither query asks for the user.\<close>

definition thread_root :: "email_row \<Rightarrow> uuid" where
  "thread_root e = unwrap_or (re_id e) (re_thread_id e)"

definition in_references :: "string list \<Rightarrow> string option \<Rightarrow> bool" where
  "in_references references m = (case m of None \<Rightarrow> False | Some i \<Rightarrow> i \<in> set references)"

definition find_thread_id_by_references :: "string list \<Rightarrow> uuid option dbm" where
  "find_thread_id_by_references references =
     (if references = [] then db_return None
      else db_bind
        (query_optional (\<lambda>d. map thread_root (filter (\<lambda>e. in_references references (re_message_id e)) (t_emails d))))
        (\<lambda>root. case root of
           Some i \<Rightarrow> db_return (Some i)
         | None \<Rightarrow> query_optional (\<lambda>d. concat (map
             (\<lambda>r. map thread_root (filter (\<lambda>e. re_id e = rp_email_id r) (t_emails d)))
             (filter (\<lambda>r. in_references references (rp_message_id r)) (t_replies d))))))"

section \<open>Inserts\<close>

definition new_email ::
  "uuid \<Rightarrow> uuid \<Rightarrow> string \<Rightarrow> string \<Rightarrow> uuid \<Rightarrow> time \<Rightarrow> string option \<Rightarrow> uuid option \<Rightarrow> bool \<Rightarrow> email_row" where
  "new_email eid alias_id sender subject body_key at message_id thread_id has_attachments =
     \<lparr>re_id = eid, re_alias_id = Some alias_id, re_sender = sender, re_subject = subject,
      re_body_key = body_key, re_viewed = False, re_forwarded = False, re_received_at = at,
      re_last_activity = at, re_message_id = message_id, re_thread_id = thread_id,
      re_has_attachments = has_attachments, re_is_favorite = False\<rparr>"

definition bump_root :: "uuid \<Rightarrow> time \<Rightarrow> db \<Rightarrow> db" where
  "bump_root root at d =
     d\<lparr>t_emails := update_rows (\<lambda>e. re_id e = root)
        (\<lambda>e. e\<lparr>re_last_activity := at, re_viewed := False\<rparr>) (t_emails d)\<rparr>"

definition bump_thread :: "uuid option \<Rightarrow> time \<Rightarrow> unit dbm" where
  "bump_thread thread_id at = (case thread_id of
     Some root \<Rightarrow> exec (bump_root root at)
   | None \<Rightarrow> db_return ())"

definition add_email :: "email_row \<Rightarrow> db \<Rightarrow> db" where
  "add_email e d = d\<lparr>t_emails := t_emails d @ [e]\<rparr>"

definition views_by_id :: "uuid \<Rightarrow> db \<Rightarrow> received_email list" where
  "views_by_id eid d = filter (\<lambda>v. rv_id v = eid) (received_views d)"

text \<open>\<open>WITH inserted AS (INSERT ... RETURNING *) SELECT ... JOIN\<close> is one statement, \<open>fetch_one\<close> on it
  fails when the join is empty.\<close>

definition insert_email_returning :: "email_row \<Rightarrow> received_email dbm" where
  "insert_email_returning e = stmt (\<lambda>d. case violation (email_constraints e d) of
     Some err \<Rightarrow> Inl err
   | None \<Rightarrow> (case views_of d e of [] \<Rightarrow> Inl RowNotFound | v # _ \<Rightarrow> Inr (v, add_email e d)))"

definition insert_email_row :: "email_row \<Rightarrow> unit dbm" where
  "insert_email_row e = insert_stmt (email_constraints e) (add_email e) (\<lambda>_. ())"

definition insert_email ::
  "uuid \<Rightarrow> time \<Rightarrow> uuid \<Rightarrow> string \<Rightarrow> string \<Rightarrow> uuid \<Rightarrow> time option \<Rightarrow> string option \<Rightarrow> uuid option
   \<Rightarrow> received_email dbm" where
  "insert_email fresh now alias_id sender subject body_key received_at message_id thread_id = (\<lambda>d.
     (let at = unwrap_or now received_at;
          e = new_email fresh alias_id sender subject body_key at message_id thread_id False
      in db_bind (bump_thread thread_id at) (\<lambda>_.
           case backend d of
             Postgres \<Rightarrow> insert_email_returning e
           | Sqlite \<Rightarrow> db_bind (insert_email_row e) (\<lambda>_. query_one (views_by_id fresh))) d))"

definition attachment_of :: "uuid \<Rightarrow> uuid \<Rightarrow> time \<Rightarrow> attachment_metadata \<Rightarrow> attachment_row" where
  "attachment_of aid eid at m =
     \<lparr>at_id = aid, at_email_id = eid, at_filename = am_filename m, at_content_type = am_content_type m,
      at_size_bytes = am_size_bytes m, at_part_index = am_part_index m, at_is_inline = am_is_inline m,
      at_content_id = am_content_id m, at_created_at = at, at_reply_id = None\<rparr>"

definition insert_attachment_row :: "attachment_row \<Rightarrow> unit dbm" where
  "insert_attachment_row a =
     insert_stmt (attachment_constraints a) (\<lambda>d. d\<lparr>t_attachments := t_attachments d @ [a]\<rparr>) (\<lambda>_. ())"

fun insert_attachment_rows :: "attachment_row list \<Rightarrow> unit dbm" where
  "insert_attachment_rows [] = db_return ()"
| "insert_attachment_rows (a # as) = db_bind (insert_attachment_row a) (\<lambda>_. insert_attachment_rows as)"

text \<open>\<open>fresh\<close> is the mail's id, \<open>fresh_atts\<close> the ids of the attachment rows.\<close>

definition insert_email_with_attachments ::
  "uuid \<Rightarrow> uuid list \<Rightarrow> time \<Rightarrow> uuid \<Rightarrow> string \<Rightarrow> string \<Rightarrow> uuid \<Rightarrow> time option \<Rightarrow> string option \<Rightarrow> uuid option
   \<Rightarrow> attachment_metadata list \<Rightarrow> received_email dbm" where
  "insert_email_with_attachments fresh fresh_atts now alias_id sender subject body_key received_at
      message_id thread_id attachments = (\<lambda>d.
     (let at = unwrap_or now received_at;
          has_attachments = list_ex (\<lambda>a. \<not> am_is_inline a) attachments;
          e = new_email fresh alias_id sender subject body_key at message_id thread_id has_attachments;
          rows = map2 (\<lambda>aid m. attachment_of aid fresh at m) fresh_atts attachments
      in transaction (db_bind (bump_thread thread_id at) (\<lambda>_.
           case backend d of
             Postgres \<Rightarrow> db_bind (insert_email_returning e) (\<lambda>email.
               db_bind (insert_attachment_rows rows) (\<lambda>_. db_return email))
           | Sqlite \<Rightarrow> db_bind (insert_email_row e) (\<lambda>_.
               db_bind (insert_attachment_rows rows) (\<lambda>_. query_one (views_by_id fresh))))) d))"

definition insert_attachment ::
  "time \<Rightarrow> uuid \<Rightarrow> uuid \<Rightarrow> string option \<Rightarrow> string option \<Rightarrow> int \<Rightarrow> nat \<Rightarrow> bool \<Rightarrow> string option \<Rightarrow> unit dbm" where
  "insert_attachment now aid email_id filename content_type size_bytes part_index is_inline content_id =
     insert_attachment_row
       \<lparr>at_id = aid, at_email_id = email_id, at_filename = filename, at_content_type = content_type,
        at_size_bytes = size_bytes, at_part_index = part_index, at_is_inline = is_inline,
        at_content_id = content_id, at_created_at = now, at_reply_id = None\<rparr>"

definition insert_reply_attachment ::
  "time \<Rightarrow> uuid \<Rightarrow> uuid \<Rightarrow> uuid \<Rightarrow> string option \<Rightarrow> string option \<Rightarrow> int \<Rightarrow> nat \<Rightarrow> unit dbm" where
  "insert_reply_attachment now aid email_id reply_id filename content_type size_bytes part_index =
     insert_attachment_row
       \<lparr>at_id = aid, at_email_id = email_id, at_filename = filename, at_content_type = content_type,
        at_size_bytes = size_bytes, at_part_index = part_index, at_is_inline = False,
        at_content_id = None, at_created_at = now, at_reply_id = Some reply_id\<rparr>"

section \<open>Updates and deletes\<close>

definition set_emails :: "(email_row \<Rightarrow> bool) \<Rightarrow> (email_row \<Rightarrow> email_row) \<Rightarrow> db \<Rightarrow> db" where
  "set_emails p f d = d\<lparr>t_emails := update_rows p f (t_emails d)\<rparr>"

definition count_emails :: "(db \<Rightarrow> email_row \<Rightarrow> bool) \<Rightarrow> db \<Rightarrow> nat" where
  "count_emails p d = length (filter (p d) (t_emails d))"

definition delete_attachments_for_email :: "uuid \<Rightarrow> unit dbm" where
  "delete_attachments_for_email email_id =
     exec (\<lambda>d. d\<lparr>t_attachments := filter (\<lambda>a. at_email_id a \<noteq> email_id) (t_attachments d)\<rparr>)"

definition own_email :: "uuid \<Rightarrow> uuid \<Rightarrow> db \<Rightarrow> email_row \<Rightarrow> bool" where
  "own_email email_id user_id d e = (re_id e = email_id \<and> owned_by d user_id e)"

definition delete_email_by_id :: "uuid \<Rightarrow> uuid \<Rightarrow> bool dbm" where
  "delete_email_by_id email_id user_id = db_bind
     (exec_count (count_emails (own_email email_id user_id))
       (\<lambda>d. purge_emails (map re_id (filter (own_email email_id user_id d) (t_emails d))) d))
     (\<lambda>n. db_return (n > 0))"

definition mark_email_as_forwarded :: "uuid \<Rightarrow> unit dbm" where
  "mark_email_as_forwarded email_id =
     exec (set_emails (\<lambda>e. re_id e = email_id) (\<lambda>e. e\<lparr>re_forwarded := True\<rparr>))"

definition set_email_viewed :: "uuid \<Rightarrow> uuid \<Rightarrow> bool \<Rightarrow> bool dbm" where
  "set_email_viewed email_id user_id viewed = db_bind
     (exec_count (count_emails (own_email email_id user_id))
       (\<lambda>d. set_emails (own_email email_id user_id d) (\<lambda>e. e\<lparr>re_viewed := viewed\<rparr>) d))
     (\<lambda>n. db_return (n > 0))"

definition mark_email_as_viewed :: "uuid \<Rightarrow> uuid \<Rightarrow> unit dbm" where
  "mark_email_as_viewed email_id user_id =
     db_bind (set_email_viewed email_id user_id True) (\<lambda>_. db_return ())"

definition own_emails :: "uuid list \<Rightarrow> uuid \<Rightarrow> db \<Rightarrow> email_row \<Rightarrow> bool" where
  "own_emails email_ids user_id d e = (re_id e \<in> set email_ids \<and> owned_by d user_id e)"

definition batch_set_emails_viewed :: "uuid list \<Rightarrow> uuid \<Rightarrow> bool \<Rightarrow> nat dbm" where
  "batch_set_emails_viewed email_ids user_id viewed =
     (if email_ids = [] then db_return 0
      else exec_count (count_emails (own_emails email_ids user_id))
        (\<lambda>d. set_emails (own_emails email_ids user_id d) (\<lambda>e. e\<lparr>re_viewed := viewed\<rparr>) d))"

definition toggle_received :: "uuid \<Rightarrow> uuid \<Rightarrow> bool option dbm" where
  "toggle_received email_id user_id = stmt (\<lambda>d.
     Inr (case filter (own_email email_id user_id d) (t_emails d) of
            [] \<Rightarrow> None | e # _ \<Rightarrow> Some (\<not> re_is_favorite e),
          set_emails (own_email email_id user_id d) (\<lambda>e. e\<lparr>re_is_favorite := \<not> re_is_favorite e\<rparr>) d))"

definition own_sent :: "uuid \<Rightarrow> uuid \<Rightarrow> sent_row \<Rightarrow> bool" where
  "own_sent email_id user_id s = (se_id s = email_id \<and> se_user_id s = user_id)"

definition toggle_sent :: "uuid \<Rightarrow> uuid \<Rightarrow> bool option dbm" where
  "toggle_sent email_id user_id = stmt (\<lambda>d.
     Inr (case filter (own_sent email_id user_id) (t_sent d) of
            [] \<Rightarrow> None | s # _ \<Rightarrow> Some (\<not> se_is_favorite s),
          d\<lparr>t_sent := update_rows (own_sent email_id user_id)
             (\<lambda>s. s\<lparr>se_is_favorite := \<not> se_is_favorite s\<rparr>) (t_sent d)\<rparr>))"

definition toggle_email_favorite :: "uuid \<Rightarrow> uuid \<Rightarrow> bool option dbm" where
  "toggle_email_favorite email_id user_id =
     db_bind (toggle_received email_id user_id) (\<lambda>received_res.
       case received_res of
         Some fav \<Rightarrow> db_return (Some fav)
       | None \<Rightarrow> toggle_sent email_id user_id)"

text \<open>Postgres compares instants. SQLite compares the stored RFC 3339 text with the text of \<open>datetime\<close>,
  which has a blank where RFC 3339 has a \<open>T\<close>: within the day of the cutoff no row is smaller, so the
  days are compared.\<close>

definition received_before :: "backend \<Rightarrow> time \<Rightarrow> time \<Rightarrow> bool" where
  "received_before b at cutoff = (case b of
     Postgres \<Rightarrow> at < cutoff
   | Sqlite \<Rightarrow> at div 86400 < cutoff div 86400)"

definition alias_user_with :: "db \<Rightarrow> (user_row \<Rightarrow> bool) \<Rightarrow> uuid option \<Rightarrow> bool" where
  "alias_user_with d p alias_id = list_ex (\<lambda>a. alias_id = Some (al_id a) \<and>
     list_ex (\<lambda>u. us_id u = al_user_id a \<and> p u) (t_users d)) (t_aliases d)"

definition thread_has_favorite :: "db \<Rightarrow> email_row \<Rightarrow> bool" where
  "thread_has_favorite d e = list_ex
     (\<lambda>t. (re_id t = thread_root e \<or> re_thread_id t = Some (thread_root e)) \<and> re_is_favorite t) (t_emails d)"

definition expired :: "time \<Rightarrow> db \<Rightarrow> email_row \<Rightarrow> bool" where
  "expired cutoff d e =
     (received_before (backend d) (re_received_at e) cutoff \<and>
      (re_alias_id e = None \<or> alias_user_with d (\<lambda>u. \<not> us_disable_autoclean u) (re_alias_id e)) \<and>
      \<not> (alias_user_with d us_is_admin (re_alias_id e) \<and> thread_has_favorite d e))"

definition purge_expired :: "time \<Rightarrow> db \<Rightarrow> db" where
  "purge_expired cutoff d = purge_emails (map re_id (filter (expired cutoff d) (t_emails d))) d"

definition delete_old_emails :: "time \<Rightarrow> int \<Rightarrow> uuid list dbm" where
  "delete_old_emails now retention_days = (\<lambda>d.
     (let cutoff = now - retention_days * 86400;
          keys = (\<lambda>d. map re_body_key (filter (expired cutoff d) (t_emails d)))
      in case backend d of
           Postgres \<Rightarrow> stmt (\<lambda>d. Inr (keys d, purge_expired cutoff d)) d
         | Sqlite \<Rightarrow> db_bind (query keys) (\<lambda>old_emails.
             db_bind (exec (purge_expired cutoff)) (\<lambda>_. db_return old_emails)) d))"

section \<open>Favourites\<close>

record favorite_email_row =
  fv_id :: uuid
  fv_alias_address :: string
  fv_correspondent :: string
  fv_subject :: string
  fv_date :: time
  fv_is_sent_folder :: bool
  fv_is_viewed :: bool
  fv_outbound_status :: "string option"
  fv_has_attachments :: bool
  fv_is_favorite :: bool

definition favorite_received ::
  "db \<Rightarrow> uuid \<Rightarrow> string option \<Rightarrow> string option \<Rightarrow> favorite_email_row list" where
  "favorite_received d user_id alias_address search =
     map (\<lambda>v. \<lparr>fv_id = rv_id v, fv_alias_address = rv_alias_address v, fv_correspondent = rv_sender v,
            fv_subject = rv_subject v, fv_date = rv_last_activity v, fv_is_sent_folder = False,
            fv_is_viewed = rv_viewed v, fv_outbound_status = None,
            fv_has_attachments = rv_has_attachments v, fv_is_favorite = rv_is_favorite v\<rparr>)
       (filter (\<lambda>v. inbox_matches d user_id alias_address search None v \<and> rv_is_favorite v) (received_views d))"

definition favorite_sent ::
  "db \<Rightarrow> uuid \<Rightarrow> string option \<Rightarrow> string option \<Rightarrow> favorite_email_row list" where
  "favorite_sent d user_id alias_address search =
     concat (map (\<lambda>s. map (\<lambda>(a, m).
          \<lparr>fv_id = se_id s, fv_alias_address = address_of a m, fv_correspondent = se_to s,
           fv_subject = se_subject s, fv_date = unwrap_or (se_created_at s) (se_sent_at s),
           fv_is_sent_folder = True, fv_is_viewed = True, fv_outbound_status = Some (se_status s),
           fv_has_attachments = se_has_attachments s, fv_is_favorite = se_is_favorite s\<rparr>)
         (filter (\<lambda>(a, m). al_id a = se_from_alias_id s \<and>
            opt_holds (\<lambda>addr. address_of a m = addr) alias_address) (alias_domains d)))
       (filter (\<lambda>s. se_user_id s = user_id \<and> se_is_favorite s \<and> se_status s \<noteq> ''draft'' \<and>
          opt_holds (\<lambda>q. search_matches d q (se_subject s) \<or> search_matches d q (se_to s)) search) (t_sent d)))"

definition get_favorite_emails_by_user_id ::
  "uuid \<Rightarrow> nat \<Rightarrow> nat \<Rightarrow> string option \<Rightarrow> string option \<Rightarrow> favorite_email_row list dbm" where
  "get_favorite_emails_by_user_id user_id limit offset alias_address search = query (\<lambda>d.
     page limit offset (sort_key (\<lambda>f. - fv_date f)
       (favorite_received d user_id alias_address search @ favorite_sent d user_id alias_address search)))"

definition get_favorite_email_count_by_user_id :: "uuid \<Rightarrow> string option \<Rightarrow> string option \<Rightarrow> nat dbm" where
  "get_favorite_email_count_by_user_id user_id alias_address search = (\<lambda>d.
     case backend d of
       Postgres \<Rightarrow> query (\<lambda>d. length (favorite_received d user_id alias_address search)
                               + length (favorite_sent d user_id alias_address search)) d
     | Sqlite \<Rightarrow> db_bind (query (\<lambda>d. length (favorite_received d user_id alias_address search))) (\<lambda>c1.
         db_bind (query (\<lambda>d. length (favorite_sent d user_id alias_address search))) (\<lambda>c2.
         db_return (c1 + c2))) d)"

section \<open>Integrity\<close>

lemma keeps_backend: "(\<And>b. keeps P (f b)) \<Longrightarrow> keeps P (\<lambda>d. f (backend d) d)"
  unfolding keeps_def by blast

lemma keeps_backend_case [keeps_rules]:
  "keeps P m \<Longrightarrow> keeps P n \<Longrightarrow> keeps P (case b of Postgres \<Rightarrow> m | Sqlite \<Rightarrow> n)"
  by (cases b) simp_all

lemma keeps_backend_fun:
  "keeps P m \<Longrightarrow> keeps P n \<Longrightarrow> keeps P (\<lambda>d. case backend d of Postgres \<Rightarrow> m d | Sqlite \<Rightarrow> n d)"
proof -
  assume m: "keeps P m" and n: "keeps P n"
  have "P d'" if "P d" "(case backend d of Postgres \<Rightarrow> m d | Sqlite \<Rightarrow> n d) = (r, d')" for d r d'
    using that keepsD [OF m that(1)] keepsD [OF n that(1)] by (cases "backend d") simp_all
  then show ?thesis unfolding keeps_def by blast
qed

lemma wf_set_emails:
  assumes "\<And>e. re_id (f e) = re_id e" "\<And>e. re_alias_id (f e) = re_alias_id e"
    "\<And>e. re_thread_id (f e) = re_thread_id e" and "db_wf d"
  shows "db_wf (set_emails p f d)"
proof -
  have "keys_wf (set_emails p f d)" using assms(4) unfolding db_wf_def
    by (simp add: keys_wf_def set_emails_def assms(1))
  moreover have "refs_wf (set_emails p f d)" using assms(4) unfolding db_wf_def
    by (simp add: refs_wf_def set_emails_def assms(1-3))
  ultimately show ?thesis by (simp add: db_wf_def)
qed

lemma bump_root_set: "bump_root root at = set_emails (\<lambda>e. re_id e = root) (\<lambda>e. e\<lparr>re_last_activity := at, re_viewed := False\<rparr>)"
  by (simp add: bump_root_def set_emails_def fun_eq_iff)

lemma wf_simple_filter:
  "db_wf d \<Longrightarrow> db_wf (d\<lparr>t_attachments := filter p (t_attachments d)\<rparr>)"
  by (simp add: wf_defs)

lemma keeps_bump [keeps_rules]: "keeps db_wf (bump_thread t at)"
  unfolding bump_thread_def bump_root_set by (intro keeps_rules) (simp_all add: wf_set_emails)

lemma keeps_insert_email_row [keeps_rules]: "keeps db_wf (insert_email_row e)"
  unfolding insert_email_row_def add_email_def by (intro keeps_rules) (simp_all add: wf_insert_email)

lemma keeps_insert_email_returning [keeps_rules]: "keeps db_wf (insert_email_returning e)"
  unfolding insert_email_returning_def add_email_def
  by (rule keeps_stmt) (auto simp: wf_insert_email split: option.splits list.splits)

lemma keeps_insert_attachment_row [keeps_rules]: "keeps db_wf (insert_attachment_row a)"
  unfolding insert_attachment_row_def by (intro keeps_rules) (simp_all add: wf_insert_attachment)

lemma keeps_insert_attachment_rows [keeps_rules]: "keeps db_wf (insert_attachment_rows as)"
  by (induction as) (auto intro!: keeps_rules)

lemma keeps_insert_email:
  "keeps db_wf (insert_email fresh now alias_id sender subject body_key received_at message_id thread_id)"
  unfolding insert_email_def Let_def
  by (rule keeps_backend) (intro keeps_rules; simp)

lemma keeps_insert_email_with_attachments:
  "keeps db_wf (insert_email_with_attachments fresh fresh_atts now alias_id sender subject body_key
     received_at message_id thread_id attachments)"
  unfolding insert_email_with_attachments_def Let_def
  by (rule keeps_backend) (intro keeps_rules; simp)

lemma keeps_mail_updates:
  "keeps db_wf (delete_attachments_for_email i)"
  "keeps db_wf (delete_email_by_id i u)"
  "keeps db_wf (mark_email_as_forwarded i)"
  "keeps db_wf (set_email_viewed i u v)"
  "keeps db_wf (mark_email_as_viewed i u)"
  "keeps db_wf (batch_set_emails_viewed is u v)"
proof -
  show 1: "keeps db_wf (set_email_viewed i u v)" for v
    unfolding set_email_viewed_def by (intro keeps_rules) (simp_all add: wf_set_emails)
  show "keeps db_wf (mark_email_as_viewed i u)"
    unfolding mark_email_as_viewed_def by (intro keeps_rules 1)
  show "keeps db_wf (delete_attachments_for_email i)"
    unfolding delete_attachments_for_email_def by (intro keeps_rules) (simp_all add: wf_simple_filter)
  show "keeps db_wf (delete_email_by_id i u)"
    unfolding delete_email_by_id_def by (intro keeps_rules) (simp_all add: wf_purge_emails)
  show "keeps db_wf (mark_email_as_forwarded i)"
    unfolding mark_email_as_forwarded_def by (intro keeps_rules) (simp_all add: wf_set_emails)
  show "keeps db_wf (batch_set_emails_viewed is u v)"
    unfolding batch_set_emails_viewed_def by (intro keeps_rules) (simp_all add: wf_set_emails)
qed

lemma keeps_toggle_email_favorite: "keeps db_wf (toggle_email_favorite i u)"
proof -
  have r: "keeps db_wf (toggle_received i u)"
    unfolding toggle_received_def by (rule keeps_stmt) (auto simp: wf_set_emails)
  have s: "keeps db_wf (toggle_sent i u)"
    unfolding toggle_sent_def
    by (rule keeps_stmt) (auto simp: wf_defs map_update_rows)
  show ?thesis unfolding toggle_email_favorite_def by (intro keeps_rules r s)
qed

lemma keeps_delete_old_emails: "keeps db_wf (delete_old_emails now days)"
proof -
  have p: "keeps db_wf (stmt (\<lambda>d. Inr (k d, purge_expired c d)))" for k :: "db \<Rightarrow> 'b" and c
    by (rule keeps_stmt) (auto simp: purge_expired_def wf_purge_emails)
  have e: "keeps db_wf (exec (purge_expired c))" for c
    by (intro keeps_rules) (simp_all add: purge_expired_def wf_purge_emails)
  show ?thesis unfolding delete_old_emails_def Let_def
    by (rule keeps_backend_fun) (intro keeps_rules p e; simp)+
qed

section \<open>What successful statements change\<close>

text \<open>\<open>m\<close> changes the tables by \<open>g\<close> whenever it succeeds, and \<open>g\<close> does not look at the schedule.\<close>

definition pure_change :: "(db \<Rightarrow> db) \<Rightarrow> bool" where
  "pure_change g = (\<forall>d fs. g (d\<lparr>db_faults := fs\<rparr>) = (g d)\<lparr>db_faults := fs\<rparr>)"

definition does :: "'a dbm \<Rightarrow> (db \<Rightarrow> db) \<Rightarrow> bool" where
  "does m g = (\<forall>d a d'. m d = (Inr a, d') \<longrightarrow> (\<exists>fs. d' = (g d)\<lparr>db_faults := fs\<rparr>))"

lemma doesD: "does m g \<Longrightarrow> m d = (Inr a, d') \<Longrightarrow> \<exists>fs. d' = (g d)\<lparr>db_faults := fs\<rparr>"
  unfolding does_def by blast

lemma faults_same [simp]: "d\<lparr>db_faults := db_faults d\<rparr> = d"
  by (cases d) simp

lemma does_stmt:
  assumes "\<And>d a d'. f d = Inr (a, d') \<Longrightarrow> d' = g d" "pure_change g"
  shows "does (stmt f) g"
  unfolding does_def
proof (intro allI impI)
  fix d a d'
  assume "stmt f d = (Inr a, d')"
  then have "f (d\<lparr>db_faults := tl (db_faults d)\<rparr>) = Inr (a, d')" by (simp add: stmt_Ok_iff)
  from assms(1) [OF this] assms(2) show "\<exists>fs. d' = (g d)\<lparr>db_faults := fs\<rparr>"
    by (auto simp: pure_change_def)
qed

lemma does_return: "does (db_return a) (\<lambda>d. d)"
proof -
  have "d' = d\<lparr>db_faults := db_faults d\<rparr>" if "db_return a d = (Inr b, d')" for d b d'
    using that by (simp add: db_return_def)
  then show ?thesis unfolding does_def by blast
qed

lemma does_bind:
  assumes m: "does m g" and f: "\<And>a. does (f a) h" and h: "pure_change h"
  shows "does (db_bind m f) (\<lambda>d. h (g d))"
  unfolding does_def
proof (intro allI impI)
  fix d b d'
  assume "db_bind m f d = (Inr b, d')"
  then obtain a d1 where 1: "m d = (Inr a, d1)" "f a d1 = (Inr b, d')" by (auto simp: db_bind_Ok_iff)
  from doesD [OF m 1(1)] doesD [OF f 1(2)] h show "\<exists>fs. d' = (h (g d))\<lparr>db_faults := fs\<rparr>"
    by (auto simp: pure_change_def)
qed

lemma does_query: "does (query f) (\<lambda>d. d)" "does (query_one g) (\<lambda>d. d)" "does (query_optional h) (\<lambda>d. d)"
  unfolding query_def query_one_def query_optional_def
  by (rule does_stmt; auto simp: pure_change_def split: list.splits)+

lemma does_exec: "pure_change g \<Longrightarrow> does (exec g) g"
  unfolding exec_def by (rule does_stmt) auto

lemma does_insert: "pure_change g \<Longrightarrow> does (insert_stmt c g res) g"
  unfolding insert_stmt_def by (rule does_stmt) (auto split: option.splits)

lemma does_transaction:
  assumes "does m g" "pure_change g"
  shows "does (transaction m) g"
proof -
  have id: "does (exec (\<lambda>d. d)) (\<lambda>d. d)" by (rule does_exec) (simp add: pure_change_def)
  have "\<exists>fs. d' = (g d)\<lparr>db_faults := fs\<rparr>" if run: "transaction m d = (Inr a, d')" for d a d'
  proof -
    from run obtain d1 d2 u v where s: "exec (\<lambda>d. d) d = (Inr u, d1)" "m d1 = (Inr a, d2)" "exec (\<lambda>d. d) d2 = (Inr v, d')"
      by (auto simp: transaction_def split: prod.splits sum.splits)
    from doesD [OF id s(1)] doesD [OF assms(1) s(2)] doesD [OF id s(3)] assms(2) show ?thesis
      by (auto simp: pure_change_def)
  qed
  then show ?thesis unfolding does_def by blast
qed

text \<open>A failed transaction leaves the tables as they were.\<close>

definition same_tables :: "db \<Rightarrow> db \<Rightarrow> bool" where
  "same_tables d d' = (d'\<lparr>db_faults := []\<rparr> = d\<lparr>db_faults := []\<rparr>)"

lemma transaction_Err: "transaction m d = (Inl e, d') \<Longrightarrow> same_tables d d'"
proof -
  assume run: "transaction m d = (Inl e, d')"
  have q: "same_tables x y" if "exec (\<lambda>d. d) x = (r, y)" for x y and r :: "sqlx_error + unit"
    using that by (auto simp: same_tables_def exec_def stmt_def Let_def split: if_splits)
  from run show ?thesis
    by (auto simp: transaction_def rollback_to_def same_tables_def split: prod.splits sum.splits dest!: q)
qed

definition add_attachments :: "attachment_row list \<Rightarrow> db \<Rightarrow> db" where
  "add_attachments as d = d\<lparr>t_attachments := t_attachments d @ as\<rparr>"

definition bump_opt :: "uuid option \<Rightarrow> time \<Rightarrow> db \<Rightarrow> db" where
  "bump_opt t at d = (case t of None \<Rightarrow> d | Some root \<Rightarrow> bump_root root at d)"

lemma pure_changes [simp]:
  "pure_change (add_email e)" "pure_change (bump_root root at)" "pure_change (bump_opt t at)"
  "pure_change (add_attachments as)" "pure_change (\<lambda>d. d)"
  "pure_change (\<lambda>d. d\<lparr>t_attachments := t_attachments d @ [a]\<rparr>)"
  by (auto simp: pure_change_def add_email_def bump_root_def bump_opt_def add_attachments_def split: option.splits)

lemma does_bump: "does (bump_thread t at) (bump_opt t at)"
proof (cases t)
  case None
  then have "bump_opt t at = (\<lambda>d. d)" by (simp add: bump_opt_def fun_eq_iff)
  then show ?thesis using None by (simp add: bump_thread_def does_return)
next
  case (Some root)
  then have "bump_opt t at = bump_root root at" by (simp add: bump_opt_def fun_eq_iff)
  then show ?thesis using Some by (simp add: bump_thread_def does_exec)
qed

lemma does_insert_email_row: "does (insert_email_row e) (add_email e)"
  unfolding insert_email_row_def by (rule does_insert) simp

lemma does_insert_email_returning: "does (insert_email_returning e) (add_email e)"
  unfolding insert_email_returning_def by (rule does_stmt) (auto split: option.splits list.splits)

lemma does_insert_attachment_rows: "does (insert_attachment_rows as) (add_attachments as)"
proof (induction as)
  case Nil
  have "add_attachments [] = (\<lambda>d. d)" by (auto simp: add_attachments_def fun_eq_iff)
  then show ?case by (simp add: does_return)
next
  case (Cons a as)
  have "does (insert_attachment_row a) (\<lambda>d. d\<lparr>t_attachments := t_attachments d @ [a]\<rparr>)"
    unfolding insert_attachment_row_def by (rule does_insert) simp
  from does_bind [OF this Cons.IH] have "does (insert_attachment_rows (a # as))
      (\<lambda>d. add_attachments as (d\<lparr>t_attachments := t_attachments d @ [a]\<rparr>))" by simp
  moreover have "(\<lambda>d. add_attachments as (d\<lparr>t_attachments := t_attachments d @ [a]\<rparr>)) = add_attachments (a # as)"
    by (simp add: add_attachments_def fun_eq_iff)
  ultimately show ?case by simp
qed

definition store_mail :: "email_row \<Rightarrow> attachment_row list \<Rightarrow> uuid option \<Rightarrow> time \<Rightarrow> db \<Rightarrow> db" where
  "store_mail e as t at d = add_attachments as (add_email e (bump_opt t at d))"

lemma pure_store_mail [simp]: "pure_change (store_mail e as t at)"
  by (auto simp: store_mail_def pure_change_def add_email_def bump_root_def bump_opt_def add_attachments_def
      split: option.splits)

lemma does_rows_then:
  assumes "does m (\<lambda>d. d)"
  shows "does (db_bind (insert_attachment_rows as) (\<lambda>_. m)) (add_attachments as)"
  using does_bind [OF does_insert_attachment_rows assms pure_changes(5)] by simp

lemma does_store_tail:
  "does (case b of
      Postgres \<Rightarrow> db_bind (insert_email_returning e) (\<lambda>email. db_bind (insert_attachment_rows as) (\<lambda>_. db_return email))
    | Sqlite \<Rightarrow> db_bind (insert_email_row e) (\<lambda>_. db_bind (insert_attachment_rows as) (\<lambda>_. query_one q)))
   (\<lambda>d. add_attachments as (add_email e d))"
proof (cases b)
  case Postgres
  then show ?thesis
    using does_bind [OF does_insert_email_returning does_rows_then [OF does_return] pure_changes(4)] by simp
next
  case Sqlite
  then show ?thesis
    using does_bind [OF does_insert_email_row does_rows_then [OF does_query(2)] pure_changes(4)] by simp
qed

lemma does_insert_email_with_attachments:
  assumes "at = unwrap_or now received_at"
  shows "does (insert_email_with_attachments fresh fresh_atts now alias_id sender subject body_key received_at
       message_id thread_id atts)
     (store_mail (new_email fresh alias_id sender subject body_key at message_id thread_id
         (list_ex (\<lambda>a. \<not> am_is_inline a) atts))
       (map2 (\<lambda>aid m. attachment_of aid fresh at m) fresh_atts atts) thread_id at)"
proof -
  let ?e = "new_email fresh alias_id sender subject body_key at message_id thread_id
      (list_ex (\<lambda>a. \<not> am_is_inline a) atts)"
  let ?as = "map2 (\<lambda>aid m. attachment_of aid fresh at m) fresh_atts atts"
  have h: "pure_change (\<lambda>d. add_attachments ?as (add_email ?e d))"
    by (simp add: pure_change_def add_attachments_def add_email_def)
  have m: "does (transaction (db_bind (bump_thread thread_id at) (\<lambda>_. case b of
        Postgres \<Rightarrow> db_bind (insert_email_returning ?e) (\<lambda>email. db_bind (insert_attachment_rows ?as) (\<lambda>_. db_return email))
      | Sqlite \<Rightarrow> db_bind (insert_email_row ?e) (\<lambda>_. db_bind (insert_attachment_rows ?as) (\<lambda>_. query_one (views_by_id fresh))))))
      (store_mail ?e ?as thread_id at)" for b
  proof (rule does_transaction)
    show "pure_change (store_mail ?e ?as thread_id at)" by simp
    from does_bind [OF does_bump does_store_tail h] show "does (db_bind (bump_thread thread_id at) (\<lambda>_. case b of
        Postgres \<Rightarrow> db_bind (insert_email_returning ?e) (\<lambda>email. db_bind (insert_attachment_rows ?as) (\<lambda>_. db_return email))
      | Sqlite \<Rightarrow> db_bind (insert_email_row ?e) (\<lambda>_. db_bind (insert_attachment_rows ?as) (\<lambda>_. query_one (views_by_id fresh)))))
      (store_mail ?e ?as thread_id at)"
      by (simp add: store_mail_def [abs_def])
  qed
  show ?thesis
    unfolding does_def insert_email_with_attachments_def Let_def assms [symmetric]
    using doesD [OF m] by blast
qed

section \<open>Properties\<close>

lemma stored_or_same:
  assumes run: "insert_email_with_attachments fresh fresh_atts now alias_id sender subject body_key received_at
       message_id thread_id atts d = (r, d')"
  shows "(case r of
      Inl e \<Rightarrow> same_tables d d'
    | Inr v \<Rightarrow> (let at = unwrap_or now received_at;
                   e = new_email fresh alias_id sender subject body_key at message_id thread_id
                         (list_ex (\<lambda>a. \<not> am_is_inline a) atts)
               in same_tables
                    (d\<lparr>t_emails := t_emails (bump_opt thread_id at d) @ [e],
                       t_attachments := t_attachments d @
                         map2 (\<lambda>aid m. attachment_of aid fresh at m) fresh_atts atts\<rparr>) d'))"
proof (cases r)
  case (Inl e)
  with run show ?thesis by (auto simp: insert_email_with_attachments_def Let_def dest: transaction_Err)
next
  case (Inr v)
  from doesD [OF does_insert_email_with_attachments [OF refl] run [unfolded Inr]]
  obtain fs where "d' = (store_mail (new_email fresh alias_id sender subject body_key (unwrap_or now received_at)
        message_id thread_id (list_ex (\<lambda>a. \<not> am_is_inline a) atts))
      (map2 (\<lambda>aid m. attachment_of aid fresh (unwrap_or now received_at) m) fresh_atts atts)
      thread_id (unwrap_or now received_at) d)\<lparr>db_faults := fs\<rparr>"
    by auto
  with Inr show ?thesis
    by (cases thread_id)
      (simp_all add: Let_def same_tables_def store_mail_def add_attachments_def add_email_def bump_opt_def
        bump_root_def)
qed

text \<open>C15: Storing a received mail is atomic. When \<open>insert_email_with_attachments\<close> fails, at whatever
  statement of the transaction, no table has changed; when it succeeds the mail is the last row of
  \<open>received_emails\<close> with its fields as given, every attachment has its row, the thread root (if any)
  is the only other row touched, and no other table has changed.\<close>
theorem store_mail_atomic:
  assumes run: "insert_email_with_attachments fresh fresh_atts now alias_id sender subject body_key received_at
       message_id thread_id atts d = (r, d')"
  shows "(case r of
      Inl e \<Rightarrow> same_tables d d'
    | Inr v \<Rightarrow> (let at = unwrap_or now received_at;
                   e = new_email fresh alias_id sender subject body_key at message_id thread_id
                         (list_ex (\<lambda>a. \<not> am_is_inline a) atts)
               in same_tables
                    (d\<lparr>t_emails := t_emails (bump_opt thread_id at d) @ [e],
                       t_attachments := t_attachments d @
                         map2 (\<lambda>aid m. attachment_of aid fresh at m) fresh_atts atts\<rparr>) d'))"
  by (rule stored_or_same [OF run])

section \<open>Threads\<close>

text \<open>Conversations are one level deep: the \<open>thread_id\<close> of a mail names a mail that has none.\<close>

definition is_root :: "email_row list \<Rightarrow> uuid \<Rightarrow> bool" where
  "is_root rows i = list_ex (\<lambda>r. re_id r = i \<and> re_thread_id r = None) rows"

definition flat_threads :: "db \<Rightarrow> bool" where
  "flat_threads d = list_all (\<lambda>e. case re_thread_id e of None \<Rightarrow> True | Some t \<Rightarrow> is_root (t_emails d) t) (t_emails d)"

lemma flat_threads_iff:
  "flat_threads d \<longleftrightarrow> (\<forall>e \<in> set (t_emails d). \<forall>t. re_thread_id e = Some t \<longrightarrow>
     (\<exists>r \<in> set (t_emails d). re_id r = t \<and> re_thread_id r = None))"
  by (fastforce simp: flat_threads_def is_root_def list_all_iff list_ex_iff split: option.splits)

lemma flat_faults [simp]: "flat_threads (d\<lparr>db_faults := fs\<rparr>) = flat_threads d"
  by (simp add: flat_threads_iff)

lemma query_optional_Some:
  "query_optional h d = (Inr (Some a), d') \<Longrightarrow> a \<in> set (h (d\<lparr>db_faults := tl (db_faults d)\<rparr>))"
  by (auto simp: query_optional_def stmt_Ok_iff split: list.splits)

lemma query_optional_db:
  "query_optional h d = (r, d') \<Longrightarrow> d' = d\<lparr>db_faults := tl (db_faults d)\<rparr>"
  by (auto simp: query_optional_def stmt_def Let_def split: if_splits list.splits)

lemma thread_root_is_root:
  "flat_threads d \<Longrightarrow> e \<in> set (t_emails d) \<Longrightarrow>
   \<exists>r \<in> set (t_emails d). re_id r = thread_root e \<and> re_thread_id r = None"
  by (cases "re_thread_id e") (auto simp: flat_threads_iff thread_root_def)

lemma find_thread_root:
  assumes "flat_threads d" and run: "find_thread_id_by_references references d = (Inr (Some t), d')"
  shows "\<exists>r \<in> set (t_emails d). re_id r = t \<and> re_thread_id r = None"
proof -
  have "\<exists>e \<in> set (t_emails d). t = thread_root e"
  proof -
    let ?h1 = "\<lambda>d. map thread_root (filter (\<lambda>e. in_references references (re_message_id e)) (t_emails d))"
    let ?h2 = "\<lambda>d. concat (map (\<lambda>r. map thread_root (filter (\<lambda>e. re_id e = rp_email_id r) (t_emails d)))
             (filter (\<lambda>r. in_references references (rp_message_id r)) (t_replies d)))"
    have "references \<noteq> []" using run by (auto simp: find_thread_id_by_references_def db_return_def)
    with run obtain root d1 where q1: "query_optional ?h1 d = (Inr root, d1)"
      and rest: "(case root of Some i \<Rightarrow> db_return (Some i) | None \<Rightarrow> query_optional ?h2) d1 = (Inr (Some t), d')"
      by (auto simp: find_thread_id_by_references_def db_bind_Ok_iff)
    show ?thesis
    proof (cases root)
      case (Some i)
      with rest query_optional_Some [of ?h1 d i d1] q1 show ?thesis by (auto simp: db_return_def)
    next
      case None
      with rest query_optional_Some [of ?h2 d1 t d'] query_optional_db [OF q1] show ?thesis by auto
    qed
  qed
  with thread_root_is_root [OF assms(1)] show ?thesis by blast
qed

lemma find_thread_tables:
  "find_thread_id_by_references references d = (r, d') \<Longrightarrow> t_emails d' = t_emails d"
  unfolding find_thread_id_by_references_def db_bind_def db_return_def
  by (auto dest!: query_optional_db split: if_splits prod.splits sum.splits option.splits)

lemma flat_store_mail:
  assumes "flat_threads d" "\<And>t. thread = Some t \<Longrightarrow> \<exists>r \<in> set (t_emails d). re_id r = t \<and> re_thread_id r = None"
  shows "flat_threads (store_mail (new_email fresh a s sub k at m thread ha) as thread at d)"
proof -
  let ?E = "t_emails (bump_opt thread at d)"
  have same: "(\<exists>r \<in> set ?E. re_id r = t \<and> re_thread_id r = None) \<longleftrightarrow>
      (\<exists>r \<in> set (t_emails d). re_id r = t \<and> re_thread_id r = None)" for t
  proof -
    have h: "(\<exists>r \<in> set rows. re_id r = t \<and> re_thread_id r = None) \<longleftrightarrow>
        has (\<lambda>r. (re_id r, re_thread_id r)) rows (t, None)" for rows by (simp add: has_iff)
    show ?thesis unfolding h by (cases thread) (simp_all add: bump_opt_def bump_root_def)
  qed
  have refs: "\<exists>e' \<in> set (t_emails d). re_thread_id e' = re_thread_id e" if "e \<in> set ?E" for e
    using that by (cases thread) (auto simp: bump_opt_def bump_root_def update_rows_def split: if_splits)
  show ?thesis
    unfolding flat_threads_iff
  proof (intro ballI allI impI)
    fix e t
    assume e: "e \<in> set (t_emails (store_mail (new_email fresh a s sub k at m thread ha) as thread at d))"
      and t: "re_thread_id e = Some t"
    have "e \<in> set ?E \<or> e = new_email fresh a s sub k at m thread ha"
      using e by (auto simp: store_mail_def add_attachments_def add_email_def)
    then have "\<exists>r \<in> set (t_emails d). re_id r = t \<and> re_thread_id r = None"
      using assms refs [of e] t by (auto simp: flat_threads_iff new_email_def)
    then have "\<exists>r \<in> set ?E. re_id r = t \<and> re_thread_id r = None" by (simp only: same)
    then show "\<exists>r \<in> set (t_emails (store_mail (new_email fresh a s sub k at m thread ha) as thread at d)).
        re_id r = t \<and> re_thread_id r = None"
      by (auto simp: store_mail_def add_attachments_def add_email_def)
  qed
qed

text \<open>Conversations stay flat. When a received mail is stored under the thread that
  \<open>find_thread_id_by_references\<close> finds for it, the thread it names is a root: no conversation ever gets a
  second level, so the two-level queries of the inbox (roots, then children) show every mail.\<close>
theorem stored_mail_threads_flat:
  assumes flat: "flat_threads d" and f: "find_thread_id_by_references references d = (r1, d1)"
    and s: "insert_email_with_attachments fresh fresh_atts now alias_id sender subject body_key received_at
       message_id (case r1 of Inl _ \<Rightarrow> None | Inr t \<Rightarrow> t) atts d1 = (r2, d2)"
  shows "flat_threads d2"
proof -
  have e1: "t_emails d1 = t_emails d" using find_thread_tables [OF f] .
  then have flat1: "flat_threads d1" using flat by (simp add: flat_threads_iff)
  have root: "\<exists>r \<in> set (t_emails d1). re_id r = t \<and> re_thread_id r = None"
    if "(case r1 of Inl _ \<Rightarrow> None | Inr t \<Rightarrow> t) = Some t" for t
    using that find_thread_root [OF flat, of references t d1] f e1 by (cases r1) auto
  show ?thesis
  proof (cases r2)
    case (Inl e)
    with stored_or_same [OF s] have "t_emails d2 = t_emails d1"
      by (auto simp: same_tables_def dest: arg_cong [where f = t_emails])
    with flat1 show ?thesis by (simp add: flat_threads_iff)
  next
    case (Inr v)
    from doesD [OF does_insert_email_with_attachments [OF refl] s [unfolded Inr]]
      flat_store_mail [OF flat1 root] show ?thesis by auto
  qed
qed

section \<open>Deleting and cleaning up\<close>

lemma closure_flat:
  assumes flat: "flat_threads d" and ids: "uniq re_id (t_emails d)"
    and inv: "\<forall>i \<in> set js. i \<in> set roots \<or> (\<exists>c \<in> set (t_emails d). re_id c = i \<and> opt_in (re_thread_id c) roots)"
    and i: "i \<in> set (closure_rounds n (t_emails d) js)"
  shows "i \<in> set roots \<or> (\<exists>c \<in> set (t_emails d). re_id c = i \<and> opt_in (re_thread_id c) roots)"
  using inv i
proof (induction n arbitrary: js)
  case (Suc n)
  let ?new = "map re_id (filter (\<lambda>r. (case re_thread_id r of None \<Rightarrow> False | Some t \<Rightarrow> t \<in> set js) \<and> re_id r \<notin> set js) (t_emails d))"
  have "\<forall>i \<in> set (js @ ?new). i \<in> set roots \<or> (\<exists>c \<in> set (t_emails d). re_id c = i \<and> opt_in (re_thread_id c) roots)"
  proof
    fix i
    assume "i \<in> set (js @ ?new)"
    then consider "i \<in> set js" | r t where "r \<in> set (t_emails d)" "re_id r = i" "re_thread_id r = Some t" "t \<in> set js"
      by (auto split: option.splits)
    then show "i \<in> set roots \<or> (\<exists>c \<in> set (t_emails d). re_id c = i \<and> opt_in (re_thread_id c) roots)"
    proof cases
      case 1
      with Suc.prems(1) show ?thesis by blast
    next
      case 2
      from flat 2 obtain q where q: "q \<in> set (t_emails d)" "re_id q = t" "re_thread_id q = None"
        by (auto simp: flat_threads_iff)
      have "t \<in> set roots"
      proof (rule ccontr)
        assume "t \<notin> set roots"
        with Suc.prems(1) 2(4) obtain c where c: "c \<in> set (t_emails d)" "re_id c = t" "opt_in (re_thread_id c) roots"
          by blast
        with q ids have "c = q" by (auto simp: uniq_def distinct_map inj_on_def)
        with c q show False by (simp add: opt_in_def)
      qed
      with 2 show ?thesis by (auto simp: opt_in_def)
    qed
  qed
  with Suc.IH [OF this] Suc.prems(2) show ?case by simp
qed simp

lemma thread_closure_flat:
  assumes "flat_threads d" "uniq re_id (t_emails d)" "r \<in> set (t_emails d)"
  shows "re_id r \<in> set (thread_closure (t_emails d) roots) \<longleftrightarrow> re_id r \<in> set roots \<or> opt_in (re_thread_id r) roots"
proof
  assume "re_id r \<in> set (thread_closure (t_emails d) roots)"
  with closure_flat [OF assms(1,2), of roots roots "re_id r"] assms
  show "re_id r \<in> set roots \<or> opt_in (re_thread_id r) roots"
    by (auto simp: thread_closure_def uniq_def distinct_map inj_on_def)
next
  assume *: "re_id r \<in> set roots \<or> opt_in (re_thread_id r) roots"
  show "re_id r \<in> set (thread_closure (t_emails d) roots)"
  proof (cases "re_id r \<in> set roots")
    case True
    then show ?thesis by (rule thread_closure_extends)
  next
    case False
    with * have "opt_in (re_thread_id r) (thread_closure (t_emails d) roots)"
      using thread_closure_extends by (auto simp: opt_in_def split: option.splits)
    with thread_closure_closed [of "t_emails d" roots] assms(3) show ?thesis
      by (auto simp: closed_under_threads_def list_all_iff)
  qed
qed

lemma purge_emails_flat:
  assumes "flat_threads d" "uniq re_id (t_emails d)"
  shows "t_emails (purge_emails roots d) =
     filter (\<lambda>r. re_id r \<notin> set roots \<and> \<not> opt_in (re_thread_id r) roots) (t_emails d)"
proof -
  have "t_emails (purge_emails roots d) =
      filter (\<lambda>r. re_id r \<notin> set (thread_closure (t_emails d) roots)) (t_emails d)"
    by (simp add: purge_emails_def purge_replies_def Let_def)
  also have "\<dots> = filter (\<lambda>r. re_id r \<notin> set roots \<and> \<not> opt_in (re_thread_id r) roots) (t_emails d)"
    using thread_closure_flat [OF assms] by (intro filter_cong) auto
  finally show ?thesis .
qed

definition root_expired :: "time \<Rightarrow> db \<Rightarrow> email_row \<Rightarrow> bool" where
  "root_expired cutoff d e = list_ex (\<lambda>r. re_thread_id e = Some (re_id r) \<and> expired cutoff d r) (t_emails d)"

text \<open>The retention job. When \<open>delete_old_emails\<close> succeeds, the mails left are exactly those that
  are not expired and whose conversation root is not expired either; the body keys it returns, from
  which the caller deletes the files, are those of the expired mails only. So the mails it deletes
  because their root has expired leave their files behind.\<close>
theorem retention_deletes_and_returns:
  assumes wf: "db_wf d" and flat: "flat_threads d"
    and run: "delete_old_emails now days d = (Ok keys, d')"
  shows "t_emails d' = filter (\<lambda>e. \<not> expired (now - days * 86400) d e \<and> \<not> root_expired (now - days * 86400) d e) (t_emails d) \<and>
     keys = map re_body_key (filter (expired (now - days * 86400) d) (t_emails d))"
proof -
  let ?c = "now - days * 86400"
  have ef: "expired c (x\<lparr>db_faults := fs\<rparr>) = expired c x" for c x fs
    by (simp add: fun_eq_iff expired_def alias_user_with_def thread_has_favorite_def)
  have u: "uniq re_id (t_emails d)" using wf by (simp add: wf_defs)
  have faults: "flat_threads x" "uniq re_id (t_emails x)" "t_emails x = t_emails d"
    "filter (expired ?c x) (t_emails x) = filter (expired ?c d) (t_emails d)"
    if "x = d\<lparr>db_faults := fs\<rparr>" for x fs
    using that flat u by (simp_all add: ef)
  have purge: "t_emails (purge_expired ?c x) =
      filter (\<lambda>e. \<not> expired ?c d e \<and> \<not> root_expired ?c d e) (t_emails d)" if x: "x = d\<lparr>db_faults := fs\<rparr>" for x fs
  proof -
    have "t_emails (purge_expired ?c x) = filter (\<lambda>r. re_id r \<notin> set (map re_id (filter (expired ?c d) (t_emails d))) \<and>
        \<not> opt_in (re_thread_id r) (map re_id (filter (expired ?c d) (t_emails d)))) (t_emails d)"
      unfolding purge_expired_def faults(4) [OF x]
      by (simp only: purge_emails_flat [OF faults(1) [OF x] faults(2) [OF x]] faults(3) [OF x])
    also have "\<dots> = filter (\<lambda>e. \<not> expired ?c d e \<and> \<not> root_expired ?c d e) (t_emails d)"
    proof (rule filter_cong [OF refl])
      fix e
      assume e: "e \<in> set (t_emails d)"
      have "re_id e \<in> set (map re_id (filter (expired ?c d) (t_emails d))) \<longleftrightarrow> expired ?c d e"
        using e u by (auto simp: uniq_def distinct_map inj_on_def image_iff)
      moreover have "opt_in (re_thread_id e) (map re_id (filter (expired ?c d) (t_emails d))) \<longleftrightarrow> root_expired ?c d e"
        by (auto simp: opt_in_def root_expired_def list_ex_iff split: option.splits)
      ultimately show "(re_id e \<notin> set (map re_id (filter (expired ?c d) (t_emails d))) \<and>
          \<not> opt_in (re_thread_id e) (map re_id (filter (expired ?c d) (t_emails d)))) =
          (\<not> expired ?c d e \<and> \<not> root_expired ?c d e)" by blast
    qed
    finally show ?thesis .
  qed
  show ?thesis
  proof (cases "backend d")
    case Postgres
    with run show ?thesis using purge [OF refl] faults(4) [OF refl]
      by (auto simp: delete_old_emails_def Let_def stmt_Ok_iff)
  next
    case Sqlite
    with run obtain d1 fs where q: "keys = map re_body_key (filter (expired ?c d) (t_emails d))"
      "d1 = d\<lparr>db_faults := fs\<rparr>" "exec (purge_expired ?c) d1 = (Ok (), d')"
      using faults(4) [OF refl]
      by (auto simp: delete_old_emails_def Let_def db_bind_Ok_iff query_def stmt_Ok_iff db_return_def)
    have "d' = purge_expired ?c (d\<lparr>db_faults := tl fs\<rparr>)" using q(2,3) by (auto simp: exec_def stmt_Ok_iff)
    with q(1) purge [OF refl] show ?thesis by simp
  qed
qed

section \<open>Tenants\<close>

text \<open>The database as the other users see it: without the mails and sent mails of \<open>user\<close>.\<close>

definition seen_by_others :: "uuid \<Rightarrow> db \<Rightarrow> db" where
  "seen_by_others user d =
     d\<lparr>t_emails := filter (\<lambda>e. \<not> owned_by d user e) (t_emails d),
       t_sent := filter (\<lambda>s. se_user_id s \<noteq> user) (t_sent d), db_faults := []\<rparr>"

lemma filter_update_rows:
  assumes "\<And>r. p r \<Longrightarrow> \<not> q r" "\<And>r. q (f r) = q r"
  shows "filter q (update_rows p f rows) = filter q rows"
  by (induction rows) (auto simp: update_rows_def assms)

lemma seen_set_emails:
  assumes "\<And>e. p e \<Longrightarrow> owned_by d user e" "\<And>e. re_alias_id (f e) = re_alias_id e"
  shows "seen_by_others user (set_emails p f d) = seen_by_others user d"
proof -
  have o: "owned_by (d\<lparr>t_emails := rows\<rparr>) user = owned_by d user" for rows
    by (simp add: fun_eq_iff owned_by_def aliases_of_user_def)
  have "filter (\<lambda>e. \<not> owned_by d user e) (update_rows p f (t_emails d)) =
      filter (\<lambda>e. \<not> owned_by d user e) (t_emails d)"
    using assms by (intro filter_update_rows) (auto simp: owned_by_def)
  then show ?thesis by (simp add: seen_by_others_def set_emails_def o)
qed

lemma seen_own:
  assumes "\<And>e. re_alias_id (f e) = re_alias_id e"
  shows "seen_by_others user (set_emails (own_email i user d) f d) = seen_by_others user d"
    and "seen_by_others user (set_emails (own_emails is user d) f d) = seen_by_others user d"
  by (rule seen_set_emails [OF _ assms], simp add: own_email_def own_emails_def)+

lemma on_tables_seen: "on_tables (\<lambda>x. seen_by_others user x = y)"
  by (simp add: on_tables_def seen_by_others_def owned_by_def [abs_def] aliases_of_user_def)

lemma keeps_seen_viewed: "keeps (\<lambda>x. seen_by_others user x = y) (set_email_viewed i user v)"
  unfolding set_email_viewed_def
  by (intro keeps_rules on_tables_seen) (simp add: seen_own)

lemma keeps_seen_batch: "keeps (\<lambda>x. seen_by_others user x = y) (batch_set_emails_viewed is user v)"
  unfolding batch_set_emails_viewed_def
  by (intro keeps_rules on_tables_seen) (simp add: seen_own)

lemma keeps_seen_toggle: "keeps (\<lambda>x. seen_by_others user x = y) (toggle_email_favorite i user)"
proof -
  have r: "keeps (\<lambda>x. seen_by_others user x = y) (toggle_received i user)"
    unfolding toggle_received_def
    by (rule keeps_stmt [OF on_tables_seen]) (auto simp: seen_own)
  have s: "keeps (\<lambda>x. seen_by_others user x = y) (toggle_sent i user)"
    unfolding toggle_sent_def
  proof (rule keeps_stmt [OF on_tables_seen])
    fix d a d'
    assume y: "seen_by_others user d = y"
      and e: "Inr (case filter (own_sent i user) (t_sent d) of [] \<Rightarrow> None | s # _ \<Rightarrow> Some (\<not> se_is_favorite s),
          d\<lparr>t_sent := update_rows (own_sent i user) (\<lambda>s. s\<lparr>se_is_favorite := \<not> se_is_favorite s\<rparr>) (t_sent d)\<rparr>)
        = (Inr (a, d') :: sqlx_error + _)"
    have "filter (\<lambda>s. se_user_id s \<noteq> user)
        (update_rows (own_sent i user) (\<lambda>s. s\<lparr>se_is_favorite := \<not> se_is_favorite s\<rparr>) (t_sent d)) =
      filter (\<lambda>s. se_user_id s \<noteq> user) (t_sent d)"
      by (rule filter_update_rows) (auto simp: own_sent_def)
    with y e show "seen_by_others user d' = y"
      by (auto simp: seen_by_others_def owned_by_def [abs_def] aliases_of_user_def)
  qed
  show ?thesis unfolding toggle_email_favorite_def by (intro keeps_rules r s)
qed

text \<open>A user's flag updates stay in the user's mailbox. Whatever ids are passed, and whether or not a
  statement fails, \<open>set_email_viewed\<close>, \<open>batch_set_emails_viewed\<close> and \<open>toggle_email_favorite\<close>
  leave every mail and sent mail of every other user, and all other tables, unchanged.\<close>
theorem flag_updates_stay_in_mailbox:
  "seen_by_others user (snd (set_email_viewed i user v d)) = seen_by_others user d \<and>
   seen_by_others user (snd (batch_set_emails_viewed is user v d)) = seen_by_others user d \<and>
   seen_by_others user (snd (toggle_email_favorite i user d)) = seen_by_others user d"
  using keeps_snd [OF keeps_seen_viewed refl] keeps_snd [OF keeps_seen_batch refl]
    keeps_snd [OF keeps_seen_toggle refl] by blast

lemma exec_count_Ok:
  "exec_count n g d = (Inr k, d') \<Longrightarrow>
   \<exists>fs. k = n (d\<lparr>db_faults := fs\<rparr>) \<and> d' = g (d\<lparr>db_faults := fs\<rparr>)"
  by (auto simp: exec_count_def stmt_Ok_iff)

text \<open>Deleting a mail. A successful \<open>delete_email_by_id\<close> reports whether the user owns a mail of that
  id; it removes that mail together with every mail of its conversation below it, through
  \<open>ON DELETE CASCADE\<close> and whoever owns those mails, and no other mail.\<close>
theorem delete_takes_the_thread:
  assumes wf: "db_wf d" and flat: "flat_threads d"
    and run: "delete_email_by_id i user d = (Inr b, d')"
  shows "b = list_ex (own_email i user d) (t_emails d) \<and>
    t_emails d' = filter (\<lambda>e. \<not> (b \<and> (re_id e = i \<or> re_thread_id e = Some i))) (t_emails d)"
proof -
  have u: "uniq re_id (t_emails d)" using wf by (simp add: wf_defs)
  from run obtain n where e: "exec_count (count_emails (own_email i user))
      (\<lambda>d. purge_emails (map re_id (filter (own_email i user d) (t_emails d))) d) d = (Inr n, d')" and b: "b = (n > 0)"
    by (auto simp: delete_email_by_id_def db_bind_Ok_iff db_return_def)
  let ?own = "filter (own_email i user d) (t_emails d)"
  have o: "own_email i user (d\<lparr>db_faults := fs\<rparr>) = own_email i user d" for fs
    by (simp add: fun_eq_iff own_email_def owned_by_def aliases_of_user_def)
  from exec_count_Ok [OF e] obtain fs where n: "n = length ?own"
    and d': "d' = purge_emails (map re_id ?own) (d\<lparr>db_faults := fs\<rparr>)"
    by (auto simp: count_emails_def o)
  have bx: "b = list_ex (own_email i user d) (t_emails d)"
    by (simp add: b n list_ex_iff filter_empty_conv)
  have ids: "j \<in> set (map re_id ?own) \<longleftrightarrow> b \<and> j = i" for j
    by (auto simp: bx list_ex_iff own_email_def)
  have "t_emails d' = filter (\<lambda>r. re_id r \<notin> set (map re_id ?own) \<and> \<not> opt_in (re_thread_id r) (map re_id ?own)) (t_emails d)"
    unfolding d' using flat u by (subst purge_emails_flat) simp_all
  also have "\<dots> = filter (\<lambda>e. \<not> (b \<and> (re_id e = i \<or> re_thread_id e = Some i))) (t_emails d)"
    using ids by (intro filter_cong) (auto simp: opt_in_def split: option.splits)
  finally show ?thesis using bx by simp
qed

lemma received_views_faults [simp]: "received_views (d\<lparr>db_faults := fs\<rparr>) = received_views d"
proof -
  have "views_of (d\<lparr>db_faults := fs\<rparr>) = views_of d"
    by (simp add: fun_eq_iff views_of_def alias_domains_def)
  then show ?thesis by (simp add: received_views_def)
qed

lemma alias_domains_iff:
  "(a, m) \<in> set (alias_domains d) \<longleftrightarrow> a \<in> set (t_aliases d) \<and> m \<in> set (t_domains d) \<and> dm_id m = al_domain_id a"
  by (auto simp: alias_domains_def)

lemma views_of_alias:
  assumes "a \<in> set (t_aliases d)" "db_wf d" "re_alias_id e = Some (al_id a)"
  shows "\<exists>m. view_email e (a, m) \<in> set (views_of d e)"
proof -
  from assms(1,2) obtain m where "m \<in> set (t_domains d)" "dm_id m = al_domain_id a"
    by (auto simp: wf_defs refs_iff has_iff)
  with assms(1,3) have "(a, m) \<in> set (filter (\<lambda>(a, m). re_alias_id e = Some (al_id a)) (alias_domains d))"
    by (simp add: alias_domains_iff)
  then show ?thesis unfolding views_of_def by fastforce
qed

text \<open>Conversations are not separated by user. A mail stored under the thread root \<open>t\<close> is among
  the mails \<open>get_child_emails t\<close> returns, under its own alias and its own owner, whoever
  owns the root: neither \<open>find_thread_id_by_references\<close> nor \<open>get_child_emails\<close> asks for the user.\<close>
theorem threads_cross_users:
  assumes wf: "db_wf d" and a: "a \<in> set (t_aliases d)"
    and f: "find_thread_id_by_references references d = (Inr (Some t), d1)"
    and s: "insert_email_with_attachments fresh fresh_atts now (al_id a) sender subject body_key received_at
       message_id (Some t) atts d1 = (Inr v, d2)"
    and c: "get_child_emails t d2 = (Inr vs, d3)"
  shows "\<exists>v' \<in> set vs. rv_id v' = fresh \<and> rv_user_id v' = al_user_id a \<and> rv_subject v' = subject"
proof -
  have d1: "\<exists>fs. d1 = d\<lparr>db_faults := fs\<rparr>"
    using f unfolding find_thread_id_by_references_def
    by (auto simp: db_bind_Ok_iff db_return_def split: if_splits option.splits dest!: query_optional_db)
  let ?e = "new_email fresh (al_id a) sender subject body_key (unwrap_or now received_at) message_id (Some t)
      (list_ex (\<lambda>a. \<not> am_is_inline a) atts)"
  have e2: "?e \<in> set (t_emails d2)" and a2: "a \<in> set (t_aliases d2)"
    using doesD [OF does_insert_email_with_attachments [OF refl] s] d1 a
    by (auto simp: store_mail_def add_attachments_def add_email_def bump_opt_def bump_root_def)
  have wf2: "db_wf d2"
    using keepsD [OF keeps_insert_email_with_attachments _ s] d1 wf by auto
  have vs: "vs = sort_key rv_received_at (filter (\<lambda>v. rv_thread_id v = Some t) (received_views d2))"
    using c by (auto simp: get_child_emails_def query_def stmt_Ok_iff)
  from views_of_alias [OF a2 wf2, of ?e] obtain m where m: "view_email ?e (a, m) \<in> set (views_of d2 ?e)"
    by (auto simp: new_email_def)
  have "view_email ?e (a, m) \<in> set vs"
    unfolding vs using e2 m by (auto simp: received_views_def view_email_def new_email_def)
  then show ?thesis by (rule rev_bexI) (simp add: view_email_def new_email_def)
qed

section \<open>A sample database\<close>

text \<open>Two users with one alias each on one domain, and a mail to the first user's alias.\<close>

definition sample_user :: "uuid \<Rightarrow> string \<Rightarrow> user_row" where
  "sample_user i email = \<lparr>us_id = i, us_email = email, us_password_hash = ''hash'', us_is_admin = False,
     us_bypass_alias_limit = False, us_disable_autoclean = False, us_can_send_firsthand = False,
     us_created_at = 0, us_updated_at = 0, us_last_login_at = None, us_last_login_ip = None\<rparr>"

definition sample_domain :: domain_row where
  "sample_domain = \<lparr>dm_id = ''d1'', dm_name = ''x.org'', dm_active = True, dm_created_at = 0,
     dm_dkim_private = None, dm_dkim_public = None, dm_dkim_selector = ''default'',
     dm_pending_private = None, dm_pending_public = None, dm_pending_selector = None\<rparr>"

definition sample_alias :: "uuid \<Rightarrow> uuid \<Rightarrow> string \<Rightarrow> alias_row" where
  "sample_alias i user sub = \<lparr>al_id = i, al_user_id = user, al_domain_id = ''d1'', al_subdomain = sub,
     al_destination = ''me@home.org'', al_auto_forward = True, al_active = True, al_created_at = 0\<rparr>"

definition sample_mail :: email_row where
  "sample_mail = new_email ''e1'' ''a1'' ''bob@y.org'' ''hi'' ''k1'' 0 (Some ''m1'') None False"

definition sample_db :: "backend \<Rightarrow> db" where
  "sample_db b = (empty_db b)\<lparr>t_users := [sample_user ''u1'' ''u@x.org'', sample_user ''u2'' ''v@x.org''],
     t_domains := [sample_domain],
     t_aliases := [sample_alias ''a1'' ''u1'' ''shop'', sample_alias ''a2'' ''u2'' ''news''],
     t_emails := [sample_mail]\<rparr>"

lemmas sample_defs = sample_db_def sample_user_def sample_domain_def sample_alias_def sample_mail_def
  new_email_def empty_db_def

lemmas db_eval = no_fault_simps db_bind_simps transaction_def Let_def

lemma sample_wf: "db_wf (sample_db b)"
  by (simp add: wf_defs sample_defs uniq_def refs_def refs_opt_def)

lemma sample_flat: "flat_threads (sample_db b)"
  by (simp add: flat_threads_def sample_defs)

definition sample_attachment :: attachment_metadata where
  "sample_attachment = \<lparr>am_filename = Some ''a.txt'', am_content_type = Some ''text/plain'', am_size_bytes = 3,
     am_part_index = 1, am_is_inline = False, am_content_id = None\<rparr>"

definition store_sample :: "uuid option \<Rightarrow> received_email dbm" where
  "store_sample t = insert_email_with_attachments ''e2'' [''t1''] 9 ''a2'' ''eve@y.org'' ''re'' ''k2'' None
     (Some ''m2'') t [sample_attachment]"

definition stored_sample :: "backend \<Rightarrow> uuid option \<Rightarrow> db" where
  "stored_sample b t = store_mail (new_email ''e2'' ''a2'' ''eve@y.org'' ''re'' ''k2'' 9 (Some ''m2'') t True)
     [attachment_of ''t1'' ''e2'' 9 sample_attachment] t 9 (sample_db b)"

lemma store_sample_run:
  "store_sample (Some ''e1'') (sample_db Sqlite) =
     (Ok (view_email (new_email ''e2'' ''a2'' ''eve@y.org'' ''re'' ''k2'' 9 (Some ''m2'') (Some ''e1'') True)
            (sample_alias ''a2'' ''u2'' ''news'', sample_domain)), stored_sample Sqlite (Some ''e1''))"
  by (simp add: store_sample_def stored_sample_def insert_email_with_attachments_def db_eval sample_defs
      bump_thread_def bump_root_def bump_opt_def insert_email_row_def add_email_def email_constraints_def
      insert_attachment_row_def attachment_constraints_def attachment_of_def sample_attachment_def
      store_mail_def add_attachments_def update_rows_def views_by_id_def received_views_def views_of_def
      alias_domains_def view_email_def db_bind_def)

lemma find_sample: "find_thread_id_by_references [''m1''] (sample_db b) = (Ok (Some ''e1''), sample_db b)"
  by (simp add: find_thread_id_by_references_def db_eval sample_defs in_references_def thread_root_def db_bind_def)

lemmas stored_defs = stored_sample_def sample_defs store_mail_def add_attachments_def add_email_def bump_opt_def
  bump_root_def update_rows_def attachment_of_def sample_attachment_def

lemma stored_wf: "db_wf (stored_sample b (Some ''e1''))"
  by (simp add: wf_defs stored_defs uniq_def refs_def refs_opt_def)

lemma stored_flat: "flat_threads (stored_sample b (Some ''e1''))"
  by (simp add: flat_threads_def stored_defs is_root_def)

theorem store_mail_atomic_witness:
  "\<exists>v d'. store_sample (Some ''e1'') (sample_db Sqlite) = (Inr v, d') \<and> length (t_emails d') = 2 \<and>
     length (t_attachments d') = 1 \<and> t_queue d' = []"
proof -
  have "same_tables (sample_db Sqlite\<lparr>t_emails := t_emails (bump_opt (Some ''e1'') 9 (sample_db Sqlite)) @
        [new_email ''e2'' ''a2'' ''eve@y.org'' ''re'' ''k2'' 9 (Some ''m2'') (Some ''e1'') True],
       t_attachments := [attachment_of ''t1'' ''e2'' 9 sample_attachment]\<rparr>) (stored_sample Sqlite (Some ''e1''))"
    using store_mail_atomic [OF store_sample_run [unfolded store_sample_def]]
    by (simp add: Let_def sample_attachment_def sample_defs)
  then have "length (t_emails (stored_sample Sqlite (Some ''e1''))) = 2 \<and>
      length (t_attachments (stored_sample Sqlite (Some ''e1''))) = 1 \<and> t_queue (stored_sample Sqlite (Some ''e1'')) = []"
    by (simp add: stored_defs)
  then show ?thesis using store_sample_run by blast
qed

theorem stored_mail_threads_flat_witness: "flat_threads (stored_sample Sqlite (Some ''e1''))"
  using stored_mail_threads_flat [OF sample_flat find_sample, of "''e2''" "[''t1'']" 9 "''a2''" "''eve@y.org''"
      "''re''" "''k2''" None "Some ''m2''" "[sample_attachment]"]
    store_sample_run
  by (simp add: store_sample_def)

lemma retention_run:
  "delete_old_emails 5 0 (stored_sample Postgres (Some ''e1'')) =
     (Ok [''k1''], purge_expired 5 (stored_sample Postgres (Some ''e1'')))"
proof -
  have "filter (expired 5 (stored_sample Postgres (Some ''e1''))) (t_emails (stored_sample Postgres (Some ''e1'')))
      = [sample_mail\<lparr>re_last_activity := 9\<rparr>]"
    by (simp add: expired_def stored_defs received_before_def alias_user_with_def)
  then show ?thesis
    by (simp add: delete_old_emails_def stmt_no_fault Let_def sample_defs stored_sample_def store_mail_def
        add_attachments_def add_email_def bump_opt_def bump_root_def)
qed

text \<open>The second user's mail, younger than the cutoff, goes with the first user's root, and its body
  key \<open>k2\<close> is not among the keys returned.\<close>
theorem retention_deletes_and_returns_witness:
  "fst (delete_old_emails 5 0 (stored_sample Postgres (Some ''e1''))) = Ok [''k1''] \<and>
   t_emails (snd (delete_old_emails 5 0 (stored_sample Postgres (Some ''e1'')))) = []"
  using retention_deletes_and_returns [OF stored_wf stored_flat retention_run] retention_run
  by (simp add: stored_defs expired_def root_expired_def received_before_def alias_user_with_def)

lemma delete_run:
  "delete_email_by_id ''e1'' ''u1'' (stored_sample b (Some ''e1'')) =
     (Ok True, purge_emails [''e1''] (stored_sample b (Some ''e1'')))"
  by (simp add: delete_email_by_id_def db_bind_def db_eval stored_defs count_emails_def own_email_def owned_by_def
      opt_in_def aliases_of_user_def)

theorem delete_takes_the_thread_witness:
  "t_emails (snd (delete_email_by_id ''e1'' ''u1'' (stored_sample Sqlite (Some ''e1'')))) = [] \<and>
   owned_by (stored_sample Sqlite (Some ''e1'')) ''u2'' (t_emails (stored_sample Sqlite (Some ''e1'')) ! 1)"
  using delete_takes_the_thread [OF stored_wf stored_flat delete_run, of Sqlite] delete_run [of Sqlite]
  by (simp add: stored_defs owned_by_def opt_in_def aliases_of_user_def)

theorem threads_cross_users_witness:
  "\<exists>vs. get_child_emails ''e1'' (stored_sample Sqlite (Some ''e1'')) = (Inr vs, stored_sample Sqlite (Some ''e1'')) \<and>
     (\<exists>v' \<in> set vs. rv_id v' = ''e2'' \<and> rv_user_id v' = ''u2'')"
proof -
  let ?d = "stored_sample Sqlite (Some ''e1'')"
  obtain vs where c: "get_child_emails ''e1'' ?d = (Inr vs, ?d)"
    by (simp add: get_child_emails_def no_fault_simps stored_defs)
  have a: "sample_alias ''a2'' ''u2'' ''news'' \<in> set (t_aliases (sample_db Sqlite))" by (simp add: sample_defs)
  have i: "al_id (sample_alias ''a2'' ''u2'' ''news'') = ''a2''" "al_user_id (sample_alias ''a2'' ''u2'' ''news'') = ''u2''"
    by (simp_all add: sample_defs)
  from store_sample_run obtain v where s: "insert_email_with_attachments ''e2'' [''t1''] 9
      (al_id (sample_alias ''a2'' ''u2'' ''news'')) ''eve@y.org'' ''re'' ''k2'' None (Some ''m2'') (Some ''e1'')
      [sample_attachment] (sample_db Sqlite) = (Inr v, ?d)"
    by (auto simp: store_sample_def i)
  from threads_cross_users [OF sample_wf a find_sample s c]
  show ?thesis using c i by auto
qed

end
