(* ===== verification/Db_Aliases.thy ===== *)
theory Db_Aliases
  imports Db_Mail
begin

text \<open>
  Aliases and reply tokens: \<open>src/src/db/aliases.rs\<close> and \<open>src/src/db/reply_mappings.rs\<close>.

  \<open>resolve_recipient_alias\<close> is the routing decision of the server: which alias, hence which user, a
  recipient address belongs to.  Where a query says \<open>LIMIT 1\<close> or \<open>fetch_optional\<close> without an order, the
  first row in table order is taken.
\<close>

section \<open>Rows\<close>

record alias_lookup =
  lk_id :: uuid
  lk_destination_email :: string
  lk_auto_forward :: bool

record alias_view =
  av_id :: uuid
  av_user_id :: uuid
  av_domain_id :: uuid
  av_subdomain :: string
  av_destination_email :: string
  av_auto_forward :: bool
  av_active :: bool
  av_created_at :: time
  av_domain_name :: string

record reply_mapping_lookup =
  ml_id :: uuid
  ml_alias_id :: uuid
  ml_original_sender :: string
  ml_anonymous_token :: string
  ml_created_at :: time
  ml_destination_email :: string
  ml_alias_subdomain :: string
  ml_domain_name :: string

definition lookup_of :: "alias_row \<Rightarrow> alias_lookup" where
  "lookup_of a = \<lparr>lk_id = al_id a, lk_destination_email = al_destination a, lk_auto_forward = al_auto_forward a\<rparr>"

definition alias_view_of :: "alias_row \<times> domain_row \<Rightarrow> alias_view" where
  "alias_view_of am = (case am of (a, m) \<Rightarrow>
     \<lparr>av_id = al_id a, av_user_id = al_user_id a, av_domain_id = al_domain_id a, av_subdomain = al_subdomain a,
      av_destination_email = al_destination a, av_auto_forward = al_auto_forward a, av_active = al_active a,
      av_created_at = al_created_at a, av_domain_name = dm_name m\<rparr>)"

section \<open>aliases.rs\<close>

definition get_taken_subdomains :: "uuid \<Rightarrow> string list \<Rightarrow> string list dbm" where
  "get_taken_subdomains domain_id candidates = query (\<lambda>d.
     map al_subdomain (filter (\<lambda>a. al_domain_id a = domain_id \<and> al_subdomain a \<in> set candidates) (t_aliases d)))"

definition check_valid_subdomain :: "string \<Rightarrow> string \<Rightarrow> alias_lookup option dbm" where
  "check_valid_subdomain subdomain parent_domain = query_optional (\<lambda>d.
     map (\<lambda>(a, m). lookup_of a) (filter (\<lambda>(a, m). al_subdomain a = subdomain \<and> dm_name m = parent_domain \<and>
       al_active a \<and> dm_active m) (alias_domains d)))"

definition get_aliases_by_user_id :: "uuid \<Rightarrow> alias_view list dbm" where
  "get_aliases_by_user_id user_id = query (\<lambda>d.
     sort_key (\<lambda>v. - av_created_at v) (map alias_view_of
       (filter (\<lambda>(a, m). al_user_id a = user_id) (alias_domains d))))"

definition new_alias :: "uuid \<Rightarrow> time \<Rightarrow> uuid \<Rightarrow> uuid \<Rightarrow> string \<Rightarrow> string \<Rightarrow> bool \<Rightarrow> alias_row" where
  "new_alias fresh now user_id domain_id subdomain destination_email auto_forward =
     \<lparr>al_id = fresh, al_user_id = user_id, al_domain_id = domain_id, al_subdomain = subdomain,
      al_destination = destination_email, al_auto_forward = auto_forward, al_active = True, al_created_at = now\<rparr>"

definition add_alias :: "alias_row \<Rightarrow> db \<Rightarrow> db" where
  "add_alias a d = d\<lparr>t_aliases := t_aliases d @ [a]\<rparr>"

definition alias_domains_of :: "db \<Rightarrow> alias_row \<Rightarrow> (alias_row \<times> domain_row) list" where
  "alias_domains_of d a = map (\<lambda>m. (a, m)) (filter (\<lambda>m. dm_id m = al_domain_id a) (t_domains d))"

definition insert_alias ::
  "uuid \<Rightarrow> time \<Rightarrow> uuid \<Rightarrow> uuid \<Rightarrow> string \<Rightarrow> string \<Rightarrow> bool \<Rightarrow> alias_view dbm" where
  "insert_alias fresh now user_id domain_id subdomain destination_email auto_forward = (\<lambda>d.
     (let a = new_alias fresh now user_id domain_id subdomain destination_email auto_forward
      in case backend d of
           Postgres \<Rightarrow> stmt (\<lambda>d. case violation (alias_constraints a d) of
               Some err \<Rightarrow> Inl err
             | None \<Rightarrow> (case alias_domains_of d a of
                 [] \<Rightarrow> Inl RowNotFound | am # _ \<Rightarrow> Inr (alias_view_of am, add_alias a d))) d
         | Sqlite \<Rightarrow> db_bind (insert_stmt (alias_constraints a) (add_alias a) (\<lambda>_. ())) (\<lambda>_.
             query_one (\<lambda>d. map alias_view_of (filter (\<lambda>(a, m). al_id a = fresh) (alias_domains d)))) d))"

definition delete_alias_by_id :: "uuid \<Rightarrow> uuid \<Rightarrow> unit dbm" where
  "delete_alias_by_id alias_id user_id = exec (\<lambda>d.
     purge_aliases (map al_id (filter (\<lambda>a. al_id a = alias_id \<and> al_user_id a = user_id) (t_aliases d))) d)"

definition is_subdomain_available :: "uuid \<Rightarrow> string \<Rightarrow> bool dbm" where
  "is_subdomain_available domain_id subdomain = query (\<lambda>d.
     \<not> list_ex (\<lambda>a. al_domain_id a = domain_id \<and> al_subdomain a = subdomain) (t_aliases d))"

definition get_alias_by_id_and_user :: "uuid \<Rightarrow> uuid \<Rightarrow> alias_view option dbm" where
  "get_alias_by_id_and_user alias_id user_id = query_optional (\<lambda>d.
     map alias_view_of (filter (\<lambda>(a, m). al_id a = alias_id \<and> al_user_id a = user_id) (alias_domains d)))"

definition dotted :: "string \<Rightarrow> string \<Rightarrow> string" where
  "dotted local_part full_domain = local_part @ ''.'' @ full_domain"

definition recipient_matches :: "string \<Rightarrow> string \<Rightarrow> alias_row \<times> domain_row \<Rightarrow> bool" where
  "recipient_matches local_part full_domain am = (case am of (a, m) \<Rightarrow>
     ((al_subdomain a = local_part \<and> dm_name m = full_domain) \<or>
      dotted (al_subdomain a) (dm_name m) = dotted local_part full_domain) \<and>
     al_active a \<and> dm_active m)"

definition resolve_recipient_alias :: "string \<Rightarrow> string \<Rightarrow> alias_lookup option dbm" where
  "resolve_recipient_alias local_part full_domain = query_optional (\<lambda>d.
     map (\<lambda>(a, m). lookup_of a) (filter (recipient_matches local_part full_domain) (alias_domains d)))"

definition update_alias_auto_forward :: "uuid \<Rightarrow> uuid \<Rightarrow> bool \<Rightarrow> unit dbm" where
  "update_alias_auto_forward alias_id user_id auto_forward = exec (\<lambda>d.
     d\<lparr>t_aliases := update_rows (\<lambda>a. al_id a = alias_id \<and> al_user_id a = user_id)
        (\<lambda>a. a\<lparr>al_auto_forward := auto_forward\<rparr>) (t_aliases d)\<rparr>)"

section \<open>reply_mappings.rs\<close>

definition mapping_for :: "uuid \<Rightarrow> string \<Rightarrow> mapping_row \<Rightarrow> bool" where
  "mapping_for alias_id original_sender m = (rm_alias_id m = alias_id \<and> rm_original_sender m = original_sender)"

text \<open>\<open>ON CONFLICT (alias_id, original_sender) DO UPDATE SET alias_id = EXCLUDED.alias_id\<close> rewrites the row
  with what it has and returns it; the other constraints still hold the insert back.  \<open>token_hex\<close> is
  the new UUID in its simple form.\<close>

definition insert_mapping :: "mapping_row \<Rightarrow> mapping_row dbm" where
  "insert_mapping r = stmt (\<lambda>d.
     case filter (mapping_for (rm_alias_id r) (rm_original_sender r)) (t_mappings d) of
       m # _ \<Rightarrow> Inr (m, d)
     | [] \<Rightarrow> (case violation (mapping_constraints r d) of
         Some e \<Rightarrow> Inl e
       | None \<Rightarrow> Inr (r, d\<lparr>t_mappings := t_mappings d @ [r]\<rparr>)))"

definition get_or_create_reply_mapping :: "uuid \<Rightarrow> string \<Rightarrow> time \<Rightarrow> uuid \<Rightarrow> string \<Rightarrow> mapping_row dbm" where
  "get_or_create_reply_mapping fresh token_hex now alias_id original_sender =
     db_bind (query_optional (\<lambda>d. filter (mapping_for alias_id original_sender) (t_mappings d))) (\<lambda>existing.
       case existing of
         Some mapping \<Rightarrow> db_return mapping
       | None \<Rightarrow> insert_mapping
           \<lparr>rm_id = fresh, rm_alias_id = alias_id, rm_original_sender = original_sender,
            rm_token = ''reply-'' @ token_hex, rm_created_at = now\<rparr>)"

definition mapping_view :: "mapping_row \<Rightarrow> alias_row \<times> domain_row \<Rightarrow> reply_mapping_lookup" where
  "mapping_view rm am = (case am of (a, m) \<Rightarrow>
     \<lparr>ml_id = rm_id rm, ml_alias_id = rm_alias_id rm, ml_original_sender = rm_original_sender rm,
      ml_anonymous_token = rm_token rm, ml_created_at = rm_created_at rm,
      ml_destination_email = al_destination a, ml_alias_subdomain = al_subdomain a, ml_domain_name = dm_name m\<rparr>)"

definition get_reply_mapping_by_token :: "string \<Rightarrow> reply_mapping_lookup option dbm" where
  "get_reply_mapping_by_token token = query_optional (\<lambda>d. concat (map
     (\<lambda>rm. map (mapping_view rm)
        (filter (\<lambda>(a, m). al_id a = rm_alias_id rm \<and> al_active a \<and> dm_active m) (alias_domains d)))
     (filter (\<lambda>rm. rm_token rm = token) (t_mappings d))))"

section \<open>Integrity\<close>

lemma wf_update_alias:
  assumes "\<And>a. al_id (f a) = al_id a" "\<And>a. al_user_id (f a) = al_user_id a"
    "\<And>a. al_domain_id (f a) = al_domain_id a" "\<And>a. al_subdomain (f a) = al_subdomain a" and "db_wf d"
  shows "db_wf (d\<lparr>t_aliases := update_rows p f (t_aliases d)\<rparr>)"
  using assms(5) by (simp add: wf_defs assms(1-4))

lemma keeps_alias_updates:
  "keeps db_wf (delete_alias_by_id i u)"
  "keeps db_wf (update_alias_auto_forward i u b)"
  unfolding delete_alias_by_id_def update_alias_auto_forward_def
  by (intro keeps_rules; simp add: wf_purge_aliases wf_update_alias)+

lemma keeps_insert_alias: "keeps db_wf (insert_alias fresh now u m s dest fwd)"
proof -
  have p: "keeps db_wf (stmt (\<lambda>d. case violation (alias_constraints a d) of
               Some err \<Rightarrow> Inl err
             | None \<Rightarrow> (case alias_domains_of d a of
                 [] \<Rightarrow> Inl RowNotFound | am # _ \<Rightarrow> Inr (alias_view_of am, add_alias a d))))" for a
    by (rule keeps_stmt) (auto simp: add_alias_def wf_insert_alias split: option.splits list.splits)
  have q: "keeps db_wf (insert_stmt (alias_constraints a) (add_alias a) (\<lambda>_. ()))" for a
    by (intro keeps_rules) (simp_all add: add_alias_def wf_insert_alias)
  show ?thesis unfolding insert_alias_def Let_def
    by (rule keeps_backend_fun) (intro keeps_rules p q; simp)+
qed

lemma keeps_insert_mapping: "keeps db_wf (insert_mapping r)"
  unfolding insert_mapping_def
  by (rule keeps_stmt) (auto simp: wf_insert_mapping split: option.splits list.splits)

lemma keeps_get_or_create: "keeps db_wf (get_or_create_reply_mapping fresh tok now a s)"
  unfolding get_or_create_reply_mapping_def
  by (intro keeps_rules keeps_insert_mapping) simp_all

section \<open>Properties\<close>

lemma recipient_matches_dotted:
  "recipient_matches l f am = (case am of (a, m) \<Rightarrow>
     dotted (al_subdomain a) (dm_name m) = dotted l f \<and> al_active a \<and> dm_active m)"
  by (auto simp: recipient_matches_def dotted_def split: prod.splits)

lemma alias_domains_faults [simp]: "alias_domains (d\<lparr>db_faults := fs\<rparr>) = alias_domains d"
  by (simp add: alias_domains_def)

lemma query_optional_Ok:
  "query_optional h d = (Inr r, d') \<Longrightarrow>
   \<exists>fs. d' = d\<lparr>db_faults := fs\<rparr> \<and> r = (case h (d\<lparr>db_faults := fs\<rparr>) of [] \<Rightarrow> None | a # _ \<Rightarrow> Some a)"
  by (auto simp: query_optional_def stmt_Ok_iff)

text \<open>C16: A recipient goes to an active alias and to no other. When \<open>resolve_recipient_alias\<close> answers, it
  names an active alias of an active domain whose address, written with a dot for the at sign, is
  that of the recipient; when it answers \<open>None\<close> there is no such alias. No table changes.\<close>
theorem recipient_routed_to_active_alias:
  assumes run: "resolve_recipient_alias local_part full_domain d = (Inr r, d')"
  shows "same_tables d d' \<and> (case r of
      Some lk \<Rightarrow> list_ex (\<lambda>(a, m). lk = lookup_of a \<and> al_active a \<and> dm_active m \<and>
          dotted (al_subdomain a) (dm_name m) = dotted local_part full_domain) (alias_domains d)
    | None \<Rightarrow> filter (\<lambda>(a, m). al_active a \<and> dm_active m \<and>
          dotted (al_subdomain a) (dm_name m) = dotted local_part full_domain) (alias_domains d) = [])"
proof -
  let ?L = "filter (recipient_matches local_part full_domain) (alias_domains d)"
  from query_optional_Ok [OF run [unfolded resolve_recipient_alias_def]]
  obtain fs where d': "d' = d\<lparr>db_faults := fs\<rparr>"
    and r: "r = (case map (\<lambda>(a, m). lookup_of a) ?L of [] \<Rightarrow> None | a # _ \<Rightarrow> Some a)"
    by auto
  have L: "?L = filter (\<lambda>(a, m). al_active a \<and> dm_active m \<and>
      dotted (al_subdomain a) (dm_name m) = dotted local_part full_domain) (alias_domains d)"
    by (rule filter_cong) (auto simp: recipient_matches_dotted)
  show ?thesis
  proof (cases ?L)
    case Nil
    with r L d' show ?thesis by (simp add: same_tables_def)
  next
    case (Cons am as)
    obtain a m where am: "am = (a, m)" by (cases am)
    have "(a, m) \<in> set ?L" using Cons am by simp
    then have "(a, m) \<in> set (alias_domains d)" "recipient_matches local_part full_domain (a, m)" by auto
    moreover have "r = Some (lookup_of a)" using r Cons am by simp
    ultimately show ?thesis using d'
      by (auto simp: same_tables_def list_ex_iff recipient_matches_dotted intro!: bexI [of _ "(a, m)"])
  qed
qed

text \<open>Routing does not see the at sign. Two recipients with the same dotted text are resolved
  alike, whatever their split into local part and domain: \<open>a@b.c.org\<close> and \<open>a.b@c.org\<close> reach
  the same alias, even where both are aliases of different users.\<close>
theorem routing_ignores_at_sign:
  assumes "dotted local_part full_domain = dotted local_part' full_domain'"
  shows "resolve_recipient_alias local_part full_domain d = resolve_recipient_alias local_part' full_domain' d"
proof -
  have "recipient_matches local_part full_domain = recipient_matches local_part' full_domain'"
    by (simp add: fun_eq_iff recipient_matches_dotted assms)
  then show ?thesis by (simp add: resolve_recipient_alias_def)
qed

lemma insert_mapping_Ok:
  assumes "insert_mapping r d = (Inr m, d')"
  shows "m \<in> set (t_mappings d') \<and> mapping_for (rm_alias_id r) (rm_original_sender r) m \<and>
    t_aliases d' = t_aliases d \<and> t_domains d' = t_domains d \<and> set (t_mappings d) \<subseteq> set (t_mappings d')"
proof -
  let ?L = "filter (mapping_for (rm_alias_id r) (rm_original_sender r)) (t_mappings d)"
  show ?thesis
  proof (cases ?L)
    case Nil
    with assms show ?thesis
      by (auto simp: insert_mapping_def stmt_Ok_iff mapping_for_def split: option.splits)
  next
    case (Cons m' ms)
    then have "m' \<in> set ?L" by simp
    then have "m' \<in> set (t_mappings d)" "mapping_for (rm_alias_id r) (rm_original_sender r) m'" by simp_all
    moreover have "m = m'" "\<exists>fs. d' = d\<lparr>db_faults := fs\<rparr>"
      using assms Cons by (auto simp: insert_mapping_def stmt_Ok_iff)
    ultimately show ?thesis by auto
  qed
qed

lemma get_or_create_Ok:
  assumes "get_or_create_reply_mapping fresh tok now alias_id s d = (Inr m, d')"
  shows "m \<in> set (t_mappings d') \<and> mapping_for alias_id s m \<and>
    t_aliases d' = t_aliases d \<and> t_domains d' = t_domains d \<and> set (t_mappings d) \<subseteq> set (t_mappings d')"
proof -
  let ?h = "\<lambda>d. filter (mapping_for alias_id s) (t_mappings d)"
  let ?r = "\<lparr>rm_id = fresh, rm_alias_id = alias_id, rm_original_sender = s, rm_token = ''reply-'' @ tok,
         rm_created_at = now\<rparr>"
  from assms obtain ex d1 where q: "query_optional ?h d = (Inr ex, d1)"
    and rest: "(case ex of Some mapping \<Rightarrow> db_return mapping | None \<Rightarrow> insert_mapping ?r) d1 = (Inr m, d')"
    by (auto simp: get_or_create_reply_mapping_def db_bind_Ok_iff)
  note d1 = query_optional_db [OF q]
  show ?thesis
  proof (cases ex)
    case None
    with rest have "insert_mapping ?r d1 = (Inr m, d')" by simp
    from insert_mapping_Ok [OF this] d1 show ?thesis by simp
  next
    case (Some mapping)
    with q have "mapping \<in> set (?h d)" by (auto dest: query_optional_Some)
    moreover have "m = mapping" "d' = d1" using Some rest by (simp_all add: db_return_def)
    ultimately show ?thesis using d1 by simp
  qed
qed

lemma first_only:
  assumes "y \<in> set xs" and only: "\<And>x. x \<in> set xs \<Longrightarrow> x = y"
  shows "(case xs of [] \<Rightarrow> None | x # _ \<Rightarrow> Some x) = Some y"
proof (cases xs)
  case Nil
  with assms(1) show ?thesis by simp
next
  case (Cons x xs')
  with only [of x] show ?thesis by simp
qed

lemma in_concat_map: "x \<in> set xs \<Longrightarrow> y \<in> set (f x) \<Longrightarrow> y \<in> set (concat (map f xs))"
  by auto

lemma uniq_eq: "uniq key rows \<Longrightarrow> r \<in> set rows \<Longrightarrow> r' \<in> set rows \<Longrightarrow> key r = key r' \<Longrightarrow> r = r'"
  by (auto simp: uniq_def distinct_map inj_on_def)

lemma distinct_singleton: "distinct xs \<Longrightarrow> set xs = {r} \<Longrightarrow> xs = [r]"
proof (cases xs)
  case (Cons y ys)
  assume "distinct xs" "set xs = {r}"
  with Cons show ?thesis by (cases ys) auto
qed simp

lemma uniq_filter_eq: "uniq key rows \<Longrightarrow> r \<in> set rows \<Longrightarrow> filter (\<lambda>v. key v = key r) rows = [r]"
proof -
  assume u: "uniq key rows" and r: "r \<in> set rows"
  then have one: "v = r" if "v \<in> set (filter (\<lambda>v. key v = key r) rows)" for v
    using that uniq_eq [OF u _ r, of v] by simp
  have "distinct (filter (\<lambda>v. key v = key r) rows)" using u by (simp add: uniq_def distinct_map)
  moreover have "set (filter (\<lambda>v. key v = key r) rows) = {r}" using one r by fastforce
  ultimately show ?thesis by (rule distinct_singleton)
qed

lemma wf_same_tables: "same_tables d d' \<Longrightarrow> db_wf d' = db_wf d"
proof -
  assume "same_tables d d'"
  then have "db_wf (d'\<lparr>db_faults := []\<rparr>) = db_wf (d\<lparr>db_faults := []\<rparr>)" by (simp add: same_tables_def)
  then show ?thesis by simp
qed

text \<open>Reply tokens lead back. The token \<open>get_or_create_reply_mapping\<close> gives for an alias and a sender
  is looked up, as long as the alias and its domain are active, to that alias, its owner's address and
  that sender; and asking again for the same pair gives the same token.\<close>
theorem reply_token_round_trip:
  assumes wf: "db_wf d" and a: "a \<in> set (t_aliases d)" "al_active a"
    and m: "m \<in> set (t_domains d)" "dm_id m = al_domain_id a" "dm_active m"
    and c: "get_or_create_reply_mapping fresh tok now (al_id a) s d = (Inr rm, d1)"
    and l: "get_reply_mapping_by_token (rm_token rm) d1 = (Inr r, d2)"
    and again: "get_or_create_reply_mapping fresh' tok' now' (al_id a) s d2 = (Inr rm', d3)"
  shows "r = Some (mapping_view rm (a, m)) \<and> ml_original_sender (the r) = s \<and>
    ml_destination_email (the r) = al_destination a \<and> rm_token rm' = rm_token rm"
proof -
  note created = get_or_create_Ok [OF c] get_or_create_Ok [OF again]
  have wf1: "db_wf d1" using keepsD [OF keeps_get_or_create wf c] .
  let ?h = "\<lambda>d. concat (map (\<lambda>rm. map (mapping_view rm)
        (filter (\<lambda>(a, m). al_id a = rm_alias_id rm \<and> al_active a \<and> dm_active m) (alias_domains d)))
     (filter (\<lambda>x. rm_token x = rm_token rm) (t_mappings d)))"
  from query_optional_Ok [OF l [unfolded get_reply_mapping_by_token_def]]
  obtain fs where d2: "d2 = d1\<lparr>db_faults := fs\<rparr>" and r: "r = (case ?h d1 of [] \<Rightarrow> None | x # _ \<Rightarrow> Some x)"
    by auto
  have am: "(a, m) \<in> set (alias_domains d1)" using created(1) a m by (simp add: alias_domains_iff)
  have only: "x = mapping_view rm (a, m)" if "x \<in> set (?h d1)" for x
  proof -
    from that obtain y b n where x: "y \<in> set (t_mappings d1)" "rm_token y = rm_token rm"
      "(b, n) \<in> set (alias_domains d1)" "al_id b = rm_alias_id y" "x = mapping_view y (b, n)"
      by auto
    have "y = rm" using wf1 x(1,2) created(1) by (intro uniq_eq [of rm_token "t_mappings d1"]) (simp_all add: wf_defs)
    moreover from this have "b = a" using wf1 x(3,4) am created(1)
      by (intro uniq_eq [of al_id "t_aliases d1"]) (simp_all add: wf_defs alias_domains_iff mapping_for_def)
    moreover from this have "n = m" using wf1 x(3) am
      by (intro uniq_eq [of dm_id "t_domains d1"]) (simp_all add: wf_defs alias_domains_iff)
    ultimately show ?thesis using x(5) by simp
  qed
  have "mapping_view rm (a, m) \<in> set (?h d1)"
  proof (rule in_concat_map)
    show "rm \<in> set (filter (\<lambda>x. rm_token x = rm_token rm) (t_mappings d1))" using created(1) by simp
    have "(a, m) \<in> set (filter (\<lambda>(a, m). al_id a = rm_alias_id rm \<and> al_active a \<and> dm_active m) (alias_domains d1))"
      using created(1) am a m by (simp add: mapping_for_def)
    then show "mapping_view rm (a, m) \<in> set (map (mapping_view rm)
        (filter (\<lambda>(a, m). al_id a = rm_alias_id rm \<and> al_active a \<and> dm_active m) (alias_domains d1)))"
      unfolding set_map by (rule imageI)
  qed
  then have r': "r = Some (mapping_view rm (a, m))"
    unfolding r by (rule first_only [OF _ only])
  have wf3: "db_wf d3" using keepsD [OF keeps_get_or_create _ again] wf1 d2 by simp
  have "rm \<in> set (t_mappings d3)" using created d2 by auto
  then have "rm' = rm" using wf3 created
    by (intro uniq_eq [of "\<lambda>m. (rm_alias_id m, rm_original_sender m)" "t_mappings d3"])
      (simp_all add: wf_defs mapping_for_def)
  then show ?thesis using r' created(1) by (simp add: mapping_view_def mapping_for_def)
qed

section \<open>Witnesses\<close>

lemma resolve_sample:
  "resolve_recipient_alias ''shop'' ''x.org'' (sample_db b) =
     (Ok (Some (lookup_of (sample_alias ''a1'' ''u1'' ''shop''))), sample_db b)"
  by (simp add: resolve_recipient_alias_def db_eval sample_defs recipient_matches_def alias_domains_def dotted_def
      lookup_of_def)

theorem recipient_routed_to_active_alias_witness:
  "list_ex (\<lambda>(a, m). lookup_of (sample_alias ''a1'' ''u1'' ''shop'') = lookup_of a \<and> al_active a \<and> dm_active m \<and>
      dotted (al_subdomain a) (dm_name m) = ''shop.x.org'') (alias_domains (sample_db Sqlite))"
  using recipient_routed_to_active_alias [OF resolve_sample] by (simp add: dotted_def)

text \<open>An alias \<open>a.b\<close> of the first user on \<open>c.org\<close>, and an alias \<open>a\<close> of the second on \<open>b.c.org\<close>:
  mail for \<open>a@b.c.org\<close> goes to the first.\<close>

definition dotted_db :: db where
  "dotted_db = (sample_db Sqlite)\<lparr>
     t_domains := [sample_domain\<lparr>dm_name := ''c.org''\<rparr>, sample_domain\<lparr>dm_id := ''d2'', dm_name := ''b.c.org''\<rparr>],
     t_aliases := [sample_alias ''a1'' ''u1'' ''a.b'', (sample_alias ''a2'' ''u2'' ''a'')\<lparr>al_domain_id := ''d2''\<rparr>]\<rparr>"

theorem routing_ignores_at_sign_witness:
  "db_wf dotted_db \<and>
   resolve_recipient_alias ''a'' ''b.c.org'' dotted_db =
     (Ok (Some (lookup_of (sample_alias ''a1'' ''u1'' ''a.b''))), dotted_db)"
proof -
  have "dotted ''a'' ''b.c.org'' = dotted ''a.b'' ''c.org''" by (simp add: dotted_def)
  from routing_ignores_at_sign [OF this, of dotted_db]
  show ?thesis
    by (simp add: resolve_recipient_alias_def db_eval dotted_db_def sample_defs recipient_matches_def
        alias_domains_def lookup_of_def wf_defs uniq_def refs_def refs_opt_def)
qed

definition sample_mapping :: mapping_row where
  "sample_mapping = \<lparr>rm_id = ''r1'', rm_alias_id = ''a1'', rm_original_sender = ''bob@y.org'',
     rm_token = ''reply-0f'', rm_created_at = 3\<rparr>"

definition mapped_db :: db where
  "mapped_db = (sample_db Sqlite)\<lparr>t_mappings := [sample_mapping]\<rparr>"

lemma create_mapping_run:
  "get_or_create_reply_mapping ''r1'' ''0f'' 3 (al_id (sample_alias ''a1'' ''u1'' ''shop'')) ''bob@y.org'' (sample_db Sqlite) =
     (Inr sample_mapping, mapped_db)"
  "get_or_create_reply_mapping ''r2'' ''aa'' 4 (al_id (sample_alias ''a1'' ''u1'' ''shop'')) ''bob@y.org'' mapped_db =
     (Inr sample_mapping, mapped_db)"
  by (simp_all add: get_or_create_reply_mapping_def insert_mapping_def db_bind_def query_optional_def stmt_no_fault
      sample_defs mapped_db_def sample_mapping_def mapping_for_def mapping_constraints_def db_return_def)

theorem reply_token_round_trip_witness:
  "get_reply_mapping_by_token ''reply-0f'' mapped_db =
     (Ok (Some (mapping_view sample_mapping (sample_alias ''a1'' ''u1'' ''shop'', sample_domain))), mapped_db) \<and>
   ml_original_sender (mapping_view sample_mapping (sample_alias ''a1'' ''u1'' ''shop'', sample_domain)) = ''bob@y.org''"
proof -
  have l: "get_reply_mapping_by_token (rm_token sample_mapping) mapped_db =
     (Ok (Some (mapping_view sample_mapping (sample_alias ''a1'' ''u1'' ''shop'', sample_domain))), mapped_db)"
    by (simp add: get_reply_mapping_by_token_def db_eval sample_defs mapped_db_def sample_mapping_def alias_domains_def
        mapping_view_def)
  have a: "sample_alias ''a1'' ''u1'' ''shop'' \<in> set (t_aliases (sample_db Sqlite))"
    "al_active (sample_alias ''a1'' ''u1'' ''shop'')" "sample_domain \<in> set (t_domains (sample_db Sqlite))"
    "dm_id sample_domain = al_domain_id (sample_alias ''a1'' ''u1'' ''shop'')" "dm_active sample_domain"
    by (simp_all add: sample_defs)
  have t: "rm_token sample_mapping = ''reply-0f''" by (simp add: sample_mapping_def)
  from reply_token_round_trip [OF sample_wf a create_mapping_run(1) l create_mapping_run(2)] l
  show ?thesis by (simp add: t)
qed

end
