(* ===== verification/Crypto.thy ===== *)
theory Crypto
  imports Mime
begin

text \<open>
  Encryption of the DKIM keys in the database, \<open>src/src/crypto.rs\<close>.

  SHA-256, XChaCha20-Poly1305 and base64 are a parameter, the record \<open>cipher_lib\<close>; \<open>lawful_cipher\<close> says
  what is documented of them: decoding inverts encoding, opening inverts sealing, a nonce has 24 bytes.
  The value of \<open>DB_ENCRYPTION_KEY\<close> (empty when not set) and the nonce drawn are arguments.
\<close>

record cipher_lib =
  sha256 :: "string \<Rightarrow> string"
  aead_encrypt :: "string \<Rightarrow> string \<Rightarrow> string \<Rightarrow> string option"
  aead_decrypt :: "string \<Rightarrow> string \<Rightarrow> string \<Rightarrow> string option"
  base64_encode :: "string \<Rightarrow> string"
  base64_decode :: "string \<Rightarrow> string option"

definition prefix_v1 :: string where
  "prefix_v1 = ''$v1$''"

text \<open>\<open>String::from_utf8\<close> accepts what the lossy conversion leaves alone: an ill-formed sequence never
  starts like the replacement character.\<close>

definition valid_utf8 :: "string \<Rightarrow> bool" where
  "valid_utf8 s = (from_utf8_lossy s = s)"

definition derive_key :: "cipher_lib \<Rightarrow> string \<Rightarrow> string" where
  "derive_key lib master_key = sha256 lib master_key"

definition encrypt_with_key :: "cipher_lib \<Rightarrow> string \<Rightarrow> string \<Rightarrow> string \<Rightarrow> string + string" where
  "encrypt_with_key lib nonce plaintext master_key =
     (case aead_encrypt lib (derive_key lib master_key) nonce plaintext of
        None \<Rightarrow> Err ''Encryption failed''
      | Some ciphertext \<Rightarrow> Ok (prefix_v1 @ base64_encode lib (nonce @ ciphertext)))"

definition encrypt :: "cipher_lib \<Rightarrow> string \<Rightarrow> string \<Rightarrow> string \<Rightarrow> string + string" where
  "encrypt lib config_key nonce plaintext =
     (if trim config_key = [] then Ok plaintext else encrypt_with_key lib nonce plaintext config_key)"

definition decrypt_with_key :: "cipher_lib \<Rightarrow> string \<Rightarrow> string \<Rightarrow> string + string" where
  "decrypt_with_key lib value master_key =
     (if \<not> starts_with prefix_v1 value then Ok value
      else case base64_decode lib (drop (length prefix_v1) value) of
        None \<Rightarrow> Err ''Failed to decode base64''
      | Some packed \<Rightarrow>
          if length packed < 24 then Err ''Ciphertext is too short''
          else (case aead_decrypt lib (derive_key lib master_key) (take 24 packed) (drop 24 packed) of
              None \<Rightarrow> Err ''Decryption failed''
            | Some decrypted \<Rightarrow>
                if valid_utf8 decrypted then Ok decrypted else Err ''Plaintext is not valid UTF-8''))"

definition decrypt :: "cipher_lib \<Rightarrow> string \<Rightarrow> string \<Rightarrow> string + string" where
  "decrypt lib config_key value =
     (if \<not> starts_with prefix_v1 value then Ok value
      else if trim config_key = [] then Err ''Value is encrypted but DB_ENCRYPTION_KEY is not configured''
      else decrypt_with_key lib value config_key)"

definition lawful_cipher :: "cipher_lib \<Rightarrow> bool" where
  "lawful_cipher lib =
     ((\<forall>s. base64_decode lib (base64_encode lib s) = Some s) \<and>
      (\<forall>k n p c. aead_encrypt lib k n p = Some c \<longrightarrow> aead_decrypt lib k n c = Some p))"

text \<open>Stored secrets come back. What \<open>encrypt\<close> returns, with or without a key configured, \<open>decrypt\<close>
  turns back into the plaintext under the same configuration, for every UTF-8 text; with no key
  configured this needs the text not to start with the marker \<open>$v1$\<close>, which is then taken for an encrypted
  value and refused.\<close>
theorem encryption_round_trip:
  assumes lib: "lawful_cipher lib" and n: "length nonce = 24" and p: "valid_utf8 plaintext"
    and enc: "encrypt lib config_key nonce plaintext = Ok value"
  shows "decrypt lib config_key value =
    (if trim config_key = [] \<and> starts_with prefix_v1 plaintext
     then Err ''Value is encrypted but DB_ENCRYPTION_KEY is not configured'' else Ok plaintext)"
proof (cases "trim config_key = []")
  case True
  with enc show ?thesis by (simp add: encrypt_def decrypt_def)
next
  case False
  with enc obtain c where c: "aead_encrypt lib (derive_key lib config_key) nonce plaintext = Some c"
    and v: "value = prefix_v1 @ base64_encode lib (nonce @ c)"
    by (auto simp: encrypt_def encrypt_with_key_def split: option.splits)
  have s: "starts_with prefix_v1 value" "drop (length prefix_v1) value = base64_encode lib (nonce @ c)"
    by (simp_all add: v prefix_v1_def)
  have "base64_decode lib (base64_encode lib (nonce @ c)) = Some (nonce @ c)"
    "aead_decrypt lib (derive_key lib config_key) nonce c = Some plaintext"
    using lib c by (auto simp: lawful_cipher_def)
  with False s n p show ?thesis by (simp add: decrypt_def decrypt_with_key_def)
qed

text \<open>A library of the stated laws: no digest, the key in front of the text, identity encoding.\<close>

definition plain_lib :: cipher_lib where
  "plain_lib = \<lparr>sha256 = (\<lambda>s. s), aead_encrypt = (\<lambda>k n p. Some (k @ p)),
     aead_decrypt = (\<lambda>k n c. if take (length k) c = k then Some (drop (length k) c) else None),
     base64_encode = (\<lambda>s. s), base64_decode = Some\<rparr>"

lemma plain_lib_lawful: "lawful_cipher plain_lib"
  by (simp add: lawful_cipher_def plain_lib_def)

definition sample_nonce :: string where
  "sample_nonce = ''0123456789abcdefghijklmn''"

theorem encryption_round_trip_witness:
  "decrypt plain_lib ''k'' (prefix_v1 @ sample_nonce @ ''ksecret'') = Ok ''secret''"
proof -
  have t: "trim ''k'' = ''k''" by (simp add: trim_eval char_eval)
  have v: "valid_utf8 ''secret''" unfolding valid_utf8_def by (rule from_utf8_lossy_ascii) (simp add: char_eval)
  have n: "length sample_nonce = 24" by (simp add: sample_nonce_def)
  have e: "encrypt plain_lib ''k'' sample_nonce ''secret'' = Ok (prefix_v1 @ sample_nonce @ ''ksecret'')"
    by (simp add: encrypt_def encrypt_with_key_def t plain_lib_def derive_key_def)
  from encryption_round_trip [OF plain_lib_lawful n v e] show ?thesis by (simp add: t)
qed

end
