(* ===== verification/Db_Accounts.thy ===== *)
theory Db_Accounts
  imports Db_Aliases Crypto
begin

text \<open>
  Users, API keys and domains: \<open>src/src/db/users.rs\<close>, \<open>src/src/db/api_keys.rs\<close>, \<open>src/src/db/domains.rs\<close>
  and \<open>get_all_users_with_stats\<close> of \<open>src/src/db/mod.rs\<close>.

  Argon2, the Ed25519 key generator and the cipher are arguments: the password hash (or its failure),
  the generated key pair, the \<open>cipher_lib\<close>.
\<close>

section \<open>users.rs\<close>

definition set_users :: "(user_row \<Rightarrow> bool) \<Rightarrow> (user_row \<Rightarrow> user_row) \<Rightarrow> db \<Rightarrow> db" where
  "set_users p f d = d\<lparr>t_users := update_rows p f (t_users d)\<rparr>"

definition update_last_login :: "time \<Rightarrow> uuid \<Rightarrow> string option \<Rightarrow> unit dbm" where
  "update_last_login now user_id client_ip = exec (set_users (\<lambda>u. us_id u = user_id)
     (\<lambda>u. u\<lparr>us_last_login_at := Some now, us_last_login_ip := client_ip\<rparr>))"

definition get_user_by_email :: "string \<Rightarrow> user_row option dbm" where
  "get_user_by_email email = query_optional (\<lambda>d. filter (\<lambda>u. us_email u = email) (t_users d))"

definition get_user_by_id :: "uuid \<Rightarrow> user_row option dbm" where
  "get_user_by_id user_id = query_optional (\<lambda>d. filter (\<lambda>u. us_id u = user_id) (t_users d))"

definition new_user :: "uuid \<Rightarrow> time \<Rightarrow> string \<Rightarrow> string \<Rightarrow> user_row" where
  "new_user fresh now email password_hash =
     \<lparr>us_id = fresh, us_email = email, us_password_hash = password_hash, us_is_admin = False,
      us_bypass_alias_limit = False, us_disable_autoclean = False, us_can_send_firsthand = False,
      us_created_at = now, us_updated_at = now, us_last_login_at = None, us_last_login_ip = None\<rparr>"

definition insert_user :: "uuid \<Rightarrow> time \<Rightarrow> string \<Rightarrow> string \<Rightarrow> user_row dbm" where
  "insert_user fresh now email password_hash =
     (let u = new_user fresh now email password_hash
      in insert_stmt (user_constraints u) (\<lambda>d. d\<lparr>t_users := t_users d @ [u]\<rparr>) (\<lambda>_. u))"

text \<open>\<open>UPDATE ... SET flag = NOT flag WHERE id = ? RETURNING flag\<close> with \<open>fetch_one\<close>.\<close>

definition toggle_user_flag ::
  "(user_row \<Rightarrow> bool) \<Rightarrow> (user_row \<Rightarrow> user_row) \<Rightarrow> uuid \<Rightarrow> bool dbm" where
  "toggle_user_flag flag flip user_id = stmt (\<lambda>d.
     case filter (\<lambda>u. us_id u = user_id) (t_users d) of
       [] \<Rightarrow> Inl RowNotFound
     | u # _ \<Rightarrow> Inr (\<not> flag u, set_users (\<lambda>u. us_id u = user_id) flip d))"

definition toggle_bypass_alias_limit :: "uuid \<Rightarrow> bool dbm" where
  "toggle_bypass_alias_limit = toggle_user_flag us_bypass_alias_limit
     (\<lambda>u. u\<lparr>us_bypass_alias_limit := \<not> us_bypass_alias_limit u\<rparr>)"

definition toggle_disable_autoclean :: "uuid \<Rightarrow> bool dbm" where
  "toggle_disable_autoclean = toggle_user_flag us_disable_autoclean
     (\<lambda>u. u\<lparr>us_disable_autoclean := \<not> us_disable_autoclean u\<rparr>)"

definition toggle_can_send_firsthand :: "uuid \<Rightarrow> bool dbm" where
  "toggle_can_send_firsthand = toggle_user_flag us_can_send_firsthand
     (\<lambda>u. u\<lparr>us_can_send_firsthand := \<not> us_can_send_firsthand u\<rparr>)"

definition validate_admin_credentials :: "string \<Rightarrow> string \<Rightarrow> string + unit" where
  "validate_admin_credentials admin_email admin_password =
     (let errors =
        (if trim admin_email = [] \<or> CHR ''@'' \<notin> set admin_email
         then [''ADMIN_EMAIL must be a non-empty, valid email address''] else []) @
        (if length admin_password < 8
         then [''ADMIN_PASSWORD must be at least 8 characters long''] else [])
      in if errors \<noteq> []
         then Err (''Admin credentials validation failed: '' @ join_with ''; '' errors @
           ''. Define ADMIN_EMAIL and ADMIN_PASSWORD in your environment or .env file.'')
         else Ok ())"

definition as_admin :: "time \<Rightarrow> string \<Rightarrow> user_row \<Rightarrow> user_row" where
  "as_admin now password_hash u =
     u\<lparr>us_password_hash := password_hash, us_is_admin := True, us_bypass_alias_limit := True,
       us_disable_autoclean := True, us_can_send_firsthand := True, us_updated_at := now\<rparr>"

definition upsert_admin :: "uuid \<Rightarrow> time \<Rightarrow> string \<Rightarrow> string \<Rightarrow> unit dbm" where
  "upsert_admin fresh now email password_hash = stmt (\<lambda>d.
     let u = as_admin now password_hash (new_user fresh now email password_hash)
     in if has us_email (t_users d) email
        then Inr ((), set_users (\<lambda>u. us_email u = email) (as_admin now password_hash) d)
        else (case violation (user_constraints u d) of
            Some e \<Rightarrow> Inl e
          | None \<Rightarrow> Inr ((), d\<lparr>t_users := t_users d @ [u]\<rparr>)))"

datatype seed_error = SeedInvalid string | SeedHash string | SeedDb sqlx_error

definition seed_admin_on_startup ::
  "(string \<Rightarrow> string + string) \<Rightarrow> uuid \<Rightarrow> time \<Rightarrow> string \<Rightarrow> string \<Rightarrow> db \<Rightarrow> (seed_error + unit) \<times> db" where
  "seed_admin_on_startup hash fresh now config_email config_password d =
     (let admin_email = trim config_email
      in case validate_admin_credentials admin_email config_password of
           Inl msg \<Rightarrow> (Err (SeedInvalid msg), d)
         | Inr _ \<Rightarrow> (case hash config_password of
             Inl e \<Rightarrow> (Err (SeedHash (''Password hashing failed: '' @ e)), d)
           | Inr password_hash \<Rightarrow> (case upsert_admin fresh now admin_email password_hash d of
               (Inl e, d') \<Rightarrow> (Err (SeedDb e), d')
             | (Inr _, d') \<Rightarrow> (Ok (), d'))))"

section \<open>Statistics\<close>

record user_with_stats =
  uw_id :: uuid
  uw_email :: string
  uw_is_admin :: bool
  uw_bypass_alias_limit :: bool
  uw_disable_autoclean :: bool
  uw_can_send_firsthand :: bool
  uw_created_at :: time
  uw_last_login_at :: "time option"
  uw_last_login_ip :: "string option"
  uw_alias_count :: nat
  uw_email_count :: nat

definition stats_of :: "db \<Rightarrow> user_row \<Rightarrow> user_with_stats" where
  "stats_of d u =
     \<lparr>uw_id = us_id u, uw_email = us_email u, uw_is_admin = us_is_admin u,
      uw_bypass_alias_limit = us_bypass_alias_limit u, uw_disable_autoclean = us_disable_autoclean u,
      uw_can_send_firsthand = us_can_send_firsthand u, uw_created_at = us_created_at u,
      uw_last_login_at = us_last_login_at u, uw_last_login_ip = us_last_login_ip u,
      uw_alias_count = length (remdups (aliases_of_user d (us_id u))),
      uw_email_count = length (remdups (map re_id (filter (owned_by d (us_id u)) (t_emails d))))\<rparr>"

definition get_all_users_with_stats :: "user_with_stats list dbm" where
  "get_all_users_with_stats = query (\<lambda>d. sort_key (\<lambda>s. - uw_created_at s) (map (stats_of d) (t_users d)))"

section \<open>api_keys.rs\<close>

definition insert_api_key :: "uuid \<Rightarrow> time \<Rightarrow> uuid \<Rightarrow> string \<Rightarrow> string \<Rightarrow> api_key_row dbm" where
  "insert_api_key fresh now user_id key_hash name =
     (let k = \<lparr>ak_id = fresh, ak_user_id = user_id, ak_key_hash = key_hash, ak_name = name, ak_created_at = now\<rparr>
      in insert_stmt (api_key_constraints k) (\<lambda>d. d\<lparr>t_api_keys := t_api_keys d @ [k]\<rparr>) (\<lambda>_. k))"

definition get_api_keys :: "uuid \<Rightarrow> api_key_row list dbm" where
  "get_api_keys user_id = query (\<lambda>d.
     sort_key (\<lambda>k. - ak_created_at k) (filter (\<lambda>k. ak_user_id k = user_id) (t_api_keys d)))"

definition delete_api_key :: "uuid \<Rightarrow> uuid \<Rightarrow> unit dbm" where
  "delete_api_key key_id user_id = exec (\<lambda>d.
     d\<lparr>t_api_keys := filter (\<lambda>k. \<not> (ak_id k = key_id \<and> ak_user_id k = user_id)) (t_api_keys d)\<rparr>)"

definition get_user_by_api_key_hash :: "string \<Rightarrow> user_row option dbm" where
  "get_user_by_api_key_hash key_hash = query_optional (\<lambda>d. concat (map
     (\<lambda>u. map (\<lambda>_. u) (filter (\<lambda>k. ak_user_id k = us_id u \<and> ak_key_hash k = key_hash) (t_api_keys d)))
     (t_users d)))"

section \<open>domains.rs\<close>

definition new_domain :: "uuid \<Rightarrow> time \<Rightarrow> string \<Rightarrow> string \<Rightarrow> string \<Rightarrow> domain_row" where
  "new_domain fresh now domain_name private_key public_key =
     \<lparr>dm_id = fresh, dm_name = domain_name, dm_active = True, dm_created_at = now,
      dm_dkim_private = Some private_key, dm_dkim_public = Some public_key, dm_dkim_selector = ''maileroo'',
      dm_pending_private = None, dm_pending_public = None, dm_pending_selector = None\<rparr>"

definition insert_domain ::
  "cipher_lib \<Rightarrow> string \<Rightarrow> string \<Rightarrow> (string + string \<times> string) \<Rightarrow> uuid \<Rightarrow> time \<Rightarrow> string \<Rightarrow> domain_row dbm" where
  "insert_domain lib config_key nonce key_pair fresh now domain_name =
     (case key_pair of
        Inl _ \<Rightarrow> db_fail ProtocolError
      | Inr (private_pem, public_dns) \<Rightarrow>
          (case encrypt lib config_key nonce private_pem of
             Inl _ \<Rightarrow> db_fail ProtocolError
           | Inr encrypted_private_pem \<Rightarrow>
               (let r = new_domain fresh now domain_name encrypted_private_pem public_dns
                in insert_stmt (domain_constraints r) (\<lambda>d. d\<lparr>t_domains := t_domains d @ [r]\<rparr>) (\<lambda>_. r))))"

definition get_domains :: "domain_row list dbm" where
  "get_domains = query t_domains"

definition get_dkim_key_by_domain ::
  "cipher_lib \<Rightarrow> string \<Rightarrow> string \<Rightarrow> (string option \<times> string) option dbm" where
  "get_dkim_key_by_domain lib config_key domain_name =
     db_bind (query_optional (\<lambda>d. map (\<lambda>m. (dm_dkim_private m, dm_dkim_selector m))
         (filter (\<lambda>m. dm_name m = domain_name \<and> dm_active m) (t_domains d)))) (\<lambda>dkim_opt.
       case dkim_opt of
         None \<Rightarrow> db_return None
       | Some (encrypted_key, selector) \<Rightarrow>
           (case encrypted_key of
              None \<Rightarrow> db_return (Some (None, selector))
            | Some key \<Rightarrow> (case decrypt lib config_key key of
                Inr plain \<Rightarrow> db_return (Some (Some plain, selector))
              | Inl _ \<Rightarrow> db_fail ProtocolError)))"

definition get_domain_count :: "nat dbm" where
  "get_domain_count = query (\<lambda>d. length (t_domains d))"

definition delete_domain_by_id :: "uuid \<Rightarrow> unit dbm" where
  "delete_domain_by_id domain_id = exec (\<lambda>d.
     purge_domains (map dm_id (filter (\<lambda>m. dm_id m = domain_id) (t_domains d))) d)"

definition get_domain_by_id :: "uuid \<Rightarrow> domain_row option dbm" where
  "get_domain_by_id i = query_optional (\<lambda>d. filter (\<lambda>m. dm_id m = i) (t_domains d))"

definition set_domains :: "uuid \<Rightarrow> (domain_row \<Rightarrow> domain_row) \<Rightarrow> db \<Rightarrow> db" where
  "set_domains i f d = d\<lparr>t_domains := update_rows (\<lambda>m. dm_id m = i) f (t_domains d)\<rparr>"

definition update_pending_dkim ::
  "uuid \<Rightarrow> string option \<Rightarrow> string option \<Rightarrow> string option \<Rightarrow> unit dbm" where
  "update_pending_dkim i private_key public_key selector = exec (set_domains i
     (\<lambda>m. m\<lparr>dm_pending_private := private_key, dm_pending_public := public_key, dm_pending_selector := selector\<rparr>))"

definition promote :: "domain_row \<Rightarrow> domain_row" where
  "promote m = m\<lparr>dm_dkim_private := dm_pending_private m, dm_dkim_public := dm_pending_public m,
     dm_dkim_selector := unwrap_or (dm_dkim_selector m) (dm_pending_selector m),
     dm_pending_private := None, dm_pending_public := None, dm_pending_selector := None\<rparr>"

definition promote_pending_dkim :: "uuid \<Rightarrow> unit dbm" where
  "promote_pending_dkim i = exec (set_domains i promote)"

definition clear_pending_dkim :: "uuid \<Rightarrow> unit dbm" where
  "clear_pending_dkim i = exec (set_domains i
     (\<lambda>m. m\<lparr>dm_pending_private := None, dm_pending_public := None, dm_pending_selector := None\<rparr>))"

section \<open>Integrity\<close>

lemma wf_set_users:
  assumes "\<And>u. us_id (f u) = us_id u" "\<And>u. us_email (f u) = us_email u" and "db_wf d"
  shows "db_wf (set_users p f d)"
  using assms(3) by (simp add: wf_defs set_users_def assms(1,2))

lemma wf_set_domains:
  assumes "\<And>m. dm_id (f m) = dm_id m" "\<And>m. dm_name (f m) = dm_name m" and "db_wf d"
  shows "db_wf (set_domains i f d)"
  using assms(3) by (simp add: wf_defs set_domains_def assms(1,2))

lemma keeps_user_updates:
  "keeps db_wf (update_last_login now u ip)"
  "keeps db_wf (insert_user fresh now email hash)"
  "keeps db_wf (upsert_admin fresh now email hash)"
proof -
  show "keeps db_wf (update_last_login now u ip)"
    unfolding update_last_login_def by (intro keeps_rules) (simp_all add: wf_set_users)
  show "keeps db_wf (insert_user fresh now email hash)"
    unfolding insert_user_def Let_def by (intro keeps_rules) (simp_all add: wf_insert_user)
  show "keeps db_wf (upsert_admin fresh now email hash)"
    unfolding upsert_admin_def Let_def
    by (rule keeps_stmt)
      (auto simp: wf_set_users wf_insert_user as_admin_def split: if_splits option.splits)
qed

lemma keeps_toggle_flag:
  assumes "\<And>u. us_id (flip u) = us_id u" "\<And>u. us_email (flip u) = us_email u"
  shows "keeps db_wf (toggle_user_flag flag flip u)"
  unfolding toggle_user_flag_def by (rule keeps_stmt) (auto simp: wf_set_users assms split: list.splits)

lemma keeps_toggles:
  "keeps db_wf (toggle_bypass_alias_limit u)" "keeps db_wf (toggle_disable_autoclean u)"
  "keeps db_wf (toggle_can_send_firsthand u)"
  unfolding toggle_bypass_alias_limit_def toggle_disable_autoclean_def toggle_can_send_firsthand_def
  by (rule keeps_toggle_flag; simp)+

lemma keeps_api_keys:
  "keeps db_wf (insert_api_key fresh now u hash name)" "keeps db_wf (delete_api_key k u)"
proof -
  show "keeps db_wf (insert_api_key fresh now u hash name)"
    unfolding insert_api_key_def Let_def by (intro keeps_rules) (simp_all add: wf_insert_api_key)
  show "keeps db_wf (delete_api_key k u)"
    unfolding delete_api_key_def by (intro keeps_rules) (simp_all add: wf_defs)
qed

lemma keeps_domains:
  "keeps db_wf (insert_domain lib ck nonce kp fresh now name)" "keeps db_wf (delete_domain_by_id i)"
  "keeps db_wf (update_pending_dkim i a b c)" "keeps db_wf (promote_pending_dkim i)"
  "keeps db_wf (clear_pending_dkim i)"
proof -
  have r: "keeps db_wf (insert_stmt (domain_constraints r) (\<lambda>d. d\<lparr>t_domains := t_domains d @ [r]\<rparr>) (\<lambda>_. r))" for r
    by (intro keeps_rules) (simp_all add: wf_insert_domain)
  show "keeps db_wf (insert_domain lib ck nonce kp fresh now name)"
    unfolding insert_domain_def Let_def
    by (cases kp) (auto intro: keeps_fail r split: sum.splits prod.splits)
  show "keeps db_wf (delete_domain_by_id i)"
    unfolding delete_domain_by_id_def by (intro keeps_rules) (simp_all add: wf_purge_domains)
  show "keeps db_wf (update_pending_dkim i a b c)"
    unfolding update_pending_dkim_def by (intro keeps_rules) (simp_all add: wf_set_domains)
  show "keeps db_wf (promote_pending_dkim i)"
    unfolding promote_pending_dkim_def by (intro keeps_rules) (simp_all add: wf_set_domains promote_def)
  show "keeps db_wf (clear_pending_dkim i)"
    unfolding clear_pending_dkim_def by (intro keeps_rules) (simp_all add: wf_set_domains)
qed

end
