(* ===== verification/Contracts.thy ===== *)
theory Contracts
  imports Rust_Prelude
begin

text \<open>
  The interfaces the components rely on, as locales: what a byte sink promises after a write, what a
  table promises of a lookup after an update, what a state machine keeps over a run.  The clients'
  lemmas are proved here once; each locale is interpreted on the definitions of the component that
  provides it, in that component's theory.
\<close>

section \<open>Runs\<close>

text \<open>A run feeds a list of inputs through a step function; \<open>put_all\<close> is the run of a fallible
  write, which stops at the first error.\<close>

definition run_steps :: "('s \<Rightarrow> 'i \<Rightarrow> 's) \<Rightarrow> 's \<Rightarrow> 'i list \<Rightarrow> 's" where
  "run_steps step s is = foldl step s is"

fun put_all :: "('x \<Rightarrow> 's \<Rightarrow> ('e + unit) \<times> 's) \<Rightarrow> 'x list \<Rightarrow> 's \<Rightarrow> ('e + unit) \<times> 's" where
  "put_all put [] s = (Ok (), s)"
| "put_all put (x # xs) s = (case put x s of
     (Inl e, s') \<Rightarrow> (Inl e, s')
   | (Inr _, s') \<Rightarrow> put_all put xs s')"

lemma run_steps_simps [simp]:
  "run_steps step s [] = s"
  "run_steps step s (i # is) = run_steps step (step s i) is"
  "run_steps step s (is @ js) = run_steps step (run_steps step s is) js"
  by (simp_all add: run_steps_def)

lemma put_all_append:
  "put_all put (xs @ ys) s = (case put_all put xs s of
     (Inl e, s') \<Rightarrow> (Inl e, s') | (Inr _, s') \<Rightarrow> put_all put ys s')"
  by (induction xs arbitrary: s) (auto split: sum.splits prod.splits)

section \<open>State machines with an invariant\<close>

locale machine =
  fixes step :: "'s \<Rightarrow> 'i \<Rightarrow> 's"
    and inv :: "'s \<Rightarrow> bool"
  assumes step_inv: "inv s \<Longrightarrow> inv (step s i)"
begin

lemma run_inv: "inv s \<Longrightarrow> inv (run_steps step s is)"
  by (induction "is" arbitrary: s) (simp_all add: step_inv)

lemma run_inv_prefix:
  assumes "inv s" and "is = js @ ks"
  shows "inv (run_steps step s js)"
  using assms run_inv by simp

end

text \<open>A machine with a measure of what is left to do, which every input brings down by at least one
  until it is zero; the run that feeds it that many inputs ends.\<close>

locale ranked_machine = machine step inv
  for step :: "'s \<Rightarrow> 'i \<Rightarrow> 's" and inv :: "'s \<Rightarrow> bool" +
  fixes rank :: "'s \<Rightarrow> nat"
  assumes step_rank: "inv s \<Longrightarrow> rank (step s i) \<le> rank s - 1"
begin

lemma run_rank: "inv s \<Longrightarrow> rank (run_steps step s is) \<le> rank s - length is"
proof (induction "is" arbitrary: s)
  case (Cons i "is")
  from Cons.IH [OF step_inv [OF Cons.prems, of i]] step_rank [OF Cons.prems, of i] show ?case
    by simp
qed simp

lemma run_ends: "inv s \<Longrightarrow> rank s \<le> length is \<Longrightarrow> rank (run_steps step s is) = 0"
  using run_rank [of s "is"] by simp

end

section \<open>Byte sinks\<close>

locale byte_sink =
  fixes ok :: "'s \<Rightarrow> bool"
    and content :: "'s \<Rightarrow> string"
    and norm :: "'x \<Rightarrow> string"
    and put :: "'x \<Rightarrow> 's \<Rightarrow> ('e + unit) \<times> 's"
  assumes put_Ok: "ok s \<Longrightarrow> put x s = (Inr (), s') \<Longrightarrow> ok s' \<and> content s' = content s @ norm x"
    and put_Err: "ok s \<Longrightarrow> put x s = (Inl e, s') \<Longrightarrow> ok s' \<and> content s' = content s"
begin

lemma put_ok: "ok s \<Longrightarrow> ok (snd (put x s))"
proof (cases "put x s")
  case (Pair r s')
  then show "ok s \<Longrightarrow> ?thesis"
    using put_Ok [of s x s'] put_Err [of s x _ s'] by (cases r) auto
qed

lemma put_all_Ok:
  "ok s \<Longrightarrow> put_all put xs s = (Inr (), s') \<Longrightarrow>
   ok s' \<and> content s' = content s @ concat (map norm xs)"
proof (induction xs arbitrary: s)
  case (Cons x xs)
  from Cons.prems(2) obtain s1 where s1: "put x s = (Inr (), s1)" "put_all put xs s1 = (Inr (), s')"
    by (auto split: prod.splits sum.splits)
  with Cons.IH [of s1] put_Ok [OF Cons.prems(1) s1(1)] show ?case by simp
qed simp

lemma put_all_Err:
  "ok s \<Longrightarrow> put_all put xs s = (Inl e, s') \<Longrightarrow>
   ok s' \<and> (\<exists>ys zs. xs = ys @ zs \<and> zs \<noteq> [] \<and> content s' = content s @ concat (map norm ys))"
proof (induction xs arbitrary: s)
  case (Cons x xs)
  show ?case
  proof (cases "put x s")
    case (Pair r s1)
    show ?thesis
    proof (cases r)
      case (Inl e')
      with Cons.prems Pair put_Err [OF Cons.prems(1), of x e' s1] have "ok s'" "content s' = content s"
        by auto
      then show ?thesis by (intro conjI exI [of _ "[]"] exI [of _ "x # xs"]) auto
    next
      case (Inr u)
      with Pair Cons.prems put_Ok [OF Cons.prems(1), of x s1] Cons.IH [of s1] obtain ys zs where
        "ok s'" "xs = ys @ zs" "zs \<noteq> []" "content s' = content s @ norm x @ concat (map norm ys)"
        by auto
      then show ?thesis by (intro conjI exI [of _ "x # ys"] exI [of _ zs]) auto
    qed
  qed
qed simp

end

text \<open>A sink with a size limit that no accepted write exceeds.\<close>

locale bounded_sink = byte_sink ok content norm put
  for ok :: "'s \<Rightarrow> bool" and content :: "'s \<Rightarrow> string" and norm :: "'x \<Rightarrow> string"
    and put :: "'x \<Rightarrow> 's \<Rightarrow> ('e + unit) \<times> 's" +
  fixes limit :: "'s \<Rightarrow> nat"
  assumes content_le: "ok s \<Longrightarrow> length (content s) \<le> limit s"
    and put_limit: "limit (snd (put x s)) = limit s"
begin

lemma put_all_limit: "limit (snd (put_all put xs s)) = limit s"
proof (induction xs arbitrary: s)
  case (Cons x xs)
  obtain r s1 where p: "put x s = (r, s1)" by (cases "put x s")
  with put_limit [of x s] have "limit s1 = limit s" by simp
  with p Cons.IH [of s1] show ?case by (cases r) simp_all
qed simp

lemma put_all_ok: "ok s \<Longrightarrow> ok (snd (put_all put xs s))"
proof (induction xs arbitrary: s)
  case (Cons x xs)
  obtain r s1 where p: "put x s = (r, s1)" by (cases "put x s")
  with put_ok [OF Cons.prems, of x] have "ok s1" by simp
  with p Cons.IH [of s1] show ?case by (cases r) simp_all
qed simp

lemma put_all_bounded: "ok s \<Longrightarrow> length (content (snd (put_all put xs s))) \<le> limit s"
  using content_le [OF put_all_ok, of s xs] put_all_limit [of xs s] by simp

lemma put_all_Ok_total:
  assumes "ok s" "put_all put xs s = (Inr (), s')"
  shows "length (content s) + length (concat (map norm xs)) \<le> limit s"
  using put_all_bounded [OF assms(1), of xs] put_all_Ok [OF assms] assms(2) by simp

end

end
