(* ===== verification/File_Store.thy ===== *)
theory File_Store
  imports Rust_Prelude
begin

text \<open>
  The file system the server writes to, and \<open>src/src/fs.rs\<close>.

  A store has the regular files (contents and permission bits), the directories (permission bits),
  the mode the process umask gives to a new file, and the schedule of the I/O faults to come: every
  system call takes one entry of the schedule, and fails when the entry is \<open>True\<close> (an exhausted
  schedule means no further fault).  So a theorem that quantifies over the store quantifies over
  every pattern of I/O failures.  A failed write leaves the file as the preceding call left it.
\<close>

section \<open>The store\<close>

text \<open>Permission bits are numbers: 384 is \<open>0o600\<close>, 448 is \<open>0o700\<close>, 420 is \<open>0o644\<close>.\<close>

abbreviation mode_0600 :: nat where "mode_0600 \<equiv> 384"
abbreviation mode_0700 :: nat where "mode_0700 \<equiv> 448"
abbreviation mode_0644 :: nat where "mode_0644 \<equiv> 420"

datatype io_error =
    OutOfMemory | ConnectionAborted | TimedOut | BrokenPipe | NotConnected | NotFound
  | InvalidData | OtherIo string

record file_entry =
  file_bytes :: string
  file_mode :: nat

record fs =
  files :: "string \<Rightarrow> file_entry option"
  dirs :: "string \<Rightarrow> nat option"
  default_mode :: nat
  io_faults :: "bool list"

type_synonym 'a io = "fs \<Rightarrow> (io_error + 'a) \<times> fs"

definition empty_fs :: fs where
  "empty_fs = \<lparr>files = (\<lambda>_. None), dirs = (\<lambda>_. None), default_mode = mode_0644, io_faults = []\<rparr>"

definition next_fault :: "fs \<Rightarrow> bool \<times> fs" where
  "next_fault \<sigma> = (case io_faults \<sigma> of [] \<Rightarrow> (False, \<sigma>) | b # bs \<Rightarrow> (b, \<sigma>\<lparr>io_faults := bs\<rparr>))"

definition io_return :: "'a \<Rightarrow> 'a io" where
  "io_return a = (\<lambda>\<sigma>. (Ok a, \<sigma>))"

definition io_fail :: "io_error \<Rightarrow> 'a io" where
  "io_fail e = (\<lambda>\<sigma>. (Err e, \<sigma>))"

definition io_bind :: "'a io \<Rightarrow> ('a \<Rightarrow> 'b io) \<Rightarrow> 'b io" where
  "io_bind m f = (\<lambda>\<sigma>. case m \<sigma> of (Inl e, \<sigma>') \<Rightarrow> (Inl e, \<sigma>') | (Inr a, \<sigma>') \<Rightarrow> f a \<sigma>')"

text \<open>One system call: it fails by the schedule, or acts on the store.\<close>

definition syscall :: "(fs \<Rightarrow> 'a \<times> fs) \<Rightarrow> 'a io" where
  "syscall f = (\<lambda>\<sigma>. case next_fault \<sigma> of
     (True, \<sigma>') \<Rightarrow> (Err (OtherIo ''io''), \<sigma>')
   | (False, \<sigma>') \<Rightarrow> (case f \<sigma>' of (a, \<sigma>'') \<Rightarrow> (Ok a, \<sigma>'')))"

definition store_file :: "string \<Rightarrow> string \<Rightarrow> fs \<Rightarrow> fs" where
  "store_file path bytes \<sigma> =
     (let mode = (case files \<sigma> path of None \<Rightarrow> default_mode \<sigma> | Some f \<Rightarrow> file_mode f)
      in \<sigma>\<lparr>files := (files \<sigma>)(path := Some \<lparr>file_bytes = bytes, file_mode = mode\<rparr>)\<rparr>)"

definition chmod :: "string \<Rightarrow> nat \<Rightarrow> fs \<Rightarrow> fs" where
  "chmod path mode \<sigma> = (case files \<sigma> path of
     None \<Rightarrow> \<sigma>
   | Some f \<Rightarrow> \<sigma>\<lparr>files := (files \<sigma>)(path := Some (f\<lparr>file_mode := mode\<rparr>))\<rparr>)"

text \<open>\<open>std::fs::write\<close> opens (creating or truncating) and then writes; \<open>set_permissions\<close> fails on a
  path that is not there; \<open>read\<close> gives the bytes; \<open>remove_file\<close> unlinks.\<close>

definition fs_write :: "string \<Rightarrow> string \<Rightarrow> unit io" where
  "fs_write path bytes =
     io_bind (syscall (\<lambda>\<sigma>. ((), store_file path [] \<sigma>)))
       (\<lambda>_. syscall (\<lambda>\<sigma>. ((), store_file path bytes \<sigma>)))"

definition set_permissions :: "string \<Rightarrow> nat \<Rightarrow> unit io" where
  "set_permissions path mode = (\<lambda>\<sigma>.
     case files \<sigma> path of
       None \<Rightarrow> (Err NotFound, snd (next_fault \<sigma>))
     | Some _ \<Rightarrow> syscall (\<lambda>\<sigma>. ((), chmod path mode \<sigma>)) \<sigma>)"

definition fs_read :: "string \<Rightarrow> string io" where
  "fs_read path = (\<lambda>\<sigma>.
     case files \<sigma> path of
       None \<Rightarrow> (Err NotFound, snd (next_fault \<sigma>))
     | Some f \<Rightarrow> syscall (\<lambda>\<sigma>. (file_bytes f, \<sigma>)) \<sigma>)"

definition remove_file :: "string \<Rightarrow> unit io" where
  "remove_file path = (\<lambda>\<sigma>.
     case files \<sigma> path of
       None \<Rightarrow> (Err NotFound, snd (next_fault \<sigma>))
     | Some _ \<Rightarrow> syscall (\<lambda>\<sigma>. ((), \<sigma>\<lparr>files := (files \<sigma>)(path := None)\<rparr>)) \<sigma>)"

definition append_file :: "string \<Rightarrow> string \<Rightarrow> unit io" where
  "append_file path bytes =
     io_bind (syscall (\<lambda>\<sigma>. ((), case files \<sigma> path of None \<Rightarrow> store_file path [] \<sigma> | Some _ \<Rightarrow> \<sigma>)))
       (\<lambda>_. syscall (\<lambda>\<sigma>. ((), case files \<sigma> path of None \<Rightarrow> \<sigma>
          | Some f \<Rightarrow> store_file path (file_bytes f @ bytes) \<sigma>)))"

fun proper_prefixes :: "string \<Rightarrow> string \<Rightarrow> string list" where
  "proper_prefixes acc [] = []"
| "proper_prefixes acc (c # cs) =
    (if c = CHR ''/'' \<and> acc \<noteq> [] then [rev acc] else []) @ proper_prefixes (c # acc) cs"

text \<open>The directories \<open>DirBuilder::recursive(true)\<close> makes, outermost first; existing ones keep
  their mode.\<close>

fun make_dirs :: "nat \<Rightarrow> string list \<Rightarrow> unit io" where
  "make_dirs mode [] = io_return ()"
| "make_dirs mode (p # ps) = (\<lambda>\<sigma>.
     case dirs \<sigma> p of
       Some _ \<Rightarrow> make_dirs mode ps \<sigma>
     | None \<Rightarrow> io_bind (syscall (\<lambda>\<sigma>. ((), \<sigma>\<lparr>dirs := (dirs \<sigma>)(p := Some mode)\<rparr>)))
                 (\<lambda>_. make_dirs mode ps) \<sigma>)"

section \<open>The operations of fs.rs\<close>

definition create_dir_all_sync_with_permissions :: "string \<Rightarrow> unit io" where
  "create_dir_all_sync_with_permissions path = make_dirs mode_0700 (proper_prefixes [] path @ [path])"

definition create_dir_all_async_with_permissions :: "string \<Rightarrow> unit io" where
  "create_dir_all_async_with_permissions path = make_dirs mode_0700 (proper_prefixes [] path @ [path])"

definition write_file_async_with_permissions :: "string \<Rightarrow> string \<Rightarrow> unit io" where
  "write_file_async_with_permissions path contents =
     io_bind (fs_write path contents) (\<lambda>_. set_permissions path mode_0600)"

definition write_file_sync_with_permissions :: "string \<Rightarrow> string \<Rightarrow> unit io" where
  "write_file_sync_with_permissions path contents =
     io_bind (fs_write path contents) (\<lambda>_. set_permissions path mode_0600)"

definition set_file_permissions_to_user_only :: "string \<Rightarrow> unit io" where
  "set_file_permissions_to_user_only path = set_permissions path mode_0600"

section \<open>Facts\<close>

named_theorems io_simps \<open>evaluation rules of the I/O operations\<close>

lemma next_fault_files [simp]:
  "files (snd (next_fault \<sigma>)) = files \<sigma>" "dirs (snd (next_fault \<sigma>)) = dirs \<sigma>"
  "default_mode (snd (next_fault \<sigma>)) = default_mode \<sigma>"
  by (simp_all add: next_fault_def split: list.split)

lemma next_fault_no_fault [simp]: "io_faults \<sigma> = [] \<Longrightarrow> next_fault \<sigma> = (False, \<sigma>)"
  by (simp add: next_fault_def)

lemma io_bind_Ok_iff:
  "io_bind m f \<sigma> = (Inr b, \<sigma>') \<longleftrightarrow> (\<exists>a \<sigma>1. m \<sigma> = (Inr a, \<sigma>1) \<and> f a \<sigma>1 = (Inr b, \<sigma>'))"
  by (auto simp: io_bind_def split: prod.splits sum.splits)

lemma syscall_Ok_iff:
  "syscall f \<sigma> = (Inr a, \<sigma>') \<longleftrightarrow> \<not> fst (next_fault \<sigma>) \<and> f (snd (next_fault \<sigma>)) = (a, \<sigma>')"
  by (auto simp: syscall_def split: prod.splits bool.splits)

lemma store_file_bytes [simp]:
  "map_option file_bytes (files (store_file p b \<sigma>) q) =
     (if q = p then Some b else map_option file_bytes (files \<sigma> q))"
  by (simp add: store_file_def Let_def)

lemma write_file_Ok:
  assumes "write_file_sync_with_permissions p b \<sigma> = (Ok (), \<sigma>')"
  shows "files \<sigma>' = (files \<sigma>)(p := Some \<lparr>file_bytes = b, file_mode = mode_0600\<rparr>)"
  using assms
  by (auto simp: write_file_sync_with_permissions_def fs_write_def set_permissions_def
      io_bind_Ok_iff syscall_Ok_iff store_file_def chmod_def Let_def split: option.splits)

lemma write_file_no_fault:
  assumes "io_faults \<sigma> = []"
  shows "write_file_sync_with_permissions p b \<sigma> =
    (Ok (), \<sigma>\<lparr>files := (files \<sigma>)(p := Some \<lparr>file_bytes = b, file_mode = mode_0600\<rparr>)\<rparr>)"
  using assms
  by (simp add: write_file_sync_with_permissions_def fs_write_def set_permissions_def io_bind_def
      syscall_def store_file_def chmod_def Let_def split: option.splits)

end
