(* ===== verification/Body_Buffer.thy ===== *)
theory Body_Buffer
  imports Contracts File_Store
begin

text \<open>
  \<open>SmartBodyBuffer\<close> of \<open>src/src/inbound/protocol.rs\<close>: the message body under construction, in memory
  up to \<open>max_memory\<close> bytes and in a temporary file behind a \<open>std::io::BufWriter\<close> above that.

  \<open>Disk tmp pending\<close> is the temporary file's bytes as the operating system has them and the bytes
  the \<open>BufWriter\<close> still holds; the writer's capacity is the standard library's 8192 bytes, with its
  rule (a slice that fits the spare room is copied, a larger one flushes first, one of at least the
  capacity goes straight through).
\<close>

section \<open>The standard library's BufWriter\<close>

definition bufwriter_capacity :: nat where
  "bufwriter_capacity = 8192"

definition flush_buf :: "(string \<times> string) \<Rightarrow> fs \<Rightarrow> (io_error + unit) \<times> (string \<times> string) \<times> fs" where
  "flush_buf w \<sigma> = (case w of (tmp, pending) \<Rightarrow>
     if pending = [] then (Ok (), w, \<sigma>)
     else (case syscall (\<lambda>\<sigma>. ((), \<sigma>)) \<sigma> of
             (Inl e, \<sigma>') \<Rightarrow> (Inl e, w, \<sigma>')
           | (Inr _, \<sigma>') \<Rightarrow> (Ok (), (tmp @ pending, []), \<sigma>')))"

definition write_through :: "string \<Rightarrow> (string \<times> string) \<Rightarrow> fs \<Rightarrow> (io_error + unit) \<times> (string \<times> string) \<times> fs" where
  "write_through bytes w \<sigma> = (case w of (tmp, pending) \<Rightarrow>
     if length bytes \<ge> bufwriter_capacity
     then (case syscall (\<lambda>\<sigma>. ((), \<sigma>)) \<sigma> of
             (Inl e, \<sigma>') \<Rightarrow> (Inl e, w, \<sigma>')
           | (Inr _, \<sigma>') \<Rightarrow> (Ok (), (tmp @ bytes, pending), \<sigma>'))
     else (Ok (), (tmp, pending @ bytes), \<sigma>))"

definition bufwriter_write_all :: "string \<Rightarrow> (string \<times> string) \<times> fs \<Rightarrow> (io_error + unit) \<times> (string \<times> string) \<times> fs" where
  "bufwriter_write_all bytes ws = (case ws of (w, \<sigma>) \<Rightarrow>
     (let spare = bufwriter_capacity - length (snd w)
      in if length bytes < spare then (Ok (), (fst w, snd w @ bytes), \<sigma>)
         else if length bytes > spare
         then (case flush_buf w \<sigma> of
                 (Inl e, w', \<sigma>') \<Rightarrow> (Inl e, w', \<sigma>')
               | (Inr _, w', \<sigma>') \<Rightarrow> write_through bytes w' \<sigma>')
         else write_through bytes w \<sigma>))"

section \<open>The buffer\<close>

datatype body_buffer_state =
    Memory string
  | Disk string string

record smart_body_buffer =
  bb_state :: body_buffer_state
  max_memory :: nat
  max_total_size :: nat
  bytes_written :: nat

definition buffer_new :: "nat \<Rightarrow> smart_body_buffer" where
  "buffer_new mem = \<lparr>bb_state = Memory [], max_memory = mem,
     max_total_size = 25 * 1024 * 1024, bytes_written = 0\<rparr>"

definition buffer_clear :: "smart_body_buffer \<Rightarrow> smart_body_buffer" where
  "buffer_clear b = b\<lparr>bb_state := Memory [], bytes_written := 0\<rparr>"

definition unstuff :: "string \<Rightarrow> string" where
  "unstuff line = (case strip_prefix ''.'' line of Some stripped \<Rightarrow> stripped | None \<Rightarrow> line)"

definition buffer_append ::
  "string \<Rightarrow> smart_body_buffer \<times> fs \<Rightarrow> (io_error + unit) \<times> smart_body_buffer \<times> fs" where
  "buffer_append line bs = (case bs of (b, \<sigma>) \<Rightarrow>
     (let content_bytes = unstuff line;
          done = (\<lambda>st. b\<lparr>bb_state := st, bytes_written := bytes_written b + length content_bytes\<rparr>)
      in if bytes_written b + length content_bytes > max_total_size b then (Err OutOfMemory, b, \<sigma>)
         else (case bb_state b of
             Memory vec \<Rightarrow>
               if length vec + length content_bytes > max_memory b
               then (case syscall (\<lambda>\<sigma>. ((), \<sigma>)) \<sigma> of
                   (Inl e, \<sigma>1) \<Rightarrow> (Inl e, b, \<sigma>1)
                 | (Inr _, \<sigma>1) \<Rightarrow> (case syscall (\<lambda>\<sigma>. ((), \<sigma>)) \<sigma>1 of
                   (Inl e, \<sigma>2) \<Rightarrow> (Inl e, b, \<sigma>2)
                 | (Inr _, \<sigma>2) \<Rightarrow> (case bufwriter_write_all vec (([], []), \<sigma>2) of
                   (Inl e, _, \<sigma>3) \<Rightarrow> (Inl e, b, \<sigma>3)
                 | (Inr _, w3, \<sigma>3) \<Rightarrow> (case bufwriter_write_all content_bytes (w3, \<sigma>3) of
                   (Inl e, _, \<sigma>4) \<Rightarrow> (Inl e, b, \<sigma>4)
                 | (Inr _, w4, \<sigma>4) \<Rightarrow> (Ok (), done (Disk (fst w4) (snd w4)), \<sigma>4)))))
               else (Ok (), done (Memory (vec @ content_bytes)), \<sigma>)
           | Disk tmp pending \<Rightarrow>
               (case bufwriter_write_all content_bytes ((tmp, pending), \<sigma>) of
                  (Inl e, w, \<sigma>1) \<Rightarrow> (Inl e, b\<lparr>bb_state := Disk (fst w) (snd w)\<rparr>, \<sigma>1)
                | (Inr _, w, \<sigma>1) \<Rightarrow> (Ok (), done (Disk (fst w) (snd w)), \<sigma>1)))))"

definition buffer_len :: "smart_body_buffer \<Rightarrow> nat" where
  "buffer_len b = bytes_written b"

definition buffer_is_empty :: "smart_body_buffer \<Rightarrow> bool" where
  "buffer_is_empty b = (bytes_written b = 0)"

text \<open>\<open>extract_full_metadata\<close> reopens the temporary file, so in \<open>Disk\<close> mode it reads what the
  operating system has, not what the writer still holds.  The parser is a parameter.\<close>

definition buffer_extract_full_metadata ::
  "(string \<Rightarrow> string \<Rightarrow> 'm) \<Rightarrow> string \<Rightarrow> smart_body_buffer \<Rightarrow> 'm io" where
  "buffer_extract_full_metadata parse envelope_sender b = (\<lambda>\<sigma>.
     case bb_state b of
       Memory vec \<Rightarrow> (Ok (parse vec envelope_sender), \<sigma>)
     | Disk tmp pending \<Rightarrow>
         io_bind (syscall (\<lambda>\<sigma>. ((), \<sigma>)))
           (\<lambda>_. syscall (\<lambda>\<sigma>. (parse tmp envelope_sender, \<sigma>))) \<sigma>)"

definition buffer_persist_to_path ::
  "string \<Rightarrow> smart_body_buffer \<times> fs \<Rightarrow> (io_error + unit) \<times> smart_body_buffer \<times> fs" where
  "buffer_persist_to_path dest bs = (case bs of (b, \<sigma>) \<Rightarrow>
     (let emptied = b\<lparr>bb_state := Memory []\<rparr>
      in case bb_state b of
           Memory vec \<Rightarrow> (case write_file_sync_with_permissions dest vec \<sigma> of
               (Inl e, \<sigma>1) \<Rightarrow> (Inl e, emptied, \<sigma>1)
             | (Inr _, \<sigma>1) \<Rightarrow> (Ok (), emptied\<lparr>bb_state := Memory vec\<rparr>, \<sigma>1))
         | Disk tmp pending \<Rightarrow> (case flush_buf (tmp, pending) \<sigma> of
               (Inl e, _, \<sigma>1) \<Rightarrow> (Inl e, emptied, \<sigma>1)
             | (Inr _, w, \<sigma>1) \<Rightarrow> (case syscall (\<lambda>\<sigma>. ((), \<sigma>\<lparr>files := (files \<sigma>)(dest :=
                   Some \<lparr>file_bytes = fst w, file_mode = mode_0600\<rparr>)\<rparr>)) \<sigma>1 of
                 (Inl e, \<sigma>2) \<Rightarrow> (Err (OtherIo ''Failed to persist temp file to final destination''), emptied, \<sigma>2)
               | (Inr _, \<sigma>2) \<Rightarrow> (Ok (), emptied, \<sigma>2)))))"

definition buffer_get_content_bytes ::
  "smart_body_buffer \<times> fs \<Rightarrow> (io_error + string) \<times> smart_body_buffer \<times> fs" where
  "buffer_get_content_bytes bs = (case bs of (b, \<sigma>) \<Rightarrow>
     (case bb_state b of
        Memory vec \<Rightarrow> (Ok vec, b, \<sigma>)
      | Disk tmp pending \<Rightarrow> (case flush_buf (tmp, pending) \<sigma> of
            (Inl e, w, \<sigma>1) \<Rightarrow> (Inl e, b\<lparr>bb_state := Disk (fst w) (snd w)\<rparr>, \<sigma>1)
          | (Inr _, w, \<sigma>1) \<Rightarrow>
              (let b' = b\<lparr>bb_state := Disk (fst w) (snd w)\<rparr>
               in case syscall (\<lambda>\<sigma>. ((), \<sigma>)) \<sigma>1 of
                    (Inl e, \<sigma>2) \<Rightarrow> (Inl e, b', \<sigma>2)
                  | (Inr _, \<sigma>2) \<Rightarrow> (case syscall (\<lambda>\<sigma>. (fst w, \<sigma>)) \<sigma>2 of
                      (Inl e, \<sigma>3) \<Rightarrow> (Inl e, b', \<sigma>3)
                    | (Inr bytes, \<sigma>3) \<Rightarrow> (Ok bytes, b', \<sigma>3))))))"

section \<open>What the buffer holds\<close>

definition buffer_content :: "smart_body_buffer \<Rightarrow> string" where
  "buffer_content b = (case bb_state b of Memory vec \<Rightarrow> vec | Disk tmp pending \<Rightarrow> tmp @ pending)"

definition buffer_ok :: "smart_body_buffer \<Rightarrow> bool" where
  "buffer_ok b = (bytes_written b = length (buffer_content b) \<and> bytes_written b \<le> max_total_size b
     \<and> (case bb_state b of Memory vec \<Rightarrow> length vec \<le> max_memory b
        | Disk tmp pending \<Rightarrow> length pending \<le> bufwriter_capacity))"

section \<open>The writer is a byte sink\<close>

lemma flush_buf_spec:
  "flush_buf w \<sigma> = (r, w', \<sigma>') \<Longrightarrow>
   fst w' @ snd w' = fst w @ snd w \<and> (is_ok r \<longrightarrow> snd w' = []) \<and> (\<not> is_ok r \<longrightarrow> w' = w)"
  by (auto simp: flush_buf_def split: prod.splits if_splits sum.splits)

lemma write_through_spec:
  assumes "write_through bytes w \<sigma> = (r, w', \<sigma>')"
    and "snd w = [] \<or> length bytes + length (snd w) \<le> bufwriter_capacity \<and> length bytes < bufwriter_capacity"
  shows "if is_ok r then fst w' @ snd w' = fst w @ snd w @ bytes \<and> length (snd w') \<le> bufwriter_capacity
         else w' = w"
  using assms by (auto simp: write_through_def split: prod.splits if_splits sum.splits)

lemma bufwriter_spec:
  assumes run: "bufwriter_write_all bytes (w, \<sigma>) = (r, w', \<sigma>')"
    and room: "length (snd w) \<le> bufwriter_capacity"
  shows "length (snd w') \<le> bufwriter_capacity \<and>
    fst w' @ snd w' = fst w @ snd w @ (if is_ok r then bytes else [])"
proof -
  let ?spare = "bufwriter_capacity - length (snd w)"
  consider "length bytes < ?spare" | "length bytes = ?spare" | "length bytes > ?spare" by linarith
  then show ?thesis
  proof cases
    case 1
    with run show ?thesis by (auto simp: bufwriter_write_all_def Let_def)
  next
    case 2
    then have w: "write_through bytes w \<sigma> = (r, w', \<sigma>')" using run
      by (simp add: bufwriter_write_all_def Let_def)
    have "snd w = [] \<or> length bytes + length (snd w) \<le> bufwriter_capacity \<and> length bytes < bufwriter_capacity"
      using 2 room by (cases "snd w") (auto simp: bufwriter_capacity_def)
    from write_through_spec [OF w this] room show ?thesis by (auto split: if_splits)
  next
    case 3
    obtain r1 w1 \<sigma>1 where f: "flush_buf w \<sigma> = (r1, w1, \<sigma>1)" by (metis prod_cases3)
    show ?thesis
    proof (cases r1)
      case (Inl e)
      with 3 run f flush_buf_spec [OF f] room show ?thesis
        by (auto simp: bufwriter_write_all_def Let_def)
    next
      case (Inr u)
      with 3 run f have w: "write_through bytes w1 \<sigma>1 = (r, w', \<sigma>')"
        by (simp add: bufwriter_write_all_def Let_def)
      have empty: "snd w1 = []" using flush_buf_spec [OF f] Inr by simp
      with write_through_spec [OF w] have
        "if is_ok r then fst w' @ snd w' = fst w1 @ snd w1 @ bytes \<and> length (snd w') \<le> bufwriter_capacity
         else w' = w1" by simp
      with flush_buf_spec [OF f] empty show ?thesis by (auto split: if_splits)
    qed
  qed
qed

interpretation writer: byte_sink
  "\<lambda>ws. length (snd (fst ws)) \<le> bufwriter_capacity"
  "\<lambda>ws. fst (fst ws) @ snd (fst ws)" "\<lambda>x. x"
  bufwriter_write_all
proof (unfold_locales, goal_cases)
  case (1 s x s')
  then show ?case using bufwriter_spec [of x "fst s" "snd s" "Inr ()" "fst s'" "snd s'"] by auto
next
  case (2 s x e s')
  then show ?case using bufwriter_spec [of x "fst s" "snd s" "Inl e" "fst s'" "snd s'"] by auto
qed

section \<open>The buffer is a bounded byte sink\<close>

lemma append_over_limit:
  "bytes_written b + length (unstuff x) > max_total_size b \<Longrightarrow>
   buffer_append x (b, \<sigma>) = (Err OutOfMemory, b, \<sigma>)"
  by (simp add: buffer_append_def Let_def)

lemma append_memory:
  assumes "bb_state b = Memory vec" "\<not> bytes_written b + length (unstuff x) > max_total_size b"
    and ok: "buffer_ok b" and run: "buffer_append x (b, \<sigma>) = (r, b', \<sigma>')"
  shows "if is_ok r then buffer_ok b' \<and> buffer_content b' = buffer_content b @ unstuff x
         else b' = b"
proof (cases "length vec + length (unstuff x) > max_memory b")
  case False
  with assms show ?thesis by (auto simp: buffer_append_def Let_def buffer_ok_def buffer_content_def)
next
  case True
  show ?thesis
  proof (cases "is_ok r")
    case False
    with True assms show ?thesis
      by (auto simp: buffer_append_def Let_def split: sum.splits prod.splits)
  next
    case r: True
    with True assms obtain \<sigma>2 w3 \<sigma>3 u3 w4 \<sigma>4 u4 where
      w3: "bufwriter_write_all vec (([], []), \<sigma>2) = (Inr u3, w3, \<sigma>3)" and
      w4: "bufwriter_write_all (unstuff x) (w3, \<sigma>3) = (Inr u4, w4, \<sigma>4)" and
      b': "b' = b\<lparr>bb_state := Disk (fst w4) (snd w4), bytes_written := bytes_written b + length (unstuff x)\<rparr>"
      by (auto simp: buffer_append_def Let_def split: sum.splits prod.splits)
    from bufwriter_spec [OF w3] have 3: "length (snd w3) \<le> bufwriter_capacity" "fst w3 @ snd w3 = vec"
      by auto
    from bufwriter_spec [OF w4 3(1)] 3(2) have
      "length (snd w4) \<le> bufwriter_capacity" "fst w4 @ snd w4 = vec @ unstuff x" by auto
    moreover from this(2) have "length (fst w4) + length (snd w4) = length vec + length (unstuff x)"
      by (metis length_append)
    ultimately show ?thesis using b' r assms(1-3)
      by (auto simp: buffer_ok_def buffer_content_def)
  qed
qed

lemma append_disk:
  assumes "bb_state b = Disk tmp pending" "\<not> bytes_written b + length (unstuff x) > max_total_size b"
    and ok: "buffer_ok b" and run: "buffer_append x (b, \<sigma>) = (r, b', \<sigma>')"
  shows "buffer_ok b' \<and> buffer_content b' = buffer_content b @ (if is_ok r then unstuff x else [])"
proof -
  obtain r1 w \<sigma>1 where w: "bufwriter_write_all (unstuff x) ((tmp, pending), \<sigma>) = (r1, w, \<sigma>1)"
    by (metis prod_cases3)
  have "length pending \<le> bufwriter_capacity" using ok assms(1) by (simp add: buffer_ok_def)
  with bufwriter_spec [OF w] have s: "length (snd w) \<le> bufwriter_capacity"
    "fst w @ snd w = tmp @ pending @ (if is_ok r1 then unstuff x else [])" by simp_all
  from arg_cong [OF s(2), of length] have l: "length (fst w) + length (snd w) =
      length tmp + length pending + (if is_ok r1 then length (unstuff x) else 0)"
    by (simp split: if_splits)
  show ?thesis using assms w s l
    by (cases r1) (auto simp: buffer_append_def Let_def buffer_ok_def buffer_content_def)
qed

lemma append_spec:
  assumes "buffer_ok b" "buffer_append x (b, \<sigma>) = (r, b', \<sigma>')"
  shows "buffer_ok b' \<and> buffer_content b' = buffer_content b @ (if is_ok r then unstuff x else [])"
proof (cases "bytes_written b + length (unstuff x) > max_total_size b")
  case True
  then show ?thesis using append_over_limit [OF True, of \<sigma>] assms by auto
next
  case False
  then show ?thesis using append_memory [OF _ False assms] append_disk [OF _ False assms] assms(1)
    by (cases "bb_state b") (auto split: if_splits)
qed

lemma append_sizes:
  "buffer_append x (b, \<sigma>) = (r, b', \<sigma>') \<Longrightarrow>
   max_total_size b' = max_total_size b \<and> max_memory b' = max_memory b"
  by (auto simp: buffer_append_def Let_def split: if_splits body_buffer_state.splits sum.splits prod.splits)

interpretation body: bounded_sink
  "\<lambda>bs. buffer_ok (fst bs)" "\<lambda>bs. buffer_content (fst bs)" unstuff buffer_append
  "\<lambda>bs. max_total_size (fst bs)"
proof (unfold_locales, goal_cases)
  case (1 s x s')
  then show ?case using append_spec [of "fst s" x "snd s" "Inr ()" "fst s'" "snd s'"] by simp
next
  case (2 s x e s')
  then show ?case using append_spec [of "fst s" x "snd s" "Inl e" "fst s'" "snd s'"] by simp
next
  case (3 s)
  then show ?case by (simp add: buffer_ok_def)
next
  case (4 x s)
  obtain r b' \<sigma>' where "buffer_append x (fst s, snd s) = (r, b', \<sigma>')" by (metis prod_cases3)
  with append_sizes [OF this] show ?case by simp
qed

lemma buffer_ok_new [simp]: "buffer_ok (buffer_new mem)"
  by (simp add: buffer_ok_def buffer_new_def buffer_content_def)

lemma buffer_content_new [simp]: "buffer_content (buffer_new mem) = []"
  by (simp add: buffer_new_def buffer_content_def)

lemma buffer_content_clear [simp]: "buffer_content (buffer_clear b) = []"
  by (simp add: buffer_clear_def buffer_content_def)

lemma buffer_ok_clear [simp]: "buffer_ok (buffer_clear b)"
  by (simp add: buffer_ok_def buffer_clear_def buffer_content_def)

section \<open>Properties\<close>

lemma io_syscall_no_fault: "io_faults \<sigma> = [] \<Longrightarrow> syscall f \<sigma> = (Ok (fst (f \<sigma>)), snd (f \<sigma>))"
  by (simp add: syscall_def split: prod.splits)

lemma flush_buf_no_fault:
  "io_faults \<sigma> = [] \<Longrightarrow> flush_buf w \<sigma> = (Ok (), (fst w @ snd w, []), \<sigma>)"
  by (auto simp: flush_buf_def io_syscall_no_fault split: prod.splits)

lemma bufwriter_no_fault:
  "io_faults \<sigma> = [] \<Longrightarrow> \<exists>w'. bufwriter_write_all x (w, \<sigma>) = (Ok (), w', \<sigma>)"
  by (auto simp: bufwriter_write_all_def write_through_def flush_buf_no_fault io_syscall_no_fault
      Let_def split: prod.splits)

lemma append_no_fault:
  assumes "io_faults \<sigma> = []" "bytes_written b + length (unstuff x) \<le> max_total_size b"
  shows "\<exists>b'. buffer_append x (b, \<sigma>) = (Ok (), b', \<sigma>)
     \<and> bytes_written b' = bytes_written b + length (unstuff x)"
proof (cases "bb_state b")
  case (Memory vec)
  obtain w3 where w3: "bufwriter_write_all vec (([], []), \<sigma>) = (Ok (), w3, \<sigma>)"
    using bufwriter_no_fault [OF assms(1)] by blast
  obtain w4 where "bufwriter_write_all (unstuff x) (w3, \<sigma>) = (Ok (), w4, \<sigma>)"
    using bufwriter_no_fault [OF assms(1)] by blast
  with Memory w3 assms show ?thesis
    by (simp add: buffer_append_def Let_def io_syscall_no_fault)
next
  case (Disk tmp pending)
  obtain w where "bufwriter_write_all (unstuff x) ((tmp, pending), \<sigma>) = (Ok (), w, \<sigma>)"
    using bufwriter_no_fault [OF assms(1)] by blast
  with Disk assms show ?thesis by (simp add: buffer_append_def Let_def)
qed

lemma put_all_append_no_fault:
  assumes "io_faults \<sigma> = []"
  shows "is_ok (fst (put_all buffer_append xs (b, \<sigma>))) \<longleftrightarrow>
     xs = [] \<or> bytes_written b + length (concat (map unstuff xs)) \<le> max_total_size b"
proof (induction xs arbitrary: b)
  case (Cons x xs)
  show ?case
  proof (cases "bytes_written b + length (unstuff x) \<le> max_total_size b")
    case True
    from append_no_fault [OF assms True] obtain b' where
      b': "buffer_append x (b, \<sigma>) = (Ok (), b', \<sigma>)"
        "bytes_written b' = bytes_written b + length (unstuff x)" by blast
    with append_sizes [OF b'(1)] Cons.IH [of b'] True show ?thesis by (auto simp: add.assoc)
  next
    case False
    then show ?thesis using append_over_limit [of b x \<sigma>] by simp
  qed
qed simp

lemma unstuff_first_dot: "unstuff = (\<lambda>l. if take 1 l = ''.'' then tl l else l)"
proof
  fix l
  show "unstuff l = (if take 1 l = ''.'' then tl l else l)" by (cases l) (simp_all add: unstuff_def strip_prefix_def)
qed

text \<open>C12: A message body is the concatenation of its lines, each without the one dot it may begin with:
  after any sequence of accepted lines the buffer of a new session holds exactly that, has counted
  it, stays within 25 MiB in total and within \<open>max_memory\<close> while it is in memory, whatever I/O
  failures the schedule has for later.\<close>
theorem buffer_holds_unstuffed_lines:
  assumes "put_all buffer_append ls (buffer_new mem, \<sigma>) = (Ok (), b, \<sigma>')"
  shows "buffer_content b = concat (map (\<lambda>l. if take 1 l = ''.'' then tl l else l) ls) \<and>
     bytes_written b = length (buffer_content b) \<and> length (buffer_content b) \<le> 25 * 1024 * 1024 \<and>
     (\<forall>vec. bb_state b = Memory vec \<longrightarrow> length vec \<le> max_memory b)"
  unfolding unstuff_first_dot [symmetric]
  using body.put_all_Ok [OF _ assms] body.put_all_Ok_total [OF _ assms]
  by (auto simp: buffer_ok_def) (simp_all add: buffer_new_def)

lemma buffer_holds_unstuffed_lines_witness:
  "let b = fst (snd (put_all buffer_append [''.ab'', ''cd''] (buffer_new 3, empty_fs)))
   in buffer_content b = ''abcd'' \<and> bb_state b = Disk [] ''abcd''"
  using buffer_holds_unstuffed_lines [of "[''.ab'', ''cd'']" 3 empty_fs]
  by (simp add: buffer_append_def buffer_new_def unstuff_def strip_prefix_def Let_def empty_fs_def
      io_syscall_no_fault bufwriter_write_all_def bufwriter_capacity_def buffer_content_def)

text \<open>With no I/O failure the buffer of a new session accepts a sequence of lines if and only if
  the un-stuffed bytes come to at most 25 MiB: the 552 answer is given exactly for larger messages.\<close>
theorem buffer_accepts_up_to_limit:
  assumes "io_faults \<sigma> = []"
  shows "is_ok (fst (put_all buffer_append ls (buffer_new mem, \<sigma>))) \<longleftrightarrow>
     length (concat (map unstuff ls)) \<le> 25 * 1024 * 1024"
  using put_all_append_no_fault [OF assms, of ls "buffer_new mem"] by (auto simp: buffer_new_def)

lemma buffer_accepts_up_to_limit_witness:
  "is_ok (fst (put_all buffer_append [''.ab'', ''cd''] (buffer_new 3, empty_fs)))"
  using buffer_accepts_up_to_limit [of empty_fs "[''.ab'', ''cd'']" 3]
  by (simp add: unstuff_def strip_prefix_def empty_fs_def)

lemma persist_result:
  assumes "buffer_persist_to_path dest (b, \<sigma>) = (Ok (), b', \<sigma>')"
  shows "files \<sigma>' = (files \<sigma>)(dest := Some \<lparr>file_bytes = buffer_content b, file_mode = mode_0600\<rparr>) \<and>
     buffer_get_content_bytes (b', \<sigma>'') =
       (Ok (case bb_state b of Memory vec \<Rightarrow> vec | Disk _ _ \<Rightarrow> []), b', \<sigma>'')"
proof (cases "bb_state b")
  case (Memory vec)
  with assms obtain \<sigma>1 where "write_file_sync_with_permissions dest vec \<sigma> = (Ok (), \<sigma>1)"
    "b' = b\<lparr>bb_state := Memory vec\<rparr>" "\<sigma>' = \<sigma>1"
    by (auto simp: buffer_persist_to_path_def Let_def split: sum.splits prod.splits)
  with Memory write_file_Ok show ?thesis
    by (simp add: buffer_content_def buffer_get_content_bytes_def)
next
  case (Disk tmp pending)
  have "files \<sigma>2 = files \<sigma>" if "flush_buf w \<sigma> = (r, w', \<sigma>2)" for w r w' \<sigma>2
    using that by (auto simp: flush_buf_def syscall_def split: prod.splits if_splits sum.splits bool.splits dest: arg_cong [where f = files])
      (metis next_fault_files(1) snd_conv)+
  with Disk assms show ?thesis
    by (auto simp: buffer_persist_to_path_def Let_def syscall_Ok_iff buffer_get_content_bytes_def
        buffer_content_def split: sum.splits prod.splits dest!: flush_buf_spec)
qed

text \<open>C14: A body that is persisted is on disk byte for byte, with mode 0600 and no other file
  changed.  A body that was in memory can still be read from the buffer afterwards; one that was in
  the temporary file cannot: the buffer is left empty, and a later read gives the empty string.\<close>
theorem persist_stores_content_and_disk_body_is_gone:
  assumes "buffer_persist_to_path dest (b, \<sigma>) = (Ok (), b', \<sigma>')"
  shows "files \<sigma>' = (files \<sigma>)(dest := Some \<lparr>file_bytes = buffer_content b, file_mode = mode_0600\<rparr>) \<and>
     buffer_get_content_bytes (b', \<sigma>'') =
       (Ok (case bb_state b of Memory vec \<Rightarrow> vec | Disk _ _ \<Rightarrow> []), b', \<sigma>'')"
  by (rule persist_result [OF assms])

text \<open>The metadata of a message is parsed from what the temporary file holds, not from the body:
  in memory mode that is the whole body, in disk mode the last bytes, the ones the writer has not
  flushed (up to 8192 of them), are missing from what the parser sees.\<close>
theorem metadata_parsed_without_unflushed_tail:
  assumes "buffer_ok b" and "buffer_extract_full_metadata parse env b \<sigma> = (Ok m, \<sigma>')"
  shows "\<exists>n \<le> bufwriter_capacity.
     m = parse (take (length (buffer_content b) - n) (buffer_content b)) env \<and>
     (case bb_state b of Memory _ \<Rightarrow> n = 0 | Disk _ pending \<Rightarrow> n = length pending)"
proof (cases "bb_state b")
  case (Memory vec)
  with assms show ?thesis
    by (intro exI [of _ 0]) (auto simp: buffer_extract_full_metadata_def buffer_content_def)
next
  case (Disk tmp pending)
  with assms show ?thesis
    by (intro exI [of _ "length pending"])
      (auto simp: buffer_extract_full_metadata_def buffer_content_def buffer_ok_def io_bind_Ok_iff syscall_Ok_iff)
qed

lemma metadata_parsed_without_unflushed_tail_witness:
  "\<exists>n \<le> bufwriter_capacity. [] = take (length ''abcd'' - n) ''abcd'' \<and> n = 4"
  using metadata_parsed_without_unflushed_tail
    [of "\<lparr>bb_state = Disk [] ''abcd'', max_memory = 3, max_total_size = 100, bytes_written = 4\<rparr>"
        "\<lambda>body env. body" "[]" empty_fs "[]" empty_fs]
  by (simp add: buffer_ok_def buffer_content_def bufwriter_capacity_def empty_fs_def
      buffer_extract_full_metadata_def io_bind_def io_syscall_no_fault)

lemma persist_stores_content_and_disk_body_is_gone_witness:
  "let r = buffer_persist_to_path ''k.eml''
      (\<lparr>bb_state = Disk ''ab'' ''cd'', max_memory = 3, max_total_size = 100, bytes_written = 4\<rparr>, empty_fs)
   in fst r = Ok () \<and> map_option file_bytes (files (snd (snd r)) ''k.eml'') = Some ''abcd''
      \<and> fst (buffer_get_content_bytes (snd r)) = Ok []"
  using persist_stores_content_and_disk_body_is_gone
    [of "''k.eml''" "\<lparr>bb_state = Disk ''ab'' ''cd'', max_memory = 3, max_total_size = 100, bytes_written = 4\<rparr>"
        empty_fs]
  by (simp add: buffer_persist_to_path_def empty_fs_def io_syscall_no_fault flush_buf_no_fault
      buffer_content_def Let_def)


end
