(* ===== verification/Smtp_Client.thy ===== *)
theory Smtp_Client
  imports Body_Buffer Mime
begin

text \<open>
  The SMTP client side: the command and response exchange, dot stuffing and the mail transaction of
  \<open>src/src/outbound/mod.rs\<close>, and the authenticated relay of \<open>src/src/outbound/relay.rs\<close>.

  A connection is what the peer will send (\<open>inbox\<close>, one entry per line as \<open>read_line\<close> returns it, an
  exhausted list being the end of the stream), what has been written so far (\<open>wire\<close>, each write with
  the flag whether TLS was active), the network failures to come (\<open>net_faults\<close>: one entry per read or
  write, \<open>Some message\<close> for a failure) and what happens if TLS is negotiated (\<open>tls_script\<close>).  Every
  behaviour of the peer is one such value, so theorems over connections hold for every peer.
  Errors are the text \<open>anyhow\<close> displays, which is what the callers inspect.
\<close>

section \<open>Connections\<close>

record conn =
  inbox :: "string list"
  tls :: bool
  wire :: "(bool \<times> string) list"
  net_faults :: "string option list"
  tls_script :: "string + string list"
  slept_ms :: nat

definition net_step :: "conn \<Rightarrow> string option \<times> conn" where
  "net_step c = (case net_faults c of
     [] \<Rightarrow> (None, c)
   | f # fs \<Rightarrow> (f, c\<lparr>net_faults := fs\<rparr>))"

definition write_all :: "string \<Rightarrow> conn \<Rightarrow> (string + unit) \<times> conn" where
  "write_all bytes c =
     (if bytes = [] then (Ok (), c)
      else (case net_step c of
        (Some e, c') \<Rightarrow> (Err e, c')
      | (None, c') \<Rightarrow> (Ok (), c'\<lparr>wire := wire c' @ [(tls c', bytes)]\<rparr>)))"

definition read_line :: "conn \<Rightarrow> (string + string) \<times> conn" where
  "read_line c = (case net_step c of
     (Some e, c') \<Rightarrow> (Err e, c')
   | (None, c') \<Rightarrow> (case inbox c' of
        [] \<Rightarrow> (Ok [], c')
      | l # ls \<Rightarrow> (Ok l, c'\<lparr>inbox := ls\<rparr>)))"

lemma net_step_inbox: "net_step c = (f, c') \<Longrightarrow> inbox c' = inbox c"
  by (auto simp: net_step_def split: list.splits)

lemma read_line_shorter:
  "read_line c = (Inr l, c') \<Longrightarrow> l \<noteq> [] \<Longrightarrow> length (inbox c') < length (inbox c)"
  by (auto simp: read_line_def dest: net_step_inbox split: prod.splits option.splits list.splits)

section \<open>Commands and responses\<close>

function read_full_response :: "string list \<Rightarrow> conn \<Rightarrow> (string + string list) \<times> conn" where
  "read_full_response acc c = (case read_line c of
     (Inl e, c') \<Rightarrow> (Err e, c')
   | (Inr response, c') \<Rightarrow>
       if response = [] then (Err ''Connection closed unexpectedly'', c')
       else (let acc' = acc @ [trim response]
             in if length response < 4 \<or> response ! 3 \<noteq> CHR ''-'' then (Ok acc', c')
                else read_full_response acc' c'))"
  by auto

termination
  by (relation "measure (\<lambda>(acc, c). length (inbox c))") (auto intro: read_line_shorter [OF sym])

declare read_full_response.simps [simp del]

definition send_cmd :: "string \<Rightarrow> bool \<Rightarrow> conn \<Rightarrow> (string + string list) \<times> conn" where
  "send_cmd cmd delay c =
     (if CR \<in> set cmd \<or> LF \<in> set cmd then (Err ''Command contains invalid characters'', c)
      else
        (let c0 = (if delay then c\<lparr>slept_ms := slept_ms c + 100\<rparr> else c)
         in case write_all (cmd @ CRLF) c0 of
              (Inl e, c1) \<Rightarrow> (Inl e, c1)
            | (Inr _, c1) \<Rightarrow> (case read_full_response [] c1 of
                (Inl e, c2) \<Rightarrow> (Inl e, c2)
              | (Inr ls, c2) \<Rightarrow>
                  if \<not> starts_with ''2'' (last ls) \<and> \<not> starts_with ''3'' (last ls)
                  then (Err (''SMTP Error for command '' @ CHR 0x27 # cmd @ CHR 0x27 # '': '' @ join_with [LF] ls), c2)
                  else (Ok ls, c2))))"

fun stuff_from :: "bool \<Rightarrow> string \<Rightarrow> string" where
  "stuff_from at_line_start [] = []"
| "stuff_from at_line_start (byte # rest) =
    (if at_line_start \<and> byte = CHR ''.'' then CHR ''.'' # CHR ''.'' # stuff_from False rest
     else if byte = CR
     then (case rest of
             [] \<Rightarrow> [CR]
           | next # rest' \<Rightarrow> if next = LF then CR # LF # stuff_from True rest'
                             else CR # stuff_from False rest)
     else byte # stuff_from (byte = LF) rest)"

definition apply_dot_stuffing :: "string \<Rightarrow> string" where
  "apply_dot_stuffing payload = stuff_from True payload"

definition and_then :: "('e + 'a) \<times> conn \<Rightarrow> (conn \<Rightarrow> ('e + 'b) \<times> conn) \<Rightarrow> ('e + 'b) \<times> conn" where
  "and_then r f = (case r of (Inl e, c) \<Rightarrow> (Inl e, c) | (Inr _, c) \<Rightarrow> f c)"

definition send_mail_flow :: "string list \<Rightarrow> string \<Rightarrow> string \<Rightarrow> string \<Rightarrow> conn \<Rightarrow> (string + unit) \<times> conn" where
  "send_mail_flow capabilities srs_from recipient body c =
     (let supports_pipelining = list_ex (contains_str ''PIPELINING'') capabilities;
          delay = (\<not> supports_pipelining);
          stuffed_body = apply_dot_stuffing body
      in and_then (send_cmd (''MAIL FROM:<'' @ srs_from @ ''>'') False c) (\<lambda>c.
         and_then (send_cmd (''RCPT TO:<'' @ recipient @ ''>'') delay c) (\<lambda>c.
         and_then (send_cmd ''DATA'' delay c) (\<lambda>c.
         and_then (write_all stuffed_body c) (\<lambda>c.
         and_then (if ends_with CRLF stuffed_body then (Ok (), c) else write_all CRLF c) (\<lambda>c.
         and_then (send_cmd ''.'' delay c) (\<lambda>c.
         and_then (send_cmd ''QUIT'' delay c) (\<lambda>c. (Ok (), c)))))))))"

definition is_permanent_delivery_error :: "string \<Rightarrow> bool" where
  "is_permanent_delivery_error err =
     (contains_str ''550'' err \<or> contains_str ''554'' err \<or> contains_str ''552'' err
      \<or> contains_str ''501'' err \<or> contains_str ''Invalid recipient'' err
      \<or> contains_str ''Command contains invalid characters'' err)"

section \<open>TLS and the relay\<close>

text \<open>A TLS upgrade drops what the plain-text reader had buffered; on success the lines of the
  encrypted stream follow.  \<open>server_name\<close> is the parse of the host name for the certificate check.\<close>

definition upgrade :: "(string \<Rightarrow> string option) \<Rightarrow> string \<Rightarrow> string \<Rightarrow> conn \<Rightarrow> (string + unit) \<times> conn" where
  "upgrade server_name host message c =
     (case server_name host of
        Some e \<Rightarrow> (Err e, c)
      | None \<Rightarrow> (case tls_script c of
          Inl e \<Rightarrow> (Err (message @ e), c)
        | Inr ls \<Rightarrow> (Ok (), c\<lparr>inbox := ls, tls := True\<rparr>)))"

record relay_config =
  relay_host :: string
  relay_port :: nat
  relay_user :: string
  relay_pass :: string
  allow_plaintext_auth :: bool

definition relay_config_new :: "string \<Rightarrow> nat \<Rightarrow> string \<Rightarrow> string \<Rightarrow> relay_config" where
  "relay_config_new host port user pass =
     \<lparr>relay_host = host, relay_port = port, relay_user = user, relay_pass = pass,
      allow_plaintext_auth = False\<rparr>"

definition parse_allow_plaintext_auth :: "string \<Rightarrow> bool" where
  "parse_allow_plaintext_auth raw = (to_lowercase (trim raw) = ''true'')"

definition check_relay_auth_security :: "bool \<Rightarrow> bool \<Rightarrow> bool \<Rightarrow> string \<Rightarrow> nat \<Rightarrow> string + unit" where
  "check_relay_auth_security has_credentials tls_active allow host port =
     (if has_credentials \<and> \<not> tls_active \<and> \<not> allow
      then Err (''Refusing to send SMTP AUTH PLAIN credentials over unencrypted connection to ''
                @ host @ '':'' @ show_nat port @ '' (STARTTLS not offered by relay)'')
      else Ok ())"

definition auth_plain_payload :: "(string \<Rightarrow> string) \<Rightarrow> relay_config \<Rightarrow> string" where
  "auth_plain_payload b64 config = b64 (CHR 0x00 # relay_user config @ CHR 0x00 # relay_pass config)"

text \<open>The channel after the upgrade, if the relay offers one; the submission over it; the session.\<close>

definition relay_channel ::
  "(string \<Rightarrow> string option) \<Rightarrow> string \<Rightarrow> relay_config \<Rightarrow> string list \<Rightarrow> conn \<Rightarrow> (string + string list) \<times> conn" where
  "relay_channel server_name identity_domain config plain_capabilities c =
     (if list_ex (contains_str ''STARTTLS'') plain_capabilities then
        and_then (send_cmd ''STARTTLS'' False c) (\<lambda>c.
        and_then (upgrade server_name (relay_host config) ''TLS handshake with relay failed: '' c) (\<lambda>c.
        send_cmd (''EHLO '' @ identity_domain) False c))
      else (Ok plain_capabilities, c))"

definition relay_submit ::
  "(string \<Rightarrow> string) \<Rightarrow> relay_config \<Rightarrow> bool \<Rightarrow> string list \<Rightarrow> string \<Rightarrow> string \<Rightarrow> string \<Rightarrow> conn \<Rightarrow> (string + unit) \<times> conn" where
  "relay_submit b64 config supports_tls capabilities recipient from_envelope body c =
     (let has_credentials = (relay_user config \<noteq> [] \<and> relay_pass config \<noteq> [])
      in case check_relay_auth_security has_credentials supports_tls (allow_plaintext_auth config)
                (relay_host config) (relay_port config) of
           Inl e \<Rightarrow> (Err e, c)
         | Inr _ \<Rightarrow>
             and_then
               (if has_credentials
                then send_cmd (''AUTH PLAIN '' @ auth_plain_payload b64 config) False c
                else (Ok [], c))
               (\<lambda>c. send_mail_flow capabilities from_envelope recipient body c))"

definition relay_session ::
  "(string \<Rightarrow> string) \<Rightarrow> (string \<Rightarrow> string option) \<Rightarrow> string \<Rightarrow> relay_config \<Rightarrow> string \<Rightarrow> string \<Rightarrow> string
   \<Rightarrow> conn \<Rightarrow> (string + unit) \<times> conn" where
  "relay_session b64 server_name identity_domain config recipient from_envelope body c =
     (case read_full_response [] c of
        (Inl e, c) \<Rightarrow> (Err e, c)
      | (Inr _, c) \<Rightarrow>
     (case send_cmd (''EHLO '' @ identity_domain) False c of
        (Inl e, c) \<Rightarrow> (Err e, c)
      | (Inr plain_capabilities, c) \<Rightarrow>
     (case relay_channel server_name identity_domain config plain_capabilities c of
        (Inl e, c) \<Rightarrow> (Err e, c)
      | (Inr capabilities, c) \<Rightarrow>
          relay_submit b64 config (list_ex (contains_str ''STARTTLS'') plain_capabilities) capabilities recipient from_envelope
            body c)))"

definition send_via_relay ::
  "(string \<Rightarrow> string) \<Rightarrow> (string \<Rightarrow> string option) \<Rightarrow> (string \<Rightarrow> nat \<Rightarrow> string + conn) \<Rightarrow> string \<Rightarrow> relay_config
   \<Rightarrow> string \<Rightarrow> string \<Rightarrow> string \<Rightarrow> (string + unit) \<times> conn option" where
  "send_via_relay b64 server_name connect identity_domain config recipient from_envelope body =
     (case connect (relay_host config) (relay_port config) of
        Inl e \<Rightarrow> (Err e, None)
      | Inr c \<Rightarrow> (case relay_session b64 server_name identity_domain config recipient from_envelope body c of
          (r, c') \<Rightarrow> (r, Some c')))"

section \<open>Dot stuffing\<close>

fun stuff_simple :: "bool \<Rightarrow> string \<Rightarrow> string" where
  "stuff_simple at_start [] = []"
| "stuff_simple at_start (c # cs) =
    (if at_start \<and> c = CHR ''.'' then ''..'' else [c]) @ stuff_simple (c = LF) cs"

lemma stuff_from_simple: "stuff_from b s = stuff_simple b s"
  by (induction b s rule: stuff_from.induct) (auto split: list.splits)

definition stuff_line :: "string \<Rightarrow> string" where
  "stuff_line l = (if starts_with ''.'' l then CHR ''.'' # l else l)"

lemma stuff_simple_lines:
  "stuff_simple True s = concat (map stuff_line (cut_lines s)) \<and>
   (\<forall>l ls. cut_lines s = l # ls \<longrightarrow> stuff_simple False s = l @ concat (map stuff_line ls))"
proof (induction s)
  case (Cons c cs)
  then show ?case
    by (cases "cut_lines cs") (auto simp: stuff_line_def dest: arg_cong [where f = concat])
qed simp

lemma stuffing_by_lines: "apply_dot_stuffing s = concat (map stuff_line (cut_lines s))"
  using stuff_simple_lines [of s] by (simp add: apply_dot_stuffing_def stuff_from_simple)

lemma line_list_stuffed: "line_list ls \<Longrightarrow> line_list (map stuff_line ls)"
  by (induction ls) (auto simp: line_list_Cons stuff_line_def)

lemma cut_lines_stuffed: "cut_lines (apply_dot_stuffing s) = map stuff_line (cut_lines s)"
  unfolding stuffing_by_lines by (rule cut_lines_concat [OF line_list_stuffed [OF line_list_cut_lines]])

lemma unstuff_stuff_line [simp]: "unstuff (stuff_line l) = l"
  by (cases l) (auto simp: unstuff_def stuff_line_def strip_prefix_def)

definition end_of_data :: "string \<Rightarrow> bool" where
  "end_of_data l = (trim_end_by (\<lambda>c. c = CR \<or> c = LF) l = ''.'')"

lemma end_of_data_shape: "end_of_data l \<Longrightarrow> \<exists>r. l = CHR ''.'' # r \<and> set r \<subseteq> {CR, LF}"
proof -
  assume l: "end_of_data l"
  let ?P = "\<lambda>c. c = CR \<or> c = LF"
  have "dropWhile ?P (rev l) = ''.''" using l by (simp add: end_of_data_def trim_end_by_def rev_swap)
  with takeWhile_dropWhile_id [of ?P "rev l"] have "rev l = takeWhile ?P (rev l) @ ''.''" by simp
  then have "l = CHR ''.'' # rev (takeWhile ?P (rev l))" by (subst (asm) rev_swap) simp
  moreover have "set (rev (takeWhile ?P (rev l))) \<subseteq> {CR, LF}" using set_takeWhileD by fastforce
  ultimately show ?thesis by blast
qed

lemma cut_lines_crlf:
  "cut_lines (s @ CRLF) = (if s = [] \<or> last s = LF then cut_lines s @ [CRLF]
     else butlast (cut_lines s) @ [last (cut_lines s) @ CRLF])"
proof (induction s)
  case (Cons c cs)
  have "cut_lines cs = [] \<longleftrightarrow> cs = []" by (metis concat.simps(1) concat_cut_lines cut_lines.simps(1))
  with Cons show ?case by (cases "cut_lines cs") (auto split: if_splits)
qed simp

lemma cut_lines_eq_Nil: "cut_lines s = [] \<longleftrightarrow> s = []"
  by (metis concat.simps(1) concat_cut_lines cut_lines.simps(1))

lemma in_cut_lines_crlf:
  assumes "l \<in> set (cut_lines (s @ CRLF))"
  shows "l \<in> set (cut_lines s) \<or> l = CRLF \<or> (\<exists>k \<in> set (cut_lines s). l = k @ CRLF)"
proof (cases "s = [] \<or> last s = LF")
  case True
  with assms show ?thesis by (simp only: cut_lines_crlf if_True set_append) auto
next
  case False
  then have "cut_lines s \<noteq> []" by (simp add: cut_lines_eq_Nil)
  then have last: "last (cut_lines s) \<in> set (cut_lines s)" by (rule last_in_set)
  from False assms have "l \<in> set (butlast (cut_lines s)) \<or> l = last (cut_lines s) @ CRLF"
    by (simp only: cut_lines_crlf if_False set_append) auto
  with last show ?thesis by (auto dest: in_set_butlastD)
qed

lemma end_of_data_crlf [simp]: "end_of_data (l @ CRLF) = end_of_data l"
  using trim_end_by_append [of "\<lambda>c. c = CR \<or> c = LF" LF "l @ [CR]"]
    trim_end_by_append [of "\<lambda>c. c = CR \<or> c = LF" CR l] by (simp add: end_of_data_def)

lemma stuffed_not_end_of_data: "\<not> end_of_data (stuff_line l)"
  using end_of_data_shape [of "stuff_line l"] by (cases l) (auto simp: stuff_line_def split: if_splits)

text \<open>C21: Dot stuffing is transparent. The receiver that cuts the stuffed body into lines and removes
  one leading dot from each gets the body back byte for byte, for every byte sequence, whatever its
  line ends; and no line of the stuffed body, nor the CR LF the client adds to it, is the
  terminating dot.\<close>
theorem dot_stuffing_round_trip:
  "concat (map unstuff (cut_lines (apply_dot_stuffing body))) = body \<and>
   filter end_of_data (cut_lines (terminate_crlf (apply_dot_stuffing body))) = []"
proof
  have "map unstuff (cut_lines (apply_dot_stuffing body)) = cut_lines body"
    unfolding cut_lines_stuffed by (simp add: comp_def)
  then show "concat (map unstuff (cut_lines (apply_dot_stuffing body))) = body" by simp
  have stuffed: "\<not> end_of_data l" if "l \<in> set (cut_lines (apply_dot_stuffing body))" for l
    using that stuffed_not_end_of_data by (auto simp: cut_lines_stuffed)
  show "filter end_of_data (cut_lines (terminate_crlf (apply_dot_stuffing body))) = []"
    unfolding filter_empty_conv
  proof
    fix l
    assume l: "l \<in> set (cut_lines (terminate_crlf (apply_dot_stuffing body)))"
    let ?s = "apply_dot_stuffing body"
    consider "l \<in> set (cut_lines ?s)" | "l = CRLF" | k where "k \<in> set (cut_lines ?s)" "l = k @ CRLF"
      using l in_cut_lines_crlf [of l ?s] by (cases "ends_with CRLF ?s") (auto simp: terminate_crlf_def)
    then show "\<not> end_of_data l"
      using stuffed end_of_data_crlf [of "[]"] by cases (auto simp: end_of_data_def trim_end_by_def)
  qed
qed

section \<open>What a client writes\<close>

text \<open>An action follows a script when it writes a prefix of it, all of it when it succeeds, and leaves
  the TLS state alone.\<close>

definition follows :: "string list \<Rightarrow> (conn \<Rightarrow> ('e + 'a) \<times> conn) \<Rightarrow> bool" where
  "follows script f = (\<forall>c r c'. f c = (r, c') \<longrightarrow> tls c' = tls c \<and>
     (\<exists>ws. prefix ws script \<and> wire c' = wire c @ map (Pair (tls c)) ws \<and> (is_ok r \<longrightarrow> ws = script)))"

lemma followsD:
  assumes "follows script f" "f c = (r, c')"
  obtains ws where "tls c' = tls c" "prefix ws script" "wire c' = wire c @ map (Pair (tls c)) ws"
    "is_ok r \<Longrightarrow> ws = script"
  using assms unfolding follows_def by blast

lemma follows_return [simp]: "follows [] (\<lambda>c. (Ok x, c))"
  by (simp add: follows_def)

lemma follows_and_then:
  assumes "follows s1 f" "follows s2 g"
  shows "follows (s1 @ s2) (\<lambda>c. and_then (f c) g)"
  unfolding follows_def
proof (intro allI impI)
  fix c r c'
  assume run: "and_then (f c) g = (r, c')"
  obtain r1 c1 where f: "f c = (r1, c1)" by (cases "f c")
  from assms(1) f obtain ws where ws: "tls c1 = tls c" "prefix ws s1"
    "wire c1 = wire c @ map (Pair (tls c)) ws" "is_ok r1 \<Longrightarrow> ws = s1" by (rule followsD) blast
  show "tls c' = tls c \<and> (\<exists>ws. prefix ws (s1 @ s2) \<and> wire c' = wire c @ map (Pair (tls c)) ws
      \<and> (is_ok r \<longrightarrow> ws = s1 @ s2))"
  proof (cases r1)
    case (Inl e)
    with run f ws show ?thesis by (auto simp: and_then_def intro: prefix_prefix)
  next
    case (Inr a)
    with run f have "g c1 = (r, c')" by (simp add: and_then_def)
    with assms(2) obtain vs where vs: "tls c' = tls c1" "prefix vs s2"
      "wire c' = wire c1 @ map (Pair (tls c1)) vs" "is_ok r \<Longrightarrow> vs = s2" by (rule followsD) blast
    with ws Inr show ?thesis by (intro conjI exI [of _ "ws @ vs"]) auto
  qed
qed

lemma net_step_wire: "net_step c = (f, c') \<Longrightarrow> wire c' = wire c \<and> tls c' = tls c"
  by (auto simp: net_step_def split: list.splits)

lemma follows_write_all: "follows (if b = [] then [] else [b]) (write_all b)"
proof (cases "b = []")
  case False
  have "tls c' = tls c \<and> (\<exists>ws. prefix ws [b] \<and> wire c' = wire c @ map (Pair (tls c)) ws \<and> (is_ok r \<longrightarrow> ws = [b]))"
    if run: "write_all b c = (r, c')" for c r c'
  proof (cases "net_step c")
    case (Pair f c1)
    then show ?thesis using run False net_step_wire [OF Pair]
      by (cases f) (auto simp: write_all_def intro: exI [of _ "[]"])
  qed
  with False show ?thesis by (simp add: follows_def)
qed (simp add: follows_def write_all_def)

lemma read_line_wire: "read_line c = (r, c') \<Longrightarrow> wire c' = wire c \<and> tls c' = tls c"
  by (auto simp: read_line_def split: prod.splits option.splits list.splits dest: net_step_wire)

lemma read_full_response_wire:
  "read_full_response acc c = (r, c') \<Longrightarrow> wire c' = wire c \<and> tls c' = tls c"
proof (induction acc c rule: read_full_response.induct)
  case (1 acc c)
  obtain r0 c0 where l: "read_line c = (r0, c0)" by (cases "read_line c")
  note w = read_line_wire [OF l]
  show ?case
  proof (cases r0)
    case (Inl e)
    with "1.prems" l w show ?thesis by (subst (asm) read_full_response.simps) simp
  next
    case (Inr response)
    let ?stop = "response = [] \<or> length response < 4 \<or> response ! 3 \<noteq> CHR ''-''"
    show ?thesis
    proof (cases ?stop)
      case True
      with "1.prems" l Inr w show ?thesis
        by (subst (asm) read_full_response.simps) (auto simp: Let_def split: if_splits)
    next
      case False
      then have "read_full_response (acc @ [trim response]) c0 = (r, c')"
        using "1.prems" l Inr by (subst (asm) read_full_response.simps) (simp add: Let_def)
      with "1.IH" [OF l [symmetric] Inr] False w show ?thesis by simp
    qed
  qed
qed

lemma follows_send_cmd: "follows [cmd @ CRLF] (send_cmd cmd delay)"
  unfolding follows_def
proof (intro allI impI)
  fix c r c'
  assume run: "send_cmd cmd delay c = (r, c')"
  let ?c0 = "if delay then c\<lparr>slept_ms := slept_ms c + 100\<rparr> else c"
  have c0: "wire ?c0 = wire c" "tls ?c0 = tls c" by simp_all
  obtain r1 c1 where w: "write_all (cmd @ CRLF) ?c0 = (r1, c1)" by (cases "write_all (cmd @ CRLF) ?c0")
  from follows_write_all [of "cmd @ CRLF"] w obtain ws where
    ws: "tls c1 = tls ?c0" "prefix ws [cmd @ CRLF]" "wire c1 = wire ?c0 @ map (Pair (tls ?c0)) ws"
      "is_ok r1 \<Longrightarrow> ws = [cmd @ CRLF]"
    by (elim followsD) (auto split: if_splits)
  obtain r2 c2 where rd: "read_full_response [] c1 = (r2, c2)" by (cases "read_full_response [] c1")
  from run w rd ws read_full_response_wire [OF rd] c0
  show "tls c' = tls c \<and> (\<exists>ws. prefix ws [cmd @ CRLF] \<and> wire c' = wire c @ map (Pair (tls c)) ws
      \<and> (is_ok r \<longrightarrow> ws = [cmd @ CRLF]))"
    by (auto simp: send_cmd_def Let_def split: if_splits sum.splits)
qed

lemma send_cmd_injection:
  "CR \<in> set cmd \<or> LF \<in> set cmd \<Longrightarrow> send_cmd cmd delay c = (Err ''Command contains invalid characters'', c)"
  by (simp add: send_cmd_def)

definition mail_script :: "string \<Rightarrow> string \<Rightarrow> string \<Rightarrow> string list" where
  "mail_script sender to body =
     [''MAIL FROM:<'' @ sender @ ''>'' @ CRLF, ''RCPT TO:<'' @ to @ ''>'' @ CRLF, ''DATA'' @ CRLF] @
     (let s = apply_dot_stuffing body in (if s = [] then [] else [s]) @ (if ends_with CRLF s then [] else [CRLF])) @
     [''.'' @ CRLF, ''QUIT'' @ CRLF]"

lemma follows_mail_flow: "follows (mail_script sender to body) (send_mail_flow caps sender to body)"
proof -
  let ?d = "\<not> list_ex (contains_str ''PIPELINING'') caps"
  let ?s = "apply_dot_stuffing body"
  have crlf: "follows (if ends_with CRLF ?s then [] else [CRLF])
      (\<lambda>c. if ends_with CRLF ?s then (Ok (), c) else write_all CRLF c)"
    using follows_write_all [of CRLF] by simp
  have "follows ([(''MAIL FROM:<'' @ sender @ ''>'') @ CRLF] @ [(''RCPT TO:<'' @ to @ ''>'') @ CRLF] @ [''DATA'' @ CRLF] @
      (if ?s = [] then [] else [?s]) @ (if ends_with CRLF ?s then [] else [CRLF]) @ [''.'' @ CRLF] @ [''QUIT'' @ CRLF] @ [])
      (send_mail_flow caps sender to body)"
    unfolding send_mail_flow_def Let_def
    by (intro follows_and_then follows_send_cmd follows_write_all crlf follows_return)
  then show ?thesis by (simp add: mail_script_def Let_def)
qed

section \<open>Properties of the transaction\<close>

definition plain_conn :: "string list \<Rightarrow> conn" where
  "plain_conn ls = \<lparr>inbox = ls, tls = False, wire = [], net_faults = [], tls_script = Err ''no tls'', slept_ms = 0\<rparr>"

text \<open>The mail transaction says the right things in the right order. Whatever the peer answers and
  whichever read or write fails, what \<open>send_mail_flow\<close> writes is an initial part of MAIL, RCPT, DATA,
  the stuffed body closed by CR LF, the dot and QUIT, and all of it when it reports success. An
  envelope address with a CR or LF in it is never written.\<close>
theorem mail_flow_transcript:
  assumes "send_mail_flow caps sender recipient body c = (r, c')"
  shows "\<exists>ws. prefix ws (mail_script sender recipient body) \<and>
     wire c' = wire c @ map (Pair (tls c)) ws \<and> tls c' = tls c \<and>
     (is_ok r \<longrightarrow> ws = mail_script sender recipient body) \<and>
     (\<not> no_newline recipient \<longrightarrow> length ws \<le> 1) \<and> (\<not> no_newline sender \<longrightarrow> ws = [] \<and> \<not> is_ok r)"
proof -
  from follows_mail_flow [of sender recipient body caps] assms obtain ws where ws:
    "tls c' = tls c" "prefix ws (mail_script sender recipient body)" "wire c' = wire c @ map (Pair (tls c)) ws"
    "is_ok r \<Longrightarrow> ws = mail_script sender recipient body" by (rule followsD) blast
  have "ws = [] \<and> \<not> is_ok r" if "\<not> no_newline sender"
  proof -
    have "send_cmd (''MAIL FROM:<'' @ sender @ ''>'') False c = (Err ''Command contains invalid characters'', c)"
      using that by (intro send_cmd_injection) (auto simp: no_newline_def)
    with assms have "r = Err ''Command contains invalid characters'' \<and> c' = c"
      by (simp add: send_mail_flow_def Let_def and_then_def)
    with ws(3) show ?thesis by simp
  qed
  moreover have "length ws \<le> 1" if "\<not> no_newline recipient"
  proof -
    obtain r1 c1 where m: "send_cmd (''MAIL FROM:<'' @ sender @ ''>'') False c = (r1, c1)"
      by (cases "send_cmd (''MAIL FROM:<'' @ sender @ ''>'') False c")
    have "send_cmd (''RCPT TO:<'' @ recipient @ ''>'') d c2 = (Err ''Command contains invalid characters'', c2)" for d c2
      using that by (intro send_cmd_injection) (auto simp: no_newline_def)
    with assms m have "c' = c1" by (cases r1) (simp_all add: send_mail_flow_def Let_def and_then_def)
    moreover from follows_send_cmd m obtain vs where "prefix vs [(''MAIL FROM:<'' @ sender @ ''>'') @ CRLF]"
      "wire c1 = wire c @ map (Pair (tls c)) vs" by (rule followsD) blast
    moreover have "length vs \<le> 1" using prefix_length_le [OF calculation(2)] by simp
    ultimately show ?thesis using ws(3) by (auto dest!: arg_cong [where f = length])
  qed
  ultimately show ?thesis using ws by blast
qed

lemma mail_flow_transcript_witness:
  "\<exists>ws. prefix ws (mail_script ''a@b'' ''c@d'' ''.x'') \<and>
     wire (snd (send_mail_flow [] ''a@b'' ''c@d'' ''.x'' (plain_conn []))) = map (Pair False) ws"
  using mail_flow_transcript [of "[]" "''a@b''" "''c@d''" "''.x''" "plain_conn []"]
  by (cases "send_mail_flow [] ''a@b'' ''c@d'' ''.x'' (plain_conn [])") (auto simp: plain_conn_def)

definition positive :: "string \<Rightarrow> bool" where
  "positive l = (length l \<ge> 4 \<and> l ! 3 \<noteq> CHR ''-'' \<and> (hd l = CHR ''2'' \<or> hd l = CHR ''3''))"

lemma trim_end_keep: "\<not> P x \<Longrightarrow> \<exists>r. trim_end_by P (x # xs) = x # r"
proof -
  assume "\<not> P x"
  then have "\<exists>r. dropWhile P (ys @ [x]) = r @ [x]" for ys by (induction ys) auto
  then obtain r where "dropWhile P (rev xs @ [x]) = r @ [x]" by blast
  then show ?thesis by (simp add: trim_end_by_def)
qed

lemma positive_trim: "positive l \<Longrightarrow> starts_with ''2'' (trim l) \<or> starts_with ''3'' (trim l)"
proof -
  assume p: "positive l"
  then obtain x xs where l: "l = x # xs" "x = CHR ''2'' \<or> x = CHR ''3''"
    by (cases l) (auto simp: positive_def)
  then have x: "\<not> is_whitespace x" by (auto simp: is_whitespace_def code_point_def)
  from trim_end_keep [of is_whitespace x xs, OF x] obtain r where "trim l = x # r"
    using l x by (auto simp: trim_def trim_by_def trim_start_by_def)
  with l show ?thesis by auto
qed

lemma send_cmd_accepted:
  assumes "inbox c = l # ls" "net_faults c = []" "positive l" "no_newline cmd"
  shows "\<exists>c'. send_cmd cmd delay c = (Ok [trim l], c') \<and> inbox c' = ls \<and> net_faults c' = [] \<and>
     wire c' = wire c @ [(tls c, cmd @ CRLF)] \<and> tls c' = tls c"
  using assms positive_trim [OF assms(3)]
  by (auto simp: send_cmd_def no_newline_def write_all_def net_step_def Let_def positive_def
      read_full_response.simps read_line_def not_less [symmetric])

lemma send_cmd_closed:
  assumes "inbox c = []" "net_faults c = []" "no_newline cmd"
  shows "\<exists>c'. send_cmd cmd delay c = (Err ''Connection closed unexpectedly'', c') \<and>
     wire c' = wire c @ [(tls c, cmd @ CRLF)]"
  using assms
  by (auto simp: send_cmd_def no_newline_def write_all_def net_step_def Let_def
      read_full_response.simps read_line_def)

lemma write_all_no_fault:
  "net_faults c = [] \<Longrightarrow> \<exists>c'. write_all b c = (Ok (), c') \<and> inbox c' = inbox c \<and> net_faults c' = [] \<and> tls c' = tls c"
  by (auto simp: write_all_def net_step_def)

text \<open>The verdict on a message hangs on the answer to QUIT. When the peer has accepted MAIL, RCPT,
  DATA and the message itself, the transaction succeeds if QUIT is answered positively; if the peer
  closes the connection instead, the accepted message is reported as failed, with an error text that
  is not a permanent one, so that the callers queue it for another delivery.\<close>
theorem mail_flow_verdict_hangs_on_quit:
  assumes c: "net_faults c = []" "inbox c = [r1, r2, r3, r4] @ rest"
    and pos: "positive r1" "positive r2" "positive r3" "positive r4"
    and env: "no_newline sender" "no_newline recipient"
  shows "(\<forall>q qs. rest = q # qs \<and> positive q \<longrightarrow> fst (send_mail_flow caps sender recipient body c) = Ok ()) \<and>
     (rest = [] \<longrightarrow> fst (send_mail_flow caps sender recipient body c) = Err ''Connection closed unexpectedly'') \<and>
     \<not> is_permanent_delivery_error ''Connection closed unexpectedly''"
proof -
  let ?d = "\<not> list_ex (contains_str ''PIPELINING'') caps"
  let ?s = "apply_dot_stuffing body"
  have n: "no_newline (''MAIL FROM:<'' @ sender @ ''>'')" "no_newline (''RCPT TO:<'' @ recipient @ ''>'')"
    "no_newline ''DATA''" "no_newline ''.''" "no_newline ''QUIT''"
    using env by (auto simp: no_newline_def)
  from send_cmd_accepted [OF _ c(1) pos(1) n(1), of "[r2, r3, r4] @ rest" False] c(2) obtain c1 where
    c1: "send_cmd (''MAIL FROM:<'' @ sender @ ''>'') False c = (Ok [trim r1], c1)"
      "inbox c1 = [r2, r3, r4] @ rest" "net_faults c1 = []" by auto
  from send_cmd_accepted [OF _ c1(3) pos(2) n(2), of "[r3, r4] @ rest" ?d] c1(2) obtain c2 where
    c2: "send_cmd (''RCPT TO:<'' @ recipient @ ''>'') ?d c1 = (Ok [trim r2], c2)"
      "inbox c2 = [r3, r4] @ rest" "net_faults c2 = []" by auto
  from send_cmd_accepted [OF _ c2(3) pos(3) n(3), of "[r4] @ rest" ?d] c2(2) obtain c3 where
    c3: "send_cmd ''DATA'' ?d c2 = (Ok [trim r3], c3)" "inbox c3 = [r4] @ rest" "net_faults c3 = []" by auto
  from write_all_no_fault [OF c3(3), of ?s] obtain c4 where
    c4: "write_all ?s c3 = (Ok (), c4)" "inbox c4 = [r4] @ rest" "net_faults c4 = []" using c3(2) by auto
  from write_all_no_fault [OF c4(3), of CRLF] c4 obtain c5 where
    c5: "(if ends_with CRLF ?s then (Ok (), c4) else write_all CRLF c4) = (Ok (), c5)"
      "inbox c5 = [r4] @ rest" "net_faults c5 = []" by (cases "ends_with CRLF ?s") auto
  from send_cmd_accepted [OF _ c5(3) pos(4) n(4), of rest ?d] c5(2) obtain c6 where
    c6: "send_cmd ''.'' ?d c5 = (Ok [trim r4], c6)" "inbox c6 = rest" "net_faults c6 = []" by auto
  have flow: "send_mail_flow caps sender recipient body c =
      and_then (send_cmd ''QUIT'' ?d c6) (\<lambda>c. (Ok (), c))"
    unfolding send_mail_flow_def Let_def using c1(1) c2(1) c3(1) c4(1) c5(1) c6(1)
    by (simp add: and_then_def)
  have "fst (send_mail_flow caps sender recipient body c) = Ok ()" if "rest = q # qs" "positive q" for q qs
    using send_cmd_accepted [OF _ c6(3) that(2) n(5), of qs ?d] c6(2) that(1) flow by (auto simp: and_then_def)
  moreover have "fst (send_mail_flow caps sender recipient body c) = Err ''Connection closed unexpectedly''"
    if "rest = []"
    using send_cmd_closed [OF _ c6(3) n(5), of ?d] c6(2) that flow by (auto simp: and_then_def)
  moreover have "\<not> is_permanent_delivery_error ''Connection closed unexpectedly''"
    by (simp add: is_permanent_delivery_error_def)
  ultimately show ?thesis by blast
qed

lemma mail_flow_verdict_hangs_on_quit_witness:
  "fst (send_mail_flow [] ''a@b'' ''c@d'' ''hi'' (plain_conn [''250 ok'', ''250 ok'', ''354 go'', ''250 queued''])) =
     Err ''Connection closed unexpectedly''"
  using mail_flow_verdict_hangs_on_quit [of "plain_conn [''250 ok'', ''250 ok'', ''354 go'', ''250 queued'']"
      "''250 ok''" "''250 ok''" "''354 go''" "''250 queued''" "[]" "''a@b''" "''c@d''" "[]" "''hi''"]
  by (simp add: plain_conn_def positive_def no_newline_def)

section \<open>The relay keeps its credentials\<close>

text \<open>A channel action that may turn TLS on: everything it writes in the clear is in the given list.\<close>

definition plain_writes :: "string list \<Rightarrow> conn \<Rightarrow> conn \<Rightarrow> bool" where
  "plain_writes allowed c c' = (\<exists>ws. wire c' = wire c @ ws \<and> (\<forall>w. (False, w) \<in> set ws \<longrightarrow> w \<in> set allowed))"

lemma plain_writes_refl [simp]: "plain_writes allowed c c"
  by (simp add: plain_writes_def)

lemma plain_writes_trans:
  "plain_writes allowed c1 c2 \<Longrightarrow> plain_writes allowed c2 c3 \<Longrightarrow> plain_writes allowed c1 c3"
proof -
  assume "plain_writes allowed c1 c2" "plain_writes allowed c2 c3"
  then obtain vs ws where "wire c2 = wire c1 @ vs" "\<forall>w. (False, w) \<in> set vs \<longrightarrow> w \<in> set allowed"
    "wire c3 = wire c2 @ ws" "\<forall>w. (False, w) \<in> set ws \<longrightarrow> w \<in> set allowed"
    unfolding plain_writes_def by blast
  then show ?thesis unfolding plain_writes_def by (intro exI [of _ "vs @ ws"]) auto
qed

lemma plain_writes_cmd:
  assumes "send_cmd cmd delay c = (r, c')" "tls c \<or> cmd @ CRLF \<in> set allowed"
  shows "plain_writes allowed c c' \<and> tls c' = tls c"
proof -
  from follows_send_cmd assms(1) obtain ws where ws: "tls c' = tls c" "prefix ws [cmd @ CRLF]"
    "wire c' = wire c @ map (Pair (tls c)) ws" by (rule followsD) blast
  then have "set ws \<subseteq> {cmd @ CRLF}" using set_mono_prefix [OF ws(2)] by simp
  with ws assms(2) show ?thesis by (auto simp: plain_writes_def)
qed

lemma plain_writes_tls_flow:
  assumes "send_mail_flow caps sender to body c = (r, c')" "tls c"
  shows "plain_writes allowed c c'"
proof -
  from follows_mail_flow [of sender to body caps] assms(1) obtain ws where
    "wire c' = wire c @ map (Pair (tls c)) ws" by (rule followsD) blast
  with assms(2) show ?thesis by (auto simp: plain_writes_def)
qed

lemma plain_writes_upgrade: "upgrade sn host msg c = (r, c') \<Longrightarrow> plain_writes allowed c c' \<and> (is_ok r \<longrightarrow> tls c')"
  by (auto simp: upgrade_def plain_writes_def split: option.splits sum.splits)

lemma and_then_cases:
  assumes "and_then p f = (r, c')"
  obtains e where "p = (Inl e, c')" "r = Inl e" | a c1 where "p = (Inr a, c1)" "f c1 = (r, c')"
  using assms by (auto simp: and_then_def split: prod.splits sum.splits)

lemma plain_writes_starttls:
  assumes run: "and_then (send_cmd x False c0) (\<lambda>c. and_then (upgrade sn host msg c) (\<lambda>c. send_cmd y False c)) = (r, c')"
    and x: "x @ CRLF \<in> set allowed"
  shows "plain_writes allowed c0 c' \<and> (is_ok r \<longrightarrow> tls c')"
  using run
proof (cases rule: and_then_cases)
  case (1 e)
  with plain_writes_cmd [of x False c0 "Inl e" c' allowed] x show ?thesis by simp
next
  case (2 a c1)
  with plain_writes_cmd [of x False c0 "Inr a" c1 allowed] x have p1: "plain_writes allowed c0 c1" by simp
  from 2(2) show ?thesis
  proof (cases rule: and_then_cases)
    case (1 e)
    with plain_writes_upgrade [OF 1(1), of allowed] p1 show ?thesis by (auto intro: plain_writes_trans)
  next
    case (2 b c2)
    with plain_writes_upgrade [OF 2(1), of allowed] have p2: "plain_writes allowed c1 c2" "tls c2" by simp_all
    with plain_writes_cmd [OF 2(2), of allowed] p1 show ?thesis by (blast intro: plain_writes_trans)
  qed
qed

lemma plain_writes_auth_flow:
  assumes run: "and_then (send_cmd x False c0) (\<lambda>c. send_mail_flow caps sender to body c) = (r, c')"
    and t: "tls c0"
  shows "plain_writes allowed c0 c'"
  using run
proof (cases rule: and_then_cases)
  case (1 e)
  with plain_writes_cmd [of x False c0 "Inl e" c' allowed] t show ?thesis by simp
next
  case (2 a c1)
  with plain_writes_cmd [of x False c0 "Inr a" c1 allowed] t have "plain_writes allowed c0 c1" "tls c1" by simp_all
  with plain_writes_tls_flow [OF 2(2)] show ?thesis by (blast intro: plain_writes_trans)
qed

text \<open>The three parts of a relay session, for a relay with credentials that must not go in the clear.\<close>

lemma plain_writes_channel:
  assumes "relay_channel server_name me config caps c = (r, c')" "''STARTTLS'' @ CRLF \<in> set allowed"
  shows "plain_writes allowed c c' \<and> (is_ok r \<longrightarrow> list_ex (contains_str ''STARTTLS'') caps \<longrightarrow> tls c')"
  using assms plain_writes_starttls [of "''STARTTLS''" c server_name "relay_host config" "''TLS handshake with relay failed: ''"
      "''EHLO '' @ me" r c' allowed]
  by (simp add: relay_channel_def split: if_splits)

lemma plain_writes_submit:
  assumes run: "relay_submit b64 config supports_tls caps recipient from_envelope body c = (r, c')"
    and cred: "relay_user config \<noteq> []" "relay_pass config \<noteq> []" "\<not> allow_plaintext_auth config"
    and secure: "supports_tls \<Longrightarrow> tls c"
  shows "plain_writes allowed c c'"
proof (cases supports_tls)
  case True
  with run cred have "and_then (send_cmd (''AUTH PLAIN '' @ auth_plain_payload b64 config) False c)
      (\<lambda>c. send_mail_flow caps from_envelope recipient body c) = (r, c')"
    by (simp add: relay_submit_def check_relay_auth_security_def)
  with secure [OF True] show ?thesis by (rule plain_writes_auth_flow [rotated])
next
  case False
  with run cred show ?thesis by (simp add: relay_submit_def check_relay_auth_security_def)
qed

lemma relay_session_plain:
  assumes run: "relay_session b64 server_name me config recipient from_envelope body c = (r, c')"
    and cred: "relay_user config \<noteq> []" "relay_pass config \<noteq> []" "\<not> allow_plaintext_auth config"
    and plain: "\<not> tls c"
  shows "plain_writes [''EHLO '' @ me @ CRLF, ''STARTTLS'' @ CRLF] c c'" (is "plain_writes ?A c c'")
proof -
  obtain r1 c1 where s1: "read_full_response [] c = (r1, c1)" by fastforce
  have p1: "plain_writes ?A c c1" "\<not> tls c1" using read_full_response_wire [OF s1] plain by (auto simp: plain_writes_def)
  obtain r2 c2 where s2: "send_cmd (''EHLO '' @ me) False c1 = (r2, c2)" by fastforce
  have p2: "plain_writes ?A c c2" using plain_writes_cmd [OF s2, of ?A] p1 by (auto intro: plain_writes_trans)
  show ?thesis
  proof (cases "is_ok r1 \<and> is_ok r2")
    case True
    then obtain g caps where ok: "r1 = Inr g" "r2 = Inr caps" by (cases r1; cases r2) (auto simp: is_ok_def)
    obtain r3 c3 where s3: "relay_channel server_name me config caps c2 = (r3, c3)" by fastforce
    have p3: "plain_writes ?A c c3" "is_ok r3 \<longrightarrow> list_ex (contains_str ''STARTTLS'') caps \<longrightarrow> tls c3"
      using plain_writes_channel [OF s3, of ?A] p2 by (auto intro: plain_writes_trans)
    show ?thesis
    proof (cases r3)
      case (Inr caps2)
      with run s1 s2 s3 ok have "relay_submit b64 config (list_ex (contains_str ''STARTTLS'') caps) caps2 recipient from_envelope
          body c3 = (r, c')" by (simp add: relay_session_def)
      from plain_writes_submit [OF this cred] p3 Inr show ?thesis by (auto simp: is_ok_def intro: plain_writes_trans)
    qed (use run s1 s2 s3 ok p3 in \<open>simp add: relay_session_def\<close>)
  next
    case False
    with run s1 s2 p1 p2 show ?thesis by (cases r1; cases r2) (auto simp: relay_session_def is_ok_def)
  qed
qed

text \<open>With relay credentials configured and plaintext authentication not allowed, the relay client
  writes nothing in the clear but its EHLO and STARTTLS: neither the credentials nor the envelope nor
  the message leave an unencrypted connection, whatever the relay advertises or answers.\<close>
theorem relay_keeps_secrets_off_plaintext:
  assumes run: "relay_session b64 server_name me config recipient from_envelope body c = (r, c')"
    and cred: "relay_user config \<noteq> []" "relay_pass config \<noteq> []" "\<not> allow_plaintext_auth config"
    and plain: "\<not> tls c"
  shows "\<exists>ws. wire c' = wire c @ ws \<and>
     (\<forall>w. (False, w) \<in> set ws \<longrightarrow> w = ''EHLO '' @ me @ CRLF \<or> w = ''STARTTLS'' @ CRLF)"
  using relay_session_plain [OF assms] by (auto simp: plain_writes_def)

definition sample_relay :: relay_config where
  "sample_relay = relay_config_new ''relay'' 587 ''api'' ''secret''"

lemma relay_keeps_secrets_off_plaintext_witness:
  "\<exists>ws. wire (snd (relay_session (\<lambda>s. s) (\<lambda>_. None) ''me'' sample_relay ''c@d'' ''a@b'' ''hi''
        (plain_conn [''220 hi'', ''250 ok'']))) = ws \<and>
     (\<forall>w. (False, w) \<in> set ws \<longrightarrow> w = ''EHLO '' @ ''me'' @ CRLF \<or> w = ''STARTTLS'' @ CRLF)"
  using relay_keeps_secrets_off_plaintext [of "\<lambda>s. s" "\<lambda>_. None" "''me''" sample_relay "''c@d''" "''a@b''" "''hi''"
      "plain_conn [''220 hi'', ''250 ok'']"]
  by (cases "relay_session (\<lambda>s. s) (\<lambda>_. None) ''me'' sample_relay ''c@d'' ''a@b'' ''hi''
        (plain_conn [''220 hi'', ''250 ok''])")
    (auto simp: plain_conn_def sample_relay_def relay_config_new_def)

end
