(* ===== verification/Srs.thy ===== *)
theory Srs
  imports Rust_Prelude "HOL-Library.Word"
begin

text \<open>
  The Sender Rewriting Scheme of \<open>src/src/outbound/srs.rs\<close>: \<open>encode_srs\<close> packs an envelope sender, the
  day number modulo 1024 and four characters of a keyed hash into a local part of the server's own
  domain, \<open>decode_srs\<close> takes it apart and checks hash and age.

  The keyed hash is a parameter \<open>mac secret message\<close>: the Crockford base32 text of the HMAC-SHA256
  (crates hmac, sha2 and base32).  Facts that need something of it say so: \<open>base32_mac\<close> is the
  documented shape of the output, 52 characters of the upper-case alphabet without punctuation.
  The clock is an argument, in seconds since 1970 and negative before; the timestamp arithmetic
  is on 64-bit words, as in the code.
\<close>

type_synonym mac = "string \<Rightarrow> string \<Rightarrow> string"

definition base32_mac :: "mac \<Rightarrow> bool" where
  "base32_mac mac = (\<forall>k m. length (mac k m) = 52 \<and> (\<forall>c \<in> set (mac k m). is_upper c \<or> is_digit c))"

section \<open>The code\<close>

definition get_current_srs_timestamp :: "int \<Rightarrow> 64 word" where
  "get_current_srs_timestamp now =
     (let secs = (if now < 0 then 0 else now) in word_of_int ((secs div 86400) mod 1024))"

definition srs_message :: "64 word \<Rightarrow> string \<Rightarrow> string \<Rightarrow> string" where
  "srs_message timestamp sender_domain local =
     show_nat (unat timestamp) @ sender_domain @ local"

definition encode_srs :: "mac \<Rightarrow> int \<Rightarrow> string \<Rightarrow> string \<Rightarrow> string \<Rightarrow> string" where
  "encode_srs mac now original_sender domain secret =
     (let (local, sender_domain) =
            unwrap_or (original_sender, ''unknown'') (split_once (CHR ''@'') original_sender);
          timestamp = get_current_srs_timestamp now;
          hash = take 4 (mac secret (srs_message timestamp sender_domain local))
      in ''SRS0+'' @ hash @ ''='' @ show_nat (unat timestamp) @ ''='' @ sender_domain @ ''='' @ local
         @ ''@'' @ domain)"

definition timestamp_age :: "64 word \<Rightarrow> 64 word \<Rightarrow> 64 word" where
  "timestamp_age current timestamp =
     (if current \<ge> timestamp then current - timestamp else (current + 1024) - timestamp)"

definition decode_srs :: "mac \<Rightarrow> int \<Rightarrow> string \<Rightarrow> string \<Rightarrow> string option" where
  "decode_srs mac now srs_address secret =
     (case split_once (CHR ''@'') srs_address of
        None \<Rightarrow> None
      | Some (local_part, _) \<Rightarrow>
          if \<not> starts_with ''srs0+'' (to_lowercase local_part) then None
          else (case split_once (CHR ''+'') local_part of
             None \<Rightarrow> None
           | Some (_, data) \<Rightarrow>
              (case splitn 4 (CHR ''='') data of
                 [hash, timestamp_str, sender_domain, sender_local] \<Rightarrow>
                   (case parse_uint (2 ^ 64) timestamp_str of
                      None \<Rightarrow> None
                    | Some ts \<Rightarrow>
                        (let timestamp = word_of_nat ts :: 64 word;
                             diff = timestamp_age (get_current_srs_timestamp now) timestamp;
                             expected_hash = take 4 (mac secret (srs_message timestamp sender_domain sender_local))
                         in if diff > 21 then None
                            else if to_uppercase hash \<noteq> to_uppercase expected_hash then None
                            else Some (sender_local @ ''@'' @ sender_domain)))
               | _ \<Rightarrow> None)))"

section \<open>Facts on the pieces\<close>

definition srs_day :: "int \<Rightarrow> nat" where
  "srs_day now = nat ((if now < 0 then 0 else now) div 86400)"

lemma srs_timestamp_day: "unat (get_current_srs_timestamp now) = srs_day now mod 1024"
proof -
  have "(if now < 0 then 0 else now) div 86400 \<ge> 0"
    by (simp add: pos_imp_zdiv_nonneg_iff)
  then obtain n where n: "(if now < 0 then 0 else now) div 86400 = int n" by (metis nonneg_int_cases)
  have "int n mod 1024 = int (n mod 1024)" by (simp add: zmod_int)
  then have "get_current_srs_timestamp now = word_of_nat (n mod 1024)"
    unfolding get_current_srs_timestamp_def Let_def n by simp
  then show ?thesis using n by (simp add: srs_day_def unat_of_nat)
qed

text \<open>The age the code computes is the distance modulo 1024; a timestamp that is not below
  \<open>current + 1024\<close> wraps to a large number and is never young.\<close>

lemma timestamp_age_young:
  assumes "unat current < 1024"
  shows "timestamp_age current timestamp \<le> 21 \<longleftrightarrow>
     (unat timestamp \<le> unat current \<and> unat current - unat timestamp \<le> 21) \<or>
     (unat current < unat timestamp \<and> unat timestamp \<le> unat current + 1024 \<and>
      unat current + 1024 - unat timestamp \<le> 21)"
proof (cases "timestamp \<le> current")
  case True
  then have "unat (current - timestamp) = unat current - unat timestamp" by (simp add: unat_sub)
  then show ?thesis using True
    by (simp add: timestamp_age_def word_le_nat_alt)
next
  case False
  then have lt: "unat current < unat timestamp" by (simp add: word_le_nat_alt)
  have sum: "unat (current + 1024) = unat current + 1024"
    using assms by (subst unat_add_lem [THEN iffD1]) auto
  show ?thesis
  proof (cases "timestamp \<le> current + 1024")
    case True
    then have "unat (current + 1024 - timestamp) = unat current + 1024 - unat timestamp"
      by (simp add: unat_sub sum)
    with False lt True sum show ?thesis by (simp add: timestamp_age_def word_le_nat_alt)
  next
    case big: False
    then have gt: "unat current + 1024 < unat timestamp" by (simp add: word_le_nat_alt sum)
    have "unat (current + 1024 - timestamp) = 2 ^ 64 + unat (current + 1024) - unat timestamp"
      using unat_sub_if' [of "current + 1024" timestamp] gt sum by simp
    moreover have "unat timestamp < 2 ^ 64" using unsigned_less [of timestamp] by simp
    ultimately have "unat (current + 1024 - timestamp) > 21" using sum by simp
    with False gt show ?thesis by (simp add: timestamp_age_def word_le_nat_alt)
  qed
qed

lemma word_of_nat_timestamp: "ts < 2 ^ 64 \<Longrightarrow> unat (word_of_nat ts :: 64 word) = ts"
  by (simp add: unat_of_nat)

text \<open>A well-formed SRS local part is one list of four \<open>=\<close>-separated parts.\<close>

lemma splitn4_parts:
  assumes "CHR ''='' \<notin> set h" "CHR ''='' \<notin> set t" "CHR ''='' \<notin> set d"
  shows "splitn 4 (CHR ''='') (h @ CHR ''='' # t @ CHR ''='' # d @ CHR ''='' # l) = [h, t, d, l]"
  using assms by (simp add: numeral_eq_Suc)

lemma splitn4_cases:
  assumes "splitn 4 (CHR ''='') data = [h, t, d, l]"
  shows "data = h @ CHR ''='' # t @ CHR ''='' # d @ CHR ''='' # l \<and>
     CHR ''='' \<notin> set h \<and> CHR ''='' \<notin> set t \<and> CHR ''='' \<notin> set d"
  using assms
  by (auto simp: numeral_eq_Suc split_once_Some_iff split: option.splits)

text \<open>The result of decoding an address of the SRS form, in one equation.\<close>

definition srs_local :: "string \<Rightarrow> string \<Rightarrow> string \<Rightarrow> string \<Rightarrow> string" where
  "srs_local h t d l = h @ CHR ''='' # t @ CHR ''='' # d @ CHR ''='' # l"

definition hash_matches :: "mac \<Rightarrow> string \<Rightarrow> string \<Rightarrow> nat \<Rightarrow> string \<Rightarrow> string \<Rightarrow> bool" where
  "hash_matches mac secret h ts d l =
     (to_uppercase h = to_uppercase (take 4 (mac secret (show_nat ts @ d @ l))))"

definition young :: "int \<Rightarrow> nat \<Rightarrow> bool" where
  "young now ts =
     (let cur = srs_day now mod 1024
      in (ts \<le> cur \<and> cur - ts \<le> 21) \<or> (cur < ts \<and> ts \<le> cur + 1024 \<and> cur + 1024 - ts \<le> 21))"

lemma decode_srs_form:
  assumes pre: "to_lowercase pre = ''srs0''" and seps: "CHR ''='' \<notin> set h" "CHR ''='' \<notin> set t"
    "CHR ''='' \<notin> set d" "CHR ''@'' \<notin> set (srs_local h t d l)"
  shows "decode_srs mac now (pre @ CHR ''+'' # srs_local h t d l @ CHR ''@'' # domain) secret =
     (case parse_uint (2 ^ 64) t of
        None \<Rightarrow> None
      | Some ts \<Rightarrow> if young now ts \<and> hash_matches mac secret h ts d l then Some (l @ ''@'' @ d) else None)"
proof -
  have len: "length pre = 4" using arg_cong [OF pre, of length] by simp
  have letters: "lower_char c = CHR ''s'' \<or> lower_char c = CHR ''r'' \<or> lower_char c = CHR ''0''" if "c \<in> set pre" for c
    using that pre by (auto simp: to_lowercase_def dest!: arg_cong [where f = set])
  have npre: "CHR ''@'' \<notin> set pre" "CHR ''+'' \<notin> set pre"
    using letters [of "CHR ''@''"] letters [of "CHR ''+''"]
    by (auto simp: lower_char_def is_upper_def code_point_def)
  have split: "split_once (CHR ''@'') (pre @ CHR ''+'' # srs_local h t d l @ CHR ''@'' # domain) =
      Some (pre @ CHR ''+'' # srs_local h t d l, domain)"
    using split_once_append [of "CHR ''@''" "pre @ CHR ''+'' # srs_local h t d l" domain] npre seps(4)
    by simp
  have low: "starts_with ''srs0+'' (to_lowercase (pre @ CHR ''+'' # srs_local h t d l))"
    using pre by (simp add: starts_with_iff lower_char_def is_upper_def code_point_def)
  have young: "timestamp_age (get_current_srs_timestamp now) (word_of_nat ts) \<le> 21 \<longleftrightarrow> young now ts"
    if "parse_uint (2 ^ 64) t = Some ts" for ts
    using timestamp_age_young [of "get_current_srs_timestamp now" "word_of_nat ts"]
      parse_uint_bound [OF that] by (simp add: srs_timestamp_day word_of_nat_timestamp young_def Let_def)
  show ?thesis
    unfolding decode_srs_def split
    using low npre splitn4_parts [OF seps(1-3), of l] young
    by (auto simp: srs_local_def hash_matches_def srs_message_def Let_def not_less
        word_of_nat_timestamp dest: parse_uint_bound split: option.splits)
qed

lemma encode_srs_form:
  "CHR ''@'' \<notin> set l \<Longrightarrow> encode_srs mac now (l @ CHR ''@'' # d) domain secret =
     ''SRS0'' @ CHR ''+'' # srs_local (take 4 (mac secret (show_nat (srs_day now mod 1024) @ d @ l)))
        (show_nat (srs_day now mod 1024)) d l @ CHR ''@'' # domain"
  by (simp add: encode_srs_def srs_message_def srs_timestamp_day srs_local_def Let_def)

lemma base32_hash_no_sep:
  assumes "base32_mac mac"
  shows "CHR ''='' \<notin> set (take n (mac k m))" "CHR ''@'' \<notin> set (take n (mac k m))"
  using assms in_set_takeD [of _ n "mac k m"]
  by (fastforce simp: base32_mac_def is_upper_def is_digit_def code_point_def)+

lemma srs_local_no_at:
  "CHR ''@'' \<notin> set (srs_local h t d l) \<longleftrightarrow>
   CHR ''@'' \<notin> set h \<and> CHR ''@'' \<notin> set t \<and> CHR ''@'' \<notin> set d \<and> CHR ''@'' \<notin> set l"
  by (auto simp: srs_local_def)

lemma young_within_21_days:
  assumes "srs_day now \<le> srs_day later" "srs_day later \<le> srs_day now + 21"
  shows "young later (srs_day now mod 1024)"
proof -
  obtain k where k: "srs_day later = srs_day now + k" "k \<le> 21" using assms
    by (metis add_le_cancel_left le_Suc_ex)
  have "(srs_day now mod 1024 + k) mod 1024 =
      (if srs_day now mod 1024 + k < 1024 then srs_day now mod 1024 + k else srs_day now mod 1024 + k - 1024)"
    using k(2) mod_less_divisor [of 1024 "srs_day now"]
    by (auto simp: mod_if [of "srs_day now mod 1024 + k"])
  then have "srs_day later mod 1024 =
      (if srs_day now mod 1024 + k < 1024 then srs_day now mod 1024 + k else srs_day now mod 1024 + k - 1024)"
    using k(1) by (simp add: mod_add_left_eq)
  then show ?thesis using k(2) by (auto simp: young_def Let_def)
qed

section \<open>Properties\<close>

text \<open>C18: Round trip. An address rewritten by \<open>encode_srs\<close> decodes to the original sender for 21
  days, across the wrap-around of the day number, for every keyed hash of the documented shape and
  every forwarding domain.\<close>
theorem srs_round_trip:
  assumes "base32_mac mac" "CHR ''@'' \<notin> set l" "CHR ''@'' \<notin> set d" "CHR ''='' \<notin> set d"
    and "srs_day now \<le> srs_day later" "srs_day later \<le> srs_day now + 21"
  shows "decode_srs mac later (encode_srs mac now (l @ ''@'' @ d) domain secret) secret = Some (l @ ''@'' @ d)"
proof -
  have "srs_day now mod 1024 < 2 ^ 64" by (rule less_trans [OF mod_less_divisor]) simp_all
  moreover have "to_lowercase ''SRS0'' = ''srs0''" by (simp add: char_eval)
  ultimately show ?thesis
    using assms base32_hash_no_sep [OF assms(1)] young_within_21_days [OF assms(5,6)]
      decode_srs_form [of "''SRS0''" _ _ d l]
    by (simp add: encode_srs_form srs_local_no_at show_nat_no_sep hash_matches_def)
qed

definition toy_mac :: mac where
  "toy_mac secret message = replicate 52 (digit_char (length (filter is_lower message) mod 10))"

lemma base32_toy_mac: "base32_mac toy_mac"
  by (simp add: base32_mac_def toy_mac_def)

lemma srs_round_trip_witness:
  "decode_srs toy_mac (86400 * 1034) (encode_srs toy_mac (86400 * 1020) ''bob@example.org'' ''m.net'' ''k'') ''k''
     = Some ''bob@example.org''"
  using srs_round_trip [of toy_mac "''bob''" "''example.org''" "86400 * 1020" "86400 * 1034" "''m.net''" "''k''"]
    base32_toy_mac by (simp add: srs_day_def)

text \<open>C19: Soundness. Whatever \<open>decode_srs\<close> accepts is \<open>srs0+hash=day=domain=local\<close> (case of the tag
  free), whose hash is, up to case, the keyed hash of day, domain and local part, and whose day
  is at most 21 days old modulo 1024; the result is \<open>local@domain\<close>.\<close>
theorem srs_decode_sound:
  assumes "decode_srs mac now addr secret = Some r"
  shows "\<exists>pre h t ts d l domain. addr = pre @ ''+'' @ srs_local h t d l @ ''@'' @ domain \<and>
     starts_with ''srs0+'' (to_lowercase (pre @ ''+'' @ srs_local h t d l)) \<and>
     parse_uint (2 ^ 64) t = Some ts \<and> r = l @ ''@'' @ d \<and>
     hash_matches mac secret h ts d l \<and> young now ts"
proof -
  from assms obtain lp domain pre data h t d l ts where
    a: "split_once (CHR ''@'') addr = Some (lp, domain)" and
    low: "starts_with ''srs0+'' (to_lowercase lp)" and
    plus: "split_once (CHR ''+'') lp = Some (pre, data)" and
    parts: "splitn 4 (CHR ''='') data = [h, t, d, l]" and
    ts: "parse_uint (2 ^ 64) t = Some ts" and
    age: "timestamp_age (get_current_srs_timestamp now) (word_of_nat ts) \<le> 21" and
    hash: "to_uppercase h = to_uppercase (take 4 (mac secret (srs_message (word_of_nat ts) d l)))" and
    r: "r = l @ ''@'' @ d"
    by (auto simp: decode_srs_def Let_def not_less split: option.splits if_splits list.splits)
  have "addr = pre @ ''+'' @ srs_local h t d l @ ''@'' @ domain"
    using a plus splitn4_cases [OF parts] by (simp add: split_once_Some_iff srs_local_def)
  moreover have "starts_with ''srs0+'' (to_lowercase (pre @ ''+'' @ srs_local h t d l))"
    using low plus splitn4_cases [OF parts] by (simp add: split_once_Some_iff srs_local_def)
  moreover have "young now ts"
    using age timestamp_age_young [of "get_current_srs_timestamp now" "word_of_nat ts"]
      parse_uint_bound [OF ts] by (simp add: srs_timestamp_day word_of_nat_timestamp young_def Let_def)
  moreover have "hash_matches mac secret h ts d l"
    using hash parse_uint_bound [OF ts] by (simp add: hash_matches_def srs_message_def word_of_nat_timestamp)
  ultimately show ?thesis using ts r by blast
qed

lemma replicate_4: "replicate 4 c = [c, c, c, c]"
  by (simp add: eval_nat_numeral)

lemma toy_decode:
  "decode_srs toy_mac (86400 * 5) ''SRS0+0000=5=X=@M'' ''k'' = Some ''@X''"
proof -
  have "decode_srs toy_mac (86400 * 5) (''SRS0'' @ CHR ''+'' # srs_local ''0000'' ''5'' ''X'' '''' @ CHR ''@'' # ''M'') ''k'' = Some ''@X''"
    by (subst decode_srs_form)
      (simp_all add: srs_local_def num_eval young_def srs_day_def hash_matches_def toy_mac_def
        take_replicate replicate_4)
  then show ?thesis by (simp add: srs_local_def)
qed

lemma srs_decode_sound_witness:
  "\<exists>pre h t ts d l domain. ''SRS0+0000=5=X=@M'' = pre @ ''+'' @ srs_local h t d l @ ''@'' @ domain \<and>
     starts_with ''srs0+'' (to_lowercase (pre @ ''+'' @ srs_local h t d l)) \<and>
     parse_uint (2 ^ 64) t = Some ts \<and> ''@X'' = l @ ''@'' @ d \<and>
     hash_matches toy_mac ''k'' h ts d l \<and> young (86400 * 5) ts"
  by (rule srs_decode_sound) (rule toy_decode)

text \<open>The keyed hash is taken over day, domain and local part written one after another, so it does
  not tell where the domain ends: whenever an address decodes, the address that moves the tail of
  the domain to the front of the local part, under the same hash, decodes to the moved sender.\<close>
theorem srs_hash_does_not_separate:
  assumes "CHR ''='' \<notin> set h" "CHR ''='' \<notin> set t" "CHR ''='' \<notin> set (d1 @ d2)"
    "CHR ''@'' \<notin> set (srs_local h t (d1 @ d2) l)"
    and "decode_srs mac now (''SRS0+'' @ srs_local h t (d1 @ d2) l @ ''@'' @ domain) secret = Some (l @ ''@'' @ d1 @ d2)"
  shows "decode_srs mac now (''SRS0+'' @ srs_local h t d1 (d2 @ l) @ ''@'' @ domain) secret = Some (d2 @ l @ ''@'' @ d1)"
proof -
  have tag: "to_lowercase ''SRS0'' = ''srs0''" by (simp add: char_eval)
  have at: "CHR ''@'' \<notin> set (srs_local h t d1 (d2 @ l))" using assms(4) by (simp add: srs_local_no_at)
  have plus: "''SRS0+'' @ x = ''SRS0'' @ CHR ''+'' # x" for x by simp
  have "(case parse_uint (2 ^ 64) t of None \<Rightarrow> None
      | Some ts \<Rightarrow> if young now ts \<and> hash_matches mac secret h ts (d1 @ d2) l
                  then Some (l @ ''@'' @ d1 @ d2) else None) = Some (l @ ''@'' @ d1 @ d2)"
    using assms(5) unfolding plus append_Cons append_Nil
      decode_srs_form [OF tag assms(1-4), of mac now domain secret, unfolded append_Cons append_Nil]
    by simp
  then obtain ts where ts: "parse_uint (2 ^ 64) t = Some ts" "young now ts"
    "hash_matches mac secret h ts (d1 @ d2) l"
    by (cases "parse_uint (2 ^ 64) t") (simp_all split: if_splits)
  then have "hash_matches mac secret h ts d1 (d2 @ l)" by (simp add: hash_matches_def)
  with ts decode_srs_form [OF tag assms(1,2) _ at, of mac now domain secret] assms(3)
  show ?thesis unfolding plus by simp
qed

lemma srs_hash_does_not_separate_witness:
  "decode_srs toy_mac (86400 * 5) (''SRS0+'' @ srs_local ''0000'' ''5'' ''X'' ''Y'' @ ''@'' @ ''M'') ''k'' = Some ''Y@X''"
proof -
  have "decode_srs toy_mac (86400 * 5) (''SRS0'' @ CHR ''+'' # srs_local ''0000'' ''5'' (''X'' @ ''Y'') '''' @ CHR ''@'' # ''M'') ''k'' = Some ''@XY''"
    by (subst decode_srs_form)
      (simp_all add: srs_local_def num_eval young_def srs_day_def hash_matches_def toy_mac_def
        take_replicate replicate_4)
  then show ?thesis
    using srs_hash_does_not_separate [of "''0000''" "''5''" "''X''" "''Y''" "''''" toy_mac "86400 * 5" "''M''" "''k''"]
    by (simp add: srs_local_def)
qed

text \<open>The SMTP session lower-cases the recipient before it decodes it. For a sender with
  upper-case letters the hash is then compared with the one of the lower-cased sender: the bounce
  is accepted exactly when the two hashes happen to agree on their first four characters.\<close>
theorem srs_lowercased_address:
  assumes mac: "base32_mac mac" and at: "CHR ''@'' \<notin> set l" "CHR ''@'' \<notin> set d" and eq: "CHR ''='' \<notin> set d"
  shows "decode_srs mac now (to_lowercase (encode_srs mac now (l @ ''@'' @ d) domain secret)) secret =
     (if take 4 (mac secret (show_nat (srs_day now mod 1024) @ to_lowercase d @ to_lowercase l)) =
         take 4 (mac secret (show_nat (srs_day now mod 1024) @ d @ l))
      then Some (to_lowercase (l @ ''@'' @ d)) else None)"
proof -
  let ?n = "srs_day now mod 1024"
  let ?h = "take 4 (mac secret (show_nat ?n @ d @ l))"
  have digits: "to_lowercase (show_nat k) = show_nat k" for k
    using show_nat_digits [of _ k] unfolding to_lowercase_def
    by (intro map_idI lower_char_id) (fastforce simp: is_digit_def is_upper_def)
  have hash: "CHR ''='' \<notin> set ?h" "CHR ''@'' \<notin> set ?h" using base32_hash_no_sep [OF mac] by blast+
  have low: "to_lowercase (encode_srs mac now (l @ ''@'' @ d) domain secret) =
      ''srs0'' @ CHR ''+'' # srs_local (to_lowercase ?h) (show_nat ?n) (to_lowercase d) (to_lowercase l)
        @ CHR ''@'' # to_lowercase domain"
    using at by (simp add: encode_srs_form srs_local_def digits char_eval)
  have fit: "?n < 2 ^ 64" by (rule less_trans [OF mod_less_divisor]) simp_all
  have "decode_srs mac now (to_lowercase (encode_srs mac now (l @ ''@'' @ d) domain secret)) secret =
     (if hash_matches mac secret (to_lowercase ?h) ?n (to_lowercase d) (to_lowercase l)
      then Some (to_lowercase l @ ''@'' @ to_lowercase d) else None)"
    unfolding low using fit young_within_21_days [of now now] hash at eq
    by (subst decode_srs_form) (simp_all add: srs_local_no_at show_nat_no_sep char_eval)
  moreover have "to_uppercase (to_lowercase s) = to_uppercase s" for s
    by (simp add: to_uppercase_def to_lowercase_def upper_char_lower)
  moreover have up: "to_uppercase (take 4 (mac k m)) = take 4 (mac k m)" for k m
    using mac in_set_takeD [of _ 4 "mac k m"] unfolding to_uppercase_def
    by (intro map_idI) (fastforce simp: base32_mac_def upper_char_def is_upper_def is_digit_def is_lower_def)
  ultimately show ?thesis by (auto simp: hash_matches_def char_eval)
qed

lemma srs_lowercased_address_witness:
  "decode_srs toy_mac 0 (to_lowercase (encode_srs toy_mac 0 ''Bob@x'' ''m'' ''k'')) ''k'' = None"
  using srs_lowercased_address [of toy_mac "''Bob''" "''x''" 0 "''m''" "''k''"] base32_toy_mac
  by (simp add: toy_mac_def srs_day_def num_eval take_replicate replicate_4)

end
