(* ===== verification/Ip_Addr.thy ===== *)
theory Ip_Addr
  imports Rust_Prelude "HOL-Library.Word"
begin

unbundle bit_operations_syntax

text \<open>
  \<open>std::net::IpAddr\<close>: its \<open>FromStr\<close> and \<open>Display\<close>, and the prefix comparisons that the block list
  (\<open>u32\<close> masks) and the SPF check (\<open>u64\<close> and \<open>u128\<close> masks) are made of.  Addresses keep their widths.
\<close>

datatype ip_addr = V4 "32 word" | V6 "128 word"

fun is_ipv4 :: "ip_addr \<Rightarrow> bool" where
  "is_ipv4 (V4 _) = True"
| "is_ipv4 (V6 _) = False"

definition is_ipv6 :: "ip_addr \<Rightarrow> bool" where
  "is_ipv6 ip = (\<not> is_ipv4 ip)"

section \<open>Parsing\<close>

text \<open>An octet has one to three digits and no leading zero.\<close>

definition parse_octet :: "string \<Rightarrow> nat option" where
  "parse_octet s =
     (if s = [] \<or> 3 < length s \<or> (1 < length s \<and> hd s = CHR ''0'') then None
      else case parse_digits 0 s of None \<Rightarrow> None | Some n \<Rightarrow> if n < 256 then Some n else None)"

fun all_some :: "'a option list \<Rightarrow> 'a list option" where
  "all_some [] = Some []"
| "all_some (x # xs) = (case x of None \<Rightarrow> None | Some a \<Rightarrow> map_option (\<lambda>as. a # as) (all_some xs))"

definition from_octets :: "nat list \<Rightarrow> nat" where
  "from_octets os = foldl (\<lambda>acc n. acc * 256 + n) 0 os"

definition parse_ipv4 :: "string \<Rightarrow> (32 word) option" where
  "parse_ipv4 s =
     (let parts = split_on (CHR ''.'') s
      in if length parts \<noteq> 4 then None
         else map_option (\<lambda>os. word_of_nat (from_octets os)) (all_some (map parse_octet parts)))"

definition hex_value :: "char \<Rightarrow> nat option" where
  "hex_value c =
     (if is_digit c then Some (code_point c - 48)
      else if 97 \<le> code_point c \<and> code_point c \<le> 102 then Some (code_point c - 87)
      else if 65 \<le> code_point c \<and> code_point c \<le> 70 then Some (code_point c - 55)
      else None)"

definition parse_group :: "string \<Rightarrow> nat option" where
  "parse_group s =
     (if s = [] \<or> 4 < length s then None
      else map_option (\<lambda>ds. foldl (\<lambda>acc d. acc * 16 + d) 0 ds) (all_some (map hex_value s)))"

text \<open>The groups of one side of \<open>::\<close>; where \<open>v4\<close> allows it the last may be a dotted IPv4 address.\<close>

definition parse_groups :: "bool \<Rightarrow> string \<Rightarrow> nat list option" where
  "parse_groups v4 s =
     (if s = [] then Some []
      else (let parts = split_on (CHR '':'') s
            in case (if v4 then parse_ipv4 (last parts) else None) of
                 Some w \<Rightarrow> map_option (\<lambda>gs. gs @ [unat w div 65536, unat w mod 65536])
                             (all_some (map parse_group (butlast parts)))
               | None \<Rightarrow> all_some (map parse_group parts)))"

definition from_groups :: "nat list \<Rightarrow> 128 word" where
  "from_groups gs = word_of_nat (foldl (\<lambda>acc g. acc * 65536 + g) 0 gs)"

definition parse_ipv6 :: "string \<Rightarrow> (128 word) option" where
  "parse_ipv6 s = (case split_once_str ''::'' s of
     Some (head, tail) \<Rightarrow>
       (case (parse_groups False head, parse_groups True tail) of
          (Some hs, Some ts) \<Rightarrow>
            if length hs + length ts \<le> 7
            then Some (from_groups (hs @ replicate (8 - length hs - length ts) 0 @ ts)) else None
        | _ \<Rightarrow> None)
   | None \<Rightarrow> (case parse_groups True s of
       Some gs \<Rightarrow> if length gs = 8 then Some (from_groups gs) else None
     | None \<Rightarrow> None))"

definition parse_ip :: "string \<Rightarrow> ip_addr option" where
  "parse_ip s = (case parse_ipv4 s of Some w \<Rightarrow> Some (V4 w) | None \<Rightarrow> map_option V6 (parse_ipv6 s))"

section \<open>Display\<close>

definition octets :: "32 word \<Rightarrow> nat list" where
  "octets w = (let n = unat w in [n div 16777216, n div 65536 mod 256, n div 256 mod 256, n mod 256])"

definition show_ipv4 :: "32 word \<Rightarrow> string" where
  "show_ipv4 w = join_with ''.'' (map show_nat (octets w))"

definition hex_char :: "nat \<Rightarrow> char" where
  "hex_char n = (if n < 10 then digit_char n else char_of (87 + n))"

fun show_hex :: "nat \<Rightarrow> string" where
  "show_hex n = (if n < 16 then [hex_char n] else show_hex (n div 16) @ [hex_char (n mod 16)])"

declare show_hex.simps [simp del]

definition segments :: "128 word \<Rightarrow> nat list" where
  "segments w = map (\<lambda>i. unat w div 65536 ^ (7 - i) mod 65536) [0 ..< 8]"

text \<open>The first longest run of zero segments, as start and length.\<close>

fun zero_run :: "nat \<Rightarrow> nat \<times> nat \<Rightarrow> nat \<times> nat \<Rightarrow> nat list \<Rightarrow> nat \<times> nat" where
  "zero_run i best cur [] = best"
| "zero_run i best cur (g # gs) =
    (if g = 0
     then (let cur' = (if snd cur = 0 then (i, 1) else (fst cur, Suc (snd cur)))
           in zero_run (Suc i) (if snd best < snd cur' then cur' else best) cur' gs)
     else zero_run (Suc i) best (0, 0) gs)"

definition show_ipv6 :: "128 word \<Rightarrow> string" where
  "show_ipv6 w =
     (let gs = segments w;
          colons = (\<lambda>xs. join_with '':'' (map show_hex xs))
      in if take 6 gs = [0, 0, 0, 0, 0, 65535]
         then ''::ffff:'' @ show_ipv4 (word_of_nat (gs ! 6 * 65536 + gs ! 7))
         else (case zero_run 0 (0, 0) (0, 0) gs of (start, len) \<Rightarrow>
           if 1 < len then colons (take start gs) @ ''::'' @ colons (drop (start + len) gs)
           else colons gs))"

fun show_ip :: "ip_addr \<Rightarrow> string" where
  "show_ip (V4 w) = show_ipv4 w"
| "show_ip (V6 w) = show_ipv6 w"

section \<open>Round trip\<close>

lemma split_on_join:
  "(\<And>x. x \<in> set (s # ss) \<Longrightarrow> c \<notin> set x) \<Longrightarrow> split_on c (join_with [c] (s # ss)) = s # ss"
proof (induction ss arbitrary: s)
  case Nil
  then show ?case by (induction s) (auto simp: cons_first_def)
next
  case (Cons t ts)
  have "split_on c (x @ c # y) = x # split_on c y" if "c \<notin> set x" for x y
    using that by (induction x) (auto simp: cons_first_def)
  then show ?case using Cons by simp
qed

lemma unat32_less: "unat (w :: 32 word) < 4294967296"
  using unsigned_less [where ?'a = nat and w = w] by simp

lemma show_nat_short:
  assumes "n < 256"
  shows "length (show_nat n) \<le> 3" "1 < length (show_nat n) \<Longrightarrow> hd (show_nat n) \<noteq> CHR ''0''"
proof -
  have z: "m < 10 \<Longrightarrow> digit_char m = CHR ''0'' \<Longrightarrow> m = 0" for m
    using code_point_digit [of m] by (simp add: code_point_def)
  show "length (show_nat n) \<le> 3" using assms by (simp add: show_nat.simps)
  show "1 < length (show_nat n) \<Longrightarrow> hd (show_nat n) \<noteq> CHR ''0''"
    using assms z [of "n div 10"] z [of "n div 10 div 10"]
    by (auto simp: show_nat.simps [of n] show_nat.simps [of "n div 10"] show_nat.simps [of "n div 10 div 10"]
        hd_append split: if_splits)
qed

lemma parse_octet_show: "n < 256 \<Longrightarrow> parse_octet (show_nat n) = Some n"
  using show_nat_short [of n] by (auto simp: parse_octet_def)

lemma parse_show_ipv4 [simp]: "parse_ipv4 (show_ipv4 w) = Some w"
proof -
  define n where "n = unat w"
  have n: "n < 4294967296" using unat32_less [of w] by (simp add: n_def)
  have sep: "split_on (CHR ''.'') (show_ipv4 w) = map show_nat (octets w)"
    unfolding show_ipv4_def octets_def Let_def list.map
    by (rule split_on_join) (auto simp: show_nat_no_sep)
  have sum: "((n div 16777216 * 256 + n div 65536 mod 256) * 256 + n div 256 mod 256) * 256 + n mod 256 = n"
  proof -
    have "n div 16777216 * 256 + n div 65536 mod 256 = n div 65536"
      using div_mult_mod_eq [of "n div 65536" 256] div_mult2_eq [of n 65536 256] by simp
    moreover have "n div 65536 * 256 + n div 256 mod 256 = n div 256"
      using div_mult_mod_eq [of "n div 256" 256] div_mult2_eq [of n 256 256] by simp
    ultimately show ?thesis using div_mult_mod_eq [of n 256] by simp
  qed
  have os: "\<forall>k \<in> set (octets w). k < 256" using n by (auto simp: octets_def Let_def n_def [symmetric])
  then have "all_some (map parse_octet (map show_nat (octets w))) = Some (octets w)"
    by (simp add: octets_def Let_def parse_octet_show)
  moreover have "from_octets (octets w) = n"
    using sum by (simp add: from_octets_def octets_def Let_def n_def [symmetric])
  moreover have "word_of_nat n = w" by (simp add: n_def)
  ultimately show ?thesis by (simp add: parse_ipv4_def sep octets_def Let_def)
qed

lemma parse_show_ip_v4 [simp]: "parse_ip (show_ipv4 w) = Some (V4 w)"
  by (simp add: parse_ip_def)

section \<open>Prefixes\<close>

definition same_prefix :: "nat \<Rightarrow> nat \<Rightarrow> ('a :: len) word \<Rightarrow> 'a word \<Rightarrow> bool" where
  "same_prefix w p a b = (drop_bit (w - p) a = drop_bit (w - p) b)"

lemma masked_eq:
  fixes a b m :: "('a :: len) word"
  assumes "\<And>i. i < LENGTH('a) \<Longrightarrow> bit m i = (k \<le> i)"
  shows "a AND m = b AND m \<longleftrightarrow> drop_bit k a = drop_bit k b"
proof
  assume eq: "a AND m = b AND m"
  show "drop_bit k a = drop_bit k b"
  proof (rule bit_word_eqI)
    fix n
    assume "n < LENGTH('a)"
    have "bit (a AND m) (k + n) = bit (b AND m) (k + n)" using eq by simp
    then show "bit (drop_bit k a) n = bit (drop_bit k b) n"
      using assms [of "k + n"] by (auto simp: bit_simps dest: bit_imp_le_length)
  qed
next
  assume eq: "drop_bit k a = drop_bit k b"
  show "a AND m = b AND m"
  proof (rule bit_word_eqI)
    fix n
    assume n: "n < LENGTH('a)"
    show "bit (a AND m) n = bit (b AND m) n"
    proof (cases "k \<le> n")
      case True
      have "bit (drop_bit k a) (n - k) = bit (drop_bit k b) (n - k)" using eq by simp
      with True show ?thesis by (simp add: bit_simps)
    next
      case False
      with assms [OF n] show ?thesis by (simp add: bit_simps)
    qed
  qed
qed

text \<open>The three masks of the code.\<close>

definition mask_u32_max :: "nat \<Rightarrow> 32 word" where
  "mask_u32_max k = push_bit k (- 1)"

definition mask_u64 :: "nat \<Rightarrow> 32 word" where
  "mask_u64 k = ucast (NOT (push_bit k 1 - 1) :: 64 word)"

definition mask_u128 :: "nat \<Rightarrow> 128 word" where
  "mask_u128 k = NOT (push_bit k 1 - 1)"

lemma bit_mask_u32_max: "i < 32 \<Longrightarrow> bit (mask_u32_max k) i = (k \<le> i)"
  by (auto simp: mask_u32_max_def bit_simps)

lemma push_one_minus: "push_bit k 1 - 1 = (mask k :: ('a :: len) word)"
  by (simp add: mask_eq_exp_minus_1 push_bit_eq_mult)

lemma bit_mask_u64: "i < 32 \<Longrightarrow> bit (mask_u64 k) i = (k \<le> i)"
  unfolding mask_u64_def push_one_minus by (auto simp: bit_simps)

lemma bit_mask_u128: "i < 128 \<Longrightarrow> bit (mask_u128 k) i = (k \<le> i)"
  unfolding mask_u128_def push_one_minus by (auto simp: bit_simps)

lemma masks_compare:
  "(a AND mask_u32_max k = b AND mask_u32_max k) = (drop_bit k a = drop_bit k b)"
  "(a AND mask_u64 k = b AND mask_u64 k) = (drop_bit k a = drop_bit k b)"
  "(c AND mask_u128 k = d AND mask_u128 k) = (drop_bit k c = drop_bit k d)"
  by (rule masked_eq; simp add: bit_mask_u32_max bit_mask_u64 bit_mask_u128)+

lemma drop_all: "drop_bit LENGTH('a) (a :: ('a :: len) word) = 0"
  by (rule bit_word_eqI) (auto simp: bit_simps dest: bit_imp_le_length)

end
