(* ===== verification/Dns.thy ===== *)
theory Dns
  imports Ip_Addr Mime
begin

text \<open>
  The DNS checks of \<open>src/src/dns.rs\<close>: the record checks of the admin pages and the SPF evaluation.

  The resolver is a parameter: for each kind of lookup and each name, an error text or the list of
  answers.
\<close>

section \<open>Answers\<close>

datatype rdata = MX nat string | TXT "string list" | A "32 word" | OtherData

record resolver =
  mx_lookup :: "string \<Rightarrow> string + rdata list"
  txt_lookup :: "string \<Rightarrow> string + rdata list"
  ipv4_lookup :: "string \<Rightarrow> string + rdata list"
  lookup_ip :: "string \<Rightarrow> bool"

definition mx_records :: "rdata list \<Rightarrow> (nat \<times> string) list" where
  "mx_records answers = concat (map (\<lambda>r. case r of MX p e \<Rightarrow> [(p, e)] | _ \<Rightarrow> []) answers)"

definition txt_data :: "rdata list \<Rightarrow> string list" where
  "txt_data answers = concat (map (\<lambda>r. case r of TXT ds \<Rightarrow> ds | _ \<Rightarrow> []) answers)"

definition trim_dots :: "string \<Rightarrow> string" where
  "trim_dots s = trim_end_by (\<lambda>c. c = CHR ''.'') s"

section \<open>The domain checks\<close>

record record_status =
  st_ok :: bool
  st_message :: string
  st_value :: "string option"

record dns_check_result =
  dc_is_ok :: bool
  dc_mx_status :: record_status
  dc_spf_status :: record_status
  dc_dmarc_status :: record_status

definition mx_check :: "string + rdata list \<Rightarrow> record_status" where
  "mx_check mx_res = (case mx_res of
     Inl _ \<Rightarrow> \<lparr>st_ok = False, st_message = ''DNS lookup failed or no MX records found.'', st_value = None\<rparr>
   | Inr answers \<Rightarrow> (case sort_key fst (mx_records answers) of
       [] \<Rightarrow> \<lparr>st_ok = False, st_message = ''No MX records found. Email delivery will fail.'', st_value = None\<rparr>
     | best # rest \<Rightarrow> \<lparr>st_ok = True,
         st_message = ''Found '' @ show_nat (Suc (length rest)) @ '' MX records'',
         st_value = Some (trim_dots (snd best))\<rparr>))"

definition txt_check :: "string \<Rightarrow> string \<Rightarrow> string \<Rightarrow> string + rdata list \<Rightarrow> record_status" where
  "txt_check tag found missing txt_res =
     (let none = \<lparr>st_ok = False, st_message = missing, st_value = None\<rparr>
      in case txt_res of
           Inl _ \<Rightarrow> none
         | Inr answers \<Rightarrow> (case find (starts_with tag) (map from_utf8_lossy (txt_data answers)) of
             None \<Rightarrow> none
           | Some text_line \<Rightarrow> \<lparr>st_ok = True, st_message = found, st_value = Some text_line\<rparr>))"

definition check_domain :: "resolver \<Rightarrow> string \<Rightarrow> dns_check_result" where
  "check_domain dns domain_name =
     (let mx_status = mx_check (mx_lookup dns domain_name);
          spf_status = txt_check ''v=spf1'' ''SPF record found'' ''No SPF record found.''
             (txt_lookup dns domain_name);
          dmarc_status = txt_check ''v=DMARC1'' ''DMARC record found'' ''No DMARC record found.''
             (txt_lookup dns (''_dmarc.'' @ domain_name))
      in \<lparr>dc_is_ok = (st_ok mx_status \<and> st_ok spf_status), dc_mx_status = mx_status,
          dc_spf_status = spf_status, dc_dmarc_status = dmarc_status\<rparr>)"

definition is_domain_deliverable :: "resolver \<Rightarrow> string \<Rightarrow> bool" where
  "is_domain_deliverable dns domain_name = (case mx_lookup dns domain_name of
     Inr answers \<Rightarrow> mx_records answers \<noteq> []
   | Inl _ \<Rightarrow> lookup_ip dns domain_name)"

definition check_dkim_record :: "resolver \<Rightarrow> string \<Rightarrow> string \<Rightarrow> string \<Rightarrow> record_status" where
  "check_dkim_record dns domain_name selector expected_pub_key =
     (case txt_lookup dns (selector @ ''._domainkey.'' @ domain_name) of
        Inl e \<Rightarrow> \<lparr>st_ok = False, st_message = ''DKIM DNS TXT lookup failed: '' @ e, st_value = None\<rparr>
      | Inr answers \<Rightarrow>
          (case find (contains_str expected_pub_key) (map from_utf8_lossy (txt_data answers)) of
             Some text_line \<Rightarrow> \<lparr>st_ok = True, st_message = ''DKIM TXT record found and matches!'',
               st_value = Some text_line\<rparr>
           | None \<Rightarrow> \<lparr>st_ok = False,
               st_message = ''DKIM record found but does not contain the expected public key.'',
               st_value = None\<rparr>))"

section \<open>SPF\<close>

datatype spf_directive = Ip4 string | Ip6 string | Include string | Redirect string

definition clean_term :: "string \<Rightarrow> string" where
  "clean_term t = (case t of [] \<Rightarrow> [] | c # cs \<Rightarrow>
     if c = CHR ''+'' \<or> c = CHR ''-'' \<or> c = CHR ''~'' \<or> c = CHR ''?'' then cs else t)"

definition parse_term :: "string \<Rightarrow> spf_directive list" where
  "parse_term t =
     (if t = ''v=spf1'' then []
      else (let clean = clean_term t
            in case strip_prefix ''ip4:'' clean of Some cidr \<Rightarrow> [Ip4 cidr]
             | None \<Rightarrow> (case strip_prefix ''ip6:'' clean of Some cidr \<Rightarrow> [Ip6 cidr]
             | None \<Rightarrow> (case strip_prefix ''include:'' clean of Some d \<Rightarrow> [Include d]
             | None \<Rightarrow> (case strip_prefix ''redirect='' clean of Some d \<Rightarrow> [Redirect d]
             | None \<Rightarrow> [])))))"

definition parse_spf_record :: "string \<Rightarrow> spf_directive list" where
  "parse_spf_record txt =
     (if \<not> starts_with ''v=spf1'' txt then [] else concat (map parse_term (split_whitespace txt)))"

definition match_ip_cidr :: "ip_addr \<Rightarrow> string \<Rightarrow> bool" where
  "match_ip_cidr ip cidr =
     (let parts = split_on (CHR ''/'') cidr;
          full = (if is_ipv4 ip then 32 else 128)
      in case parse_ip (hd parts) of
           None \<Rightarrow> False
         | Some parsed \<Rightarrow>
             (let plen = (if 1 < length parts then unwrap_or full (parse_uint (2 ^ 32) (parts ! 1)) else full)
              in case (ip, parsed) of
                   (V4 a, V4 b) \<Rightarrow>
                     (let p = min plen 32
                      in if p = 0 then True
                         else if p = 32 then a = b
                         else (let mask = mask_u64 (32 - p) in a AND mask = b AND mask))
                 | (V6 a, V6 b) \<Rightarrow>
                     (let p = min plen 128
                      in if p = 0 then True
                         else if p = 128 then a = b
                         else (let mask = mask_u128 (128 - p) in a AND mask = b AND mask))
                 | _ \<Rightarrow> False))"

text \<open>The directives of one record: \<open>None\<close> is the \<open>return true\<close>, otherwise the stack of domains, whose end
  is its top.\<close>

fun scan_directives :: "ip_addr \<Rightarrow> spf_directive list \<Rightarrow> string list \<Rightarrow> string list option" where
  "scan_directives ip [] stack = Some stack"
| "scan_directives ip (dir # dirs) stack = (case dir of
     Ip4 cidr \<Rightarrow> if is_ipv4 ip \<and> match_ip_cidr ip cidr then None else scan_directives ip dirs stack
   | Ip6 cidr \<Rightarrow> if is_ipv6 ip \<and> match_ip_cidr ip cidr then None else scan_directives ip dirs stack
   | Include d \<Rightarrow> scan_directives ip dirs (stack @ [d])
   | Redirect d \<Rightarrow> scan_directives ip dirs (stack @ [d]))"

definition answer_directives :: "rdata list \<Rightarrow> spf_directive list" where
  "answer_directives answers = concat (map (\<lambda>data. parse_spf_record (from_utf8_lossy data)) (txt_data answers))"

text \<open>The loop over the stack. \<open>looked_up\<close> records the names asked of the resolver.\<close>

function spf_loop :: "resolver \<Rightarrow> ip_addr \<Rightarrow> string list \<Rightarrow> string list \<Rightarrow> nat \<Rightarrow> string list \<Rightarrow> bool \<times> string list" where
  "spf_loop dns ip stack checked depth looked_up =
    (if stack = [] then (False, looked_up)
     else (let current = last stack; rest = butlast stack
           in if current \<in> set checked then spf_loop dns ip rest checked depth looked_up
              else if depth + 1 > 10 then (False, looked_up)
              else (let looked_up' = looked_up @ [current]; checked' = current # checked
                    in case txt_lookup dns (current @ ''.'') of
                         Inl _ \<Rightarrow> spf_loop dns ip rest checked' (depth + 1) looked_up'
                       | Inr answers \<Rightarrow> (case scan_directives ip (answer_directives answers) rest of
                           None \<Rightarrow> (True, looked_up')
                         | Some stack' \<Rightarrow> spf_loop dns ip stack' checked' (depth + 1) looked_up'))))"
  by pat_completeness auto

termination
  by (relation "measures [\<lambda>(dns, ip, stack, checked, depth, looked_up). 10 - depth,
      \<lambda>(dns, ip, stack, checked, depth, looked_up). length stack]") auto

declare spf_loop.simps [simp del]

definition check_spf_for_domain :: "resolver \<Rightarrow> string \<Rightarrow> ip_addr \<Rightarrow> bool" where
  "check_spf_for_domain dns domain_name client_ip = fst (spf_loop dns client_ip [domain_name] [] 0 [])"

section \<open>Properties\<close>

lemma cidr_parts:
  assumes "p < 2 ^ 32"
  shows "split_on (CHR ''/'') (show_ipv4 w @ ''/'' @ show_nat p) = [show_ipv4 w, show_nat p]"
proof -
  have "c \<noteq> CHR ''/''" if "c \<in> set (show_ipv4 w)" for c
  proof -
    from that have "is_digit c \<or> c = CHR ''.''" by (auto simp: show_ipv4_def octets_def Let_def dest: show_nat_digits)
    then show ?thesis using is_digit_not_sep by auto
  qed
  then have "CHR ''/'' \<notin> set (show_ipv4 w)" by blast
  then show ?thesis using show_nat_no_sep(5) [of p] by simp
qed


lemma spf_stop: "spf_loop dns ip [] checked depth looked = (False, looked)"
  by (simp add: spf_loop.simps)

lemma spf_skip:
  "stack \<noteq> [] \<Longrightarrow> last stack \<in> set checked \<Longrightarrow>
   spf_loop dns ip stack checked depth looked = spf_loop dns ip (butlast stack) checked depth looked"
  by (subst spf_loop.simps) (simp add: Let_def)

lemma spf_limit:
  "stack \<noteq> [] \<Longrightarrow> last stack \<notin> set checked \<Longrightarrow> 10 < depth + 1 \<Longrightarrow>
   spf_loop dns ip stack checked depth looked = (False, looked)"
  by (subst spf_loop.simps) (simp add: Let_def)

lemma spf_ask:
  "stack \<noteq> [] \<Longrightarrow> last stack \<notin> set checked \<Longrightarrow> depth + 1 \<le> 10 \<Longrightarrow>
   spf_loop dns ip stack checked depth looked =
     (case txt_lookup dns (last stack @ ''.'') of
        Inl _ \<Rightarrow> spf_loop dns ip (butlast stack) (last stack # checked) (depth + 1) (looked @ [last stack])
      | Inr answers \<Rightarrow> (case scan_directives ip (answer_directives answers) (butlast stack) of
          None \<Rightarrow> (True, looked @ [last stack])
        | Some stack' \<Rightarrow> spf_loop dns ip stack' (last stack # checked) (depth + 1) (looked @ [last stack])))"
  by (subst spf_loop.simps) (simp add: Let_def)

lemma spf_loop_bounded:
  "distinct looked \<Longrightarrow> set looked = set checked \<Longrightarrow> length looked = depth \<Longrightarrow> depth \<le> 10 \<Longrightarrow>
   distinct (snd (spf_loop dns ip stack checked depth looked)) \<and>
   length (snd (spf_loop dns ip stack checked depth looked)) \<le> 10"
proof (induction dns ip stack checked depth looked rule: spf_loop.induct)
  case (1 dns ip stack checked depth looked)
  let ?cur = "last stack"
  show ?case
  proof (cases "stack = [] \<or> ?cur \<in> set checked \<or> depth + 1 > 10")
    case True
    with 1 show ?thesis
      by (cases "stack = []"; cases "?cur \<in> set checked") (simp_all add: spf_stop spf_skip spf_limit)
  next
    case False
    then have s: "stack \<noteq> []" "?cur \<notin> set checked" "depth + 1 \<le> 10" by auto
    have inv: "distinct (looked @ [?cur])" "set (looked @ [?cur]) = set (?cur # checked)"
      "length (looked @ [?cur]) = depth + 1"
      using 1(4-6) s by auto
    show ?thesis
    proof (cases "txt_lookup dns (?cur @ ''.'')")
      case (Inl e)
      with s inv 1(2) show ?thesis
        by (simp add: spf_ask)
    next
      case (Inr answers)
      show ?thesis
      proof (cases "scan_directives ip (answer_directives answers) (butlast stack)")
        case None
        with s Inr inv show ?thesis by (simp add: spf_ask)
      next
        case (Some stack')
        with s Inr inv 1(3) show ?thesis by (simp add: spf_ask)
      qed
    qed
  qed
qed

lemma scan_None:
  "scan_directives ip dirs stack = None \<Longrightarrow>
   \<exists>dir \<in> set dirs. case dir of Ip4 c \<Rightarrow> is_ipv4 ip \<and> match_ip_cidr ip c
     | Ip6 c \<Rightarrow> is_ipv6 ip \<and> match_ip_cidr ip c | _ \<Rightarrow> False"
  by (induction ip dirs stack rule: scan_directives.induct) (auto split: spf_directive.splits if_splits)

definition authorizes :: "resolver \<Rightarrow> ip_addr \<Rightarrow> string \<Rightarrow> bool" where
  "authorizes dns ip name = (case txt_lookup dns (name @ ''.'') of
     Inl _ \<Rightarrow> False
   | Inr answers \<Rightarrow> list_ex (\<lambda>dir. case dir of Ip4 c \<Rightarrow> is_ipv4 ip \<and> match_ip_cidr ip c
       | Ip6 c \<Rightarrow> is_ipv6 ip \<and> match_ip_cidr ip c | _ \<Rightarrow> False) (answer_directives answers))"

lemma spf_loop_sound:
  "fst (spf_loop dns ip stack checked depth looked) \<Longrightarrow>
   \<exists>name \<in> set (snd (spf_loop dns ip stack checked depth looked)). authorizes dns ip name"
proof (induction dns ip stack checked depth looked rule: spf_loop.induct)
  case (1 dns ip stack checked depth looked)
  let ?cur = "last stack"
  show ?case
  proof (cases "stack = [] \<or> ?cur \<in> set checked \<or> depth + 1 > 10")
    case True
    with 1 show ?thesis
      by (cases "stack = []"; cases "?cur \<in> set checked") (simp_all add: spf_stop spf_skip spf_limit)
  next
    case False
    then have s: "stack \<noteq> []" "?cur \<notin> set checked" "depth + 1 \<le> 10" by auto
    show ?thesis
    proof (cases "txt_lookup dns (?cur @ ''.'')")
      case (Inl e)
      with s 1(2,4) show ?thesis by (simp add: spf_ask)
    next
      case (Inr answers)
      show ?thesis
      proof (cases "scan_directives ip (answer_directives answers) (butlast stack)")
        case None
        from scan_None [OF this] have "authorizes dns ip ?cur"
          unfolding authorizes_def Inr by (simp add: list_ex_iff)
        with s Inr None show ?thesis by (simp add: spf_ask)
      next
        case (Some stack')
        with s Inr 1(3,4) show ?thesis by (simp add: spf_ask)
      qed
    qed
  qed
qed

text \<open>C26: The SPF check ends, asks little and invents nothing. For every resolver, however the records
  include each other, at most ten names are looked up, none twice; and a client is accepted only when a
  record of a looked-up name has an \<open>ip4\<close> or \<open>ip6\<close> block that contains it.\<close>
theorem spf_check_bounded_and_sound:
  "(case spf_loop dns ip [domain_name] [] 0 [] of (accepted, asked) \<Rightarrow>
     check_spf_for_domain dns domain_name ip = accepted \<and> distinct asked \<and> length asked \<le> 10 \<and>
     (if accepted then list_ex (authorizes dns ip) asked else True))"
proof -
  obtain accepted asked where r: "spf_loop dns ip [domain_name] [] 0 [] = (accepted, asked)" by fastforce
  have "distinct asked \<and> length asked \<le> 10"
    using spf_loop_bounded [of "[]" "[]" 0 dns ip "[domain_name]"] r by simp
  moreover have "accepted \<Longrightarrow> list_ex (authorizes dns ip) asked"
    using spf_loop_sound [of dns ip "[domain_name]" "[]" 0 "[]"] r by (simp add: list_ex_iff)
  ultimately show ?thesis using r by (simp add: check_spf_for_domain_def)
qed


lemma split_whitespace_acc_word:
  "(\<forall>c \<in> set s. \<not> is_whitespace c) \<Longrightarrow> split_whitespace_acc w s = (if w = [] \<and> s = [] then [] else [rev w @ s])"
  by (induction s arbitrary: w) auto

definition spf_answers :: "string \<Rightarrow> string \<Rightarrow> resolver" where
  "spf_answers domain_name record_text =
     \<lparr>mx_lookup = (\<lambda>_. Inl ''no''),
      txt_lookup = (\<lambda>n. if n = domain_name @ ''.'' then Inr [TXT [record_text]] else Inl ''no''),
      ipv4_lookup = (\<lambda>_. Inl ''no''), lookup_ip = (\<lambda>_. False)\<rparr>"

text \<open>SPF qualifiers are not read. A domain whose record says that an address must not send, as
  \<open>-ip4:\<close> (fail), \<open>~ip4:\<close> (soft fail) and \<open>?ip4:\<close> (neutral) do, has that address accepted as an
  authorized sender, exactly as with \<open>+ip4:\<close>.\<close>
theorem spf_fail_authorizes:
  assumes "q \<in> set ''+-~?''"
  shows "check_spf_for_domain (spf_answers domain_name (''v=spf1 '' @ q # ''ip4:'' @ show_ipv4 w)) domain_name (V4 w)"
proof -
  let ?rec = "''v=spf1 '' @ q # ''ip4:'' @ show_ipv4 w"
  have ch: "code_point c < 128 \<and> \<not> is_whitespace c \<and> c \<noteq> CHR ''/''" if "c \<in> set (show_ipv4 w)" for c
  proof -
    from that have "is_digit c \<or> c = CHR ''.''" by (auto simp: show_ipv4_def octets_def Let_def dest: show_nat_digits)
    then show ?thesis by (auto simp: is_digit_def is_whitespace_def code_point_def)
  qed
  have q: "code_point q < 128" "\<not> is_whitespace q" using assms by (auto simp: char_eval)
  have utf: "from_utf8_lossy ?rec = ?rec"
    using ch q by (intro from_utf8_lossy_ascii) (auto simp: code_point_def)
  have word: "split_whitespace_acc [] (q # ''ip4:'' @ show_ipv4 w) = [q # ''ip4:'' @ show_ipv4 w]"
    using ch q by (subst split_whitespace_acc_word) (auto simp: is_whitespace_def code_point_def)
  have sp: "split_whitespace ?rec = [''v=spf1'', q # ''ip4:'' @ show_ipv4 w]"
    using word by (simp add: split_whitespace_def is_whitespace_def code_point_def)
  have cl: "clean_term (q # ''ip4:'' @ show_ipv4 w) = ''ip4:'' @ show_ipv4 w"
    using assms by (auto simp: clean_term_def)
  have ip4: "strip_prefix ''ip4:'' (''ip4:'' @ show_ipv4 w) = Some (show_ipv4 w)" by (rule strip_prefix_append)
  have ne: "q # ''ip4:'' @ show_ipv4 w \<noteq> ''v=spf1''" using assms by auto
  have one: "parse_term (q # ''ip4:'' @ show_ipv4 w) = [Ip4 (show_ipv4 w)]"
    unfolding parse_term_def cl Let_def ip4 using ne by simp
  have dirs: "parse_spf_record ?rec = [Ip4 (show_ipv4 w)]"
    unfolding parse_spf_record_def sp using one by (simp add: parse_term_def)
  have slash: "split_on (CHR ''/'') (show_ipv4 w) = [show_ipv4 w]"
    using ch by (intro split_on_nosep) blast
  have m: "match_ip_cidr (V4 w) (show_ipv4 w)" by (simp add: match_ip_cidr_def slash Let_def)
  have ans: "answer_directives [TXT [?rec]] = [Ip4 (show_ipv4 w)]"
    unfolding answer_directives_def txt_data_def using utf dirs by simp
  have sc: "scan_directives (V4 w) [Ip4 (show_ipv4 w)] [] = None" using m by simp
  have look: "txt_lookup (spf_answers domain_name ?rec) (domain_name @ ''.'') = Inr [TXT [?rec]]"
    by (simp add: spf_answers_def)
  show ?thesis
    unfolding check_spf_for_domain_def using look ans sc
    by (subst spf_ask) simp_all
qed

theorem spf_fail_authorizes_witness:
  "check_spf_for_domain (spf_answers ''x.org'' (''v=spf1 -ip4:'' @ show_ipv4 0x05060708)) ''x.org'' (V4 0x05060708)"
  using spf_fail_authorizes [of "CHR ''-''" "''x.org''" "0x05060708"] by simp

end
