(* ===== verification/Outbound.thy ===== *)
theory Outbound
  imports Db_Accounts Smtp_Client Srs Dns
begin

text \<open>
  The outbound service: \<open>src/src/outbound/mod.rs\<close> (DKIM, relay or MX delivery, queuing on failure),
  \<open>src/src/outbound/dkim.rs\<close>, the queue table of \<open>src/src/db/queue.rs\<close> and \<open>enqueue_job\<close> of
  \<open>src/src/outbound/queue.rs\<close>.

  \<open>sys\<close> is the world the service acts on: database, file system, clock, the supply of fresh UUIDs, the
  outcomes of the TCP connections still to be made and the connections already used, with what was written on
  them.  \<open>outbound\<close> is the service object: its fields, and the libraries it calls.
\<close>

section \<open>The world\<close>

record sys =
  sy_db :: db
  sy_fs :: fs
  sy_now :: time
  sy_uuids :: "nat \<Rightarrow> uuid"
  sy_next_uuid :: nat
  sy_connects :: "(string + conn) list"
  sy_used :: "(string \<times> nat \<times> conn) list"

definition fresh_uuid :: "sys \<Rightarrow> uuid \<times> sys" where
  "fresh_uuid s = (sy_uuids s (sy_next_uuid s), s\<lparr>sy_next_uuid := Suc (sy_next_uuid s)\<rparr>)"

definition on_db :: "'a dbm \<Rightarrow> sys \<Rightarrow> (sqlx_error + 'a) \<times> sys" where
  "on_db m s = (case m (sy_db s) of (r, d) \<Rightarrow> (r, s\<lparr>sy_db := d\<rparr>))"

definition on_fs :: "'a io \<Rightarrow> sys \<Rightarrow> (io_error + 'a) \<times> sys" where
  "on_fs m s = (case m (sy_fs s) of (r, f) \<Rightarrow> (r, s\<lparr>sy_fs := f\<rparr>))"

text \<open>A connect takes the next outcome; with none left the peer refuses.\<close>

definition tcp_connect :: "sys \<Rightarrow> (string + conn) \<times> sys" where
  "tcp_connect s = (case sy_connects s of
     [] \<Rightarrow> (Err ''Connection refused'', s)
   | r # rs \<Rightarrow> (r, s\<lparr>sy_connects := rs\<rparr>))"

record outbound =
  ob_resolver :: resolver
  ob_server_name :: "string \<Rightarrow> string option"
  ob_srs_secret :: string
  ob_identity_domain :: string
  ob_storage_dir :: string
  ob_relay_override :: "relay_config option"
  ob_mx_port :: nat
  ob_env :: "string \<Rightarrow> string option"
  ob_cipher :: cipher_lib
  ob_mac :: mac
  ob_parse :: mail_parser
  ob_date :: "time \<Rightarrow> string"
  ob_dkim_key_ok :: "string \<Rightarrow> bool"
  ob_dkim_sign :: "string \<Rightarrow> string \<Rightarrow> string \<Rightarrow> string \<Rightarrow> string option"

definition get_config :: "(string \<Rightarrow> string option) \<Rightarrow> string \<Rightarrow> string \<Rightarrow> string" where
  "get_config env key fallback = unwrap_or fallback (env key)"

section \<open>The queue table\<close>

definition insert_job :: "time \<Rightarrow> uuid \<Rightarrow> string \<Rightarrow> string \<Rightarrow> unit dbm" where
  "insert_job now i from_envelope to_recipient =
     (let j = \<lparr>qj_id = i, qj_from_envelope = from_envelope, qj_to_recipient = to_recipient, qj_attempts = 0,
               qj_max_attempts = 10, qj_last_error = None, qj_status = ''pending'', qj_next_retry_at = now,
               qj_created_at = now\<rparr>
      in insert_stmt (queue_constraints j) (\<lambda>d. d\<lparr>t_queue := t_queue d @ [j]\<rparr>) (\<lambda>_. ()))"

definition retryable :: "time \<Rightarrow> queue_job \<Rightarrow> bool" where
  "retryable now j = (qj_status j = ''pending'' \<and> qj_next_retry_at j \<le> now)"

definition fetch_next_retryable_jobs :: "time \<Rightarrow> nat \<Rightarrow> queue_job list dbm" where
  "fetch_next_retryable_jobs now limit = query (\<lambda>d.
     take limit (sort_key qj_next_retry_at (filter (retryable now) (t_queue d))))"

definition update_job_status :: "uuid \<Rightarrow> string \<Rightarrow> int \<Rightarrow> string option \<Rightarrow> time \<Rightarrow> unit dbm" where
  "update_job_status i status attempts last_error next_retry_at = exec (\<lambda>d.
     d\<lparr>t_queue := update_rows (\<lambda>j. qj_id j = i)
        (\<lambda>j. j\<lparr>qj_status := status, qj_attempts := attempts, qj_last_error := last_error,
                qj_next_retry_at := next_retry_at\<rparr>) (t_queue d)\<rparr>)"

definition delete_job :: "uuid \<Rightarrow> unit dbm" where
  "delete_job i = exec (\<lambda>d. d\<lparr>t_queue := filter (\<lambda>j. qj_id j \<noteq> i) (t_queue d)\<rparr>)"

section \<open>Enqueueing\<close>

definition outbound_dir :: "string \<Rightarrow> string" where
  "outbound_dir storage_dir = storage_dir @ ''/outbound''"

definition get_job_file_path :: "string \<Rightarrow> uuid \<Rightarrow> string" where
  "get_job_file_path storage_dir job_id = outbound_dir storage_dir @ ''/'' @ job_id @ ''.eml''"

datatype enqueue_error = EnqueueIo io_error | EnqueueDb sqlx_error

definition enqueue_job :: "string \<Rightarrow> string \<Rightarrow> string \<Rightarrow> string \<Rightarrow> sys \<Rightarrow> (enqueue_error + uuid) \<times> sys" where
  "enqueue_job storage_dir from_envelope to_recipient body_bytes s =
     (case fresh_uuid s of (i, s) \<Rightarrow>
      let file_path = get_job_file_path storage_dir i
      in case on_fs (create_dir_all_async_with_permissions (outbound_dir storage_dir)) s of
           (Inl e, s) \<Rightarrow> (Err (EnqueueIo e), s)
         | (Inr _, s) \<Rightarrow> (case on_fs (write_file_async_with_permissions file_path body_bytes) s of
             (Inl e, s) \<Rightarrow> (Err (EnqueueIo e), s)
           | (Inr _, s) \<Rightarrow> (case on_db (insert_job (sy_now s) i from_envelope to_recipient) s of
               (Inr _, s) \<Rightarrow> (Ok i, s)
             | (Inl e, s) \<Rightarrow> (Err (EnqueueDb e), snd (on_fs (remove_file file_path) s)))))"

section \<open>Signing\<close>

definition sign_message_with_dkim :: "outbound \<Rightarrow> string \<Rightarrow> string \<Rightarrow> string \<Rightarrow> string \<Rightarrow> string" where
  "sign_message_with_dkim ob body sender_domain private_b64 selector =
     (case base64_decode (ob_cipher ob) private_b64 of
        None \<Rightarrow> body
      | Some der_bytes \<Rightarrow>
          if \<not> ob_dkim_key_ok ob der_bytes then body
          else (case ob_dkim_sign ob der_bytes sender_domain selector body of
              None \<Rightarrow> body
            | Some sig_header \<Rightarrow> sig_header @ CRLF @ body))"

definition sender_domain_of :: "string \<Rightarrow> string" where
  "sender_domain_of from_envelope = to_lowercase (trim (nth_or [] 1 (split_on (CHR ''@'') from_envelope)))"

definition sign_outgoing :: "outbound \<Rightarrow> string \<Rightarrow> string \<Rightarrow> sys \<Rightarrow> string \<times> sys" where
  "sign_outgoing ob from_envelope body s =
     (let sender_domain = sender_domain_of from_envelope;
          config_key = get_config (ob_env ob) ''DB_ENCRYPTION_KEY'' []
      in case on_db (get_dkim_key_by_domain (ob_cipher ob) config_key sender_domain) s of
           (Inr (Some (Some private_b64, selector)), s) \<Rightarrow>
             (sign_message_with_dkim ob body sender_domain private_b64 selector, s)
         | (_, s) \<Rightarrow> (body, s))"

section \<open>Delivery\<close>

definition relay_config_of :: "outbound \<Rightarrow> relay_config option" where
  "relay_config_of ob = (case ob_relay_override ob of
     Some config \<Rightarrow> Some config
   | None \<Rightarrow>
      (let env = ob_env ob;
           token = get_config env ''SMTP_RELAY_TOKEN'' [];
           pass1 = (if token = [] then get_config env ''SMTP_RELAY_PASSWORD'' [] else token);
           pass = (if pass1 = [] then get_config env ''SMTP_TOKEN'' [] else pass1)
       in if pass = [] then None
          else Some \<lparr>relay_host = get_config env ''SMTP_RELAY_HOST'' ''live.smtp.mailtrap.io'',
                     relay_port = unwrap_or 587 (parse_uint 65536 (get_config env ''SMTP_RELAY_PORT'' ''587'')),
                     relay_user = get_config env ''SMTP_RELAY_USER'' ''api'',
                     relay_pass = pass,
                     allow_plaintext_auth = parse_allow_plaintext_auth
                        (get_config env ''SMTP_RELAY_ALLOW_PLAINTEXT_AUTH'' ''false'')\<rparr>))"

definition mx_session :: "outbound \<Rightarrow> string \<Rightarrow> string \<Rightarrow> string \<Rightarrow> string \<Rightarrow> conn \<Rightarrow> (string + unit) \<times> conn" where
  "mx_session ob clean_host recipient from_envelope body c =
     (case read_full_response [] c of
        (Inl e, c) \<Rightarrow> (Err e, c)
      | (Inr _, c) \<Rightarrow>
     (case send_cmd (''EHLO '' @ ob_identity_domain ob) False c of
        (Inl e, c) \<Rightarrow> (Err e, c)
      | (Inr capabilities, c) \<Rightarrow>
         if list_ex (contains_str ''STARTTLS'') capabilities
         then and_then (send_cmd ''STARTTLS'' False c) (\<lambda>c.
              and_then (upgrade (ob_server_name ob) clean_host ''TLS connection failed: '' c) (\<lambda>c.
              case send_cmd (''EHLO '' @ ob_identity_domain ob) False c of
                (Inl e, c) \<Rightarrow> (Err e, c)
              | (Inr capabilities, c) \<Rightarrow> send_mail_flow capabilities from_envelope recipient body c))
         else send_mail_flow capabilities from_envelope recipient body c))"

definition best_mx :: "rdata list \<Rightarrow> string option" where
  "best_mx answers = (case sort_key fst (mx_records answers) of [] \<Rightarrow> None | m # _ \<Rightarrow> Some (trim_dots (snd m)))"

definition first_a :: "string + rdata list \<Rightarrow> (32 word) option" where
  "first_a r = (case r of Inl _ \<Rightarrow> None
     | Inr answers \<Rightarrow> (case concat (map (\<lambda>x. case x of A w \<Rightarrow> [w] | _ \<Rightarrow> []) answers) of
         [] \<Rightarrow> None | w # _ \<Rightarrow> Some w))"

text \<open>One connection: made, used for a session, kept in the log.\<close>

definition with_connection ::
  "string \<Rightarrow> nat \<Rightarrow> (conn \<Rightarrow> (string + unit) \<times> conn) \<Rightarrow> sys \<Rightarrow> (string + unit) \<times> sys" where
  "with_connection host port session s = (case tcp_connect s of
     (Inl e, s) \<Rightarrow> (Err e, s)
   | (Inr c, s) \<Rightarrow> (case session c of (r, c') \<Rightarrow> (r, s\<lparr>sy_used := sy_used s @ [(host, port, c')]\<rparr>)))"

definition deliver_mx :: "outbound \<Rightarrow> string \<Rightarrow> string \<Rightarrow> string \<Rightarrow> sys \<Rightarrow> (string + unit) \<times> sys" where
  "deliver_mx ob recipient from_envelope body s =
     (case split_on (CHR ''@'') recipient of
        _ # domain_name # _ \<Rightarrow>
          (case mx_lookup (ob_resolver ob) domain_name of
             Inl e \<Rightarrow> (Err e, s)
           | Inr answers \<Rightarrow> (case best_mx answers of
               None \<Rightarrow> (Err (''No MX records found for domain: '' @ domain_name), s)
             | Some clean_host \<Rightarrow> (case first_a (ipv4_lookup (ob_resolver ob) clean_host) of
                 None \<Rightarrow> (Err (''Could not resolve IPv4 for MX '' @ clean_host), s)
               | Some ip \<Rightarrow> with_connection (show_ipv4 ip) (ob_mx_port ob)
                   (mx_session ob clean_host recipient from_envelope body) s)))
      | _ \<Rightarrow> (Err ''Invalid recipient email address'', s))"

definition send_raw_inner :: "outbound \<Rightarrow> string \<Rightarrow> string \<Rightarrow> string \<Rightarrow> sys \<Rightarrow> (string + unit) \<times> sys" where
  "send_raw_inner ob recipient from_envelope body s =
     (case sign_outgoing ob from_envelope body s of (signed_body, s) \<Rightarrow>
        (case relay_config_of ob of
           Some config \<Rightarrow> with_connection (relay_host config) (relay_port config)
             (relay_session (base64_encode (ob_cipher ob)) (ob_server_name ob) (ob_identity_domain ob) config
                recipient from_envelope signed_body) s
         | None \<Rightarrow> deliver_mx ob recipient from_envelope signed_body s))"

definition deliver_once :: "outbound \<Rightarrow> string \<Rightarrow> string \<Rightarrow> string \<Rightarrow> sys \<Rightarrow> (string + unit) \<times> sys" where
  "deliver_once ob recipient from_envelope body s = send_raw_inner ob recipient from_envelope body s"

definition send_raw :: "outbound \<Rightarrow> string \<Rightarrow> string \<Rightarrow> string \<Rightarrow> sys \<Rightarrow> (string + unit) \<times> sys" where
  "send_raw ob recipient from_envelope body s =
     (case send_raw_inner ob recipient from_envelope body s of
        (Inr _, s) \<Rightarrow> (Ok (), s)
      | (Inl e, s) \<Rightarrow>
          if \<not> is_permanent_delivery_error e
          then (case enqueue_job (ob_storage_dir ob) from_envelope recipient body s of
              (Inl _, s) \<Rightarrow> (Err e, s)
            | (Inr _, s) \<Rightarrow> (Ok (), s))
          else (Err e, s))"

section \<open>The sending operations\<close>

definition mime_env_of :: "outbound \<Rightarrow> sys \<Rightarrow> mime_env \<times> sys" where
  "mime_env_of ob s =
     (case fresh_uuid s of (u0, s) \<Rightarrow> case fresh_uuid s of (u1, s) \<Rightarrow>
      case fresh_uuid s of (u2, s) \<Rightarrow> case fresh_uuid s of (u3, s) \<Rightarrow>
        (\<lparr>date_text = ob_date ob (sy_now s), uuid_message = u0, uuid_mixed = u1, uuid_related = u2,
          uuid_alternative = u3, base64 = base64_encode (ob_cipher ob)\<rparr>, s))"

definition send_reply ::
  "outbound \<Rightarrow> string \<Rightarrow> string \<Rightarrow> string \<Rightarrow> string \<Rightarrow> string option \<Rightarrow> string option \<Rightarrow> mime_attachment list
   \<Rightarrow> sys \<Rightarrow> (string + string) \<times> sys" where
  "send_reply ob recipient from_alias subject body original_message_id new_message_id attachments s =
     (case mime_env_of ob s of (env, s) \<Rightarrow>
      let mime = build_mime env
            \<lparr>me_from = from_alias, me_to = recipient, me_subject = subject, me_text_body = body,
             me_html_body = None, me_message_id = new_message_id, me_in_reply_to = original_message_id,
             me_references = original_message_id, me_attachments = attachments\<rparr>
      in case send_raw ob recipient from_alias mime s of
           (Inl e, s) \<Rightarrow> (Err e, s) | (Inr _, s) \<Rightarrow> (Ok mime, s))"

definition srs_from :: "outbound \<Rightarrow> string \<Rightarrow> sys \<Rightarrow> string" where
  "srs_from ob sender s =
     encode_srs (ob_mac ob) (sy_now s) sender (ob_identity_domain ob) (ob_srs_secret ob)"

definition send_forward :: "outbound \<Rightarrow> string \<Rightarrow> string \<Rightarrow> string \<Rightarrow> sys \<Rightarrow> (string + unit) \<times> sys" where
  "send_forward ob recipient sender body s = send_raw ob recipient (srs_from ob sender s) body s"

definition send_forward_with_reply_token ::
  "outbound \<Rightarrow> string \<Rightarrow> string \<Rightarrow> string \<Rightarrow> string \<Rightarrow> sys \<Rightarrow> (string + unit) \<times> sys" where
  "send_forward_with_reply_token ob recipient sender reply_token body s =
     (let reply_from_email = reply_token @ ''@'' @ ob_identity_domain ob
      in case mime_env_of ob s of (env, s) \<Rightarrow>
         let clean_body = rewrite_body_for_forward (ob_parse ob) env body sender reply_from_email recipient
         in send_raw ob recipient (srs_from ob reply_from_email s) clean_body s)"

definition send_firsthand :: "outbound \<Rightarrow> string \<Rightarrow> string \<Rightarrow> string \<Rightarrow> sys \<Rightarrow> (string + unit) \<times> sys" where
  "send_firsthand ob recipient sender body s = send_raw ob recipient sender body s"

definition service_decode_srs :: "outbound \<Rightarrow> string \<Rightarrow> sys \<Rightarrow> string option" where
  "service_decode_srs ob srs_address s = decode_srs (ob_mac ob) (sy_now s) srs_address (ob_srs_secret ob)"

definition service_check_spf :: "outbound \<Rightarrow> string \<Rightarrow> ip_addr \<Rightarrow> bool" where
  "service_check_spf ob domain_name client_ip = check_spf_for_domain (ob_resolver ob) domain_name client_ip"

section \<open>Integrity of the queue table\<close>

lemma keeps_queue:
  "keeps db_wf (insert_job now i f t)" "keeps db_wf (update_job_status i st a e n)" "keeps db_wf (delete_job i)"
proof -
  show "keeps db_wf (insert_job now i f t)"
    unfolding insert_job_def Let_def by (intro keeps_rules) (simp_all add: wf_insert_queue)
  show "keeps db_wf (update_job_status i st a e n)"
    unfolding update_job_status_def by (intro keeps_rules) (simp_all add: wf_defs)
  show "keeps db_wf (delete_job i)"
    unfolding delete_job_def by (intro keeps_rules) (simp_all add: wf_defs)
qed

section \<open>What the operations leave alone\<close>

text \<open>Delivery reads the database and touches no file.\<close>

lemma on_db_sys: "on_db m s = (r, s') \<Longrightarrow> s' = s\<lparr>sy_db := snd (m (sy_db s))\<rparr>"
  by (auto simp: on_db_def split: prod.splits)

lemma on_fs_sys: "on_fs m s = (r, s') \<Longrightarrow> s' = s\<lparr>sy_fs := snd (m (sy_fs s))\<rparr>"
  by (auto simp: on_fs_def split: prod.splits)

definition delivers_only :: "sys \<Rightarrow> sys \<Rightarrow> bool" where
  "delivers_only s s' = (same_tables (sy_db s) (sy_db s') \<and> sy_fs s' = sy_fs s \<and> sy_now s' = sy_now s \<and>
     sy_uuids s' = sy_uuids s \<and> sy_next_uuid s' = sy_next_uuid s)"

lemma delivers_only_refl [simp]: "delivers_only s s"
  by (simp add: delivers_only_def same_tables_def)

lemma delivers_only_trans: "delivers_only s s' \<Longrightarrow> delivers_only s' s'' \<Longrightarrow> delivers_only s s''"
  by (simp add: delivers_only_def same_tables_def)

lemma delivers_only_net [simp]:
  "delivers_only s (s'\<lparr>sy_used := u\<rparr>) = delivers_only s s'" "delivers_only s (s'\<lparr>sy_connects := cs\<rparr>) = delivers_only s s'"
  by (simp_all add: delivers_only_def)

lemma with_connection_only: "delivers_only s (snd (with_connection host port session s))"
  by (auto simp: with_connection_def tcp_connect_def split: list.splits prod.splits sum.splits)

lemma deliver_mx_only: "delivers_only s (snd (deliver_mx ob rcpt sender body s))"
  by (auto simp: deliver_mx_def with_connection_only split: list.splits sum.splits option.splits)

lemma get_dkim_key_reads:
  "get_dkim_key_by_domain lib ck n d = (r, d') \<Longrightarrow> d' = d\<lparr>db_faults := tl (db_faults d)\<rparr>"
  unfolding get_dkim_key_by_domain_def db_bind_def db_return_def db_fail_def
  by (auto dest!: query_optional_db split: prod.splits sum.splits option.splits)

lemma sign_outgoing_only: "delivers_only s (snd (sign_outgoing ob sender body s))"
proof -
  let ?m = "get_dkim_key_by_domain (ob_cipher ob) (get_config (ob_env ob) ''DB_ENCRYPTION_KEY'' []) (sender_domain_of sender)"
  obtain r s' where m: "on_db ?m s = (r, s')" by fastforce
  obtain r' d' where g: "?m (sy_db s) = (r', d')" by fastforce
  have "delivers_only s s'"
    using on_db_sys [OF m] get_dkim_key_reads [OF g] g
    by (simp add: delivers_only_def same_tables_def)
  moreover have "snd (sign_outgoing ob sender body s) = s'"
    using m by (auto simp: sign_outgoing_def Let_def split: sum.splits option.splits prod.splits)
  ultimately show ?thesis by simp
qed

lemma send_raw_inner_only: "send_raw_inner ob rcpt sender body s = (r, s') \<Longrightarrow> delivers_only s s'"
proof -
  assume run: "send_raw_inner ob rcpt sender body s = (r, s')"
  obtain b s1 where s: "sign_outgoing ob sender body s = (b, s1)" by fastforce
  have 1: "delivers_only s s1" using sign_outgoing_only [of s ob sender body] s by simp
  have "delivers_only s1 s'"
  proof (cases "relay_config_of ob")
    case None
    with run s deliver_mx_only [of s1 ob rcpt sender b] show ?thesis by (simp add: send_raw_inner_def)
  next
    case (Some config)
    with run s with_connection_only [of s1] show ?thesis
      by (simp add: send_raw_inner_def) (metis snd_conv)
  qed
  with 1 show ?thesis by (rule delivers_only_trans)
qed

section \<open>Enqueueing is all or nothing\<close>

definition pending_job :: "time \<Rightarrow> uuid \<Rightarrow> string \<Rightarrow> string \<Rightarrow> queue_job" where
  "pending_job now i from_envelope to_recipient =
     \<lparr>qj_id = i, qj_from_envelope = from_envelope, qj_to_recipient = to_recipient, qj_attempts = 0,
      qj_max_attempts = 10, qj_last_error = None, qj_status = ''pending'', qj_next_retry_at = now,
      qj_created_at = now\<rparr>"

lemma make_dirs_files: "files (snd (make_dirs m ps \<sigma>)) = files \<sigma>"
proof (induction m ps arbitrary: \<sigma> rule: make_dirs.induct)
  case (2 m p ps)
  show ?case
  proof (cases "dirs \<sigma> p")
    case None
    then show ?thesis using 2
      by (auto simp: io_bind_def syscall_def next_fault_def split: list.splits bool.splits prod.splits)
  qed (simp add: 2)
qed (simp add: io_return_def)

lemma create_dir_files:
  "create_dir_all_async_with_permissions p \<sigma> = (r, \<sigma>') \<Longrightarrow> files \<sigma>' = files \<sigma>"
  using make_dirs_files [of mode_0700 "proper_prefixes [] p @ [p]" \<sigma>]
  by (simp add: create_dir_all_async_with_permissions_def)

lemma syscall_eq:
  "syscall f \<sigma> = (if fst (next_fault \<sigma>) then (Err (OtherIo ''io''), snd (next_fault \<sigma>))
     else (Ok (fst (f (snd (next_fault \<sigma>)))), snd (f (snd (next_fault \<sigma>)))))"
  by (cases "next_fault \<sigma>") (auto simp: syscall_def split: prod.splits bool.splits)

lemma store_file_other: "q \<noteq> p \<Longrightarrow> files (store_file p b \<sigma>) q = files \<sigma> q"
  by (simp add: store_file_def Let_def)

lemma chmod_other: "q \<noteq> p \<Longrightarrow> files (chmod p m \<sigma>) q = files \<sigma> q"
  by (simp add: chmod_def split: option.split)

lemma write_file_other:
  assumes "write_file_async_with_permissions p b \<sigma> = (r, \<sigma>')" "q \<noteq> p"
  shows "files \<sigma>' q = files \<sigma> q"
proof -
  have sys: "files (snd (syscall f x)) q = files x q"
    if "\<And>y. files (snd (f y)) q = files y q" for f :: "fs \<Rightarrow> unit \<times> fs" and x
    by (simp add: syscall_eq that)
  have bind: "files (snd (io_bind m f x)) q = files x q"
    if "files (snd (m x)) q = files x q" "\<And>a y. files (snd (f a y)) q = files y q" for m :: "unit io" and f :: "unit \<Rightarrow> unit io" and x
    using that by (auto simp: io_bind_def split: prod.splits sum.splits)
  have perm: "files (snd (set_permissions p mode_0600 x)) q = files x q" for x
    by (cases "files x p") (simp_all add: set_permissions_def sys chmod_other assms(2))
  have wr: "files (snd (fs_write p b x)) q = files x q" for x
    unfolding fs_write_def by (rule bind) (simp_all add: sys store_file_other assms(2))
  show ?thesis
    using bind [of "fs_write p b" \<sigma> "\<lambda>_. set_permissions p mode_0600", OF wr perm] assms(1)
    by (simp add: write_file_async_with_permissions_def)
qed

lemma write_file_async_Ok:
  "write_file_async_with_permissions p b \<sigma> = (Inr (), \<sigma>') \<Longrightarrow>
   files \<sigma>' = (files \<sigma>)(p := Some \<lparr>file_bytes = b, file_mode = mode_0600\<rparr>)"
  using write_file_Ok [of p b \<sigma> \<sigma>']
  by (simp add: write_file_async_with_permissions_def write_file_sync_with_permissions_def)

lemma insert_job_result:
  "insert_job now i f t d = (r, d') \<Longrightarrow>
   (case r of Inl _ \<Rightarrow> same_tables d d'
    | Inr _ \<Rightarrow> \<exists>fs. d' = d\<lparr>db_faults := fs, t_queue := t_queue d @ [pending_job now i f t]\<rparr>)"
  by (auto simp: insert_job_def insert_stmt_def stmt_def Let_def same_tables_def pending_job_def
      split: if_splits option.splits list.splits)

text \<open>The world after a mail has been queued: one more pending row, due now, and its file.\<close>

definition queued :: "string \<Rightarrow> string \<Rightarrow> string \<Rightarrow> string \<Rightarrow> sys \<Rightarrow> sys \<Rightarrow> bool" where
  "queued dir from_envelope to_recipient body s s' =
     (let i = sy_uuids s (sy_next_uuid s)
      in t_queue (sy_db s') = t_queue (sy_db s) @ [pending_job (sy_now s) i from_envelope to_recipient] \<and>
         files (sy_fs s') = (files (sy_fs s))(get_job_file_path dir i := Some \<lparr>file_bytes = body, file_mode = mode_0600\<rparr>))"

lemma enqueue_result:
  assumes run: "enqueue_job dir from_envelope to_recipient body s = (r, s')"
  shows "(case r of
      Inr i \<Rightarrow> i = sy_uuids s (sy_next_uuid s) \<and> queued dir from_envelope to_recipient body s s'
    | Inl _ \<Rightarrow> same_tables (sy_db s) (sy_db s') \<and>
        files (sy_fs s') = (files (sy_fs s))(get_job_file_path dir (sy_uuids s (sy_next_uuid s)) :=
          files (sy_fs s') (get_job_file_path dir (sy_uuids s (sy_next_uuid s)))))"
proof -
  let ?i = "sy_uuids s (sy_next_uuid s)" and ?s0 = "s\<lparr>sy_next_uuid := Suc (sy_next_uuid s)\<rparr>"
  let ?path = "get_job_file_path dir ?i"
  obtain r1 f1 where m: "create_dir_all_async_with_permissions (outbound_dir dir) (sy_fs s) = (r1, f1)" by fastforce
  have f1: "files f1 = files (sy_fs s)" by (rule create_dir_files [OF m])
  show ?thesis
  proof (cases r1)
    case (Inl e)
    with run m f1 show ?thesis by (auto simp: enqueue_job_def fresh_uuid_def on_fs_def Let_def same_tables_def)
  next
    case (Inr u1)
    obtain r2 f2 where w: "write_file_async_with_permissions ?path body f1 = (r2, f2)" by fastforce
    have other: "files f2 q = files (sy_fs s) q" if "q \<noteq> ?path" for q
      using write_file_other [OF w that] f1 by simp
    show ?thesis
    proof (cases r2)
      case (Inl e)
      with run m w Inr other show ?thesis
        by (auto simp: enqueue_job_def fresh_uuid_def on_fs_def Let_def same_tables_def fun_eq_iff)
    next
      case (Inr u2)
      obtain r3 d3 where q: "insert_job (sy_now s) ?i from_envelope to_recipient (sy_db s) = (r3, d3)" by fastforce
      note res = insert_job_result [OF q]
      have f2: "files f2 = (files (sy_fs s))(?path := Some \<lparr>file_bytes = body, file_mode = mode_0600\<rparr>)"
        using write_file_async_Ok [of ?path body f1 f2] w Inr f1 by simp
      show ?thesis
      proof (cases r3)
        case (Inr u3)
        with run m w q \<open>r1 = Inr u1\<close> \<open>r2 = Inr u2\<close> res f2 show ?thesis
          by (auto simp: enqueue_job_def fresh_uuid_def on_fs_def on_db_def Let_def queued_def)
      next
        case (Inl e)
        have rm: "files (snd (remove_file ?path f2)) q = files (sy_fs s) q" if "q \<noteq> ?path" for q
          by (simp add: remove_file_def syscall_eq other that split: option.split)
        from Inl run m w q \<open>r1 = Inr u1\<close> \<open>r2 = Inr u2\<close> res rm show ?thesis
          by (auto simp: enqueue_job_def fresh_uuid_def on_fs_def on_db_def Let_def fun_eq_iff split: prod.splits)
      qed
    qed
  qed
qed

text \<open>Enqueueing is all or nothing, whichever I/O operation or statement fails. When \<open>enqueue_job\<close> succeeds
  there is one new pending row and its file holds the mail, readable by the owner alone; when it fails no
  table has changed and no other file has.\<close>
theorem enqueue_all_or_nothing:
  assumes run: "enqueue_job dir from_envelope to_recipient body s = (r, s')"
  shows "(case r of
      Inr i \<Rightarrow> i = sy_uuids s (sy_next_uuid s) \<and> queued dir from_envelope to_recipient body s s'
    | Inl _ \<Rightarrow> same_tables (sy_db s) (sy_db s') \<and>
        files (sy_fs s') = (files (sy_fs s))(get_job_file_path dir (sy_uuids s (sy_next_uuid s)) :=
          files (sy_fs s') (get_job_file_path dir (sy_uuids s (sy_next_uuid s)))))"
  by (rule enqueue_result [OF run])

text \<open>C4: No mail is dropped silently. When \<open>send_raw\<close> reports success the mail was accepted by the relay or the
  recipient's server, or it is in the queue, due at once and with its unsigned text on disk; when it reports
  failure no queue row was added.\<close>
theorem send_raw_delivers_or_queues:
  assumes run: "send_raw ob rcpt sender body s = (r, s')"
  shows "(case r of
      Inr _ \<Rightarrow> is_ok (fst (send_raw_inner ob rcpt sender body s)) \<or>
        queued (ob_storage_dir ob) sender rcpt body s s'
    | Inl e \<Rightarrow> fst (send_raw_inner ob rcpt sender body s) = Inl e \<and> same_tables (sy_db s) (sy_db s'))"
proof -
  obtain r1 s1 where i: "send_raw_inner ob rcpt sender body s = (r1, s1)" by fastforce
  have only: "delivers_only s s1" using send_raw_inner_only [OF i] .
  show ?thesis
  proof (cases r1)
    case (Inr u)
    with run i show ?thesis by (auto simp: send_raw_def is_ok_def)
  next
    case (Inl e)
    show ?thesis
    proof (cases "is_permanent_delivery_error e")
      case True
      with run i Inl only show ?thesis by (auto simp: send_raw_def delivers_only_def)
    next
      case False
      obtain r2 s2 where q: "enqueue_job (ob_storage_dir ob) sender rcpt body s1 = (r2, s2)" by fastforce
      have eq: "r = (case r2 of Inl _ \<Rightarrow> Inl e | Inr _ \<Rightarrow> Inr ())" "s' = s2"
        using run i Inl False q by (auto simp: send_raw_def split: sum.splits)
      have tq: "t_queue (sy_db s1) = t_queue (sy_db s)"
        using only by (auto simp: delivers_only_def same_tables_def dest: arg_cong [where f = t_queue])
      show ?thesis
      proof (cases r2)
        case (Inl e2)
        with enqueue_result [OF q] only i \<open>r1 = Inl e\<close> show ?thesis
          by (auto simp: eq delivers_only_def same_tables_def)
      next
        case (Inr j)
        with enqueue_result [OF q] only tq show ?thesis
          by (auto simp: eq delivers_only_def queued_def Let_def)
      qed
    qed
  qed
qed

section \<open>A sample service\<close>

definition sample_ob :: outbound where
  "sample_ob =
     \<lparr>ob_resolver = spf_answers ''x.org'' ''v=spf1 -all'', ob_server_name = (\<lambda>_. None), ob_srs_secret = ''s'',
      ob_identity_domain = ''x.org'', ob_storage_dir = ''/m'', ob_relay_override = None, ob_mx_port = 25,
      ob_env = (\<lambda>_. None), ob_cipher = plain_lib, ob_mac = (\<lambda>k m. m), ob_parse = (\<lambda>_. None), ob_date = (\<lambda>_. ''now''),
      ob_dkim_key_ok = (\<lambda>_. False), ob_dkim_sign = (\<lambda>_ _ _ _. None)\<rparr>"

definition sample_sys :: sys where
  "sample_sys = \<lparr>sy_db = sample_db Sqlite, sy_fs = empty_fs, sy_now = 100, sy_uuids = (\<lambda>n. ''q'' @ show_nat n),
     sy_next_uuid = 0, sy_connects = [], sy_used = []\<rparr>"

lemma sample_trim: "trim ''y.org'' = ''y.org''" "trim ''x.org'' = ''x.org''"
  by (simp_all add: trim_eval char_eval)

lemma sample_send_fails:
  "send_raw_inner sample_ob ''bob@y.org'' ''shop@x.org'' ''hi'' sample_sys = (Err ''no'', sample_sys)"
  by (simp add: send_raw_inner_def sign_outgoing_def sender_domain_of_def sample_trim nth_or_def to_lowercase_def char_eval
      on_db_def sample_sys_def get_dkim_key_by_domain_def db_eval sample_defs db_bind_def relay_config_of_def
      sample_ob_def get_config_def unwrap_or_def deliver_mx_def spf_answers_def Let_def)

lemma enqueue_sample:
  "\<exists>s'. enqueue_job ''/m'' ''shop@x.org'' ''bob@y.org'' ''hi'' sample_sys = (Inr ''q0'', s')"
  by (simp add: enqueue_job_def fresh_uuid_def sample_sys_def on_fs_def on_db_def create_dir_all_async_with_permissions_def
      outbound_dir_def empty_fs_def io_bind_def syscall_def io_return_def write_file_async_with_permissions_def fs_write_def
      set_permissions_def store_file_def chmod_def insert_job_def queue_constraints_def no_fault_simps sample_defs
      num_eval Let_def get_job_file_path_def)

theorem enqueue_all_or_nothing_witness:
  "\<exists>s'. enqueue_job ''/m'' ''shop@x.org'' ''bob@y.org'' ''hi'' sample_sys = (Inr ''q0'', s') \<and>
     map qj_status (t_queue (sy_db s')) = [''pending''] \<and>
     files (sy_fs s') ''/m/outbound/q0.eml'' = Some \<lparr>file_bytes = ''hi'', file_mode = mode_0600\<rparr>"
proof -
  from enqueue_sample obtain s' where e: "enqueue_job ''/m'' ''shop@x.org'' ''bob@y.org'' ''hi'' sample_sys = (Inr ''q0'', s')"
    by blast
  have u: "sy_uuids sample_sys (sy_next_uuid sample_sys) = ''q0''" by (simp add: sample_sys_def num_eval)
  have t: "t_queue (sy_db sample_sys) = []" by (simp add: sample_sys_def sample_defs)
  from enqueue_all_or_nothing [OF e] e show ?thesis
    by (simp add: queued_def u t pending_job_def get_job_file_path_def outbound_dir_def)
qed

theorem send_raw_delivers_or_queues_witness:
  "\<exists>s'. send_raw sample_ob ''bob@y.org'' ''shop@x.org'' ''hi'' sample_sys = (Inr (), s') \<and>
     queued ''/m'' ''shop@x.org'' ''bob@y.org'' ''hi'' sample_sys s'"
proof -
  have st: "ob_storage_dir sample_ob = ''/m''" by (simp add: sample_ob_def)
  from enqueue_sample obtain s' where "send_raw sample_ob ''bob@y.org'' ''shop@x.org'' ''hi'' sample_sys = (Inr (), s')"
    by (auto simp: send_raw_def sample_send_fails is_permanent_delivery_error_def st)
  from send_raw_delivers_or_queues [OF this] this show ?thesis
    by (simp add: sample_send_fails is_ok_def st)
qed

end
