(* ===== verification/Outbound_Queue.thy ===== *)
theory Outbound_Queue
  imports Outbound Contracts
begin

text \<open>
  The worker of the outbound queue, \<open>src/src/outbound/queue.rs\<close>: retry times, the processing of one job
  and the tick.  The daemon calls the tick for ever; here a run is a list of attempts, each with the
  connection outcomes it meets and the time that has passed.
\<close>

section \<open>The worker\<close>

definition retry_delay_mins :: "int \<Rightarrow> nat" where
  "retry_delay_mins attempts =
     (let base_delay_mins = (if attempts \<le> 0 then 1 else 2 ^ nat (min (attempts - 1) 10) * 10)
      in min base_delay_mins 1440)"

definition calculate_next_retry :: "time \<Rightarrow> int \<Rightarrow> time" where
  "calculate_next_retry now attempts = now + 60 * int (retry_delay_mins attempts)"

definition hours :: "int \<Rightarrow> time" where "hours n = n * 3600"

definition days :: "int \<Rightarrow> time" where "days n = n * 86400"

definition process_job :: "outbound \<Rightarrow> string \<Rightarrow> queue_job \<Rightarrow> sys \<Rightarrow> sys" where
  "process_job ob storage_dir job s =
     (let i = qj_id job; file_path = get_job_file_path storage_dir i
      in case on_db (update_job_status i ''sending'' (qj_attempts job) (qj_last_error job) (qj_next_retry_at job)) s of
           (Inl _, s) \<Rightarrow> s
         | (Inr _, s) \<Rightarrow> (case on_fs (fs_read file_path) s of
             (Inl _, s) \<Rightarrow> snd (on_db (update_job_status i ''failed'' (qj_attempts job + 1)
                 (Some ''EML file missing from disk storage'') (sy_now s + hours 24)) s)
           | (Inr body_bytes, s) \<Rightarrow>
               (case deliver_once ob (qj_to_recipient job) (qj_from_envelope job) body_bytes s of
                  (Inr _, s) \<Rightarrow> snd (on_fs (remove_file file_path) (snd (on_db (delete_job i) s)))
                | (Inl err_msg, s) \<Rightarrow>
                    (let next_attempt = qj_attempts job + 1
                     in if is_permanent_delivery_error err_msg
                        then snd (on_db (update_job_status i ''failed'' next_attempt (Some err_msg)
                                    (sy_now s + days 365)) s)
                        else if next_attempt \<ge> qj_max_attempts job
                        then snd (on_db (update_job_status i ''failed'' next_attempt (Some err_msg)
                                    (sy_now s + days 365)) s)
                        else snd (on_db (update_job_status i ''pending'' next_attempt (Some err_msg)
                                    (calculate_next_retry (sy_now s) next_attempt)) s)))))"

definition process_queue_tick :: "outbound \<Rightarrow> string \<Rightarrow> sys \<Rightarrow> (sqlx_error + unit) \<times> sys" where
  "process_queue_tick ob storage_dir s =
     (case on_db (fetch_next_retryable_jobs (sy_now s) 10) s of
        (Inl e, s) \<Rightarrow> (Err e, s)
      | (Inr jobs, s) \<Rightarrow>
          if jobs = [] then (Ok (), s)
          else (Ok (), foldl (\<lambda>s job. process_job ob storage_dir job s) s jobs))"

section \<open>Retry times\<close>

lemma retry_delay_closed:
  "retry_delay_mins a = (if a \<le> 0 then 1 else if 9 \<le> a then 1440 else 10 * 2 ^ nat (a - 1))"
proof -
  have big: "1440 \<le> (2 :: nat) ^ n * 10" if "8 \<le> n" for n
  proof -
    have "(2 :: nat) ^ 8 \<le> 2 ^ n" using that by (intro power_increasing) simp_all
    then show ?thesis by simp
  qed
  have small: "(2 :: nat) ^ n * 10 \<le> 1440" if "n < 8" for n
  proof -
    have "(2 :: nat) ^ n \<le> 2 ^ 7" using that by (intro power_increasing) simp_all
    then show ?thesis by simp
  qed
  show ?thesis
  proof (cases "a \<le> 0")
    case False
    show ?thesis
    proof (cases "9 \<le> a")
      case True
      then have "8 \<le> nat (min (a - 1) 10)" by simp
      then have "min (2 ^ nat (min (a - 1) 10) * 10) 1440 = (1440 :: nat)" by (intro min_absorb2 big)
      with True False show ?thesis by (simp add: retry_delay_mins_def Let_def)
    next
      case nine: False
      with False small [of "nat (a - 1)"] show ?thesis
        by (simp add: retry_delay_mins_def Let_def min_def)
    qed
  qed (simp add: retry_delay_mins_def)
qed

text \<open>Retry times back off exponentially and are bounded. The delay is one minute for no attempt, ten
  minutes doubled with each further attempt up to the eighth, and 24 hours from the ninth on; it never
  decreases with the number of attempts, and the next retry is always in the future, at most a day ahead.\<close>
theorem retry_backs_off:
  "retry_delay_mins a = (if a \<le> 0 then 1 else if 9 \<le> a then 1440 else 10 * 2 ^ nat (a - 1)) \<and>
   retry_delay_mins a \<le> retry_delay_mins (a + 1) \<and>
   now < calculate_next_retry now a \<and> calculate_next_retry now a \<le> now + days 1"
proof -
  have le: "retry_delay_mins a \<le> 1440" by (simp add: retry_delay_mins_def Let_def)
  have pos: "0 < retry_delay_mins a" by (simp add: retry_delay_mins_def Let_def)
  have mono: "retry_delay_mins a \<le> retry_delay_mins (a + 1)"
  proof (cases "0 < a \<and> a + 1 < 9")
    case True
    then have "nat (a + 1 - 1) = Suc (nat (a - 1))" by linarith
    then have "2 ^ nat (a - 1) \<le> (2 :: nat) ^ nat (a + 1 - 1)" by simp
    with True show ?thesis unfolding retry_delay_closed by simp
  next
    case False
    then consider "a < 0" | "a = 0" | "8 \<le> a" by linarith
    then show ?thesis
    proof cases
      case 3
      then have "retry_delay_mins (a + 1) = 1440" by (simp add: retry_delay_closed)
      with le show ?thesis by simp
    qed (simp_all add: retry_delay_closed)
  qed
  show ?thesis
    using le pos mono by (simp add: retry_delay_closed [symmetric] calculate_next_retry_def days_def) 
qed

section \<open>Rows another worker holds\<close>

definition keeps_row :: "queue_job \<Rightarrow> db \<Rightarrow> bool" where
  "keeps_row r d = (r \<in> set (t_queue d))"

lemma on_tables_keeps_row: "on_tables (keeps_row r)"
  by (simp add: on_tables_def keeps_row_def)

lemma update_other_row: "i \<noteq> qj_id r \<Longrightarrow> keeps (keeps_row r) (update_job_status i st a e n)"
  unfolding update_job_status_def
  by (intro keeps_exec on_tables_keeps_row) (auto simp: keeps_row_def update_rows_def image_iff intro!: bexI [of _ r])

lemma delete_other_row: "i \<noteq> qj_id r \<Longrightarrow> keeps (keeps_row r) (delete_job i)"
  unfolding delete_job_def by (intro keeps_exec on_tables_keeps_row) (auto simp: keeps_row_def)

lemma on_db_keeps: "keeps P m \<Longrightarrow> P (sy_db s) \<Longrightarrow> P (sy_db (snd (on_db m s)))"
  by (auto simp: on_db_def keepsD split: prod.splits)

lemma on_fs_db [simp]: "sy_db (snd (on_fs m s)) = sy_db s"
  by (simp add: on_fs_def split: prod.splits)

lemma deliver_once_db:
  "on_tables P \<Longrightarrow> P (sy_db s) \<Longrightarrow> deliver_once ob rcpt sender b s = (r, s') \<Longrightarrow> P (sy_db s')"
proof -
  assume P: "on_tables P" "P (sy_db s)" and run: "deliver_once ob rcpt sender b s = (r, s')"
  have "same_tables (sy_db s) (sy_db s')"
    using send_raw_inner_only [of ob rcpt sender b s r s'] run by (simp add: deliver_once_def delivers_only_def)
  then have "P ((sy_db s')\<lparr>db_faults := []\<rparr>) = P ((sy_db s)\<lparr>db_faults := []\<rparr>)"
    by (simp add: same_tables_def)
  with P show ?thesis by (simp add: on_tables_def)
qed

text \<open>A predicate that the queue statements for one id keep is kept by the processing of that job.\<close>

lemma process_job_keeps:
  assumes P: "on_tables P" and u: "\<And>st a e n. keeps P (update_job_status (qj_id job) st a e n)"
    and del: "keeps P (delete_job (qj_id job))" and s: "P (sy_db s)"
  shows "P (sy_db (process_job ob dir job s))"
proof -
  let ?lock = "update_job_status (qj_id job) ''sending'' (qj_attempts job) (qj_last_error job) (qj_next_retry_at job)"
  obtain r1 s1 where 1: "on_db ?lock s = (r1, s1)" by fastforce
  have P1: "P (sy_db s1)" using on_db_keeps [OF u s] 1 by (metis snd_conv)
  obtain r2 s2 where 2: "on_fs (fs_read (get_job_file_path dir (qj_id job))) s1 = (r2, s2)" by fastforce
  have P2: "P (sy_db s2)" using P1 on_fs_db [of "fs_read (get_job_file_path dir (qj_id job))" s1] 2 by simp
  show ?thesis
  proof (cases r1)
    case (Inl e)
    with 1 P1 show ?thesis by (simp add: process_job_def Let_def)
  next
    case (Inr u1)
    show ?thesis
    proof (cases r2)
      case (Inl e)
      with 1 2 Inr on_db_keeps [OF u P2] show ?thesis by (simp add: process_job_def Let_def)
    next
      case (Inr b)
      obtain r3 s3 where 3: "deliver_once ob (qj_to_recipient job) (qj_from_envelope job) b s2 = (r3, s3)" by fastforce
      have P3: "P (sy_db s3)" by (rule deliver_once_db [OF P P2 3])
      show ?thesis
        using 1 2 3 \<open>r1 = Inr u1\<close> Inr on_db_keeps [OF u P3] on_db_keeps [OF del P3]
        by (cases r3) (simp_all add: process_job_def Let_def)
    qed
  qed
qed

lemma fetch_jobs:
  "fetch_next_retryable_jobs now n d = (Inr jobs, d') \<Longrightarrow>
   (\<forall>j \<in> set jobs. j \<in> set (t_queue d) \<and> qj_status j = ''pending'') \<and> t_queue d' = t_queue d"
  by (auto simp: fetch_next_retryable_jobs_def query_def stmt_Ok_iff retryable_def dest!: in_set_takeD)

lemma fetch_tables: "fetch_next_retryable_jobs now n d = (r, d') \<Longrightarrow> same_tables d d'"
  by (auto simp: fetch_next_retryable_jobs_def query_def stmt_def Let_def same_tables_def split: if_splits)

lemma process_jobs_keeps:
  assumes "on_tables P" "\<And>j st a e n. j \<in> set jobs \<Longrightarrow> keeps P (update_job_status (qj_id j) st a e n)"
    "\<And>j. j \<in> set jobs \<Longrightarrow> keeps P (delete_job (qj_id j))" "P (sy_db s)"
  shows "P (sy_db (foldl (\<lambda>s job. process_job ob dir job s) s jobs))"
  using assms(2-4)
proof (induction jobs arbitrary: s)
  case (Cons j jobs)
  have "P (sy_db (process_job ob dir j s))"
    by (rule process_job_keeps [OF assms(1)]) (use Cons.prems in auto)
  with Cons show ?case by simp
qed simp

text \<open>A job in another state than \<open>pending\<close> is never touched again. Whatever the tick does, and whichever
  statement, file or network operation fails, every row that is \<open>sending\<close> or \<open>failed\<close> when it starts is
  there unchanged when it ends: so two workers never process one job at a time, and a job whose worker died
  while it was \<open>sending\<close> is never retried.\<close>
theorem tick_leaves_held_jobs:
  assumes uniq: "uniq qj_id (t_queue (sy_db s))"
    and row: "r \<in> set (t_queue (sy_db s))" "qj_status r \<noteq> ''pending''"
  shows "r \<in> set (t_queue (sy_db (snd (process_queue_tick ob dir s))))"
proof -
  obtain f s1 where f: "on_db (fetch_next_retryable_jobs (sy_now s) 10) s = (f, s1)" by fastforce
  then obtain d1 where d1: "fetch_next_retryable_jobs (sy_now s) 10 (sy_db s) = (f, d1)" "s1 = s\<lparr>sy_db := d1\<rparr>"
    by (auto simp: on_db_def split: prod.splits)
  have same: "t_queue d1 = t_queue (sy_db s)"
    using fetch_tables [OF d1(1)] by (auto simp: same_tables_def dest: arg_cong [where f = t_queue])
  show ?thesis
  proof (cases f)
    case (Inl e)
    with f row same d1 show ?thesis by (simp add: process_queue_tick_def)
  next
    case (Inr jobs)
    have other: "qj_id j \<noteq> qj_id r" if "j \<in> set jobs" for j
    proof
      assume "qj_id j = qj_id r"
      moreover have "j \<in> set (t_queue (sy_db s))" "qj_status j = ''pending''"
        using fetch_jobs [of _ 10 "sy_db s" jobs d1] d1(1) Inr that by auto
      ultimately have "j = r" using uniq row(1) uniq_eq [of qj_id] by metis
      with row(2) \<open>qj_status j = ''pending''\<close> show False by simp
    qed
    have "keeps_row r (sy_db s1)" using row same d1(2) by (simp add: keeps_row_def)
    then have "keeps_row r (sy_db (foldl (\<lambda>s job. process_job ob dir job s) s1 jobs))"
      using process_jobs_keeps [where P = "keeps_row r" and jobs = jobs, OF on_tables_keeps_row
          update_other_row [OF other] delete_other_row [OF other]] by blast
    with f Inr row same d1 show ?thesis by (simp add: process_queue_tick_def keeps_row_def)
  qed
qed

section \<open>What becomes of a job\<close>

text \<open>The specification: what one attempt does to the queue, as a function of how the delivery ended.\<close>

datatype job_outcome = Delivered | FileGone | Refused string

definition set_job :: "uuid \<Rightarrow> string \<Rightarrow> int \<Rightarrow> string option \<Rightarrow> time \<Rightarrow> queue_job list \<Rightarrow> queue_job list" where
  "set_job i status attempts last_error next_retry_at = update_rows (\<lambda>j. qj_id j = i)
     (\<lambda>j. j\<lparr>qj_status := status, qj_attempts := attempts, qj_last_error := last_error,
             qj_next_retry_at := next_retry_at\<rparr>)"

fun queue_after :: "time \<Rightarrow> queue_job \<Rightarrow> job_outcome \<Rightarrow> queue_job list \<Rightarrow> queue_job list" where
  "queue_after now job Delivered q = filter (\<lambda>j. qj_id j \<noteq> qj_id job) q"
| "queue_after now job FileGone q =
     set_job (qj_id job) ''failed'' (qj_attempts job + 1) (Some ''EML file missing from disk storage'') (now + hours 24) q"
| "queue_after now job (Refused e) q =
     (if is_permanent_delivery_error e \<or> qj_max_attempts job \<le> qj_attempts job + 1
      then set_job (qj_id job) ''failed'' (qj_attempts job + 1) (Some e) (now + days 365) q
      else set_job (qj_id job) ''pending'' (qj_attempts job + 1) (Some e) (calculate_next_retry now (qj_attempts job + 1)) q)"

definition held :: "queue_job \<Rightarrow> sys \<Rightarrow> sys" where
  "held job s = s\<lparr>sy_db := (sy_db s)\<lparr>t_queue := set_job (qj_id job) ''sending'' (qj_attempts job)
     (qj_last_error job) (qj_next_retry_at job) (t_queue (sy_db s))\<rparr>\<rparr>"

definition job_outcome_of :: "outbound \<Rightarrow> string \<Rightarrow> queue_job \<Rightarrow> sys \<Rightarrow> job_outcome" where
  "job_outcome_of ob dir job s = (case files (sy_fs s) (get_job_file_path dir (qj_id job)) of
     None \<Rightarrow> FileGone
   | Some f \<Rightarrow> (case fst (deliver_once ob (qj_to_recipient job) (qj_from_envelope job) (file_bytes f) (held job s)) of
       Inr _ \<Rightarrow> Delivered | Inl e \<Rightarrow> Refused e))"

definition quiet :: "sys \<Rightarrow> bool" where
  "quiet s = (db_faults (sy_db s) = [] \<and> io_faults (sy_fs s) = [])"

lemma set_job_twice: "set_job i st a e n (set_job i st' a' e' n' q) = set_job i st a e n q"
  by (simp add: set_job_def update_rows_def)

lemma filter_set_job: "filter (\<lambda>j. qj_id j \<noteq> i) (set_job i st a e n q) = filter (\<lambda>j. qj_id j \<noteq> i) q"
  by (induction q) (simp_all add: set_job_def update_rows_def)

lemma on_db_update_quiet:
  "db_faults (sy_db s) = [] \<Longrightarrow> on_db (update_job_status i st a e n) s =
   (Ok (), s\<lparr>sy_db := (sy_db s)\<lparr>t_queue := set_job i st a e n (t_queue (sy_db s))\<rparr>\<rparr>)"
  by (simp add: on_db_def update_job_status_def no_fault_simps set_job_def)

lemma on_db_delete_quiet:
  "db_faults (sy_db s) = [] \<Longrightarrow> on_db (delete_job i) s =
   (Ok (), s\<lparr>sy_db := (sy_db s)\<lparr>t_queue := filter (\<lambda>j. qj_id j \<noteq> i) (t_queue (sy_db s))\<rparr>\<rparr>)"
  by (simp add: on_db_def delete_job_def no_fault_simps)

lemma on_fs_read_quiet:
  "io_faults (sy_fs s) = [] \<Longrightarrow> on_fs (fs_read p) s =
   (case files (sy_fs s) p of None \<Rightarrow> (Err NotFound, s) | Some f \<Rightarrow> (Ok (file_bytes f), s))"
  by (simp add: on_fs_def fs_read_def syscall_eq split: option.split)

lemma on_fs_remove_quiet:
  "io_faults (sy_fs s) = [] \<Longrightarrow> files (sy_fs s) p = Some f \<Longrightarrow> on_fs (remove_file p) s =
   (Ok (), s\<lparr>sy_fs := (sy_fs s)\<lparr>files := (files (sy_fs s))(p := None)\<rparr>\<rparr>)"
  by (simp add: on_fs_def remove_file_def syscall_eq)

lemma with_connection_db: "sy_db (snd (with_connection host port session s)) = sy_db s"
  by (auto simp: with_connection_def tcp_connect_def split: list.splits prod.splits sum.splits)

lemma deliver_mx_db: "sy_db (snd (deliver_mx ob rcpt sender body s)) = sy_db s"
  by (auto simp: deliver_mx_def with_connection_db split: list.splits sum.splits option.splits)

lemma sign_outgoing_db:
  "db_faults (sy_db (snd (sign_outgoing ob sender body s))) = tl (db_faults (sy_db s))"
proof -
  let ?m = "get_dkim_key_by_domain (ob_cipher ob) (get_config (ob_env ob) ''DB_ENCRYPTION_KEY'' []) (sender_domain_of sender)"
  obtain r d where g: "?m (sy_db s) = (r, d)" by fastforce
  then have "snd (sign_outgoing ob sender body s) = s\<lparr>sy_db := d\<rparr>"
    by (auto simp: sign_outgoing_def on_db_def Let_def split: sum.splits option.splits prod.splits)
  with get_dkim_key_reads [OF g] show ?thesis by simp
qed

lemma deliver_once_no_fault:
  "db_faults (sy_db s) = [] \<Longrightarrow> deliver_once ob rcpt sender b s = (r, s') \<Longrightarrow> db_faults (sy_db s') = []"
proof -
  assume q: "db_faults (sy_db s) = []" and run: "deliver_once ob rcpt sender b s = (r, s')"
  obtain b1 s1 where s: "sign_outgoing ob sender b s = (b1, s1)" by fastforce
  have "db_faults (sy_db s1) = []" using sign_outgoing_db [of ob sender b s] s q by simp
  moreover have "sy_db s' = sy_db s1"
  proof (cases "relay_config_of ob")
    case None
    with run s deliver_mx_db [of ob rcpt sender b1 s1] show ?thesis by (simp add: deliver_once_def send_raw_inner_def)
  next
    case (Some config)
    with run s with_connection_db show ?thesis
      by (simp add: deliver_once_def send_raw_inner_def) (metis snd_conv)
  qed
  ultimately show ?thesis by simp
qed

lemma deliver_once_quiet:
  "quiet s \<Longrightarrow> deliver_once ob rcpt sender b s = (r, s') \<Longrightarrow>
   sy_db s' = sy_db s \<and> sy_fs s' = sy_fs s \<and> sy_now s' = sy_now s"
proof -
  assume q: "quiet s" and run: "deliver_once ob rcpt sender b s = (r, s')"
  have only: "delivers_only s s'"
    using send_raw_inner_only [of ob rcpt sender b s r s'] run by (simp add: deliver_once_def)
  have "db_faults (sy_db s') = []" by (rule deliver_once_no_fault [OF _ run]) (use q in \<open>simp add: quiet_def\<close>)
  then have "sy_db s' = (sy_db s')\<lparr>db_faults := []\<rparr>" by (cases "sy_db s'") simp
  also have "\<dots> = (sy_db s)\<lparr>db_faults := []\<rparr>" using only by (simp add: delivers_only_def same_tables_def)
  also have "\<dots> = sy_db s" using q by (cases "sy_db s") (simp add: quiet_def)
  finally show ?thesis using only by (simp add: delivers_only_def)
qed

lemma queue_job_spec:
  assumes q: "quiet s"
  shows "t_queue (sy_db (process_job ob dir job s)) = queue_after (sy_now s) job (job_outcome_of ob dir job s) (t_queue (sy_db s)) \<and>
    files (sy_fs (process_job ob dir job s)) = (if job_outcome_of ob dir job s = Delivered
      then (files (sy_fs s))(get_job_file_path dir (qj_id job) := None) else files (sy_fs s)) \<and>
    quiet (process_job ob dir job s) \<and> sy_now (process_job ob dir job s) = sy_now s"
proof -
  let ?path = "get_job_file_path dir (qj_id job)"
  have h: "on_db (update_job_status (qj_id job) ''sending'' (qj_attempts job) (qj_last_error job) (qj_next_retry_at job)) s
      = (Ok (), held job s)" "quiet (held job s)"
    using q by (simp_all add: quiet_def on_db_update_quiet held_def)
  have held: "files (sy_fs (held job s)) = files (sy_fs s)" "sy_now (held job s) = sy_now s"
    "io_faults (sy_fs (held job s)) = []" "db_faults (sy_db (held job s)) = []"
    "t_queue (sy_db (held job s)) = set_job (qj_id job) ''sending'' (qj_attempts job) (qj_last_error job)
       (qj_next_retry_at job) (t_queue (sy_db s))"
    using q by (simp_all add: quiet_def held_def)
  show ?thesis
  proof (cases "files (sy_fs s) ?path")
    case None
    then show ?thesis using held
      by (simp add: process_job_def h on_fs_read_quiet on_db_update_quiet job_outcome_of_def set_job_twice quiet_def)
  next
    case (Some f)
    obtain r s1 where d: "deliver_once ob (qj_to_recipient job) (qj_from_envelope job) (file_bytes f) (held job s) = (r, s1)"
      by fastforce
    have s1: "sy_db s1 = sy_db (held job s)" "sy_fs s1 = sy_fs (held job s)" "sy_now s1 = sy_now (held job s)"
      using deliver_once_quiet [OF h(2) d] by simp_all
    have path: "files (sy_fs (held job s)) ?path = Some f" using Some held by simp
    show ?thesis
      using Some d s1 held path
      by (cases r) (simp_all add: process_job_def h on_fs_read_quiet on_db_update_quiet on_db_delete_quiet
          on_fs_remove_quiet job_outcome_of_def set_job_twice filter_set_job quiet_def Let_def)
  qed
qed

text \<open>C5: One attempt implements the specification of the queue. With no failing statement or file
  operation, processing a job leaves the queue the specification asks for: the row and its file go when the
  mail was accepted; the row is \<open>failed\<close> when the file is gone, the refusal is permanent or the attempts are
  used up; otherwise it is \<open>pending\<close> again with one more attempt, its error, and its back-off time.\<close>
theorem queue_job_outcome:
  assumes q: "quiet s"
  shows "let oc = job_outcome_of ob dir job s; s' = process_job ob dir job s; path = get_job_file_path dir (qj_id job)
    in t_queue (sy_db s') = queue_after (sy_now s) job oc (t_queue (sy_db s)) \<and>
       files (sy_fs s') = (if oc = Delivered then (files (sy_fs s))(path := None) else files (sy_fs s)) \<and>
       quiet s' \<and> sy_now s' = sy_now s"
  unfolding Let_def by (rule queue_job_spec [OF q])

section \<open>The queue drains\<close>

text \<open>What is left to do for a row: its remaining attempts while it is pending.\<close>

definition job_work :: "queue_job \<Rightarrow> nat" where
  "job_work j = (if qj_status j = ''pending'' then Suc (nat (qj_max_attempts j - qj_attempts j - 1)) else 0)"

definition queue_work :: "sys \<Rightarrow> nat" where
  "queue_work s = sum_list (map job_work (t_queue (sy_db s)))"

definition queue_ready :: "sys \<Rightarrow> bool" where
  "queue_ready s = (quiet s \<and> uniq qj_id (t_queue (sy_db s)))"

text \<open>One waking of the daemon: by then the first pending row is due, and the network answers as it likes.\<close>

definition wake_time :: "sys \<Rightarrow> time" where
  "wake_time s = (case sort_key qj_next_retry_at (filter (\<lambda>j. qj_status j = ''pending'') (t_queue (sy_db s))) of
     [] \<Rightarrow> sy_now s | j # _ \<Rightarrow> max (sy_now s) (qj_next_retry_at j))"

definition daemon_step :: "outbound \<Rightarrow> string \<Rightarrow> sys \<Rightarrow> (string + conn) list \<times> nat \<Rightarrow> sys" where
  "daemon_step ob dir s i = snd (process_queue_tick ob dir
     (s\<lparr>sy_connects := fst i, sy_now := wake_time s + int (snd i)\<rparr>))"

lemma set_job_ids: "map qj_id (set_job i st a e n q) = map qj_id q"
  by (simp add: set_job_def map_update_rows)

lemma queue_after_uniq: "uniq qj_id q \<Longrightarrow> uniq qj_id (queue_after now job oc q)"
  by (cases oc) (auto simp: uniq_def set_job_ids distinct_map_filter)

lemma queue_after_other:
  "r \<in> set q \<Longrightarrow> qj_id r \<noteq> qj_id job \<Longrightarrow> r \<in> set (queue_after now job oc q)"
  by (cases oc) (auto simp: set_job_def update_rows_def image_iff intro!: bexI [of _ r])

lemma queue_after_work:
  assumes "uniq qj_id q" "job \<in> set q" "qj_status job = ''pending''"
  shows "sum_list (map job_work (queue_after now job oc q)) < sum_list (map job_work q)"
  using assms(1,2)
proof (induction q)
  case (Cons r q)
  have absent: "set_job (qj_id job) st a e n q = q" "filter (\<lambda>j. qj_id j \<noteq> qj_id job) q = q"
    if "qj_id job \<notin> qj_id ` set q" for st a e n
  proof -
    have "qj_id x \<noteq> qj_id job" if "x \<in> set q" for x
      using \<open>qj_id job \<notin> qj_id ` set q\<close> that by (metis imageI)
    then show "set_job (qj_id job) st a e n q = q" "filter (\<lambda>j. qj_id j \<noteq> qj_id job) q = q"
      by (simp_all add: set_job_def update_rows_def map_idI)
  qed
  have step: "queue_after now job oc (r # q) = queue_after now job oc [r] @ queue_after now job oc q"
    by (cases oc) (simp_all add: set_job_def update_rows_def)
  have pos: "0 < job_work job" using assms(3) by (simp add: job_work_def)
  show ?case
  proof (cases "r = job")
    case True
    have "qj_id job \<notin> qj_id ` set q" using Cons.prems(1) True by (simp add: uniq_def)
    then have "queue_after now job oc q = q" by (cases oc) (simp_all add: absent)
    moreover have "sum_list (map job_work (queue_after now job oc [job])) < job_work job"
      using pos assms(3) by (cases oc) (simp_all add: set_job_def update_rows_def job_work_def)
    ultimately show ?thesis unfolding step by (simp add: True)
  next
    case False
    with Cons.prems have "job \<in> set q" "uniq qj_id q" "qj_id r \<noteq> qj_id job" by (auto simp: uniq_def)
    moreover have "queue_after now job oc [r] = [r]"
      using \<open>qj_id r \<noteq> qj_id job\<close> by (cases oc) (simp_all add: set_job_def update_rows_def)
    ultimately show ?thesis using Cons.IH unfolding step by simp
  qed
qed simp

lemma process_job_ready:
  assumes "queue_ready s" "job \<in> set (t_queue (sy_db s))" "qj_status job = ''pending''"
  shows "queue_ready (process_job ob dir job s)" "queue_work (process_job ob dir job s) < queue_work s"
    "r \<in> set (t_queue (sy_db s)) \<Longrightarrow> qj_id r \<noteq> qj_id job \<Longrightarrow> r \<in> set (t_queue (sy_db (process_job ob dir job s)))"
proof -
  have q: "quiet s" "uniq qj_id (t_queue (sy_db s))" using assms(1) by (simp_all add: queue_ready_def)
  note o = queue_job_spec [OF q(1), where job = job and ob = ob and dir = dir]
  show "queue_ready (process_job ob dir job s)" using o q(2) by (simp add: queue_ready_def queue_after_uniq)
  show "queue_work (process_job ob dir job s) < queue_work s"
    using o queue_after_work [OF q(2) assms(2,3)] by (simp add: queue_work_def)
  show "r \<in> set (t_queue (sy_db s)) \<Longrightarrow> qj_id r \<noteq> qj_id job \<Longrightarrow> r \<in> set (t_queue (sy_db (process_job ob dir job s)))"
    using o by (simp add: queue_after_other)
qed

lemma process_jobs_ready:
  assumes "queue_ready s" "distinct (map qj_id jobs)"
    "\<And>j. j \<in> set jobs \<Longrightarrow> j \<in> set (t_queue (sy_db s)) \<and> qj_status j = ''pending''"
  shows "queue_ready (foldl (\<lambda>s job. process_job ob dir job s) s jobs) \<and>
    queue_work (foldl (\<lambda>s job. process_job ob dir job s) s jobs) + length jobs \<le> queue_work s"
  using assms
proof (induction jobs arbitrary: s)
  case (Cons j jobs)
  have j: "j \<in> set (t_queue (sy_db s))" "qj_status j = ''pending''" using Cons.prems(3) [of j] by simp_all
  note step = process_job_ready [OF Cons.prems(1) j, where ob = ob and dir = dir]
  have "k \<in> set (t_queue (sy_db (process_job ob dir j s))) \<and> qj_status k = ''pending''" if "k \<in> set jobs" for k
    using step(3) [of k] Cons.prems(2,3) that by (auto simp: image_iff)
  with Cons.IH [OF step(1)] Cons.prems(2) step(2) show ?case by simp
qed simp

lemma pending_due:
  assumes "queue_ready s" "queue_work s \<noteq> 0"
  shows "filter (retryable (wake_time s + int w)) (t_queue (sy_db s)) \<noteq> []"
proof -
  let ?p = "filter (\<lambda>j. qj_status j = ''pending'') (t_queue (sy_db s))"
  have "\<exists>j \<in> set (t_queue (sy_db s)). job_work j \<noteq> 0"
    using assms(2) by (auto simp: queue_work_def)
  then have "?p \<noteq> []" by (auto simp: job_work_def filter_empty_conv split: if_splits)
  then obtain j js where j: "sort_key qj_next_retry_at ?p = j # js"
    by (metis list.exhaust set_empty set_sort)
  then have "j \<in> set ?p" by (metis list.set_intros(1) set_sort)
  moreover have "qj_next_retry_at j \<le> wake_time s + int w" using j by (simp add: wake_time_def)
  ultimately show ?thesis by (auto simp: filter_empty_conv retryable_def)
qed

lemma distinct_map_sort_filter: "distinct (map f q) \<Longrightarrow> distinct (map f (sort_key g (filter P q)))"
  by (auto simp: distinct_map intro: inj_on_subset)

lemma daemon_step_works:
  assumes "queue_ready s"
  shows "queue_ready (daemon_step ob dir s i)" "queue_work (daemon_step ob dir s i) \<le> queue_work s - 1"
proof -
  let ?s = "s\<lparr>sy_connects := fst i, sy_now := wake_time s + int (snd i)\<rparr>"
  let ?jobs = "take 10 (sort_key qj_next_retry_at (filter (retryable (sy_now ?s)) (t_queue (sy_db s))))"
  have ready: "queue_ready ?s" "queue_work ?s = queue_work s"
    using assms by (simp_all add: queue_ready_def queue_work_def quiet_def)
  have step: "daemon_step ob dir s i = foldl (\<lambda>s job. process_job ob dir job s) ?s ?jobs"
    using assms by (simp add: daemon_step_def process_queue_tick_def fetch_next_retryable_jobs_def on_db_def no_fault_simps
        queue_ready_def quiet_def)
  have dist: "distinct (map qj_id ?jobs)"
    unfolding take_map [symmetric] by (rule distinct_take) (use assms in \<open>simp add: queue_ready_def uniq_def distinct_map_sort_filter\<close>)
  have pend: "j \<in> set (t_queue (sy_db ?s)) \<and> qj_status j = ''pending''" if "j \<in> set ?jobs" for j
    using in_set_takeD [OF that] by (simp add: retryable_def)
  have "queue_ready (daemon_step ob dir s i) \<and> queue_work (daemon_step ob dir s i) + length ?jobs \<le> queue_work s"
    unfolding step using process_jobs_ready [OF ready(1) dist pend] unfolding ready(2) by blast
  moreover have "0 < length ?jobs" if "queue_work s \<noteq> 0"
    using pending_due [OF assms that, of "snd i"] by simp
  ultimately show "queue_ready (daemon_step ob dir s i)" "queue_work (daemon_step ob dir s i) \<le> queue_work s - 1"
    by linarith+
qed

interpretation queue_daemon: ranked_machine "daemon_step ob dir" queue_ready queue_work for ob dir
  by unfold_locales (rule daemon_step_works; assumption)+

text \<open>C6: Every queued mail comes to an end. With no failing statement or file operation, and whatever the
  network answers, after as many wakings of the daemon as there are attempts left in the queue no row is
  pending: each mail was delivered and removed, or stands as \<open>failed\<close>.  A waking finds the first pending
  row due, any time later.\<close>
theorem queue_drains:
  assumes "queue_ready s" "queue_work s \<le> length wakings"
  shows "filter (\<lambda>j. qj_status j = ''pending'') (t_queue (sy_db (run_steps (daemon_step ob dir) s wakings))) = []"
proof -
  have "queue_work (run_steps (daemon_step ob dir) s wakings) = 0"
    by (rule queue_daemon.run_ends [OF assms])
  then show ?thesis by (auto simp: queue_work_def job_work_def filter_empty_conv split: if_splits)
qed

section \<open>Witnesses\<close>

definition sample_job :: "string \<Rightarrow> queue_job" where
  "sample_job status = (pending_job 100 ''j'' ''shop@x.org'' ''bob@y.org'')\<lparr>qj_status := status, qj_attempts := 8\<rparr>"

definition sample_queue :: "string \<Rightarrow> sys" where
  "sample_queue status = sample_sys\<lparr>sy_db := (sy_db sample_sys)\<lparr>t_queue := [sample_job status]\<rparr>\<rparr>"

lemma sample_queue_quiet: "quiet (sample_queue st)" "queue_ready (sample_queue st)"
  "t_queue (sy_db (sample_queue st)) = [sample_job st]"
  by (simp_all add: quiet_def queue_ready_def sample_queue_def sample_sys_def sample_defs empty_fs_def uniq_def)

theorem tick_leaves_held_jobs_witness:
  "sample_job ''sending'' \<in> set (t_queue (sy_db (snd (process_queue_tick sample_ob ''/m'' (sample_queue ''sending'')))))"
  by (rule tick_leaves_held_jobs) (simp_all add: sample_queue_quiet uniq_def sample_job_def)

theorem queue_job_outcome_witness:
  "t_queue (sy_db (process_job sample_ob ''/m'' (sample_job ''pending'') (sample_queue ''pending''))) =
     [(sample_job ''failed'')\<lparr>qj_attempts := 9, qj_last_error := Some ''EML file missing from disk storage'',
        qj_next_retry_at := 100 + 86400\<rparr>]"
proof -
  have "files (sy_fs (sample_queue st)) = (\<lambda>_. None)" "sy_now (sample_queue st) = 100" for st
    by (simp_all add: sample_queue_def sample_sys_def empty_fs_def)
  with queue_job_outcome [OF sample_queue_quiet(1) [of "''pending''"], of sample_ob "''/m''" "sample_job ''pending''"]
  show ?thesis
    by (simp add: job_outcome_of_def sample_queue_quiet set_job_def update_rows_def sample_job_def pending_job_def
        hours_def Let_def)
qed

theorem queue_drains_witness:
  "queue_work (sample_queue ''pending'') = 2 \<and>
   filter (\<lambda>j. qj_status j = ''pending'') (t_queue (sy_db
     (run_steps (daemon_step sample_ob ''/m'') (sample_queue ''pending'') [([], 0), ([], 60)]))) = []"
proof
  show w: "queue_work (sample_queue ''pending'') = 2"
    by (simp add: queue_work_def sample_queue_quiet job_work_def sample_job_def pending_job_def)
  show "filter (\<lambda>j. qj_status j = ''pending'') (t_queue (sy_db
     (run_steps (daemon_step sample_ob ''/m'') (sample_queue ''pending'') [([], 0), ([], 60)]))) = []"
    by (rule queue_drains) (simp_all add: sample_queue_quiet w)
qed

end
