(* ===== verification/Db_Labels.thy ===== *)
theory Db_Labels
  imports Db_Accounts "HOL-Library.List_Lexorder" "HOL-Library.Char_ord"
begin

text \<open>
  Labels, filters and the labels of mails: \<open>src/src/db/labels.rs\<close>.  \<open>ORDER BY name\<close> is the byte order of
  SQLite; the two back ends send the same statements up to their spelling, except the two inserts that
  read their row back on SQLite.
\<close>

section \<open>Labels\<close>

definition get_labels_by_user :: "uuid \<Rightarrow> label_row list dbm" where
  "get_labels_by_user user_id = query (\<lambda>d. sort_key lb_name (filter (\<lambda>l. lb_user_id l = user_id) (t_labels d)))"

definition get_label_by_id :: "uuid \<Rightarrow> uuid \<Rightarrow> label_row option dbm" where
  "get_label_by_id label_id user_id = query_optional (\<lambda>d.
     filter (\<lambda>l. lb_id l = label_id \<and> lb_user_id l = user_id) (t_labels d))"

definition get_label_by_name :: "uuid \<Rightarrow> string \<Rightarrow> label_row option dbm" where
  "get_label_by_name user_id name = query_optional (\<lambda>d.
     filter (\<lambda>l. lb_user_id l = user_id \<and> to_lowercase (lb_name l) = to_lowercase name) (t_labels d))"

definition add_label :: "label_row \<Rightarrow> db \<Rightarrow> db" where
  "add_label l d = d\<lparr>t_labels := t_labels d @ [l]\<rparr>"

definition insert_label :: "uuid \<Rightarrow> time \<Rightarrow> uuid \<Rightarrow> string \<Rightarrow> string \<Rightarrow> label_row dbm" where
  "insert_label fresh now user_id name color =
     (let l = \<lparr>lb_id = fresh, lb_user_id = user_id, lb_name = name, lb_color = color, lb_created_at = now\<rparr>
      in (\<lambda>d. case backend d of
           Postgres \<Rightarrow> insert_stmt (label_constraints l) (add_label l) (\<lambda>_. l) d
         | Sqlite \<Rightarrow> db_bind (insert_stmt (label_constraints l) (add_label l) (\<lambda>_. ())) (\<lambda>_.
             query_one (\<lambda>d. filter (\<lambda>r. lb_id r = fresh) (t_labels d))) d))"

text \<open>The update of a name meets the unique key \<open>(user_id, name)\<close>.\<close>

definition update_label :: "uuid \<Rightarrow> uuid \<Rightarrow> string \<Rightarrow> string \<Rightarrow> bool dbm" where
  "update_label label_id user_id name color = stmt (\<lambda>d.
     let hit = (\<lambda>l. lb_id l = label_id \<and> lb_user_id l = user_id)
     in if \<not> list_ex hit (t_labels d) then Inr (False, d)
        else if list_ex (\<lambda>l. \<not> hit l \<and> lb_user_id l = user_id \<and> lb_name l = name) (t_labels d)
        then Inl UniqueViolation
        else Inr (True, d\<lparr>t_labels := update_rows hit (\<lambda>l. l\<lparr>lb_name := name, lb_color := color\<rparr>) (t_labels d)\<rparr>))"

definition delete_label :: "uuid \<Rightarrow> uuid \<Rightarrow> bool dbm" where
  "delete_label label_id user_id = stmt (\<lambda>d.
     let hit = filter (\<lambda>l. lb_id l = label_id \<and> lb_user_id l = user_id) (t_labels d)
     in Inr (hit \<noteq> [], purge_labels (map lb_id hit) d))"

section \<open>Filters\<close>

record email_filter_with_label =
  fw_id :: uuid
  fw_user_id :: uuid
  fw_keyword :: string
  fw_label_id :: uuid
  fw_label_name :: string
  fw_label_color :: string
  fw_created_at :: time

definition filter_views :: "db \<Rightarrow> filter_row \<Rightarrow> email_filter_with_label list" where
  "filter_views d f = map (\<lambda>l.
     \<lparr>fw_id = fl_id f, fw_user_id = fl_user_id f, fw_keyword = fl_keyword f, fw_label_id = fl_label_id f,
      fw_label_name = lb_name l, fw_label_color = lb_color l, fw_created_at = fl_created_at f\<rparr>)
     (filter (\<lambda>l. lb_id l = fl_label_id f) (t_labels d))"

definition get_filters_by_user :: "uuid \<Rightarrow> email_filter_with_label list dbm" where
  "get_filters_by_user user_id = query (\<lambda>d. sort_key (\<lambda>f. - fw_created_at f)
     (concat (map (filter_views d) (filter (\<lambda>f. fl_user_id f = user_id) (t_filters d)))))"

definition add_filter :: "filter_row \<Rightarrow> db \<Rightarrow> db" where
  "add_filter f d = d\<lparr>t_filters := t_filters d @ [f]\<rparr>"

definition insert_filter :: "uuid \<Rightarrow> time \<Rightarrow> uuid \<Rightarrow> string \<Rightarrow> uuid \<Rightarrow> filter_row dbm" where
  "insert_filter fresh now user_id keyword label_id =
     (let f = \<lparr>fl_id = fresh, fl_user_id = user_id, fl_keyword = keyword, fl_label_id = label_id, fl_created_at = now\<rparr>
      in (\<lambda>d. case backend d of
           Postgres \<Rightarrow> insert_stmt (filter_constraints f) (add_filter f) (\<lambda>_. f) d
         | Sqlite \<Rightarrow> db_bind (insert_stmt (filter_constraints f) (add_filter f) (\<lambda>_. ())) (\<lambda>_.
             query_one (\<lambda>d. filter (\<lambda>r. fl_id r = fresh) (t_filters d))) d))"

definition delete_filter :: "uuid \<Rightarrow> uuid \<Rightarrow> bool dbm" where
  "delete_filter filter_id user_id = stmt (\<lambda>d.
     let hit = (\<lambda>f. fl_id f = filter_id \<and> fl_user_id f = user_id)
     in Inr (list_ex hit (t_filters d), d\<lparr>t_filters := filter (\<lambda>f. \<not> hit f) (t_filters d)\<rparr>))"

definition get_filters_for_engine :: "uuid \<Rightarrow> (string \<times> uuid) list dbm" where
  "get_filters_for_engine user_id = query (\<lambda>d.
     map (\<lambda>f. (fl_keyword f, fl_label_id f)) (filter (\<lambda>f. fl_user_id f = user_id) (t_filters d)))"

section \<open>Labels of mails\<close>

definition insert_email_label :: "time \<Rightarrow> uuid \<Rightarrow> uuid \<Rightarrow> unit dbm" where
  "insert_email_label now email_id label_id =
     (let r = \<lparr>el_email_id = email_id, el_label_id = label_id, el_created_at = now\<rparr>
      in insert_stmt (email_label_constraints r) (add_email_label r) (\<lambda>_. ()))"

fun insert_each :: "('a \<Rightarrow> unit dbm) \<Rightarrow> 'a list \<Rightarrow> unit dbm" where
  "insert_each ins [] = db_return ()"
| "insert_each ins (x # xs) = db_bind (ins x) (\<lambda>_. insert_each ins xs)"

definition assign_labels_to_email :: "time \<Rightarrow> uuid \<Rightarrow> uuid list \<Rightarrow> unit dbm" where
  "assign_labels_to_email now email_id label_ids =
     (if label_ids = [] then db_return () else insert_each (insert_email_label now email_id) label_ids)"

definition batch_assign_label_to_emails :: "time \<Rightarrow> uuid list \<Rightarrow> uuid \<Rightarrow> unit dbm" where
  "batch_assign_label_to_emails now email_ids label_id =
     (if email_ids = [] then db_return () else insert_each (\<lambda>e. insert_email_label now e label_id) email_ids)"

definition remove_label_from_email :: "uuid \<Rightarrow> uuid \<Rightarrow> bool dbm" where
  "remove_label_from_email email_id label_id = stmt (\<lambda>d.
     let hit = (\<lambda>e. el_email_id e = email_id \<and> el_label_id e = label_id)
     in Inr (list_ex hit (t_email_labels d), d\<lparr>t_email_labels := filter (\<lambda>e. \<not> hit e) (t_email_labels d)\<rparr>))"

definition labels_of :: "db \<Rightarrow> email_label_row \<Rightarrow> label_row list" where
  "labels_of d e = filter (\<lambda>l. lb_id l = el_label_id e) (t_labels d)"

definition get_labels_for_email :: "uuid \<Rightarrow> label_row list dbm" where
  "get_labels_for_email email_id = query (\<lambda>d. sort_key lb_name
     (concat (map (labels_of d) (filter (\<lambda>e. el_email_id e = email_id) (t_email_labels d)))))"

definition email_label_rows :: "db \<Rightarrow> uuid list \<Rightarrow> (uuid \<times> label_row) list" where
  "email_label_rows d email_ids = sort_key (\<lambda>r. lb_name (snd r))
     (concat (map (\<lambda>e. map (Pair (el_email_id e)) (labels_of d e))
       (filter (\<lambda>e. el_email_id e \<in> set email_ids) (t_email_labels d))))"

definition push_label :: "(uuid \<Rightarrow> label_row list option) \<Rightarrow> uuid \<times> label_row \<Rightarrow> (uuid \<Rightarrow> label_row list option)" where
  "push_label m r = m(fst r := Some (unwrap_or [] (m (fst r)) @ [snd r]))"

definition get_labels_for_emails :: "uuid list \<Rightarrow> (uuid \<Rightarrow> label_row list option) dbm" where
  "get_labels_for_emails email_ids =
     (if email_ids = [] then db_return (\<lambda>_. None)
      else db_bind (query (\<lambda>d. email_label_rows d email_ids)) (\<lambda>rows.
        db_return (foldl push_label (\<lambda>_. None) rows)))"

text \<open>The join with \<open>aliases\<close> and the \<open>NOT EXISTS\<close>.\<close>

definition unlabeled :: "db \<Rightarrow> uuid \<Rightarrow> uuid \<Rightarrow> email_row list" where
  "unlabeled d user_id label_id = sort_key (\<lambda>e. - re_received_at e)
     (filter (\<lambda>e. owned_by d user_id e \<and> \<not> labelled d (re_id e) label_id) (t_emails d))"

definition get_unlabeled_emails_for_user :: "uuid \<Rightarrow> uuid \<Rightarrow> nat \<Rightarrow> nat \<Rightarrow> (uuid \<times> uuid) list dbm" where
  "get_unlabeled_emails_for_user user_id label_id limit offset = query (\<lambda>d.
     map (\<lambda>e. (re_id e, re_body_key e)) (page limit offset (unlabeled d user_id label_id)))"

section \<open>Integrity\<close>

lemma wf_update_label:
  assumes wf: "db_wf d" and free: "\<not> list_ex (\<lambda>l. \<not> (lb_id l = i \<and> lb_user_id l = u) \<and> lb_user_id l = u \<and> lb_name l = n) (t_labels d)"
  shows "db_wf (d\<lparr>t_labels := update_rows (\<lambda>l. lb_id l = i \<and> lb_user_id l = u) (\<lambda>l. l\<lparr>lb_name := n, lb_color := c\<rparr>) (t_labels d)\<rparr>)"
proof -
  have k: "uniq lb_id (t_labels d)" "uniq (\<lambda>l. (lb_user_id l, lb_name l)) (t_labels d)" using wf by (simp_all add: wf_defs)
  have "uniq (\<lambda>l. (lb_user_id l, lb_name l)) (update_rows (\<lambda>l. lb_id l = i \<and> lb_user_id l = u) (\<lambda>l. l\<lparr>lb_name := n, lb_color := c\<rparr>) (t_labels d))"
    using k free
  proof (induction "t_labels d" arbitrary: d)
    case (Cons l ls)
    have d: "ls = t_labels (d\<lparr>t_labels := ls\<rparr>)" by simp
    from Cons.hyps(2) have t: "t_labels d = l # ls" by simp
    have IH: "uniq (\<lambda>l. (lb_user_id l, lb_name l)) (update_rows (\<lambda>l. lb_id l = i \<and> lb_user_id l = u) (\<lambda>l. l\<lparr>lb_name := n, lb_color := c\<rparr>) ls)"
      using Cons.hyps(1) [OF d] Cons.prems unfolding t by (auto simp: uniq_def)
    with Cons.prems show ?case unfolding t by (auto simp: uniq_def update_rows_def list_ex_iff image_iff)
  qed (simp add: update_rows_def)
  with wf show ?thesis by (simp add: wf_defs)
qed

lemma keeps_insert_each [keeps_rules]: "(\<And>x. keeps P (ins x)) \<Longrightarrow> keeps P (insert_each ins xs)"
  by (induction xs) (auto intro!: keeps_rules)

lemma keeps_insert_email_label [keeps_rules]: "keeps db_wf (insert_email_label now e l)"
  unfolding insert_email_label_def Let_def by (intro keeps_rules) (simp_all add: wf_insert_email_label)

lemma keeps_labels:
  "keeps db_wf (insert_label fresh now u n c)" "keeps db_wf (update_label i u n c)" "keeps db_wf (delete_label i u)"
  "keeps db_wf (insert_filter fresh now u k i)" "keeps db_wf (delete_filter i u)"
  "keeps db_wf (assign_labels_to_email now e is)" "keeps db_wf (batch_assign_label_to_emails now es i)"
  "keeps db_wf (remove_label_from_email e i)"
proof -
  show "keeps db_wf (insert_label fresh now u n c)"
    unfolding insert_label_def Let_def add_label_def
    by (rule keeps_backend_fun) (intro keeps_rules; simp add: wf_insert_label)+
  show "keeps db_wf (insert_filter fresh now u k i)"
    unfolding insert_filter_def Let_def add_filter_def
    by (rule keeps_backend_fun) (intro keeps_rules; simp add: wf_insert_filter)+
  show "keeps db_wf (update_label i u n c)"
    unfolding update_label_def Let_def
    by (rule keeps_stmt) (auto simp: wf_update_label split: if_splits)
  show "keeps db_wf (delete_label i u)"
    unfolding delete_label_def Let_def by (rule keeps_stmt) (auto simp: wf_purge_labels)
  show "keeps db_wf (delete_filter i u)"
    unfolding delete_filter_def Let_def by (rule keeps_stmt) (auto simp: wf_defs)
  show "keeps db_wf (assign_labels_to_email now e is)"
    unfolding assign_labels_to_email_def by (intro keeps_rules)
  show "keeps db_wf (batch_assign_label_to_emails now es i)"
    unfolding batch_assign_label_to_emails_def by (intro keeps_rules)
  show "keeps db_wf (remove_label_from_email e i)"
    unfolding remove_label_from_email_def Let_def by (rule keeps_stmt) (auto simp: wf_defs)
qed

end
