(* ===== verification/Filter_Engine.thy ===== *)
theory Filter_Engine
  imports Outbound_Queue Db_Labels
begin

text \<open>
  Keyword filters: \<open>src/src/filter.rs\<close>.  The Aho-Corasick automaton is third-party code: \<open>ac_lib\<close> says which
  pattern lists it compiles and which pattern indices \<open>find_iter\<close> yields; \<open>lawful_ac\<close> states what its
  documentation promises of a case-insensitive search. \<open>find_iter\<close> does not overlap its matches, so of
  several patterns in the text one at least is reported, not all.
\<close>

section \<open>Searchable text\<close>

definition max_filter_scan_bytes :: nat where
  "max_filter_scan_bytes = 64 * 1024"

fun strip_tags_from :: "bool \<Rightarrow> string \<Rightarrow> string" where
  "strip_tags_from inside_tag [] = []"
| "strip_tags_from inside_tag (c # cs) =
     (if c = CHR ''<'' then strip_tags_from True cs
      else if c = CHR ''>'' then CHR '' '' # strip_tags_from False cs
      else if \<not> inside_tag then c # strip_tags_from inside_tag cs
      else strip_tags_from inside_tag cs)"

definition strip_html_tags :: "string \<Rightarrow> string" where
  "strip_html_tags html = strip_tags_from False html"

definition is_char_boundary :: "string \<Rightarrow> nat \<Rightarrow> bool" where
  "is_char_boundary s i = (i = 0 \<or> i = length s \<or> (i < length s \<and> \<not> in_range 0x80 0xBF (s ! i)))"

primrec floor_boundary :: "string \<Rightarrow> nat \<Rightarrow> nat" where
  "floor_boundary s 0 = 0"
| "floor_boundary s (Suc n) = (if is_char_boundary s (Suc n) then Suc n else floor_boundary s n)"

definition extract_searchable_body :: "mail_parser \<Rightarrow> string \<Rightarrow> nat \<Rightarrow> string" where
  "extract_searchable_body parse raw_eml max_bytes =
     (case parse raw_eml of
        None \<Rightarrow> []
      | Some message \<Rightarrow>
          (let body = (case pm_body_text message of
                Some t \<Rightarrow> t
              | None \<Rightarrow> (case pm_body_html message of
                  Some html \<Rightarrow> strip_html_tags html
                | None \<Rightarrow> []))
           in if max_bytes < length body then take (floor_boundary body max_bytes) body else body))"

section \<open>Compiled rules\<close>

record ac_lib =
  ac_builds :: "string list \<Rightarrow> bool"
  ac_find :: "string list \<Rightarrow> string \<Rightarrow> nat list"

definition occurs_in :: "string \<Rightarrow> string \<Rightarrow> bool" where
  "occurs_in pattern body = contains_str (to_lowercase pattern) (to_lowercase body)"

definition lawful_ac :: "ac_lib \<Rightarrow> bool" where
  "lawful_ac lib \<longleftrightarrow> (\<forall>patterns body.
     (\<forall>i \<in> set (ac_find lib patterns body). i < length patterns \<and> occurs_in (patterns ! i) body) \<and>
     ((\<exists>p \<in> set patterns. occurs_in p body) \<longrightarrow> ac_find lib patterns body \<noteq> []))"

record compiled_filter_set =
  cf_automaton :: "string list option"
  cf_label_ids :: "uuid list"

definition no_filters :: compiled_filter_set where
  "no_filters = \<lparr>cf_automaton = None, cf_label_ids = []\<rparr>"

definition usable_rules :: "(string \<times> uuid) list \<Rightarrow> (string \<times> uuid) list" where
  "usable_rules rules = filter (\<lambda>r. fst r \<noteq> []) (map (\<lambda>(kw, lid). (trim kw, lid)) rules)"

definition compile_filter_set :: "ac_lib \<Rightarrow> (string \<times> uuid) list \<Rightarrow> compiled_filter_set option" where
  "compile_filter_set lib rules =
     (if rules = [] then Some no_filters
      else let patterns = map fst (usable_rules rules); label_ids = map snd (usable_rules rules)
           in if patterns = [] then Some no_filters
              else if \<not> ac_builds lib patterns then None
              else Some \<lparr>cf_automaton = Some patterns, cf_label_ids = label_ids\<rparr>)"

definition filter_matches :: "ac_lib \<Rightarrow> compiled_filter_set \<Rightarrow> string \<Rightarrow> uuid list" where
  "filter_matches lib cf body =
     (case cf_automaton cf of
        None \<Rightarrow> []
      | Some patterns \<Rightarrow> remdups (map (nth (cf_label_ids cf))
          (filter (\<lambda>i. i < length (cf_label_ids cf)) (ac_find lib patterns body))))"

section \<open>The engine and its cache\<close>

type_synonym filter_cache = "uuid \<Rightarrow> compiled_filter_set option"

definition invalidate :: "uuid \<Rightarrow> filter_cache \<Rightarrow> filter_cache" where
  "invalidate user_id cache = cache(user_id := None)"

definition compile_or_none :: "ac_lib \<Rightarrow> (string \<times> uuid) list \<Rightarrow> compiled_filter_set" where
  "compile_or_none lib rules = unwrap_or no_filters (compile_filter_set lib rules)"

definition get_or_compile ::
  "ac_lib \<Rightarrow> uuid \<Rightarrow> filter_cache \<Rightarrow> db \<Rightarrow> (sqlx_error + compiled_filter_set) \<times> filter_cache \<times> db" where
  "get_or_compile lib user_id cache d =
     (case cache user_id of
        Some cached \<Rightarrow> (Ok cached, cache, d)
      | None \<Rightarrow> (case get_filters_for_engine user_id d of
          (Inl e, d) \<Rightarrow> (Err e, cache, d)
        | (Inr filter_pairs, d) \<Rightarrow>
            (let compiled = compile_or_none lib filter_pairs
             in (Ok compiled, cache(user_id := Some compiled), d))))"

definition evaluate ::
  "ac_lib \<Rightarrow> mail_parser \<Rightarrow> uuid \<Rightarrow> string \<Rightarrow> filter_cache \<Rightarrow> db \<Rightarrow> (sqlx_error + uuid list) \<times> filter_cache \<times> db" where
  "evaluate lib parse user_id raw_eml cache d =
     (case get_or_compile lib user_id cache d of
        (Inl e, cache, d) \<Rightarrow> (Err e, cache, d)
      | (Inr compiled, cache, d) \<Rightarrow>
          if cf_automaton compiled = None then (Ok [], cache, d)
          else (let body = extract_searchable_body parse raw_eml max_filter_scan_bytes
                in if body = [] then (Ok [], cache, d) else (Ok (filter_matches lib compiled body), cache, d)))"

section \<open>Backfill\<close>

record backfill_job =
  bj_user_id :: uuid
  bj_keyword :: string
  bj_label_id :: uuid

record backfill_engine =
  be_channel :: "backfill_job list"
  be_open :: bool
  be_active :: "uuid list"
  be_running :: "backfill_job option"

definition backfill_engine_default :: backfill_engine where
  "backfill_engine_default = \<lparr>be_channel = [], be_open = False, be_active = [], be_running = None\<rparr>"

definition backfill_engine_new :: backfill_engine where
  "backfill_engine_new = \<lparr>be_channel = [], be_open = True, be_active = [], be_running = None\<rparr>"

definition channel_capacity :: nat where
  "channel_capacity = 100"

text \<open>\<open>try_send\<close> fails when the channel is full or its receiver is gone; \<open>submit\<close> drops its result.\<close>

definition try_send :: "backfill_job \<Rightarrow> backfill_engine \<Rightarrow> bool \<times> backfill_engine" where
  "try_send job e =
     (if be_open e \<and> length (be_channel e) < channel_capacity
      then (True, e\<lparr>be_channel := be_channel e @ [job]\<rparr>) else (False, e))"

definition submit :: "backfill_job \<Rightarrow> backfill_engine \<Rightarrow> bool \<times> backfill_engine" where
  "submit job e =
     (if bj_user_id job \<notin> set (be_active e)
      then (True, snd (try_send job (e\<lparr>be_active := bj_user_id job # be_active e\<rparr>)))
      else (False, e))"

definition bodies_path :: "string \<Rightarrow> uuid \<Rightarrow> string" where
  "bodies_path storage_dir body_key = storage_dir @ ''/'' @ body_key @ ''.eml''"

definition file_open :: "string \<Rightarrow> unit io" where
  "file_open path = (\<lambda>\<sigma>. case files \<sigma> path of
     None \<Rightarrow> (Err NotFound, snd (next_fault \<sigma>))
   | Some _ \<Rightarrow> syscall (\<lambda>\<sigma>. ((), \<sigma>)) \<sigma>)"

definition read_head :: "nat \<Rightarrow> string \<Rightarrow> string io" where
  "read_head n path = io_bind (file_open path) (\<lambda>_. io_bind (fs_read path) (\<lambda>b. io_return (take n b)))"

fun scan_candidates ::
  "ac_lib \<Rightarrow> mail_parser \<Rightarrow> string \<Rightarrow> compiled_filter_set \<Rightarrow> (uuid \<times> uuid) list \<Rightarrow> sys \<Rightarrow> uuid list \<times> sys" where
  "scan_candidates lib parse storage_dir compiled [] s = ([], s)"
| "scan_candidates lib parse storage_dir compiled ((email_id, body_key) # rest) s =
     (case on_fs (read_head max_filter_scan_bytes (bodies_path storage_dir body_key)) s of
        (Inl _, s) \<Rightarrow> scan_candidates lib parse storage_dir compiled rest s
      | (Inr buffer, s) \<Rightarrow>
          (let hit = filter_matches lib compiled (extract_searchable_body parse buffer max_filter_scan_bytes) \<noteq> []
           in case scan_candidates lib parse storage_dir compiled rest s of
                (matched, s) \<Rightarrow> ((if hit then [email_id] else []) @ matched, s)))"

text \<open>The loop over batches.  It need not end: the fuel bounds
  the batches, and \<open>None\<close> is a run that is still going.\<close>

fun backfill_loop ::
  "ac_lib \<Rightarrow> mail_parser \<Rightarrow> string \<Rightarrow> backfill_job \<Rightarrow> compiled_filter_set \<Rightarrow> nat \<Rightarrow> nat \<Rightarrow> sys \<Rightarrow> sys option" where
  "backfill_loop lib parse storage_dir job compiled 0 offset s = None"
| "backfill_loop lib parse storage_dir job compiled (Suc fuel) offset s =
     (case on_db (get_unlabeled_emails_for_user (bj_user_id job) (bj_label_id job) 50 offset) s of
        (Inl _, s) \<Rightarrow> Some s
      | (Inr candidates, s) \<Rightarrow>
          if candidates = [] then Some s
          else (case scan_candidates lib parse storage_dir compiled candidates s of
            (matched_ids, s) \<Rightarrow>
              (let s = (if matched_ids \<noteq> []
                    then snd (on_db (batch_assign_label_to_emails (sy_now s) matched_ids (bj_label_id job)) s) else s);
                   unmatched_count = length candidates - length matched_ids
               in if length candidates < 50 then Some s
                  else backfill_loop lib parse storage_dir job compiled fuel (offset + unmatched_count) s)))"

definition process_backfill ::
  "ac_lib \<Rightarrow> mail_parser \<Rightarrow> string \<Rightarrow> nat \<Rightarrow> backfill_job \<Rightarrow> sys \<Rightarrow> sys option" where
  "process_backfill lib parse storage_dir fuel job s =
     (case compile_filter_set lib [(bj_keyword job, bj_label_id job)] of
        None \<Rightarrow> Some s
      | Some compiled \<Rightarrow> backfill_loop lib parse storage_dir job compiled fuel 0 s)"

text \<open>The worker: it takes the next job, and frees the tenant when the job is done.\<close>

datatype engine_event = Submit backfill_job | TakeJob | JobDone

definition worker_take :: "backfill_engine \<Rightarrow> backfill_engine" where
  "worker_take e = (case (be_running e, be_channel e) of
     (None, job # rest) \<Rightarrow> e\<lparr>be_channel := rest, be_running := Some job\<rparr>
   | _ \<Rightarrow> e)"

definition worker_done :: "backfill_engine \<Rightarrow> backfill_engine" where
  "worker_done e = (case be_running e of
     None \<Rightarrow> e
   | Some job \<Rightarrow> e\<lparr>be_running := None, be_active := filter (\<lambda>u. u \<noteq> bj_user_id job) (be_active e)\<rparr>)"

fun engine_step :: "backfill_engine \<Rightarrow> engine_event \<Rightarrow> backfill_engine" where
  "engine_step e (Submit job) = snd (submit job e)"
| "engine_step e TakeJob = worker_take e"
| "engine_step e JobDone = worker_done e"

section \<open>The searchable text is bounded\<close>

lemma floor_boundary_le: "floor_boundary s n \<le> n"
  by (induction n) auto

lemma floor_boundary_ok: "is_char_boundary s (floor_boundary s n)"
  by (induction n) (auto simp: is_char_boundary_def)

lemma searchable_bounded:
  "length (extract_searchable_body parse raw n) \<le> n"
proof -
  have "length (take (floor_boundary b n) b) \<le> n" for b
    using floor_boundary_le [of b n] by simp
  then show ?thesis by (auto simp: extract_searchable_body_def Let_def split: option.splits simp del: length_take)
qed

section \<open>Matching\<close>

lemma compiled_shape:
  assumes "compile_filter_set lib rules = Some cf"
  shows "(cf_automaton cf = None \<and> usable_rules rules = []) \<or>
    (cf_automaton cf = Some (map fst (usable_rules rules)) \<and> cf_label_ids cf = map snd (usable_rules rules))"
  using assms by (auto simp: compile_filter_set_def no_filters_def Let_def usable_rules_def split: if_splits)

definition rule_hits :: "string \<Rightarrow> string \<times> uuid \<Rightarrow> bool" where
  "rule_hits body r = (trim (fst r) \<noteq> [] \<and> occurs_in (trim (fst r)) body)"

lemma usable_hit:
  assumes "u \<in> set (usable_rules rules)" "occurs_in (fst u) body"
  shows "\<exists>r \<in> set rules. snd r = snd u \<and> rule_hits body r"
proof -
  from assms(1) obtain kw where "(kw, snd u) \<in> set rules" "fst u = trim kw" "fst u \<noteq> []"
    by (auto simp: usable_rules_def)
  with assms(2) show ?thesis by (intro bexI [of _ "(kw, snd u)"]) (simp_all add: rule_hits_def)
qed

lemma usable_of_hit: "r \<in> set rules \<Longrightarrow> rule_hits body r \<Longrightarrow> (trim (fst r), snd r) \<in> set (usable_rules rules)"
  by (cases r) (auto simp: usable_rules_def rule_hits_def intro: rev_image_eqI)

lemma matches_sound:
  assumes "lawful_ac lib" "compile_filter_set lib rules = Some cf" "l \<in> set (filter_matches lib cf body)"
  shows "\<exists>r \<in> set rules. snd r = l \<and> rule_hits body r"
proof -
  let ?u = "usable_rules rules"
  from compiled_shape [OF assms(2)] assms(3) have a: "cf_automaton cf = Some (map fst ?u)" "cf_label_ids cf = map snd ?u"
    by (auto simp: filter_matches_def)
  with assms(3) obtain i where i: "i \<in> set (ac_find lib (map fst ?u) body)" "i < length ?u" "l = snd (?u ! i)"
    by (auto simp: filter_matches_def)
  then have "occurs_in (map fst ?u ! i) body" using assms(1) unfolding lawful_ac_def by blast
  then have "occurs_in (fst (?u ! i)) body" using i(2) by simp
  moreover have "?u ! i \<in> set ?u" using i(2) by simp
  ultimately show ?thesis using i(3) usable_hit [of "?u ! i" rules body] by simp
qed

lemma matches_complete:
  assumes "lawful_ac lib" "compile_filter_set lib rules = Some cf" "r \<in> set rules" "rule_hits body r"
  shows "filter_matches lib cf body \<noteq> []"
proof -
  let ?u = "usable_rules rules"
  have r: "(trim (fst r), snd r) \<in> set ?u" by (rule usable_of_hit [OF assms(3,4)])
  with compiled_shape [OF assms(2)] have a: "cf_automaton cf = Some (map fst ?u)" "cf_label_ids cf = map snd ?u"
    by auto
  have "trim (fst r) \<in> set (map fst ?u)" using r by force
  then have "ac_find lib (map fst ?u) body \<noteq> []"
    using assms(1,4) unfolding lawful_ac_def rule_hits_def by blast
  moreover have "\<forall>i \<in> set (ac_find lib (map fst ?u) body). i < length (map fst ?u)"
    using assms(1) unfolding lawful_ac_def by blast
  ultimately show ?thesis using a by (auto simp: filter_matches_def filter_empty_conv neq_Nil_conv)
qed

section \<open>The cache tells the truth\<close>

definition rules_of :: "db \<Rightarrow> uuid \<Rightarrow> (string \<times> uuid) list" where
  "rules_of d user = map (\<lambda>f. (fl_keyword f, fl_label_id f)) (filter (\<lambda>f. fl_user_id f = user) (t_filters d))"

definition cache_coherent :: "ac_lib \<Rightarrow> filter_cache \<Rightarrow> db \<Rightarrow> bool" where
  "cache_coherent lib cache d \<longleftrightarrow> (\<forall>user cf. cache user = Some cf \<longrightarrow> cf = compile_or_none lib (rules_of d user))"

lemma rules_of_faults [simp]: "rules_of (d\<lparr>db_faults := fs\<rparr>) = rules_of d"
  by (simp add: rules_of_def fun_eq_iff)

lemma coherent_faults [simp]: "cache_coherent lib cache (d\<lparr>db_faults := fs\<rparr>) = cache_coherent lib cache d"
  by (simp add: cache_coherent_def)

lemma query_cases:
  "query f d = (r, d') \<Longrightarrow> d' = d\<lparr>db_faults := tl (db_faults d)\<rparr> \<and> (r = Err DbFault \<or> r = Ok (f d'))"
  by (auto simp: query_def stmt_def Let_def split: if_splits)

lemma get_or_compile_coherent:
  assumes "cache_coherent lib cache d" "get_or_compile lib user cache d = (r, cache', d')"
  shows "cache_coherent lib cache' d' \<and> same_tables d d' \<and>
    (case r of Inl _ \<Rightarrow> True | Inr cf \<Rightarrow> cf = compile_or_none lib (rules_of d user))"
proof (cases "cache user")
  case (Some cf)
  with assms show ?thesis by (auto simp: get_or_compile_def cache_coherent_def same_tables_def)
next
  case None
  obtain r1 d1 where q: "get_filters_for_engine user d = (r1, d1)" by fastforce
  note c = query_cases [OF q [unfolded get_filters_for_engine_def]]
  have rules: "map (\<lambda>f. (fl_keyword f, fl_label_id f)) (filter (\<lambda>f. fl_user_id f = user) (t_filters d1)) = rules_of d user"
    using c by (simp add: rules_of_def)
  show ?thesis
  proof (cases r1)
    case (Inl e)
    with None assms q c show ?thesis by (auto simp: get_or_compile_def same_tables_def)
  next
    case (Inr pairs)
    with None assms(2) q c rules have "cache' = cache(user := Some (compile_or_none lib (rules_of d user)))"
      "r = Inr (compile_or_none lib (rules_of d user))" "d' = d1"
      by (auto simp: get_or_compile_def Let_def)
    with assms(1) c show ?thesis by (auto simp: cache_coherent_def same_tables_def)
  qed
qed


section \<open>One job per tenant\<close>

definition jobs_inside :: "backfill_engine \<Rightarrow> backfill_job list" where
  "jobs_inside e = (case be_running e of None \<Rightarrow> [] | Some job \<Rightarrow> [job]) @ be_channel e"

definition one_per_tenant :: "backfill_engine \<Rightarrow> bool" where
  "one_per_tenant e = (distinct (map bj_user_id (jobs_inside e)) \<and>
     list_all (\<lambda>j. bj_user_id j \<in> set (be_active e)) (jobs_inside e) \<and>
     length (be_channel e) \<le> channel_capacity)"

lemma engine_step_one_per_tenant: "one_per_tenant e \<Longrightarrow> one_per_tenant (engine_step e ev)"
proof (cases ev)
  case (Submit job)
  assume "one_per_tenant e"
  then show ?thesis
    by (auto simp: Submit one_per_tenant_def submit_def try_send_def jobs_inside_def list_all_iff split: option.splits)
next
  case TakeJob
  assume "one_per_tenant e"
  then show ?thesis
    by (auto simp: TakeJob one_per_tenant_def worker_take_def jobs_inside_def split: option.splits list.splits)
next
  case JobDone
  assume "one_per_tenant e"
  then show ?thesis
    by (auto simp: JobDone one_per_tenant_def worker_done_def jobs_inside_def list_all_iff rev_image_eqI split: option.splits)
qed

interpretation backfill_tenants: machine engine_step one_per_tenant
  by unfold_locales (rule engine_step_one_per_tenant)

text \<open>At most one backfill per tenant, and a bounded queue. Whatever is submitted and however the worker
  proceeds, of one user there is at most one job among the running and the waiting ones, each of their users is
  marked active, and at most 100 jobs wait.\<close>
theorem one_backfill_per_tenant:
  "one_per_tenant (run_steps engine_step backfill_engine_new events)"
  by (rule backfill_tenants.run_inv) (simp add: one_per_tenant_def backfill_engine_new_def jobs_inside_def)

text \<open>A tenant that is marked active without a job stays so.\<close>

definition locked_out :: "uuid \<Rightarrow> backfill_engine \<Rightarrow> bool" where
  "locked_out user e = (user \<in> set (be_active e) \<and> list_all (\<lambda>j. bj_user_id j \<noteq> user) (jobs_inside e))"

lemma engine_step_locked_out: "locked_out user e \<Longrightarrow> locked_out user (engine_step e ev)"
proof (cases ev)
  case (Submit job)
  assume "locked_out user e"
  then show ?thesis
    by (auto simp: Submit locked_out_def submit_def try_send_def jobs_inside_def split: option.splits)
next
  case TakeJob
  assume "locked_out user e"
  then show ?thesis
    by (auto simp: TakeJob locked_out_def worker_take_def jobs_inside_def split: option.splits list.splits)
next
  case JobDone
  assume "locked_out user e"
  then show ?thesis
    by (auto simp: JobDone locked_out_def worker_done_def jobs_inside_def split: option.splits)
qed

interpretation backfill_locked: machine engine_step "locked_out user" for user
  by unfold_locales (rule engine_step_locked_out)

text \<open>A job refused by the full queue locks its tenant out. When 100 jobs wait (or the receiver is gone),
  the submission of a tenant without a job reports success although the job is dropped, and every later
  submission of that tenant is refused, whatever happens in between.\<close>
theorem full_queue_locks_tenant_out:
  assumes one: "one_per_tenant e" and idle: "bj_user_id job \<notin> set (be_active e)"
    and full: "\<not> be_open e \<or> length (be_channel e) = channel_capacity"
    and later: "bj_user_id job' = bj_user_id job"
  shows "fst (submit job e) \<and> be_channel (snd (submit job e)) = be_channel e \<and>
    \<not> fst (submit job' (run_steps engine_step (snd (submit job e)) events))"
proof -
  let ?u = "bj_user_id job" and ?e = "snd (submit job e)"
  have sub: "?e = e\<lparr>be_active := ?u # be_active e\<rparr>" "fst (submit job e)"
    using idle full by (auto simp: submit_def try_send_def)
  have "list_all (\<lambda>j. bj_user_id j \<noteq> ?u) (jobs_inside e)"
    using one idle by (auto simp: one_per_tenant_def list_all_iff)
  then have "locked_out ?u ?e" by (simp add: sub locked_out_def jobs_inside_def)
  then have "locked_out ?u (run_steps engine_step ?e events)" by (rule backfill_locked.run_inv)
  with later sub show ?thesis by (simp add: locked_out_def submit_def)
qed

section \<open>The backfill labels the matching mails\<close>

definition job_filters :: "ac_lib \<Rightarrow> backfill_job \<Rightarrow> compiled_filter_set" where
  "job_filters lib job = unwrap_or no_filters (compile_filter_set lib [(bj_keyword job, bj_label_id job)])"

definition body_matches :: "ac_lib \<Rightarrow> mail_parser \<Rightarrow> string \<Rightarrow> compiled_filter_set \<Rightarrow> fs \<Rightarrow> uuid \<Rightarrow> bool" where
  "body_matches lib parse dir cf \<sigma> body_key = (case files \<sigma> (bodies_path dir body_key) of
     None \<Rightarrow> False
   | Some f \<Rightarrow> filter_matches lib cf
       (extract_searchable_body parse (take max_filter_scan_bytes (file_bytes f)) max_filter_scan_bytes) \<noteq> [])"

lemma read_head_quiet:
  "io_faults (sy_fs s) = [] \<Longrightarrow> on_fs (read_head n p) s =
   (case files (sy_fs s) p of None \<Rightarrow> (Err NotFound, s) | Some f \<Rightarrow> (Ok (take n (file_bytes f)), s))"
  by (simp add: on_fs_def read_head_def file_open_def fs_read_def syscall_eq io_bind_def io_return_def split: option.split)

lemma scan_quiet:
  "io_faults (sy_fs s) = [] \<Longrightarrow> scan_candidates lib parse dir cf cands s =
   (map fst (filter (\<lambda>c. body_matches lib parse dir cf (sy_fs s) (snd c)) cands), s)"
  by (induction cands rule: list.induct)
    (auto simp: read_head_quiet body_matches_def split: option.splits)

definition label_rows :: "time \<Rightarrow> uuid \<Rightarrow> uuid list \<Rightarrow> email_label_row list" where
  "label_rows now label = map (\<lambda>e. \<lparr>el_email_id = e, el_label_id = label, el_created_at = now\<rparr>)"

lemma insert_labels_quiet:
  assumes "db_faults d = []" "has lb_id (t_labels d) label" "distinct es"
    "\<And>e. e \<in> set es \<Longrightarrow> has re_id (t_emails d) e \<and> \<not> labelled d e label"
  shows "insert_each (\<lambda>e. insert_email_label now e label) es d =
    (Ok (), d\<lparr>t_email_labels := t_email_labels d @ label_rows now label es\<rparr>)"
  using assms
proof (induction es arbitrary: d)
  case Nil
  then show ?case by (cases d) (simp add: db_return_def label_rows_def)
next
  case (Cons e es)
  let ?d = "d\<lparr>t_email_labels := t_email_labels d @ label_rows now label [e]\<rparr>"
  have "insert_email_label now e label d = (Ok (), ?d)"
    using Cons.prems(1,2) Cons.prems(4) [of e]
    by (simp add: insert_email_label_def no_fault_simps email_label_constraints_def add_email_label_def label_rows_def Let_def)
  moreover have "insert_each (\<lambda>e. insert_email_label now e label) es ?d =
      (Ok (), ?d\<lparr>t_email_labels := t_email_labels ?d @ label_rows now label es\<rparr>)"
    using Cons.prems by (intro Cons.IH) (auto simp: labelled_def label_rows_def)
  ultimately show ?case by (simp add: db_bind_def label_rows_def)
qed

definition labels_added :: "uuid list \<Rightarrow> uuid \<Rightarrow> sys \<Rightarrow> sys" where
  "labels_added es label s = s\<lparr>sy_db := (sy_db s)\<lparr>t_email_labels := t_email_labels (sy_db s) @ label_rows (sy_now s) label es\<rparr>\<rparr>"

lemma labels_added_twice: "labels_added es' l (labels_added es l s) = labels_added (es @ es') l s"
  by (simp add: labels_added_def label_rows_def)

lemma labels_added_none: "labels_added [] l s = s"
  by (simp add: labels_added_def label_rows_def)

lemma has_label_rows:
  "has (\<lambda>e. (el_email_id e, el_label_id e)) (label_rows now l es) (i, m) \<longleftrightarrow> m = l \<and> i \<in> set es"
  by (induction es) (auto simp: label_rows_def)

lemma unlabeled_after:
  "unlabeled (sy_db (labels_added es label s)) user label = filter (\<lambda>e. re_id e \<notin> set es) (unlabeled (sy_db s) user label)"
proof -
  have "labelled (sy_db (labels_added es label s)) i label \<longleftrightarrow> labelled (sy_db s) i label \<or> i \<in> set es" for i
    by (auto simp: labels_added_def labelled_def has_label_rows)
  moreover have "owned_by (sy_db (labels_added es label s)) user e = owned_by (sy_db s) user e" for e
    by (simp add: labels_added_def owned_by_def aliases_of_user_def)
  moreover have "t_emails (sy_db (labels_added es label s)) = t_emails (sy_db s)" by (simp add: labels_added_def)
  ultimately show ?thesis by (simp add: unlabeled_def filter_sort conj_commute) meson
qed

definition backfill_ready :: "uuid \<Rightarrow> sys \<Rightarrow> bool" where
  "backfill_ready label s = (quiet s \<and> uniq re_id (t_emails (sy_db s)) \<and> has lb_id (t_labels (sy_db s)) label)"

lemma backfill_ready_added: "backfill_ready label (labels_added es l s) = backfill_ready label s"
  by (simp add: backfill_ready_def labels_added_def quiet_def)

lemma unlabeled_rows:
  "e \<in> set (unlabeled d user label) \<Longrightarrow> has re_id (t_emails d) (re_id e) \<and> \<not> labelled d (re_id e) label"
  by (auto simp: unlabeled_def has_iff)

lemma distinct_unlabeled: "uniq re_id (t_emails d) \<Longrightarrow> distinct (map re_id (unlabeled d user label))"
  by (auto simp: uniq_def unlabeled_def distinct_map intro: inj_on_subset)

lemma assign_quiet:
  assumes "backfill_ready label s" "distinct es" "es \<noteq> []"
    "\<And>e. e \<in> set es \<Longrightarrow> has re_id (t_emails (sy_db s)) e \<and> \<not> labelled (sy_db s) e label"
  shows "snd (on_db (batch_assign_label_to_emails (sy_now s) es label) s) = labels_added es label s"
proof -
  have q: "db_faults (sy_db s) = []" "has lb_id (t_labels (sy_db s)) label"
    using assms(1) by (simp_all add: backfill_ready_def quiet_def)
  from insert_labels_quiet [OF q assms(2,4), of "sy_now s"] assms(3) show ?thesis
    by (simp add: on_db_def batch_assign_label_to_emails_def labels_added_def)
qed

lemma backfill_step:
  assumes "on_db (get_unlabeled_emails_for_user (bj_user_id job) (bj_label_id job) 50 offset) s = (Inr cands, s1)"
    "cands \<noteq> []" "scan_candidates lib parse dir cf cands s1 = (hits, s2)"
    "(if hits \<noteq> [] then snd (on_db (batch_assign_label_to_emails (sy_now s2) hits (bj_label_id job)) s2) else s2) = s3"
  shows "backfill_loop lib parse dir job cf (Suc fuel) offset s = (if length cands < 50 then Some s3
    else backfill_loop lib parse dir job cf fuel (offset + (length cands - length hits)) s3)"
  using assms(1-3) unfolding assms(4) [symmetric] by (simp add: Let_def)

text \<open>The loop with \<open>P\<close> already seen and found not to match, and \<open>R\<close> still to come.\<close>

lemma backfill_loop_runs:
  assumes "backfill_ready (bj_label_id job) s" "unlabeled (sy_db s) (bj_user_id job) (bj_label_id job) = P @ R"
    "length R < fuel"
  shows "backfill_loop lib parse dir job cf fuel (length P) s =
    Some (labels_added (map re_id (filter (\<lambda>e. body_matches lib parse dir cf (sy_fs s) (re_body_key e)) R)) (bj_label_id job) s)"
  using assms
proof (induction fuel arbitrary: s P R)
  case (Suc fuel)
  let ?label = "bj_label_id job" and ?match = "\<lambda>e. body_matches lib parse dir cf (sy_fs s) (re_body_key e)"
  let ?batch = "take 50 R"
  let ?hits = "map re_id (filter ?match ?batch)"
  have q: "db_faults (sy_db s) = []" "io_faults (sy_fs s) = []" "uniq re_id (t_emails (sy_db s))"
    using Suc.prems(1) by (simp_all add: backfill_ready_def quiet_def)
  have fetch: "on_db (get_unlabeled_emails_for_user (bj_user_id job) ?label 50 (length P)) s =
      (Ok (map (\<lambda>e. (re_id e, re_body_key e)) ?batch), s)"
    using Suc.prems(2) q by (simp add: on_db_def get_unlabeled_emails_for_user_def no_fault_simps page_def)
  have scan: "scan_candidates lib parse dir cf (map (\<lambda>e. (re_id e, re_body_key e)) ?batch) s = (?hits, s)"
    using q by (simp add: scan_quiet filter_map comp_def)
  have dist: "distinct (map re_id (P @ R))" using distinct_unlabeled [OF q(3)] Suc.prems(2) by metis
  then have dR: "distinct (map re_id R)" by simp
  have dh: "distinct ?hits" using dR by (metis distinct_map_filter distinct_take take_map)
  have rows: "has re_id (t_emails (sy_db s)) i \<and> \<not> labelled (sy_db s) i ?label" if "i \<in> set ?hits" for i
  proof -
    from that obtain e where "e \<in> set ?batch" "i = re_id e" by auto
    then show ?thesis
      using unlabeled_rows [of e "sy_db s" "bj_user_id job" ?label] Suc.prems(2) in_set_takeD [of e 50 R] by simp
  qed
  have assign: "(if ?hits \<noteq> [] then snd (on_db (batch_assign_label_to_emails (sy_now s) ?hits ?label) s) else s) =
      labels_added ?hits ?label s"
    using assign_quiet [OF Suc.prems(1) dh _ rows] by (cases "?hits = []") (simp_all add: labels_added_none)
  note step = backfill_step [OF fetch _ scan assign, of fuel]
  show ?case
  proof (cases "R = []")
    case True
    with fetch show ?thesis by (simp add: labels_added_none)
  next
    case False
    show ?thesis
    proof (cases "length R < 50")
      case True
      then have "?batch = R" by simp
      with False step True show ?thesis by simp
    next
      case long: False
      let ?s = "labels_added ?hits ?label s" and ?P = "P @ filter (\<lambda>e. \<not> ?match e) ?batch"
      have split: "distinct (map re_id P @ map re_id ?batch @ map re_id (drop 50 R))"
        using dist by (metis append_take_drop_id map_append)
      have notin: "re_id e \<notin> set ?hits" if "e \<in> set P \<union> set (drop 50 R)" for e
      proof -
        have "re_id e \<notin> re_id ` set ?batch" using split that by auto
        then show ?thesis by auto
      qed
      have inj: "inj_on re_id (set ?batch)" using split by (simp add: distinct_map)
      have "re_id e \<in> set ?hits \<longleftrightarrow> ?match e" if "e \<in> set ?batch" for e
        using inj that by (auto dest: inj_onD)
      then have keep: "filter (\<lambda>e. re_id e \<notin> set ?hits) ?batch = filter (\<lambda>e. \<not> ?match e) ?batch"
        by (intro filter_cong refl) blast
      have none: "filter (\<lambda>e. re_id e \<notin> set ?hits) P = P" "filter (\<lambda>e. re_id e \<notin> set ?hits) (drop 50 R) = drop 50 R"
        using notin by (auto intro!: filter_True)
      have "unlabeled (sy_db ?s) (bj_user_id job) ?label =
          filter (\<lambda>e. re_id e \<notin> set ?hits) P @ filter (\<lambda>e. re_id e \<notin> set ?hits) ?batch @
          filter (\<lambda>e. re_id e \<notin> set ?hits) (drop 50 R)"
        unfolding unlabeled_after Suc.prems(2) by (metis append_take_drop_id filter_append)
      then have unl: "unlabeled (sy_db ?s) (bj_user_id job) ?label = ?P @ drop 50 R"
        unfolding none keep by simp
      have "length (filter ?match ?batch) + length (filter (\<lambda>e. \<not> ?match e) ?batch) = 50"
        using sum_length_filter_compl [of ?match ?batch] long by simp
      then have len: "length P + (50 - length ?hits) = length ?P" by simp
      have "length (drop 50 R) < fuel" using Suc.prems(3) long by simp
      note IH = Suc.IH [OF Suc.prems(1) [folded backfill_ready_added [of ?label ?hits ?label s]] unl this]
      have fs: "sy_fs ?s = sy_fs s" by (simp add: labels_added_def)
      have "backfill_loop lib parse dir job cf (Suc fuel) (length P) s =
          backfill_loop lib parse dir job cf fuel (length P + (50 - length ?hits)) ?s"
        using long step False by simp
      also have "\<dots> = Some (labels_added (?hits @ map re_id (filter ?match (drop 50 R))) ?label s)"
        unfolding len IH fs by (simp add: labels_added_twice)
      also have "?hits @ map re_id (filter ?match (drop 50 R)) = map re_id (filter ?match R)"
        by (metis append_take_drop_id filter_append map_append)
      finally show ?thesis .
    qed
  qed
qed simp

text \<open>C24: A backfill ends and labels exactly the matching mails. With no failing statement or file operation and
  the label in place, the loop over the batches returns, for any fuel above the number of unlabelled mails; it
  has added the label, once, to exactly those mails of the user that did not carry it and whose stored body,
  up to 64 KiB, matches the keyword; nothing else has changed.\<close>
theorem backfill_labels_matching_mails:
  assumes ready: "backfill_ready (bj_label_id job) s"
    and builds: "compile_filter_set lib [(bj_keyword job, bj_label_id job)] = Some cf"
    and fuel: "length (t_emails (sy_db s)) < fuel"
  shows "process_backfill lib parse dir fuel job s = Some (labels_added
    (map re_id (filter (\<lambda>e. body_matches lib parse dir cf (sy_fs s) (re_body_key e))
      (unlabeled (sy_db s) (bj_user_id job) (bj_label_id job)))) (bj_label_id job) s)"
proof -
  have "length (unlabeled (sy_db s) (bj_user_id job) (bj_label_id job)) < fuel"
    unfolding unlabeled_def length_sort by (rule le_less_trans [OF length_filter_le fuel])
  with backfill_loop_runs [OF ready, of "[]"] builds show ?thesis by (simp add: process_backfill_def)
qed

text \<open>A backfill for a label that is gone need not end. When the label was deleted while the job waited and
  the first 50 mails match the keyword, every assignment is refused by the foreign key, the offset stays, and the
  same batch is fetched for ever: no number of rounds suffices.\<close>
theorem backfill_never_ends_for_missing_label:
  assumes q: "quiet s" and gone: "\<not> has lb_id (t_labels (sy_db s)) (bj_label_id job)"
    and builds: "compile_filter_set lib [(bj_keyword job, bj_label_id job)] = Some cf"
    and many: "50 \<le> length (unlabeled (sy_db s) (bj_user_id job) (bj_label_id job))"
    and hits: "list_all (\<lambda>e. body_matches lib parse dir cf (sy_fs s) (re_body_key e))
      (take 50 (unlabeled (sy_db s) (bj_user_id job) (bj_label_id job)))"
  shows "process_backfill lib parse dir fuel job s = None"
proof -
  let ?label = "bj_label_id job" and ?batch = "take 50 (unlabeled (sy_db s) (bj_user_id job) (bj_label_id job))"
  have q': "db_faults (sy_db s) = []" "io_faults (sy_fs s) = []" using q by (simp_all add: quiet_def)
  have fetch: "on_db (get_unlabeled_emails_for_user (bj_user_id job) ?label 50 0) s =
      (Ok (map (\<lambda>e. (re_id e, re_body_key e)) ?batch), s)"
    using q' by (simp add: on_db_def get_unlabeled_emails_for_user_def no_fault_simps page_def)
  have all: "filter (\<lambda>e. body_matches lib parse dir cf (sy_fs s) (re_body_key e)) ?batch = ?batch"
    using hits by (simp add: list_all_iff)
  have scan: "scan_candidates lib parse dir cf (map (\<lambda>e. (re_id e, re_body_key e)) ?batch) s = (map re_id ?batch, s)"
    using q' all by (simp add: scan_quiet filter_map comp_def)
  have refuse: "snd (on_db (batch_assign_label_to_emails (sy_now s) es ?label) s) = s" for es
  proof (cases es)
    case (Cons e es')
    have "fst (insert_email_label (sy_now s) e ?label (sy_db s)) \<in> range Inl \<and>
        snd (insert_email_label (sy_now s) e ?label (sy_db s)) = sy_db s"
      using q' gone by (simp add: insert_email_label_def no_fault_simps email_label_constraints_def Let_def)
    then show ?thesis
      by (auto simp: on_db_def batch_assign_label_to_emails_def Cons db_bind_def split: prod.splits)
  qed (simp add: on_db_def batch_assign_label_to_emails_def db_return_def)
  have "backfill_loop lib parse dir job cf n 0 s = None" for n
  proof (induction n)
    case (Suc n)
    have len: "length ?batch = 50" using many by simp
    then have "?batch \<noteq> []" by auto
    then show ?case
      using backfill_step [OF fetch _ scan, of s n] refuse len Suc by simp
  qed simp
  then show ?thesis by (simp add: process_backfill_def builds)
qed

section \<open>Witnesses\<close>

definition naive_ac :: ac_lib where
  "naive_ac = \<lparr>ac_builds = (\<lambda>_. True), ac_find = (\<lambda>patterns body.
     filter (\<lambda>i. occurs_in (patterns ! i) body) [0..<length patterns])\<rparr>"

lemma naive_lawful: "lawful_ac naive_ac"
  by (fastforce simp: lawful_ac_def naive_ac_def filter_empty_conv in_set_conv_nth)

definition text_parser :: mail_parser where
  "text_parser raw = Some \<lparr>pm_subject = None, pm_from = None, pm_message_id = None, pm_in_reply_to = None,
     pm_references = None, pm_body_text = Some raw, pm_body_html = None, pm_attachments = []\<rparr>"

definition label_sample :: db where
  "label_sample = (sample_db Sqlite)\<lparr>t_labels := [\<lparr>lb_id = ''l1'', lb_user_id = ''u1'', lb_name = ''Bills'',
       lb_color = ''#fff'', lb_created_at = 0\<rparr>],
     t_filters := [\<lparr>fl_id = ''f1'', fl_user_id = ''u1'', fl_keyword = ''pay'', fl_label_id = ''l1'', fl_created_at = 0\<rparr>]\<rparr>"

lemma sample_rules: "rules_of label_sample ''u1'' = [(''pay'', ''l1'')]"
  by (simp add: rules_of_def label_sample_def)

lemma sample_pay: "trim ''pay'' = ''pay''"
  by (simp add: trim_eval char_eval)

lemma sample_compiled:
  "compile_filter_set naive_ac [(''pay'', ''l1'')] = Some \<lparr>cf_automaton = Some [''pay''], cf_label_ids = [''l1'']\<rparr>"
  by (simp add: compile_filter_set_def usable_rules_def sample_pay naive_ac_def Let_def)

lemma sample_occurs: "occurs_in ''pay'' ''Pay me''"
  by (simp add: occurs_in_def to_lowercase_def char_eval)


theorem full_queue_locks_tenant_out_witness:
  "fst (submit \<lparr>bj_user_id = ''u'', bj_keyword = ''k'', bj_label_id = ''l''\<rparr> backfill_engine_default) \<and>
   \<not> fst (submit \<lparr>bj_user_id = ''u'', bj_keyword = ''k'', bj_label_id = ''l''\<rparr>
     (run_steps engine_step (snd (submit \<lparr>bj_user_id = ''u'', bj_keyword = ''k'', bj_label_id = ''l''\<rparr>
       backfill_engine_default)) [TakeJob, JobDone]))"
  using full_queue_locks_tenant_out [of backfill_engine_default "\<lparr>bj_user_id = ''u'', bj_keyword = ''k'', bj_label_id = ''l''\<rparr>"
      "\<lparr>bj_user_id = ''u'', bj_keyword = ''k'', bj_label_id = ''l''\<rparr>" "[TakeJob, JobDone]"]
  by (simp add: backfill_engine_default_def one_per_tenant_def jobs_inside_def)

definition sample_backfill :: backfill_job where
  "sample_backfill = \<lparr>bj_user_id = ''u1'', bj_keyword = ''pay'', bj_label_id = ''l1''\<rparr>"

definition backfill_sys :: "db \<Rightarrow> sys" where
  "backfill_sys d = sample_sys\<lparr>sy_db := d, sy_fs := empty_fs\<lparr>files := (\<lambda>_. Some \<lparr>file_bytes = ''Pay me'', file_mode = mode_0600\<rparr>)\<rparr>\<rparr>"

lemma sample_body_matches:
  "body_matches naive_ac text_parser ''/m'' \<lparr>cf_automaton = Some [''pay''], cf_label_ids = [''l1'']\<rparr> (sy_fs (backfill_sys d)) k"
  using sample_occurs
  by (simp add: body_matches_def backfill_sys_def extract_searchable_body_def text_parser_def max_filter_scan_bytes_def
      filter_matches_def naive_ac_def)

theorem backfill_labels_matching_mails_witness:
  "\<exists>s'. process_backfill naive_ac text_parser ''/m'' 2 sample_backfill (backfill_sys label_sample) = Some s' \<and>
     t_email_labels (sy_db s') = [\<lparr>el_email_id = ''e1'', el_label_id = ''l1'', el_created_at = 100\<rparr>]"
proof -
  let ?s = "backfill_sys label_sample"
  have ready: "backfill_ready (bj_label_id sample_backfill) ?s"
    by (simp add: backfill_ready_def quiet_def backfill_sys_def sample_backfill_def label_sample_def sample_defs empty_fs_def
        sample_sys_def uniq_def)
  have b: "compile_filter_set naive_ac [(bj_keyword sample_backfill, bj_label_id sample_backfill)] =
      Some \<lparr>cf_automaton = Some [''pay''], cf_label_ids = [''l1'']\<rparr>"
    by (simp add: sample_backfill_def sample_compiled)
  have "length (t_emails (sy_db ?s)) < 2" by (simp add: backfill_sys_def label_sample_def sample_defs)
  note run = backfill_labels_matching_mails [OF ready b this, of text_parser "''/m''"]
  have unl: "unlabeled (sy_db ?s) ''u1'' ''l1'' = [sample_mail]"
    by (simp add: unlabeled_def backfill_sys_def label_sample_def sample_defs owned_by_def aliases_of_user_def opt_in_def labelled_def)
  show ?thesis unfolding run
    by (simp add: sample_backfill_def unl sample_body_matches labels_added_def label_rows_def)
       (simp add: backfill_sys_def label_sample_def sample_defs sample_sys_def)
qed

definition many_mails :: db where
  "many_mails = (sample_db Sqlite)\<lparr>t_emails := map (\<lambda>i. sample_mail\<lparr>re_id := show_nat i\<rparr>) [0..<50]\<rparr>"

theorem backfill_never_ends_for_missing_label_witness:
  "process_backfill naive_ac text_parser ''/m'' 1000 sample_backfill (backfill_sys many_mails) = None"
proof (rule backfill_never_ends_for_missing_label)
  let ?s = "backfill_sys many_mails"
  show "quiet ?s" by (simp add: quiet_def backfill_sys_def many_mails_def sample_defs empty_fs_def sample_sys_def)
  show "\<not> has lb_id (t_labels (sy_db ?s)) (bj_label_id sample_backfill)"
    by (simp add: backfill_sys_def many_mails_def sample_defs)
  show "compile_filter_set naive_ac [(bj_keyword sample_backfill, bj_label_id sample_backfill)] =
      Some \<lparr>cf_automaton = Some [''pay''], cf_label_ids = [''l1'']\<rparr>"
    by (simp add: sample_backfill_def sample_compiled)
  have "length (unlabeled (sy_db ?s) ''u1'' ''l1'') = 50"
    by (simp add: unlabeled_def backfill_sys_def many_mails_def sample_defs owned_by_def aliases_of_user_def opt_in_def labelled_def)
  then show "50 \<le> length (unlabeled (sy_db ?s) (bj_user_id sample_backfill) (bj_label_id sample_backfill))"
    by (simp add: sample_backfill_def)
  show "list_all (\<lambda>e. body_matches naive_ac text_parser ''/m'' \<lparr>cf_automaton = Some [''pay''], cf_label_ids = [''l1'']\<rparr>
      (sy_fs ?s) (re_body_key e)) (take 50 (unlabeled (sy_db ?s) (bj_user_id sample_backfill) (bj_label_id sample_backfill)))"
    by (simp add: sample_body_matches list_all_iff)
qed

end
