(* ===== verification/Abuse_Guard.thy ===== *)
theory Abuse_Guard
  imports Ip_Addr File_Store Crypto Contracts
begin

text \<open>
  What guards the SMTP port: the block list of \<open>src/src/inbound/blocklist.rs\<close> and the failure counters
  of \<open>src/src/inbound/rate_limit.rs\<close>.

  The block list lives in memory and in a file that is read at start-up; the counters live in memory.
\<close>

section \<open>Subnets\<close>

record ipv4_subnet =
  network :: "32 word"
  prefix_len :: nat

definition subnet_contains :: "ipv4_subnet \<Rightarrow> 32 word \<Rightarrow> bool" where
  "subnet_contains sn ip =
     (if prefix_len sn = 0 then True
      else if 32 \<le> prefix_len sn then ip = network sn
      else (let mask = mask_u32_max (32 - prefix_len sn) in ip AND mask = network sn AND mask))"

lemma drop_all_32: "drop_bit 32 (a :: 32 word) = 0"
  using drop_all [of a] by simp

text \<open>Subnet tests compare prefixes. For every prefix length of a byte, \<open>contains\<close> holds exactly when the
  first \<open>min prefix 32\<close> bits of the two addresses agree: the shifted \<open>u32\<close> mask is the right one.\<close>
theorem subnet_compares_prefix:
  "subnet_contains sn ip = same_prefix 32 (min (prefix_len sn) 32) ip (network sn)"
proof (cases "prefix_len sn = 0 \<or> 32 \<le> prefix_len sn")
  case True
  then show ?thesis by (auto simp: subnet_contains_def same_prefix_def drop_all_32)
next
  case False
  then show ?thesis by (simp add: subnet_contains_def same_prefix_def Let_def masks_compare(1))
qed

section \<open>The block list\<close>

record blocklist =
  bl_ips :: "ip_addr set"
  bl_subnets :: "ipv4_subnet list"
  bl_path :: string

datatype deny_rule = DenyIp ip_addr | DenyNet ipv4_subnet

definition parse_deny :: "string \<Rightarrow> deny_rule option" where
  "parse_deny raw =
     (case strip_prefix ''deny '' (trim raw) of
        None \<Rightarrow> None
      | Some stripped \<Rightarrow>
          (let clean = trim (trim_end_by (\<lambda>c. c = CHR '';'') stripped)
           in if CHR ''/'' \<in> set clean
              then (case split_once (CHR ''/'') clean of
                  Some (ip_str, prefix_str) \<Rightarrow>
                    (case (parse_ipv4 ip_str, parse_uint 256 prefix_str) of
                       (Some ip, Some plen) \<Rightarrow> Some (DenyNet \<lparr>network = ip, prefix_len = plen\<rparr>)
                     | _ \<Rightarrow> None)
                | None \<Rightarrow> None)
              else map_option DenyIp (parse_ip clean)))"

definition add_rule :: "deny_rule option \<Rightarrow> blocklist \<Rightarrow> blocklist" where
  "add_rule r bl = (case r of
     None \<Rightarrow> bl
   | Some (DenyIp ip) \<Rightarrow> bl\<lparr>bl_ips := insert ip (bl_ips bl)\<rparr>
   | Some (DenyNet sn) \<Rightarrow> bl\<lparr>bl_subnets := bl_subnets bl @ [sn]\<rparr>)"

definition load_rules :: "string \<Rightarrow> blocklist \<Rightarrow> blocklist" where
  "load_rules content bl = foldl (\<lambda>bl line. add_rule (parse_deny line) bl) bl (str_lines content)"

definition blocklist_new :: "string \<Rightarrow> fs \<Rightarrow> blocklist \<times> fs" where
  "blocklist_new file_path \<sigma> =
     (let empty = \<lparr>bl_ips = {}, bl_subnets = [], bl_path = file_path\<rparr>
      in case fs_read file_path \<sigma> of
           (Inl _, \<sigma>') \<Rightarrow> (empty, \<sigma>')
         | (Inr content, \<sigma>') \<Rightarrow> (if valid_utf8 content then load_rules content empty else empty, \<sigma>'))"

definition is_blocked :: "ip_addr \<Rightarrow> blocklist \<Rightarrow> bool" where
  "is_blocked ip bl =
     (if ip \<in> bl_ips bl then True
      else case ip of V4 w \<Rightarrow> list_ex (\<lambda>sn. subnet_contains sn w) (bl_subnets bl) | V6 _ \<Rightarrow> False)"

text \<open>\<open>add_ip\<close> inserts first; a new address is then written with \<open>writeln!\<close> in append mode: open, and one write
  for each piece of the line.\<close>

definition open_append :: "string \<Rightarrow> unit io" where
  "open_append path = syscall (\<lambda>\<sigma>. ((), case files \<sigma> path of None \<Rightarrow> store_file path [] \<sigma> | Some _ \<Rightarrow> \<sigma>))"

definition write_piece :: "string \<Rightarrow> string \<Rightarrow> unit io" where
  "write_piece path bytes = syscall (\<lambda>\<sigma>. ((), case files \<sigma> path of None \<Rightarrow> \<sigma>
     | Some f \<Rightarrow> store_file path (file_bytes f @ bytes) \<sigma>))"

fun write_pieces :: "string \<Rightarrow> string list \<Rightarrow> unit io" where
  "write_pieces path [] = io_return ()"
| "write_pieces path (b # bs) = io_bind (write_piece path b) (\<lambda>_. write_pieces path bs)"

definition add_ip :: "ip_addr \<Rightarrow> blocklist \<Rightarrow> fs \<Rightarrow> ((io_error + unit) \<times> blocklist) \<times> fs" where
  "add_ip ip bl \<sigma> =
     (let is_new = (ip \<notin> bl_ips bl);
          bl' = bl\<lparr>bl_ips := insert ip (bl_ips bl)\<rparr>
      in if is_new
         then (case io_bind (open_append (bl_path bl))
                      (\<lambda>_. write_pieces (bl_path bl) [''deny '', show_ip ip, '';'' @ [LF]]) \<sigma> of
             (r, \<sigma>') \<Rightarrow> ((r, bl'), \<sigma>'))
         else ((Ok (), bl'), \<sigma>))"

section \<open>The failure counters\<close>

record inbound_limits =
  tarpit_threshold :: nat
  block_threshold :: nat
  tarpit_duration_secs :: nat

text \<open>\<open>get_config\<close> is the environment variable, or the default; 64-bit integers parsed from it.\<close>

definition limits_from_env :: "(string \<Rightarrow> string option) \<Rightarrow> inbound_limits" where
  "limits_from_env env =
     (let number = (\<lambda>key default. unwrap_or default
            (parse_uint (2 ^ 64) (unwrap_or (show_nat default) (env key))))
      in \<lparr>tarpit_threshold = number ''SMTP_TARPIT_THRESHOLD'' 2,
          block_threshold = number ''SMTP_BLOCK_THRESHOLD'' 5,
          tarpit_duration_secs = number ''SMTP_TARPIT_DURATION_SECS'' 30\<rparr>)"

record rate_limit_entry =
  failures :: nat
  last_seen :: nat

type_synonym rate_limiter = "ip_addr \<Rightarrow> rate_limit_entry option"

definition rate_limiter_new :: rate_limiter where
  "rate_limiter_new = (\<lambda>_. None)"

definition record_failure :: "nat \<Rightarrow> ip_addr \<Rightarrow> rate_limiter \<Rightarrow> nat \<times> rate_limiter" where
  "record_failure now ip rl =
     (let n = (case rl ip of None \<Rightarrow> 0 | Some e \<Rightarrow> failures e) + 1
      in (n, rl(ip := Some \<lparr>failures = n, last_seen = now\<rparr>)))"

text \<open>\<open>duration_since\<close> of an earlier instant is zero.\<close>

definition cleanup :: "nat \<Rightarrow> nat \<Rightarrow> rate_limiter \<Rightarrow> rate_limiter" where
  "cleanup now max_age rl = (\<lambda>ip. case rl ip of
     None \<Rightarrow> None
   | Some e \<Rightarrow> if now - last_seen e < max_age then Some e else None)"

section \<open>Properties of the block list\<close>

lemma split_on_at [simp]: "split_on c (a @ c # b) = split_on c a @ split_on c b"
proof (induction a)
  case (Cons x a)
  then show ?case by (cases "split_on c a") auto
qed simp

lemma str_lines_append_line:
  assumes "content = [] \<or> last content = LF" "LF \<notin> set line" "line \<noteq> []" "last line \<noteq> CR"
  shows "str_lines (content @ line @ [LF]) = str_lines content @ [line]"
proof -
  have s: "strip_cr line = line"
    using assms(3,4) by (auto simp: strip_cr_def strip_suffix_def ends_with_def unwrap_or_def
        split: option.splits) (metis append_Nil2 hd_rev list.sel(1) rev_is_Nil_conv starts_with.simps(3) list.exhaust)
  show ?thesis
  proof (cases "content = []")
    case True
    then show ?thesis using assms s by (simp add: str_lines_def Let_def)
  next
    case False
    with assms(1) obtain c0 where c: "content = c0 @ [LF]" by (metis append_butlast_last_id)
    have "split_on LF (content @ line @ [LF]) = split_on LF c0 @ [line, []]"
      using assms(2) by (simp add: c)
    moreover have "split_on LF content = split_on LF c0 @ [[]]" by (simp add: c)
    ultimately show ?thesis by (simp add: str_lines_def Let_def s butlast_append)
  qed
qed

lemma show_ipv4_chars: "c \<in> set (show_ipv4 w) \<Longrightarrow> is_digit c \<or> c = CHR ''.''"
  by (auto simp: show_ipv4_def octets_def Let_def dest: show_nat_digits)

lemma show_ipv4_ends: "show_ipv4 w \<noteq> []" "is_digit (hd (show_ipv4 w))" "is_digit (last (show_ipv4 w))"
proof -
  have h: "is_digit (hd (show_nat n))" "is_digit (last (show_nat n))" for n
    using show_nat_digits [of _ n] by simp_all
  show "show_ipv4 w \<noteq> []" "is_digit (hd (show_ipv4 w))" "is_digit (last (show_ipv4 w))"
    using h by (simp_all add: show_ipv4_def octets_def Let_def)
qed

lemma digit_not_space: "is_digit c \<Longrightarrow> \<not> is_whitespace c \<and> c \<noteq> CHR '';'' \<and> c \<noteq> CHR ''/'' \<and> c \<noteq> LF \<and> c \<noteq> CR"
  by (auto simp: is_digit_def is_whitespace_def code_point_def)

lemma trim_by_id:
  assumes "s \<noteq> []" "\<not> P (hd s)" "\<not> P (last s)"
  shows "trim_by P s = s"
proof -
  have "dropWhile P s = s" "dropWhile P (rev s) = rev s"
    using assms by (simp_all add: dropWhile_eq_self_iff hd_rev)
  then show ?thesis by (simp add: trim_by_def trim_start_by_def trim_end_by_def)
qed

lemma parse_deny_ipv4: "parse_deny (''deny '' @ show_ipv4 w @ '';'') = Some (DenyIp (V4 w))"
proof -
  have t: "trim (''deny '' @ show_ipv4 w @ '';'') = ''deny '' @ show_ipv4 w @ '';''"
    unfolding trim_def by (rule trim_by_id) (simp_all add: char_eval)
  have l: "last (show_ipv4 w) \<noteq> CHR '';''" using show_ipv4_ends(3) digit_not_space by blast
  have "dropWhile (\<lambda>c. c = CHR '';'') (rev (show_ipv4 w)) = rev (show_ipv4 w)"
    using l show_ipv4_ends(1) [of w] by (simp add: dropWhile_eq_self_iff hd_rev)
  then have e: "trim_end_by (\<lambda>c. c = CHR '';'') (show_ipv4 w @ '';'') = show_ipv4 w"
    by (simp add: trim_end_by_def)
  have i: "trim (show_ipv4 w) = show_ipv4 w"
    unfolding trim_def using show_ipv4_ends [of w] digit_not_space by (intro trim_by_id) auto
  have n: "CHR ''/'' \<notin> set (show_ipv4 w)"
    using show_ipv4_chars [of _ w] digit_not_space by fastforce
  have "strip_prefix ''deny '' (''deny '' @ show_ipv4 w @ '';'') = Some (show_ipv4 w @ '';'')"
    by (rule strip_prefix_append)
  then show ?thesis using parse_show_ip_v4 [of w]
    by (simp only: parse_deny_def t option.case e i n Let_def if_False show_ip.simps option.map)
qed

definition ascii :: "string \<Rightarrow> bool" where
  "ascii s = list_all (\<lambda>c. code_point c < 128) s"

lemma ascii_utf8: "ascii s \<Longrightarrow> valid_utf8 s"
  unfolding valid_utf8_def by (rule from_utf8_lossy_ascii) (simp add: ascii_def list_all_iff)

definition content_of :: "string \<Rightarrow> fs \<Rightarrow> string" where
  "content_of path \<sigma> = (case files \<sigma> path of None \<Rightarrow> [] | Some f \<Rightarrow> file_bytes f)"

lemma blocklist_new_no_fault:
  assumes "io_faults \<sigma> = []" "ascii (content_of path \<sigma>)"
  shows "fst (blocklist_new path \<sigma>) =
    load_rules (content_of path \<sigma>) \<lparr>bl_ips = {}, bl_subnets = [], bl_path = path\<rparr>"
  using assms ascii_utf8
  by (auto simp: blocklist_new_def Let_def fs_read_def syscall_def content_of_def load_rules_def str_lines_def
      split: option.splits)

lemma add_ip_no_fault:
  assumes "io_faults \<sigma> = []" "ip \<notin> bl_ips bl"
  shows "\<exists>\<sigma>'. add_ip ip bl \<sigma> = ((Ok (), bl\<lparr>bl_ips := insert ip (bl_ips bl)\<rparr>), \<sigma>') \<and> io_faults \<sigma>' = [] \<and>
    content_of (bl_path bl) \<sigma>' = content_of (bl_path bl) \<sigma> @ ''deny '' @ show_ip ip @ '';'' @ [LF]"
  using assms
  by (cases "files \<sigma> (bl_path bl)")
    (simp_all add: add_ip_def Let_def open_append_def write_piece_def io_bind_def io_return_def syscall_def
      store_file_def content_of_def)

text \<open>A blocked address stays blocked after a restart. When \<open>add_ip\<close> has stored a new IPv4 address in a
  file that is empty, missing or ends with a line feed, the list read back from that file is the one the
  file gave before, with the address added; and the address is blocked in both.\<close>
theorem block_survives_restart:
  assumes faults: "io_faults \<sigma> = []" and new: "V4 w \<notin> bl_ips bl"
    and plain: "ascii (content_of (bl_path bl) \<sigma>)"
    and nl: "content_of (bl_path bl) \<sigma> = [] \<or> last (content_of (bl_path bl) \<sigma>) = LF"
  shows "(case add_ip (V4 w) bl \<sigma> of ((r, bl'), \<sigma>') \<Rightarrow>
     is_ok r \<and> is_blocked (V4 w) bl' \<and>
     fst (blocklist_new (bl_path bl) \<sigma>') =
       add_rule (Some (DenyIp (V4 w))) (fst (blocklist_new (bl_path bl) \<sigma>)) \<and>
     is_blocked (V4 w) (fst (blocklist_new (bl_path bl) \<sigma>')))"
proof -
  let ?c = "content_of (bl_path bl) \<sigma>" and ?line = "''deny '' @ show_ipv4 w @ '';''"
  from add_ip_no_fault [OF faults new] obtain \<sigma>' where
    a: "add_ip (V4 w) bl \<sigma> = ((Ok (), bl\<lparr>bl_ips := insert (V4 w) (bl_ips bl)\<rparr>), \<sigma>')"
    and f: "io_faults \<sigma>' = []" and c: "content_of (bl_path bl) \<sigma>' = ?c @ ?line @ [LF]" by auto
  have "\<forall>x \<in> set (show_ipv4 w). code_point x < 128 \<and> x \<noteq> LF"
    using show_ipv4_chars [of _ w] by (fastforce simp: is_digit_def code_point_def)
  then have "ascii ?line" and lf: "LF \<notin> set ?line" by (auto simp: ascii_def list_all_iff code_point_def)
  then have asc: "ascii (content_of (bl_path bl) \<sigma>')"
    unfolding c using plain by (simp add: ascii_def code_point_def)
  have ls: "str_lines (content_of (bl_path bl) \<sigma>') = str_lines ?c @ [?line]"
    unfolding c by (rule str_lines_append_line [OF nl lf]) simp_all
  have new: "fst (blocklist_new (bl_path bl) \<sigma>') =
      add_rule (Some (DenyIp (V4 w))) (fst (blocklist_new (bl_path bl) \<sigma>))"
    unfolding blocklist_new_no_fault [OF f asc] blocklist_new_no_fault [OF faults plain] load_rules_def ls
    using parse_deny_ipv4 [of w] by simp
  show ?thesis unfolding a by (simp add: new is_ok_def is_blocked_def add_rule_def)
qed

text \<open>A file written by hand without a final line feed, and what it becomes.\<close>

definition hand_written :: fs where
  "hand_written = empty_fs\<lparr>files := [''b'' \<mapsto> \<lparr>file_bytes = ''deny 1.2.3.4;'', file_mode = mode_0644\<rparr>]\<rparr>"

definition guard_list :: blocklist where
  "guard_list = \<lparr>bl_ips = {V4 0x01020304}, bl_subnets = [], bl_path = ''b''\<rparr>"

definition terminated_file :: fs where
  "terminated_file = empty_fs\<lparr>files := [''b'' \<mapsto> \<lparr>file_bytes = ''deny 1.2.3.4;'' @ [LF], file_mode = mode_0644\<rparr>]\<rparr>"

theorem block_survives_restart_witness:
  "(case add_ip (V4 0x05060708) guard_list terminated_file of ((r, bl'), \<sigma>') \<Rightarrow>
     is_ok r \<and> is_blocked (V4 0x05060708) (fst (blocklist_new ''b'' \<sigma>')))"
proof -
  have "io_faults terminated_file = []" "V4 0x05060708 \<notin> bl_ips guard_list"
    "ascii (content_of (bl_path guard_list) terminated_file)"
    "content_of (bl_path guard_list) terminated_file = [] \<or> last (content_of (bl_path guard_list) terminated_file) = LF"
    by (simp_all add: terminated_file_def guard_list_def content_of_def ascii_def empty_fs_def code_point_def)
  note block_survives_restart [OF this]
  moreover have "bl_path guard_list = ''b''" by (simp add: guard_list_def)
  ultimately show ?thesis by (auto split: prod.splits)
qed

lemma parse_ip_literals:
  "parse_ip ''1.2.3.4'' = Some (V4 0x01020304)"
  "parse_ip ''5.6.7.8'' = Some (V4 0x05060708)"
  by (simp_all add: parse_ip_def parse_ipv4_def parse_octet_def from_octets_def Let_def char_eval)

lemma show_ipv4_literal: "show_ipv4 0x05060708 = ''5.6.7.8''"
  by (simp add: show_ipv4_def octets_def Let_def num_eval)

lemma parse_merged: "parse_deny ''deny 1.2.3.4;deny 5.6.7.8;'' = None"
  by (simp add: parse_deny_def trim_eval char_eval strip_prefix_def parse_ip_def parse_ipv4_def parse_octet_def
      parse_ipv6_def parse_groups_def parse_group_def hex_value_def Let_def)

text \<open>An unterminated file loses its last rule. The file holds \<open>deny 1.2.3.4;\<close> without a final line feed,
  and both \<open>1.2.3.4\<close> and the address \<open>5.6.7.8\<close> that is then added are blocked; \<open>add_ip\<close> reports success,
  but the two rules now share a line, and after a restart neither address is blocked.\<close>
theorem unterminated_file_unblocks:
  "is_blocked (V4 0x01020304) (fst (blocklist_new ''b'' hand_written)) \<and>
   (case add_ip (V4 0x05060708) guard_list hand_written of ((r, bl'), \<sigma>') \<Rightarrow>
      is_ok r \<and> is_blocked (V4 0x05060708) bl' \<and>
      \<not> is_blocked (V4 0x01020304) (fst (blocklist_new ''b'' \<sigma>')) \<and>
      \<not> is_blocked (V4 0x05060708) (fst (blocklist_new ''b'' \<sigma>')))"
proof -
  have one: "parse_deny ''deny 1.2.3.4;'' = Some (DenyIp (V4 0x01020304))"
    by (simp add: parse_deny_def trim_eval char_eval strip_prefix_def parse_ip_literals)
  have hw: "io_faults hand_written = []" "content_of ''b'' hand_written = ''deny 1.2.3.4;''"
    "V4 0x05060708 \<notin> bl_ips guard_list" "bl_path guard_list = ''b''"
    by (simp_all add: hand_written_def content_of_def empty_fs_def guard_list_def)
  have before: "bl_ips (fst (blocklist_new ''b'' hand_written)) = {V4 0x01020304}"
    using blocklist_new_no_fault [OF hw(1), of "''b''"]
    by (simp add: hw(2) ascii_def code_point_def load_rules_def str_lines_def one add_rule_def)
  from add_ip_no_fault [OF hw(1,3)] obtain \<sigma>' where
    a: "add_ip (V4 0x05060708) guard_list hand_written =
        ((Ok (), guard_list\<lparr>bl_ips := insert (V4 0x05060708) (bl_ips guard_list)\<rparr>), \<sigma>')"
    and f: "io_faults \<sigma>' = []" and c: "content_of ''b'' \<sigma>' = ''deny 1.2.3.4;deny 5.6.7.8;'' @ [LF]"
    by (auto simp: hw show_ipv4_literal)
  have "str_lines (''deny 1.2.3.4;deny 5.6.7.8;'' @ [LF]) = [''deny 1.2.3.4;deny 5.6.7.8;'']"
    using str_lines_append_line [of "[]" "''deny 1.2.3.4;deny 5.6.7.8;''"] by (simp add: str_lines_def)
  then have after: "fst (blocklist_new ''b'' \<sigma>') = \<lparr>bl_ips = {}, bl_subnets = [], bl_path = ''b''\<rparr>"
    using blocklist_new_no_fault [OF f, of "''b''"]
    by (simp add: c ascii_def code_point_def load_rules_def parse_merged add_rule_def)
  show ?thesis by (simp add: a after before is_ok_def is_blocked_def)
qed

section \<open>Properties of the counters\<close>

datatype guard_event = Failed nat ip_addr | Swept nat nat

text \<open>The counters as a machine over their events; the invariant bounds every count by the number of
  failures recorded.\<close>

fun counter_step :: "rate_limiter \<times> nat \<Rightarrow> guard_event \<Rightarrow> rate_limiter \<times> nat" where
  "counter_step (rl, tot) (Failed now ip) = (snd (record_failure now ip rl), tot + 1)"
| "counter_step (rl, tot) (Swept now max_age) = (cleanup now max_age rl, tot)"

definition counters_bounded :: "rate_limiter \<times> nat \<Rightarrow> bool" where
  "counters_bounded s = (\<forall>ip e. fst s ip = Some e \<longrightarrow> 1 \<le> failures e \<and> failures e \<le> snd s)"

interpretation counters: machine counter_step counters_bounded
proof
  fix s i
  assume inv: "counters_bounded s"
  obtain rl tot where s: "s = (rl, tot)" by (cases s)
  show "counters_bounded (counter_step s i)"
  proof (cases i)
    case (Failed now ip)
    show ?thesis
      unfolding s Failed counters_bounded_def
    proof (intro allI impI)
      fix j e
      assume e: "fst (counter_step (rl, tot) (Failed now ip)) j = Some e"
      show "1 \<le> failures e \<and> failures e \<le> snd (counter_step (rl, tot) (Failed now ip))"
        using e inv by (cases "j = ip"; cases "rl ip")
          (auto simp: s record_failure_def counters_bounded_def Let_def le_SucI)
    qed
  next
    case (Swept now max_age)
    with inv show ?thesis
      by (auto simp: s counters_bounded_def cleanup_def split: option.splits if_splits)
  qed
qed

definition failures_of :: "rate_limiter \<Rightarrow> ip_addr \<Rightarrow> nat" where
  "failures_of rl ip = (case rl ip of None \<Rightarrow> 0 | Some e \<Rightarrow> failures e)"

definition failed_for :: "ip_addr \<Rightarrow> guard_event \<Rightarrow> bool" where
  "failed_for ip ev = (case ev of Failed _ j \<Rightarrow> j = ip | Swept _ _ \<Rightarrow> False)"

lemma failures_step:
  "failures_of (fst (counter_step s (Failed now j))) ip = failures_of (fst s) ip + (if j = ip then 1 else 0)"
  by (cases s) (auto simp: failures_of_def record_failure_def Let_def split: option.splits)

lemma failures_run:
  assumes "list_all (\<lambda>ev. case ev of Failed _ _ \<Rightarrow> True | Swept _ _ \<Rightarrow> False) evs"
  shows "failures_of (fst (run_steps counter_step s evs)) ip = failures_of (fst s) ip + length (filter (failed_for ip) evs)"
  using assms
proof (induction evs arbitrary: s)
  case (Cons ev evs)
  then show ?case
    by (cases ev) (simp_all add: failures_step failed_for_def)
qed simp

text \<open>Failures are counted per address and never invented. Between two sweeps the counter of an address
  is its number of recorded failures, whatever other addresses do; over any history of failures and
  sweeps no counter exceeds the failures recorded; a sweep keeps exactly the entries younger than
  its age.\<close>
theorem failures_counted_per_address:
  "(list_all (\<lambda>ev. case ev of Failed _ _ \<Rightarrow> True | Swept _ _ \<Rightarrow> False) evs \<longrightarrow>
     fst (record_failure now ip (fst (run_steps counter_step (rl, n) evs))) =
       failures_of rl ip + length (filter (failed_for ip) evs) + 1) \<and>
   failures_of (fst (run_steps counter_step (rate_limiter_new, 0) any)) ip
     \<le> snd (run_steps counter_step (rate_limiter_new, 0) any) \<and>
   failures_of (cleanup t age rl) ip =
     (case rl ip of None \<Rightarrow> 0 | Some e \<Rightarrow> if t - last_seen e < age then failures e else 0)"
proof (intro conjI impI)
  assume "list_all (\<lambda>ev. case ev of Failed _ _ \<Rightarrow> True | Swept _ _ \<Rightarrow> False) evs"
  from failures_run [OF this, of "(rl, n)" ip]
  show "fst (record_failure now ip (fst (run_steps counter_step (rl, n) evs))) =
      failures_of rl ip + length (filter (failed_for ip) evs) + 1"
    by (simp add: record_failure_def failures_of_def Let_def)
next
  have "counters_bounded (run_steps counter_step (rate_limiter_new, 0) any)"
    by (rule counters.run_inv) (simp add: counters_bounded_def rate_limiter_new_def)
  then show "failures_of (fst (run_steps counter_step (rate_limiter_new, 0) any)) ip
     \<le> snd (run_steps counter_step (rate_limiter_new, 0) any)"
    by (auto simp: counters_bounded_def failures_of_def split: option.splits)
next
  show "failures_of (cleanup t age rl) ip =
     (case rl ip of None \<Rightarrow> 0 | Some e \<Rightarrow> if t - last_seen e < age then failures e else 0)"
    by (auto simp: cleanup_def failures_of_def split: option.splits)
qed

theorem failures_counted_per_address_witness:
  "fst (record_failure 9 (V4 1) (fst (run_steps counter_step (rate_limiter_new, 0)
      [Failed 1 (V4 1), Failed 2 (V4 2), Failed 3 (V4 1)]))) = 3"
  using failures_counted_per_address [of "[Failed 1 (V4 1), Failed 2 (V4 2), Failed 3 (V4 1)]" 9 "V4 1" rate_limiter_new 0]
  by (simp add: failures_of_def rate_limiter_new_def failed_for_def)

end
