(* ===== verification/Smtp_Session.thy ===== *)
theory Smtp_Session
  imports Filter_Engine Abuse_Guard
begin

text \<open>
  The inbound SMTP server: \<open>SmtpSession\<close> of \<open>src/src/inbound/protocol.rs\<close> and the accept loop and cleanup
  task of \<open>src/src/inbound/mod.rs\<close>.

  \<open>world\<close> is what the sessions share: the system (database, files, clock), the filter cache, the failure
  counters, the block list, the dashboard events sent and the tasks spawned and not yet run.  A session is
  driven by the events of its client: a line with its terminator, the end of the stream, a read error, or 30
  idle seconds.  Errors of the stream's write side come from a schedule.
\<close>

section \<open>State\<close>

datatype dashboard_event = NewEmail uuid uuid | EmailForwarded uuid uuid

datatype spawned_task =
    RelayReply string string string
  | ForwardMail uuid uuid uuid string string string

record world =
  wd_sys :: sys
  wd_cache :: filter_cache
  wd_limiter :: rate_limiter
  wd_blocklist :: blocklist
  wd_events :: "dashboard_event list"
  wd_tasks :: "spawned_task list"

datatype tls_setup = NoAcceptor | NoCertificate | Certificate

record mail_service =
  ms_outbound :: outbound
  ms_storage_dir :: string
  ms_limits :: inbound_limits
  ms_ac :: ac_lib
  ms_tls :: tls_setup

datatype smtp_state = Greet | MailFrom | RcptTo | Data | ReadingBody

datatype any_stream = TcpStream | TlsStream | EmptyStream

record smtp_session =
  ss_stream :: any_stream
  ss_state :: smtp_state
  ss_sender :: "string option"
  ss_recipient :: "string option"
  ss_alias_id :: "uuid option"
  ss_destination_email :: "string option"
  ss_auto_forward :: bool
  ss_reply_mapping :: "reply_mapping_lookup option"
  ss_body_buffer :: smart_body_buffer
  ss_peer_ip :: ip_addr
  ss_written :: "string list"
  ss_write_faults :: "bool list"
  ss_handshakes :: "bool list"

datatype session_error = SessionIo io_error | TlsHandshake | NotPlainTcp | Panicked

type_synonym 'a session = "smtp_session \<times> world \<Rightarrow> (session_error + 'a) \<times> smtp_session \<times> world"

definition s_return :: "'a \<Rightarrow> 'a session" where
  "s_return a = (\<lambda>(ss, w). (Ok a, ss, w))"

definition s_fail :: "session_error \<Rightarrow> 'a session" where
  "s_fail e = (\<lambda>(ss, w). (Err e, ss, w))"

definition s_bind :: "'a session \<Rightarrow> ('a \<Rightarrow> 'b session) \<Rightarrow> 'b session" where
  "s_bind m f = (\<lambda>sw. case m sw of (Inl e, ss, w) \<Rightarrow> (Inl e, ss, w) | (Inr a, ss, w) \<Rightarrow> f a (ss, w))"

definition s_get :: "(smtp_session \<Rightarrow> 'a) \<Rightarrow> 'a session" where
  "s_get f = (\<lambda>(ss, w). (Ok (f ss), ss, w))"

definition s_update :: "(smtp_session \<Rightarrow> smtp_session) \<Rightarrow> unit session" where
  "s_update f = (\<lambda>(ss, w). (Ok (), f ss, w))"

definition s_world :: "(world \<Rightarrow> 'a \<times> world) \<Rightarrow> 'a session" where
  "s_world f = (\<lambda>(ss, w). case f w of (a, w) \<Rightarrow> (Ok a, ss, w))"

text \<open>Operations of the database and the file system; their result is a value for the code to inspect.\<close>

definition w_sys :: "(sys \<Rightarrow> 'a \<times> sys) \<Rightarrow> world \<Rightarrow> 'a \<times> world" where
  "w_sys f w = (case f (wd_sys w) of (a, s) \<Rightarrow> (a, w\<lparr>wd_sys := s\<rparr>))"

definition s_db :: "'a dbm \<Rightarrow> (sqlx_error + 'a) session" where
  "s_db m = s_world (w_sys (on_db m))"

definition s_fresh :: "uuid session" where
  "s_fresh = s_world (w_sys fresh_uuid)"

definition s_now :: "time session" where
  "s_now = s_world (\<lambda>w. (sy_now (wd_sys w), w))"

definition spawn :: "spawned_task \<Rightarrow> unit session" where
  "spawn t = s_world (\<lambda>w. ((), w\<lparr>wd_tasks := wd_tasks w @ [t]\<rparr>))"

definition notify :: "dashboard_event \<Rightarrow> unit session" where
  "notify e = s_world (\<lambda>w. ((), w\<lparr>wd_events := wd_events w @ [e]\<rparr>))"

text \<open>An operation on the body buffer, its I/O error returned with \<open>?\<close>.\<close>

definition s_buffer ::
  "(smart_body_buffer \<times> fs \<Rightarrow> (io_error + 'a) \<times> smart_body_buffer \<times> fs) \<Rightarrow> (io_error + 'a) session" where
  "s_buffer f = (\<lambda>(ss, w). case f (ss_body_buffer ss, sy_fs (wd_sys w)) of
     (r, b, \<sigma>) \<Rightarrow> (Ok r, ss\<lparr>ss_body_buffer := b\<rparr>, w\<lparr>wd_sys := (wd_sys w)\<lparr>sy_fs := \<sigma>\<rparr>\<rparr>))"

definition s_try :: "(io_error + 'a) session \<Rightarrow> 'a session" where
  "s_try m = s_bind m (\<lambda>r. case r of Inl e \<Rightarrow> s_fail (SessionIo e) | Inr a \<Rightarrow> s_return a)"

section \<open>Commands\<close>

definition trim_brackets :: "string \<Rightarrow> string" where
  "trim_brackets s = trim_by (\<lambda>c. c = CHR ''<'' \<or> c = CHR ''>'') (trim s)"

definition extract_recipient :: "string \<Rightarrow> string option" where
  "extract_recipient cmd = (case split_once_str ''to:'' (to_lowercase cmd) of
     None \<Rightarrow> None
   | Some (_, addr) \<Rightarrow> (let s = trim_brackets addr in if s = [] then None else Some s))"

definition extract_sender :: "string \<Rightarrow> string option" where
  "extract_sender cmd = (case split_once_str ''from:'' (to_lowercase cmd) of
     None \<Rightarrow> None | Some (_, addr) \<Rightarrow> Some (trim_brackets addr))"

definition session_new :: "ip_addr \<Rightarrow> bool list \<Rightarrow> bool list \<Rightarrow> smtp_session" where
  "session_new peer_ip write_faults handshakes =
     \<lparr>ss_stream = TcpStream, ss_state = Greet, ss_sender = None, ss_recipient = None, ss_alias_id = None,
      ss_destination_email = None, ss_auto_forward = False, ss_reply_mapping = None,
      ss_body_buffer = buffer_new 65536, ss_peer_ip = peer_ip, ss_written = [], ss_write_faults = write_faults,
      ss_handshakes = handshakes\<rparr>"

definition write_line :: "string \<Rightarrow> unit session" where
  "write_line msg = (\<lambda>(ss, w).
     if ss_stream ss = EmptyStream then (Err (SessionIo BrokenPipe), ss, w)
     else (case ss_write_faults ss of
         True # rest \<Rightarrow> (Err (SessionIo (OtherIo ''write'')), ss\<lparr>ss_write_faults := rest\<rparr>, w)
       | faults \<Rightarrow> (Ok (), ss\<lparr>ss_written := ss_written ss @ [msg @ CRLF], ss_write_faults := tl faults\<rparr>, w)))"

definition set_state :: "smtp_state \<Rightarrow> unit session" where
  "set_state st = s_update (\<lambda>ss. ss\<lparr>ss_state := st\<rparr>)"

definition handle_greet :: "string \<Rightarrow> unit session" where
  "handle_greet cmd =
     (if starts_with ''HELO'' (to_uppercase cmd) \<or> starts_with ''EHLO'' (to_uppercase cmd)
      then s_bind (write_line ''250 Hello'') (\<lambda>_. set_state MailFrom)
      else write_line ''500 Syntax error, command unrecognized'')"

definition handle_mail_from :: "string \<Rightarrow> unit session" where
  "handle_mail_from cmd = (case extract_sender cmd of
     Some addr \<Rightarrow> s_bind (s_update (\<lambda>ss. ss\<lparr>ss_sender := Some addr\<rparr>)) (\<lambda>_.
       s_bind (write_line ''250 OK'') (\<lambda>_. set_state RcptTo))
   | None \<Rightarrow> write_line ''501 Syntax error'')"

definition handle_data_command :: "string \<Rightarrow> unit session" where
  "handle_data_command cmd =
     (if to_uppercase cmd = ''DATA''
      then s_bind (write_line ''354 End data with <CR><LF>.<CR><LF>'') (\<lambda>_. set_state ReadingBody)
      else write_line ''500 Error'')"

section \<open>RCPT TO\<close>

text \<open>A recipient that is a reply token: the sender must be the alias' owner, and pass SPF.\<close>

definition spf_refuses :: "outbound \<Rightarrow> string \<Rightarrow> ip_addr \<Rightarrow> bool" where
  "spf_refuses ob sender_addr peer_ip = (case split_on (CHR ''@'') sender_addr of
     [_, sender_domain] \<Rightarrow> \<not> service_check_spf ob sender_domain peer_ip
   | _ \<Rightarrow> False)"

definition rcpt_reply_token :: "mail_service \<Rightarrow> string \<Rightarrow> unit session" where
  "rcpt_reply_token svc local_part =
     s_bind (s_db (get_reply_mapping_by_token local_part)) (\<lambda>r. case r of
       Inl _ \<Rightarrow> write_line ''451 Requested action aborted''
     | Inr None \<Rightarrow> write_line ''550 User Not Found''
     | Inr (Some mapping) \<Rightarrow> s_bind (s_get ss_sender) (\<lambda>sender. case sender of
         None \<Rightarrow> write_line ''503 Bad sequence of commands (MAIL FROM first)''
       | Some sender_addr \<Rightarrow>
           if to_lowercase sender_addr \<noteq> to_lowercase (ml_destination_email mapping)
           then write_line ''550 Sender Denied''
           else s_bind (s_get ss_peer_ip) (\<lambda>peer_ip.
             if spf_refuses (ms_outbound svc) sender_addr peer_ip
             then write_line ''550 SPF Validation Failed''
             else s_bind (s_update (\<lambda>ss. ss\<lparr>ss_reply_mapping := Some mapping, ss_state := Data\<rparr>)) (\<lambda>_.
               write_line ''250 2.1.5 Destination address accepted''))))"

text \<open>An unknown recipient counts as a failure of the peer: refused, tarpitted, or blocked.\<close>

definition count_failure :: "ip_addr \<Rightarrow> nat session" where
  "count_failure ip = s_world (\<lambda>w. case record_failure (nat (sy_now (wd_sys w))) ip (wd_limiter w) of
     (n, rl) \<Rightarrow> (n, w\<lparr>wd_limiter := rl\<rparr>))"

definition block_peer :: "ip_addr \<Rightarrow> unit session" where
  "block_peer ip = s_world (\<lambda>w. case add_ip ip (wd_blocklist w) (sy_fs (wd_sys w)) of
     ((_, bl), \<sigma>) \<Rightarrow> ((), w\<lparr>wd_blocklist := bl, wd_sys := (wd_sys w)\<lparr>sy_fs := \<sigma>\<rparr>\<rparr>))"

definition sleep_secs :: "nat \<Rightarrow> unit session" where
  "sleep_secs n = s_world (w_sys (\<lambda>s. ((), s\<lparr>sy_now := sy_now s + int n\<rparr>)))"

definition unknown_recipient :: "mail_service \<Rightarrow> unit session" where
  "unknown_recipient svc =
     s_bind (s_get ss_peer_ip) (\<lambda>ip. s_bind (count_failure ip) (\<lambda>failures.
       if block_threshold (ms_limits svc) \<le> failures
       then s_bind (block_peer ip) (\<lambda>_.
         s_bind (write_line ''554 5.7.1 Connection refused - IP address blocked'') (\<lambda>_.
           s_fail (SessionIo ConnectionAborted)))
       else if tarpit_threshold (ms_limits svc) \<le> failures
       then s_bind (sleep_secs (tarpit_duration_secs (ms_limits svc))) (\<lambda>_.
         write_line ''451 4.7.1 Please try again later'')
       else write_line ''550 User Not Found''))"

definition accept_alias :: "alias_lookup \<Rightarrow> unit session" where
  "accept_alias row = s_bind (s_update (\<lambda>ss. ss\<lparr>ss_alias_id := Some (lk_id row),
       ss_destination_email := Some (lk_destination_email row), ss_auto_forward := lk_auto_forward row,
       ss_state := Data\<rparr>)) (\<lambda>_. write_line ''250 2.1.5 Destination address accepted'')"

definition rcpt_alias :: "mail_service \<Rightarrow> string \<Rightarrow> string \<Rightarrow> unit session" where
  "rcpt_alias svc resolved_local resolved_domain =
     s_bind (s_db (resolve_recipient_alias resolved_local resolved_domain)) (\<lambda>r. case r of
       Inr (Some row) \<Rightarrow> accept_alias row
     | Inr None \<Rightarrow> unknown_recipient svc
     | Inl _ \<Rightarrow> write_line ''451 Requested action aborted'')"

definition handle_rcpt_to :: "mail_service \<Rightarrow> string \<Rightarrow> unit session" where
  "handle_rcpt_to svc cmd = (case extract_recipient cmd of
     None \<Rightarrow> write_line ''501 Syntax error in address''
   | Some addr \<Rightarrow> s_bind (s_update (\<lambda>ss. ss\<lparr>ss_recipient := Some addr\<rparr>)) (\<lambda>_.
       case split_on (CHR ''@'') addr of
         [local_part, full_domain] \<Rightarrow>
           if starts_with ''reply-'' local_part then rcpt_reply_token svc local_part
           else if starts_with ''srs0+'' (to_lowercase local_part)
           then s_bind (s_world (\<lambda>w. (service_decode_srs (ms_outbound svc) addr (wd_sys w), w))) (\<lambda>decoded.
             case decoded of
               None \<Rightarrow> write_line ''550 User Not Found''
             | Some original_sender \<Rightarrow> (case split_once (CHR ''@'') original_sender of
                 None \<Rightarrow> write_line ''550 User Not Found''
               | Some (resolved_local, resolved_domain) \<Rightarrow> rcpt_alias svc resolved_local resolved_domain))
           else rcpt_alias svc local_part full_domain
       | _ \<Rightarrow> write_line ''501 Syntax error in address''))"

section \<open>The message body\<close>

definition trim_line_end :: "string \<Rightarrow> string" where
  "trim_line_end s = trim_end_by (\<lambda>c. c = CR \<or> c = LF) s"

definition finish_message :: "unit session" where
  "finish_message = s_update (\<lambda>ss. ss\<lparr>ss_state := Greet, ss_body_buffer := buffer_clear (ss_body_buffer ss)\<rparr>)"

definition relay_reply :: "mail_service \<Rightarrow> reply_mapping_lookup \<Rightarrow> unit session" where
  "relay_reply svc mapping =
     (let alias_address = ml_alias_subdomain mapping @ ''@'' @ ml_domain_name mapping
      in s_bind (s_try (s_buffer buffer_get_content_bytes)) (\<lambda>content_bytes.
         s_bind (s_world (w_sys (mime_env_of (ms_outbound svc)))) (\<lambda>env.
         s_bind (spawn (RelayReply (ml_original_sender mapping) alias_address
             (prepare_reply_for_relay (ob_parse (ms_outbound svc)) env content_bytes alias_address
               (ml_original_sender mapping)))) (\<lambda>_.
         s_bind (write_line ''250 OK: reply relayed'') (\<lambda>_. finish_message)))))"

definition thread_references :: "email_metadata \<Rightarrow> string list" where
  "thread_references m = em_references m @ (case em_in_reply_to m of
     None \<Rightarrow> [] | Some r \<Rightarrow> if r \<in> set (em_references m) then [] else [r])"

fun fresh_uuids :: "nat \<Rightarrow> sys \<Rightarrow> uuid list \<times> sys" where
  "fresh_uuids 0 s = ([], s)"
| "fresh_uuids (Suc n) s = (case fresh_uuid s of (i, s) \<Rightarrow> case fresh_uuids n s of (is, s) \<Rightarrow> (i # is, s))"

definition label_matches :: "mail_service \<Rightarrow> received_email \<Rightarrow> string \<Rightarrow> unit session" where
  "label_matches svc email raw_bytes =
     s_bind (s_world (\<lambda>w. case evaluate (ms_ac svc) (ob_parse (ms_outbound svc)) (rv_user_id email) raw_bytes
           (wd_cache w) (sy_db (wd_sys w)) of
         (r, cache, d) \<Rightarrow> (r, w\<lparr>wd_cache := cache, wd_sys := (wd_sys w)\<lparr>sy_db := d\<rparr>\<rparr>))) (\<lambda>r.
       case r of
         Inl _ \<Rightarrow> s_return ()
       | Inr matched_label_ids \<Rightarrow>
           if matched_label_ids \<noteq> []
           then s_bind s_now (\<lambda>now. s_bind (s_db (assign_labels_to_email now (rv_id email) matched_label_ids)) (\<lambda>_. s_return ()))
           else s_return ())"

definition forward_stored :: "email_metadata \<Rightarrow> received_email \<Rightarrow> uuid \<Rightarrow> unit session" where
  "forward_stored metadata email alias_id =
     s_bind (s_get (\<lambda>ss. (ss_auto_forward ss, ss_destination_email ss))) (\<lambda>fwd. case fwd of
       (True, Some dest) \<Rightarrow> s_bind (s_try (s_buffer buffer_get_content_bytes)) (\<lambda>body.
         spawn (ForwardMail (rv_id email) (rv_user_id email) alias_id dest (em_sender metadata) body))
     | _ \<Rightarrow> s_return ())"

definition mail_stored :: "mail_service \<Rightarrow> email_metadata \<Rightarrow> uuid \<Rightarrow> uuid \<Rightarrow> received_email \<Rightarrow> unit session" where
  "mail_stored svc metadata alias_id body_key email =
     s_bind (s_buffer buffer_get_content_bytes) (\<lambda>r.
     s_bind (label_matches svc email (case r of Inl _ \<Rightarrow> [] | Inr bytes \<Rightarrow> bytes)) (\<lambda>_.
     s_bind (notify (NewEmail (rv_user_id email) (unwrap_or (rv_id email) (rv_thread_id email)))) (\<lambda>_.
     s_bind (forward_stored metadata email alias_id) (\<lambda>_.
       write_line (''250 OK: queued as '' @ body_key)))))"

definition store_message :: "mail_service \<Rightarrow> unit session" where
  "store_message svc =
     s_bind (s_get ss_sender) (\<lambda>sender.
     s_bind (s_try (s_buffer (\<lambda>(b, \<sigma>). case buffer_extract_full_metadata
           (extract_full_metadata (ob_parse (ms_outbound svc))) (unwrap_or [] sender) b \<sigma> of (r, \<sigma>) \<Rightarrow> (r, b, \<sigma>))))
       (\<lambda>(metadata, attachments).
     s_bind s_fresh (\<lambda>body_key.
     s_bind (s_try (s_buffer (buffer_persist_to_path (bodies_path (ms_storage_dir svc) body_key)))) (\<lambda>_.
     s_bind (s_get ss_alias_id) (\<lambda>alias_opt. case alias_opt of
       None \<Rightarrow> s_fail Panicked
     | Some alias_id \<Rightarrow>
     s_bind (s_db (find_thread_id_by_references (thread_references metadata))) (\<lambda>found.
     let thread_id = (case found of Inl _ \<Rightarrow> None | Inr t \<Rightarrow> t) in
     s_bind s_fresh (\<lambda>email_id.
     s_bind (s_world (w_sys (fresh_uuids (length attachments)))) (\<lambda>attachment_ids.
     s_bind s_now (\<lambda>now.
     s_bind (s_db (insert_email_with_attachments email_id attachment_ids now alias_id (em_sender metadata)
         (em_subject metadata) body_key None (em_message_id metadata) thread_id attachments)) (\<lambda>stored.
     s_bind (case stored of
         Inr email \<Rightarrow> mail_stored svc metadata alias_id body_key email
       | Inl _ \<Rightarrow> write_line ''451 Requested action aborted'') (\<lambda>_. finish_message)))))))))))"

definition handle_body_line :: "mail_service \<Rightarrow> string \<Rightarrow> unit session" where
  "handle_body_line svc line =
     (if trim_line_end line = ''.''
      then s_bind (s_get ss_reply_mapping) (\<lambda>m. case m of
          Some mapping \<Rightarrow> relay_reply svc mapping
        | None \<Rightarrow> store_message svc)
      else s_try (s_buffer (buffer_append line)))"

section \<open>STARTTLS and the loop\<close>

definition upgrade_to_tls :: "mail_service \<Rightarrow> unit session" where
  "upgrade_to_tls svc = (case ms_tls svc of
     NoAcceptor \<Rightarrow> write_line ''502 Command not implemented''
   | NoCertificate \<Rightarrow> write_line ''454 TLS not available due to temporary reason''
   | Certificate \<Rightarrow> s_bind (write_line ''220 Ready to start TLS'') (\<lambda>_.
       s_bind (s_get ss_stream) (\<lambda>old_stream.
       s_bind (s_update (\<lambda>ss. ss\<lparr>ss_stream := EmptyStream\<rparr>)) (\<lambda>_.
         if old_stream \<noteq> TcpStream then s_fail NotPlainTcp
         else s_bind (s_get ss_handshakes) (\<lambda>hs. case hs of
             True # rest \<Rightarrow> s_update (\<lambda>ss. ss\<lparr>ss_stream := TlsStream, ss_state := Greet, ss_handshakes := rest\<rparr>)
           | _ \<Rightarrow> s_fail TlsHandshake)))))"

datatype client_event = Line string | Eof | ReadError io_error | Idle

definition ignore_error :: "unit session \<Rightarrow> unit session" where
  "ignore_error m = (\<lambda>sw. case m sw of (_, ss, w) \<Rightarrow> (Ok (), ss, w))"

definition read_line_with_timeout :: "client_event \<Rightarrow> string session" where
  "read_line_with_timeout e = (case e of
     Line l \<Rightarrow> if valid_utf8 l then s_return l else s_fail (SessionIo InvalidData)
   | Eof \<Rightarrow> s_return []
   | ReadError err \<Rightarrow> s_fail (SessionIo err)
   | Idle \<Rightarrow> s_bind (ignore_error (write_line ''421 4.4.2 Connection timeout. Closing connection.''))
       (\<lambda>_. s_fail (SessionIo TimedOut)))"

text \<open>What a body line leads to: an I/O error ends the connection without an error of the task.\<close>

definition body_step :: "mail_service \<Rightarrow> string \<Rightarrow> bool session" where
  "body_step svc line = (\<lambda>sw. case handle_body_line svc line sw of
     (Inr _, ss, w) \<Rightarrow> (Ok True, ss, w)
   | (Inl (SessionIo OutOfMemory), ss, w) \<Rightarrow>
       s_bind (ignore_error (write_line ''552 5.3.4 Message size exceeds fixed maximum message size''))
         (\<lambda>_. s_return False) (ss, w)
   | (Inl (SessionIo _), ss, w) \<Rightarrow> (Ok False, ss, w)
   | (Inl e, ss, w) \<Rightarrow> (Err e, ss, w))"

definition command_step :: "mail_service \<Rightarrow> string \<Rightarrow> unit session" where
  "command_step svc line = s_bind (s_get ss_state) (\<lambda>st. case st of
     Greet \<Rightarrow> handle_greet line
   | MailFrom \<Rightarrow> handle_mail_from line
   | RcptTo \<Rightarrow> handle_rcpt_to svc line
   | Data \<Rightarrow> handle_data_command line
   | ReadingBody \<Rightarrow> handle_body_line svc line)"

definition reset_session :: "unit session" where
  "reset_session = s_bind (s_update (\<lambda>ss. ss\<lparr>ss_sender := None, ss_recipient := None, ss_alias_id := None,
       ss_body_buffer := buffer_clear (ss_body_buffer ss), ss_state := MailFrom\<rparr>))
     (\<lambda>_. write_line ''250 OK Resetting'')"

text \<open>One round of the loop; \<open>False\<close> is its \<open>break\<close>.\<close>

definition session_round :: "mail_service \<Rightarrow> client_event \<Rightarrow> bool session" where
  "session_round svc e = s_bind (read_line_with_timeout e) (\<lambda>line.
     if line = [] then s_return False
     else s_bind (s_get ss_state) (\<lambda>st.
       if st = ReadingBody then body_step svc line
       else (let cmd = trim line in
         if to_uppercase cmd = ''QUIT''
         then s_bind (write_line ''221 2.0.0 Service closing transmission channel'') (\<lambda>_. s_return False)
         else if to_uppercase cmd = ''STARTTLS'' then s_bind (upgrade_to_tls svc) (\<lambda>_. s_return True)
         else if to_uppercase cmd = ''RSET'' then s_bind reset_session (\<lambda>_. s_return True)
         else s_bind (command_step svc cmd) (\<lambda>_. s_return True))))"

fun session_rounds :: "mail_service \<Rightarrow> client_event list \<Rightarrow> unit session" where
  "session_rounds svc [] = s_return ()"
| "session_rounds svc (e # es) = s_bind (session_round svc e)
     (\<lambda>go. if go then session_rounds svc es else s_return ())"

definition handle :: "mail_service \<Rightarrow> client_event list \<Rightarrow> unit session" where
  "handle svc events = s_bind (write_line ''220 Welcome to my Email Server'') (\<lambda>_. session_rounds svc events)"

section \<open>Spawned tasks and the server\<close>

definition hex_of_uuid :: "uuid \<Rightarrow> string" where
  "hex_of_uuid u = filter (\<lambda>c. c \<noteq> CHR ''-'') u"

definition forward_mail :: "mail_service \<Rightarrow> uuid \<Rightarrow> string \<Rightarrow> string \<Rightarrow> string \<Rightarrow> sys \<Rightarrow> (string + unit) \<times> sys" where
  "forward_mail svc alias_id dest sender body s =
     (case fresh_uuid s of (token, s) \<Rightarrow> case fresh_uuid s of (i, s) \<Rightarrow>
      case on_db (get_or_create_reply_mapping i (hex_of_uuid token) (sy_now s) alias_id sender) s of
        (Inr mapping, s) \<Rightarrow> send_forward_with_reply_token (ms_outbound svc) dest sender (rm_token mapping) body s
      | (Inl _, s) \<Rightarrow> send_forward (ms_outbound svc) dest sender body s)"

fun run_task :: "mail_service \<Rightarrow> spawned_task \<Rightarrow> world \<Rightarrow> world" where
  "run_task svc (RelayReply original_sender alias_address clean_body) w =
     w\<lparr>wd_sys := snd (send_firsthand (ms_outbound svc) original_sender alias_address clean_body (wd_sys w))\<rparr>"
| "run_task svc (ForwardMail email_id user_id alias_id dest sender body) w =
     (case forward_mail svc alias_id dest sender body (wd_sys w) of
        (Inl _, s) \<Rightarrow> w\<lparr>wd_sys := s\<rparr>
      | (Inr _, s) \<Rightarrow> (case on_db (mark_email_as_forwarded email_id) s of
          (Inl _, s) \<Rightarrow> w\<lparr>wd_sys := s\<rparr>
        | (Inr _, s) \<Rightarrow> w\<lparr>wd_sys := s, wd_events := wd_events w @ [EmailForwarded user_id email_id]\<rparr>))"

text \<open>The server interleaves its sessions, the tasks they spawned and the clean-up of the counters; a
  connection is \<open>None\<close> once its task has ended.\<close>

record server =
  sv_world :: world
  sv_sessions :: "smtp_session option list"

datatype server_event =
    Accept ip_addr "bool list" "bool list"
  | Client nat client_event
  | RunTask nat
  | Cleanup
  | Tick nat

definition accept_connection :: "ip_addr \<Rightarrow> bool list \<Rightarrow> bool list \<Rightarrow> server \<Rightarrow> server" where
  "accept_connection peer_ip write_faults handshakes sv =
     (if is_blocked peer_ip (wd_blocklist (sv_world sv)) then sv
      else (case write_line ''220 Welcome to my Email Server'' (session_new peer_ip write_faults handshakes, sv_world sv) of
          (Inr _, ss, w) \<Rightarrow> sv\<lparr>sv_world := w, sv_sessions := sv_sessions sv @ [Some ss]\<rparr>
        | (Inl _, ss, w) \<Rightarrow> sv\<lparr>sv_world := w, sv_sessions := sv_sessions sv @ [None]\<rparr>))"

definition client_step :: "mail_service \<Rightarrow> nat \<Rightarrow> client_event \<Rightarrow> server \<Rightarrow> server" where
  "client_step svc n e sv =
     (if length (sv_sessions sv) \<le> n then sv
      else (case sv_sessions sv ! n of
          None \<Rightarrow> sv
        | Some ss \<Rightarrow> (case session_round svc e (ss, sv_world sv) of
            (r, ss, w) \<Rightarrow> sv\<lparr>sv_world := w, sv_sessions := (sv_sessions sv)[n := (if r = Inr True then Some ss else None)]\<rparr>)))"

definition run_nth_task :: "mail_service \<Rightarrow> nat \<Rightarrow> server \<Rightarrow> server" where
  "run_nth_task svc n sv =
     (let w = sv_world sv; ts = wd_tasks w
      in if n < length ts
         then sv\<lparr>sv_world := run_task svc (ts ! n) (w\<lparr>wd_tasks := take n ts @ drop (Suc n) ts\<rparr>)\<rparr> else sv)"

definition cleanup_counters :: "server \<Rightarrow> server" where
  "cleanup_counters sv = (let w = sv_world sv
     in sv\<lparr>sv_world := w\<lparr>wd_limiter := cleanup (nat (sy_now (wd_sys w))) 3600 (wd_limiter w)\<rparr>\<rparr>)"

fun server_step :: "mail_service \<Rightarrow> server \<Rightarrow> server_event \<Rightarrow> server" where
  "server_step svc sv (Accept ip wfs hs) = accept_connection ip wfs hs sv"
| "server_step svc sv (Client n e) = client_step svc n e sv"
| "server_step svc sv (RunTask n) = run_nth_task svc n sv"
| "server_step svc sv Cleanup = cleanup_counters sv"
| "server_step svc sv (Tick n) = sv\<lparr>sv_world := snd (w_sys (\<lambda>s. ((), s\<lparr>sy_now := sy_now s + int n\<rparr>)) (sv_world sv))\<rparr>"

section \<open>Rules for session programs\<close>

text \<open>\<open>holds P m Q\<close>: from \<open>P\<close>, a run of \<open>m\<close> never panics, and when it returns \<open>a\<close> it ends in \<open>Q a\<close>.  \<open>P\<close> and
  \<open>Q\<close> speak of the session.\<close>

definition holds :: "(smtp_session \<Rightarrow> bool) \<Rightarrow> 'a session \<Rightarrow> ('a \<Rightarrow> smtp_session \<Rightarrow> bool) \<Rightarrow> bool" where
  "holds P m Q \<longleftrightarrow> (\<forall>ss w. P ss \<longrightarrow> (case m (ss, w) of
     (Inl e, _, _) \<Rightarrow> e \<noteq> Panicked | (Inr a, ss', _) \<Rightarrow> Q a ss'))"

named_theorems holds_rules \<open>rules of session programs\<close>

lemma holdsD:
  "holds P m Q \<Longrightarrow> P ss \<Longrightarrow> m (ss, w) = (r, ss', w') \<Longrightarrow> case r of Inl e \<Rightarrow> e \<noteq> Panicked | Inr a \<Rightarrow> Q a ss'"
  unfolding holds_def by (drule spec [of _ ss], drule spec [of _ w]) (cases r; simp)

lemma holds_bind: "holds P m R \<Longrightarrow> (\<And>a. holds (R a) (f a) Q) \<Longrightarrow> holds P (s_bind m f) Q"
  by (fastforce simp: holds_def s_bind_def split: prod.splits sum.splits)

lemma holds_return [holds_rules]: "(\<And>ss. P ss \<Longrightarrow> Q a ss) \<Longrightarrow> holds P (s_return a) Q"
  by (simp add: holds_def s_return_def)

lemma holds_fail [holds_rules]: "(\<And>ss. P ss \<Longrightarrow> e \<noteq> Panicked) \<Longrightarrow> holds P (s_fail e) Q"
  by (simp add: holds_def s_fail_def)

lemma holds_update: "(\<And>ss. P ss \<Longrightarrow> Q () (f ss)) \<Longrightarrow> holds P (s_update f) Q"
  by (simp add: holds_def s_update_def)

text \<open>Writing does not change what \<open>unwritten\<close> predicates say, nor a buffer operation what \<open>bufferless\<close> ones do.\<close>

definition unwritten :: "(smtp_session \<Rightarrow> bool) \<Rightarrow> bool" where
  "unwritten P \<longleftrightarrow> (\<forall>ss out wf. P (ss\<lparr>ss_written := out, ss_write_faults := wf\<rparr>) = P ss)"

definition bufferless :: "(smtp_session \<Rightarrow> bool) \<Rightarrow> bool" where
  "bufferless P \<longleftrightarrow> (\<forall>ss b. P (ss\<lparr>ss_body_buffer := b\<rparr>) = P ss)"

lemma holds_write [holds_rules]: "unwritten P \<Longrightarrow> (\<And>ss. P ss \<Longrightarrow> Q () ss) \<Longrightarrow> holds P (write_line msg) Q"
proof -
  assume st: "unwritten P" and q: "\<And>ss. P ss \<Longrightarrow> Q () ss"
  have "P (ss\<lparr>ss_written := out, ss_write_faults := wf\<rparr>) = P ss" for ss out wf using st by (simp add: unwritten_def)
  then show ?thesis
    using q by (auto simp: holds_def write_line_def split: list.splits bool.splits)
qed

lemma holds_write_bind [holds_rules]: "unwritten P \<Longrightarrow> holds P (k ()) Q \<Longrightarrow> holds P (s_bind (write_line msg) k) Q"
  by (rule holds_bind [where R = "\<lambda>_. P"], rule holds_write) simp_all

lemma holds_get_bind [holds_rules]: "(\<And>a. holds (\<lambda>ss. P ss \<and> a = f ss) (k a) Q) \<Longrightarrow> holds P (s_bind (s_get f) k) Q"
  by (rule holds_bind [where R = "\<lambda>a ss. P ss \<and> a = f ss"]) (simp_all add: holds_def s_get_def)

lemma holds_world_bind [holds_rules]: "(\<And>a. holds P (k a) Q) \<Longrightarrow> holds P (s_bind (s_world f) k) Q"
  by (rule holds_bind [where R = "\<lambda>_. P"]) (auto simp: holds_def s_world_def split: prod.split)

lemma holds_update_bind: "(\<And>ss. P ss \<Longrightarrow> P' (f ss)) \<Longrightarrow> holds P' (k ()) Q \<Longrightarrow> holds P (s_bind (s_update f) k) Q"
  by (rule holds_bind [where R = "\<lambda>_. P'"]) (simp_all add: holds_def s_update_def)

lemma holds_buffer_bind [holds_rules]:
  "bufferless P \<Longrightarrow> (\<And>a. holds P (k a) Q) \<Longrightarrow> holds P (s_bind (s_buffer f) k) Q"
  by (rule holds_bind [where R = "\<lambda>_. P"]) (auto simp: holds_def s_buffer_def bufferless_def split: prod.split)

lemma holds_try_buffer_bind [holds_rules]:
  "bufferless P \<Longrightarrow> (\<And>a. holds P (k a) Q) \<Longrightarrow> holds P (s_bind (s_try (s_buffer f)) k) Q"
  by (rule holds_bind [where R = "\<lambda>_. P"])
    (auto simp: holds_def s_try_def s_bind_def s_fail_def s_return_def s_buffer_def bufferless_def split: prod.split sum.split)

lemma holds_sum [holds_rules]:
  "(\<And>e. x = Inl e \<Longrightarrow> holds P (f e) Q) \<Longrightarrow> (\<And>a. x = Inr a \<Longrightarrow> holds P (g a) Q) \<Longrightarrow>
   holds P (case x of Inl e \<Rightarrow> f e | Inr a \<Rightarrow> g a) Q"
  by (cases x) simp_all

lemma holds_option [holds_rules]:
  "(x = None \<Longrightarrow> holds P f Q) \<Longrightarrow> (\<And>a. x = Some a \<Longrightarrow> holds P (g a) Q) \<Longrightarrow>
   holds P (case x of None \<Rightarrow> f | Some a \<Rightarrow> g a) Q"
  by (cases x) simp_all

lemma holds_prod [holds_rules]: "(\<And>a b. x = (a, b) \<Longrightarrow> holds P (f a b) Q) \<Longrightarrow> holds P (case x of (a, b) \<Rightarrow> f a b) Q"
  by (cases x) simp

lemma holds_world: "(\<And>a ss. P ss \<Longrightarrow> Q a ss) \<Longrightarrow> holds P (s_world f) Q"
  by (simp add: holds_def s_world_def split: prod.split)

lemma holds_weaken: "holds P m Q \<Longrightarrow> (\<And>ss. P' ss \<Longrightarrow> P ss) \<Longrightarrow> (\<And>a ss. Q a ss \<Longrightarrow> Q' a ss) \<Longrightarrow> holds P' m Q'"
  by (fastforce simp: holds_def split: prod.splits sum.splits)

lemma holds_then: "holds P m (\<lambda>_. R) \<Longrightarrow> (\<And>a. holds R (k a) Q) \<Longrightarrow> holds P (s_bind m k) Q"
  by (rule holds_bind [where R = "\<lambda>_. R"])

lemma holds_if [holds_rules]: "(b \<Longrightarrow> holds P m Q) \<Longrightarrow> (\<not> b \<Longrightarrow> holds P n Q) \<Longrightarrow> holds P (if b then m else n) Q"
  by simp

section \<open>The session invariant\<close>

definition session_ok :: "smtp_session \<Rightarrow> bool" where
  "session_ok ss =
     (buffer_ok (ss_body_buffer ss) \<and>
      (ss_state ss \<noteq> ReadingBody \<longrightarrow> buffer_is_empty (ss_body_buffer ss)) \<and>
      (ss_state ss \<in> {RcptTo, Data, ReadingBody} \<longrightarrow> ss_sender ss \<noteq> None) \<and>
      (ss_state ss \<in> {Data, ReadingBody} \<longrightarrow> ss_alias_id ss \<noteq> None \<or> ss_reply_mapping ss \<noteq> None))"

definition in_state :: "smtp_state \<Rightarrow> smtp_session \<Rightarrow> bool" where
  "in_state st ss = (session_ok ss \<and> ss_state ss = st)"

definition alias_known :: "smtp_session \<Rightarrow> bool" where
  "alias_known ss = (ss_alias_id ss \<noteq> None)"

lemma unwritten_rules [simp, holds_rules]:
  "unwritten session_ok" "unwritten (in_state st)" "unwritten (\<lambda>_. c)"
  "unwritten P \<Longrightarrow> unwritten Q \<Longrightarrow> unwritten (\<lambda>ss. P ss \<and> Q ss)"
  "unwritten (\<lambda>ss. a = ss_sender ss)" "unwritten (\<lambda>ss. ip = ss_peer_ip ss)" "unwritten (\<lambda>ss. a = ss_alias_id ss)"
  "unwritten (\<lambda>ss. f = (ss_auto_forward ss, ss_destination_email ss))" "unwritten (\<lambda>ss. m = ss_reply_mapping ss)"
  "unwritten alias_known" "unwritten (\<lambda>ss. t = ss_stream ss)" "unwritten (\<lambda>ss. st = ss_state ss)"
  "unwritten (\<lambda>ss. hs = ss_handshakes ss)"
  by (simp_all add: unwritten_def session_ok_def in_state_def alias_known_def)

lemma bufferless_rules [simp, holds_rules]:
  "bufferless (\<lambda>_. c)" "bufferless P \<Longrightarrow> bufferless Q \<Longrightarrow> bufferless (\<lambda>ss. P ss \<and> Q ss)"
  "bufferless (\<lambda>ss. a = ss_sender ss)" "bufferless (\<lambda>ss. a = ss_alias_id ss)"
  "bufferless (\<lambda>ss. f = (ss_auto_forward ss, ss_destination_email ss))" "bufferless alias_known"
  by (simp_all add: bufferless_def alias_known_def)

lemma empty_clear [simp]: "buffer_is_empty (buffer_clear b)"
  by (simp add: buffer_is_empty_def buffer_clear_def)

lemma session_ok_new [simp]: "session_ok (session_new ip wfs hs)"
  by (simp add: session_ok_def session_new_def buffer_is_empty_def) (simp add: buffer_new_def)

lemma greet_ok: "holds (in_state Greet) (handle_greet cmd) (\<lambda>_. session_ok)"
  unfolding handle_greet_def set_state_def
  by (intro holds_rules holds_update; (simp; fail)?; simp add: in_state_def session_ok_def)

lemma mail_from_ok: "holds (in_state MailFrom) (handle_mail_from cmd) (\<lambda>_. session_ok)"
proof (cases "extract_sender cmd")
  case (Some addr)
  have "holds (\<lambda>ss. in_state MailFrom ss \<and> Some addr = ss_sender ss)
      (s_bind (write_line ''250 OK'') (\<lambda>_. s_update (ss_state_update (\<lambda>_. RcptTo)))) (\<lambda>_. session_ok)"
    by (intro holds_rules holds_update) (auto simp: in_state_def session_ok_def eq_commute [of "Some addr"])
  then show ?thesis unfolding handle_mail_from_def set_state_def Some option.case
    by (intro holds_update_bind [where P' = "\<lambda>ss. in_state MailFrom ss \<and> Some addr = ss_sender ss"])
      (simp_all add: in_state_def session_ok_def)
next
  case None
  show ?thesis unfolding handle_mail_from_def None option.case
    by (intro holds_rules; simp add: in_state_def)
qed

lemma data_ok: "holds (in_state Data) (handle_data_command cmd) (\<lambda>_. session_ok)"
  unfolding handle_data_command_def set_state_def
  by (intro holds_rules holds_update; (simp; fail)?; auto simp: in_state_def session_ok_def)

text \<open>A refusal leaves the session as it is.\<close>

lemma refuse_ok: "(\<And>ss. P ss \<Longrightarrow> session_ok ss) \<Longrightarrow> holds P (write_line msg) (\<lambda>_. session_ok)"
  by (rule holds_weaken [where P = session_ok and Q = "\<lambda>_. session_ok"], rule holds_write) simp_all

lemma accept_alias_ok: "holds (in_state RcptTo) (accept_alias row) (\<lambda>_. session_ok)"
  unfolding accept_alias_def
  by (rule holds_update_bind [where P' = session_ok]) (auto intro!: refuse_ok simp: in_state_def session_ok_def)

lemma unknown_recipient_ok: "holds (in_state RcptTo) (unknown_recipient svc) (\<lambda>_. session_ok)"
  unfolding unknown_recipient_def count_failure_def block_peer_def sleep_secs_def
  by (intro holds_rules refuse_ok; simp add: in_state_def)

lemma rcpt_alias_ok: "holds (in_state RcptTo) (rcpt_alias svc l d) (\<lambda>_. session_ok)"
  unfolding rcpt_alias_def s_db_def
  by (intro holds_rules accept_alias_ok unknown_recipient_ok refuse_ok; simp add: in_state_def)

lemma accept_reply_ok:
  "(\<And>ss. P ss \<Longrightarrow> in_state RcptTo ss) \<Longrightarrow>
   holds P (s_bind (s_update (\<lambda>ss. ss\<lparr>ss_reply_mapping := Some m, ss_state := Data\<rparr>)) (\<lambda>_. write_line msg)) (\<lambda>_. session_ok)"
  by (rule holds_update_bind [where P' = session_ok]) (auto intro!: refuse_ok simp: in_state_def session_ok_def)

lemma rcpt_reply_ok: "holds (in_state RcptTo) (rcpt_reply_token svc l) (\<lambda>_. session_ok)"
  unfolding rcpt_reply_token_def s_db_def
  by (intro holds_rules accept_reply_ok refuse_ok; simp add: in_state_def)

lemma rcpt_ok: "holds (in_state RcptTo) (handle_rcpt_to svc cmd) (\<lambda>_. session_ok)"
proof (cases "extract_recipient cmd")
  case None
  show ?thesis unfolding handle_rcpt_to_def None option.case by (rule refuse_ok) (simp add: in_state_def)
next
  case (Some addr)
  have ref: "holds (in_state RcptTo) (write_line msg) (\<lambda>_. session_ok)" for msg
    by (rule refuse_ok) (simp add: in_state_def)
  show ?thesis unfolding handle_rcpt_to_def Some option.case
  proof (rule holds_update_bind [where P' = "in_state RcptTo"])
    show "holds (in_state RcptTo) (case split_on (CHR ''@'') addr of
         [local_part, full_domain] \<Rightarrow>
           if starts_with ''reply-'' local_part then rcpt_reply_token svc local_part
           else if starts_with ''srs0+'' (to_lowercase local_part)
           then s_bind (s_world (\<lambda>w. (service_decode_srs (ms_outbound svc) addr (wd_sys w), w))) (\<lambda>decoded.
             case decoded of
               None \<Rightarrow> write_line ''550 User Not Found''
             | Some original_sender \<Rightarrow> (case split_once (CHR ''@'') original_sender of
                 None \<Rightarrow> write_line ''550 User Not Found''
               | Some (resolved_local, resolved_domain) \<Rightarrow> rcpt_alias svc resolved_local resolved_domain))
           else rcpt_alias svc local_part full_domain
       | _ \<Rightarrow> write_line ''501 Syntax error in address'') (\<lambda>_. session_ok)"
      by (auto split: list.split option.split prod.split intro!: holds_world_bind ref rcpt_alias_ok rcpt_reply_ok)
  qed (simp add: in_state_def session_ok_def)
qed

lemma finish_ok: "holds P finish_message (\<lambda>_. session_ok)"
  unfolding finish_message_def by (rule holds_update) (simp add: session_ok_def)

lemma relay_ok: "holds P (relay_reply svc m) (\<lambda>_. session_ok)"
proof -
  have "holds (\<lambda>_. True) (relay_reply svc m) (\<lambda>_. session_ok)"
    unfolding relay_reply_def Let_def spawn_def by (intro holds_rules finish_ok; simp)
  then show ?thesis by (rule holds_weaken) simp_all
qed

lemma mail_stored_ok: "holds (\<lambda>_. True) (mail_stored svc md a k e) (\<lambda>_ _. True)"
proof -
  have "holds (\<lambda>_. True) (label_matches svc e b) (\<lambda>_ _. True)" for b
    unfolding label_matches_def s_now_def s_db_def by (intro holds_rules; simp)
  moreover have "holds (\<lambda>_. True) (forward_stored md e a) (\<lambda>_ _. True)"
  proof -
    have "holds (\<lambda>_. True) (case fwd of (True, Some dest) \<Rightarrow> s_bind (s_try (s_buffer buffer_get_content_bytes)) (\<lambda>body.
         s_world (\<lambda>w. ((), w\<lparr>wd_tasks := wd_tasks w @ [ForwardMail (rv_id e) (rv_user_id e) a dest (em_sender md) body]\<rparr>)))
       | _ \<Rightarrow> s_return ()) (\<lambda>_ _. True)" for fwd :: "bool \<times> string option"
      by (auto intro!: holds_rules holds_world split: prod.split bool.split option.split)
    from holds_weaken [OF this] show ?thesis unfolding forward_stored_def spawn_def
      by (intro holds_get_bind) simp
  qed
  ultimately show ?thesis
    unfolding mail_stored_def notify_def
    by (intro holds_rules holds_then [where R = "\<lambda>_. True"]; simp)
qed

lemma store_ok: "holds alias_known (store_message svc) (\<lambda>_. session_ok)"
proof -
  have tail: "holds P (s_bind (case stored of Inr email \<Rightarrow> mail_stored svc md a k email
       | Inl _ \<Rightarrow> write_line msg) (\<lambda>_. finish_message)) (\<lambda>_. session_ok)" for P md a k msg and stored :: "sqlx_error + received_email"
  proof -
    have "holds (\<lambda>_. True) (case stored of Inr email \<Rightarrow> mail_stored svc md a k email | Inl _ \<Rightarrow> write_line msg) (\<lambda>_ _. True)"
      by (cases stored) (simp_all add: mail_stored_ok holds_write)
    then show ?thesis
      by (intro holds_then [where R = "\<lambda>_. True"] finish_ok) (erule holds_weaken; simp)
  qed
  show ?thesis
    unfolding store_message_def s_fresh_def s_now_def s_db_def Let_def
    by (intro holds_rules tail) (simp_all add: alias_known_def)
qed

lemma body_line_ok: "holds (in_state ReadingBody) (handle_body_line svc line) (\<lambda>_. session_ok)"
proof -
  have app: "holds (in_state ReadingBody) (s_try (s_buffer (buffer_append line))) (\<lambda>_. session_ok)"
    unfolding holds_def
  proof (intro allI impI)
    fix ss and w :: world assume ss: "in_state ReadingBody ss"
    obtain r b \<sigma> where a: "buffer_append line (ss_body_buffer ss, sy_fs (wd_sys w)) = (r, b, \<sigma>)" by (metis prod_cases3)
    have "buffer_ok b"
      using append_spec [OF _ a] ss by (simp add: in_state_def session_ok_def)
    with ss a show "case s_try (s_buffer (buffer_append line)) (ss, w) of
        (Inl e, _, _) \<Rightarrow> e \<noteq> Panicked | (Inr x, ss', _) \<Rightarrow> session_ok ss'"
      by (auto simp: s_try_def s_bind_def s_buffer_def s_fail_def s_return_def in_state_def session_ok_def split: sum.split)
  qed
  have known: "alias_known ss" if "in_state ReadingBody ss" "ss_reply_mapping ss = None" for ss
    using that by (auto simp: in_state_def session_ok_def alias_known_def)
  have "holds (\<lambda>ss. in_state ReadingBody ss \<and> m = ss_reply_mapping ss)
      (case m of Some mapping \<Rightarrow> relay_reply svc mapping | None \<Rightarrow> store_message svc) (\<lambda>_. session_ok)" for m
  proof (cases m)
    case None
    show ?thesis unfolding None option.case by (rule holds_weaken [OF store_ok]) (use known in auto)
  qed (simp add: relay_ok)
  then show ?thesis
    unfolding handle_body_line_def by (intro holds_if holds_get_bind app) simp
qed

lemma reset_ok: "holds (\<lambda>_. True) reset_session (\<lambda>_. session_ok)"
  unfolding reset_session_def
  by (rule holds_update_bind [where P' = session_ok]) (auto intro!: refuse_ok simp: session_ok_def)

lemma starttls_ok: "holds (\<lambda>ss. session_ok ss \<and> ss_state ss \<noteq> ReadingBody) (upgrade_to_tls svc) (\<lambda>_. session_ok)"
proof -
  let ?P = "\<lambda>ss. session_ok ss \<and> ss_state ss \<noteq> ReadingBody"
  have un: "unwritten ?P" by (simp add: unwritten_def session_ok_def)
  have "holds ?P (s_update (\<lambda>ss. ss\<lparr>ss_stream := TlsStream, ss_state := Greet, ss_handshakes := rest\<rparr>)) (\<lambda>_. session_ok)" for rest
    by (rule holds_update) (simp add: session_ok_def)
  then have hs: "holds ?P (case hs of
             True # rest \<Rightarrow> s_update (\<lambda>ss. ss\<lparr>ss_stream := TlsStream, ss_state := Greet, ss_handshakes := rest\<rparr>)
           | _ \<Rightarrow> s_fail TlsHandshake) (\<lambda>_. session_ok)" for hs
    by (auto split: list.split bool.split intro!: holds_fail)
  have swap: "holds ?P (s_bind (s_update (\<lambda>ss. ss\<lparr>ss_stream := EmptyStream\<rparr>)) (\<lambda>_.
         if old_stream \<noteq> TcpStream then s_fail NotPlainTcp
         else s_bind (s_get ss_handshakes) (\<lambda>hs. case hs of
             True # rest \<Rightarrow> s_update (\<lambda>ss. ss\<lparr>ss_stream := TlsStream, ss_state := Greet, ss_handshakes := rest\<rparr>)
           | _ \<Rightarrow> s_fail TlsHandshake))) (\<lambda>_. session_ok)" for old_stream
  proof (rule holds_update_bind [where P' = ?P])
    show "holds ?P (if old_stream \<noteq> TcpStream then s_fail NotPlainTcp
         else s_bind (s_get ss_handshakes) (\<lambda>hs. case hs of
             True # rest \<Rightarrow> s_update (\<lambda>ss. ss\<lparr>ss_stream := TlsStream, ss_state := Greet, ss_handshakes := rest\<rparr>)
           | _ \<Rightarrow> s_fail TlsHandshake)) (\<lambda>_. session_ok)"
      by (intro holds_if holds_fail holds_get_bind holds_weaken [OF hs]) simp_all
  qed (simp add: session_ok_def)
  have "holds ?P (s_bind (write_line msg) (\<lambda>_. s_bind (s_get ss_stream) (\<lambda>old_stream.
       s_bind (s_update (\<lambda>ss. ss\<lparr>ss_stream := EmptyStream\<rparr>)) (\<lambda>_.
         if old_stream \<noteq> TcpStream then s_fail NotPlainTcp
         else s_bind (s_get ss_handshakes) (\<lambda>hs. case hs of
             True # rest \<Rightarrow> s_update (\<lambda>ss. ss\<lparr>ss_stream := TlsStream, ss_state := Greet, ss_handshakes := rest\<rparr>)
           | _ \<Rightarrow> s_fail TlsHandshake))))) (\<lambda>_. session_ok)" for msg
    by (intro holds_write_bind un holds_get_bind holds_weaken [OF swap]) simp_all
  moreover have "holds ?P (write_line msg) (\<lambda>_. session_ok)" for msg by (rule refuse_ok) simp
  ultimately show ?thesis unfolding upgrade_to_tls_def by (cases "ms_tls svc") simp_all
qed

lemma command_ok: "holds (\<lambda>ss. session_ok ss \<and> ss_state ss \<noteq> ReadingBody) (command_step svc cmd) (\<lambda>_. session_ok)"
proof -
  have "holds (\<lambda>ss. (session_ok ss \<and> ss_state ss \<noteq> ReadingBody) \<and> st = ss_state ss)
      (case st of Greet \<Rightarrow> handle_greet cmd | MailFrom \<Rightarrow> handle_mail_from cmd | RcptTo \<Rightarrow> handle_rcpt_to svc cmd
       | Data \<Rightarrow> handle_data_command cmd | ReadingBody \<Rightarrow> handle_body_line svc cmd) (\<lambda>_. session_ok)" for st
  proof (cases st)
    case Greet
    show ?thesis unfolding Greet smtp_state.case by (rule holds_weaken [OF greet_ok]) (simp_all add: in_state_def)
  next
    case MailFrom
    show ?thesis unfolding MailFrom smtp_state.case by (rule holds_weaken [OF mail_from_ok]) (simp_all add: in_state_def)
  next
    case RcptTo
    show ?thesis unfolding RcptTo smtp_state.case by (rule holds_weaken [OF rcpt_ok]) (simp_all add: in_state_def)
  next
    case Data
    show ?thesis unfolding Data smtp_state.case by (rule holds_weaken [OF data_ok]) (simp_all add: in_state_def)
  next
    case ReadingBody
    show ?thesis unfolding ReadingBody smtp_state.case by (rule holds_weaken [OF body_line_ok]) (simp_all add: in_state_def)
  qed
  then show ?thesis unfolding command_step_def by (rule holds_get_bind)
qed

text \<open>A panic of the body handler is the only error \<open>body_step\<close> passes on; the others end the loop.\<close>

lemma body_step_ok: "holds (in_state ReadingBody) (body_step svc line) (\<lambda>go ss. go \<longrightarrow> session_ok ss)"
  unfolding holds_def
proof (intro allI impI)
  fix ss and w :: world assume ss: "in_state ReadingBody ss"
  obtain r ss1 w1 where h: "handle_body_line svc line (ss, w) = (r, ss1, w1)" by (metis prod_cases3)
  have res: "case r of Inl e \<Rightarrow> e \<noteq> Panicked | Inr _ \<Rightarrow> session_ok ss1"
    by (rule holdsD [OF body_line_ok ss h])
  have over: "fst (s_bind (ignore_error m) (\<lambda>_. s_return False) (ss1, w1)) = Inr False" for m
    by (simp add: s_bind_def ignore_error_def s_return_def split: prod.split)
  show "case body_step svc line (ss, w) of (Inl e, _, _) \<Rightarrow> e \<noteq> Panicked | (Inr go, ss', _) \<Rightarrow> go \<longrightarrow> session_ok ss'"
    using res over [of "write_line ''552 5.3.4 Message size exceeds fixed maximum message size''"] h
    by (auto simp: body_step_def split: sum.splits session_error.splits io_error.splits prod.splits)
qed

lemma read_ok: "holds P (read_line_with_timeout e) (\<lambda>_. P)"
  by (auto simp: holds_def read_line_with_timeout_def s_return_def s_fail_def s_bind_def ignore_error_def
      split: client_event.split prod.split)

lemma round_ok: "holds session_ok (session_round svc e) (\<lambda>go ss. go \<longrightarrow> session_ok ss)"
proof -
  let ?P = "\<lambda>ss. session_ok ss \<and> ss_state ss \<noteq> ReadingBody"
  have un: "unwritten ?P" by (simp add: unwritten_def session_ok_def)
  have go: "holds ?P (s_bind m (\<lambda>_. s_return True)) (\<lambda>go ss. go \<longrightarrow> session_ok ss)"
    if "holds ?P m (\<lambda>_. session_ok)" for m :: "unit session"
    by (rule holds_then [OF that]) (simp add: holds_return)
  have quit: "holds ?P (s_bind (write_line msg) (\<lambda>_. s_return False)) (\<lambda>go ss. go \<longrightarrow> session_ok ss)" for msg
    by (intro holds_write_bind un holds_return) simp
  have reset: "holds ?P reset_session (\<lambda>_. session_ok)" by (rule holds_weaken [OF reset_ok]) simp_all
  have plain: "holds ?P (let cmd = trim line in
         if to_uppercase cmd = ''QUIT''
         then s_bind (write_line ''221 2.0.0 Service closing transmission channel'') (\<lambda>_. s_return False)
         else if to_uppercase cmd = ''STARTTLS'' then s_bind (upgrade_to_tls svc) (\<lambda>_. s_return True)
         else if to_uppercase cmd = ''RSET'' then s_bind reset_session (\<lambda>_. s_return True)
         else s_bind (command_step svc cmd) (\<lambda>_. s_return True)) (\<lambda>go ss. go \<longrightarrow> session_ok ss)" for line
    unfolding Let_def by (intro holds_if quit go starttls_ok reset command_ok)
  show ?thesis
    unfolding session_round_def
    by (intro holds_then [OF read_ok] holds_if holds_return holds_get_bind
        holds_weaken [OF body_step_ok] holds_weaken [OF plain]) (auto simp: in_state_def)
qed

lemma rounds_ok: "holds session_ok (session_rounds svc es) (\<lambda>_ _. True)"
proof (induction es)
  case (Cons e es)
  show ?case unfolding session_rounds.simps
  proof (rule holds_bind [OF round_ok])
    show "holds (\<lambda>ss. go \<longrightarrow> session_ok ss) (if go then session_rounds svc es else s_return ()) (\<lambda>_ _. True)" for go
      using Cons by (cases go) (simp_all add: holds_return)
  qed
qed (simp add: holds_return)

text \<open>C2: No client can make a session panic. Whatever a client sends, in whatever order, and whichever I/O
  operation, statement or handshake fails, the \<open>expect\<close> on the alias of an accepted message is never reached
  without one: no run of a connection ends in a panic.\<close>
theorem session_never_panics:
  "fst (handle svc events (session_new peer_ip write_faults handshakes, w)) \<noteq> Inl Panicked"
proof -
  have "holds session_ok (handle svc events) (\<lambda>_ _. True)"
    unfolding handle_def by (intro holds_write_bind rounds_ok) simp
  moreover obtain r ss' w' where h: "handle svc events (session_new peer_ip write_faults handshakes, w) = (r, ss', w')"
    by (metis prod_cases3)
  ultimately have "case r of Inl e \<Rightarrow> e \<noteq> Panicked | Inr _ \<Rightarrow> True"
    using holdsD [where P = session_ok and Q = "\<lambda>_ _. True" and m = "handle svc events", OF _ session_ok_new h]
    by blast
  with h show ?thesis by (auto split: sum.splits)
qed

section \<open>What an acknowledgement promises\<close>

text \<open>\<open>spec P m Q E\<close> speaks of the session and the world, and of the states in which \<open>m\<close> fails.\<close>

definition spec ::
  "(smtp_session \<Rightarrow> world \<Rightarrow> bool) \<Rightarrow> 'a session \<Rightarrow> ('a \<Rightarrow> smtp_session \<Rightarrow> world \<Rightarrow> bool)
   \<Rightarrow> (smtp_session \<Rightarrow> world \<Rightarrow> bool) \<Rightarrow> bool" where
  "spec P m Q E \<longleftrightarrow> (\<forall>ss w r ss' w'. P ss w \<longrightarrow> m (ss, w) = (r, ss', w') \<longrightarrow>
     (case r of Inl _ \<Rightarrow> E ss' w' | Inr a \<Rightarrow> Q a ss' w'))"

lemma specD: "spec P m Q E \<Longrightarrow> P ss w \<Longrightarrow> m (ss, w) = (r, ss', w') \<Longrightarrow> case r of Inl _ \<Rightarrow> E ss' w' | Inr a \<Rightarrow> Q a ss' w'"
  unfolding spec_def by blast

lemma specI: "(\<And>ss w r ss' w'. P ss w \<Longrightarrow> m (ss, w) = (r, ss', w') \<Longrightarrow>
     case r of Inl _ \<Rightarrow> E ss' w' | Inr a \<Rightarrow> Q a ss' w') \<Longrightarrow> spec P m Q E"
  unfolding spec_def by blast

lemma spec_bind: "spec P m R E \<Longrightarrow> (\<And>a. spec (R a) (f a) Q E) \<Longrightarrow> spec P (s_bind m f) Q E"
proof (rule specI)
  fix ss w r ss' w'
  assume m: "spec P m R E" and f: "\<And>a. spec (R a) (f a) Q E" and p: "P ss w" and run: "s_bind m f (ss, w) = (r, ss', w')"
  obtain r1 ss1 w1 where 1: "m (ss, w) = (r1, ss1, w1)" by (metis prod_cases3)
  with run specD [OF m p 1] specD [OF f, of _ ss1 w1 r ss' w'] show "case r of Inl _ \<Rightarrow> E ss' w' | Inr a \<Rightarrow> Q a ss' w'"
    by (cases r1) (auto simp: s_bind_def)
qed

lemma spec_return: "(\<And>ss w. P ss w \<Longrightarrow> Q a ss w) \<Longrightarrow> spec P (s_return a) Q E"
  by (auto simp: spec_def s_return_def)

lemma spec_fail: "(\<And>ss w. P ss w \<Longrightarrow> E ss w) \<Longrightarrow> spec P (s_fail e) Q E"
  by (auto simp: spec_def s_fail_def)

lemma spec_get: "spec P (s_get f) (\<lambda>a ss w. P ss w \<and> a = f ss) E"
  by (auto simp: spec_def s_get_def)

lemma spec_update: "(\<And>ss w. P ss w \<Longrightarrow> Q () (f ss) w) \<Longrightarrow> spec P (s_update f) Q E"
  by (auto simp: spec_def s_update_def)

lemma spec_world: "(\<And>ss w a w'. P ss w \<Longrightarrow> f w = (a, w') \<Longrightarrow> Q a ss w') \<Longrightarrow> spec P (s_world f) Q E"
  by (auto simp: spec_def s_world_def split: prod.splits)

lemma spec_buffer:
  "(\<And>ss w a b \<sigma>. P ss w \<Longrightarrow> f (ss_body_buffer ss, sy_fs (wd_sys w)) = (a, b, \<sigma>) \<Longrightarrow>
     Q a (ss\<lparr>ss_body_buffer := b\<rparr>) (w\<lparr>wd_sys := (wd_sys w)\<lparr>sy_fs := \<sigma>\<rparr>\<rparr>)) \<Longrightarrow> spec P (s_buffer f) Q E"
  by (auto simp: spec_def s_buffer_def split: prod.splits)

lemma spec_try: "spec P m (\<lambda>r ss w. case r of Inl _ \<Rightarrow> E ss w | Inr a \<Rightarrow> Q a ss w) E \<Longrightarrow> spec P (s_try m) Q E"
  unfolding s_try_def by (erule spec_bind) (auto intro!: spec_return spec_fail split: sum.split)

lemma spec_write:
  "(\<And>ss w wfs. P ss w \<Longrightarrow> Q () (ss\<lparr>ss_written := ss_written ss @ [msg @ CRLF], ss_write_faults := wfs\<rparr>) w) \<Longrightarrow>
   (\<And>ss w wfs. P ss w \<Longrightarrow> E (ss\<lparr>ss_write_faults := wfs\<rparr>) w) \<Longrightarrow> spec P (write_line msg) Q E"
proof (rule specI)
  fix ss w r ss' w'
  assume q: "\<And>ss w wfs. P ss w \<Longrightarrow> Q () (ss\<lparr>ss_written := ss_written ss @ [msg @ CRLF], ss_write_faults := wfs\<rparr>) w"
    and e: "\<And>ss w wfs. P ss w \<Longrightarrow> E (ss\<lparr>ss_write_faults := wfs\<rparr>) w"
    and p: "P ss w" and run: "write_line msg (ss, w) = (r, ss', w')"
  have same: "ss\<lparr>ss_write_faults := ss_write_faults ss\<rparr> = ss" by (cases ss) simp
  from run q [OF p] e [OF p] e [OF p, of "ss_write_faults ss"]
  show "case r of Inl _ \<Rightarrow> E ss' w' | Inr a \<Rightarrow> Q a ss' w'"
    by (auto simp: write_line_def same split: if_splits list.splits bool.splits)
qed

lemma spec_weaken:
  "spec P m Q E \<Longrightarrow> (\<And>ss w. P' ss w \<Longrightarrow> P ss w) \<Longrightarrow> (\<And>a ss w. Q a ss w \<Longrightarrow> Q' a ss w) \<Longrightarrow>
   (\<And>ss w. E ss w \<Longrightarrow> E' ss w) \<Longrightarrow> spec P' m Q' E'"
  unfolding spec_def by (fastforce split: sum.splits)

lemma spec_prod: "(\<And>a b. x = (a, b) \<Longrightarrow> spec P (f a b) Q E) \<Longrightarrow> spec P (case x of (a, b) \<Rightarrow> f a b) Q E"
  by (cases x) simp

lemma spec_pre: "spec P m Q E \<Longrightarrow> (\<And>ss w. P' ss w \<Longrightarrow> P ss w) \<Longrightarrow> spec P' m Q E"
  by (rule spec_weaken)

text \<open>The mail with this body is stored for this alias, with its file.\<close>

definition mail_on_record :: "mail_service \<Rightarrow> uuid \<Rightarrow> uuid \<Rightarrow> string \<Rightarrow> world \<Rightarrow> bool" where
  "mail_on_record svc body_key alias_id content w =
     (list_ex (\<lambda>e. re_body_key e = body_key \<and> re_alias_id e = Some alias_id) (t_emails (sy_db (wd_sys w))) \<and>
      files (sy_fs (wd_sys w)) (bodies_path (ms_storage_dir svc) body_key) =
        Some \<lparr>file_bytes = content, file_mode = mode_0600\<rparr>)"

definition has_mails :: "email_row list \<Rightarrow> world \<Rightarrow> bool" where
  "has_mails es w = (t_emails (sy_db (wd_sys w)) = es)"

definition has_files :: "(string \<Rightarrow> file_entry option) \<Rightarrow> world \<Rightarrow> bool" where
  "has_files fm w = (files (sy_fs (wd_sys w)) = fm)"

lemma content_bytes_files: "buffer_get_content_bytes (b, \<sigma>) = (r, b', \<sigma>') \<Longrightarrow> files \<sigma>' = files \<sigma>"
proof -
  have f: "files \<sigma>2 = files \<sigma>1" if "flush_buf x \<sigma>1 = (r, y, \<sigma>2)" for x y r \<sigma>1 \<sigma>2
    using that by (auto simp: flush_buf_def syscall_eq split: prod.splits if_splits)
  show "buffer_get_content_bytes (b, \<sigma>) = (r, b', \<sigma>') \<Longrightarrow> ?thesis"
    by (auto simp: buffer_get_content_bytes_def syscall_eq Let_def split: body_buffer_state.splits prod.splits
        sum.splits if_splits dest!: f)
qed

lemma extract_metadata_files:
  "buffer_extract_full_metadata parse env b \<sigma> = (r, \<sigma>') \<Longrightarrow> files \<sigma>' = files \<sigma>"
  by (auto simp: buffer_extract_full_metadata_def io_bind_def syscall_eq split: body_buffer_state.splits if_splits)

lemma assign_labels_mails: "keeps (\<lambda>d. t_emails d = es) (assign_labels_to_email now e is)"
proof -
  have ot: "on_tables (\<lambda>d. t_emails d = es)" by (simp add: on_tables_def)
  have one: "keeps (\<lambda>d. t_emails d = es) (insert_email_label now e l)" for l
    unfolding insert_email_label_def Let_def by (intro keeps_insert ot) (simp add: add_email_label_def)
  have "keeps (\<lambda>d. t_emails d = es) (insert_each (insert_email_label now e) is)"
    by (intro keeps_insert_each one)
  then show ?thesis unfolding assign_labels_to_email_def by (intro keeps_if keeps_return)
qed

lemma evaluate_mails: "evaluate lib parse u raw cache d = (r, cache', d') \<Longrightarrow> t_emails d' = t_emails d"
  by (auto simp: evaluate_def get_or_compile_def get_filters_for_engine_def Let_def dest!: query_cases
      split: prod.splits sum.splits option.splits if_splits)

lemma find_thread_mails: "find_thread_id_by_references rs d = (r, d') \<Longrightarrow> t_emails d' = t_emails d"
  by (auto simp: find_thread_id_by_references_def db_return_def db_bind_def dest!: query_optional_db
      split: if_splits prod.splits sum.splits option.splits)

lemma fresh_uuids_sys: "fresh_uuids n s = (is, s') \<Longrightarrow> sy_db s' = sy_db s \<and> sy_fs s' = sy_fs s"
proof (induction n arbitrary: s "is")
  case (Suc n)
  then show ?case by (fastforce simp: fresh_uuid_def split: prod.splits)
qed simp

lemma mail_stored_spec:
  "spec (\<lambda>ss w. ss_written ss = out \<and> mail_on_record svc k a c w) (mail_stored svc md a k email)
     (\<lambda>_ ss w. ss_written ss = out @ [''250 OK: queued as '' @ k @ CRLF] \<and> mail_on_record svc k a c w)
     (\<lambda>ss w. ss_written ss = out)"
proof -
  let ?K = "\<lambda>ss w. ss_written ss = out \<and> mail_on_record svc k a c w" and ?E = "\<lambda>ss w. ss_written ss = out"
  have buf: "spec ?K (s_buffer buffer_get_content_bytes) (\<lambda>_. ?K) ?E"
    by (rule spec_buffer) (auto simp: mail_on_record_def dest: content_bytes_files)
  have eval: "spec ?K (s_world (\<lambda>w. case evaluate (ms_ac svc) (ob_parse (ms_outbound svc)) (rv_user_id email) b
           (wd_cache w) (sy_db (wd_sys w)) of
         (r, cache, d) \<Rightarrow> (r, w\<lparr>wd_cache := cache, wd_sys := (wd_sys w)\<lparr>sy_db := d\<rparr>\<rparr>))) (\<lambda>_. ?K) ?E" for b
    by (rule spec_world) (auto simp: mail_on_record_def dest: evaluate_mails split: prod.splits)
  have now: "spec ?K s_now (\<lambda>_. ?K) ?E" unfolding s_now_def by (rule spec_world) simp
  have assign: "spec ?K (s_db (assign_labels_to_email t e ls)) (\<lambda>_. ?K) ?E" for t e ls
    unfolding s_db_def
    by (rule spec_world) (auto simp: mail_on_record_def w_sys_def on_db_def
        dest: keepsD [OF assign_labels_mails, OF refl] split: prod.splits)
  have labels: "spec ?K (label_matches svc email b) (\<lambda>_. ?K) ?E" for b
    unfolding label_matches_def
    by (rule spec_bind [OF eval]) (auto intro!: spec_return spec_bind [OF now] spec_bind [OF assign] split: sum.split)
  have notif: "spec ?K (notify ev) (\<lambda>_. ?K) ?E" for ev
    unfolding notify_def by (rule spec_world) (auto simp: mail_on_record_def)
  have try_buf: "spec ?K (s_try (s_buffer buffer_get_content_bytes)) (\<lambda>_. ?K) ?E"
    by (rule spec_try, rule spec_weaken [OF buf]) (auto split: sum.split)
  have sp: "spec ?K (spawn t) (\<lambda>_. ?K) ?E" for t
    unfolding spawn_def by (rule spec_world) (auto simp: mail_on_record_def)
  have arm: "spec ?K (case fwd of (True, Some dest) \<Rightarrow> s_bind (s_try (s_buffer buffer_get_content_bytes)) (\<lambda>body.
         spawn (ForwardMail (rv_id email) (rv_user_id email) a dest (em_sender md) body)) | _ \<Rightarrow> s_return ()) (\<lambda>_. ?K) ?E" for fwd
    by (auto intro!: spec_return spec_bind [OF try_buf] sp split: prod.split bool.split option.split)
  have fwd: "spec ?K (forward_stored md email a) (\<lambda>_. ?K) ?E"
    unfolding forward_stored_def by (rule spec_bind [OF spec_get], rule spec_pre [OF arm]) simp
  show ?thesis
    unfolding mail_stored_def
    by (intro spec_bind [OF buf] spec_bind [OF labels] spec_bind [OF notif] spec_bind [OF fwd] spec_write) simp_all
qed

lemma store_message_spec:
  "spec (\<lambda>ss w. ss_written ss = out \<and> ss_alias_id ss = Some a \<and> buffer_content (ss_body_buffer ss) = c \<and> has_mails es w)
     (store_message svc)
     (\<lambda>_ ss w. (\<exists>k. ss_written ss = out @ [''250 OK: queued as '' @ k @ CRLF] \<and> mail_on_record svc k a c w) \<or>
        (ss_written ss = out @ [''451 Requested action aborted'' @ CRLF] \<and> has_mails es w))
     (\<lambda>ss w. ss_written ss = out)"
proof -
  let ?J = "\<lambda>ss w. ss_written ss = out \<and> ss_alias_id ss = Some a \<and> buffer_content (ss_body_buffer ss) = c \<and> has_mails es w"
  let ?F = "\<lambda>k ss w. ss_written ss = out \<and> ss_alias_id ss = Some a \<and> has_mails es w \<and>
    files (sy_fs (wd_sys w)) (bodies_path (ms_storage_dir svc) k) = Some \<lparr>file_bytes = c, file_mode = mode_0600\<rparr>"
  let ?K = "\<lambda>k ss w. ss_written ss = out \<and> mail_on_record svc k a c w" and ?E = "\<lambda>ss w. ss_written ss = out"
  let ?Q = "\<lambda>_ ss w. (\<exists>k. ss_written ss = out @ [''250 OK: queued as '' @ k @ CRLF] \<and> mail_on_record svc k a c w) \<or>
        (ss_written ss = out @ [''451 Requested action aborted'' @ CRLF] \<and> has_mails es w)"
  have md: "spec ?J (s_try (s_buffer (\<lambda>(b, \<sigma>). case buffer_extract_full_metadata f snd b \<sigma> of (r, \<sigma>) \<Rightarrow> (r, b, \<sigma>)))) (\<lambda>_. ?J) ?E"
    for f :: "string \<Rightarrow> string \<Rightarrow> email_metadata \<times> attachment_metadata list" and snd
    by (rule spec_try, rule spec_buffer) (auto simp: has_mails_def split: prod.splits sum.splits)
  have key: "spec ?J s_fresh (\<lambda>_. ?J) ?E"
    unfolding s_fresh_def by (rule spec_world) (auto simp: has_mails_def w_sys_def fresh_uuid_def)
  have persist: "spec ?J (s_try (s_buffer (buffer_persist_to_path (bodies_path (ms_storage_dir svc) k)))) (\<lambda>_. ?F k) ?E" for k
    by (rule spec_try, rule spec_buffer) (auto simp: has_mails_def split: sum.splits dest: persist_result)
  have find: "spec (?F k) (s_db (find_thread_id_by_references rs)) (\<lambda>_. ?F k) ?E" for k rs
    unfolding s_db_def by (rule spec_world) (auto simp: has_mails_def w_sys_def on_db_def dest: find_thread_mails split: prod.splits)
  have eid: "spec (?F k) s_fresh (\<lambda>_. ?F k) ?E" for k
    unfolding s_fresh_def by (rule spec_world) (auto simp: has_mails_def w_sys_def fresh_uuid_def)
  have aids: "spec (?F k) (s_world (w_sys (fresh_uuids n))) (\<lambda>_. ?F k) ?E" for k n
    by (rule spec_world) (auto simp: has_mails_def w_sys_def dest: fresh_uuids_sys split: prod.splits)
  have now: "spec (?F k) s_now (\<lambda>_. ?F k) ?E" for k unfolding s_now_def by (rule spec_world) simp
  have ins: "spec (?F k) (s_db (insert_email_with_attachments i ai t a snd sub k None mid tid atts))
      (\<lambda>r. case r of Inl _ \<Rightarrow> ?F k | Inr _ \<Rightarrow> ?K k) ?E" for k i ai t snd sub mid tid atts
    unfolding s_db_def
  proof (rule spec_world)
    fix ss w r w'
    assume f: "?F k ss w" and run: "w_sys (on_db (insert_email_with_attachments i ai t a snd sub k None mid tid atts)) w = (r, w')"
    then obtain d' where d: "insert_email_with_attachments i ai t a snd sub k None mid tid atts (sy_db (wd_sys w)) = (r, d')"
      "w' = w\<lparr>wd_sys := (wd_sys w)\<lparr>sy_db := d'\<rparr>\<rparr>"
      by (auto simp: w_sys_def on_db_def split: prod.splits)
    from stored_or_same [OF d(1)] f d(2) show "(case r of Inl _ \<Rightarrow> ?F k | Inr _ \<Rightarrow> ?K k) ss w'"
      by (cases r) (auto simp: has_mails_def mail_on_record_def same_tables_def new_email_def dest: arg_cong [where f = t_emails])
  qed
  have fin: "spec (\<lambda>ss w. Q ss w) finish_message (\<lambda>_ ss w. Q ss w) ?E"
    if "\<And>ss w. Q (ss\<lparr>ss_state := Greet, ss_body_buffer := buffer_clear (ss_body_buffer ss)\<rparr>) w = Q ss w" for Q
    unfolding finish_message_def by (rule spec_update) (simp add: that)
  have last: "spec (case stored of Inl _ \<Rightarrow> ?F k | Inr _ \<Rightarrow> ?K k)
      (s_bind (case stored of Inr email \<Rightarrow> mail_stored svc md a k email | Inl _ \<Rightarrow> write_line ''451 Requested action aborted'')
        (\<lambda>_. finish_message)) ?Q ?E" for stored :: "sqlx_error + received_email" and md k
  proof (rule spec_bind [where R = ?Q])
    show "spec (case stored of Inl _ \<Rightarrow> ?F k | Inr _ \<Rightarrow> ?K k)
        (case stored of Inr email \<Rightarrow> mail_stored svc md a k email | Inl _ \<Rightarrow> write_line ''451 Requested action aborted'') ?Q ?E"
    proof (cases stored)
      case (Inl e)
      show ?thesis unfolding Inl sum.case by (rule spec_write) (auto simp: has_mails_def)
    next
      case (Inr email)
      show ?thesis unfolding Inr sum.case by (rule spec_weaken [OF mail_stored_spec]) auto
    qed
  qed (rule fin, simp)
  have alias_known: "spec (?F k) (s_get ss_alias_id) (\<lambda>x ss w. ?F k ss w \<and> x = Some a) ?E" for k
    by (rule spec_weaken [OF spec_get]) auto
  have body: "spec (\<lambda>ss w. ?F k ss w \<and> alias_opt = Some a) (case alias_opt of
       None \<Rightarrow> s_fail Panicked
     | Some alias_id \<Rightarrow>
     s_bind (s_db (find_thread_id_by_references (thread_references metadata))) (\<lambda>found.
     let thread_id = (case found of Inl _ \<Rightarrow> None | Inr t \<Rightarrow> t) in
     s_bind s_fresh (\<lambda>email_id.
     s_bind (s_world (w_sys (fresh_uuids (length attachments)))) (\<lambda>attachment_ids.
     s_bind s_now (\<lambda>now.
     s_bind (s_db (insert_email_with_attachments email_id attachment_ids now alias_id (em_sender metadata)
         (em_subject metadata) k None (em_message_id metadata) thread_id attachments)) (\<lambda>stored.
     s_bind (case stored of
         Inr email \<Rightarrow> mail_stored svc metadata alias_id k email
       | Inl _ \<Rightarrow> write_line ''451 Requested action aborted'') (\<lambda>_. finish_message))))))) ?Q ?E" for alias_opt k metadata attachments
  proof (cases "alias_opt = Some a")
    case True
    show ?thesis unfolding True option.case Let_def
      by (rule spec_pre [where P = "?F k"], intro spec_bind [OF find] spec_bind [OF eid] spec_bind [OF aids]
          spec_bind [OF now] spec_bind [OF ins] last) simp
  qed (simp add: spec_def)
  have sender: "spec ?J (s_get ss_sender) (\<lambda>_. ?J) ?E" by (rule spec_weaken [OF spec_get]) auto
  show ?thesis unfolding store_message_def
    by (intro spec_bind [OF sender] spec_bind [OF md] spec_prod spec_bind [OF key] spec_bind [OF persist]
        spec_bind [OF alias_known] body)
qed

text \<open>C1: A 250 means the mail is on record. When the end of a message for an alias is reached, the client reads
  \<open>250 OK: queued as k\<close> only if the mail is a row of \<open>received_emails\<close> for that alias with body key \<open>k\<close> and its
  file holds the body received, byte for byte and for the owner alone; it reads 451 only if no row was added; and
  when the connection breaks instead, nothing was acknowledged.\<close>
theorem acknowledged_mail_is_on_record:
  assumes "ss_reply_mapping ss = None" "ss_alias_id ss = Some a" "trim_line_end line = ''.''"
    and run: "handle_body_line svc line (ss, w) = (r, ss', w')"
  shows "(case r of
      Inl _ \<Rightarrow> ss_written ss' = ss_written ss
    | Inr _ \<Rightarrow> (\<exists>k. ss_written ss' = ss_written ss @ [''250 OK: queued as '' @ k @ CRLF] \<and>
          mail_on_record svc k a (buffer_content (ss_body_buffer ss)) w') \<or>
        (ss_written ss' = ss_written ss @ [''451 Requested action aborted'' @ CRLF] \<and>
          t_emails (sy_db (wd_sys w')) = t_emails (sy_db (wd_sys w))))"
proof -
  have "store_message svc (ss, w) = (r, ss', w')"
    using run assms(1,3) by (simp add: handle_body_line_def s_bind_def s_get_def)
  from specD [OF store_message_spec _ this] assms(2) show ?thesis by (cases r) (simp_all add: has_mails_def)
qed

end
