(* ===== verification/Smtp_Guarantees.thy ===== *)
theory Smtp_Guarantees
  imports Smtp_Session
begin

text \<open>
  What the inbound server guarantees beyond one message: who may use a reply token, what becomes of a
  mapping within a connection, how unknown recipients are answered and blocked, and the invariant of
  the whole server.
\<close>

section \<open>Samples\<close>

definition sample_service :: mail_service where
  "sample_service = \<lparr>ms_outbound = sample_ob\<lparr>ob_parse := text_parser\<rparr>, ms_storage_dir = ''/m'',
     ms_limits = \<lparr>tarpit_threshold = 3, block_threshold = 5, tarpit_duration_secs = 10\<rparr>, ms_ac = naive_ac, ms_tls = NoAcceptor\<rparr>"

definition sample_world :: world where
  "sample_world = \<lparr>wd_sys = sample_sys, wd_cache = (\<lambda>_. None), wd_limiter = rate_limiter_new,
     wd_blocklist = \<lparr>bl_ips = {}, bl_subnets = [], bl_path = ''b''\<rparr>, wd_events = [], wd_tasks = []\<rparr>"

definition sample_session :: smtp_session where
  "sample_session = (session_new (V4 0x0A000001) [] [])\<lparr>ss_state := ReadingBody, ss_sender := Some ''bob@y.org'',
     ss_alias_id := Some ''a1'', ss_body_buffer := \<lparr>bb_state = Memory ''hi'', max_memory = 65536,
       max_total_size = 100000, bytes_written = 2\<rparr>\<rparr>"

definition sample_stored :: email_row where
  "sample_stored = new_email ''q1'' ''a1'' ''bob@y.org'' ''No Subject'' ''q0'' 100 None None False"

definition sample_stored_db :: db where
  "sample_stored_db = (sample_db Sqlite)\<lparr>t_emails := [sample_mail, sample_stored]\<rparr>"

definition sample_view :: received_email where
  "sample_view = view_email sample_stored (sample_alias ''a1'' ''u1'' ''shop'', sample_domain)"

lemma sample_insert:
  "insert_email_with_attachments ''q1'' [] 100 ''a1'' ''bob@y.org'' ''No Subject'' ''q0'' None None None [] (sample_db Sqlite)
     = (Inr sample_view, sample_stored_db)"
  by (simp add: sample_view_def sample_stored_db_def sample_stored_def insert_email_with_attachments_def db_eval sample_defs
      bump_thread_def insert_email_row_def add_email_def email_constraints_def views_by_id_def received_views_def views_of_def
      alias_domains_def view_email_def db_bind_def)

lemma sample_evaluate:
  "evaluate naive_ac text_parser u b (\<lambda>_. None) sample_stored_db = (Inr [], (\<lambda>_. None)(u := Some no_filters), sample_stored_db)"
  by (simp add: evaluate_def get_or_compile_def get_filters_for_engine_def no_fault_simps sample_stored_db_def sample_defs
      compile_or_none_def compile_filter_set_def unwrap_or_def Let_def) (simp add: no_filters_def)

lemma sample_view_fields: "rv_user_id sample_view = ''u1''" "rv_id sample_view = ''q1''" "rv_thread_id sample_view = None"
  by (simp_all add: sample_view_def sample_stored_def view_email_def new_email_def sample_alias_def)

lemma sample_dot: "trim_line_end (CHR ''.'' # CRLF) = ''.''"
  by (simp add: trim_line_end_def trim_end_by_def)

lemma sample_uuids: "sy_uuids sample_sys 0 = ''q0''" "sy_uuids sample_sys (Suc 0) = ''q1''"
  "sy_next_uuid sample_sys = 0" "sy_db sample_sys = sample_db Sqlite" "sy_now sample_sys = 100" "sy_fs sample_sys = empty_fs"
  by (simp_all add: sample_sys_def num_eval)

lemmas session_eval = s_bind_def s_get_def s_try_def s_buffer_def s_return_def s_fresh_def s_world_def w_sys_def
  fresh_uuid_def s_db_def on_db_def s_now_def s_update_def write_line_def notify_def spawn_def

lemma sample_end_of_body:
  "\<exists>ss w. handle_body_line sample_service (''.'' @ CRLF) (sample_session, sample_world) = (Inr (), ss, w) \<and>
     ss_written ss = [''250 OK: queued as q0'' @ CRLF]"
proof -
  have md: "extract_full_metadata text_parser ''hi'' ''bob@y.org'' = (\<lparr>em_sender = ''bob@y.org'', em_subject = ''No Subject'',
      em_message_id = None, em_in_reply_to = None, em_references = []\<rparr>, [])"
    by (simp add: extract_full_metadata_def text_parser_def unwrap_or_def)
  have faults: "io_faults (empty_fs\<lparr>files := f\<rparr>) = []" "io_faults empty_fs = []" for f by (simp_all add: empty_fs_def)
  show ?thesis
    by (simp add: handle_body_line_def sample_dot sample_service_def sample_world_def sample_session_def session_new_def
      session_eval store_message_def buffer_extract_full_metadata_def md sample_ob_def sample_uuids
      buffer_persist_to_path_def write_file_no_fault faults Let_def thread_references_def
      find_thread_id_by_references_def db_return_def unwrap_or_def sample_insert mail_stored_def buffer_get_content_bytes_def
      label_matches_def sample_view_fields sample_evaluate forward_stored_def finish_message_def)
qed

theorem acknowledged_mail_is_on_record_witness:
  "\<exists>ss w. handle_body_line sample_service (''.'' @ CRLF) (sample_session, sample_world) = (Inr (), ss, w) \<and>
     ss_written ss = [''250 OK: queued as q0'' @ CRLF] \<and> mail_on_record sample_service ''q0'' ''a1'' ''hi'' w"
proof -
  from sample_end_of_body obtain ss w where
    run: "handle_body_line sample_service (''.'' @ CRLF) (sample_session, sample_world) = (Inr (), ss, w)"
    and out: "ss_written ss = [''250 OK: queued as q0'' @ CRLF]" by blast
  have s: "ss_reply_mapping sample_session = None" "ss_alias_id sample_session = Some ''a1''"
    "ss_written sample_session = []" "buffer_content (ss_body_buffer sample_session) = ''hi''"
    by (simp_all add: sample_session_def session_new_def buffer_content_def)
  from acknowledged_mail_is_on_record [OF s(1,2) _ run] sample_dot out s(3,4)
  have "mail_on_record sample_service ''q0'' ''a1'' ''hi'' w" by auto
  with run out show ?thesis by blast
qed

section \<open>Predicates every step keeps\<close>

definition always :: "(smtp_session \<Rightarrow> world \<Rightarrow> bool) \<Rightarrow> 'a session \<Rightarrow> bool" where
  "always I m = spec I m (\<lambda>_. I) I"

named_theorems always_rules \<open>introduction rules of always\<close>

lemma always_bind [always_rules]: "always I m \<Longrightarrow> (\<And>a. always I (f a)) \<Longrightarrow> always I (s_bind m f)"
  unfolding always_def by (rule spec_bind)

lemma always_simple [always_rules]: "always I (s_return a)" "always I (s_fail e)" "always I (s_get g)"
  unfolding always_def by (auto intro!: spec_return spec_fail spec_weaken [OF spec_get])

lemma always_cases [always_rules]:
  "(b \<Longrightarrow> always I m) \<Longrightarrow> (\<not> b \<Longrightarrow> always I n) \<Longrightarrow> always I (if b then m else n)"
  "(x = None \<Longrightarrow> always I m) \<Longrightarrow> (\<And>a. x = Some a \<Longrightarrow> always I (g a)) \<Longrightarrow> always I (case x of None \<Rightarrow> m | Some a \<Rightarrow> g a)"
  "(\<And>e. y = Inl e \<Longrightarrow> always I (f1 e)) \<Longrightarrow> (\<And>a. y = Inr a \<Longrightarrow> always I (f2 a)) \<Longrightarrow>
   always I (case y of Inl e \<Rightarrow> f1 e | Inr a \<Rightarrow> f2 a)"
  "(\<And>a b. z = (a, b) \<Longrightarrow> always I (h a b)) \<Longrightarrow> always I (case z of (a, b) \<Rightarrow> h a b)"
  "(l = [] \<Longrightarrow> always I m) \<Longrightarrow> (\<And>c cs. l = c # cs \<Longrightarrow> always I (k c cs)) \<Longrightarrow>
   always I (case l of [] \<Rightarrow> m | c # cs \<Rightarrow> k c cs)"
  by (auto split: option.split sum.split prod.split list.split)

lemma always_try [always_rules]: "always I m \<Longrightarrow> always I (s_try m)"
  unfolding always_def by (rule spec_try) (auto elim!: spec_weaken split: sum.split)

lemma alwaysD: "always I m \<Longrightarrow> I ss w \<Longrightarrow> m (ss, w) = (r, ss', w') \<Longrightarrow> I ss' w'"
  unfolding always_def by (drule (2) specD) (auto split: sum.splits)

text \<open>Two predicates at once: a reply mapping, once set, stays set; the database stays well-formed.\<close>

definition steady :: "bool \<Rightarrow> bool \<Rightarrow> smtp_session \<Rightarrow> world \<Rightarrow> bool" where
  "steady mapped sound ss w =
     ((mapped \<longrightarrow> ss_reply_mapping ss \<noteq> None) \<and> (sound \<longrightarrow> db_wf (sy_db (wd_sys w))))"

lemma steady_update:
  "(\<And>ss. ss_reply_mapping ss \<noteq> None \<Longrightarrow> ss_reply_mapping (f ss) \<noteq> None) \<Longrightarrow> always (steady mp wfs) (s_update f)"
  unfolding always_def by (rule spec_update) (auto simp: steady_def)

lemma steady_world:
  "(\<And>w a w'. f w = (a, w') \<Longrightarrow> db_wf (sy_db (wd_sys w)) \<Longrightarrow> db_wf (sy_db (wd_sys w'))) \<Longrightarrow> always (steady mp wfs) (s_world f)"
  unfolding always_def by (rule spec_world) (auto simp: steady_def)

lemma steady_db [always_rules]: "keeps db_wf m \<Longrightarrow> always (steady mp wfs) (s_db m)"
  unfolding s_db_def by (rule steady_world) (auto simp: w_sys_def on_db_def dest: keepsD split: prod.splits)

lemma steady_buffer [always_rules]: "always (steady mp wfs) (s_buffer f)"
  unfolding always_def by (rule spec_buffer) (simp add: steady_def)

lemma steady_write [always_rules]: "always (steady mp wfs) (write_line msg)"
  unfolding always_def by (rule spec_write) (simp_all add: steady_def)

lemma steady_ignore [always_rules]: "always (steady mp wfs) m \<Longrightarrow> always (steady mp wfs) (ignore_error m)"
  by (auto simp: always_def spec_def ignore_error_def split: prod.splits sum.splits)

lemma steady_sys [always_rules]:
  "always (steady mp wfs) s_fresh" "always (steady mp wfs) s_now" "always (steady mp wfs) (spawn t)"
  "always (steady mp wfs) (notify e)" "always (steady mp wfs) (s_world (w_sys (fresh_uuids n)))"
  "always (steady mp wfs) (s_world (w_sys (mime_env_of ob)))" "always (steady mp wfs) (count_failure ip)"
  "always (steady mp wfs) (block_peer ip)" "always (steady mp wfs) (sleep_secs n)"
  "always (steady mp wfs) (s_world (\<lambda>w. (f w, w)))"
  unfolding s_fresh_def s_now_def spawn_def notify_def count_failure_def block_peer_def sleep_secs_def
  by (rule steady_world; auto simp: w_sys_def fresh_uuid_def mime_env_of_def dest: fresh_uuids_sys split: prod.splits)+

lemma keeps_reads: "keeps db_wf (get_reply_mapping_by_token t)" "keeps db_wf (resolve_recipient_alias l d)"
  "keeps db_wf (find_thread_id_by_references rs)" "keeps db_wf (get_filters_for_engine u)"
  unfolding get_reply_mapping_by_token_def resolve_recipient_alias_def find_thread_id_by_references_def get_filters_for_engine_def
  by (intro keeps_rules; simp)+

lemma evaluate_wf: "evaluate lib parse u raw cache d = (r, cache', d') \<Longrightarrow> db_wf d \<Longrightarrow> db_wf d'"
  by (auto simp: evaluate_def get_or_compile_def Let_def dest: keepsD [OF keeps_reads(4)]
      split: prod.splits sum.splits option.splits if_splits)

lemma steady_parts [always_rules]:
  "always (steady mp wfs) finish_message" "always (steady mp wfs) (label_matches svc e b)"
  "always (steady mp wfs) (forward_stored md e a)"
proof -
  show "always (steady mp wfs) finish_message" unfolding finish_message_def by (rule steady_update) simp
  have "always (steady mp wfs) (s_world (\<lambda>w. case evaluate (ms_ac svc) (ob_parse (ms_outbound svc)) (rv_user_id e) b
           (wd_cache w) (sy_db (wd_sys w)) of
         (r, cache, d) \<Rightarrow> (r, w\<lparr>wd_cache := cache, wd_sys := (wd_sys w)\<lparr>sy_db := d\<rparr>\<rparr>)))"
    by (rule steady_world) (auto dest: evaluate_wf split: prod.splits)
  then show "always (steady mp wfs) (label_matches svc e b)"
    unfolding label_matches_def by (intro always_rules keeps_labels)
  show "always (steady mp wfs) (forward_stored md e a)"
    unfolding forward_stored_def
    by (intro always_bind always_simple) (auto intro!: always_rules split: prod.split bool.split option.split)
qed

lemma steady_body: "always (steady mp wfs) (handle_body_line svc line)"
  unfolding handle_body_line_def relay_reply_def store_message_def mail_stored_def Let_def
  by (intro always_rules keeps_reads keeps_insert_email_with_attachments)

lemma steady_rcpt: "always (steady mp wfs) (handle_rcpt_to svc cmd)"
proof -
  have acc: "always (steady mp wfs) (accept_alias row)" for row
    unfolding accept_alias_def by (intro always_rules steady_update) simp
  have "always (steady mp wfs) (s_update (\<lambda>ss. ss\<lparr>ss_reply_mapping := Some m, ss_state := Data\<rparr>))" for m
    by (rule steady_update) simp
  moreover have "always (steady mp wfs) (s_update (\<lambda>ss. ss\<lparr>ss_recipient := Some addr\<rparr>))" for addr
    by (rule steady_update) simp
  ultimately show ?thesis
    unfolding handle_rcpt_to_def rcpt_reply_token_def rcpt_alias_def unknown_recipient_def
    by (intro always_rules keeps_reads acc)
qed

lemma steady_round: "always (steady mp wfs) (session_round svc e)"
proof -
  have up: "always (steady mp wfs) (upgrade_to_tls svc)"
    unfolding upgrade_to_tls_def
    by (cases "ms_tls svc") (auto intro!: always_rules steady_update split: list.split bool.split)
  have rs: "always (steady mp wfs) reset_session"
    unfolding reset_session_def by (intro always_rules steady_update) simp
  have cmd: "always (steady mp wfs) (command_step svc c)" for c
    unfolding command_step_def handle_greet_def handle_mail_from_def handle_data_command_def set_state_def
    by (rule always_bind [OF always_simple(3)])
      (auto intro!: always_rules steady_update steady_rcpt steady_body split: smtp_state.split option.split)
  have rd: "always (steady mp wfs) (read_line_with_timeout e)"
    unfolding read_line_with_timeout_def by (cases e) (auto intro!: always_rules)
  have bd: "always (steady mp wfs) (body_step svc line)" for line
    unfolding always_def
  proof (rule specI)
    fix ss w r ss' w'
    assume st: "steady mp wfs ss w" and run: "body_step svc line (ss, w) = (r, ss', w')"
    obtain r1 ss1 w1 where h: "handle_body_line svc line (ss, w) = (r1, ss1, w1)" by (metis prod_cases3)
    have s1: "steady mp wfs ss1 w1" by (rule alwaysD [OF steady_body st h])
    have over: "always (steady mp wfs) (s_bind (ignore_error (write_line m)) (\<lambda>_. s_return False))" for m
      by (intro always_rules)
    have "steady mp wfs ss' w'"
      using run h s1 alwaysD [OF over s1]
      by (auto simp: body_step_def split: sum.splits session_error.splits io_error.splits)
    then show "case r of Inl _ \<Rightarrow> steady mp wfs ss' w' | Inr _ \<Rightarrow> steady mp wfs ss' w'" by (cases r) simp_all
  qed
  show ?thesis
    unfolding session_round_def Let_def by (intro always_rules up rs cmd rd bd)
qed

lemma steady_rounds: "always (steady mp wfs) (session_rounds svc es)"
proof (induction es)
  case (Cons e es)
  then show ?case unfolding session_rounds.simps by (intro always_rules steady_round)
qed (simp add: always_simple)

section \<open>Reply tokens\<close>

lemma relay_reply_result:
  assumes "relay_reply svc m (ss, w) = (r, ss', w')"
  shows "t_emails (sy_db (wd_sys w')) = t_emails (sy_db (wd_sys w)) \<and>
    (wd_tasks w' = wd_tasks w \<or>
     (\<exists>body. wd_tasks w' = wd_tasks w @ [RelayReply (ml_original_sender m) (ml_alias_subdomain m @ ''@'' @ ml_domain_name m) body]))"
  using assms
  by (auto simp: relay_reply_def Let_def s_bind_def s_try_def s_buffer_def s_fail_def s_return_def s_world_def w_sys_def
      mime_env_of_def fresh_uuid_def spawn_def write_line_def finish_message_def s_update_def
      split: prod.splits sum.splits list.splits bool.splits if_splits)

text \<open>C9: A reply mapping outlives its message. Once a recipient was a reply token, the mapping stays for the rest
  of the connection, through RSET, STARTTLS, new senders and new recipients; every later message of the
  connection, also one whose accepted recipient is an alias, is not stored, and is relayed to the mapping's
  original sender if to anyone.\<close>
theorem reply_mapping_outlives_its_message:
  assumes "ss_reply_mapping ss \<noteq> None"
    and rounds: "session_rounds svc events (ss, w) = (r1, ss1, w1)"
    and body_end: "trim_line_end line = ''.''" "handle_body_line svc line (ss1, w1) = (r2, ss2, w2)"
  shows "(case ss_reply_mapping ss1 of
      None \<Rightarrow> False
    | Some m \<Rightarrow> t_emails (sy_db (wd_sys w2)) = t_emails (sy_db (wd_sys w1)) \<and>
        (wd_tasks w2 = wd_tasks w1 \<or>
         (\<exists>body. wd_tasks w2 = wd_tasks w1 @
            [RelayReply (ml_original_sender m) (ml_alias_subdomain m @ ''@'' @ ml_domain_name m) body])))"
proof -
  have "steady True False ss w" using assms(1) by (simp add: steady_def)
  from alwaysD [OF steady_rounds this rounds] obtain m where m: "ss_reply_mapping ss1 = Some m"
    by (auto simp: steady_def)
  with body_end have "relay_reply svc m (ss1, w1) = (r2, ss2, w2)"
    by (simp add: handle_body_line_def s_bind_def s_get_def)
  from relay_reply_result [OF this] show ?thesis by (simp add: m)
qed

definition sample_reply :: reply_mapping_lookup where
  "sample_reply = mapping_view sample_mapping (sample_alias ''a1'' ''u1'' ''shop'', sample_domain)"

definition replied_session :: smtp_session where
  "replied_session = sample_session\<lparr>ss_reply_mapping := Some sample_reply, ss_alias_id := None, ss_state := RcptTo\<rparr>"

definition next_message :: "client_event list" where
  "next_message = map (\<lambda>c. Line (c @ CRLF)) [''RSET'', ''MAIL FROM:<eve@z.org>'', ''RCPT TO:<shop@x.org>'', ''DATA'', ''buy'']"

lemma round_command:
  assumes "ascii c" "trim (c @ CRLF) = c" "c \<noteq> []" "ss_state ss \<noteq> ReadingBody"
  shows "session_round svc (Line (c @ CRLF)) (ss, w) =
    (if to_uppercase c = ''QUIT''
     then s_bind (write_line ''221 2.0.0 Service closing transmission channel'') (\<lambda>_. s_return False) (ss, w)
     else if to_uppercase c = ''STARTTLS'' then s_bind (upgrade_to_tls svc) (\<lambda>_. s_return True) (ss, w)
     else if to_uppercase c = ''RSET'' then s_bind reset_session (\<lambda>_. s_return True) (ss, w)
     else s_bind (command_step svc c) (\<lambda>_. s_return True) (ss, w))"
proof -
  have "ascii (c @ CRLF)" using assms(1) by (simp add: ascii_def code_point_def)
  with assms show ?thesis
    by (simp add: session_round_def s_bind_def s_get_def read_line_with_timeout_def s_return_def ascii_utf8)
qed

text \<open>The commands of the sample, each on any session whose client can be written to.\<close>

definition writable :: "smtp_session \<Rightarrow> bool" where
  "writable ss = (ss_stream ss = TcpStream \<and> ss_write_faults ss = [])"

lemma write_writable:
  "writable ss \<Longrightarrow> write_line msg (ss, w) = (Inr (), ss\<lparr>ss_written := ss_written ss @ [msg @ CRLF]\<rparr>, w)"
  by (cases ss) (simp add: writable_def write_line_def)

lemma writable_update [simp]:
  "writable (ss\<lparr>ss_written := out\<rparr>) = writable ss" "writable (ss\<lparr>ss_state := st\<rparr>) = writable ss"
  "writable (ss\<lparr>ss_sender := a\<rparr>) = writable ss" "writable (ss\<lparr>ss_recipient := a\<rparr>) = writable ss"
  "writable (ss\<lparr>ss_alias_id := a\<rparr>) = writable ss" "writable (ss\<lparr>ss_body_buffer := b\<rparr>) = writable ss"
  "writable (ss\<lparr>ss_destination_email := a\<rparr>) = writable ss" "writable (ss\<lparr>ss_auto_forward := f\<rparr>) = writable ss"
  "writable (ss\<lparr>ss_reply_mapping := m\<rparr>) = writable ss"
  by (simp_all add: writable_def)

lemmas step_eval = s_bind_def s_get_def s_update_def s_return_def write_writable set_state_def

lemma rset_round:
  "writable ss \<Longrightarrow> ss_state ss \<noteq> ReadingBody \<Longrightarrow>
   session_round svc (Line (''RSET'' @ CRLF)) (ss, w) = (Inr True, ss\<lparr>ss_sender := None, ss_recipient := None,
      ss_alias_id := None, ss_body_buffer := buffer_clear (ss_body_buffer ss), ss_state := MailFrom,
      ss_written := ss_written ss @ [''250 OK Resetting'' @ CRLF]\<rparr>, w)"
  by (subst round_command) (simp_all add: ascii_def trim_eval char_eval to_uppercase_def step_eval reset_session_def)

lemma mail_round:
  "writable ss \<Longrightarrow> ss_state ss = MailFrom \<Longrightarrow>
   session_round svc (Line (''MAIL FROM:<eve@z.org>'' @ CRLF)) (ss, w) = (Inr True, ss\<lparr>ss_sender := Some ''eve@z.org'',
      ss_written := ss_written ss @ [''250 OK'' @ CRLF], ss_state := RcptTo\<rparr>, w)"
  by (subst round_command) (simp_all add: ascii_def trim_eval char_eval to_uppercase_def step_eval command_step_def
      handle_mail_from_def extract_sender_def trim_brackets_def to_lowercase_def)

lemma data_round:
  "writable ss \<Longrightarrow> ss_state ss = Data \<Longrightarrow>
   session_round svc (Line (''DATA'' @ CRLF)) (ss, w) = (Inr True, ss\<lparr>ss_written := ss_written ss @
      [''354 End data with <CR><LF>.<CR><LF>'' @ CRLF], ss_state := ReadingBody\<rparr>, w)"
  by (subst round_command) (simp_all add: ascii_def trim_eval char_eval to_uppercase_def step_eval command_step_def
      handle_data_command_def)

lemma rcpt_round:
  assumes "writable ss" "ss_state ss = RcptTo" "sy_db (wd_sys w) = sample_db Sqlite"
  shows "session_round svc (Line (''RCPT TO:<shop@x.org>'' @ CRLF)) (ss, w) = (Inr True,
      ss\<lparr>ss_recipient := Some ''shop@x.org'', ss_alias_id := Some ''a1'', ss_destination_email := Some ''me@home.org'',
        ss_auto_forward := True, ss_state := Data,
        ss_written := ss_written ss @ [''250 2.1.5 Destination address accepted'' @ CRLF]\<rparr>, w)"
proof -
  have r: "extract_recipient ''RCPT TO:<shop@x.org>'' = Some ''shop@x.org''"
    by (simp add: extract_recipient_def trim_brackets_def to_lowercase_def trim_eval char_eval)
  have w: "s_db (resolve_recipient_alias ''shop'' ''x.org'') (s, w) =
      (Inr (Inr (Some (lookup_of (sample_alias ''a1'' ''u1'' ''shop'')))), s, w)" for s
    using assms(3) by (cases w) (simp add: s_db_def s_world_def w_sys_def on_db_def resolve_sample)
  have "handle_rcpt_to svc ''RCPT TO:<shop@x.org>'' (ss, w) = (Inr (),
      ss\<lparr>ss_recipient := Some ''shop@x.org'', ss_alias_id := Some ''a1'', ss_destination_email := Some ''me@home.org'',
        ss_auto_forward := True, ss_state := Data,
        ss_written := ss_written ss @ [''250 2.1.5 Destination address accepted'' @ CRLF]\<rparr>, w)"
    unfolding handle_rcpt_to_def r option.case using assms(1) w
    by (simp add: cons_first_def to_lowercase_def char_eval rcpt_alias_def accept_alias_def step_eval
        lookup_of_def sample_alias_def)
  with assms show ?thesis
    by (subst round_command) (simp_all add: ascii_def trim_eval char_eval to_uppercase_def s_bind_def s_get_def
        s_return_def command_step_def)
qed

lemma body_round:
  assumes "ss_state ss = ReadingBody" "ss_body_buffer ss = buffer_clear b" "20 < max_memory b" "20 < max_total_size b"
  shows "\<exists>b'. session_round svc (Line (''buy'' @ CRLF)) (ss, w) = (Inr True, ss\<lparr>ss_body_buffer := b'\<rparr>, w) \<and>
      buffer_content b' = ''buy'' @ CRLF"
proof -
  have u: "valid_utf8 (''buy'' @ CRLF)" by (rule ascii_utf8) (simp add: ascii_def code_point_def)
  have h: "handle_body_line svc (''buy'' @ CRLF) (ss, w) = (Inr (), ss\<lparr>ss_body_buffer :=
      b\<lparr>bb_state := Memory (''buy'' @ CRLF), bytes_written := 5\<rparr>\<rparr>, w)"
    using assms by (cases w) (simp add: handle_body_line_def trim_line_end_def trim_end_by_def s_try_def s_buffer_def
        s_bind_def s_return_def buffer_append_def unstuff_def strip_prefix_def buffer_clear_def Let_def)
  show ?thesis
    using assms(1) u h by (intro exI conjI) (simp add: session_round_def read_line_with_timeout_def s_bind_def s_get_def s_return_def
        body_step_def, simp add: buffer_content_def)
qed

lemma next_message_accepted:
  "\<exists>ss. session_rounds sample_service next_message (replied_session, sample_world) = (Inr (), ss, sample_world) \<and>
     ss_state ss = ReadingBody \<and> ss_alias_id ss = Some ''a1'' \<and> ss_reply_mapping ss = Some sample_reply \<and>
     buffer_content (ss_body_buffer ss) = ''buy'' @ CRLF"
proof -
  let ?s = "replied_session\<lparr>ss_body_buffer := buffer_clear (ss_body_buffer replied_session), ss_sender := Some ''eve@z.org'',
      ss_recipient := Some ''shop@x.org'', ss_alias_id := Some ''a1'', ss_destination_email := Some ''me@home.org'',
      ss_auto_forward := True, ss_written := [''250 OK Resetting'' @ CRLF] @ [''250 OK'' @ CRLF] @
        [''250 2.1.5 Destination address accepted'' @ CRLF] @ [''354 End data with <CR><LF>.<CR><LF>'' @ CRLF],
      ss_state := ReadingBody\<rparr>"
  have w: "sy_db (wd_sys sample_world) = sample_db Sqlite" by (simp add: sample_world_def sample_sys_def)
  have s: "writable replied_session" "ss_state replied_session = RcptTo" "ss_written replied_session = []"
    by (simp_all add: writable_def replied_session_def sample_session_def session_new_def)
  have four: "session_rounds sample_service next_message (replied_session, sample_world) =
      session_rounds sample_service [Line (''buy'' @ CRLF)] (?s, sample_world)"
    using s w by (simp add: next_message_def s_bind_def rset_round mail_round rcpt_round data_round del: append.simps(2))
  have "\<exists>b'. session_round sample_service (Line (''buy'' @ CRLF)) (?s, sample_world) = (Inr True, ?s\<lparr>ss_body_buffer := b'\<rparr>, sample_world) \<and>
      buffer_content b' = ''buy'' @ CRLF"
    by (rule body_round [where b = "ss_body_buffer replied_session"])
      (simp_all add: replied_session_def sample_session_def)
  then obtain b' where last: "session_round sample_service (Line (''buy'' @ CRLF)) (?s, sample_world) =
      (Inr True, ?s\<lparr>ss_body_buffer := b'\<rparr>, sample_world)" and b': "buffer_content b' = ''buy'' @ CRLF" by blast
  show ?thesis
    by (rule exI [of _ "?s\<lparr>ss_body_buffer := b'\<rparr>"], unfold four session_rounds.simps s_bind_def last)
      (simp add: s_return_def b' replied_session_def)
qed

theorem reply_mapping_outlives_its_message_witness:
  "\<exists>ss w r ss'. session_rounds sample_service next_message (replied_session, sample_world) = (Inr (), ss, sample_world) \<and>
     ss_alias_id ss = Some ''a1'' \<and> handle_body_line sample_service (''.'' @ CRLF) (ss, sample_world) = (r, ss', w) \<and>
     t_emails (sy_db (wd_sys w)) = [sample_mail] \<and>
     (wd_tasks w = [] \<or> (\<exists>body. wd_tasks w = [RelayReply ''bob@y.org'' ''shop@x.org'' body]))"
proof -
  from next_message_accepted obtain ss where
    run: "session_rounds sample_service next_message (replied_session, sample_world) = (Inr (), ss, sample_world)"
    and ss: "ss_alias_id ss = Some ''a1''" "ss_reply_mapping ss = Some sample_reply" by blast
  obtain r ss' w where h: "handle_body_line sample_service (''.'' @ CRLF) (ss, sample_world) = (r, ss', w)"
    by (metis prod_cases3)
  have m: "ss_reply_mapping replied_session \<noteq> None" by (simp add: replied_session_def)
  have e: "ml_original_sender sample_reply = ''bob@y.org''" "ml_alias_subdomain sample_reply @ ''@'' @ ml_domain_name sample_reply = ''shop@x.org''"
    by (simp_all add: sample_reply_def mapping_view_def sample_mapping_def sample_alias_def sample_domain_def)
  have w: "t_emails (sy_db (wd_sys sample_world)) = [sample_mail]" "wd_tasks sample_world = []"
    by (simp_all add: sample_world_def sample_sys_def sample_db_def empty_db_def)
  from reply_mapping_outlives_its_message [OF m run _ h] sample_dot
  have "t_emails (sy_db (wd_sys w)) = [sample_mail] \<and>
     (wd_tasks w = [] \<or> (\<exists>body. wd_tasks w = [RelayReply ''bob@y.org'' ''shop@x.org'' body]))"
    by (simp add: ss e w del: append.simps) simp
  with run ss(1) h show ?thesis by blast
qed
lemma accept_mapping_only:
  assumes "rcpt_reply_token svc l (ss, w) = (r, ss', w')" "ss_reply_mapping ss' \<noteq> ss_reply_mapping ss"
  shows "\<exists>m a. fst (get_reply_mapping_by_token l (sy_db (wd_sys w))) = Inr (Some m) \<and> ss_reply_mapping ss' = Some m \<and>
    ss_state ss' = Data \<and> ss_sender ss = Some a \<and> to_lowercase a = to_lowercase (ml_destination_email m) \<and>
    \<not> spf_refuses (ms_outbound svc) a (ss_peer_ip ss)"
  using assms
  by (auto simp: rcpt_reply_token_def s_bind_def s_db_def s_world_def w_sys_def on_db_def s_get_def s_update_def write_line_def
      split: prod.splits sum.splits option.splits if_splits list.splits bool.splits)

lemma rcpt_alias_mapping: "rcpt_alias svc l d (ss, w) = (r, ss', w') \<Longrightarrow> ss_reply_mapping ss' = ss_reply_mapping ss"
proof -
  have wr: "write_line msg (s1, w1) = (r1, s2, w2) \<Longrightarrow> ss_reply_mapping s2 = ss_reply_mapping s1" for msg s1 w1 r1 s2 w2
    by (auto simp: write_line_def split: if_splits list.splits bool.splits)
  have un: "unknown_recipient svc (s1, w1) = (r1, s2, w2) \<Longrightarrow> ss_reply_mapping s2 = ss_reply_mapping s1" for s1 w1 r1 s2 w2
    by (auto simp: unknown_recipient_def count_failure_def block_peer_def sleep_secs_def s_bind_def s_world_def s_get_def s_fail_def
        split: prod.splits sum.splits if_splits dest: wr)
  have ac: "accept_alias row (s1, w1) = (r1, s2, w2) \<Longrightarrow> ss_reply_mapping s2 = ss_reply_mapping s1" for row s1 w1 r1 s2 w2
    by (auto simp: accept_alias_def s_bind_def s_update_def dest!: wr)
  show "rcpt_alias svc l d (ss, w) = (r, ss', w') \<Longrightarrow> ?thesis"
    by (auto simp: rcpt_alias_def s_bind_def s_db_def s_world_def split: prod.splits sum.splits option.splits dest: wr un ac)
qed

text \<open>C8: Only the alias' owner can use a reply token. When a RCPT command gives the session a reply mapping, the local
  part of the recipient is a token that the database maps to it, the envelope sender is, up to case, the owner's
  address the alias forwards to, and the sender's domain did not fail SPF for the peer.\<close>
theorem reply_token_needs_owner:
  assumes run: "handle_rcpt_to svc cmd (ss, w) = (r, ss', w')"
    and new: "ss_reply_mapping ss' \<noteq> ss_reply_mapping ss"
  shows "\<exists>token domain_part m sender. extract_recipient cmd = Some (token @ ''@'' @ domain_part) \<and> starts_with ''reply-'' token \<and>
    fst (get_reply_mapping_by_token token (sy_db (wd_sys w))) = Inr (Some m) \<and> ss_reply_mapping ss' = Some m \<and>
    ss_sender ss = Some sender \<and> to_lowercase sender = to_lowercase (ml_destination_email m) \<and>
    \<not> spf_refuses (ms_outbound svc) sender (ss_peer_ip ss) \<and> ss_state ss' = Data"
proof -
  have wr: "write_line msg (s1, w1) = (r1, s2, w2) \<Longrightarrow> ss_reply_mapping s2 = ss_reply_mapping s1" for msg s1 w1 r1 s2 w2
    by (auto simp: write_line_def split: if_splits list.splits bool.splits)
  obtain addr where addr: "extract_recipient cmd = Some addr"
    using run new by (auto simp: handle_rcpt_to_def split: option.splits dest: wr)
  let ?s = "ss\<lparr>ss_recipient := Some addr\<rparr>"
  have same: "ss_reply_mapping ?s = ss_reply_mapping ss" by simp
  obtain token dp where parts: "split_on (CHR ''@'') addr = [token, dp]" and st: "starts_with ''reply-'' token"
    and tok: "rcpt_reply_token svc token (?s, w) = (r, ss', w')"
    using run new unfolding handle_rcpt_to_def addr option.case
    by (auto simp: s_bind_def s_update_def s_world_def split: list.splits if_splits option.splits prod.splits
        dest!: wr rcpt_alias_mapping)
  from accept_mapping_only [OF tok] new same obtain m a where
    "fst (get_reply_mapping_by_token token (sy_db (wd_sys w))) = Inr (Some m)" "ss_reply_mapping ss' = Some m"
    "ss_state ss' = Data" "ss_sender ss = Some a" "to_lowercase a = to_lowercase (ml_destination_email m)"
    "\<not> spf_refuses (ms_outbound svc) a (ss_peer_ip ss)" by auto
  moreover have "addr = token @ ''@'' @ dp" using parts join_split_on [of "CHR ''@''" addr] by simp
  ultimately show ?thesis using addr st by auto
qed

text \<open>The owner writes to the alias' reply address.\<close>

definition reply_world :: world where
  "reply_world = sample_world\<lparr>wd_sys := sample_sys\<lparr>sy_db := mapped_db\<rparr>\<rparr>"

definition owner_session :: smtp_session where
  "owner_session = (session_new (V4 0x0A000001) [] [])\<lparr>ss_state := RcptTo, ss_sender := Some ''Me@home.org''\<rparr>"

definition owner_service :: mail_service where
  "owner_service = sample_service\<lparr>ms_outbound := sample_ob\<lparr>ob_resolver := spf_answers ''home.org'' ''v=spf1 ip4:10.0.0.1''\<rparr>\<rparr>"

lemma owner_spf: "service_check_spf (ms_outbound owner_service) ''home.org'' (V4 0x0A000001)"
proof -
  let ?rec = "''v=spf1 ip4:10.0.0.1''"
  have utf: "from_utf8_lossy ?rec = ?rec" by (rule from_utf8_lossy_ascii) (simp add: code_point_def)
  have dirs: "parse_spf_record ?rec = [Ip4 ''10.0.0.1'']"
    by (simp add: parse_spf_record_def str_eval to_lowercase_def parse_term_def clean_term_def)
  have m: "match_ip_cidr (V4 0x0A000001) ''10.0.0.1''"
    by (simp add: match_ip_cidr_def parse_ip_def parse_ipv4_def parse_octet_def from_octets_def cons_first_def num_eval Let_def)
  have ans: "answer_directives [TXT [?rec]] = [Ip4 ''10.0.0.1'']"
    using utf dirs by (simp add: answer_directives_def txt_data_def)
  show ?thesis
    unfolding service_check_spf_def check_spf_for_domain_def
    by (subst spf_ask) (simp_all add: owner_service_def spf_answers_def ans m)
qed

lemma sample_token:
  "get_reply_mapping_by_token ''reply-0f'' mapped_db = (Inr (Some sample_reply), mapped_db)"
  by (simp add: get_reply_mapping_by_token_def db_eval sample_defs mapped_db_def sample_mapping_def alias_domains_def
      sample_reply_def)

lemma owner_accepted:
  "handle_rcpt_to owner_service ''RCPT TO:<reply-0f@x.org>'' (owner_session, reply_world) = (Inr (),
     owner_session\<lparr>ss_recipient := Some ''reply-0f@x.org'', ss_reply_mapping := Some sample_reply, ss_state := Data,
       ss_written := [''250 2.1.5 Destination address accepted'' @ CRLF]\<rparr>, reply_world)"
proof -
  have r: "extract_recipient ''RCPT TO:<reply-0f@x.org>'' = Some ''reply-0f@x.org''"
    by (simp add: extract_recipient_def trim_brackets_def to_lowercase_def trim_eval char_eval)
  have wo: "writable owner_session" by (simp add: owner_session_def session_new_def writable_def)
  have o: "ss_sender owner_session = Some ''Me@home.org''" "ss_written owner_session = []"
    by (simp_all add: owner_session_def session_new_def)
  have m: "ml_destination_email sample_reply = ''me@home.org''"
    by (simp add: sample_reply_def mapping_view_def sample_mapping_def sample_alias_def)
  have d: "s_db (get_reply_mapping_by_token ''reply-0f'') (s, reply_world) = (Inr (Inr (Some sample_reply)), s, reply_world)" for s
    by (simp add: s_db_def s_world_def w_sys_def on_db_def reply_world_def sample_token)
  have ip: "ss_peer_ip owner_session = V4 0x0A000001" by (simp add: owner_session_def session_new_def)
  have s: "\<not> spf_refuses (ms_outbound owner_service) ''Me@home.org'' (V4 0x0A000001)"
    using owner_spf by (simp add: spf_refuses_def cons_first_def)
  show ?thesis
    unfolding handle_rcpt_to_def r option.case using wo d s
    by (simp add: cons_first_def rcpt_reply_token_def step_eval o m ip to_lowercase_def char_eval)
qed

theorem reply_token_needs_owner_witness:
  "\<exists>token domain_part m sender. extract_recipient ''RCPT TO:<reply-0f@x.org>'' = Some (token @ ''@'' @ domain_part) \<and>
    fst (get_reply_mapping_by_token token mapped_db) = Inr (Some m) \<and> Some sample_reply = Some m \<and>
    Some ''Me@home.org'' = Some sender \<and> to_lowercase sender = to_lowercase (ml_destination_email m)"
proof -
  have n: "ss_reply_mapping owner_session = None" "ss_sender owner_session = Some ''Me@home.org''"
    "sy_db (wd_sys reply_world) = mapped_db"
    by (simp_all add: owner_session_def session_new_def reply_world_def)
  from reply_token_needs_owner [OF owner_accepted] n show ?thesis by auto
qed

section \<open>Unknown recipients\<close>

lemma record_failure_count: "record_failure now ip rl = (n, rl') \<Longrightarrow> n = failures_of rl ip + 1 \<and> failures_of rl' ip = n"
  by (auto simp: record_failure_def failures_of_def Let_def split: option.splits)

lemma add_ip_blocks: "add_ip ip bl \<sigma> = ((r, bl'), \<sigma>') \<Longrightarrow> is_blocked ip bl'"
  by (auto simp: add_ip_def is_blocked_def Let_def split: if_splits prod.splits)

lemma unknown_recipient_result:
  assumes "writable ss" and run: "unknown_recipient svc (ss, w) = (r, ss', w')"
  shows "(let ip = ss_peer_ip ss; n = failures_of (wd_limiter w) ip + 1
     in failures_of (wd_limiter w') ip = n \<and>
        (if block_threshold (ms_limits svc) \<le> n
         then r = Inl (SessionIo ConnectionAborted) \<and> is_blocked ip (wd_blocklist w') \<and>
           ss_written ss' = ss_written ss @ [''554 5.7.1 Connection refused - IP address blocked'' @ CRLF]
         else if tarpit_threshold (ms_limits svc) \<le> n
         then r = Inr () \<and> sy_now (wd_sys w') = sy_now (wd_sys w) + int (tarpit_duration_secs (ms_limits svc)) \<and>
           wd_blocklist w' = wd_blocklist w \<and> ss_written ss' = ss_written ss @ [''451 4.7.1 Please try again later'' @ CRLF]
         else r = Inr () \<and> sy_now (wd_sys w') = sy_now (wd_sys w) \<and> wd_blocklist w' = wd_blocklist w \<and>
           ss_written ss' = ss_written ss @ [''550 User Not Found'' @ CRLF]))"
proof -
  obtain n rl where c: "record_failure (nat (sy_now (wd_sys w))) (ss_peer_ip ss) (wd_limiter w) = (n, rl)" by fastforce
  let ?w = "w\<lparr>wd_limiter := rl\<rparr>"
  have n: "n = failures_of (wd_limiter w) (ss_peer_ip ss) + 1" "failures_of rl (ss_peer_ip ss) = n"
    using record_failure_count [OF c] by simp_all
  have one: "unknown_recipient svc (ss, w) =
      (if block_threshold (ms_limits svc) \<le> n
       then s_bind (block_peer (ss_peer_ip ss)) (\<lambda>_.
         s_bind (write_line ''554 5.7.1 Connection refused - IP address blocked'') (\<lambda>_.
           s_fail (SessionIo ConnectionAborted))) (ss, ?w)
       else if tarpit_threshold (ms_limits svc) \<le> n
       then s_bind (sleep_secs (tarpit_duration_secs (ms_limits svc))) (\<lambda>_.
         write_line ''451 4.7.1 Please try again later'') (ss, ?w)
       else write_line ''550 User Not Found'' (ss, ?w))"
    by (simp add: unknown_recipient_def count_failure_def s_bind_def s_get_def s_world_def c)
  obtain r' bl \<sigma> where b: "add_ip (ss_peer_ip ss) (wd_blocklist w) (sy_fs (wd_sys w)) = ((r', bl), \<sigma>)"
    by (metis prod.collapse)
  show ?thesis
    using run add_ip_blocks [OF b] unfolding one n(1) [symmetric]
    by (auto simp: block_peer_def sleep_secs_def s_bind_def s_world_def s_fail_def w_sys_def write_writable [OF assms(1)]
        n b Let_def split: if_splits)
qed

text \<open>C11: Guessing recipients ends in a block. Each RCPT for an address no alias answers to counts one failure of the
  peer's address. Below the tarpit threshold it is answered 550; from there on it costs the client the tarpit's
  delay and a 451; at the block threshold the connection is closed with 554 and the address is blocked, so that
  the server accepts no connection of it any more.\<close>
theorem guessing_recipients_ends_in_block:
  assumes "writable ss"
    and none: "resolve_recipient_alias l d (sy_db (wd_sys w)) = (Inr None, db')"
    and run: "rcpt_alias svc l d (ss, w) = (r, ss', w')"
  shows "(let ip = ss_peer_ip ss; n = failures_of (wd_limiter w) ip + 1
     in failures_of (wd_limiter w') ip = n \<and>
        (if block_threshold (ms_limits svc) \<le> n
         then r = Inl (SessionIo ConnectionAborted) \<and> is_blocked ip (wd_blocklist w') \<and>
           accept_connection ip wfs hs \<lparr>sv_world = w', sv_sessions = sessions\<rparr> = \<lparr>sv_world = w', sv_sessions = sessions\<rparr> \<and>
           ss_written ss' = ss_written ss @ [''554 5.7.1 Connection refused - IP address blocked'' @ CRLF]
         else if tarpit_threshold (ms_limits svc) \<le> n
         then r = Inr () \<and> sy_now (wd_sys w') = sy_now (wd_sys w) + int (tarpit_duration_secs (ms_limits svc)) \<and>
           wd_blocklist w' = wd_blocklist w \<and> ss_written ss' = ss_written ss @ [''451 4.7.1 Please try again later'' @ CRLF]
         else r = Inr () \<and> sy_now (wd_sys w') = sy_now (wd_sys w) \<and> wd_blocklist w' = wd_blocklist w \<and>
           ss_written ss' = ss_written ss @ [''550 User Not Found'' @ CRLF]))"
proof -
  let ?w = "w\<lparr>wd_sys := (wd_sys w)\<lparr>sy_db := db'\<rparr>\<rparr>"
  have "unknown_recipient svc (ss, ?w) = (r, ss', w')"
    using run none by (simp add: rcpt_alias_def s_bind_def s_db_def s_world_def w_sys_def on_db_def)
  from unknown_recipient_result [OF assms(1) this] show ?thesis
    by (auto simp: Let_def accept_connection_def)
qed

text \<open>The fifth guess of an address with four failures.\<close>

definition guess_world :: world where
  "guess_world = sample_world\<lparr>wd_limiter := rate_limiter_new(V4 0x0A000001 := Some \<lparr>failures = 4, last_seen = 90\<rparr>)\<rparr>"

lemma guess_resolves: "resolve_recipient_alias ''none'' ''x.org'' (sample_db Sqlite) = (Inr None, sample_db Sqlite)"
  by (simp add: resolve_recipient_alias_def db_eval sample_defs recipient_matches_def alias_domains_def dotted_def)

theorem guessing_recipients_ends_in_block_witness:
  "\<exists>ss w. rcpt_alias sample_service ''none'' ''x.org'' (owner_session, guess_world) =
     (Inl (SessionIo ConnectionAborted), ss, w) \<and> is_blocked (V4 0x0A000001) (wd_blocklist w) \<and>
     accept_connection (V4 0x0A000001) [] [] \<lparr>sv_world = w, sv_sessions = []\<rparr> = \<lparr>sv_world = w, sv_sessions = []\<rparr>"
proof -
  have s: "writable owner_session" "ss_peer_ip owner_session = V4 0x0A000001"
    by (simp_all add: owner_session_def session_new_def writable_def)
  have w: "failures_of (wd_limiter guess_world) (V4 0x0A000001) = 4" "sy_db (wd_sys guess_world) = sample_db Sqlite"
    "block_threshold (ms_limits sample_service) = 5"
    by (simp_all add: guess_world_def failures_of_def sample_world_def sample_sys_def sample_service_def)
  obtain r ss w' where run: "rcpt_alias sample_service ''none'' ''x.org'' (owner_session, guess_world) = (r, ss, w')"
    by (metis prod_cases3)
  have none: "resolve_recipient_alias ''none'' ''x.org'' (sy_db (wd_sys guess_world)) = (Inr None, sample_db Sqlite)"
    by (simp add: w guess_resolves)
  from guessing_recipients_ends_in_block [OF s(1) none run, of "[]" "[]" "[]"] run show ?thesis
    by (simp add: s w Let_def)
qed

section \<open>The server\<close>

definition server_ok :: "server \<Rightarrow> bool" where
  "server_ok sv = (db_wf (sy_db (wd_sys (sv_world sv))) \<and>
     list_all (\<lambda>c. case c of None \<Rightarrow> True | Some ss \<Rightarrow> session_ok ss) (sv_sessions sv))"

lemma send_raw_wf: "send_raw ob rcpt snd_from body s = (r, s') \<Longrightarrow> db_wf (sy_db s) \<Longrightarrow> db_wf (sy_db s')"
proof -
  have fs: "on_fs f s = (a, s') \<Longrightarrow> sy_db s' = sy_db s" for f s a s'
    by (auto simp: on_fs_def split: prod.splits)
  have q: "on_db (insert_job t i f g) s = (a, s') \<Longrightarrow> db_wf (sy_db s) \<Longrightarrow> db_wf (sy_db s')" for t i f g s a s'
    by (auto simp: on_db_def split: prod.splits dest: keepsD [OF keeps_queue(1)])
  have e: "enqueue_job dir f g b s = (a, s') \<Longrightarrow> db_wf (sy_db s) \<Longrightarrow> db_wf (sy_db s')" for dir f g b s a s'
    by (auto simp: enqueue_job_def fresh_uuid_def Let_def snd_def split: prod.splits sum.splits dest!: fs dest: q)
  have i: "send_raw_inner ob rcpt snd_from body s = (a, s') \<Longrightarrow> db_wf (sy_db s) \<Longrightarrow> db_wf (sy_db s')" for a s s'
    using wf_same_tables [of "sy_db s" "sy_db s'"] send_raw_inner_only [of ob rcpt snd_from body s a s']
    by (simp add: delivers_only_def)
  assume "send_raw ob rcpt snd_from body s = (r, s')" "db_wf (sy_db s)"
  then show "db_wf (sy_db s')"
    by (auto simp: send_raw_def split: prod.splits sum.splits if_splits dest!: i dest: e)
qed

lemma run_task_wf: "db_wf (sy_db (wd_sys w)) \<Longrightarrow> db_wf (sy_db (wd_sys (run_task svc t w)))"
proof (cases t)
  case (RelayReply a b c)
  obtain r s where "send_raw (ms_outbound svc) a b c (wd_sys w) = (r, s)" by fastforce
  then show "db_wf (sy_db (wd_sys w)) \<Longrightarrow> ?thesis" by (auto simp: RelayReply send_firsthand_def dest: send_raw_wf)
next
  case (ForwardMail e u a dest sender body)
  have env: "sy_db (snd (mime_env_of ob s)) = sy_db s" for ob s
    by (auto simp: mime_env_of_def fresh_uuid_def)
  have fw: "db_wf (sy_db s) \<Longrightarrow> db_wf (sy_db s')"
    if "send_forward_with_reply_token ob dest sender tok body s = (r, s')" for ob tok s r s'
    using that env [of ob s] by (auto simp: send_forward_with_reply_token_def Let_def split: prod.splits dest: send_raw_wf)
  have plain: "db_wf (sy_db s) \<Longrightarrow> db_wf (sy_db s')" if "send_forward ob dest sender body s = (r, s')" for ob s r s'
    using that by (auto simp: send_forward_def dest: send_raw_wf)
  have map: "db_wf (sy_db s) \<Longrightarrow> db_wf (sy_db s')"
    if "on_db (get_or_create_reply_mapping i tok t a sender) s = (r, s')" for i tok t s r s'
    using that by (auto simp: on_db_def split: prod.splits dest: keepsD [OF keeps_get_or_create])
  have fm: "db_wf (sy_db s) \<Longrightarrow> db_wf (sy_db s')" if "forward_mail svc a dest sender body s = (r, s')" for s r s'
    using that by (auto simp: forward_mail_def fresh_uuid_def split: prod.splits sum.splits dest!: map dest: fw plain)
  have mk: "db_wf (sy_db s) \<Longrightarrow> db_wf (sy_db s')" if "on_db (mark_email_as_forwarded e) s = (r, s')" for s r s'
    using that by (auto simp: on_db_def split: prod.splits dest: keepsD [OF keeps_mail_updates(3)])
  show "db_wf (sy_db (wd_sys w)) \<Longrightarrow> ?thesis"
    by (auto simp: ForwardMail split: prod.splits sum.splits dest!: fm dest: mk)
qed

lemma client_step_ok: "server_ok sv \<Longrightarrow> server_ok (client_step svc n e sv)"
proof (cases "n < length (sv_sessions sv)")
  case True
  assume ok: "server_ok sv"
  show ?thesis
  proof (cases "sv_sessions sv ! n")
    case (Some ss)
    obtain r ss' w' where run: "session_round svc e (ss, sv_world sv) = (r, ss', w')" by (metis prod_cases3)
    have s: "session_ok ss" using ok Some True by (force simp: server_ok_def list_all_length)
    have "r = Inr True \<Longrightarrow> session_ok ss'" using holdsD [OF round_ok s run] by simp
    moreover have "db_wf (sy_db (wd_sys w'))"
      using alwaysD [OF steady_round [of False True] _ run] ok by (simp add: steady_def server_ok_def)
    ultimately show ?thesis
      using ok True Some run by (auto simp: server_ok_def client_step_def list_all_length nth_list_update)
  qed (use ok True in \<open>simp add: client_step_def\<close>)
qed (simp add: client_step_def)

lemma accept_ok: "server_ok sv \<Longrightarrow> server_ok (accept_connection ip wfs hs sv)"
proof -
  assume ok: "server_ok sv"
  let ?s = "session_new ip wfs hs" and ?m = "''220 Welcome to my Email Server''"
  obtain r ss w where run: "write_line ?m (?s, sv_world sv) = (r, ss, w)" by (metis prod_cases3)
  have "holds session_ok (write_line ?m) (\<lambda>_. session_ok)" by (rule refuse_ok)
  from holdsD [OF this session_ok_new run] have "r = Inr () \<Longrightarrow> session_ok ss" by simp
  moreover have "w = sv_world sv" using run by (auto simp: write_line_def split: if_splits list.splits bool.splits)
  ultimately show ?thesis using ok run by (cases r) (simp_all add: accept_connection_def server_ok_def)
qed

interpretation inbound: machine "server_step svc" server_ok for svc
proof
  fix sv i assume ok: "server_ok sv"
  show "server_ok (server_step svc sv i)"
  proof (cases i)
    case (RunTask n)
    let ?w = "(sv_world sv)\<lparr>wd_tasks := take n (wd_tasks (sv_world sv)) @ drop (Suc n) (wd_tasks (sv_world sv))\<rparr>"
    have "db_wf (sy_db (wd_sys ?w))" using ok by (simp add: server_ok_def)
    from run_task_wf [OF this] ok show ?thesis by (simp add: RunTask run_nth_task_def Let_def server_ok_def)
  qed (use ok in \<open>simp_all add: client_step_ok accept_ok cleanup_counters_def w_sys_def Let_def\<close>, simp_all add: server_ok_def)
qed

text \<open>C3: The server keeps its data in order under any interleaving. Whatever connections are accepted, whatever their
  clients send, in whatever order their rounds alternate with each other, with the tasks they spawned, with the
  sweeps and with the clock, every live session satisfies the session invariant and the database keeps every key,
  reference and check constraint.\<close>
theorem server_keeps_order:
  assumes "db_wf (sy_db (wd_sys w))"
  shows "server_ok (run_steps (server_step svc) \<lparr>sv_world = w, sv_sessions = []\<rparr> events)"
  by (rule inbound.run_inv) (simp add: server_ok_def assms)

theorem server_keeps_order_witness:
  "server_ok (run_steps (server_step sample_service) \<lparr>sv_world = sample_world, sv_sessions = []\<rparr>
     [Accept (V4 7) [] [], Client 0 (Line (''HELO x'' @ CRLF)), Tick 5, Accept (V4 8) [] [], Client 1 Idle, Cleanup])"
  by (rule server_keeps_order) (simp add: sample_world_def sample_sys_def sample_wf)

end
