(* ===== verification/Web_Auth.thy ===== *)
theory Web_Auth
  imports Db_Accounts Outbound Abuse_Guard Disposable_Domains
begin

text \<open>
  Who a web request speaks for: the CSRF check, the extractors \<open>AuthenticatedUser\<close>, \<open>AdminUser\<close>,
  \<open>FirsthandSenderUser\<close> and \<open>ApiUser\<close>, the client's address and the crawler filter of
  \<open>src/src/web/mod.rs\<close> and \<open>api_auth.rs\<close>; sessions (\<open>session.rs\<close>); passwords (\<open>auth.rs\<close>); login, registration,
  logout and API keys (\<open>handlers.rs\<close>).

  A session of \<open>tower_sessions\<close> is its identifier and the two values the code keeps in it, with a schedule of
  failures of the store; headers are keyed by their lower-case names.  Argon2 and SHA-256 are arguments.
  Handlers return what they computed; templates and messages are not rendered.
\<close>

section \<open>Requests\<close>

datatype http_method = GET | HEAD | OPTIONS | POST | PUT | DELETE | OtherMethod string

record web_session =
  wn_id :: uuid
  wn_user_id :: "uuid option"
  wn_csrf_token :: "string option"
  wn_faults :: "bool list"

record request =
  rq_method :: http_method
  rq_path :: string
  rq_headers :: "string \<Rightarrow> string option"
  rq_peer :: "ip_addr option"
  rq_session :: "web_session option"

text \<open>\<open>HeaderMap::get\<close> ignores case; \<open>to_str\<close> gives visible ASCII only.\<close>

definition header_text :: "string \<Rightarrow> request \<Rightarrow> string option" where
  "header_text name rq = (case rq_headers rq (to_lowercase name) of
     None \<Rightarrow> None
   | Some v \<Rightarrow> if list_all (\<lambda>c. (32 \<le> code_point c \<and> code_point c < 127) \<or> code_point c = 9) v then Some v else None)"

definition session_read :: "(web_session \<Rightarrow> 'a option) \<Rightarrow> web_session \<Rightarrow> (unit + 'a option) \<times> web_session" where
  "session_read f ss = (case wn_faults ss of
     True # rest \<Rightarrow> (Err (), ss\<lparr>wn_faults := rest\<rparr>)
   | faults \<Rightarrow> (Ok (f ss), ss\<lparr>wn_faults := tl faults\<rparr>))"

definition session_write :: "(web_session \<Rightarrow> web_session) \<Rightarrow> web_session \<Rightarrow> web_session" where
  "session_write f ss = (case wn_faults ss of
     True # rest \<Rightarrow> ss\<lparr>wn_faults := rest\<rparr>
   | faults \<Rightarrow> f (ss\<lparr>wn_faults := tl faults\<rparr>))"

section \<open>CSRF\<close>

datatype auth_error = NotLoggedIn | SessionError | UserNotFound | Forbidden | CsrfVerificationFailed

record auth_response =
  ar_status :: nat
  ar_headers :: "(string \<times> string) list"
  ar_body :: string

fun auth_error_response :: "auth_error \<Rightarrow> auth_response" where
  "auth_error_response Forbidden = \<lparr>ar_status = 403, ar_headers = [], ar_body = ''Admin access required''\<rparr>"
| "auth_error_response CsrfVerificationFailed =
     \<lparr>ar_status = 403, ar_headers = [], ar_body = ''CSRF verification failed''\<rparr>"
| "auth_error_response e = \<lparr>ar_status = 303,
     ar_headers = [(''Location'', ''/login''), (''HX-Redirect'', ''/login'')], ar_body = []\<rparr>"

definition byte_of :: "char \<Rightarrow> 8 word" where
  "byte_of c = word_of_nat (code_point c)"

definition constant_time_eq :: "string \<Rightarrow> string \<Rightarrow> bool" where
  "constant_time_eq a b =
     (if length a \<noteq> length b then False
      else foldl (\<lambda>diff (x, y). diff OR (byte_of x XOR byte_of y)) 0 (zip a b) = (0 :: 8 word))"

definition validate_csrf_token :: "http_method \<Rightarrow> string option \<Rightarrow> string option \<Rightarrow> auth_error + unit" where
  "validate_csrf_token m header_token session_token =
     (if m = GET \<or> m = OPTIONS \<or> m = HEAD then Ok ()
      else (case (header_token, session_token) of
          (Some h_val, Some s_val) \<Rightarrow>
            if s_val \<noteq> [] \<and> constant_time_eq h_val s_val then Ok () else Err CsrfVerificationFailed
        | _ \<Rightarrow> Err CsrfVerificationFailed))"

definition csrf_failure_reason :: "bool \<Rightarrow> bool \<Rightarrow> string" where
  "csrf_failure_reason header_present session_present =
     (case (header_present, session_present) of
        (False, False) \<Rightarrow> ''no token in session and none sent by client; session was created without '' @
          ''a CSRF token (e.g. registration) - user must log in again''
      | (True, False) \<Rightarrow> ''session holds no CSRF token; session was created without one or has been '' @
          ''cleared - user must log in again''
      | (False, True) \<Rightarrow> ''client sent no X-CSRF-Token header; csrf_token cookie missing, blocked, or '' @
          ''scripts did not run''
      | (True, True) \<Rightarrow> ''token mismatch; stale cookie from a previous session'')"

section \<open>The extractors\<close>

record authenticated_user =
  au_user_id :: uuid
  au_is_admin :: bool
  au_bypass_alias_limit :: bool
  au_can_send_firsthand :: bool

definition can_bypass_alias_limit :: "authenticated_user \<Rightarrow> bool" where
  "can_bypass_alias_limit u = (au_is_admin u \<or> au_bypass_alias_limit u)"

definition authenticated_user_from_request :: "request \<Rightarrow> db \<Rightarrow> (auth_error + authenticated_user) \<times> db" where
  "authenticated_user_from_request rq d = (case rq_session rq of
     None \<Rightarrow> (Err SessionError, d)
   | Some ss \<Rightarrow> (case session_read wn_user_id ss of
       (Inl _, _) \<Rightarrow> (Err SessionError, d)
     | (Inr None, _) \<Rightarrow> (Err NotLoggedIn, d)
     | (Inr (Some user_id), ss) \<Rightarrow>
         (let session_token = (case fst (session_read wn_csrf_token ss) of Inl _ \<Rightarrow> None | Inr t \<Rightarrow> t)
          in case validate_csrf_token (rq_method rq) (header_text ''X-CSRF-Token'' rq) session_token of
               Inl err \<Rightarrow> (Err err, d)
             | Inr _ \<Rightarrow> (case get_user_by_id user_id d of
                 (Inl _, d) \<Rightarrow> (Err SessionError, d)
               | (Inr None, d) \<Rightarrow> (Err UserNotFound, d)
               | (Inr (Some user), d) \<Rightarrow> (Ok \<lparr>au_user_id = user_id, au_is_admin = us_is_admin user,
                     au_bypass_alias_limit = us_bypass_alias_limit user,
                     au_can_send_firsthand = us_can_send_firsthand user\<rparr>, d)))))"

definition admin_user_from_request :: "request \<Rightarrow> db \<Rightarrow> (auth_error + authenticated_user) \<times> db" where
  "admin_user_from_request rq d = (case authenticated_user_from_request rq d of
     (Inl e, d) \<Rightarrow> (Err e, d)
   | (Inr auth, d) \<Rightarrow> if au_is_admin auth then (Ok auth, d) else (Err Forbidden, d))"

definition firsthand_sender_from_request :: "request \<Rightarrow> db \<Rightarrow> (auth_error + authenticated_user) \<times> db" where
  "firsthand_sender_from_request rq d = (case authenticated_user_from_request rq d of
     (Inl e, d) \<Rightarrow> (Err e, d)
   | (Inr auth, d) \<Rightarrow> if au_can_send_firsthand auth \<or> au_is_admin auth then (Ok auth, d) else (Err Forbidden, d))"

section \<open>API keys\<close>

definition api_key_len :: nat where
  "api_key_len = 32"

definition extract_bearer_token :: "string \<Rightarrow> string option" where
  "extract_bearer_token auth_header = (case strip_prefix ''Bearer '' auth_header of
     Some token \<Rightarrow> if token \<noteq> [] then Some token else None | None \<Rightarrow> None)"

definition hash_api_key :: "(string \<Rightarrow> string) \<Rightarrow> string \<Rightarrow> string" where
  "hash_api_key sha256_hex token = sha256_hex token"

definition api_user_from_request :: "(string \<Rightarrow> string) \<Rightarrow> request \<Rightarrow> db \<Rightarrow> (nat \<times> string + user_row) \<times> db" where
  "api_user_from_request sha256_hex rq d = (case header_text ''Authorization'' rq of
     None \<Rightarrow> (Err (401, ''Missing API key''), d)
   | Some auth_header \<Rightarrow> (case extract_bearer_token auth_header of
       None \<Rightarrow> (Err (401, ''Invalid API key format''), d)
     | Some token \<Rightarrow> (case get_user_by_api_key_hash (hash_api_key sha256_hex token) d of
         (Inl _, d) \<Rightarrow> (Err (500, ''DB error''), d)
       | (Inr None, d) \<Rightarrow> (Err (401, ''Invalid API key''), d)
       | (Inr (Some user), d) \<Rightarrow> (Ok user, d))))"

section \<open>The client's address, the crawler filter\<close>

definition parse_trusted_proxy :: "string \<Rightarrow> ip_addr option" where
  "parse_trusted_proxy raw = (let trimmed = trim raw in if trimmed = [] then None else parse_ip trimmed)"

definition resolve_client_ip :: "ip_addr option \<Rightarrow> string option \<Rightarrow> ip_addr option \<Rightarrow> ip_addr option" where
  "resolve_client_ip peer_ip x_forwarded_for trusted_proxy = (case peer_ip of
     None \<Rightarrow> None
   | Some peer \<Rightarrow>
       (if trusted_proxy = Some peer
        then (case x_forwarded_for of
            Some xff \<Rightarrow> (case parse_ip (trim (last (split_on (CHR '','') xff))) of
                Some forwarded_ip \<Rightarrow> Some forwarded_ip | None \<Rightarrow> Some peer)
          | None \<Rightarrow> Some peer)
        else Some peer))"

definition fallback_rate_limit_key :: ip_addr where
  "fallback_rate_limit_key = V4 0"

definition rate_limit_key :: "ip_addr option \<Rightarrow> ip_addr" where
  "rate_limit_key resolved = unwrap_or fallback_rate_limit_key resolved"

text \<open>The key of the limiter in front of login and registration.\<close>

definition extract_key :: "ip_addr option \<Rightarrow> request \<Rightarrow> ip_addr" where
  "extract_key trusted_proxy rq =
     rate_limit_key (resolve_client_ip (rq_peer rq) (header_text ''x-forwarded-for'' rq) trusted_proxy)"

definition extract_client_ip :: "(string \<Rightarrow> string option) \<Rightarrow> request \<Rightarrow> string" where
  "extract_client_ip env rq =
     (case resolve_client_ip (rq_peer rq) (header_text ''x-forwarded-for'' rq)
         (parse_trusted_proxy (get_config env ''TRUSTED_PROXY'' [])) of
        Some ip \<Rightarrow> show_ip ip | None \<Rightarrow> ''unknown'')"

definition crawler_patterns :: "string list" where
  "crawler_patterns = [''wp-admin'', ''wordpress'', ''.php'', ''phpmyadmin'', ''config'', ''.env'', ''.git'', ''setup-config'']"

definition crawler_filter :: "request \<Rightarrow> bool" where
  "crawler_filter rq = (let path = to_lowercase (rq_path rq)
     in \<not> list_ex (\<lambda>pattern. contains_str pattern path) crawler_patterns)"

definition extract_domain :: "string \<Rightarrow> string option" where
  "extract_domain email = (case split_on (CHR ''@'') email of
     [_, d] \<Rightarrow> (let domain = trim d in if domain = [] then None else Some domain)
   | _ \<Rightarrow> None)"

section \<open>Sessions and cookies\<close>

definition session_max_age_seconds :: int where
  "session_max_age_seconds = 7 * 24 * 60 * 60"

definition build_csrf_cookie :: "string \<Rightarrow> int \<Rightarrow> string \<Rightarrow> bool \<Rightarrow> string" where
  "build_csrf_cookie token max_age cookie_domain secure =
     ''csrf_token='' @ token @ ''; Path=/; SameSite=Lax; Max-Age='' @ show_nat (nat max_age) @
     (if cookie_domain \<noteq> [] then ''; Domain='' @ cookie_domain else []) @
     (if secure then ''; Secure'' else [])"

definition secure_cookies :: "(string \<Rightarrow> string option) \<Rightarrow> bool" where
  "secure_cookies env = (get_config env ''SECURE_COOKIES'' ''true'' = ''true'')"

definition csrf_cookie_header :: "(string \<Rightarrow> string option) \<Rightarrow> string \<Rightarrow> string" where
  "csrf_cookie_header env token =
     build_csrf_cookie token session_max_age_seconds (get_config env ''COOKIE_DOMAIN'' []) (secure_cookies env)"

definition csrf_clear_cookie_header :: "(string \<Rightarrow> string option) \<Rightarrow> string" where
  "csrf_clear_cookie_header env = build_csrf_cookie [] 0 (get_config env ''COOKIE_DOMAIN'' []) (secure_cookies env)"

text \<open>\<open>fresh_id\<close> is the identifier \<open>cycle_id\<close> draws, \<open>csrf_token\<close> the new UUID.\<close>

definition establish_session :: "uuid \<Rightarrow> uuid \<Rightarrow> user_row \<Rightarrow> web_session \<Rightarrow> string \<times> web_session" where
  "establish_session fresh_id csrf_token user ss =
     (let ss = session_write (\<lambda>s. s\<lparr>wn_id := fresh_id\<rparr>) ss;
          ss = session_write (\<lambda>s. s\<lparr>wn_user_id := Some (us_id user)\<rparr>) ss
      in (csrf_token, session_write (\<lambda>s. s\<lparr>wn_csrf_token := Some csrf_token\<rparr>) ss))"

definition flush_session :: "web_session \<Rightarrow> web_session" where
  "flush_session ss = session_write (\<lambda>s. s\<lparr>wn_user_id := None, wn_csrf_token := None\<rparr>) ss"

section \<open>Passwords, login, registration, logout\<close>

record argon_lib =
  argon_verify :: "string \<Rightarrow> string \<Rightarrow> bool"
  argon_hash :: "string \<Rightarrow> string option"
  argon_dummy :: string

definition verify_password_constant_time :: "argon_lib \<Rightarrow> string \<Rightarrow> string option \<Rightarrow> bool" where
  "verify_password_constant_time lib password user_hash = (case user_hash of
     Some hash \<Rightarrow> argon_verify lib password hash
   | None \<Rightarrow> (let _ = argon_verify lib password (argon_dummy lib) in False))"

datatype login_outcome = LoginRefused string | LoggedIn string

definition invalid_credentials :: string where
  "invalid_credentials = ''invalid_credentials''"

definition login_handler ::
  "argon_lib \<Rightarrow> (string \<Rightarrow> string option) \<Rightarrow> uuid \<Rightarrow> uuid \<Rightarrow> time \<Rightarrow> request \<Rightarrow> string \<Rightarrow> string
   \<Rightarrow> web_session \<times> db \<Rightarrow> login_outcome \<times> web_session \<times> db" where
  "login_handler lib env fresh_id csrf now rq email password st = (case st of (ss, d) \<Rightarrow>
     if 128 < length password then (LoginRefused invalid_credentials, ss, d)
     else (case get_user_by_email email d of (r, d) \<Rightarrow>
       let user = (case r of Inl _ \<Rightarrow> None | Inr u \<Rightarrow> u);
           verified = verify_password_constant_time lib password (map_option us_password_hash user)
       in case (verified, user) of
            (True, Some user) \<Rightarrow>
              (case establish_session fresh_id csrf user ss of (csrf_token, ss) \<Rightarrow>
                (LoggedIn (csrf_cookie_header env csrf_token), ss,
                 snd (update_last_login now (us_id user) (Some (extract_client_ip env rq)) d)))
          | _ \<Rightarrow> (LoginRefused invalid_credentials, ss, d)))"

text \<open>The regular expression \<open>^[^\s@]+@[^\s@]+\.[^\s@]+$\<close>: one at-sign, no white space, and a dot after it that is
  neither the first nor the last character.\<close>

definition is_valid_email :: "string \<Rightarrow> bool" where
  "is_valid_email email = (case split_on (CHR ''@'') email of
     [local, domain_name] \<Rightarrow> local \<noteq> [] \<and> list_all (\<lambda>c. \<not> is_whitespace c) email \<and>
       domain_name \<noteq> [] \<and> CHR ''.'' \<in> set (butlast (tl domain_name))
   | _ \<Rightarrow> False)"

datatype register_outcome = RegisterRefused string | Registered string | HashPanic

definition register_handler ::
  "argon_lib \<Rightarrow> resolver \<Rightarrow> (string \<Rightarrow> string option) \<Rightarrow> uuid \<Rightarrow> uuid \<Rightarrow> uuid \<Rightarrow> time \<Rightarrow> request \<Rightarrow> string \<Rightarrow> string
   \<Rightarrow> web_session \<times> db \<Rightarrow> register_outcome \<times> web_session \<times> db" where
  "register_handler lib dns env fresh_user fresh_id csrf now rq email password st = (case st of (ss, d) \<Rightarrow>
     case extract_domain email of
       None \<Rightarrow> (RegisterRefused ''error_invalid_email'', ss, d)
     | Some domain_name \<Rightarrow>
         if is_disposable domain_name then (RegisterRefused ''error_invalid_domain'', ss, d)
         else if \<not> is_domain_deliverable dns domain_name then (RegisterRefused ''error_invalid_domain'', ss, d)
         else if \<not> is_valid_email email then (RegisterRefused ''error_invalid_email'', ss, d)
         else if length password < 8 \<or> 128 < length password
         then (RegisterRefused ''Password must be between 8 and 128 characters'', ss, d)
         else (case argon_hash lib password of
             None \<Rightarrow> (HashPanic, ss, d)
           | Some hash \<Rightarrow> (case insert_user fresh_user now email hash d of
               (Inl _, d) \<Rightarrow> (RegisterRefused ''error_email_taken'', ss, d)
             | (Inr user, d) \<Rightarrow> (case establish_session fresh_id csrf user ss of (csrf_token, ss) \<Rightarrow>
                 (Registered (csrf_cookie_header env csrf_token), ss,
                  snd (update_last_login now (us_id user) (Some (extract_client_ip env rq)) d))))))"

definition logout_handler :: "(string \<Rightarrow> string option) \<Rightarrow> web_session \<Rightarrow> string \<times> web_session" where
  "logout_handler env ss = (csrf_clear_cookie_header env, flush_session ss)"

text \<open>Handlers behind \<open>AdminUser\<close> run only when its extractor accepts.\<close>

definition as_admin_user :: "request \<Rightarrow> (authenticated_user \<Rightarrow> db \<Rightarrow> 'a \<times> db) \<Rightarrow> db \<Rightarrow> (auth_error + 'a) \<times> db" where
  "as_admin_user rq handler d = (case admin_user_from_request rq d of
     (Inl e, d) \<Rightarrow> (Err e, d)
   | (Inr u, d) \<Rightarrow> (case handler u d of (a, d) \<Rightarrow> (Ok a, d)))"

definition as_user :: "request \<Rightarrow> (authenticated_user \<Rightarrow> db \<Rightarrow> 'a \<times> db) \<Rightarrow> db \<Rightarrow> (auth_error + 'a) \<times> db" where
  "as_user rq handler d = (case authenticated_user_from_request rq d of
     (Inl e, d) \<Rightarrow> (Err e, d)
   | (Inr u, d) \<Rightarrow> (case handler u d of (a, d) \<Rightarrow> (Ok a, d)))"

text \<open>What the statement gave, or the default when it failed.\<close>

definition or_default :: "'a \<Rightarrow> 'a dbm \<Rightarrow> db \<Rightarrow> 'a \<times> db" where
  "or_default fallback m d = (case m d of (r, d) \<Rightarrow> (case r of Inl _ \<Rightarrow> fallback | Inr a \<Rightarrow> a, d))"

record api_keys_template =
  kt_keys :: "api_key_row list"
  kt_new_key :: "string option"

definition api_keys_page :: "authenticated_user \<Rightarrow> db \<Rightarrow> api_keys_template \<times> db" where
  "api_keys_page user d = (case or_default [] (get_api_keys (au_user_id user)) d of
     (keys, d) \<Rightarrow> (\<lparr>kt_keys = keys, kt_new_key = None\<rparr>, d))"

definition create_api_key_handler ::
  "(string \<Rightarrow> string) \<Rightarrow> string \<Rightarrow> uuid \<Rightarrow> time \<Rightarrow> string \<Rightarrow> authenticated_user \<Rightarrow> db \<Rightarrow> (nat + api_keys_template) \<times> db" where
  "create_api_key_handler sha256_hex token fresh now name user d =
     (case insert_api_key fresh now (au_user_id user) (hash_api_key sha256_hex token) name d of
        (Inl _, d) \<Rightarrow> (Err 500, d)
      | (Inr _, d) \<Rightarrow> (case or_default [] (get_api_keys (au_user_id user)) d of
          (keys, d) \<Rightarrow> (Ok \<lparr>kt_keys = keys, kt_new_key = Some token\<rparr>, d)))"

definition delete_api_key_handler :: "uuid \<Rightarrow> authenticated_user \<Rightarrow> db \<Rightarrow> nat \<times> db" where
  "delete_api_key_handler key_id user d = (case delete_api_key key_id (au_user_id user) d of
     (Inl _, d) \<Rightarrow> (500, d) | (Inr _, d) \<Rightarrow> (200, d))"

section \<open>What a request proves\<close>

lemma byte_of_eq [simp]: "byte_of a = byte_of b \<longleftrightarrow> a = b"
proof -
  have "unat (byte_of c) = code_point c" for c by (simp add: byte_of_def unat_of_nat code_point_def take_bit_eq_mod)
  then have "byte_of a = byte_of b \<Longrightarrow> code_point a = code_point b" by metis
  then show ?thesis by (auto simp: code_point_def)
qed

lemma constant_time_fold:
  "length a = length b \<Longrightarrow>
   foldl (\<lambda>diff (x, y). diff OR (byte_of x XOR byte_of y)) s (zip a b) = 0 \<longleftrightarrow> s = 0 \<and> a = b"
proof (induction a b arbitrary: s rule: list_induct2)
  case (Cons x xs y ys)
  have "s OR (byte_of x XOR byte_of y) = 0 \<longleftrightarrow> s = 0 \<and> x = y"
  proof
    assume z: "s OR (byte_of x XOR byte_of y) = 0"
    then have "s = 0" "byte_of x XOR byte_of y = 0"
      by (simp_all add: bit_eq_iff bit_or_iff)
    then have "byte_of x = byte_of y" by (metis xor.left_neutral xor.assoc xor_self_eq)
    with \<open>s = 0\<close> show "s = 0 \<and> x = y" by simp
  qed simp
  with Cons.IH [of "s OR (byte_of x XOR byte_of y)"] show ?case by simp
qed simp

text \<open>The constant-time comparison is equality: the fold over the byte differences is zero exactly for
  equal byte strings.\<close>
theorem constant_time_eq_is_equality: "constant_time_eq a b = (a = b)"
  using constant_time_fold [of a b 0] by (auto simp: constant_time_eq_def)

lemma csrf_Ok:
  "validate_csrf_token m h s = Inr () \<longleftrightarrow>
     m = GET \<or> m = OPTIONS \<or> m = HEAD \<or> (\<exists>tok. h = Some tok \<and> s = Some tok \<and> tok \<noteq> [])"
  by (auto simp: validate_csrf_token_def constant_time_fold constant_time_eq_def split: option.splits if_splits)

lemma session_read_Ok: "session_read f ss = (Inr a, ss') \<Longrightarrow> a = f ss \<and> wn_csrf_token ss' = wn_csrf_token ss \<and> wn_user_id ss' = wn_user_id ss"
  by (auto simp: session_read_def split: list.splits bool.splits)

lemma filter_ConsD: "filter p xs = a # ys \<Longrightarrow> a \<in> set xs \<and> p a"
proof -
  assume "filter p xs = a # ys"
  then have "a \<in> set (filter p xs)" by simp
  then show ?thesis by simp
qed

lemma user_by_id_Ok:
  "get_user_by_id i d = (Inr r, d') \<Longrightarrow> same_tables d d' \<and> (case r of None \<Rightarrow> True | Some u \<Rightarrow> u \<in> set (t_users d) \<and> us_id u = i)"
proof -
  assume "get_user_by_id i d = (Inr r, d')"
  from query_optional_Ok [OF this [unfolded get_user_by_id_def]] obtain fs where
    d: "d' = d\<lparr>db_faults := fs\<rparr>" and r: "r = (case filter (\<lambda>u. us_id u = i) (t_users d) of [] \<Rightarrow> None | a # _ \<Rightarrow> Some a)" by auto
  with d show ?thesis by (auto simp: same_tables_def dest: filter_ConsD split: list.splits)
qed

lemma get_user_by_id_tables: "get_user_by_id i d = (r, d') \<Longrightarrow> same_tables d d'"
  unfolding get_user_by_id_def by (drule query_optional_db) (simp add: same_tables_def)

text \<open>The row of the user who asks: the session names it, and its flags are those of the database now.\<close>

definition row_of_user :: "authenticated_user \<Rightarrow> user_row \<Rightarrow> bool" where
  "row_of_user u row = (us_id row = au_user_id u \<and> us_is_admin row = au_is_admin u \<and>
     us_bypass_alias_limit row = au_bypass_alias_limit u \<and> us_can_send_firsthand row = au_can_send_firsthand u)"

lemma authenticated_genuine:
  assumes "authenticated_user_from_request rq d = (Inr u, d')"
  shows "\<exists>ss. rq_session rq = Some ss \<and> wn_user_id ss = Some (au_user_id u) \<and> list_ex (row_of_user u) (t_users d) \<and>
    (rq_method rq = GET \<or> rq_method rq = OPTIONS \<or> rq_method rq = HEAD \<or>
     (\<exists>tok. header_text ''X-CSRF-Token'' rq = Some tok \<and> wn_csrf_token ss = Some tok \<and> tok \<noteq> [])) \<and> same_tables d d'"
proof -
  obtain ss where ss: "rq_session rq = Some ss"
    using assms by (auto simp: authenticated_user_from_request_def split: option.splits)
  obtain uid ss1 where r1: "session_read wn_user_id ss = (Inr (Some uid), ss1)"
    using assms ss by (auto simp: authenticated_user_from_request_def split: prod.splits sum.splits option.splits)
  let ?tok = "case fst (session_read wn_csrf_token ss1) of Inl _ \<Rightarrow> None | Inr t \<Rightarrow> t"
  have csrf: "validate_csrf_token (rq_method rq) (header_text ''X-CSRF-Token'' rq) ?tok = Inr ()"
    and user: "\<exists>row. get_user_by_id uid d = (Inr (Some row), d') \<and> u = \<lparr>au_user_id = uid, au_is_admin = us_is_admin row,
       au_bypass_alias_limit = us_bypass_alias_limit row, au_can_send_firsthand = us_can_send_firsthand row\<rparr>"
    using assms ss r1 by (auto simp: authenticated_user_from_request_def Let_def split: prod.splits sum.splits option.splits)
  have tok: "?tok = Some t \<Longrightarrow> wn_csrf_token ss = Some t" for t
    using session_read_Ok [OF r1] by (auto simp: session_read_def split: list.splits bool.splits)
  from user obtain row where row: "get_user_by_id uid d = (Inr (Some row), d')" and
    u: "u = \<lparr>au_user_id = uid, au_is_admin = us_is_admin row, au_bypass_alias_limit = us_bypass_alias_limit row,
      au_can_send_firsthand = us_can_send_firsthand row\<rparr>" by blast
  from user_by_id_Ok [OF row] have in_db: "row \<in> set (t_users d)" "us_id row = uid" "same_tables d d'" by auto
  have "list_ex (row_of_user u) (t_users d)" using in_db by (auto simp: list_ex_iff row_of_user_def u)
  with ss session_read_Ok [OF r1] csrf tok in_db(3) show ?thesis by (auto simp: csrf_Ok u)
qed

text \<open>A request speaks for its session's user and nobody else. The extractor accepts only a request whose session
  names a user with a row in the database at that moment, takes the permissions from that row, and accepts a method
  other than GET, HEAD and OPTIONS only when the header carries the non-empty CSRF token of that session. It
  changes no table.\<close>
theorem request_speaks_for_session_user:
  assumes "authenticated_user_from_request rq d = (Inr u, d')"
  shows "\<exists>ss. rq_session rq = Some ss \<and> wn_user_id ss = Some (au_user_id u) \<and> list_ex (row_of_user u) (t_users d) \<and>
    (rq_method rq = GET \<or> rq_method rq = OPTIONS \<or> rq_method rq = HEAD \<or>
     (\<exists>tok. header_text ''X-CSRF-Token'' rq = Some tok \<and> wn_csrf_token ss = Some tok \<and> tok \<noteq> [])) \<and> same_tables d d'"
  by (rule authenticated_genuine [OF assms])

lemma authenticated_tables: "authenticated_user_from_request rq d = (r, d') \<Longrightarrow> same_tables d d'"
proof -
  have same: "same_tables d d" by (simp add: same_tables_def)
  show "authenticated_user_from_request rq d = (r, d') \<Longrightarrow> ?thesis"
    using same by (auto simp: authenticated_user_from_request_def Let_def dest: get_user_by_id_tables
        split: option.splits prod.splits sum.splits)
qed

text \<open>Administration is for administrators. A handler behind \<open>AdminUser\<close> runs only for a user whose row in the
  database has the administrator flag at that moment; otherwise the request is refused and no table changes.\<close>
theorem admin_handlers_run_for_admins:
  assumes "as_admin_user rq handler d = (r, d')"
  shows "(case r of
      Inl _ \<Rightarrow> same_tables d d'
    | Inr a \<Rightarrow> \<exists>u d1. list_ex (\<lambda>row. us_id row = au_user_id u \<and> us_is_admin row) (t_users d) \<and>
        same_tables d d1 \<and> handler u d1 = (a, d'))"
proof -
  obtain r1 d1 where a: "authenticated_user_from_request rq d = (r1, d1)" by fastforce
  show ?thesis
  proof (cases r1)
    case (Inl e)
    with assms a authenticated_tables [OF a] show ?thesis
      by (auto simp: as_admin_user_def admin_user_from_request_def)
  next
    case (Inr u)
    have same: "same_tables d d1" by (rule authenticated_tables [OF a])
    from authenticated_genuine [of rq d u d1] a Inr have row: "list_ex (row_of_user u) (t_users d)" by auto
    show ?thesis
    proof (cases "au_is_admin u")
      case True
      from row True have "list_ex (\<lambda>row. us_id row = au_user_id u \<and> us_is_admin row) (t_users d)"
        by (auto simp: list_ex_iff row_of_user_def)
      moreover obtain x where "r = Inr x" "handler u d1 = (x, d')"
        using assms a Inr True by (auto simp: as_admin_user_def admin_user_from_request_def split: prod.splits)
      ultimately show ?thesis using same by auto
    qed (use assms a Inr same in \<open>auto simp: as_admin_user_def admin_user_from_request_def\<close>)
  qed
qed

lemma session_read_no_fault: "wn_faults ss = [] \<Longrightarrow> session_read f ss = (Ok (f ss), ss)"
  by (cases ss) (simp add: session_read_def)

text \<open>A request with the token of its session.\<close>

definition sample_web_session :: web_session where
  "sample_web_session = \<lparr>wn_id = ''w1'', wn_user_id = Some ''u1'', wn_csrf_token = Some ''t0k'', wn_faults = []\<rparr>"

definition sample_request :: "http_method \<Rightarrow> request" where
  "sample_request m = \<lparr>rq_method = m, rq_path = ''/aliases'', rq_headers = [''x-csrf-token'' \<mapsto> ''t0k''], rq_peer = Some (V4 7),
     rq_session = Some sample_web_session\<rparr>"

definition admin_db :: db where
  "admin_db = (sample_db Sqlite)\<lparr>t_users := [(sample_user ''u1'' ''u@x.org'')\<lparr>us_is_admin := True\<rparr>,
     sample_user ''u2'' ''v@x.org'']\<rparr>"

lemma sample_authenticated:
  "authenticated_user_from_request (sample_request POST) admin_db =
     (Inr \<lparr>au_user_id = ''u1'', au_is_admin = True, au_bypass_alias_limit = False, au_can_send_firsthand = False\<rparr>, admin_db)"
proof -
  have h: "header_text ''X-CSRF-Token'' (sample_request m) = Some ''t0k''" for m
    by (simp add: header_text_def sample_request_def to_lowercase_def char_eval)
  have u: "get_user_by_id ''u1'' admin_db = (Inr (Some ((sample_user ''u1'' ''u@x.org'')\<lparr>us_is_admin := True\<rparr>)), admin_db)"
    by (simp add: get_user_by_id_def no_fault_simps admin_db_def sample_defs)
  have v: "validate_csrf_token POST (Some ''t0k'') (Some ''t0k'') = Inr ()" by (simp add: csrf_Ok)
  show ?thesis
    unfolding authenticated_user_from_request_def h
    by (simp add: sample_request_def sample_web_session_def session_read_no_fault u v sample_user_def)
qed

theorem request_speaks_for_session_user_witness:
  "wn_user_id sample_web_session = Some ''u1'' \<and> list_ex (\<lambda>row. us_id row = ''u1'' \<and> us_is_admin row) (t_users admin_db)"
  using request_speaks_for_session_user [OF sample_authenticated]
  by (auto simp: sample_request_def row_of_user_def list_ex_iff)

theorem admin_handlers_run_for_admins_witness:
  "\<exists>u d1. list_ex (\<lambda>row. us_id row = au_user_id u \<and> us_is_admin row) (t_users admin_db) \<and>
     same_tables admin_db d1 \<and> delete_api_key_handler ''k1'' u d1 = (200, admin_db)"
proof -
  have "as_admin_user (sample_request POST) (delete_api_key_handler ''k1'') admin_db = (Inr 200, admin_db)"
  proof -
    have "delete_api_key ''k1'' u admin_db = (Inr (), admin_db)" for u
      by (simp add: delete_api_key_def no_fault_simps admin_db_def sample_defs)
    then show ?thesis
      by (simp add: as_admin_user_def admin_user_from_request_def sample_authenticated delete_api_key_handler_def)
  qed
  from admin_handlers_run_for_admins [OF this] show ?thesis by simp
qed

section \<open>Logging in\<close>

lemma establish_no_fault:
  "wn_faults ss = [] \<Longrightarrow> establish_session i csrf user ss =
     (csrf, \<lparr>wn_id = i, wn_user_id = Some (us_id user), wn_csrf_token = Some csrf, wn_faults = []\<rparr>)"
  by (cases ss) (simp add: establish_session_def session_write_def)

lemma user_by_email_Ok:
  "get_user_by_email e d = (Inr (Some u), d') \<Longrightarrow> same_tables d d' \<and> u \<in> set (t_users d) \<and> us_email u = e"
proof -
  assume "get_user_by_email e d = (Inr (Some u), d')"
  from query_optional_Ok [OF this [unfolded get_user_by_email_def]] obtain fs where
    d: "d' = d\<lparr>db_faults := fs\<rparr>" and r: "Some u = (case filter (\<lambda>u. us_email u = e) (t_users d) of [] \<Rightarrow> None | a # _ \<Rightarrow> Some a)" by auto
  then show ?thesis by (auto simp: same_tables_def dest: filter_ConsD split: list.splits)
qed

lemma update_last_login_users:
  "update_last_login now i ip d = (r, d') \<Longrightarrow> u \<in> set (t_users d) \<Longrightarrow>
   \<exists>u' \<in> set (t_users d'). us_id u' = us_id u \<and> us_is_admin u' = us_is_admin u \<and>
     us_bypass_alias_limit u' = us_bypass_alias_limit u \<and> us_can_send_firsthand u' = us_can_send_firsthand u"
proof -
  assume upd: "update_last_login now i ip d = (r, d')" and u: "u \<in> set (t_users d)"
  let ?f = "\<lambda>u. u\<lparr>us_last_login_at := Some now, us_last_login_ip := ip\<rparr>"
  have "t_users d' = t_users d \<or> t_users d' = map (\<lambda>u. if us_id u = i then ?f u else u) (t_users d)"
    using upd by (auto simp: update_last_login_def exec_def stmt_def set_users_def update_rows_def Let_def split: if_splits list.splits)
  then have "u \<in> set (t_users d') \<or> (if us_id u = i then ?f u else u) \<in> set (t_users d')" using u by auto
  then show ?thesis by (auto split: if_splits intro: bexI [of _ u] bexI [of _ "?f u"])
qed

lemma get_user_unique:
  assumes "db_wf d" "db_faults d = []" "u \<in> set (t_users d)"
  shows "get_user_by_id (us_id u) d = (Inr (Some u), d)"
proof -
  have "filter (\<lambda>v. us_id v = us_id u) (t_users d) = [u]"
    using assms(1,3) by (intro uniq_filter_eq) (simp_all add: wf_defs)
  with assms(2) show ?thesis by (simp add: get_user_by_id_def no_fault_simps)
qed

text \<open>A login opens the door it promises. When a login succeeds, the password matched the stored hash of the row
  with that address, the session has a new identifier, and the next state-changing request that sends the issued
  token is accepted as that user with that row's permissions.\<close>
theorem login_then_post:
  assumes wf: "db_wf d" and ss: "wn_faults ss = []" and csrf: "csrf \<noteq> []"
    and login: "login_handler lib env i csrf now rq email password (ss, d) = (LoggedIn cookie, ss', d')"
    and next_rq: "rq_session rq' = Some ss'" "header_text ''X-CSRF-Token'' rq' = Some csrf" "db_faults d' = []"
  shows "\<exists>row u. row \<in> set (t_users d) \<and> us_email row = email \<and> argon_verify lib password (us_password_hash row) \<and>
    wn_id ss' = i \<and> cookie = csrf_cookie_header env csrf \<and>
    authenticated_user_from_request rq' d' = (Inr u, d') \<and> row_of_user u row"
proof -
  obtain row d1 where g: "get_user_by_email email d = (Inr (Some row), d1)"
    and pw: "argon_verify lib password (us_password_hash row)"
    and st: "cookie = csrf_cookie_header env (fst (establish_session i csrf row ss))" "ss' = snd (establish_session i csrf row ss)"
      "d' = snd (update_last_login now (us_id row) (Some (extract_client_ip env rq)) d1)"
    using login by (auto simp: login_handler_def verify_password_constant_time_def Let_def
        split: if_splits prod.splits sum.splits option.splits bool.splits)
  from user_by_email_Ok [OF g] have row: "same_tables d d1" "row \<in> set (t_users d)" "us_email row = email" by auto
  then have "row \<in> set (t_users d1)" "db_wf d1" using wf wf_same_tables [of d d1]
    by (auto simp: same_tables_def dest: arg_cong [where f = t_users])
  moreover obtain r where upd: "update_last_login now (us_id row) (Some (extract_client_ip env rq)) d1 = (r, d')"
    using st(3) by (metis prod.collapse)
  ultimately obtain row' where row': "row' \<in> set (t_users d')" "us_id row' = us_id row" "us_is_admin row' = us_is_admin row"
    "us_bypass_alias_limit row' = us_bypass_alias_limit row" "us_can_send_firsthand row' = us_can_send_firsthand row"
    and wf': "db_wf d'" using update_last_login_users [OF upd] keepsD [OF keeps_user_updates(1) _ upd] by blast
  let ?u = "\<lparr>au_user_id = us_id row, au_is_admin = us_is_admin row, au_bypass_alias_limit = us_bypass_alias_limit row,
      au_can_send_firsthand = us_can_send_firsthand row\<rparr>"
  have ss': "ss' = \<lparr>wn_id = i, wn_user_id = Some (us_id row), wn_csrf_token = Some csrf, wn_faults = []\<rparr>"
    using st(2) establish_no_fault [OF ss] by simp
  have "validate_csrf_token (rq_method rq') (Some csrf) (Some csrf) = Inr ()" using csrf by (simp add: csrf_Ok)
  then have "authenticated_user_from_request rq' d' = (Inr ?u, d')"
    using get_user_unique [OF wf' next_rq(3) row'(1)] row'(2-5) next_rq
    by (simp add: authenticated_user_from_request_def ss' session_read_no_fault)
  moreover have "cookie = csrf_cookie_header env csrf" using st(1) establish_no_fault [OF ss] by simp
  ultimately show ?thesis using row pw by (intro exI [of _ row] exI [of _ ?u]) (simp add: ss' row_of_user_def)
qed

section \<open>API keys\<close>

text \<open>An API key speaks for the administrator who made it. After an administrator has created a key, a request
  that carries it as bearer token is accepted as that user.\<close>
theorem api_key_round_trip:
  assumes wf: "db_wf d" and made: "create_api_key_handler sha token i now name u d = (Inr pg, d')"
    and calm: "db_faults d' = []" and tok: "token \<noteq> []"
    and header: "header_text ''Authorization'' rq = Some (''Bearer '' @ token)"
  shows "kt_new_key pg = Some token \<and>
    (case api_user_from_request sha rq d' of (Inr row, _) \<Rightarrow> us_id row = au_user_id u | (Inl _, _) \<Rightarrow> False)"
proof -
  let ?k = "\<lparr>ak_id = i, ak_user_id = au_user_id u, ak_key_hash = sha token, ak_name = name, ak_created_at = now\<rparr>"
  obtain k d1 where ins: "insert_api_key i now (au_user_id u) (sha token) name d = (Inr k, d1)"
    using made by (auto simp: create_api_key_handler_def hash_api_key_def split: prod.splits sum.splits)
  have pg: "kt_new_key pg = Some token" "d' = snd (or_default [] (get_api_keys (au_user_id u)) d1)"
    using made ins by (auto simp: create_api_key_handler_def hash_api_key_def split: prod.splits)
  have wf1: "db_wf d1" by (rule keepsD [OF keeps_api_keys(1) wf ins])
  have k1: "?k \<in> set (t_api_keys d1)"
    using ins by (auto simp: insert_api_key_def insert_stmt_def stmt_def Let_def split: if_splits option.splits list.splits)
  have "same_tables d1 d'"
    using pg(2) by (auto simp: or_default_def get_api_keys_def query_def stmt_def Let_def same_tables_def
        split: prod.splits if_splits list.splits)
  then have wf': "db_wf d'" and k: "?k \<in> set (t_api_keys d')" using wf1 k1 wf_same_tables [of d1 d']
    by (auto simp: same_tables_def dest: arg_cong [where f = t_api_keys])
  have ref: "has us_id (t_users d') (au_user_id u)"
    using wf' k by (force simp: wf_defs refs_iff)
  let ?h = "\<lambda>d. concat (map (\<lambda>x. map (\<lambda>_. x) (filter (\<lambda>k. ak_user_id k = us_id x \<and> ak_key_hash k = sha token) (t_api_keys d))) (t_users d))"
  have only: "us_id x = au_user_id u" if "x \<in> set (?h d')" for x
  proof -
    from that obtain k' where k': "k' \<in> set (t_api_keys d')" "ak_user_id k' = us_id x" "ak_key_hash k' = sha token" by auto
    have "k' = ?k" using wf' k' k by (intro uniq_eq [of ak_key_hash "t_api_keys d'"]) (simp_all add: wf_defs)
    with k' show ?thesis by simp
  qed
  from ref obtain y where y: "y \<in> set (t_users d')" "us_id y = au_user_id u" by (auto simp: has_iff)
  then have "y \<in> set (?h d')" using k by force
  then have "?h d' \<noteq> []" by force
  then obtain x xs where h: "?h d' = x # xs" by (meson list.exhaust)
  have x: "x \<in> set (?h d')" unfolding h by simp
  have "get_user_by_api_key_hash (sha token) d' = (Inr (Some x), d')"
    unfolding get_user_by_api_key_hash_def using calm h by (simp add: no_fault_simps)
  moreover have b: "extract_bearer_token (''Bearer '' @ token) = Some token"
    unfolding extract_bearer_token_def strip_prefix_append using tok by simp
  ultimately show ?thesis
    unfolding api_user_from_request_def header option.case b hash_api_key_def using pg(1) only [OF x] by simp
qed

section \<open>The client's address\<close>

text \<open>A client cannot choose the address it is limited by. A peer other than the trusted proxy is known by its own
  address, whatever its header says; behind the proxy only the hop that the proxy appended counts, whatever the
  client wrote before it.\<close>
theorem forwarded_header_cannot_be_forged:
  assumes "CHR '','' \<notin> set hop"
  shows "resolve_client_ip (Some peer) (Some (forged @ '','' @ hop)) trusted =
    Some (if trusted = Some peer then unwrap_or peer (parse_ip (trim hop)) else peer)"
proof -
  have l: "last (split_on (CHR '','') (forged @ CHR '','' # hop)) = hop"
    using assms by (simp add: split_on_at)
  show ?thesis using l by (auto simp: resolve_client_ip_def unwrap_or_def split: option.split)
qed

theorem forwarded_header_cannot_be_forged_witness:
  "resolve_client_ip (Some (V4 7)) (Some (''1.2.3.4'' @ '','' @ ''5.6.7.8'')) (Some (V4 7)) = Some (V4 0x05060708) \<and>
   resolve_client_ip (Some (V4 8)) (Some (''1.2.3.4'' @ '','' @ ''5.6.7.8'')) (Some (V4 7)) = Some (V4 8)"
proof -
  have p: "parse_ip (trim ''5.6.7.8'') = Some (V4 0x05060708)"
    by (simp add: trim_eval parse_ip_def parse_ipv4_def parse_octet_def from_octets_def cons_first_def Let_def num_eval)
  have n: "CHR '','' \<notin> set ''5.6.7.8''" by simp
  show ?thesis
    using forwarded_header_cannot_be_forged [OF n, of "V4 7" "''1.2.3.4''" "Some (V4 7)"]
      forwarded_header_cannot_be_forged [OF n, of "V4 8" "''1.2.3.4''" "Some (V4 7)"]
    by (simp only: p unwrap_or_def option.case) simp
qed

section \<open>Samples of the round trips\<close>

definition sample_argon :: argon_lib where
  "sample_argon = \<lparr>argon_verify = (\<lambda>pw h. h = ''h'' @ pw), argon_hash = (\<lambda>pw. Some (''h'' @ pw)), argon_dummy = ''d''\<rparr>"

definition login_db :: db where
  "login_db = admin_db\<lparr>t_users := [(sample_user ''u1'' ''u@x.org'')\<lparr>us_is_admin := True, us_password_hash := ''hpw''\<rparr>,
     sample_user ''u2'' ''v@x.org'']\<rparr>"

lemma login_wf: "db_wf login_db"
  by (simp add: wf_defs login_db_def admin_db_def sample_defs uniq_def refs_def refs_opt_def)

theorem login_then_post_witness:
  "\<exists>cookie ss d u. login_handler sample_argon (\<lambda>_. None) ''w2'' ''t0k'' 5 (sample_request POST) ''u@x.org'' ''pw''
       (sample_web_session, login_db) = (LoggedIn cookie, ss, d) \<and>
     authenticated_user_from_request ((sample_request POST)\<lparr>rq_session := Some ss\<rparr>) d = (Inr u, d) \<and> au_is_admin u"
proof -
  let ?row = "(sample_user ''u1'' ''u@x.org'')\<lparr>us_is_admin := True, us_password_hash := ''hpw''\<rparr>"
  have g: "get_user_by_email ''u@x.org'' login_db = (Inr (Some ?row), login_db)"
    by (simp add: get_user_by_email_def no_fault_simps login_db_def admin_db_def sample_defs)
  have f: "wn_faults sample_web_session = []" by (simp add: sample_web_session_def)
  let ?upd = "update_last_login 5 ''u1'' (Some (extract_client_ip (\<lambda>_. None) (sample_request POST))) login_db"
  have i: "us_id ?row = ''u1''" by (simp add: sample_user_def)
  have d: "db_faults (snd ?upd) = []"
    by (simp add: update_last_login_def no_fault_simps login_db_def admin_db_def sample_defs set_users_def)
  have run: "login_handler sample_argon (\<lambda>_. None) ''w2'' ''t0k'' 5 (sample_request POST) ''u@x.org'' ''pw'' (sample_web_session, login_db) =
      (LoggedIn (csrf_cookie_header (\<lambda>_. None) ''t0k''), snd (establish_session ''w2'' ''t0k'' ?row sample_web_session), snd ?upd)"
    by (simp add: login_handler_def g verify_password_constant_time_def sample_argon_def establish_no_fault [OF f] i)
  let ?rq = "(sample_request POST)\<lparr>rq_session := Some (snd (establish_session ''w2'' ''t0k'' ?row sample_web_session))\<rparr>"
  have h: "header_text ''X-CSRF-Token'' ?rq = Some ''t0k''"
    by (simp add: header_text_def sample_request_def to_lowercase_def char_eval)
  from login_then_post [OF login_wf f _ run _ h d] obtain row u where
    "row \<in> set (t_users login_db)" "us_email row = ''u@x.org''" "authenticated_user_from_request ?rq (snd ?upd) = (Inr u, snd ?upd)" "row_of_user u row"
    by auto
  moreover from this have "au_is_admin u" by (auto simp: login_db_def row_of_user_def sample_user_def)
  ultimately show ?thesis using run by blast
qed

theorem api_key_round_trip_witness:
  "\<exists>pg d. create_api_key_handler (\<lambda>t. ''h'' @ t) ''k3y'' ''k1'' 5 ''ci'' \<lparr>au_user_id = ''u1'', au_is_admin = True,
        au_bypass_alias_limit = False, au_can_send_firsthand = False\<rparr> admin_db = (Inr pg, d) \<and>
     (case api_user_from_request (\<lambda>t. ''h'' @ t) ((sample_request GET)\<lparr>rq_headers := [''authorization'' \<mapsto> ''Bearer k3y'']\<rparr>) d of
        (Inr row, _) \<Rightarrow> us_id row = ''u1'' | (Inl _, _) \<Rightarrow> False)"
proof -
  let ?u = "\<lparr>au_user_id = ''u1'', au_is_admin = True, au_bypass_alias_limit = False, au_can_send_firsthand = False\<rparr>"
  let ?k = "\<lparr>ak_id = ''k1'', ak_user_id = ''u1'', ak_key_hash = ''hk3y'', ak_name = ''ci'', ak_created_at = 5\<rparr>"
  let ?rq = "(sample_request GET)\<lparr>rq_headers := [''authorization'' \<mapsto> ''Bearer k3y'']\<rparr>"
  have w: "db_wf admin_db" by (simp add: wf_defs admin_db_def sample_defs uniq_def refs_def refs_opt_def)
  have run: "create_api_key_handler (\<lambda>t. ''h'' @ t) ''k3y'' ''k1'' 5 ''ci'' ?u admin_db =
      (Inr \<lparr>kt_keys = [?k], kt_new_key = Some ''k3y''\<rparr>, admin_db\<lparr>t_api_keys := [?k]\<rparr>)"
  proof -
    have f: "db_faults admin_db = []" "db_faults (admin_db\<lparr>t_api_keys := [?k]\<rparr>) = []" by (simp_all add: admin_db_def sample_defs)
    have "insert_api_key ''k1'' 5 ''u1'' ''hk3y'' ''ci'' admin_db = (Inr ?k, admin_db\<lparr>t_api_keys := [?k]\<rparr>)"
      unfolding insert_api_key_def Let_def using f(1)
      by (simp add: no_fault_simps api_key_constraints_def) (simp add: admin_db_def sample_defs)
    moreover have "get_api_keys ''u1'' (admin_db\<lparr>t_api_keys := [?k]\<rparr>) = (Inr [?k], admin_db\<lparr>t_api_keys := [?k]\<rparr>)"
      unfolding get_api_keys_def no_fault_simps(1) [OF f(2)] by simp
    ultimately show ?thesis by (simp add: create_api_key_handler_def hash_api_key_def or_default_def)
  qed
  have h: "header_text ''Authorization'' ?rq = Some (''Bearer '' @ ''k3y'')"
    by (simp add: header_text_def to_lowercase_def char_eval)
  have c: "db_faults (admin_db\<lparr>t_api_keys := [?k]\<rparr>) = []" by (simp add: admin_db_def sample_defs)
  from api_key_round_trip [OF w run c _ h] run show ?thesis by (auto split: sum.splits)
qed

end
