(* ===== verification/Web_Labels.thy ===== *)
theory Web_Labels
  imports Web_Auth Filter_Engine
begin

text \<open>
  The label and filter handlers of \<open>src/src/web/labels.rs\<close> over the database, the filter cache and the backfill
  engine, and what they keep of the cache's truth.

  A handler's page is the data of its template.  A handler runs as one step between other requests; the fresh
  identifiers and the clock are arguments.
\<close>

section \<open>Pages\<close>

record label_store =
  ls_db :: db
  ls_cache :: filter_cache
  ls_backfill :: backfill_engine

record labels_modal_template =
  lm_labels :: "label_row list"
  lm_filters :: "email_filter_with_label list"
  lm_active_tab :: string
  lm_error :: "string option"

record email_labels_partial =
  ep_email_id :: uuid
  ep_labels :: "label_row list"
  ep_all_user_labels :: "label_row list"

definition ls_run :: "(db \<Rightarrow> 'a \<times> db) \<Rightarrow> label_store \<Rightarrow> 'a \<times> label_store" where
  "ls_run f s = (case f (ls_db s) of (a, d) \<Rightarrow> (a, s\<lparr>ls_db := d\<rparr>))"

definition labels_modal :: "uuid \<Rightarrow> string \<Rightarrow> string option \<Rightarrow> label_store \<Rightarrow> labels_modal_template \<times> label_store" where
  "labels_modal user_id tab err s =
     (case ls_run (or_default [] (get_labels_by_user user_id)) s of (labels, s) \<Rightarrow>
      case ls_run (or_default [] (get_filters_by_user user_id)) s of (filters, s) \<Rightarrow>
        (\<lparr>lm_labels = labels, lm_filters = filters, lm_active_tab = tab, lm_error = err\<rparr>, s))"

definition email_labels_page :: "uuid \<Rightarrow> uuid \<Rightarrow> label_store \<Rightarrow> email_labels_partial \<times> label_store" where
  "email_labels_page user_id email_id s =
     (case ls_run (or_default [] (get_labels_for_email email_id)) s of (labels, s) \<Rightarrow>
      case ls_run (or_default [] (get_labels_by_user user_id)) s of (all_labels, s) \<Rightarrow>
        (\<lparr>ep_email_id = email_id, ep_labels = labels, ep_all_user_labels = all_labels\<rparr>, s))"

section \<open>Handlers\<close>

definition get_labels_modal_handler ::
  "string option \<Rightarrow> authenticated_user \<Rightarrow> label_store \<Rightarrow> labels_modal_template \<times> label_store" where
  "get_labels_modal_handler tab user s = labels_modal (au_user_id user) (unwrap_or ''filters'' tab) None s"

definition create_label_handler ::
  "uuid \<Rightarrow> time \<Rightarrow> string \<Rightarrow> string option \<Rightarrow> authenticated_user \<Rightarrow> label_store \<Rightarrow> labels_modal_template \<times> label_store" where
  "create_label_handler fresh now form_name form_color user s =
     (let name = trim form_name
      in if name = [] then labels_modal (au_user_id user) ''labels'' (Some ''error_label_name_required'') s
         else (let color = (case form_color of Some c \<Rightarrow> if trim c \<noteq> [] then c else ''#3182ce'' | None \<Rightarrow> ''#3182ce'')
               in labels_modal (au_user_id user) ''labels'' None
                    (snd (ls_run (insert_label fresh now (au_user_id user) name color) s))))"

definition delete_label_handler ::
  "uuid \<Rightarrow> authenticated_user \<Rightarrow> label_store \<Rightarrow> labels_modal_template \<times> label_store" where
  "delete_label_handler label_id user s =
     (let s = snd (ls_run (delete_label label_id (au_user_id user)) s);
          s = s\<lparr>ls_cache := invalidate (au_user_id user) (ls_cache s)\<rparr>
      in labels_modal (au_user_id user) ''labels'' None s)"

definition keywords_of :: "string \<Rightarrow> string list" where
  "keywords_of keyword = filter (\<lambda>k. k \<noteq> []) (map trim (split_on (CHR '','') keyword))"

fun create_filters ::
  "(nat \<Rightarrow> uuid) \<Rightarrow> time \<Rightarrow> uuid \<Rightarrow> uuid \<Rightarrow> bool option \<Rightarrow> string list \<Rightarrow> label_store \<Rightarrow> label_store" where
  "create_filters fresh now user_id label_id apply_existing [] s = s"
| "create_filters fresh now user_id label_id apply_existing (kw # kws) s =
     (let s = snd (ls_run (insert_filter (fresh (length kws)) now user_id kw label_id) s);
          s = (if apply_existing = Some True
               then s\<lparr>ls_backfill := snd (submit \<lparr>bj_user_id = user_id, bj_keyword = kw, bj_label_id = label_id\<rparr> (ls_backfill s))\<rparr>
               else s)
      in create_filters fresh now user_id label_id apply_existing kws s)"

definition create_filter_handler ::
  "(nat \<Rightarrow> uuid) \<Rightarrow> time \<Rightarrow> string \<Rightarrow> uuid \<Rightarrow> bool option \<Rightarrow> authenticated_user \<Rightarrow> label_store
   \<Rightarrow> labels_modal_template \<times> label_store" where
  "create_filter_handler fresh now form_keyword label_id apply_existing user s =
     (let keyword = trim form_keyword
      in if keyword = [] then labels_modal (au_user_id user) ''filters'' (Some ''error_filter_keyword_required'') s
         else (let s = create_filters fresh now (au_user_id user) label_id apply_existing (keywords_of keyword) s;
                   s = s\<lparr>ls_cache := invalidate (au_user_id user) (ls_cache s)\<rparr>
               in labels_modal (au_user_id user) ''filters'' None s))"

definition delete_filter_handler ::
  "uuid \<Rightarrow> authenticated_user \<Rightarrow> label_store \<Rightarrow> labels_modal_template \<times> label_store" where
  "delete_filter_handler filter_id user s =
     (let s = snd (ls_run (delete_filter filter_id (au_user_id user)) s);
          s = s\<lparr>ls_cache := invalidate (au_user_id user) (ls_cache s)\<rparr>
      in labels_modal (au_user_id user) ''filters'' None s)"

definition add_email_label_handler ::
  "time \<Rightarrow> uuid \<Rightarrow> uuid \<Rightarrow> authenticated_user \<Rightarrow> label_store \<Rightarrow> email_labels_partial \<times> label_store" where
  "add_email_label_handler now email_id label_id user s =
     email_labels_page (au_user_id user) email_id (snd (ls_run (assign_labels_to_email now email_id [label_id]) s))"

definition remove_email_label_handler ::
  "uuid \<Rightarrow> uuid \<Rightarrow> authenticated_user \<Rightarrow> label_store \<Rightarrow> email_labels_partial \<times> label_store" where
  "remove_email_label_handler email_id label_id user s =
     email_labels_page (au_user_id user) email_id (snd (ls_run (remove_label_from_email email_id label_id) s))"

text \<open>The events that touch filters or their cache; the evaluation of a mail is what the SMTP session does.\<close>

datatype label_event =
    CreateLabel uuid time string "string option" authenticated_user
  | DeleteLabel uuid authenticated_user
  | CreateFilter "nat \<Rightarrow> uuid" time string uuid "bool option" authenticated_user
  | DeleteFilter uuid authenticated_user
  | AddEmailLabel time uuid uuid authenticated_user
  | RemoveEmailLabel uuid uuid authenticated_user
  | EvaluateMail uuid string

fun label_step :: "ac_lib \<Rightarrow> mail_parser \<Rightarrow> label_store \<Rightarrow> label_event \<Rightarrow> label_store" where
  "label_step lib parse s (CreateLabel i now n c u) = snd (create_label_handler i now n c u s)"
| "label_step lib parse s (DeleteLabel i u) = snd (delete_label_handler i u s)"
| "label_step lib parse s (CreateFilter fresh now k l a u) = snd (create_filter_handler fresh now k l a u s)"
| "label_step lib parse s (DeleteFilter i u) = snd (delete_filter_handler i u s)"
| "label_step lib parse s (AddEmailLabel now e l u) = snd (add_email_label_handler now e l u s)"
| "label_step lib parse s (RemoveEmailLabel e l u) = snd (remove_email_label_handler e l u s)"
| "label_step lib parse s (EvaluateMail u raw) =
     (case evaluate lib parse u raw (ls_cache s) (ls_db s) of (_, cache, d) \<Rightarrow> s\<lparr>ls_cache := cache, ls_db := d\<rparr>)"

section \<open>The cache stays true\<close>

text \<open>Filters assign only labels of their own user.\<close>

definition filters_own_labels :: "db \<Rightarrow> bool" where
  "filters_own_labels d = list_all (\<lambda>f. list_all (\<lambda>l. lb_id l = fl_label_id f \<longrightarrow> lb_user_id l = fl_user_id f) (t_labels d)) (t_filters d)"

definition own_event :: "label_store \<Rightarrow> label_event \<Rightarrow> bool" where
  "own_event s e = (case e of
     CreateFilter _ _ _ l _ u \<Rightarrow> list_all (\<lambda>r. lb_id r = l \<longrightarrow> lb_user_id r = au_user_id u) (t_labels (ls_db s))
   | _ \<Rightarrow> True)"

lemma coherent_filters: "t_filters d' = t_filters d \<Longrightarrow> cache_coherent lib cache d' = cache_coherent lib cache d"
  by (simp add: cache_coherent_def rules_of_def)

text \<open>The frame of an operation for \<open>u\<close>: the filters of the others, the labels, and that filters assign own labels.\<close>

definition other_filters :: "uuid \<Rightarrow> db \<Rightarrow> filter_row list" where
  "other_filters u d = filter (\<lambda>f. fl_user_id f \<noteq> u) (t_filters d)"

definition label_frame :: "uuid \<Rightarrow> filter_row list \<Rightarrow> label_row list \<Rightarrow> db \<Rightarrow> bool" where
  "label_frame u others ls d = (other_filters u d = others \<and> t_labels d = ls \<and> filters_own_labels d)"

lemma label_frame_tables [simp]: "on_tables (label_frame u others ls)"
  by (simp add: on_tables_def label_frame_def other_filters_def filters_own_labels_def)

lemma other_rules: "other_filters u d' = other_filters u d \<Longrightarrow> v \<noteq> u \<Longrightarrow> rules_of d' v = rules_of d v"
proof -
  assume o: "other_filters u d' = other_filters u d" and v: "v \<noteq> u"
  have "filter (\<lambda>f. fl_user_id f = v) fs = filter (\<lambda>f. fl_user_id f = v) (filter (\<lambda>f. fl_user_id f \<noteq> u) fs)" for fs
    using v by (induction fs) auto
  with o show ?thesis by (metis other_filters_def rules_of_def)
qed

lemma coherent_invalidate:
  assumes coh: "cache_coherent lib cache d" and o: "other_filters u d' = other_filters u d"
  shows "cache_coherent lib (invalidate u cache) d'"
  unfolding cache_coherent_def
proof (intro allI impI)
  fix v cf assume "invalidate u cache v = Some cf"
  then have "v \<noteq> u" "cache v = Some cf" by (auto simp: invalidate_def split: if_splits)
  with coh other_rules [OF o] show "cf = compile_or_none lib (rules_of d' v)" by (simp add: cache_coherent_def)
qed

lemma frame_add_filter:
  assumes "list_all (\<lambda>r. lb_id r = l \<longrightarrow> lb_user_id r = u) ls" "label_frame u others ls d" "fl_user_id f = u" "fl_label_id f = l"
  shows "label_frame u others ls (d\<lparr>t_filters := t_filters d @ [f]\<rparr>)"
  using assms by (auto simp: label_frame_def other_filters_def filters_own_labels_def list_all_iff)

lemma frame_insert_filter:
  assumes "list_all (\<lambda>r. lb_id r = l \<longrightarrow> lb_user_id r = u) ls"
  shows "keeps (label_frame u others ls) (insert_filter i now u kw l)"
  unfolding insert_filter_def Let_def add_filter_def
  by (rule keeps_backend_fun) (intro keeps_rules label_frame_tables; simp add: frame_add_filter [OF assms])+

lemma frame_delete_filter: "keeps (label_frame u others ls) (delete_filter i u)"
  unfolding delete_filter_def Let_def
proof (rule keeps_stmt [OF label_frame_tables])
  have "filter (\<lambda>f. fl_user_id f \<noteq> u) (filter (\<lambda>f. \<not> (fl_id f = i \<and> fl_user_id f = u)) fs) = filter (\<lambda>f. fl_user_id f \<noteq> u) fs" for fs
    by (induction fs) auto
  then show "label_frame u others ls d'" if "label_frame u others ls d"
    "Inr (list_ex (\<lambda>f. fl_id f = i \<and> fl_user_id f = u) (t_filters d), d\<lparr>t_filters := filter (\<lambda>f. \<not> (fl_id f = i \<and> fl_user_id f = u)) (t_filters d)\<rparr>) = Inr (a, d')"
    for d a d' using that by (auto simp: label_frame_def other_filters_def filters_own_labels_def list_all_iff simp del: filter_filter)
qed

lemma frame_reads:
  "on_tables P \<Longrightarrow> keeps P (get_labels_by_user v)" "on_tables P \<Longrightarrow> keeps P (get_filters_by_user v)"
  "on_tables P \<Longrightarrow> keeps P (get_labels_for_email e)"
  unfolding get_labels_by_user_def get_filters_by_user_def get_labels_for_email_def by (intro keeps_rules; simp)+
text \<open>What the handlers keep.\<close>

definition label_ok :: "ac_lib \<Rightarrow> label_store \<Rightarrow> bool" where
  "label_ok lib s = (db_wf (ls_db s) \<and> filters_own_labels (ls_db s) \<and> cache_coherent lib (ls_cache s) (ls_db s))"

lemma label_ok_cache: "label_ok lib (s\<lparr>ls_cache := c\<rparr>) = (db_wf (ls_db s) \<and> filters_own_labels (ls_db s) \<and> cache_coherent lib c (ls_db s))"
  by (simp add: label_ok_def)

lemma ls_run_other [simp]:
  "ls_cache (snd (ls_run f s)) = ls_cache s" "ls_backfill (snd (ls_run f s)) = ls_backfill s"
  "ls_db (snd (ls_run f s)) = snd (f (ls_db s))"
  by (simp_all add: ls_run_def split: prod.splits)

lemma or_default_snd [simp]: "snd (or_default x m d) = snd (m d)"
  by (simp add: or_default_def split: prod.splits sum.splits)

lemma page_others [simp]:
  "ls_cache (snd (labels_modal u t e s)) = ls_cache s" "ls_backfill (snd (labels_modal u t e s)) = ls_backfill s"
  "ls_cache (snd (email_labels_page u m s)) = ls_cache s" "ls_backfill (snd (email_labels_page u m s)) = ls_backfill s"
  unfolding labels_modal_def email_labels_page_def
  by (simp_all add: case_prod_unfold)

lemma page_db:
  assumes "on_tables P"
  shows "P (ls_db s) \<Longrightarrow> P (ls_db (snd (labels_modal u t e s)))" "P (ls_db s) \<Longrightarrow> P (ls_db (snd (email_labels_page u m s)))"
  unfolding labels_modal_def email_labels_page_def
  by (simp_all add: case_prod_unfold keeps_snd frame_reads assms)

lemma label_ok_page:
  "label_ok lib s \<Longrightarrow> label_ok lib (snd (labels_modal u t e s))" "label_ok lib s \<Longrightarrow> label_ok lib (snd (email_labels_page u m s))"
proof -
  have p: "on_tables (\<lambda>d. db_wf d \<and> filters_own_labels d \<and> cache_coherent lib (ls_cache s) d)"
    by (simp add: on_tables_def filters_own_labels_def)
  show "label_ok lib s \<Longrightarrow> label_ok lib (snd (labels_modal u t e s))" "label_ok lib s \<Longrightarrow> label_ok lib (snd (email_labels_page u m s))"
    using page_db [OF p] by (simp_all add: label_ok_def)
qed

text \<open>An operation that keeps the database sound and the frame of \<open>u\<close> keeps the store sound, once \<open>u\<close>'s entry
  is dropped.\<close>

lemma label_ok_frame:
  assumes "label_ok lib s" "keeps db_wf m"
    "\<And>others ls. t_labels (ls_db s) = ls \<Longrightarrow> keeps (label_frame u others ls) m"
  shows "label_ok lib (snd (ls_run m s)\<lparr>ls_cache := invalidate u (ls_cache s)\<rparr>)"
proof -
  let ?d = "ls_db s" and ?d' = "snd (m (ls_db s))"
  have "label_frame u (other_filters u ?d) (t_labels ?d) ?d" using assms(1) by (simp add: label_frame_def label_ok_def)
  then have f: "label_frame u (other_filters u ?d) (t_labels ?d) ?d'" by (rule keeps_snd [OF assms(3) [OF refl]])
  then have own: "filters_own_labels ?d'" and others: "other_filters u ?d' = other_filters u ?d" by (simp_all add: label_frame_def)
  have "cache_coherent lib (invalidate u (ls_cache s)) ?d'"
    using assms(1) by (intro coherent_invalidate [OF _ others]) (simp add: label_ok_def)
  moreover have "db_wf ?d'" using assms(1) by (intro keeps_snd [OF assms(2)]) (simp add: label_ok_def)
  ultimately show ?thesis using own by (simp only: label_ok_cache ls_run_other simp_thms)
qed

lemma coherent_keeps_filters:
  assumes "label_ok lib s" "keeps db_wf m" "\<And>fs ls. keeps (\<lambda>d. t_filters d = fs \<and> t_labels d = ls) m"
  shows "label_ok lib (snd (ls_run m s))"
proof -
  let ?d = "ls_db s" and ?d' = "snd (m (ls_db s))"
  have t: "t_filters ?d' = t_filters ?d \<and> t_labels ?d' = t_labels ?d" by (rule keeps_snd [OF assms(3)]) simp
  then have "cache_coherent lib (ls_cache s) ?d' = cache_coherent lib (ls_cache s) ?d" by (intro coherent_filters) simp
  moreover have "db_wf ?d'" using assms(1) by (intro keeps_snd [OF assms(2)]) (simp add: label_ok_def)
  ultimately show ?thesis using assms(1) t by (simp add: label_ok_def filters_own_labels_def)
qed
lemma purge_labels_faults: "purge_labels ids (d\<lparr>db_faults := fs\<rparr>) = (purge_labels ids d)\<lparr>db_faults := fs\<rparr>"
  by (simp add: purge_labels_def)

lemma delete_label_sound:
  assumes ok: "label_ok lib s"
  shows "label_ok lib (snd (ls_run (delete_label i u) s)\<lparr>ls_cache := invalidate u (ls_cache s)\<rparr>)"
proof -
  let ?d = "ls_db s" and ?d' = "snd (delete_label i u (ls_db s))"
  let ?ids = "map lb_id (filter (\<lambda>l. lb_id l = i \<and> lb_user_id l = u) (t_labels ?d))"
  have own: "filters_own_labels ?d" using ok by (simp add: label_ok_def)
  have keep: "f \<in> set (t_filters ?d) \<Longrightarrow> fl_user_id f \<noteq> u \<Longrightarrow> fl_label_id f \<notin> set ?ids" for f
    using own by (auto simp: filters_own_labels_def list_all_iff)
  have "filter (\<lambda>f. fl_user_id f \<noteq> u) (filter (\<lambda>f. fl_label_id f \<notin> set ?ids) (t_filters ?d)) =
    filter (\<lambda>f. fl_user_id f \<noteq> u) (t_filters ?d)"
    unfolding filter_filter by (rule filter_cong [OF refl]) (use keep in blast)
  then have p: "other_filters u (purge_labels ?ids ?d) = other_filters u ?d"
    by (simp add: other_filters_def purge_labels_def del: filter_filter set_map set_filter)
  have o: "filters_own_labels (purge_labels ?ids ?d)"
    using own by (simp add: filters_own_labels_def purge_labels_def list_all_iff)
  have d': "?d' = ?d\<lparr>db_faults := tl (db_faults ?d)\<rparr> \<or> ?d' = (purge_labels ?ids ?d)\<lparr>db_faults := tl (db_faults ?d)\<rparr>"
    unfolding delete_label_def stmt_def Let_def
    by (cases "db_faults ?d") (simp_all add: purge_labels_faults del: set_map set_filter)
  have others: "other_filters u ?d' = other_filters u ?d" and own': "filters_own_labels ?d'"
    using d' p o own by (auto simp: other_filters_def filters_own_labels_def)
  have "cache_coherent lib (invalidate u (ls_cache s)) ?d'"
    using ok by (intro coherent_invalidate [OF _ others]) (simp add: label_ok_def)
  moreover have "db_wf ?d'" using ok by (intro keeps_snd [OF keeps_labels(3)]) (simp add: label_ok_def)
  ultimately show ?thesis using own' by (simp only: label_ok_cache ls_run_other simp_thms)
qed

lemma create_filters_sound:
  "\<lbrakk>db_wf (ls_db s); label_frame u others ls (ls_db s); list_all (\<lambda>r. lb_id r = l \<longrightarrow> lb_user_id r = u) ls\<rbrakk> \<Longrightarrow>
    (let s' = create_filters fresh now u l a kws s
     in db_wf (ls_db s') \<and> label_frame u others ls (ls_db s') \<and> ls_cache s' = ls_cache s)"
proof (induction kws arbitrary: s)
  case (Cons kw kws)
  have "db_wf (snd (insert_filter (fresh (length kws)) now u kw l (ls_db s)))"
    by (rule keeps_snd [OF keeps_labels(4) Cons.prems(1)])
  moreover have "label_frame u others ls (snd (insert_filter (fresh (length kws)) now u kw l (ls_db s)))"
    by (rule keeps_snd [OF frame_insert_filter [OF Cons.prems(3)] Cons.prems(2)])
  ultimately show ?case using Cons.IH Cons.prems(3) by (simp add: Let_def)
qed simp

lemma keeps_email_label_filters:
  "keeps (\<lambda>d. t_filters d = fs \<and> t_labels d = ls) (assign_labels_to_email now e is)"
  "keeps (\<lambda>d. t_filters d = fs \<and> t_labels d = ls) (remove_label_from_email e i)"
proof -
  have p: "on_tables (\<lambda>d. t_filters d = fs \<and> t_labels d = ls)" by (simp add: on_tables_def)
  have "keeps (\<lambda>d. t_filters d = fs \<and> t_labels d = ls) (insert_email_label now e l)" for l
    unfolding insert_email_label_def Let_def add_email_label_def by (intro keeps_rules p) simp
  then show "keeps (\<lambda>d. t_filters d = fs \<and> t_labels d = ls) (assign_labels_to_email now e is)"
    unfolding assign_labels_to_email_def by (intro keeps_rules)
  show "keeps (\<lambda>d. t_filters d = fs \<and> t_labels d = ls) (remove_label_from_email e i)"
    unfolding remove_label_from_email_def Let_def by (rule keeps_stmt [OF p]) auto
qed

lemma insert_label_sound:
  assumes ok: "label_ok lib s"
  shows "label_ok lib (snd (ls_run (insert_label i now u n c) s))"
proof -
  let ?P = "\<lambda>d. db_wf d \<and> filters_own_labels d \<and> t_filters d = t_filters (ls_db s)"
  have p: "on_tables ?P" by (simp add: on_tables_def filters_own_labels_def)
  have step: "?P (d\<lparr>t_labels := t_labels d @ [l]\<rparr>)" if "?P d" "violation (label_constraints l d) = None" for d l
  proof -
    have "\<not> has lb_id (t_labels d) (lb_id l)" using that(2) by (simp add: label_constraints_def split: if_splits)
    moreover have "db_wf d" using that(1) by blast
    then have "refs fl_label_id (t_filters d) lb_id (t_labels d)" by (simp add: wf_defs)
    ultimately have "list_all (\<lambda>f. fl_label_id f \<noteq> lb_id l) (t_filters d)" by (auto simp: refs_def list_all_iff)
    with that wf_insert_label [OF _ that(2)] show ?thesis by (auto simp: filters_own_labels_def list_all_iff)
  qed
  have "keeps ?P (insert_label i now u n c)"
    unfolding insert_label_def Let_def add_label_def
    by (rule keeps_backend_fun) (intro keeps_rules p; rule step; assumption)+
  then have P: "?P (snd (insert_label i now u n c (ls_db s)))"
    using ok by (rule_tac keeps_snd) (simp_all add: label_ok_def)
  then have "cache_coherent lib (ls_cache s) (snd (insert_label i now u n c (ls_db s))) = cache_coherent lib (ls_cache s) (ls_db s)"
    by (intro coherent_filters) blast
  with P ok show ?thesis by (simp add: label_ok_def)
qed

lemma same_tables_labels: "same_tables d d' \<Longrightarrow> t_labels d' = t_labels d \<and> t_filters d' = t_filters d"
proof -
  assume s: "same_tables d d'"
  have "t_labels (d'\<lparr>db_faults := []\<rparr>) = t_labels (d\<lparr>db_faults := []\<rparr>)" "t_filters (d'\<lparr>db_faults := []\<rparr>) = t_filters (d\<lparr>db_faults := []\<rparr>)"
    using s by (simp_all only: same_tables_def)
  then show ?thesis by simp
qed

lemma evaluate_coherent:
  assumes "cache_coherent lib cache d" "evaluate lib parse u raw cache d = (r, cache', d')"
  shows "cache_coherent lib cache' d'" "same_tables d d'"
proof -
  obtain x c x' where g: "get_or_compile lib u cache d = (x, c, x')" by (metis prod_cases3)
  from assms(2) g have "c = cache'" "x' = d'"
    by (auto simp: evaluate_def Let_def split: sum.splits if_splits)
  with get_or_compile_coherent [OF assms(1) g] show "cache_coherent lib cache' d'" "same_tables d d'" by simp_all
qed

lemma label_step_sound:
  assumes ok: "label_ok lib s" and own: "own_event s e"
  shows "label_ok lib (label_step lib parse s e)"
proof (cases e)
  case (CreateLabel i now n c u)
  then show ?thesis using ok by (simp add: create_label_handler_def Let_def label_ok_page insert_label_sound)
next
  case (DeleteLabel i u)
  then show ?thesis using delete_label_sound [OF ok, where i = i and u = "au_user_id u"] by (simp add: delete_label_handler_def Let_def label_ok_page)
next
  case (CreateFilter fresh now k l a u)
  show ?thesis
  proof (cases "trim k = []")
    case True
    with CreateFilter ok show ?thesis by (simp add: create_filter_handler_def label_ok_page)
  next
    case False
    let ?u = "au_user_id u" and ?d = "ls_db s"
    let ?s = "create_filters fresh now ?u l a (keywords_of (trim k)) s"
    have "label_frame ?u (other_filters ?u ?d) (t_labels ?d) ?d" "db_wf ?d" using ok by (simp_all add: label_frame_def label_ok_def)
    moreover have "list_all (\<lambda>r. lb_id r = l \<longrightarrow> lb_user_id r = ?u) (t_labels ?d)" using own CreateFilter by (simp add: own_event_def)
    ultimately have c: "db_wf (ls_db ?s)" "label_frame ?u (other_filters ?u ?d) (t_labels ?d) (ls_db ?s)" "ls_cache ?s = ls_cache s"
      using create_filters_sound [of s ?u "other_filters ?u ?d" "t_labels ?d" l fresh now a "keywords_of (trim k)"] by (simp_all add: Let_def)
    from c(2) have own': "filters_own_labels (ls_db ?s)" and others: "other_filters ?u (ls_db ?s) = other_filters ?u ?d"
      unfolding label_frame_def by blast+
    have "cache_coherent lib (invalidate ?u (ls_cache s)) (ls_db ?s)"
      using ok by (intro coherent_invalidate [OF _ others]) (simp add: label_ok_def)
    with c(1) own' have "label_ok lib (?s\<lparr>ls_cache := invalidate ?u (ls_cache ?s)\<rparr>)"
      unfolding label_ok_cache c(3) by blast
    with CreateFilter False show ?thesis by (simp add: create_filter_handler_def Let_def label_ok_page)
  qed
next
  case (DeleteFilter i u)
  then show ?thesis
    using label_ok_frame [OF ok keeps_labels(5) frame_delete_filter, of "au_user_id u" i]
    by (simp add: delete_filter_handler_def Let_def label_ok_page)
next
  case (EvaluateMail u raw)
  obtain r cache d where e: "evaluate lib parse u raw (ls_cache s) (ls_db s) = (r, cache, d)" by (metis prod_cases3)
  have "cache_coherent lib cache d" "same_tables (ls_db s) d"
    using evaluate_coherent [OF _ e] ok by (simp_all add: label_ok_def)
  moreover from this have "db_wf d = db_wf (ls_db s)" "filters_own_labels d = filters_own_labels (ls_db s)"
    by (auto simp: wf_same_tables filters_own_labels_def dest: same_tables_labels)
  ultimately show ?thesis using ok EvaluateMail e by (simp add: label_ok_def)
qed (simp_all add: add_email_label_handler_def remove_email_label_handler_def label_ok_page
    coherent_keeps_filters [OF ok keeps_labels(6) keeps_email_label_filters(1)] coherent_keeps_filters [OF ok keeps_labels(8) keeps_email_label_filters(2)])
fun own_run :: "ac_lib \<Rightarrow> mail_parser \<Rightarrow> label_store \<Rightarrow> label_event list \<Rightarrow> bool" where
  "own_run lib parse s [] = True"
| "own_run lib parse s (e # es) = (own_event s e \<and> own_run lib parse (label_step lib parse s e) es)"

definition own_step :: "ac_lib \<Rightarrow> mail_parser \<Rightarrow> label_store \<Rightarrow> label_event \<Rightarrow> label_store" where
  "own_step lib parse s e = (if own_event s e then label_step lib parse s e else s)"

interpretation label_events: machine "own_step lib parse" "label_ok lib" for lib parse
  by unfold_locales (simp add: own_step_def label_step_sound)

lemma own_run_steps: "own_run lib parse s es \<Longrightarrow> run_steps (label_step lib parse) s es = run_steps (own_step lib parse) s es"
  by (induction es arbitrary: s) (simp_all add: own_step_def)

text \<open>C34: A change of the rules reaches the next mail. However users create and delete labels and filters, tag
  mails and receive mail - as long as they filter into labels of their own - the set a user's mail is matched
  against is compiled from the filters that user has in the database at that moment, whether it comes from
  the cache or not; the database keeps its integrity and filters keep pointing at labels of their user.\<close>
theorem label_changes_reach_the_cache:
  assumes "label_ok lib s" "own_run lib parse s es"
  shows "let s' = run_steps (label_step lib parse) s es
    in db_wf (ls_db s') \<and> filters_own_labels (ls_db s') \<and>
       (case get_or_compile lib user (ls_cache s') (ls_db s') of
          (Inr cf, _, _) \<Rightarrow> cf = compile_or_none lib (rules_of (ls_db s') user)
        | (Inl _, _, _) \<Rightarrow> True)"
proof -
  let ?s = "run_steps (label_step lib parse) s es"
  have ok: "label_ok lib ?s" unfolding own_run_steps [OF assms(2)] by (rule label_events.run_inv [OF assms(1)])
  obtain r c d where g: "get_or_compile lib user (ls_cache ?s) (ls_db ?s) = (r, c, d)" by (metis prod_cases3)
  with ok get_or_compile_coherent [OF _ g] show ?thesis
    by (auto simp: Let_def label_ok_def split: sum.splits)
qed

text \<open>The page of a foreign label is the hole. When a filter of one user points at a label of another - the
  handler that creates filters does not ask whose the label is - and the owner deletes the label, only the
  owner's cache entry is dropped: the filter is gone from the database, and the other user's mail is
  still matched against it.\<close>
theorem foreign_label_leaves_a_stale_filter:
  assumes "cache_coherent lib (ls_cache s) (ls_db s)" "ls_cache s v = Some cf" "v \<noteq> au_user_id u"
    "list_ex (\<lambda>r. lb_id r = l \<and> lb_user_id r = au_user_id u) (t_labels (ls_db s))" "db_faults (ls_db s) = []"
  shows "let s' = snd (delete_label_handler l u s)
    in (\<exists>d. get_or_compile lib v (ls_cache s') (ls_db s') = (Inr (compile_or_none lib (rules_of (ls_db s) v)), ls_cache s', d)) \<and>
       rules_of (ls_db s') v = filter (\<lambda>r. snd r \<noteq> l) (rules_of (ls_db s) v)"
proof -
  let ?s = "snd (ls_run (delete_label l (au_user_id u)) s)" let ?d = "ls_db s"
  let ?s' = "snd (delete_label_handler l u s)"
  let ?ids = "map lb_id (filter (\<lambda>r. lb_id r = l \<and> lb_user_id r = au_user_id u) (t_labels ?d))"
  have ids: "set ?ids = {l}" using assms(4) by (auto simp: list_ex_iff image_iff)
  have "t_filters (ls_db ?s) = filter (\<lambda>f. fl_label_id f \<notin> set ?ids) (t_filters ?d)"
    using assms(5) by (simp add: delete_label_def stmt_def Let_def purge_labels_def del: set_map set_filter)
  then have f: "t_filters (ls_db ?s) = filter (\<lambda>f. fl_label_id f \<noteq> l) (t_filters ?d)" unfolding ids by simp
  have "t_filters (ls_db ?s') = t_filters (ls_db ?s)"
    unfolding delete_label_handler_def Let_def
    by (rule page_db(1) [where P = "\<lambda>d. t_filters d = t_filters (ls_db ?s)"]) (simp_all add: on_tables_def)
  then have rules: "rules_of (ls_db ?s') v = filter (\<lambda>r. snd r \<noteq> l) (rules_of ?d v)"
    using f by (simp add: rules_of_def filter_map comp_def conj_commute)
  have "ls_cache ?s' v = Some cf" using assms(2,3) by (simp add: delete_label_handler_def Let_def invalidate_def)
  moreover have "cf = compile_or_none lib (rules_of ?d v)" using assms(1,2) by (simp add: cache_coherent_def)
  ultimately show ?thesis using rules by (simp add: get_or_compile_def Let_def)
qed

lemma submit_active:
  "j \<in> set (be_active e) \<Longrightarrow> bj_user_id b = j \<Longrightarrow> submit b e = (False, e)"
  by (simp add: submit_def)

lemma create_filters_locked:
  "u \<in> set (be_active (ls_backfill s)) \<Longrightarrow> ls_backfill (create_filters fresh now u l a kws s) = ls_backfill s"
  by (induction kws arbitrary: s) (simp_all add: Let_def submit_active)

text \<open>Of several keywords only the first is applied to the mail already there. A form that lists keywords
  separated by commas and asks for existing mail creates a filter for each, but hands the backfill engine a single
  job, for the first: the engine takes one job per user.\<close>
theorem only_first_keyword_is_backfilled:
  assumes "trim kw \<noteq> []" "keywords_of (trim kw) = k # ks"
    "au_user_id user \<notin> set (be_active (ls_backfill s))" "be_open (ls_backfill s)"
    "length (be_channel (ls_backfill s)) < channel_capacity"
  shows "be_channel (ls_backfill (snd (create_filter_handler fresh now kw l (Some True) user s))) =
    be_channel (ls_backfill s) @ [\<lparr>bj_user_id = au_user_id user, bj_keyword = k, bj_label_id = l\<rparr>]"
proof -
  let ?job = "\<lparr>bj_user_id = au_user_id user, bj_keyword = k, bj_label_id = l\<rparr>"
  have "au_user_id user \<in> set (be_active (snd (submit ?job (ls_backfill s))))"
    "be_channel (snd (submit ?job (ls_backfill s))) = be_channel (ls_backfill s) @ [?job]"
    using assms(3-5) by (simp_all add: submit_def try_send_def)
  then show ?thesis
    using assms(1,2) by (simp add: create_filter_handler_def Let_def create_filters_locked)
qed

text \<open>Labels of mails are nobody's. The handlers that tag a mail and remove a tag do to the database exactly the
  same for every user, and show every user the labels of the mail asked for; tagging succeeds whenever mail
  and label exist, whoever owns them.\<close>
theorem email_labels_ignore_the_owner:
  "t_email_labels (ls_db (snd (add_email_label_handler now e l user s))) =
     t_email_labels (ls_db (snd (add_email_label_handler now e l user' s))) \<and>
   t_email_labels (ls_db (snd (remove_email_label_handler e l user s))) =
     t_email_labels (ls_db (snd (remove_email_label_handler e l user' s))) \<and>
   ep_labels (fst (add_email_label_handler now e l user s)) = ep_labels (fst (add_email_label_handler now e l user' s)) \<and>
   (db_faults (ls_db s) = [] \<longrightarrow> has re_id (t_emails (ls_db s)) e \<longrightarrow> has lb_id (t_labels (ls_db s)) l \<longrightarrow>
      labelled (ls_db (snd (add_email_label_handler now e l user s))) e l)"
proof -
  have same: "t_email_labels (ls_db (snd (email_labels_page u m x))) = t_email_labels (ls_db x)" for u m x
    by (rule page_db(2) [where P = "\<lambda>d. t_email_labels d = t_email_labels (ls_db x)"]) (simp_all add: on_tables_def)
  have shown: "ep_labels (fst (email_labels_page u m x)) = fst (or_default [] (get_labels_for_email m) (ls_db x))" for u m x
    by (simp add: email_labels_page_def case_prod_unfold ls_run_def)
  have "labelled (snd (assign_labels_to_email now e [l] (ls_db s))) e l"
    if "db_faults (ls_db s) = []" "has re_id (t_emails (ls_db s)) e" "has lb_id (t_labels (ls_db s)) l"
    using that by (simp add: assign_labels_to_email_def db_bind_def insert_email_label_def insert_stmt_def stmt_def Let_def
        email_label_constraints_def add_email_label_def labelled_def has_def db_return_def)
  then show ?thesis
    unfolding add_email_label_handler_def remove_email_label_handler_def same shown labelled_def same by simp
qed

section \<open>Witnesses\<close>

definition label_store_sample :: "db \<Rightarrow> filter_cache \<Rightarrow> label_store" where
  "label_store_sample d cache = \<lparr>ls_db = d, ls_cache = cache, ls_backfill = backfill_engine_default\<lparr>be_open := True\<rparr>\<rparr>"

definition user_named :: "uuid \<Rightarrow> authenticated_user" where
  "user_named i = \<lparr>au_user_id = i, au_is_admin = False, au_bypass_alias_limit = False, au_can_send_firsthand = False\<rparr>"

lemma label_sample_wf: "db_wf label_sample"
  by (simp add: label_sample_def sample_defs wf_defs uniq_def refs_def refs_opt_def has_def)

theorem label_changes_reach_the_cache_witness:
  "let s' = run_steps (label_step naive_ac text_parser) (label_store_sample label_sample (\<lambda>_. None))
       [EvaluateMail ''u1'' ''Pay me'', DeleteLabel ''l1'' (user_named ''u1'')]
   in db_wf (ls_db s') \<and> filters_own_labels (ls_db s') \<and>
      (case get_or_compile naive_ac ''u1'' (ls_cache s') (ls_db s') of
         (Inr cf, _, _) \<Rightarrow> cf = compile_or_none naive_ac (rules_of (ls_db s') ''u1'')
       | (Inl _, _, _) \<Rightarrow> True)"
proof -
  have "label_ok naive_ac (label_store_sample label_sample (\<lambda>_. None))"
    by (simp add: label_ok_def label_store_sample_def label_sample_wf cache_coherent_def)
      (simp add: filters_own_labels_def label_sample_def sample_defs)
  then show ?thesis by (rule label_changes_reach_the_cache) (simp add: own_event_def)
qed

definition foreign_filter_sample :: db where
  "foreign_filter_sample = label_sample\<lparr>t_filters := [\<lparr>fl_id = ''f2'', fl_user_id = ''u2'', fl_keyword = ''pay'', fl_label_id = ''l1'', fl_created_at = 0\<rparr>]\<rparr>"

lemma foreign_rules: "rules_of foreign_filter_sample v = (if v = ''u2'' then [(''pay'', ''l1'')] else [])"
  by (simp add: rules_of_def foreign_filter_sample_def label_sample_def)

theorem foreign_label_leaves_a_stale_filter_witness:
  "let s = label_store_sample foreign_filter_sample ((\<lambda>_. None)(''u2'' := Some (compile_or_none naive_ac [(''pay'', ''l1'')])));
       s' = snd (delete_label_handler ''l1'' (user_named ''u1'') s)
   in (\<exists>d. get_or_compile naive_ac ''u2'' (ls_cache s') (ls_db s') = (Inr (compile_or_none naive_ac [(''pay'', ''l1'')]), ls_cache s', d)) \<and>
      rules_of (ls_db s') ''u2'' = []"
proof -
  let ?s = "label_store_sample foreign_filter_sample ((\<lambda>_. None)(''u2'' := Some (compile_or_none naive_ac [(''pay'', ''l1'')])))"
  have "cache_coherent naive_ac (ls_cache ?s) (ls_db ?s)" by (simp add: cache_coherent_def label_store_sample_def foreign_rules)
  moreover have "list_ex (\<lambda>r. lb_id r = ''l1'' \<and> lb_user_id r = au_user_id (user_named ''u1'')) (t_labels (ls_db ?s))"
    "db_faults (ls_db ?s) = []" "''u2'' \<noteq> au_user_id (user_named ''u1'')"
    "ls_cache ?s ''u2'' = Some (compile_or_none naive_ac [(''pay'', ''l1'')])"
    by (simp_all add: label_store_sample_def foreign_filter_sample_def label_sample_def user_named_def sample_defs)
  ultimately show ?thesis
    using foreign_label_leaves_a_stale_filter [of naive_ac ?s "''u2''" "compile_or_none naive_ac [(''pay'', ''l1'')]" "user_named ''u1''" "''l1''"]
    by (simp add: Let_def label_store_sample_def foreign_rules)
qed

theorem only_first_keyword_is_backfilled_witness:
  "be_channel (ls_backfill (snd (create_filter_handler (\<lambda>i. ''f'' @ show_nat i) 0 ''pay, bill'' ''l1'' (Some True) (user_named ''u1'')
     (label_store_sample label_sample (\<lambda>_. None))))) = [\<lparr>bj_user_id = ''u1'', bj_keyword = ''pay'', bj_label_id = ''l1''\<rparr>]"
proof -
  have k: "keywords_of (trim ''pay, bill'') = [''pay'', ''bill'']" "trim ''pay, bill'' \<noteq> []"
    by (simp_all add: keywords_of_def trim_eval char_eval)
  show ?thesis
    using only_first_keyword_is_backfilled [OF k(2,1), of "user_named ''u1''" "label_store_sample label_sample (\<lambda>_. None)"]
    by (simp add: label_store_sample_def user_named_def backfill_engine_default_def channel_capacity_def)
qed

theorem email_labels_ignore_the_owner_witness:
  "labelled (ls_db (snd (add_email_label_handler 0 ''e1'' ''l1'' (user_named ''u9'') (label_store_sample label_sample (\<lambda>_. None))))) ''e1'' ''l1''"
  using email_labels_ignore_the_owner [of 0 "''e1''" "''l1''" "user_named ''u9''" "label_store_sample label_sample (\<lambda>_. None)"]
  by (simp add: label_store_sample_def label_sample_def sample_defs has_def)

end
