(* ===== verification/Db_Sent.thy ===== *)
theory Db_Sent
  imports Db_Aliases
begin

text \<open>
  Sent mail and replies: \<open>src/src/db/sent_emails.rs\<close>, \<open>src/src/db/replies.rs\<close> and \<open>get_any_email\<close> of
  \<open>src/src/db/mod.rs\<close>.  The two back ends send the same statements up to their spelling.
\<close>

section \<open>Sent mail\<close>

datatype email_status = Draft | Sending | Sent | Failed

fun status_text :: "email_status \<Rightarrow> string" where
  "status_text Draft = ''draft''"
| "status_text Sending = ''sending''"
| "status_text Sent = ''sent''"
| "status_text Failed = ''failed''"

fun show_status :: "email_status \<Rightarrow> string" where
  "show_status Draft = ''Draft''"
| "show_status Sending = ''Sending''"
| "show_status Sent = ''Sent''"
| "show_status Failed = ''Failed''"

record sent_email_row =
  sv_row :: sent_row
  sv_alias_address :: string

definition new_sent ::
  "uuid \<Rightarrow> time \<Rightarrow> uuid \<Rightarrow> uuid \<Rightarrow> string \<Rightarrow> string \<Rightarrow> uuid \<Rightarrow> email_status \<Rightarrow> string option \<Rightarrow> time option \<Rightarrow> sent_row" where
  "new_sent fresh now user_id from_alias_id to_address subject body_key status error_message sent_at =
     \<lparr>se_id = fresh, se_user_id = user_id, se_from_alias_id = from_alias_id, se_to = to_address, se_cc = None,
      se_bcc = None, se_subject = subject, se_body_key = body_key, se_status = status_text status,
      se_error = error_message, se_message_id = None, se_created_at = now, se_updated_at = now,
      se_sent_at = sent_at, se_has_attachments = False, se_is_favorite = False\<rparr>"

definition add_sent :: "sent_row \<Rightarrow> db \<Rightarrow> db" where
  "add_sent s d = d\<lparr>t_sent := t_sent d @ [s]\<rparr>"

definition insert_sent_email ::
  "uuid \<Rightarrow> time \<Rightarrow> uuid \<Rightarrow> uuid \<Rightarrow> string \<Rightarrow> string \<Rightarrow> uuid \<Rightarrow> email_status \<Rightarrow> string option \<Rightarrow> sent_row dbm" where
  "insert_sent_email fresh now user_id from_alias_id to_address subject body_key status error_message =
     (let sent_at = (if status = Sent then Some now else None);
          s = new_sent fresh now user_id from_alias_id to_address subject body_key status error_message sent_at
      in insert_stmt (sent_constraints s) (add_sent s) (\<lambda>_. s))"

definition set_sent :: "(sent_row \<Rightarrow> bool) \<Rightarrow> (sent_row \<Rightarrow> sent_row) \<Rightarrow> db \<Rightarrow> db" where
  "set_sent p f d = d\<lparr>t_sent := update_rows p f (t_sent d)\<rparr>"

text \<open>The Message-ID column is unique.\<close>

definition mark_sent_email_success :: "time \<Rightarrow> uuid \<Rightarrow> string \<Rightarrow> unit dbm" where
  "mark_sent_email_success now i message_id = stmt (\<lambda>d.
     if has se_id (t_sent d) i \<and> list_ex (\<lambda>s. se_id s \<noteq> i \<and> se_message_id s = Some message_id) (t_sent d)
     then Inl UniqueViolation
     else Inr ((), set_sent (\<lambda>s. se_id s = i)
       (\<lambda>s. s\<lparr>se_status := status_text Sent, se_message_id := Some message_id, se_sent_at := Some now,
               se_updated_at := now\<rparr>) d))"

definition mark_sent_email_failed :: "time \<Rightarrow> uuid \<Rightarrow> string \<Rightarrow> unit dbm" where
  "mark_sent_email_failed now i error_msg = exec (set_sent (\<lambda>s. se_id s = i)
     (\<lambda>s. s\<lparr>se_status := status_text Failed, se_error := Some error_msg, se_updated_at := now\<rparr>))"

definition sent_views :: "db \<Rightarrow> sent_email_row list" where
  "sent_views d = concat (map (\<lambda>s. map (\<lambda>(a, m). \<lparr>sv_row = s, sv_alias_address = address_of a m\<rparr>)
     (filter (\<lambda>(a, m). al_id a = se_from_alias_id s) (alias_domains d))) (t_sent d))"

definition sent_matches :: "db \<Rightarrow> uuid \<Rightarrow> email_status \<Rightarrow> string option \<Rightarrow> string option \<Rightarrow> sent_email_row \<Rightarrow> bool" where
  "sent_matches d user_id status alias_filter query_filter v =
     (se_user_id (sv_row v) = user_id \<and> se_status (sv_row v) = status_text status \<and>
      opt_holds (\<lambda>a. sv_alias_address v = a) alias_filter \<and>
      opt_holds (\<lambda>q. search_matches d q (se_to (sv_row v)) \<or> search_matches d q (se_subject (sv_row v))) query_filter)"

definition get_sent_emails_by_user_id ::
  "uuid \<Rightarrow> email_status \<Rightarrow> nat \<Rightarrow> nat \<Rightarrow> string option \<Rightarrow> string option \<Rightarrow> sent_email_row list dbm" where
  "get_sent_emails_by_user_id user_id status limit offset alias_filter query_filter = query (\<lambda>d.
     page limit offset (sort_key (\<lambda>v. - se_created_at (sv_row v))
       (filter (sent_matches d user_id status alias_filter query_filter) (sent_views d))))"

definition get_sent_email_count_by_user_id ::
  "uuid \<Rightarrow> email_status \<Rightarrow> string option \<Rightarrow> string option \<Rightarrow> nat dbm" where
  "get_sent_email_count_by_user_id user_id status alias_filter query_filter = query (\<lambda>d.
     length (filter (sent_matches d user_id status alias_filter query_filter) (sent_views d)))"

definition own_draft :: "uuid \<Rightarrow> uuid \<Rightarrow> sent_row \<Rightarrow> bool" where
  "own_draft i user_id s = (se_id s = i \<and> se_user_id s = user_id \<and> se_status s = status_text Draft)"

text \<open>An update that touches no row is \<open>RowNotFound\<close>; one that does meets the foreign key of the alias.\<close>

definition upsert_draft ::
  "uuid \<Rightarrow> time \<Rightarrow> uuid option \<Rightarrow> uuid \<Rightarrow> uuid \<Rightarrow> string \<Rightarrow> string \<Rightarrow> uuid \<Rightarrow> uuid dbm" where
  "upsert_draft fresh now draft_id user_id from_alias_id to_address subject body_key =
     (case draft_id of
        Some i \<Rightarrow> db_bind (stmt (\<lambda>d.
            if \<not> list_ex (own_draft i user_id) (t_sent d) then Inr (0, d)
            else if \<not> has al_id (t_aliases d) from_alias_id then Inl ForeignKeyViolation
            else Inr (length (filter (own_draft i user_id) (t_sent d)), set_sent (own_draft i user_id)
              (\<lambda>s. s\<lparr>se_from_alias_id := from_alias_id, se_to := to_address, se_subject := subject,
                      se_body_key := body_key, se_updated_at := now\<rparr>) d)))
          (\<lambda>affected. if affected = (0 :: nat) then db_fail RowNotFound else db_return i)
      | None \<Rightarrow>
          (let s = new_sent fresh now user_id from_alias_id to_address subject body_key Draft None None
           in db_bind (insert_stmt (sent_constraints s) (add_sent s) (\<lambda>_. ())) (\<lambda>_. db_return fresh)))"

definition get_sent_email_by_id_and_user :: "uuid \<Rightarrow> uuid \<Rightarrow> sent_email_row option dbm" where
  "get_sent_email_by_id_and_user i user_id = query_optional (\<lambda>d.
     filter (\<lambda>v. se_id (sv_row v) = i \<and> se_user_id (sv_row v) = user_id) (sent_views d))"

definition delete_sent_email_by_id :: "uuid \<Rightarrow> uuid \<Rightarrow> bool dbm" where
  "delete_sent_email_by_id i user_id = stmt (\<lambda>d.
     let hit = (\<lambda>s. se_id s = i \<and> se_user_id s = user_id)
     in Inr (list_ex hit (t_sent d), d\<lparr>t_sent := filter (\<lambda>s. \<not> hit s) (t_sent d)\<rparr>))"

datatype any_email = AnyReceived received_email | AnySent sent_email_row

definition any_subject :: "any_email \<Rightarrow> string" where
  "any_subject e = (case e of AnyReceived r \<Rightarrow> rv_subject r | AnySent s \<Rightarrow> se_subject (sv_row s))"

definition any_body_key :: "any_email \<Rightarrow> uuid" where
  "any_body_key e = (case e of AnyReceived r \<Rightarrow> rv_body_key r | AnySent s \<Rightarrow> se_body_key (sv_row s))"

definition any_is_favorite :: "any_email \<Rightarrow> bool" where
  "any_is_favorite e = (case e of AnyReceived r \<Rightarrow> rv_is_favorite r | AnySent s \<Rightarrow> se_is_favorite (sv_row s))"

definition get_any_email :: "uuid \<Rightarrow> uuid \<Rightarrow> any_email option dbm" where
  "get_any_email i user_id =
     db_bind (get_email_by_id i user_id) (\<lambda>r. case r of
       Some e \<Rightarrow> db_return (Some (AnyReceived e))
     | None \<Rightarrow> db_bind (get_sent_email_by_id_and_user i user_id) (\<lambda>s. case s of
         Some e \<Rightarrow> db_return (Some (AnySent e))
       | None \<Rightarrow> db_return None))"

section \<open>Replies\<close>

definition thread_root_of :: "db \<Rightarrow> uuid \<Rightarrow> uuid option" where
  "thread_root_of d email_id = (case filter (\<lambda>e. re_id e = email_id) (t_emails d) of
     [] \<Rightarrow> None | e # _ \<Rightarrow> Some (unwrap_or (re_id e) (re_thread_id e)))"

definition touch_thread :: "time \<Rightarrow> uuid \<Rightarrow> db \<Rightarrow> db" where
  "touch_thread now email_id d = (case thread_root_of d email_id of
     None \<Rightarrow> d
   | Some root \<Rightarrow> set_emails (\<lambda>e. re_id e = root) (\<lambda>e. e\<lparr>re_last_activity := now\<rparr>) d)"

definition insert_reply :: "uuid \<Rightarrow> time \<Rightarrow> uuid \<Rightarrow> string \<Rightarrow> string option \<Rightarrow> uuid option \<Rightarrow> reply_row dbm" where
  "insert_reply fresh now email_id body_text message_id body_key =
     db_bind (exec (touch_thread now email_id)) (\<lambda>_.
       (let r = \<lparr>rp_id = fresh, rp_email_id = email_id, rp_body_text = body_text, rp_sent_at = now,
                 rp_message_id = message_id, rp_body_key = body_key\<rparr>
        in insert_stmt (reply_constraints r) (\<lambda>d. d\<lparr>t_replies := t_replies d @ [r]\<rparr>) (\<lambda>_. r)))"

definition get_reply_by_id :: "uuid \<Rightarrow> reply_row option dbm" where
  "get_reply_by_id reply_id = query_optional (\<lambda>d. filter (\<lambda>r. rp_id r = reply_id) (t_replies d))"

definition get_replies_for_email :: "uuid \<Rightarrow> reply_row list dbm" where
  "get_replies_for_email email_id = query (\<lambda>d.
     sort_key rp_sent_at (filter (\<lambda>r. rp_email_id r = email_id) (t_replies d)))"

section \<open>Integrity\<close>

lemma distinct_somes_update:
  assumes "distinct (filter (\<lambda>m. m \<noteq> None) (map f rows))" "\<not> list_ex (\<lambda>r. key r \<noteq> i \<and> f r = Some x) rows"
    "uniq key rows" "\<And>r. f (g r) = Some x"
  shows "distinct (filter (\<lambda>m. m \<noteq> None) (map f (update_rows (\<lambda>r. key r = i) g rows)))"
  using assms(1-3)
proof (induction rows)
  case (Cons r rows)
  let ?up = "update_rows (\<lambda>r. key r = i) g"
  have IH: "distinct (filter (\<lambda>m. m \<noteq> None) (map f (?up rows)))"
    using Cons by (auto simp: uniq_def split: if_splits)
  have vals: "f s \<in> insert (Some x) (f ` set rows)" if "s \<in> set (?up rows)" for s
    using that assms(4) by (auto simp: update_rows_def)
  show ?case
  proof (cases "key r = i")
    case True
    have other: "key s \<noteq> i" if "s \<in> set rows" for s
      using Cons.prems(3) True that by (auto simp: uniq_def rev_image_eqI)
    then have "?up rows = rows" by (simp add: update_rows_def map_idI)
    moreover have "Some x \<notin> f ` set rows"
      using Cons.prems(2) other by (auto simp: list_ex_iff)
    ultimately show ?thesis using IH True assms(4) by (auto simp: update_rows_def)
  next
    case False
    have new: "f r \<noteq> Some x" using Cons.prems(2) False by simp
    have "f r \<notin> f ` set (?up rows)" if "f r \<noteq> None"
    proof
      assume "f r \<in> f ` set (?up rows)"
      then have "f r \<in> f ` set rows" using vals new by fastforce
      with Cons.prems(1) that show False by simp
    qed
    moreover have "?up (r # rows) = r # ?up rows" using False by (simp add: update_rows_def)
    ultimately show ?thesis using IH by auto
  qed
qed (simp add: update_rows_def)

lemma wf_set_sent:
  assumes "db_wf d" "\<And>s. se_id (f s) = se_id s" "\<And>s. se_user_id (f s) = se_user_id s"
    "refs se_from_alias_id (update_rows p f (t_sent d)) al_id (t_aliases d)"
    "distinct (filter (\<lambda>m. m \<noteq> None) (map se_message_id (update_rows p f (t_sent d))))"
  shows "db_wf (set_sent p f d)"
  using assms by (simp add: wf_defs set_sent_def)

lemma wf_set_sent_plain:
  assumes "db_wf d" "\<And>s. se_id (f s) = se_id s" "\<And>s. se_user_id (f s) = se_user_id s"
    "\<And>s. se_from_alias_id (f s) = se_from_alias_id s" "\<And>s. se_message_id (f s) = se_message_id s"
  shows "db_wf (set_sent p f d)"
  using assms(1) by (intro wf_set_sent) (simp_all add: wf_defs map_update_rows assms)

lemma wf_set_draft:
  assumes "db_wf d" "has al_id (t_aliases d) a"
  shows "db_wf (set_sent p (\<lambda>s. s\<lparr>se_from_alias_id := a, se_to := t, se_subject := sub, se_body_key := k, se_updated_at := now\<rparr>) d)"
proof -
  have "refs se_from_alias_id (t_sent d) al_id (t_aliases d)" using assms(1) by (simp add: wf_defs)
  then have "refs se_from_alias_id (update_rows p
      (\<lambda>s. s\<lparr>se_from_alias_id := a, se_to := t, se_subject := sub, se_body_key := k, se_updated_at := now\<rparr>) (t_sent d)) al_id (t_aliases d)"
    using assms(2) by (auto simp: refs_iff update_rows_def)
  with assms(1) show ?thesis by (intro wf_set_sent) (simp_all add: wf_defs map_update_rows)
qed

lemma wf_touch: "db_wf d \<Longrightarrow> db_wf (touch_thread now i d)"
  by (auto simp: touch_thread_def wf_set_emails split: option.split)

lemma wf_delete_sent: "db_wf d \<Longrightarrow> db_wf (d\<lparr>t_sent := filter P (t_sent d)\<rparr>)"
  by (simp add: wf_defs distinct_filter_map_filter)

lemma keeps_sent:
  "keeps db_wf (insert_sent_email fresh now u a t sub k st err)" "keeps db_wf (mark_sent_email_success now i m)"
  "keeps db_wf (mark_sent_email_failed now i e)" "keeps db_wf (upsert_draft fresh now di u a t sub k)"
  "keeps db_wf (delete_sent_email_by_id i u)" "keeps db_wf (insert_reply fresh now i b mid bk)"
proof -
  show "keeps db_wf (insert_sent_email fresh now u a t sub k st err)"
    unfolding insert_sent_email_def Let_def add_sent_def by (intro keeps_rules) (simp_all add: wf_insert_sent)
  show "keeps db_wf (mark_sent_email_failed now i e)"
    unfolding mark_sent_email_failed_def
    by (intro keeps_rules) (simp_all add: wf_set_sent_plain)
  show "keeps db_wf (mark_sent_email_success now i m)"
    unfolding mark_sent_email_success_def
  proof (rule keeps_stmt)
    fix d a d'
    assume wf: "db_wf d" and run: "(if has se_id (t_sent d) i \<and> list_ex (\<lambda>s. se_id s \<noteq> i \<and> se_message_id s = Some m) (t_sent d)
       then Inl UniqueViolation
       else Inr ((), set_sent (\<lambda>s. se_id s = i)
         (\<lambda>s. s\<lparr>se_status := status_text Sent, se_message_id := Some m, se_sent_at := Some now,
                 se_updated_at := now\<rparr>) d)) = Inr (a, d')"
    let ?f = "\<lambda>s. s\<lparr>se_status := status_text Sent, se_message_id := Some m, se_sent_at := Some now, se_updated_at := now\<rparr>"
    have d': "d' = set_sent (\<lambda>s. se_id s = i) ?f d"
      and free: "has se_id (t_sent d) i \<Longrightarrow> \<not> list_ex (\<lambda>s. se_id s \<noteq> i \<and> se_message_id s = Some m) (t_sent d)"
      using run by (auto split: if_splits)
    have "distinct (filter (\<lambda>m. m \<noteq> None) (map se_message_id (update_rows (\<lambda>s. se_id s = i) ?f (t_sent d))))"
    proof (cases "has se_id (t_sent d) i")
      case True
      show ?thesis by (rule distinct_somes_update [OF _ free [OF True]]) (use wf in \<open>simp_all add: wf_defs\<close>)
    next
      case False
      then have "update_rows (\<lambda>s. se_id s = i) ?f (t_sent d) = t_sent d"
        by (auto simp: update_rows_def has_iff intro!: map_idI)
      then show ?thesis using wf by (simp add: wf_defs)
    qed
    then show "db_wf d'" unfolding d' using wf by (intro wf_set_sent) (simp_all add: wf_defs)
  qed simp
  show "keeps db_wf (upsert_draft fresh now di u a t sub k)"
  proof (cases di)
    case None
    then show ?thesis unfolding upsert_draft_def Let_def add_sent_def
      by (simp, intro keeps_rules) (simp_all add: wf_insert_sent)
  next
    case (Some i)
    have "keeps db_wf (stmt (\<lambda>d.
            if \<not> list_ex (own_draft i u) (t_sent d) then Inr (0, d)
            else if \<not> has al_id (t_aliases d) a then Inl ForeignKeyViolation
            else Inr (length (filter (own_draft i u) (t_sent d)), set_sent (own_draft i u)
              (\<lambda>s. s\<lparr>se_from_alias_id := a, se_to := t, se_subject := sub, se_body_key := k, se_updated_at := now\<rparr>) d)))"
      by (rule keeps_stmt) (auto split: if_splits intro!: wf_set_draft)
    with Some show ?thesis unfolding upsert_draft_def by (auto intro!: keeps_rules)
  qed
  show "keeps db_wf (delete_sent_email_by_id i u)"
    unfolding delete_sent_email_by_id_def Let_def
    by (rule keeps_stmt) (auto simp: wf_delete_sent)
  show "keeps db_wf (insert_reply fresh now i b mid bk)"
    unfolding insert_reply_def Let_def by (intro keeps_rules) (simp_all add: wf_insert_reply wf_touch)
qed

end
