(* ===== verification/Web_Send.thy ===== *)
theory Web_Send
  imports Web_Auth Db_Sent
begin

text \<open>
  Sending from the web and the API: the attachment forms (\<open>src/src/web/attachments_form.rs\<close>), the firsthand
  send, drafts and their handlers (\<open>send_email.rs\<close>), replies (\<open>replies.rs\<close>) and the JSON endpoints that send
  (\<open>api.rs\<close>).

  A multipart body is the list of fields the decoder of \<open>axum\<close> yields; the type guess of \<open>mime_guess\<close>, the parser
  of UUIDs, the base64 decoder and the mail parser are arguments or fields of the service.  The removal of an old
  draft file runs as a task of its own; the world keeps the tasks still to run.
\<close>

section \<open>Attachment forms\<close>

abbreviation max_attachments :: nat where "max_attachments \<equiv> 10"
abbreviation max_attachment_bytes :: nat where "max_attachment_bytes \<equiv> 10 * 1024 * 1024"
abbreviation max_total_attachment_bytes :: nat where "max_total_attachment_bytes \<equiv> 25 * 1024 * 1024"

record form_field =
  ff_name :: "string option"
  ff_file_name :: "string option"
  ff_content_type :: "string option"
  ff_chunks :: "string list"
  ff_text :: "string option"

record multipart_fields =
  mf_text :: "string \<Rightarrow> string option"
  mf_attachments :: "mime_attachment list"
  mf_error :: "(nat \<times> string) option"

record api_attachment =
  aa_filename :: string
  aa_content_b64 :: string
  aa_content_type :: "string option"

definition clean_filename :: "string option \<Rightarrow> string option" where
  "clean_filename filename = (case filename of
     Some f \<Rightarrow> (let cleaned = trim (filter (\<lambda>c. c \<noteq> CHR ''/'' \<and> c \<noteq> CHR 0x5C) f)
               in if cleaned = [] then Some ''attachment'' else Some cleaned)
   | None \<Rightarrow> Some ''attachment'')"

definition resolve_content_type :: "(string \<Rightarrow> string option) \<Rightarrow> string option \<Rightarrow> string option \<Rightarrow> string" where
  "resolve_content_type guess provided filename =
     (let fallback = ''application/octet-stream'';
          guessed = (case filename of Some fname \<Rightarrow> unwrap_or fallback (guess fname) | None \<Rightarrow> fallback)
      in case provided of
           Some ct \<Rightarrow> if trim ct \<noteq> [] then ct else guessed
         | None \<Rightarrow> guessed)"

datatype attachment_limit_error = SingleFileTooLarge | TooManyFiles | TotalTooLarge

definition check_attachment_limits :: "nat \<Rightarrow> nat \<Rightarrow> nat \<Rightarrow> attachment_limit_error + unit" where
  "check_attachment_limits current_count current_total_bytes next_file_bytes =
     (if next_file_bytes > max_attachment_bytes then Err SingleFileTooLarge
      else if current_count + 1 > max_attachments then Err TooManyFiles
      else if current_total_bytes + next_file_bytes > max_total_attachment_bytes then Err TotalTooLarge
      else Ok ())"

fun limit_error_message :: "attachment_limit_error \<Rightarrow> string" where
  "limit_error_message SingleFileTooLarge =
     ''Attachment exceeds maximum limit of '' @ show_nat (max_attachment_bytes div 1024 div 1024) @ '' MB.''"
| "limit_error_message TooManyFiles =
     ''Too many attachments. Maximum is '' @ show_nat max_attachments @ ''.''"
| "limit_error_message TotalTooLarge =
     ''Total attachments size exceeds limit of '' @ show_nat (max_total_attachment_bytes div 1024 div 1024) @ '' MB.''"

definition total_bytes :: "mime_attachment list \<Rightarrow> nat" where
  "total_bytes attachments = sum_list (map (\<lambda>a. length (ma_data a)) attachments)"

text \<open>The chunks of one file: all bytes read, and whether the limit of a single file was passed on the way.\<close>

fun read_chunks :: "string list \<Rightarrow> string \<Rightarrow> bool \<Rightarrow> string \<times> bool" where
  "read_chunks [] data single_file_error = (data, single_file_error)"
| "read_chunks (chunk # chunks) data single_file_error =
     read_chunks chunks (data @ chunk) (single_file_error \<or> length data + length chunk > max_attachment_bytes)"

definition attachment_field :: "(string \<Rightarrow> string option) \<Rightarrow> form_field \<Rightarrow> multipart_fields \<Rightarrow> multipart_fields" where
  "attachment_field guess field r =
     (let filename = map_option sanitize_header (ff_file_name field);
          content_type = map_option sanitize_header (ff_content_type field)
      in case read_chunks (ff_chunks field) [] False of (data, single_file_error) \<Rightarrow>
        let limit_error =
          (if single_file_error then Some SingleFileTooLarge
           else if data = [] then None
           else (case check_attachment_limits (length (mf_attachments r)) (total_bytes (mf_attachments r)) (length data) of
               Inl e \<Rightarrow> Some e | Inr _ \<Rightarrow> None))
        in case limit_error of
             Some e \<Rightarrow> r\<lparr>mf_error := Some (413, limit_error_message e)\<rparr>
           | None \<Rightarrow>
               if data = [] then r
               else r\<lparr>mf_attachments := mf_attachments r @
                 [\<lparr>ma_filename = clean_filename filename, ma_content_type = resolve_content_type guess content_type filename,
                   ma_data = data, ma_is_inline = False, ma_content_id = None\<rparr>]\<rparr>)"

fun read_fields :: "(string \<Rightarrow> string option) \<Rightarrow> form_field list \<Rightarrow> multipart_fields \<Rightarrow> multipart_fields" where
  "read_fields guess [] r = r"
| "read_fields guess (field # fds) r = (case ff_name field of
     None \<Rightarrow> read_fields guess fds r
   | Some name \<Rightarrow>
       if name = ''attachments''
       then (let r = attachment_field guess field r in if mf_error r \<noteq> None then r else read_fields guess fds r)
       else (case ff_text field of
           Some v \<Rightarrow> read_fields guess fds (r\<lparr>mf_text := (mf_text r)(name := Some v)\<rparr>)
         | None \<Rightarrow> read_fields guess fds r))"

definition no_fields :: multipart_fields where
  "no_fields = \<lparr>mf_text = (\<lambda>_. None), mf_attachments = [], mf_error = None\<rparr>"

definition read_multipart_fields :: "(string \<Rightarrow> string option) \<Rightarrow> form_field list \<Rightarrow> multipart_fields" where
  "read_multipart_fields guess multipart = read_fields guess multipart no_fields"

text \<open>The API's attachments, base64 in JSON.\<close>

fun decode_attachments ::
  "(string \<Rightarrow> string option) \<Rightarrow> (string \<Rightarrow> string option) \<Rightarrow> api_attachment list \<Rightarrow> nat \<Rightarrow> mime_attachment list
   \<Rightarrow> (nat \<times> string) + mime_attachment list" where
  "decode_attachments decode guess [] total_so_far out = Ok out"
| "decode_attachments decode guess (att # atts) total_so_far out = (case decode (aa_content_b64 att) of
     None \<Rightarrow> Err (400, ''Attachment '' @ [CHR 39] @ aa_filename att @ [CHR 39] @ '' is not valid base64.'')
   | Some data \<Rightarrow>
      (let total_so_far = total_so_far + length data
       in if total_so_far > max_total_attachment_bytes
          then Err (413, ''Total attachments size exceeds limit of '' @
            show_nat (max_total_attachment_bytes div 1024 div 1024) @ '' MB.'')
          else decode_attachments decode guess atts total_so_far (out @
            [\<lparr>ma_filename = clean_filename (Some (aa_filename att)),
              ma_content_type = resolve_content_type guess (aa_content_type att) (Some (aa_filename att)),
              ma_data = data, ma_is_inline = False, ma_content_id = None\<rparr>])))"

definition decode_api_attachments ::
  "(string \<Rightarrow> string option) \<Rightarrow> (string \<Rightarrow> string option) \<Rightarrow> api_attachment list option
   \<Rightarrow> (nat \<times> string) + mime_attachment list" where
  "decode_api_attachments decode guess raw = (case raw of
     None \<Rightarrow> Ok []
   | Some raw \<Rightarrow>
      if length raw > max_attachments
      then Err (413, ''Too many attachments. Maximum is '' @ show_nat max_attachments @ ''.'')
      else decode_attachments decode guess raw 0 [])"

section \<open>The service behind the handlers\<close>

record app_state =
  as_outbound :: outbound
  as_storage_dir :: string
  as_guess :: "string \<Rightarrow> string option"
  as_parse_uuid :: "string \<Rightarrow> uuid option"
  as_clock_text :: "time \<Rightarrow> string"

text \<open>The world of the handlers: what the service acts on, and the draft files that tasks still have to remove.\<close>

record web_state =
  wb_sys :: sys
  wb_removals :: "string list"

definition web_run :: "(sys \<Rightarrow> 'a \<times> sys) \<Rightarrow> web_state \<Rightarrow> 'a \<times> web_state" where
  "web_run f w = (case f (wb_sys w) of (a, s) \<Rightarrow> (a, w\<lparr>wb_sys := s\<rparr>))"

definition eml_path :: "string \<Rightarrow> uuid \<Rightarrow> string" where
  "eml_path storage_dir body_key = storage_dir @ ''/'' @ body_key @ ''.eml''"

definition draft_path :: "string \<Rightarrow> uuid \<Rightarrow> string" where
  "draft_path storage_dir body_key = storage_dir @ ''/'' @ body_key"

definition cleanup_old_draft :: "string \<Rightarrow> uuid option \<Rightarrow> web_state \<Rightarrow> web_state" where
  "cleanup_old_draft storage_dir old_key w = (case old_key of
     None \<Rightarrow> w
   | Some key \<Rightarrow> w\<lparr>wb_removals := wb_removals w @ [draft_path storage_dir key]\<rparr>)"

definition run_removal :: "string \<Rightarrow> sys \<Rightarrow> sys" where
  "run_removal path s = (if files (sy_fs s) path \<noteq> None then snd (on_fs (remove_file path) s) else s)"

section \<open>Sending firsthand\<close>

datatype send_email_error =
    AliasNotFound | AliasInactive | SendForbidden | InvalidRecipient | EmptySubject | StorageFailure
  | DeliveryFailed string | DatabaseFailure

fun send_error_status :: "send_email_error \<Rightarrow> nat" where
  "send_error_status AliasNotFound = 404"
| "send_error_status AliasInactive = 403"
| "send_error_status SendForbidden = 403"
| "send_error_status InvalidRecipient = 400"
| "send_error_status EmptySubject = 400"
| "send_error_status StorageFailure = 500"
| "send_error_status (DeliveryFailed e) = 500"
| "send_error_status DatabaseFailure = 500"

fun send_error_message :: "send_email_error \<Rightarrow> string" where
  "send_error_message AliasNotFound = ''Alias not found.''"
| "send_error_message AliasInactive = ''Alias is not active.''"
| "send_error_message SendForbidden = ''Sending is not permitted for this user.''"
| "send_error_message InvalidRecipient = ''Invalid recipient address.''"
| "send_error_message EmptySubject = ''Subject cannot be empty.''"
| "send_error_message StorageFailure = ''Failed to store the message.''"
| "send_error_message (DeliveryFailed e) = ''Delivery failed: '' @ e"
| "send_error_message DatabaseFailure = ''Database error.''"

record dry_run_result =
  dr_resolved_from :: string
  dr_to :: string
  dr_subject :: string
  dr_message_id :: string
  dr_attachment_count :: nat
  dr_total_attachment_bytes :: nat
  dr_mime_size :: nat

datatype send_outcome = SentMail uuid string | DryRun dry_run_result

definition resolve_alias_for_sending :: "uuid \<Rightarrow> bool \<Rightarrow> bool \<Rightarrow> uuid \<Rightarrow> sys \<Rightarrow> (send_email_error + alias_view) \<times> sys" where
  "resolve_alias_for_sending user_id can_send_firsthand is_admin from_alias_id s =
     (if \<not> can_send_firsthand \<and> \<not> is_admin then (Err SendForbidden, s)
      else (case on_db (get_alias_by_id_and_user from_alias_id user_id) s of
          (Inr (Some alias), s) \<Rightarrow> if \<not> av_active alias then (Err AliasInactive, s) else (Ok alias, s)
        | (Inr None, s) \<Rightarrow> (Err AliasNotFound, s)
        | (Inl _, s) \<Rightarrow> (Err DatabaseFailure, s)))"

text \<open>One metadata row per attachment; failures are logged.\<close>

fun insert_sent_attachments :: "uuid \<Rightarrow> nat \<Rightarrow> (string option \<times> string \<times> int) list \<Rightarrow> sys \<Rightarrow> sys" where
  "insert_sent_attachments email_id i [] s = s"
| "insert_sent_attachments email_id i ((fname, ctype, sz) # ms) s = (case fresh_uuid s of (att_id, s) \<Rightarrow>
     insert_sent_attachments email_id (Suc i) ms
       (snd (on_db (insert_attachment (sy_now s) att_id email_id fname (Some ctype) sz i False None) s)))"

definition flag_has_attachments :: "uuid \<Rightarrow> unit dbm" where
  "flag_has_attachments email_id = exec (set_sent (\<lambda>s. se_id s = email_id) (\<lambda>s. s\<lparr>se_has_attachments := True\<rparr>))"

definition record_sent_attachments :: "uuid \<Rightarrow> (string option \<times> string \<times> int) list \<Rightarrow> sys \<Rightarrow> sys" where
  "record_sent_attachments email_id metadatas s =
     (if metadatas = [] then s
      else snd (on_db (flag_has_attachments email_id) (insert_sent_attachments email_id 0 metadatas s)))"

definition view_address :: "alias_view \<Rightarrow> string" where
  "view_address a = av_subdomain a @ ''@'' @ av_domain_name a"

definition domain_part :: "string \<Rightarrow> string" where
  "domain_part address = nth_or ''localhost'' 1 (split_on (CHR ''@'') address)"

definition firsthand_mail :: "string \<Rightarrow> string \<Rightarrow> string \<Rightarrow> string \<Rightarrow> string \<Rightarrow> mime_attachment list \<Rightarrow> mime_email" where
  "firsthand_mail from_address to_email subject body_text message_id attachments =
     \<lparr>me_from = from_address, me_to = to_email, me_subject = subject, me_text_body = body_text, me_html_body = None,
      me_message_id = Some message_id, me_in_reply_to = None, me_references = None, me_attachments = attachments\<rparr>"

definition metadata_of :: "mime_attachment \<Rightarrow> string option \<times> string \<times> int" where
  "metadata_of a = (ma_filename a, ma_content_type a, int (length (ma_data a)))"

text \<open>The end of a send: the row of the draft, or a new one, becomes the record of what happened.\<close>

definition record_outcome ::
  "app_state \<Rightarrow> uuid \<Rightarrow> uuid \<Rightarrow> string \<Rightarrow> string \<Rightarrow> uuid option \<Rightarrow> uuid option \<Rightarrow> uuid
   \<Rightarrow> (string option \<times> string \<times> int) list \<Rightarrow> string \<Rightarrow> string + unit \<Rightarrow> web_state
   \<Rightarrow> (send_email_error + send_outcome) \<times> web_state" where
  "record_outcome st user_id from_alias_id to_email subject draft_id old_draft_body_key body_key metadatas message_id sent w =
     (case web_run fresh_uuid w of (row_id, w) \<Rightarrow>
      case web_run (\<lambda>s. on_db (upsert_draft row_id (sy_now s) draft_id user_id from_alias_id to_email subject body_key) s) w of
        (upserted, w) \<Rightarrow>
      case sent of
        Inr _ \<Rightarrow> (case upserted of
            Inl _ \<Rightarrow> (Err DatabaseFailure, w)
          | Inr upserted_id \<Rightarrow>
             (let w = cleanup_old_draft (as_storage_dir st) old_draft_body_key w
              in case web_run (\<lambda>s. on_db (mark_sent_email_success (sy_now s) upserted_id message_id) s) w of
                   (Inl _, w) \<Rightarrow> (Err DatabaseFailure, w)
                 | (Inr _, w) \<Rightarrow> (Ok (SentMail upserted_id message_id),
                     w\<lparr>wb_sys := record_sent_attachments upserted_id metadatas (wb_sys w)\<rparr>)))
      | Inl e \<Rightarrow> (case upserted of
            Inl _ \<Rightarrow> (Err (DeliveryFailed e), w)
          | Inr upserted_id \<Rightarrow>
             (let w = cleanup_old_draft (as_storage_dir st) old_draft_body_key w
              in case web_run (\<lambda>s. on_db (mark_sent_email_failed (sy_now s) upserted_id e) s) w of
                   (_, w) \<Rightarrow> (Err (DeliveryFailed e), w\<lparr>wb_sys := record_sent_attachments upserted_id metadatas (wb_sys w)\<rparr>))))"

definition old_draft_key :: "uuid option \<Rightarrow> uuid \<Rightarrow> sys \<Rightarrow> uuid option \<times> sys" where
  "old_draft_key draft_id user_id s = (case draft_id of
     None \<Rightarrow> (None, s)
   | Some i \<Rightarrow> (case on_db (get_sent_email_by_id_and_user i user_id) s of
       (Inr (Some draft), s) \<Rightarrow> (Some (se_body_key (sv_row draft)), s)
     | (_, s) \<Rightarrow> (None, s)))"

definition send_firsthand_email ::
  "app_state \<Rightarrow> uuid \<Rightarrow> bool \<Rightarrow> bool \<Rightarrow> uuid \<Rightarrow> string \<Rightarrow> string \<Rightarrow> string \<Rightarrow> uuid option \<Rightarrow> mime_attachment list
   \<Rightarrow> bool \<Rightarrow> web_state \<Rightarrow> (send_email_error + send_outcome) \<times> web_state" where
  "send_firsthand_email st user_id can_send_firsthand is_admin from_alias_id to_email subject body_text draft_id
     attachments execute w =
     (let to_email = trim to_email
      in if to_email = [] \<or> CHR ''@'' \<notin> set to_email then (Err InvalidRecipient, w)
         else if trim subject = [] then (Err EmptySubject, w)
         else (case web_run (resolve_alias_for_sending user_id can_send_firsthand is_admin from_alias_id) w of
             (Inl e, w) \<Rightarrow> (Err e, w)
           | (Inr alias, w) \<Rightarrow>
              (let from_address = view_address alias
               in case web_run fresh_uuid w of (u, w) \<Rightarrow>
                  let message_id = generate_message_id u (domain_part from_address)
                  in case web_run (mime_env_of (as_outbound st)) w of (env, w) \<Rightarrow>
                  let raw_mime = build_mime env (firsthand_mail from_address to_email subject body_text message_id attachments)
                  in if \<not> execute
                     then (Ok (DryRun \<lparr>dr_resolved_from = from_address, dr_to = to_email, dr_subject = subject,
                       dr_message_id = message_id, dr_attachment_count = length attachments,
                       dr_total_attachment_bytes = total_bytes attachments, dr_mime_size = length raw_mime\<rparr>), w)
                     else (case web_run fresh_uuid w of (body_key, w) \<Rightarrow>
                       case web_run (on_fs (write_file_async_with_permissions (eml_path (as_storage_dir st) body_key) raw_mime)) w of
                         (Inl _, w) \<Rightarrow> (Err StorageFailure, w)
                       | (Inr _, w) \<Rightarrow> (case web_run (old_draft_key draft_id user_id) w of (old_key, w) \<Rightarrow>
                           case web_run (send_firsthand (as_outbound st) to_email from_address raw_mime) w of (sent, w) \<Rightarrow>
                             record_outcome st user_id from_alias_id to_email subject draft_id old_key body_key
                               (map metadata_of attachments) message_id sent w)))))"

section \<open>The browser's handlers\<close>

record toast =
  to_status :: nat
  to_message :: string
  to_success :: bool
  to_trigger :: "string option"

definition plain_toast :: "string \<Rightarrow> toast" where
  "plain_toast message = \<lparr>to_status = 200, to_message = message, to_success = False, to_trigger = None\<rparr>"

definition field_uuid :: "app_state \<Rightarrow> string \<Rightarrow> multipart_fields \<Rightarrow> uuid option" where
  "field_uuid st name form = Option.bind (mf_text form name) (\<lambda>v. as_parse_uuid st (trim v))"

definition submit_email_handler ::
  "app_state \<Rightarrow> authenticated_user \<Rightarrow> form_field list \<Rightarrow> web_state \<Rightarrow> toast \<times> web_state" where
  "submit_email_handler st user multipart w =
     (let form = read_multipart_fields (as_guess st) multipart
      in case mf_error form of
           Some (_, message) \<Rightarrow> (plain_toast message, w)
         | None \<Rightarrow>
            (let draft_id = field_uuid st ''draft_id'' form;
                 from_alias_id = field_uuid st ''from_alias_id'' form;
                 to_email_str = unwrap_or [] (mf_text form ''to_email'');
                 subject_str = unwrap_or [] (mf_text form ''subject'');
                 body_text_str = unwrap_or [] (mf_text form ''body_text'');
                 to_email = trim to_email_str
             in if to_email = [] \<or> CHR ''@'' \<notin> set to_email then (plain_toast ''toast_invalid_email'', w)
                else if trim subject_str = [] then (plain_toast ''toast_empty_subject'', w)
                else (case from_alias_id of
                    None \<Rightarrow> (plain_toast ''toast_alias_unauthorized'', w)
                  | Some from_alias_id \<Rightarrow>
                     (case send_firsthand_email st (au_user_id user) (au_can_send_firsthand user) (au_is_admin user)
                         from_alias_id to_email subject_str body_text_str draft_id (mf_attachments form) True w of
                        (Inr _, w) \<Rightarrow> (\<lparr>to_status = 200, to_message = ''toast_email_sent_success'', to_success = True,
                          to_trigger = Some ''emailSent''\<rparr>, w)
                      | (Inl e, w) \<Rightarrow>
                         (if e = DatabaseFailure
                          then (\<lparr>to_status = 500, to_message = ''Email sent, but failed to update status in the database.'',
                            to_success = False, to_trigger = None\<rparr>, w)
                          else (plain_toast ''toast_email_send_failed'', w))))))"

record send_email_request =
  sr_draft_id :: "uuid option"
  sr_from_alias_id :: uuid
  sr_to_email :: string
  sr_subject :: string
  sr_body_text :: string

text \<open>A draft's body lies in a file named by its key alone; an existing draft keeps its key.\<close>

definition draft_body_key :: "uuid option \<Rightarrow> uuid \<Rightarrow> sys \<Rightarrow> uuid \<times> sys" where
  "draft_body_key draft_id user_id s = (case draft_id of
     None \<Rightarrow> fresh_uuid s
   | Some i \<Rightarrow> (case on_db (get_sent_email_by_id_and_user i user_id) s of
       (Inr (Some draft), s) \<Rightarrow> (se_body_key (sv_row draft), s)
     | (_, s) \<Rightarrow> fresh_uuid s))"

definition save_draft_handler ::
  "app_state \<Rightarrow> authenticated_user \<Rightarrow> send_email_request \<Rightarrow> sys \<Rightarrow> (nat \<times> string + uuid) \<times> sys" where
  "save_draft_handler st user payload s =
     (case on_db (get_alias_by_id_and_user (sr_from_alias_id payload) (au_user_id user)) s of
        (Inr (Some alias), s) \<Rightarrow>
          (case draft_body_key (sr_draft_id payload) (au_user_id user) s of (body_key, s) \<Rightarrow>
           case on_fs (write_file_async_with_permissions (draft_path (as_storage_dir st) body_key) (sr_body_text payload)) s of
             (Inl _, s) \<Rightarrow> (Err (500, ''Storage error''), s)
           | (Inr _, s) \<Rightarrow>
              (case fresh_uuid s of (row_id, s) \<Rightarrow>
               case on_db (upsert_draft row_id (sy_now s) (sr_draft_id payload) (au_user_id user) (av_id alias)
                   (sr_to_email payload) (sr_subject payload) body_key) s of
                 (Inr new_draft_id, s) \<Rightarrow> (Ok new_draft_id, s)
               | (Inl _, s) \<Rightarrow> (Err (500, ''Database error''), s)))
      | (_, s) \<Rightarrow> (Err (400, ''Invalid From address.''), s))"

record compose_modal_template =
  cm_aliases :: "alias_view list"
  cm_draft_id :: "uuid option"
  cm_to_email :: string
  cm_subject :: string
  cm_body_text :: string
  cm_selected_alias_id :: "uuid option"

text \<open>\<open>read_to_string\<close> gives a body only when it is UTF-8.\<close>

definition read_to_string :: "string \<Rightarrow> sys \<Rightarrow> (unit + string) \<times> sys" where
  "read_to_string path s = (case on_fs (fs_read path) s of
     (Inl _, s) \<Rightarrow> (Err (), s)
   | (Inr b, s) \<Rightarrow> (if from_utf8_lossy b = b then Ok b else Err (), s))"

definition compose_modal_handler ::
  "app_state \<Rightarrow> authenticated_user \<Rightarrow> uuid option \<Rightarrow> sys \<Rightarrow> (nat \<times> string + compose_modal_template) \<times> sys" where
  "compose_modal_handler st user draft_id s =
     (case on_db (get_aliases_by_user_id (au_user_id user)) s of
        (Inl _, s) \<Rightarrow> (Err (500, ''Failed to fetch aliases''), s)
      | (Inr aliases, s) \<Rightarrow>
         (let blank = \<lparr>cm_aliases = aliases, cm_draft_id = None, cm_to_email = [], cm_subject = [], cm_body_text = [],
                       cm_selected_alias_id = None\<rparr>
          in case draft_id of
               None \<Rightarrow> (Ok blank, s)
             | Some i \<Rightarrow> (case on_db (get_sent_email_by_id_and_user i (au_user_id user)) s of
                 (Inr (Some draft), s) \<Rightarrow>
                   (let row = sv_row draft
                    in case read_to_string (draft_path (as_storage_dir st) (se_body_key row)) s of (body, s) \<Rightarrow>
                      (Ok \<lparr>cm_aliases = aliases, cm_draft_id = Some (se_id row), cm_to_email = se_to row,
                        cm_subject = se_subject row,
                        cm_body_text = (case body of Inl _ \<Rightarrow> [] | Inr b \<Rightarrow> b),
                        cm_selected_alias_id = Some (se_from_alias_id row)\<rparr>, s))
               | (_, s) \<Rightarrow> (Ok blank, s))))"

section \<open>Replies\<close>

record reply_dry_run_result =
  rd_resolved_from :: string
  rd_to :: string
  rd_subject :: string
  rd_in_reply_to :: "string option"
  rd_message_id :: string
  rd_attachment_count :: nat
  rd_mime_size :: nat

datatype reply_outcome = ReplySent reply_row "attachment_row list" | ReplyDryRun reply_dry_run_result

text \<open>A stored mail that the parser rejects makes \<open>unwrap\<close> panic.\<close>

datatype reply_failure = ReplyRefused nat string | ReplyPanic

definition original_message_id :: "app_state \<Rightarrow> uuid \<Rightarrow> sys \<Rightarrow> (unit + string option) \<times> sys" where
  "original_message_id st body_key s = (case on_fs (fs_read (eml_path (as_storage_dir st) body_key)) s of
     (Inl _, s) \<Rightarrow> (Ok None, s)
   | (Inr bytes, s) \<Rightarrow> (case ob_parse (as_outbound st) bytes of
       None \<Rightarrow> (Err (), s)
     | Some message \<Rightarrow> (Ok (pm_message_id message), s)))"

fun insert_reply_attachments ::
  "uuid \<Rightarrow> reply_row \<Rightarrow> nat \<Rightarrow> (string option \<times> string \<times> int) list \<Rightarrow> sys \<Rightarrow> (sqlx_error + attachment_row list) \<times> sys" where
  "insert_reply_attachments email_id reply i [] s = (Ok [], s)"
| "insert_reply_attachments email_id reply i ((fname, ctype, sz) # ms) s =
     (case fresh_uuid s of (att_id, s) \<Rightarrow>
      case on_db (insert_reply_attachment (sy_now s) att_id email_id (rp_id reply) fname (Some ctype) sz i) s of
        (Inl e, s) \<Rightarrow> (Err e, s)
      | (Inr _, s) \<Rightarrow> (case insert_reply_attachments email_id reply (Suc i) ms s of
          (Inl e, s) \<Rightarrow> (Err e, s)
        | (Inr rows, s) \<Rightarrow> (Ok (\<lparr>at_id = att_id, at_email_id = email_id, at_filename = fname, at_content_type = Some ctype,
            at_size_bytes = sz, at_part_index = i, at_is_inline = False, at_content_id = None,
            at_created_at = rp_sent_at reply, at_reply_id = Some (rp_id reply)\<rparr> # rows), s)))"

text \<open>What happens once the reply has gone out.\<close>

definition store_reply ::
  "app_state \<Rightarrow> uuid \<Rightarrow> string \<Rightarrow> string \<Rightarrow> (string option \<times> string \<times> int) list \<Rightarrow> string \<Rightarrow> sys
   \<Rightarrow> (reply_failure + reply_outcome) \<times> sys" where
  "store_reply st email_id body_text new_message_id metadatas raw_mime s =
     (case fresh_uuid s of (body_key, s) \<Rightarrow>
      case on_fs (write_file_async_with_permissions (eml_path (as_storage_dir st) body_key) raw_mime) s of (_, s) \<Rightarrow>
      case fresh_uuid s of (reply_id, s) \<Rightarrow>
      case on_db (insert_reply reply_id (sy_now s) email_id body_text (Some new_message_id) (Some body_key)) s of
        (Inl _, s) \<Rightarrow> (Err (ReplyRefused 500 ''Failed to save reply''), s)
      | (Inr reply, s) \<Rightarrow> (case insert_reply_attachments email_id reply 0 metadatas s of
          (Inl _, s) \<Rightarrow> (Err (ReplyRefused 500 ''Failed to save reply attachment''), s)
        | (Inr rows, s) \<Rightarrow> (Ok (ReplySent reply rows), s)))"

definition process_reply ::
  "app_state \<Rightarrow> uuid \<Rightarrow> uuid \<Rightarrow> string \<Rightarrow> mime_attachment list \<Rightarrow> bool \<Rightarrow> sys \<Rightarrow> (reply_failure + reply_outcome) \<times> sys" where
  "process_reply st user_id email_id body_text attachments execute s =
     (case on_db (get_email_by_id email_id user_id) s of
        (Inr (Some email), s) \<Rightarrow>
          (case on_db (get_alias_details_for_email email_id user_id) s of
             (Inr (Some (subdomain, domain_name)), s) \<Rightarrow>
               (let from_alias = subdomain @ ''@'' @ domain_name
                in case original_message_id st (rv_body_key email) s of
                     (Inl _, s) \<Rightarrow> (Err ReplyPanic, s)
                   | (Inr original, s) \<Rightarrow> (case fresh_uuid s of (u, s) \<Rightarrow>
                      let new_message_id = ''<'' @ u @ ''@'' @ ob_identity_domain (as_outbound st) @ ''>''
                      in if \<not> execute
                         then (case mime_env_of (as_outbound st) s of (env, s) \<Rightarrow>
                           let dry_mime = build_mime env
                                \<lparr>me_from = from_alias, me_to = rv_sender email, me_subject = rv_subject email,
                                 me_text_body = body_text, me_html_body = None, me_message_id = Some new_message_id,
                                 me_in_reply_to = original, me_references = original, me_attachments = attachments\<rparr>
                           in (Ok (ReplyDryRun \<lparr>rd_resolved_from = from_alias, rd_to = rv_sender email,
                                rd_subject = rv_subject email, rd_in_reply_to = original, rd_message_id = new_message_id,
                                rd_attachment_count = length attachments, rd_mime_size = length dry_mime\<rparr>), s))
                         else (case send_reply (as_outbound st) (rv_sender email) from_alias (rv_subject email) body_text
                             original (Some new_message_id) attachments s of
                             (Inl _, s) \<Rightarrow> (Err (ReplyRefused 500 ''Failed to send email''), s)
                           | (Inr raw_mime, s) \<Rightarrow>
                               store_reply st email_id body_text new_message_id (map metadata_of attachments) raw_mime s)))
           | (_, s) \<Rightarrow> (Err (ReplyRefused 500 ''Alias not found''), s))
      | (_, s) \<Rightarrow> (Err (ReplyRefused 404 ''Email not found''), s))"

definition submit_reply_handler ::
  "app_state \<Rightarrow> authenticated_user \<Rightarrow> uuid \<Rightarrow> form_field list \<Rightarrow> sys \<Rightarrow> (reply_failure + reply_row \<times> attachment_row list) \<times> sys" where
  "submit_reply_handler st user email_id multipart s =
     (let form = read_multipart_fields (as_guess st) multipart
      in case mf_error form of
           Some (status, message) \<Rightarrow> (Err (ReplyRefused status message), s)
         | None \<Rightarrow>
            (let body_text = unwrap_or [] (mf_text form ''body_text'')
             in if trim body_text = [] then (Err (ReplyRefused 400 ''reply_empty_body_error''), s)
                else (case process_reply st (au_user_id user) email_id body_text (mf_attachments form) True s of
                    (Inr (ReplySent reply rows), s) \<Rightarrow> (Ok (reply, rows), s)
                  | (Inr (ReplyDryRun _), s) \<Rightarrow> (Err (ReplyRefused 400 ''Unexpected dry run''), s)
                  | (Inl e, s) \<Rightarrow> (Err e, s))))"

section \<open>The API\<close>

record reply_request =
  ry_body_text :: string
  ry_attachments :: "api_attachment list option"
  ry_dry_run :: "bool option"

definition submit_reply_api ::
  "app_state \<Rightarrow> user_row \<Rightarrow> uuid \<Rightarrow> reply_request \<Rightarrow> sys \<Rightarrow> (reply_failure + reply_outcome) \<times> sys" where
  "submit_reply_api st user email_id payload s =
     (if trim (ry_body_text payload) = [] then (Err (ReplyRefused 400 ''Reply body cannot be empty.''), s)
      else (case decode_api_attachments (base64_decode (ob_cipher (as_outbound st))) (as_guess st) (ry_attachments payload) of
          Inl (status, message) \<Rightarrow> (Err (ReplyRefused status message), s)
        | Inr attachments \<Rightarrow> process_reply st (us_id user) email_id (ry_body_text payload) attachments
            (\<not> unwrap_or False (ry_dry_run payload)) s))"

definition resolve_alias_by_address :: "uuid \<Rightarrow> string \<Rightarrow> sys \<Rightarrow> (nat \<times> string + alias_view) \<times> sys" where
  "resolve_alias_by_address user_id address s =
     (case on_db (get_aliases_by_user_id user_id) s of
        (Inl _, s) \<Rightarrow> (Err (500, ''Database error''), s)
      | (Inr aliases, s) \<Rightarrow>
         (let wanted = to_lowercase (trim address)
          in case find (\<lambda>a. to_lowercase (view_address a) = wanted) aliases of
               Some a \<Rightarrow> (Ok a, s)
             | None \<Rightarrow> (Err (404, ''Alias '' @ [CHR 39] @ address @ [CHR 39] @ '' not found for this account.''), s)))"

record api_send_request =
  pr_from_alias :: string
  pr_to :: string
  pr_subject :: string
  pr_body :: string
  pr_draft_id :: "uuid option"
  pr_dry_run :: "bool option"
  pr_attachments :: "api_attachment list option"

definition send_email_api ::
  "app_state \<Rightarrow> user_row \<Rightarrow> api_send_request \<Rightarrow> web_state \<Rightarrow> (nat \<times> string + send_outcome) \<times> web_state" where
  "send_email_api st user payload w =
     (case web_run (resolve_alias_by_address (us_id user) (pr_from_alias payload)) w of
        (Inl e, w) \<Rightarrow> (Err e, w)
      | (Inr alias, w) \<Rightarrow>
         if \<not> av_active alias then (Err (403, ''Alias is not active.''), w)
         else if \<not> us_can_send_firsthand user \<and> \<not> us_is_admin user
         then (Err (403, ''Sending is not permitted for this user.''), w)
         else (case decode_api_attachments (base64_decode (ob_cipher (as_outbound st))) (as_guess st) (pr_attachments payload) of
             Inl e \<Rightarrow> (Err e, w)
           | Inr attachments \<Rightarrow>
              (case send_firsthand_email st (us_id user) (us_can_send_firsthand user) (us_is_admin user) (av_id alias)
                  (pr_to payload) (pr_subject payload) (pr_body payload) (pr_draft_id payload) attachments
                  (\<not> unwrap_or False (pr_dry_run payload)) w of
                 (Inr r, w) \<Rightarrow> (Ok r, w)
               | (Inl e, w) \<Rightarrow> (Err (send_error_status e, send_error_message e), w))))"

definition toggle_alias_forward_api :: "user_row \<Rightarrow> uuid \<Rightarrow> bool \<Rightarrow> db \<Rightarrow> (nat \<times> string + uuid \<times> bool) \<times> db" where
  "toggle_alias_forward_api user alias_id auto_forward d =
     (case update_alias_auto_forward alias_id (us_id user) auto_forward d of
        (Inr _, d) \<Rightarrow> (Ok (alias_id, auto_forward), d)
      | (Inl _, d) \<Rightarrow> (Err (500, ''Database error''), d))"

definition list_aliases_api :: "user_row \<Rightarrow> db \<Rightarrow> (nat \<times> string + (uuid \<times> string \<times> bool \<times> bool \<times> time) list) \<times> db" where
  "list_aliases_api user d = (case get_aliases_by_user_id (us_id user) d of
     (Inr aliases, d) \<Rightarrow> (Ok (map (\<lambda>a. (av_id a, view_address a, av_active a, av_auto_forward a, av_created_at a)) aliases), d)
   | (Inl _, d) \<Rightarrow> (Err (500, ''Database error''), d))"

end
