(* ===== verification/Web_Send_Guarantees.thy ===== *)
theory Web_Send_Guarantees
  imports Web_Send
begin

text \<open>
  What sending from the web and the API guarantees: the limits of attachments, the record a firsthand send leaves,
  dry runs, drafts that are sent twice, and what the answer to a reply tells.
\<close>

section \<open>Attachment limits\<close>

definition within_limits :: "mime_attachment list \<Rightarrow> bool" where
  "within_limits atts = (length atts \<le> max_attachments \<and> total_bytes atts \<le> max_total_attachment_bytes \<and>
     list_all (\<lambda>a. length (ma_data a) \<le> max_attachment_bytes \<and> ma_data a \<noteq> []) atts)"

text \<open>A file name that names one file: not empty, and without separators of a path.\<close>

definition plain_name :: "mime_attachment \<Rightarrow> bool" where
  "plain_name a = (case ma_filename a of
     Some f \<Rightarrow> f \<noteq> [] \<and> CHR ''/'' \<notin> set f \<and> CHR 0x5C \<notin> set f
   | None \<Rightarrow> False)"

lemma clean_filename_plain:
  "\<exists>f. clean_filename n = Some f \<and> f \<noteq> [] \<and> CHR ''/'' \<notin> set f \<and> CHR 0x5C \<notin> set f"
proof (cases n)
  case (Some f)
  have "CHR ''/'' \<notin> set (trim (filter (\<lambda>c. c \<noteq> CHR ''/'' \<and> c \<noteq> CHR 0x5C) f))"
    "CHR 0x5C \<notin> set (trim (filter (\<lambda>c. c \<noteq> CHR ''/'' \<and> c \<noteq> CHR 0x5C) f))"
    using set_trim [of "filter (\<lambda>c. c \<noteq> CHR ''/'' \<and> c \<noteq> CHR 0x5C) f"] by auto
  with Some show ?thesis by (simp add: clean_filename_def Let_def)
qed (simp add: clean_filename_def)

lemma total_bytes_append [simp]: "total_bytes (as @ bs) = total_bytes as + total_bytes bs"
  by (simp add: total_bytes_def)

lemma attachment_field_limits:
  assumes "within_limits (mf_attachments r)" "list_all plain_name (mf_attachments r)"
  shows "within_limits (mf_attachments (attachment_field guess field r)) \<and>
    list_all plain_name (mf_attachments (attachment_field guess field r))"
proof -
  obtain data big where ch: "read_chunks (ff_chunks field) [] False = (data, big)" by fastforce
  define fn where "fn = map_option sanitize_header (ff_file_name field)"
  obtain f where f: "clean_filename fn = Some f" "f \<noteq> []" "CHR ''/'' \<notin> set f" "CHR 0x5C \<notin> set f"
    using clean_filename_plain [of fn] by blast
  show ?thesis
  proof (cases "big \<or> data = [] \<or>
      check_attachment_limits (length (mf_attachments r)) (total_bytes (mf_attachments r)) (length data) \<noteq> Inr ()")
    case True
    then have "mf_attachments (attachment_field guess field r) = mf_attachments r"
      by (auto simp: attachment_field_def ch Let_def split: sum.splits option.splits)
    with assms show ?thesis by simp
  next
    case False
    then have "mf_attachments (attachment_field guess field r) = mf_attachments r @
      [\<lparr>ma_filename = Some f, ma_content_type = resolve_content_type guess (map_option sanitize_header (ff_content_type field)) fn,
        ma_data = data, ma_is_inline = False, ma_content_id = None\<rparr>]"
      by (simp add: attachment_field_def ch f(1) flip: fn_def)
    with False assms f show ?thesis
      by (auto simp: check_attachment_limits_def within_limits_def plain_name_def total_bytes_def split: if_splits)
  qed
qed

lemma read_fields_limits:
  assumes "within_limits (mf_attachments r)" "list_all plain_name (mf_attachments r)"
  shows "within_limits (mf_attachments (read_fields guess fds r)) \<and>
    list_all plain_name (mf_attachments (read_fields guess fds r))"
  using assms
proof (induction guess fds r rule: read_fields.induct)
  case (2 guess field fds r)
  then show ?case
    using attachment_field_limits [of r guess field]
    by (auto simp: Let_def split: option.splits)
qed simp

lemma decode_attachments_limits:
  assumes "decode_attachments decode guess raw (total_bytes out) out = Inr atts"
    "total_bytes out \<le> max_total_attachment_bytes" "list_all plain_name out"
  shows "length atts = length out + length raw \<and> total_bytes atts \<le> max_total_attachment_bytes \<and> list_all plain_name atts"
  using assms
proof (induction raw arbitrary: out)
  case (Cons att raw)
  obtain data where d: "decode (aa_content_b64 att) = Some data" "total_bytes out + length data \<le> max_total_attachment_bytes"
    using Cons.prems(1) by (auto simp: Let_def split: option.splits if_splits)
  obtain f where f: "clean_filename (Some (aa_filename att)) = Some f" "f \<noteq> []" "CHR ''/'' \<notin> set f" "CHR 0x5C \<notin> set f"
    using clean_filename_plain by blast
  let ?a = "\<lparr>ma_filename = Some f, ma_content_type = resolve_content_type guess (aa_content_type att) (Some (aa_filename att)),
    ma_data = data, ma_is_inline = False, ma_content_id = None\<rparr>"
  have "total_bytes (out @ [?a]) = total_bytes out + length data" by (simp add: total_bytes_def)
  moreover have "decode_attachments decode guess raw (total_bytes out + length data) (out @ [?a]) = Inr atts"
    using Cons.prems(1) d f(1) by (simp add: Let_def split: if_splits)
  ultimately show ?case
    using Cons.IH [of "out @ [?a]"] Cons.prems d f by (simp add: plain_name_def)
qed simp

text \<open>C39: Attachments stay within bounds, whatever a client sends. A form yields at most ten files, none empty,
  none over 10 MiB and together at most 25 MiB; the JSON endpoints yield at most ten and at most 25 MiB; and every
  file gets a name without a path separator.\<close>
theorem attachments_within_bounds:
  "within_limits (mf_attachments (read_multipart_fields guess multipart)) \<and>
   list_all plain_name (mf_attachments (read_multipart_fields guess multipart)) \<and>
   (case decode_api_attachments decode guess raw of
      Inl _ \<Rightarrow> True
    | Inr atts \<Rightarrow> length atts \<le> max_attachments \<and> total_bytes atts \<le> max_total_attachment_bytes \<and>
        list_all plain_name atts)"
proof -
  have "case decode_api_attachments decode guess raw of
      Inl _ \<Rightarrow> True
    | Inr atts \<Rightarrow> length atts \<le> max_attachments \<and> total_bytes atts \<le> max_total_attachment_bytes \<and> list_all plain_name atts"
  proof (cases raw)
    case (Some atts)
    show ?thesis
      using decode_attachments_limits [of decode guess atts "[]"]
      by (auto simp: decode_api_attachments_def Some total_bytes_def split: sum.splits)
  qed (simp add: decode_api_attachments_def total_bytes_def)
  then show ?thesis
    using read_fields_limits [of no_fields guess multipart]
    by (simp add: read_multipart_fields_def no_fields_def within_limits_def total_bytes_def)
qed

text \<open>The JSON endpoints miss one of the limits. A file of more than 10 MiB, and at most 25, is refused by the form with
  413 and accepted by the API.\<close>
theorem api_skips_the_single_file_limit:
  assumes "max_attachment_bytes < length data" "length data \<le> max_total_attachment_bytes"
    "decode (aa_content_b64 att) = Some data"
  shows "is_ok (decode_api_attachments decode guess (Some [att])) \<and>
    mf_error (read_multipart_fields guess [\<lparr>ff_name = Some ''attachments'', ff_file_name = Some (aa_filename att),
      ff_content_type = aa_content_type att, ff_chunks = [data], ff_text = None\<rparr>]) =
      Some (413, limit_error_message SingleFileTooLarge)"
  using assms by (simp add: decode_api_attachments_def read_multipart_fields_def attachment_field_def Let_def is_ok_def)

theorem api_skips_the_single_file_limit_witness:
  "is_ok (decode_api_attachments (\<lambda>_. Some (replicate (11 * 1024 * 1024) CHR ''x'')) (\<lambda>_. None)
    (Some [\<lparr>aa_filename = ''big.bin'', aa_content_b64 = ''eA'', aa_content_type = None\<rparr>]))"
proof -
  have "max_attachment_bytes < length (replicate (11 * 1024 * 1024) CHR ''x'')"
    "length (replicate (11 * 1024 * 1024) CHR ''x'') \<le> max_total_attachment_bytes"
    by (simp_all only: length_replicate)
  from api_skips_the_single_file_limit [OF this, of "\<lambda>_. Some (replicate (11 * 1024 * 1024) CHR ''x'')"
      "\<lparr>aa_filename = ''big.bin'', aa_content_b64 = ''eA'', aa_content_type = None\<rparr>" "\<lambda>_. None"]
  show ?thesis by simp
qed

section \<open>What a firsthand send leaves behind\<close>

text \<open>Nothing happened: no table, file, connection or pending removal has changed.\<close>

definition untouched :: "web_state \<Rightarrow> web_state \<Rightarrow> bool" where
  "untouched w w' = (same_tables (sy_db (wb_sys w)) (sy_db (wb_sys w')) \<and> sy_fs (wb_sys w') = sy_fs (wb_sys w) \<and>
     sy_used (wb_sys w') = sy_used (wb_sys w) \<and> sy_connects (wb_sys w') = sy_connects (wb_sys w) \<and>
     wb_removals w' = wb_removals w)"

definition own_active_alias :: "db \<Rightarrow> uuid \<Rightarrow> uuid \<Rightarrow> alias_view \<Rightarrow> bool" where
  "own_active_alias d user_id from_alias_id a = (av_active a \<and>
     list_ex (\<lambda>(r, m). al_id r = from_alias_id \<and> al_user_id r = user_id \<and> a = alias_view_of (r, m)) (alias_domains d))"

lemma untouched_refl [simp]: "untouched w w"
  by (simp add: untouched_def same_tables_def)

lemma untouched_trans: "untouched w w' \<Longrightarrow> untouched w' w'' \<Longrightarrow> untouched w w''"
  by (simp add: untouched_def same_tables_def)

lemma untouched_fresh: "web_run fresh_uuid w = (u, w') \<Longrightarrow> untouched w w'"
  by (auto simp: web_run_def fresh_uuid_def untouched_def same_tables_def)

lemma untouched_mime_env: "web_run (mime_env_of ob) w = (env, w') \<Longrightarrow> untouched w w'"
  by (auto simp: web_run_def mime_env_of_def fresh_uuid_def untouched_def same_tables_def)

lemma alias_domains_same: "same_tables d d' \<Longrightarrow> alias_domains d' = alias_domains d"
  by (metis alias_domains_faults same_tables_def)

lemma untouched_resolve:
  assumes "web_run (resolve_alias_for_sending uid can adm aid) w = (r, w')"
  shows "untouched w w' \<and> (case r of
      Inr a \<Rightarrow> (can \<or> adm) \<and> own_active_alias (sy_db (wb_sys w)) uid aid a
    | Inl e \<Rightarrow> e \<in> {SendForbidden, AliasNotFound, AliasInactive, DatabaseFailure} \<and>
        (e = DatabaseFailure \<longrightarrow> db_faults (sy_db (wb_sys w)) \<noteq> []))"
proof (cases "\<not> can \<and> \<not> adm")
  case True
  with assms show ?thesis by (auto simp: resolve_alias_for_sending_def web_run_def)
next
  case False
  let ?d = "sy_db (wb_sys w)"
  obtain q d1 where q: "get_alias_by_id_and_user aid uid ?d = (q, d1)" by fastforce
  have d1: "same_tables ?d d1"
    using query_optional_db [OF q [unfolded get_alias_by_id_and_user_def]] by (simp add: same_tables_def)
  have un: "untouched w w'" using assms q d1 False
    by (auto simp: resolve_alias_for_sending_def web_run_def on_db_def untouched_def split: sum.splits option.splits if_splits)
  have "own_active_alias ?d uid aid a" if "q = Inr (Some a)" "av_active a" for a
  proof -
    from query_optional_Ok [OF q [unfolded get_alias_by_id_and_user_def that(1)]]
    have "(case map alias_view_of (filter (\<lambda>(a, m). al_id a = aid \<and> al_user_id a = uid) (alias_domains ?d)) of
        [] \<Rightarrow> None | x # _ \<Rightarrow> Some x) = Some a" by auto
    then obtain x where "x \<in> set (filter (\<lambda>(a, m). al_id a = aid \<and> al_user_id a = uid) (alias_domains ?d))" "a = alias_view_of x"
      by (cases "filter (\<lambda>(a, m). al_id a = aid \<and> al_user_id a = uid) (alias_domains ?d)") auto
    with that(2) show ?thesis by (auto simp: own_active_alias_def list_ex_iff)
  qed
  moreover have "db_faults ?d \<noteq> []" if "q = Inl e" for e
    using q that by (auto simp: get_alias_by_id_and_user_def query_optional_def stmt_def Let_def)
  ultimately show ?thesis using un assms q False
    by (auto simp: resolve_alias_for_sending_def web_run_def on_db_def split: sum.splits option.splits if_splits)
qed

lemma query_optional_same: "same_tables d (snd (query_optional h d))"
  by (cases "query_optional h d") (auto dest!: query_optional_db simp: same_tables_def)

lemma old_draft_key_reads:
  assumes "web_run (old_draft_key draft_id uid) w = (k, w')"
  shows "untouched w w'"
proof -
  have "same_tables d (snd (get_sent_email_by_id_and_user i uid d))" for i d
    unfolding get_sent_email_by_id_and_user_def by (rule query_optional_same)
  note same = this
  show ?thesis
  proof (cases draft_id)
    case (Some i)
    have "wb_sys w' = (wb_sys w)\<lparr>sy_db := snd (get_sent_email_by_id_and_user i uid (sy_db (wb_sys w)))\<rparr>"
      "wb_removals w' = wb_removals w"
      using assms Some by (auto simp: old_draft_key_def web_run_def on_db_def split: prod.splits sum.splits option.splits)
    with same show ?thesis by (simp add: untouched_def)
  qed (use assms in \<open>auto simp: old_draft_key_def web_run_def\<close>)
qed

text \<open>The stages of a send that is executed: refused, not stored, or handed to the outbound service.\<close>

lemma send_firsthand_runs:
  assumes run: "send_firsthand_email st uid can adm aid to_addr subj body draft atts True w = (r, w')"
  obtains (refused) e where "r = Inl e" "untouched w w'" "\<And>x. e \<noteq> DeliveryFailed x" "e \<noteq> StorageFailure"
      "e = DatabaseFailure \<Longrightarrow> db_faults (sy_db (wb_sys w)) \<noteq> []"
  | (unstored) "r = Inl StorageFailure" "same_tables (sy_db (wb_sys w)) (sy_db (wb_sys w'))"
      "sy_used (wb_sys w') = sy_used (wb_sys w)"
  | (sent) a mid key old raw w1 sent w2 where
      "can \<or> adm" "own_active_alias (sy_db (wb_sys w)) uid aid a"
      "same_tables (sy_db (wb_sys w)) (sy_db (wb_sys w1))" "sy_used (wb_sys w1) = sy_used (wb_sys w)"
      "files (sy_fs (wb_sys w1)) (eml_path (as_storage_dir st) key) = Some \<lparr>file_bytes = raw, file_mode = mode_0600\<rparr>"
      "web_run (send_firsthand (as_outbound st) (trim to_addr) (view_address a) raw) w1 = (sent, w2)"
      "record_outcome st uid aid (trim to_addr) subj draft old key (map metadata_of atts) mid sent w2 = (r, w')"
proof (cases "trim to_addr = [] \<or> CHR ''@'' \<notin> set (trim to_addr) \<or> trim subj = []")
  case True
  with run obtain e where "r = Inl e" "w' = w" "e = InvalidRecipient \<or> e = EmptySubject"
    by (auto simp: send_firsthand_email_def Let_def split: if_splits)
  then show ?thesis by (intro refused) auto
next
  case ok: False
  obtain res w0 where res: "web_run (resolve_alias_for_sending uid can adm aid) w = (res, w0)" by fastforce
  note resolved = untouched_resolve [OF res]
  show ?thesis
  proof (cases res)
    case (Inl e)
    with run ok res have "r = Inl e" "w' = w0" by (auto simp: send_firsthand_email_def Let_def)
    with Inl resolved show ?thesis by (intro refused [of e]) auto
  next
    case (Inr a)
    obtain u w1 where u: "web_run fresh_uuid w0 = (u, w1)" by fastforce
    obtain env w2 where env: "web_run (mime_env_of (as_outbound st)) w1 = (env, w2)" by fastforce
    define mid where "mid = generate_message_id u (domain_part (view_address a))"
    define raw where "raw = build_mime env (firsthand_mail (view_address a) (trim to_addr) subj body mid atts)"
    obtain key w3 where key: "web_run fresh_uuid w2 = (key, w3)" by fastforce
    have un: "untouched w w3"
      using resolved untouched_fresh [OF u] untouched_mime_env [OF env] untouched_fresh [OF key] untouched_trans by blast
    obtain wr w4 where wr: "web_run (on_fs (write_file_async_with_permissions (eml_path (as_storage_dir st) key) raw)) w3 = (wr, w4)"
      by fastforce
    have w4: "sy_db (wb_sys w4) = sy_db (wb_sys w3)" "sy_used (wb_sys w4) = sy_used (wb_sys w3)"
      using wr by (auto simp: web_run_def on_fs_def split: prod.splits)
    show ?thesis
    proof (cases wr)
      case (Inl e)
      with run ok res \<open>res = Inr a\<close> u env key wr un w4 show ?thesis
        by (intro unstored) (auto simp: send_firsthand_email_def Let_def mid_def raw_def untouched_def)
    next
      case stored: (Inr x)
      have f4: "files (sy_fs (wb_sys w4)) (eml_path (as_storage_dir st) key) = Some \<lparr>file_bytes = raw, file_mode = mode_0600\<rparr>"
        using wr stored write_file_async_Ok [of "eml_path (as_storage_dir st) key" raw "sy_fs (wb_sys w3)"]
        by (auto simp: web_run_def on_fs_def split: prod.splits)
      obtain old w5 where old: "web_run (old_draft_key draft uid) w4 = (old, w5)" by fastforce
      note un5 = old_draft_key_reads [OF old]
      obtain sent w6 where s: "web_run (send_firsthand (as_outbound st) (trim to_addr) (view_address a) raw) w5 = (sent, w6)"
        by fastforce
      have "record_outcome st uid aid (trim to_addr) subj draft old key (map metadata_of atts) mid sent w6 = (r, w')"
        using run ok res \<open>res = Inr a\<close> u env key wr stored old s
        by (simp add: send_firsthand_email_def Let_def mid_def raw_def)
      with resolved \<open>res = Inr a\<close> un un5 w4 f4 s show ?thesis
        by (intro sent [of a w5 key raw sent w6 old mid]) (auto simp: untouched_def same_tables_def)
    qed
  qed
qed

text \<open>Recording the attachments changes the list of attachments and the flag of the row only.\<close>

lemma on_db_run: "sy_db (snd (on_db m s)) = snd (m (sy_db s))"
  by (simp add: on_db_def split: prod.split)

lemma insert_sent_attachments_sent: "t_sent (sy_db (insert_sent_attachments i n ms s)) = t_sent (sy_db s)"
proof (induction i n ms s rule: insert_sent_attachments.induct)
  case (2 email_id i fname ctype sz ms s)
  have "t_sent (snd (insert_attachment now aid email_id fname (Some ctype) sz i False None d)) = t_sent d" for now aid d
    by (auto simp: insert_attachment_def insert_attachment_row_def insert_stmt_def stmt_def Let_def split: option.splits list.splits)
  then show ?case
    using 2 [of "fst (fresh_uuid s)" "snd (fresh_uuid s)"] by (simp add: fresh_uuid_def on_db_run)
qed simp

lemma flag_has_attachments_sent:
  "t_sent (snd (flag_has_attachments i d)) \<in>
     {t_sent d, update_rows (\<lambda>s. se_id s = i) (\<lambda>s. s\<lparr>se_has_attachments := True\<rparr>) (t_sent d)}"
  by (auto simp: flag_has_attachments_def exec_def stmt_def set_sent_def Let_def split: if_splits list.splits)

lemma record_sent_attachments_sent:
  "t_sent (sy_db (record_sent_attachments i ms s)) \<in>
     {t_sent (sy_db s), update_rows (\<lambda>s. se_id s = i) (\<lambda>s. s\<lparr>se_has_attachments := True\<rparr>) (t_sent (sy_db s))}"
  using flag_has_attachments_sent [of i "sy_db (insert_sent_attachments i 0 ms s)"]
  by (simp add: record_sent_attachments_def on_db_run insert_sent_attachments_sent)

definition sent_record :: "uuid \<Rightarrow> uuid \<Rightarrow> uuid \<Rightarrow> string \<Rightarrow> string \<Rightarrow> uuid \<Rightarrow> sent_row \<Rightarrow> bool" where
  "sent_record i uid aid to_addr subj key row = (se_id row = i \<and> se_user_id row = uid \<and> se_from_alias_id row = aid \<and>
     se_to row = to_addr \<and> se_subject row = subj \<and> se_body_key row = key)"

lemma list_ex_update_rows:
  "list_ex P xs \<Longrightarrow> (\<And>x. P x \<Longrightarrow> Q x \<or> p x) \<Longrightarrow> (\<And>x. P x \<Longrightarrow> p x \<Longrightarrow> Q (f x)) \<Longrightarrow> list_ex Q (update_rows p f xs)"
  by (induction xs) (auto simp: update_rows_def)

lemma upsert_draft_Ok:
  assumes "upsert_draft fresh now draft uid aid to_addr subj key d = (Inr i, d')"
  shows "list_ex (sent_record i uid aid to_addr subj key) (t_sent d') \<and> (draft = None \<and> i = fresh \<or> draft = Some i)"
proof (cases draft)
  case None
  with assms show ?thesis
    by (auto simp: upsert_draft_def Let_def db_bind_Ok_iff insert_stmt_def stmt_Ok_iff db_return_def new_sent_def add_sent_def
        sent_record_def split: option.splits)
next
  case (Some j)
  with assms have j: "i = j" and d: "list_ex (own_draft j uid) (t_sent d)"
    and d': "t_sent d' = update_rows (own_draft j uid) (\<lambda>s. s\<lparr>se_from_alias_id := aid, se_to := to_addr, se_subject := subj,
                      se_body_key := key, se_updated_at := now\<rparr>) (t_sent d)"
    by (auto simp: upsert_draft_def db_bind_Ok_iff stmt_Ok_iff db_return_def db_fail_def set_sent_def split: if_splits)
  from d have "list_ex (sent_record j uid aid to_addr subj key) (t_sent d')"
    unfolding d' by (rule list_ex_update_rows) (auto simp: sent_record_def own_draft_def)
  with Some j show ?thesis by simp
qed

lemma mark_success_Ok:
  "mark_sent_email_success now i mid d = (Inr u, d') \<Longrightarrow>
   t_sent d' = update_rows (\<lambda>s. se_id s = i)
     (\<lambda>s. s\<lparr>se_status := status_text Sent, se_message_id := Some mid, se_sent_at := Some now, se_updated_at := now\<rparr>) (t_sent d)"
  by (auto simp: mark_sent_email_success_def stmt_Ok_iff set_sent_def split: if_splits)

lemma record_outcome_result:
  assumes "record_outcome st uid aid to_addr subj draft old key ms mid sent w = (r, w')"
  shows "case sent of
      Inl e \<Rightarrow> r = Inl (DeliveryFailed e)
    | Inr _ \<Rightarrow> (case r of
        Inr (SentMail i m) \<Rightarrow> m = mid \<and> (case draft of None \<Rightarrow> True | Some j \<Rightarrow> i = j) \<and>
          list_ex (\<lambda>row. sent_record i uid aid to_addr subj key row \<and> se_status row = status_text Sent \<and> se_message_id row = Some mid)
            (t_sent (sy_db (wb_sys w')))
      | Inr (DryRun _) \<Rightarrow> False
      | Inl e \<Rightarrow> e = DatabaseFailure)"
proof (cases sent)
  case (Inl e)
  with assms show ?thesis
    by (auto simp: record_outcome_def Let_def split: prod.splits sum.splits)
next
  case (Inr u)
  obtain row_id w1 where f: "web_run fresh_uuid w = (row_id, w1)" by fastforce
  let ?s1 = "wb_sys w1"
  obtain up d1 where up: "upsert_draft row_id (sy_now ?s1) draft uid aid to_addr subj key (sy_db ?s1) = (up, d1)" by fastforce
  show ?thesis
  proof (cases up)
    case (Inl e)
    with assms Inr f up show ?thesis by (auto simp: record_outcome_def web_run_def on_db_def Let_def split: prod.splits)
  next
    case i: (Inr i)
    obtain mk d2 where mk: "mark_sent_email_success (sy_now ?s1) i mid d1 = (mk, d2)" by fastforce
    show ?thesis
    proof (cases mk)
      case (Inl e)
      with assms Inr f up i mk show ?thesis
        by (auto simp: record_outcome_def web_run_def on_db_def cleanup_old_draft_def Let_def split: prod.splits option.splits)
    next
      case ok: (Inr x)
      let ?s3 = "?s1\<lparr>sy_db := d2\<rparr>"
      have r: "r = Inr (SentMail i mid)" "wb_sys w' = record_sent_attachments i ms ?s3"
        using assms Inr f up i mk ok
        by (auto simp: record_outcome_def web_run_def on_db_def cleanup_old_draft_def Let_def split: prod.splits option.splits)
      let ?Q = "\<lambda>row. sent_record i uid aid to_addr subj key row \<and> se_status row = status_text Sent \<and> se_message_id row = Some mid"
      have "list_ex ?Q (t_sent d2)"
        using upsert_draft_Ok [OF up [unfolded i]] unfolding mark_success_Ok [OF mk [unfolded ok]]
        by (intro list_ex_update_rows [of "sent_record i uid aid to_addr subj key"]) (auto simp: sent_record_def)
      then have "list_ex ?Q (t_sent (sy_db (record_sent_attachments i ms ?s3)))"
        using record_sent_attachments_sent [of i ms ?s3]
          list_ex_update_rows [of ?Q "t_sent d2" ?Q "\<lambda>s. se_id s = i" "\<lambda>s. s\<lparr>se_has_attachments := True\<rparr>"]
        by (auto simp: sent_record_def)
      with r Inr upsert_draft_Ok [OF up [unfolded i]] show ?thesis by (auto split: option.splits)
    qed
  qed
qed


text \<open>A dry run does everything up to building the message and stops: no table, file or connection changes, and what
  it reports is the size of the very message it would have sent.\<close>
theorem dry_run_touches_nothing:
  assumes run: "send_firsthand_email st uid can adm aid to_addr subj body draft atts False w = (r, w')"
  shows "untouched w w' \<and> (case r of
      Inr (DryRun x) \<Rightarrow> (can \<or> adm) \<and> dr_attachment_count x = length atts \<and>
        (\<exists>a env. own_active_alias (sy_db (wb_sys w)) uid aid a \<and> dr_resolved_from x = view_address a \<and>
          dr_mime_size x = length (build_mime env
            (firsthand_mail (view_address a) (trim to_addr) subj body (dr_message_id x) atts)))
    | Inr (SentMail _ _) \<Rightarrow> False
    | Inl e \<Rightarrow> e \<noteq> StorageFailure \<and> (case e of DeliveryFailed _ \<Rightarrow> False | _ \<Rightarrow> True))"
proof (cases "trim to_addr = [] \<or> CHR ''@'' \<notin> set (trim to_addr) \<or> trim subj = []")
  case True
  with run show ?thesis by (auto simp: send_firsthand_email_def Let_def split: if_splits)
next
  case ok: False
  obtain res w0 where res: "web_run (resolve_alias_for_sending uid can adm aid) w = (res, w0)" by fastforce
  note resolved = untouched_resolve [OF res]
  show ?thesis
  proof (cases res)
    case (Inl e)
    with run ok res have "r = Inl e" "w' = w0" by (auto simp: send_firsthand_email_def Let_def)
    with Inl resolved show ?thesis by auto
  next
    case (Inr a)
    obtain u w1 where u: "web_run fresh_uuid w0 = (u, w1)" by fastforce
    obtain env w2 where env: "web_run (mime_env_of (as_outbound st)) w1 = (env, w2)" by fastforce
    have "untouched w w2"
      using resolved untouched_fresh [OF u] untouched_mime_env [OF env] untouched_trans by blast
    moreover have "w' = w2"
      using run ok res Inr u env by (simp add: send_firsthand_email_def Let_def)
    moreover have "r = Inr (DryRun \<lparr>dr_resolved_from = view_address a, dr_to = trim to_addr, dr_subject = subj,
        dr_message_id = generate_message_id u (domain_part (view_address a)), dr_attachment_count = length atts,
        dr_total_attachment_bytes = total_bytes atts,
        dr_mime_size = length (build_mime env (firsthand_mail (view_address a) (trim to_addr) subj body
          (generate_message_id u (domain_part (view_address a))) atts))\<rparr>)"
      using run ok res Inr u env by (simp add: send_firsthand_email_def Let_def)
    ultimately show ?thesis using resolved Inr by auto
  qed
qed

lemma upsert_draft_gone:
  assumes "\<not> list_ex (own_draft i uid) (t_sent d)" "upsert_draft fresh now (Some i) uid aid to_addr subj key d = (r, d')"
  shows "\<exists>e. r = Inl e \<and> same_tables d d'"
  using assms by (auto simp: upsert_draft_def db_bind_def stmt_def db_fail_def Let_def same_tables_def split: if_splits list.splits)

lemma send_raw_sent: "t_sent (sy_db (snd (send_raw ob rcpt sender body s))) = t_sent (sy_db s)"
proof -
  obtain r1 s1 where i: "send_raw_inner ob rcpt sender body s = (r1, s1)" by fastforce
  have 1: "t_sent (sy_db s1) = t_sent (sy_db s)"
    using send_raw_inner_only [OF i] by (auto simp: delivers_only_def same_tables_def dest: arg_cong [where f = t_sent])
  have ins: "t_sent (snd (insert_job now j f t d)) = t_sent d" for now j f t d
    by (auto simp: insert_job_def insert_stmt_def stmt_def Let_def split: if_splits option.splits list.splits)
  have fs: "sy_db (snd (on_fs m x)) = sy_db x" for m :: "'x io" and x
    by (simp add: on_fs_def split: prod.split)
  have "t_sent (sy_db (snd (enqueue_job dir f t b x))) = t_sent (sy_db x)" for dir f t b x
    using on_fs_sys on_db_sys
    by (auto simp: enqueue_job_def fresh_uuid_def Let_def fs ins dest!: on_fs_sys on_db_sys split: prod.split sum.split)
  with i 1 show ?thesis
    by (auto simp: send_raw_def split: prod.split sum.split) (metis snd_conv)+
qed

text \<open>A draft can be sent twice. Once the row of a draft is no longer a draft of the caller, because it has been
  sent, sending it again still hands the message to the outbound service, and only then finds that there is no draft. The
  answer never is success; it is a failure of the database exactly when the second mail has gone out; and no row tells
  of it.\<close>
theorem sent_draft_goes_out_again:
  assumes run: "send_firsthand_email st uid can adm aid to_addr subj body (Some i) atts True w = (r, w')"
    and gone: "\<not> list_ex (own_draft i uid) (t_sent (sy_db (wb_sys w)))"
    and calm: "db_faults (sy_db (wb_sys w)) = []"
  shows "t_sent (sy_db (wb_sys w')) = t_sent (sy_db (wb_sys w)) \<and>
    (case r of
       Inl DatabaseFailure \<Rightarrow> (\<exists>a raw s1. own_active_alias (sy_db (wb_sys w)) uid aid a \<and>
         fst (send_firsthand (as_outbound st) (trim to_addr) (view_address a) raw s1) = Inr ())
     | Inl _ \<Rightarrow> True
     | Inr _ \<Rightarrow> False)"
  using run
proof (cases rule: send_firsthand_runs)
  case (refused e)
  then show ?thesis using calm
    by (cases e) (auto simp: untouched_def same_tables_def dest: arg_cong [where f = t_sent])
next
  case unstored
  then show ?thesis by (auto simp: same_tables_def dest: arg_cong [where f = t_sent])
next
  case (sent a mid key old raw w1 res w2)
  have s: "fst (send_firsthand (as_outbound st) (trim to_addr) (view_address a) raw (wb_sys w1)) = res"
    and w2: "t_sent (sy_db (wb_sys w2)) = t_sent (sy_db (wb_sys w1))"
    using sent(6) send_raw_sent [of "as_outbound st" "trim to_addr" "view_address a" raw "wb_sys w1"]
    by (auto simp: web_run_def send_firsthand_def split: prod.splits)
  have w1: "t_sent (sy_db (wb_sys w1)) = t_sent (sy_db (wb_sys w))"
    using sent(3) by (auto simp: same_tables_def dest: arg_cong [where f = t_sent])
  obtain row_id w3 where f: "web_run fresh_uuid w2 = (row_id, w3)" by fastforce
  let ?s3 = "wb_sys w3"
  have w3: "sy_db ?s3 = sy_db (wb_sys w2)" using f by (auto simp: web_run_def fresh_uuid_def)
  obtain up d4 where up: "upsert_draft row_id (sy_now ?s3) (Some i) uid aid (trim to_addr) subj key (sy_db ?s3) = (up, d4)"
    by fastforce
  from upsert_draft_gone [OF _ up] gone w1 w2 w3 obtain e where e: "up = Inl e" "same_tables (sy_db ?s3) d4" by auto
  have "sy_db (wb_sys w') = d4 \<and> r = (case res of Inl x \<Rightarrow> Inl (DeliveryFailed x) | Inr _ \<Rightarrow> Inl DatabaseFailure)"
    using sent(7) f up e by (auto simp: record_outcome_def web_run_def on_db_def split: sum.splits)
  moreover have "t_sent d4 = t_sent (sy_db ?s3)"
    using e(2) by (auto simp: same_tables_def dest: arg_cong [where f = t_sent])
  ultimately show ?thesis using s sent(2) w1 w2 w3 by (cases res) auto
qed

section \<open>What a reply leaves behind\<close>

definition kept :: "sys \<Rightarrow> sys \<Rightarrow> bool" where
  "kept s s' = (same_tables (sy_db s) (sy_db s') \<and> files (sy_fs s') = files (sy_fs s) \<and> sy_used s' = sy_used s)"

lemma kept_refl [simp]: "kept s s"
  by (simp add: kept_def same_tables_def)

lemma kept_trans: "kept s s' \<Longrightarrow> kept s' s'' \<Longrightarrow> kept s s''"
  by (simp add: kept_def same_tables_def)

lemma kept_query: "on_db (query_optional h) s = (r, s') \<Longrightarrow> kept s s'"
  using query_optional_same [of "sy_db s" h] by (auto simp: on_db_def kept_def split: prod.splits)

lemma kept_original:
  assumes "original_message_id st key s = (r, s')"
  shows "kept s s'"
proof -
  have "files (snd (fs_read p f)) = files f" for p f
    by (simp add: fs_read_def syscall_eq split: option.split)
  with assms show ?thesis
    by (auto simp: original_message_id_def on_fs_def kept_def same_tables_def split: prod.splits sum.splits option.splits)
      (metis snd_conv)+
qed

text \<open>The mail of the caller that a reply answers.\<close>

definition own_mail :: "db \<Rightarrow> uuid \<Rightarrow> uuid \<Rightarrow> received_email \<Rightarrow> bool" where
  "own_mail d uid eid v = list_ex (\<lambda>x. x = v \<and> rv_id x = eid \<and> rv_user_id x = uid) (received_views d)"

lemma email_by_id_own:
  assumes "on_db (get_email_by_id eid uid) s = (Inr (Some v), s')"
  shows "own_mail (sy_db s) uid eid v"
proof -
  from assms obtain d' where "query_optional (\<lambda>d. filter (\<lambda>v. rv_id v = eid \<and> rv_user_id v = uid) (received_views d)) (sy_db s)
      = (Inr (Some v), d')"
    by (auto simp: on_db_def get_email_by_id_def split: prod.splits)
  from query_optional_Ok [OF this]
  have "(case filter (\<lambda>v. rv_id v = eid \<and> rv_user_id v = uid) (received_views (sy_db s)) of [] \<Rightarrow> None | a # _ \<Rightarrow> Some a) = Some v"
    by (auto simp: received_views_faults)
  then show ?thesis by (auto simp: own_mail_def list_ex_iff split: list.splits dest!: filter_ConsD)
qed

lemma process_reply_runs:
  assumes run: "process_reply st uid eid body atts True s = (r, s')"
  obtains (refused) e where "r = Inl e" "kept s s'"
      "e \<in> {ReplyRefused 404 ''Email not found'', ReplyRefused 500 ''Alias not found'', ReplyPanic}"
  | (unsent) e s1 and v :: received_email and orig mid from_alias where "r = Inl (ReplyRefused 500 ''Failed to send email'')"
      "send_reply (as_outbound st) (rv_sender v) from_alias (rv_subject v) body orig (Some mid) atts s1 = (Inl e, s')" "kept s s1"
  | (gone) v :: received_email and orig mid from_alias s1 raw s2 where "own_mail (sy_db s) uid eid v" "kept s s1"
      "send_reply (as_outbound st) (rv_sender v) from_alias (rv_subject v) body orig (Some mid) atts s1 = (Inr raw, s2)"
      "store_reply st eid body mid (map metadata_of atts) raw s2 = (r, s')"
proof -
  obtain q1 s1 where q1: "on_db (get_email_by_id eid uid) s = (q1, s1)" by fastforce
  have k1: "kept s s1" using q1 unfolding get_email_by_id_def by (rule kept_query)
  obtain q2 s2 where q2: "on_db (get_alias_details_for_email eid uid) s1 = (q2, s2)" by fastforce
  have k2: "kept s s2" using q2 k1 kept_query kept_trans unfolding get_alias_details_for_email_def by blast
  show ?thesis
  proof (cases "\<exists>v. q1 = Inr (Some v)")
    case False
    with run q1 k1 show ?thesis
      by (intro refused [of "ReplyRefused 404 ''Email not found''"]) (auto simp: process_reply_def split: sum.splits option.splits)
  next
    case True
    then obtain v where v: "q1 = Inr (Some v)" by blast
    show ?thesis
    proof (cases "\<exists>x. q2 = Inr (Some x)")
      case False
      with run q1 v q2 k2 show ?thesis
        by (intro refused [of "ReplyRefused 500 ''Alias not found''"]) (auto simp: process_reply_def split: sum.splits option.splits)
    next
      case True
      then obtain sub dmn where x: "q2 = Inr (Some (sub, dmn))" by auto
      obtain q3 s3 where q3: "original_message_id st (rv_body_key v) s2 = (q3, s3)" by fastforce
      have k3: "kept s s3" using kept_trans [OF k2 kept_original [OF q3]] .
      show ?thesis
      proof (cases q3)
        case (Inl u)
        with run q1 v q2 x q3 k3 show ?thesis by (intro refused [of ReplyPanic]) (auto simp: process_reply_def Let_def)
      next
        case (Inr orig)
        obtain u s4 where u: "fresh_uuid s3 = (u, s4)" by fastforce
        have k4: "kept s s4" using k3 u by (auto simp: fresh_uuid_def kept_def)
        define mid where "mid = ''<'' @ u @ ''@'' @ ob_identity_domain (as_outbound st) @ ''>''"
        obtain q5 s5 where q5: "send_reply (as_outbound st) (rv_sender v) (sub @ ''@'' @ dmn) (rv_subject v) body orig (Some mid) atts s4
            = (q5, s5)" by fastforce
        show ?thesis
        proof (cases q5)
          case (Inl e)
          have "r = Inl (ReplyRefused 500 ''Failed to send email'')" "s' = s5"
            using run q1 v q2 x q3 Inr u q5 Inl by (simp_all add: process_reply_def Let_def mid_def)
          then show ?thesis using q5 Inl k4 by (intro unsent [where ?s1.0 = s4 and v = v]) auto
        next
          case sent: (Inr raw)
          have "store_reply st eid body mid (map metadata_of atts) raw s5 = (r, s')"
            using run q1 v q2 x q3 Inr u q5 sent by (simp add: process_reply_def Let_def mid_def)
          with email_by_id_own [OF q1 [unfolded v]] k4 q5 sent show ?thesis by (intro gone) auto
        qed
      qed
    qed
  qed
qed

lemma insert_reply_attachments_Ok:
  assumes "insert_reply_attachments eid reply n ms s = (Inr rows, s')"
  shows "map at_filename rows = map fst ms \<and> list_all (\<lambda>row. at_reply_id row = Some (rp_id reply) \<and> at_email_id row = eid) rows \<and>
    t_replies (sy_db s') = t_replies (sy_db s)"
  using assms
proof (induction eid reply n ms s arbitrary: rows rule: insert_reply_attachments.induct)
  case (2 eid reply i fname ctype sz ms s)
  obtain aid s1 where f: "fresh_uuid s = (aid, s1)" by fastforce
  obtain q s2 where q: "on_db (insert_reply_attachment (sy_now s1) aid eid (rp_id reply) fname (Some ctype) sz i) s1 = (q, s2)"
    by fastforce
  have rep: "t_replies (sy_db s2) = t_replies (sy_db s)"
    using f q by (auto simp: fresh_uuid_def on_db_def insert_reply_attachment_def insert_attachment_row_def insert_stmt_def stmt_def
        Let_def split: prod.splits if_splits option.splits list.splits)
  from 2 f q obtain u rows' where u: "q = Inr u" "insert_reply_attachments eid reply (Suc i) ms s2 = (Inr rows', s')"
    "rows = \<lparr>at_id = aid, at_email_id = eid, at_filename = fname, at_content_type = Some ctype, at_size_bytes = sz,
       at_part_index = i, at_is_inline = False, at_content_id = None, at_created_at = rp_sent_at reply,
       at_reply_id = Some (rp_id reply)\<rparr> # rows'"
    by (auto split: sum.splits prod.splits)
  from 2(1) [OF f [symmetric] q [symmetric] u(1) u(2)] u(3) rep show ?case by simp
qed simp

lemma store_reply_result:
  assumes "store_reply st eid body mid ms raw s = (r, s')"
  shows "case r of
      Inr (ReplySent reply rows) \<Rightarrow> list_ex (\<lambda>x. x = reply) (t_replies (sy_db s')) \<and> rp_email_id reply = eid \<and>
        rp_body_text reply = body \<and> rp_message_id reply = Some mid \<and> map at_filename rows = map fst ms \<and>
        list_all (\<lambda>row. at_reply_id row = Some (rp_id reply) \<and> at_email_id row = eid) rows
    | Inr (ReplyDryRun _) \<Rightarrow> False
    | Inl e \<Rightarrow> e = ReplyRefused 500 ''Failed to save reply'' \<or> e = ReplyRefused 500 ''Failed to save reply attachment''"
proof -
  obtain key s1 where k: "fresh_uuid s = (key, s1)" by fastforce
  obtain q s2 where q: "on_fs (write_file_async_with_permissions (eml_path (as_storage_dir st) key) raw) s1 = (q, s2)" by fastforce
  obtain i s3 where i: "fresh_uuid s2 = (i, s3)" by fastforce
  obtain q4 s4 where q4: "on_db (insert_reply i (sy_now s3) eid body (Some mid) (Some key)) s3 = (q4, s4)" by fastforce
  show ?thesis
  proof (cases q4)
    case (Inl e)
    with assms k q i q4 show ?thesis by (auto simp: store_reply_def)
  next
    case (Inr reply)
    have row: "reply \<in> set (t_replies (sy_db s4))" "rp_email_id reply = eid" "rp_body_text reply = body" "rp_message_id reply = Some mid"
      using q4 Inr
      by (auto simp: on_db_def insert_reply_def db_bind_Ok_iff Let_def insert_stmt_def stmt_Ok_iff split: prod.splits option.splits)
    obtain q5 s5 where q5: "insert_reply_attachments eid reply 0 ms s4 = (q5, s5)" by fastforce
    show ?thesis
    proof (cases q5)
      case (Inl e)
      with assms k q i q4 Inr q5 show ?thesis by (auto simp: store_reply_def)
    next
      case ok: (Inr rows)
      with assms k q i q4 Inr q5 have "r = Inr (ReplySent reply rows)" "s' = s5" by (auto simp: store_reply_def)
      with row insert_reply_attachments_Ok [OF q5 [unfolded ok]] show ?thesis by (auto simp: list_ex_iff)
    qed
  qed
qed

text \<open>The reply was handed over, with success, to the sender of a mail of the caller.\<close>

definition reply_left :: "app_state \<Rightarrow> uuid \<Rightarrow> uuid \<Rightarrow> string \<Rightarrow> mime_attachment list \<Rightarrow> sys \<Rightarrow> string \<Rightarrow> bool" where
  "reply_left st uid eid body atts s mid = (\<exists>v orig address s1 raw. own_mail (sy_db s) uid eid v \<and> kept s s1 \<and>
     fst (send_reply (as_outbound st) (rv_sender v) address (rv_subject v) body orig (Some mid) atts s1) = Inr raw)"


section \<open>Samples\<close>

definition sample_app :: app_state where
  "sample_app = \<lparr>as_outbound = sample_ob, as_storage_dir = ''/m'', as_guess = (\<lambda>_. None), as_parse_uuid = Some,
     as_clock_text = (\<lambda>_. [])\<rparr>"

definition sample_web :: web_state where
  "sample_web = \<lparr>wb_sys = sample_sys, wb_removals = []\<rparr>"

definition shop_view :: alias_view where
  "shop_view = alias_view_of (sample_alias ''a1'' ''u1'' ''shop'', sample_domain)"

lemma shop_address: "view_address shop_view = ''shop@x.org''"
  by (simp add: view_address_def shop_view_def alias_view_of_def sample_alias_def sample_domain_def)

definition world_with :: "fs \<Rightarrow> nat \<Rightarrow> sys" where
  "world_with f n = sample_sys\<lparr>sy_fs := f, sy_next_uuid := n\<rparr>"

lemma fresh_sample: "fresh_uuid (world_with f n) = (''q'' @ show_nat n, world_with f (Suc n))"
  by (simp add: fresh_uuid_def world_with_def sample_sys_def)

lemma shop_resolves:
  "resolve_alias_for_sending ''u1'' True False ''a1'' (world_with f n) = (Inr shop_view, world_with f n)"
  by (simp add: resolve_alias_for_sending_def on_db_def world_with_def sample_sys_def get_alias_by_id_and_user_def
      no_fault_simps sample_defs alias_domains_def shop_view_def alias_view_of_def)

lemma inner_sample:
  "send_raw_inner sample_ob ''bob@y.org'' ''shop@x.org'' b (world_with f n) = (Err ''no'', world_with f n)"
  by (simp add: send_raw_inner_def sign_outgoing_def sender_domain_of_def sample_trim nth_or_def to_lowercase_def char_eval
      on_db_def world_with_def sample_sys_def get_dkim_key_by_domain_def db_eval sample_defs db_bind_def relay_config_of_def
      sample_ob_def get_config_def unwrap_or_def deliver_mx_def spf_answers_def Let_def)

definition eml_fs :: "string \<Rightarrow> fs" where
  "eml_fs raw = empty_fs\<lparr>files := (files empty_fs)(''/m/q5.eml'' := Some \<lparr>file_bytes = raw, file_mode = mode_0600\<rparr>)\<rparr>"

lemma stored_sample_mail:
  "on_fs (write_file_async_with_permissions ''/m/q5.eml'' raw) (world_with empty_fs n) = (Inr (), world_with (eml_fs raw) n)"
  by (simp add: on_fs_def world_with_def sample_sys_def write_file_async_with_permissions_def fs_write_def set_permissions_def
      io_bind_def syscall_def io_return_def empty_fs_def store_file_def chmod_def eml_fs_def Let_def)

lemma queue_sample:
  "\<exists>f. enqueue_job ''/m'' ''shop@x.org'' ''bob@y.org'' b (world_with (eml_fs raw) 6) =
     (Inr ''q6'', (world_with f 7)\<lparr>sy_db := (sample_db Sqlite)\<lparr>t_queue := [pending_job 100 ''q6'' ''shop@x.org'' ''bob@y.org'']\<rparr>\<rparr>)"
  by (simp add: enqueue_job_def fresh_sample) (simp add: world_with_def sample_sys_def on_fs_def on_db_def
      create_dir_all_async_with_permissions_def outbound_dir_def eml_fs_def empty_fs_def io_bind_def syscall_def io_return_def
      write_file_async_with_permissions_def fs_write_def set_permissions_def store_file_def chmod_def insert_job_def
      queue_constraints_def no_fault_simps sample_defs num_eval Let_def get_job_file_path_def pending_job_def)

lemma queued_sample:
  "\<exists>f. send_firsthand sample_ob ''bob@y.org'' ''shop@x.org'' raw (world_with (eml_fs raw) 6) =
     (Inr (), (world_with f 7)\<lparr>sy_db := (sample_db Sqlite)\<lparr>t_queue := [pending_job 100 ''q6'' ''shop@x.org'' ''bob@y.org'']\<rparr>\<rparr>)"
proof -
  have st: "ob_storage_dir sample_ob = ''/m''" by (simp add: sample_ob_def)
  from queue_sample [of raw raw] show ?thesis
    by (auto simp: send_firsthand_def send_raw_def inner_sample st is_permanent_delivery_error_def)
qed

definition sample_mid :: string where "sample_mid = generate_message_id ''q0'' (domain_part ''shop@x.org'')"

lemma sample_mime: "\<exists>env. mime_env_of sample_ob (world_with empty_fs (Suc 0)) = (env, world_with empty_fs 5)"
  by (simp add: mime_env_of_def fresh_sample eval_nat_numeral)

definition queued_db :: db where
  "queued_db = (sample_db Sqlite)\<lparr>t_queue := [pending_job 100 ''q6'' ''shop@x.org'' ''bob@y.org'']\<rparr>"

definition sent_db :: "uuid option \<Rightarrow> db" where
  "sent_db draft = queued_db\<lparr>t_sent := [(new_sent ''q7'' 100 ''u1'' ''a1'' ''bob@y.org'' ''Hi'' ''q5'' Draft None None)
     \<lparr>se_status := status_text Sent, se_message_id := Some sample_mid, se_sent_at := Some 100\<rparr>]\<rparr>"

lemma record_sample:
  "record_outcome sample_app ''u1'' ''a1'' ''bob@y.org'' ''Hi'' None None ''q5'' [] sample_mid (Inr ())
     \<lparr>wb_sys = (world_with f 7)\<lparr>sy_db := queued_db\<rparr>, wb_removals = []\<rparr> =
   (Inr (SentMail ''q7'' sample_mid), \<lparr>wb_sys = (world_with f 8)\<lparr>sy_db := sent_db None\<rparr>, wb_removals = []\<rparr>)"
proof -
  have f: "fresh_uuid ((world_with f 7)\<lparr>sy_db := queued_db\<rparr>) = (''q7'', (world_with f 8)\<lparr>sy_db := queued_db\<rparr>)"
    by (simp add: fresh_uuid_def world_with_def sample_sys_def num_eval)
  have u: "upsert_draft ''q7'' 100 None ''u1'' ''a1'' ''bob@y.org'' ''Hi'' ''q5'' queued_db =
    (Inr ''q7'', queued_db\<lparr>t_sent := [new_sent ''q7'' 100 ''u1'' ''a1'' ''bob@y.org'' ''Hi'' ''q5'' Draft None None]\<rparr>)"
    by (simp add: upsert_draft_def Let_def db_bind_simps no_fault_simps queued_db_def sample_defs sent_constraints_def
        new_sent_def add_sent_def db_return_def)
  have m: "mark_sent_email_success 100 ''q7'' sample_mid
      (queued_db\<lparr>t_sent := [new_sent ''q7'' 100 ''u1'' ''a1'' ''bob@y.org'' ''Hi'' ''q5'' Draft None None]\<rparr>) =
    (Inr (), sent_db None)"
    by (simp add: mark_sent_email_success_def stmt_no_fault no_fault_simps queued_db_def sample_defs new_sent_def set_sent_def update_rows_def
        sent_db_def)
  have now: "sy_now ((world_with f n)\<lparr>sy_db := d\<rparr>) = 100" for n d by (simp add: world_with_def sample_sys_def)
  show ?thesis
    by (simp add: record_outcome_def web_run_def f on_db_def u m now cleanup_old_draft_def record_sent_attachments_def Let_def)
qed

lemma trim_sample: "trim ''bob@y.org'' = ''bob@y.org''" "trim ''Hi'' = ''Hi''"
  by (simp_all add: trim_eval char_eval)

lemma send_sample:
  "\<exists>f. send_firsthand_email sample_app ''u1'' True False ''a1'' ''bob@y.org'' ''Hi'' body None [] True sample_web =
     (Inr (SentMail ''q7'' sample_mid), \<lparr>wb_sys = (world_with f 8)\<lparr>sy_db := sent_db None\<rparr>, wb_removals = []\<rparr>)"
proof -
  obtain env where env: "mime_env_of sample_ob (world_with empty_fs (Suc 0)) = (env, world_with empty_fs 5)"
    using sample_mime by blast
  define raw where "raw = build_mime env (firsthand_mail ''shop@x.org'' ''bob@y.org'' ''Hi'' body sample_mid [])"
  obtain f where q: "send_firsthand sample_ob ''bob@y.org'' ''shop@x.org'' raw (world_with (eml_fs raw) 6) =
     (Inr (), (world_with f 7)\<lparr>sy_db := queued_db\<rparr>)"
    using queued_sample unfolding queued_db_def by blast
  have web: "sample_web = \<lparr>wb_sys = world_with empty_fs 0, wb_removals = []\<rparr>"
    by (simp add: sample_web_def world_with_def sample_sys_def)
  have q0: "fresh_uuid (world_with empty_fs 0) = (''q0'', world_with empty_fs (Suc 0))"
    and q5: "fresh_uuid (world_with empty_fs 5) = (''q5'', world_with empty_fs 6)"
    by (simp_all add: fresh_sample num_eval)
  have path: "eml_path ''/m'' ''q5'' = ''/m/q5.eml''" by (simp add: eml_path_def)
  have app: "as_outbound sample_app = sample_ob" "as_storage_dir sample_app = ''/m''" by (simp_all add: sample_app_def)
  have mid: "generate_message_id ''q0'' (domain_part ''shop@x.org'') = sample_mid" by (simp add: sample_mid_def)
  show ?thesis
    by (rule exI [of _ f]) (simp add: send_firsthand_email_def trim_sample web web_run_def shop_resolves shop_address q0 q5 app env path mid
        stored_sample_mail old_draft_key_def q record_sample Let_def flip: raw_def)
qed


theorem dry_run_touches_nothing_witness:
  "\<exists>x w'. send_firsthand_email sample_app ''u1'' True False ''a1'' ''bob@y.org'' ''Hi'' ''body'' None [] False sample_web =
     (Inr (DryRun x), w') \<and> dr_resolved_from x = ''shop@x.org'' \<and> untouched sample_web w'"
proof -
  have web: "sample_web = \<lparr>wb_sys = world_with empty_fs 0, wb_removals = []\<rparr>"
    by (simp add: sample_web_def world_with_def sample_sys_def)
  have "\<exists>x w'. send_firsthand_email sample_app ''u1'' True False ''a1'' ''bob@y.org'' ''Hi'' ''body'' None [] False sample_web =
     (Inr (DryRun x), w') \<and> dr_resolved_from x = ''shop@x.org''"
    by (simp add: send_firsthand_email_def trim_sample web web_run_def shop_resolves shop_address Let_def split: prod.split)
  with dry_run_touches_nothing show ?thesis by blast
qed

lemma resend_sample:
  "\<exists>w'. send_firsthand_email sample_app ''u1'' True False ''a1'' ''bob@y.org'' ''Hi'' body (Some ''gone'') [] True sample_web =
     (Inl DatabaseFailure, w')"
proof -
  obtain env where env: "mime_env_of sample_ob (world_with empty_fs (Suc 0)) = (env, world_with empty_fs 5)"
    using sample_mime by blast
  define raw where "raw = build_mime env (firsthand_mail ''shop@x.org'' ''bob@y.org'' ''Hi'' body sample_mid [])"
  obtain f where q: "send_firsthand sample_ob ''bob@y.org'' ''shop@x.org'' raw (world_with (eml_fs raw) 6) =
     (Inr (), (world_with f 7)\<lparr>sy_db := queued_db\<rparr>)"
    using queued_sample unfolding queued_db_def by blast
  have web: "sample_web = \<lparr>wb_sys = world_with empty_fs 0, wb_removals = []\<rparr>"
    by (simp add: sample_web_def world_with_def sample_sys_def)
  have q0: "fresh_uuid (world_with empty_fs 0) = (''q0'', world_with empty_fs (Suc 0))"
    and q5: "fresh_uuid (world_with empty_fs 5) = (''q5'', world_with empty_fs 6)"
    by (simp_all add: fresh_sample num_eval)
  have path: "eml_path ''/m'' ''q5'' = ''/m/q5.eml''" by (simp add: eml_path_def)
  have app: "as_outbound sample_app = sample_ob" "as_storage_dir sample_app = ''/m''" by (simp_all add: sample_app_def)
  have mid: "generate_message_id ''q0'' (domain_part ''shop@x.org'') = sample_mid" by (simp add: sample_mid_def)
  have old: "old_draft_key (Some ''gone'') ''u1'' (world_with f n) = (None, world_with f n)" for f n
    by (simp add: old_draft_key_def on_db_def world_with_def sample_sys_def get_sent_email_by_id_and_user_def sent_views_def
        no_fault_simps sample_defs)
  have r7: "fresh_uuid ((world_with f 7)\<lparr>sy_db := queued_db\<rparr>) = (''q7'', (world_with f 8)\<lparr>sy_db := queued_db\<rparr>)"
    by (simp add: fresh_uuid_def world_with_def sample_sys_def num_eval)
  have up: "upsert_draft i now (Some ''gone'') u a t sj k queued_db = (Inl RowNotFound, queued_db)" for i now u a t sj k
    by (simp add: upsert_draft_def db_bind_simps stmt_no_fault queued_db_def sample_defs db_fail_def db_bind_def)
  show ?thesis
    by (simp add: send_firsthand_email_def trim_sample web web_run_def shop_resolves shop_address q0 q5 app env path mid
        stored_sample_mail old q record_outcome_def r7 on_db_def up Let_def flip: raw_def)
qed

theorem sent_draft_goes_out_again_witness:
  "case send_firsthand_email sample_app ''u1'' True False ''a1'' ''bob@y.org'' ''Hi'' ''body'' (Some ''gone'') [] True sample_web of
     (r, w') \<Rightarrow> r = Inl DatabaseFailure \<and> t_sent (sy_db (wb_sys w')) = [] \<and>
       (\<exists>a raw s1. own_active_alias (sample_db Sqlite) ''u1'' ''a1'' a \<and>
         fst (send_firsthand sample_ob (trim ''bob@y.org'') (view_address a) raw s1) = Inr ())"
proof -
  obtain w' where run: "send_firsthand_email sample_app ''u1'' True False ''a1'' ''bob@y.org'' ''Hi'' ''body'' (Some ''gone'') []
      True sample_web = (Inl DatabaseFailure, w')" using resend_sample by blast
  have d: "sy_db (wb_sys sample_web) = sample_db Sqlite" "as_outbound sample_app = sample_ob"
    by (simp_all add: sample_web_def sample_sys_def sample_app_def)
  have t: "t_sent (sample_db Sqlite) = []" "db_faults (sample_db Sqlite) = []" by (simp_all add: sample_defs)
  from sent_draft_goes_out_again [OF run, unfolded d] run t show ?thesis by simp
qed

lemma reply_sample:
  "\<exists>reply s'. process_reply sample_app ''u1'' ''e1'' ''thanks'' [] True sample_sys = (Inr (ReplySent reply []), s')"
proof -
  have w: "sample_sys = world_with empty_fs 0" by (simp add: world_with_def sample_sys_def)
  obtain v where v: "on_db (get_email_by_id ''e1'' ''u1'') (world_with empty_fs 0) = (Inr (Some v), world_with empty_fs 0)"
    "rv_sender v = ''bob@y.org''" "rv_body_key v = ''k1''"
    by (simp add: on_db_def world_with_def sample_sys_def get_email_by_id_def no_fault_simps sample_defs received_views_def
        views_of_def alias_domains_def view_email_def)
  have a: "on_db (get_alias_details_for_email ''e1'' ''u1'') (world_with empty_fs 0) =
      (Inr (Some (''shop'', ''x.org'')), world_with empty_fs 0)"
    by (simp add: on_db_def world_with_def sample_sys_def get_alias_details_for_email_def no_fault_simps sample_defs
        alias_domains_def)
  have o: "original_message_id sample_app ''k1'' (world_with empty_fs 0) = (Inr None, world_with empty_fs 0)"
    by (simp add: original_message_id_def on_fs_def fs_read_def world_with_def sample_sys_def empty_fs_def)
  have q0: "fresh_uuid (world_with empty_fs 0) = (''q0'', world_with empty_fs (Suc 0))"
    by (simp add: fresh_sample num_eval)
  obtain env where env: "mime_env_of sample_ob (world_with empty_fs (Suc 0)) = (env, world_with empty_fs 5)"
    using sample_mime by blast
  have app: "as_outbound sample_app = sample_ob" "as_storage_dir sample_app = ''/m''" by (simp_all add: sample_app_def)
  have st: "ob_storage_dir sample_ob = ''/m''" by (simp add: sample_ob_def)
  have "\<exists>f. enqueue_job ''/m'' ''shop@x.org'' ''bob@y.org'' b (world_with empty_fs 5) =
     (Inr ''q5'', (world_with f 6)\<lparr>sy_db := (sample_db Sqlite)\<lparr>t_queue := [pending_job 100 ''q5'' ''shop@x.org'' ''bob@y.org'']\<rparr>\<rparr>)
     \<and> io_faults f = []" for b
    by (simp add: enqueue_job_def fresh_sample) (simp add: world_with_def sample_sys_def on_fs_def on_db_def
      create_dir_all_async_with_permissions_def outbound_dir_def empty_fs_def io_bind_def syscall_def io_return_def
      write_file_async_with_permissions_def fs_write_def set_permissions_def store_file_def chmod_def insert_job_def
      queue_constraints_def no_fault_simps sample_defs num_eval Let_def get_job_file_path_def pending_job_def)
  note queued = this
  have q: "\<exists>f. send_raw sample_ob ''bob@y.org'' ''shop@x.org'' b (world_with empty_fs 5) =
     (Inr (), (world_with f 6)\<lparr>sy_db := (sample_db Sqlite)\<lparr>t_queue := [pending_job 100 ''q5'' ''shop@x.org'' ''bob@y.org'']\<rparr>\<rparr>)
     \<and> io_faults f = []" for b
    using queued [of b] by (auto simp: send_raw_def inner_sample st is_permanent_delivery_error_def)
  let ?d = "(sample_db Sqlite)\<lparr>t_queue := [pending_job 100 ''q5'' ''shop@x.org'' ''bob@y.org'']\<rparr>"
  have f6: "fresh_uuid ((world_with f n)\<lparr>sy_db := d\<rparr>) = (''q'' @ show_nat n, (world_with f (Suc n))\<lparr>sy_db := d\<rparr>)" for f n d
    by (simp add: fresh_uuid_def world_with_def sample_sys_def)
  have fs: "\<exists>r g. on_fs m ((world_with f n)\<lparr>sy_db := d\<rparr>) = (r, (world_with g n)\<lparr>sy_db := d\<rparr>)" for m :: "unit io" and f n d
    by (simp add: on_fs_def world_with_def sample_sys_def split: prod.split)
  have now: "sy_now ((world_with f n)\<lparr>sy_db := d\<rparr>) = 100" for f n d by (simp add: world_with_def sample_sys_def)
  have ins: "\<exists>reply d'. insert_reply i 100 ''e1'' ''thanks'' m k ?d = (Inr reply, d')" for i m k
    by (simp add: insert_reply_def db_bind_simps no_fault_simps sample_defs touch_thread_def thread_root_of_def set_emails_def
        update_rows_def reply_constraints_def Let_def pending_job_def)
  define mid where "mid = ''<'' @ ''q0'' @ ''@'' @ ob_identity_domain sample_ob @ ''>''"
  define raw where "raw = build_mime env \<lparr>me_from = ''shop@x.org'', me_to = ''bob@y.org'', me_subject = rv_subject v,
    me_text_body = ''thanks'', me_html_body = None, me_message_id = Some mid, me_in_reply_to = None, me_references = None,
    me_attachments = []\<rparr>"
  obtain f where f: "send_raw sample_ob ''bob@y.org'' ''shop@x.org'' raw (world_with empty_fs 5) =
     (Inr (), (world_with f 6)\<lparr>sy_db := ?d\<rparr>)" using q by blast
  obtain r g where g: "on_fs (write_file_async_with_permissions (eml_path ''/m'' (''q'' @ show_nat 6)) raw)
      ((world_with f 7)\<lparr>sy_db := ?d\<rparr>) = (r, (world_with g 7)\<lparr>sy_db := ?d\<rparr>)" using fs by blast
  have sent: "send_reply sample_ob ''bob@y.org'' ''shop@x.org'' (rv_subject v) ''thanks'' None (Some mid) []
      (world_with empty_fs (Suc 0)) = (Inr raw, (world_with f 6)\<lparr>sy_db := ?d\<rparr>)"
    by (simp add: send_reply_def env f Let_def flip: raw_def)
  obtain reply d' where ins: "insert_reply (''q'' @ show_nat 7) 100 ''e1'' ''thanks'' (Some mid) (Some (''q'' @ show_nat 6)) ?d = (Inr reply, d')"
    using ins by blast
  have "\<exists>s'. store_reply sample_app ''e1'' ''thanks'' mid [] raw ((world_with f 6)\<lparr>sy_db := ?d\<rparr>) = (Inr (ReplySent reply []), s')"
    using g ins by (simp add: store_reply_def f6 app now on_db_def del: show_nat.simps append.simps)
  then show ?thesis
    using sent by (intro exI [of _ reply]) (simp add: w process_reply_def v a o q0 app mid_def Let_def)
qed


end
