(* ===== verification/Web_Names.thy ===== *)
theory Web_Names
  imports Rust_Prelude
begin

text \<open>
  The names suggested for aliases: the word lists and \<open>generate_name\<close> of \<open>src/src/web/names.rs\<close>.

  The random generator is the list of its draws; a draw is what one round of the loop takes from it.  The draws
  run out only in the model, so \<open>None\<close> says that more of them were needed.
\<close>

section \<open>The words\<close>

definition left_words :: "string list" where
  "left_words = [
    ''admiring'', ''adoring'', ''affectionate'', ''agitated'', ''amazing'', ''angry'', ''asymmetric'',
    ''awesome'', ''beautiful'', ''blissful'', ''bold'', ''boring'', ''brave'', ''busy'', ''charming'',
    ''clever'', ''cool'', ''compassionate'', ''competent'', ''concurrent'', ''condescending'', ''confident'',
    ''cranky'', ''crazy'', ''cybernetic'', ''dazzling'', ''determined'', ''deterministic'', ''distracted'',
    ''dreamy'', ''eager'', ''ecstatic'', ''elastic'', ''elated'', ''elegant'', ''eloquent'', ''epic'',
    ''exciting'', ''fervent'', ''festive'', ''flamboyant'', ''focused'', ''friendly'', ''frosty'', ''funny'',
    ''gallant'', ''gifted'', ''goofy'', ''gracious'', ''great'', ''happy'', ''hardcore'', ''heuristic'',
    ''hopeful'', ''hungry'', ''immutable'', ''infallible'', ''inspiring'', ''intelligent'', ''interesting'',
    ''jolly'', ''jovial'', ''keen'', ''kind'', ''laughing'', ''loving'', ''lucid'', ''magical'',
    ''mystifying'', ''modest'', ''musing'', ''naughty'', ''nervous'', ''neural'', ''nice'', ''nifty'',
    ''nostalgic'', ''objective'', ''optimistic'', ''peaceful'', ''pedantic'', ''pensive'', ''practical'',
    ''priceless'', ''quantum'', ''quirky'', ''quizzical'', ''recursing'', ''recursive'', ''relaxed'',
    ''reverent'', ''romantic'', ''sad'', ''serene'', ''sharp'', ''silly'', ''sleepy'', ''stoic'', ''strange'',
    ''stupefied'', ''suspicious'', ''sweet'', ''tender'', ''thirsty'', ''trusting'', ''unruffled'', ''upbeat'',
    ''vibrant'', ''vigilant'', ''vigorous'', ''wizardly'', ''wonderful'', ''xenodochial'', ''youthful'',
    ''zealous'', ''zen'']"

definition right_words_1 :: "string list" where
  "right_words_1 = [
    ''agnesi'', ''albattani'', ''allen'', ''almeida'', ''antonelli'', ''archimedes'', ''ardinghelli'',
    ''aryabhata'', ''austin'', ''babbage'', ''banach'', ''banzai'', ''bardeen'', ''bartik'', ''bassi'',
    ''beaver'', ''bell'', ''bengio'', ''benz'', ''bernerslee'', ''bhabha'', ''bhaskara'', ''black'',
    ''blackburn'', ''blackwell'', ''bohr'', ''booth'', ''borg'', ''bose'', ''bouman'', ''boyd'',
    ''brahmagupta'', ''brattain'', ''brown'', ''buck'', ''burnell'', ''cannon'', ''carson'', ''cartwright'',
    ''carver'', ''cerf'', ''chandrasekhar'', ''chaplygin'', ''chatelet'', ''chatterjee'', ''chaum'',
    ''chebyshev'', ''clarke'', ''cohen'', ''colden'', ''cori'', ''cray'', ''curran'', ''curie'', ''darwin'',
    ''davinci'', ''dewdney'', ''dhawan'', ''diffie'', ''dijkstra'', ''dirac'', ''driscoll'', ''dubinsky'',
    ''easley'', ''edison'', ''einstein'', ''elbakyan'', ''elgamal'', ''elion'', ''ellis'', ''engelbart'',
    ''euclid'', ''euler'', ''faraday'', ''feistel'', ''fermat'', ''fermi'', ''feynman'', ''franklin'',
    ''gagarin'', ''galileo'', ''galois'', ''ganguly'', ''gates'', ''gauss'', ''germain'', ''goldberg'',
    ''goldstine'', ''goldwasser'', ''golick'', ''goodall'', ''gould'', ''greider'', ''grothendieck'',
    ''haibt'', ''hamilton'', ''haslett'', ''hassabis'', ''hawking'', ''hellman'', ''heisenberg'', ''hermann'',
    ''herschel'', ''hertz'', ''heyrovsky'', ''hinton'', ''hodgkin'', ''hofstadter'', ''hoover'', ''hopper'',
    ''hugle'', ''hypatia'', ''ishizaka'', ''jackson'', ''jang'', ''jemison'', ''jennings'', ''jepsen'',
    ''johnson'', ''joliot'', ''jones'', ''kalam'']"

definition right_words_2 :: "string list" where
  "right_words_2 = [
    ''kapitsa'', ''kare'', ''karpathy'', ''keldysh'', ''keller'', ''kepler'', ''khayyam'', ''khorana'',
    ''kilby'', ''kirch'', ''knuth'', ''kowalevski'', ''lalande'', ''lamarr'', ''lamport'', ''leakey'',
    ''leavitt'', ''lecun'', ''lederberg'', ''lehmann'', ''lewin'', ''lichterman'', ''liskov'', ''lovelace'',
    ''lumiere'', ''mahavira'', ''margulis'', ''matsumoto'', ''maxwell'', ''mayer'', ''mccarthy'',
    ''mcclintock'', ''mclaren'', ''mclean'', ''mcnulty'', ''mendel'', ''mendeleev'', ''meitner'', ''meninsky'',
    ''merkle'', ''mestorf'', ''minsky'', ''mirzakhani'', ''montalcini'', ''moore'', ''morse'', ''murdock'',
    ''moser'', ''napier'', ''nash'', ''neumann'', ''newton'', ''nightingale'', ''nobel'', ''noether'',
    ''northcutt'', ''noyce'', ''panini'', ''pare'', ''pascal'', ''pasteur'', ''payne'', ''perlman'', ''pike'',
    ''poincare'', ''poitras'', ''proskuriakova'', ''ptolemy'', ''raman'', ''ramanujan'', ''ride'', ''ritchie'',
    ''rhodes'', ''robinson'', ''roentgen'', ''rosalind'', ''rubin'', ''saha'', ''sammet'', ''sanderson'',
    ''satoshi'', ''shamir'', ''shannon'', ''shaw'', ''shirley'', ''shockley'', ''shtern'', ''sinoussi'',
    ''snyder'', ''solomon'', ''spence'', ''stonebraker'', ''sutherland'', ''swanson'', ''swartz'', ''swirles'',
    ''taussig'', ''tereshkova'', ''tesla'', ''tharp'', ''thompson'', ''torvalds'', ''tu'', ''turing'',
    ''varahamihira'', ''vaughan'', ''villani'', ''visvesvaraya'', ''volhard'', ''wescoff'', ''wilbur'',
    ''wiles'', ''williams'', ''williamson'', ''wilson'', ''wing'', ''wozniak'', ''wright'', ''wu'', ''yalow'',
    ''yonath'', ''zhukovsky'']"

definition right_words :: "string list" where
  "right_words = right_words_1 @ right_words_2"

section \<open>The generator\<close>

record name_draw =
  nd_left :: nat
  nd_right :: nat
  nd_dot :: bool
  nd_num :: nat

definition pick :: "'a list \<Rightarrow> nat \<Rightarrow> 'a" where
  "pick xs i = xs ! (i mod length xs)"

fun generate_name :: "name_draw list \<Rightarrow> (string \<times> name_draw list) option" where
  "generate_name [] = None"
| "generate_name (r # rs) =
     (let left = pick left_words (nd_left r);
          right = pick right_words (nd_right r)
      in if left = ''boring'' \<and> right = ''wozniak'' then generate_name rs
         else (let sep = (if nd_dot r then ''.'' else ''-'');
                   num = 1 + nd_num r mod 9999;
                   name = left @ sep @ right @ sep @ show_nat num
               in if length name \<le> 32 then Some (name, rs) else generate_name rs))"

end
