(* ===== verification/Web_Aliases.thy ===== *)
theory Web_Aliases
  imports Web_Auth Web_Names Db_Aliases
begin

text \<open>
  Aliases on the web: validation and creation (\<open>src/src/web/alias_api.rs\<close>), the pages, suggestions, deletion and
  toggles of \<open>handlers.rs\<close>, and the administrator's toggles of \<open>admin_handlers.rs\<close>.

  Pages are the data of their templates; texts of the locale are named by their key.
\<close>

section \<open>Which names are aliases\<close>

datatype alias_error = TooLong | Reserved | InvalidFormat

definition lower_alnum :: "char \<Rightarrow> bool" where
  "lower_alnum c = ((97 \<le> code_point c \<and> code_point c \<le> 122) \<or> (48 \<le> code_point c \<and> code_point c \<le> 57))"

text \<open>The regular expression \<open>^[a-z0-9][a-z0-9.-]*[a-z0-9]$|^[a-z0-9]$\<close>.\<close>

definition alias_regex :: "string \<Rightarrow> bool" where
  "alias_regex s = (case s of
     [] \<Rightarrow> False
   | c # cs \<Rightarrow> lower_alnum c \<and> lower_alnum (last s) \<and>
       list_all (\<lambda>c. lower_alnum c \<or> c = CHR ''.'' \<or> c = CHR ''-'') cs)"

definition banned_aliases :: "string list" where
  "banned_aliases = [
    ''admin'', ''administrator'', ''root'', ''postmaster'', ''webmaster'', ''hostmaster'', ''security'', ''support'',
    ''billing'', ''abuse'', ''mailer-daemon'', ''sysadmin'', ''noc'', ''dns'', ''host'',
    ''compliance'', ''legal'', ''privacy'', ''dpo'', ''secure'', ''proxy'',
    ''sales'', ''contact'', ''info'', ''marketing'', ''newsletter'', ''media'', ''press'', ''jobs'', ''careers'', ''hr'',
    ''office'',
    ''api'', ''dev'', ''web'', ''mail'', ''help'', ''staff'', ''system'', ''no-reply'', ''noreply'', ''do-not-reply'',
    ''notification'', ''alert'',
    ''verify'', ''auth'', ''login'', ''sso'', ''account'', ''payment'']"

definition validate_alias :: "string \<Rightarrow> bool \<Rightarrow> alias_error + unit" where
  "validate_alias subdomain is_admin =
     (if subdomain = [] \<or> length subdomain > 32 then Err TooLong
      else if \<not> alias_regex subdomain then Err InvalidFormat
      else if \<not> is_admin \<and> to_lowercase subdomain \<in> set banned_aliases then Err Reserved
      else Ok ())"

section \<open>Suggestions\<close>

text \<open>The loop draws names until it has fifty different ones.\<close>

fun gather_candidates :: "nat \<Rightarrow> string list \<Rightarrow> name_draw list \<Rightarrow> string list option" where
  "gather_candidates 0 acc draws = (if 50 \<le> length acc then Some acc else None)"
| "gather_candidates (Suc fuel) acc draws =
     (if 50 \<le> length acc then Some acc
      else (case generate_name draws of
          None \<Rightarrow> None
        | Some (cand, draws) \<Rightarrow>
            gather_candidates fuel (if cand \<in> set acc then acc else acc @ [cand]) draws))"

definition taken_subdomains :: "uuid \<Rightarrow> string list \<Rightarrow> string list dbm" where
  "taken_subdomains domain_id cands = query (\<lambda>d.
     map al_subdomain (filter (\<lambda>a. al_domain_id a = domain_id \<and> al_subdomain a \<in> set cands) (t_aliases d)))"

text \<open>\<open>generated\<close> are the fifty names of the loop.\<close>

definition generate_corporate_suggestions :: "string list \<Rightarrow> uuid \<Rightarrow> db \<Rightarrow> string list \<times> db" where
  "generate_corporate_suggestions generated domain_id d =
     (let pool_candidates = generated @ [''inquiries'', ''contact'']
      in case or_default [] (taken_subdomains domain_id pool_candidates) d of (taken, d) \<Rightarrow>
        (take 8 (filter (\<lambda>c. c \<notin> set taken) pool_candidates), d))"

section \<open>Pages\<close>

abbreviation max_aliases_per_user :: nat where "max_aliases_per_user \<equiv> 4"

record aliases_template =
  lt_aliases :: "alias_view list"
  lt_domains :: "domain_row list"
  lt_suggestions :: "string list"
  lt_error :: "string option"
  lt_max_aliases :: nat
  lt_can_bypass_limit :: bool

definition aliases_page :: "string list \<Rightarrow> authenticated_user \<Rightarrow> db \<Rightarrow> aliases_template \<times> db" where
  "aliases_page generated user d =
     (case or_default [] (get_aliases_by_user_id (au_user_id user)) d of (aliases, d) \<Rightarrow>
      case or_default [] get_domains d of (domains, d) \<Rightarrow>
      case (case domains of
          [] \<Rightarrow> ([], d)
        | m # _ \<Rightarrow> generate_corporate_suggestions generated (dm_id m) d) of (suggestions, d) \<Rightarrow>
        (\<lparr>lt_aliases = aliases, lt_domains = domains, lt_suggestions = suggestions, lt_error = None,
          lt_max_aliases = max_aliases_per_user, lt_can_bypass_limit = can_bypass_alias_limit user\<rparr>, d))"

text \<open>The page a refused creation goes back to.\<close>

definition refused_alias :: "string list \<Rightarrow> authenticated_user \<Rightarrow> uuid \<Rightarrow> string \<Rightarrow> db \<Rightarrow> aliases_template \<times> db" where
  "refused_alias generated user domain_id err d =
     (case or_default [] (get_aliases_by_user_id (au_user_id user)) d of (aliases, d) \<Rightarrow>
      case or_default [] get_domains d of (domains, d) \<Rightarrow>
      case generate_corporate_suggestions generated domain_id d of (suggestions, d) \<Rightarrow>
        (\<lparr>lt_aliases = aliases, lt_domains = domains, lt_suggestions = suggestions, lt_error = Some err,
          lt_max_aliases = max_aliases_per_user, lt_can_bypass_limit = can_bypass_alias_limit user\<rparr>, d))"

section \<open>Creating an alias\<close>

record create_alias_request =
  ca_domain_id :: uuid
  ca_subdomain :: "string option"
  ca_custom_subdomain :: "string option"
  ca_auto_forward :: bool

datatype create_alias_reply = AliasRefused aliases_template | AliasUserMissing | AliasCreated

definition requested_subdomain :: "create_alias_request \<Rightarrow> string" where
  "requested_subdomain payload = (case ca_custom_subdomain payload of
     Some (c # cs) \<Rightarrow> c # cs
   | _ \<Rightarrow> unwrap_or ''info'' (ca_subdomain payload))"

fun alias_error_text :: "alias_error \<Rightarrow> string" where
  "alias_error_text TooLong = ''error_alias_too_long''"
| "alias_error_text Reserved = ''error_alias_reserved''"
| "alias_error_text InvalidFormat = ''error_alias_invalid_format''"

definition refuse_alias :: "string list \<Rightarrow> authenticated_user \<Rightarrow> uuid \<Rightarrow> string \<Rightarrow> db \<Rightarrow> create_alias_reply \<times> db" where
  "refuse_alias generated user domain_id err d =
     (case refused_alias generated user domain_id err d of (p, d) \<Rightarrow> (AliasRefused p, d))"

text \<open>Before the insert: the limit, the name, and whether it is free.\<close>

definition check_alias ::
  "string list \<Rightarrow> authenticated_user \<Rightarrow> create_alias_request \<Rightarrow> db \<Rightarrow> (create_alias_reply + string) \<times> db" where
  "check_alias generated user payload d =
     (case (if can_bypass_alias_limit user then (0, d) else or_default 0 (get_alias_count (au_user_id user)) d) of
        (cnt, d) \<Rightarrow>
      if \<not> can_bypass_alias_limit user \<and> cnt \<ge> max_aliases_per_user
      then map_prod Inl id (refuse_alias generated user (ca_domain_id payload) ''error_alias_limit_reached'' d)
      else (let subdomain = requested_subdomain payload
            in case validate_alias subdomain (au_is_admin user) of
                 Inl e \<Rightarrow> map_prod Inl id (refuse_alias generated user (ca_domain_id payload) (alias_error_text e) d)
               | Inr _ \<Rightarrow>
                   (case or_default False (is_subdomain_available (ca_domain_id payload) subdomain) d of (free, d) \<Rightarrow>
                    if \<not> free
                    then map_prod Inl id (refuse_alias generated user (ca_domain_id payload) ''error_alias_taken'' d)
                    else (Ok subdomain, d))))"

definition store_alias ::
  "string list \<Rightarrow> uuid \<Rightarrow> time \<Rightarrow> authenticated_user \<Rightarrow> create_alias_request \<Rightarrow> string \<Rightarrow> db \<Rightarrow> create_alias_reply \<times> db" where
  "store_alias generated fresh now user payload subdomain d =
     (case get_user_by_id (au_user_id user) d of
        (Inr (Some user_record), d) \<Rightarrow>
          (case insert_alias fresh now (au_user_id user) (ca_domain_id payload) subdomain (us_email user_record)
              (ca_auto_forward payload) d of
             (Inl _, d) \<Rightarrow> refuse_alias generated user (ca_domain_id payload) ''error_alias_taken'' d
           | (Inr _, d) \<Rightarrow> (AliasCreated, d))
      | (_, d) \<Rightarrow> (AliasUserMissing, d))"

definition create_alias_handler ::
  "string list \<Rightarrow> uuid \<Rightarrow> time \<Rightarrow> authenticated_user \<Rightarrow> create_alias_request \<Rightarrow> db \<Rightarrow> create_alias_reply \<times> db" where
  "create_alias_handler generated fresh now user payload d =
     (case check_alias generated user payload d of
        (Inl refusal, d) \<Rightarrow> (refusal, d)
      | (Inr subdomain, d) \<Rightarrow> store_alias generated fresh now user payload subdomain d)"

section \<open>Deleting and toggling\<close>

definition delete_alias_handler :: "uuid \<Rightarrow> authenticated_user \<Rightarrow> db \<Rightarrow> nat \<times> db" where
  "delete_alias_handler alias_id user d = (case delete_alias_by_id alias_id (au_user_id user) d of
     (Inr _, d) \<Rightarrow> (200, d) | (Inl _, d) \<Rightarrow> (500, d))"

record modal_template =
  mt_title :: string
  mt_message :: string
  mt_action_label :: string
  mt_cancel_label :: string
  mt_action_url :: string
  mt_action_method :: string
  mt_action_color :: string
  mt_target :: string
  mt_swap :: string
  mt_include_target :: "string option"

text \<open>The cell a toggle renders: whether it is checked, its class, and the address it posts to.\<close>

record toggle_cell =
  tc_checked :: bool
  tc_status_class :: string
  tc_status_text :: string
  tc_post_url :: string

definition render_toggle_td :: "bool \<Rightarrow> string \<Rightarrow> string \<Rightarrow> string \<Rightarrow> toggle_cell" where
  "render_toggle_td is_enabled post_url status_yes status_no =
     \<lparr>tc_checked = is_enabled,
      tc_status_class = (if is_enabled then ''maileroo-status-enabled'' else ''maileroo-status-disabled''),
      tc_status_text = (if is_enabled then status_yes else status_no), tc_post_url = post_url\<rparr>"

definition toggle_alias_forward_handler :: "uuid \<Rightarrow> bool \<Rightarrow> authenticated_user \<Rightarrow> db \<Rightarrow> (nat + toggle_cell) \<times> db" where
  "toggle_alias_forward_handler alias_id auto_forward user d =
     (case update_alias_auto_forward alias_id (au_user_id user) auto_forward d of
        (Inr _, d) \<Rightarrow> (Ok (render_toggle_td auto_forward (''/aliases/'' @ alias_id @ ''/toggle-forward'')
          ''status_enabled'' ''status_disabled''), d)
      | (Inl _, d) \<Rightarrow> (Err 500, d))"

definition alias_suggestions_handler :: "(string \<Rightarrow> uuid option) \<Rightarrow> string list \<Rightarrow> string option \<Rightarrow> db \<Rightarrow> string list option \<times> db" where
  "alias_suggestions_handler parse_uuid generated param d =
     (case Option.bind param parse_uuid of
        Some did \<Rightarrow> map_prod Some id (generate_corporate_suggestions generated did d)
      | None \<Rightarrow> (None, d))"

section \<open>The administrator's toggles\<close>

definition admin_users_handler :: "authenticated_user \<Rightarrow> db \<Rightarrow> (user_with_stats list \<times> bool) \<times> db" where
  "admin_users_handler user d = (case or_default [] get_all_users_with_stats d of
     (users, d) \<Rightarrow> ((users, au_is_admin user), d))"

definition toggle_reply :: "string \<Rightarrow> uuid \<Rightarrow> (sqlx_error + bool) \<times> db \<Rightarrow> (nat + toggle_cell) \<times> db" where
  "toggle_reply what target_user_id rd = (case rd of
     (Inr new_val, d) \<Rightarrow> (Ok (render_toggle_td new_val (''/admin/users/'' @ target_user_id @ ''/'' @ what)
       ''status_yes'' ''status_no''), d)
   | (Inl _, d) \<Rightarrow> (Err 500, d))"

definition toggle_bypass_limit_handler :: "uuid \<Rightarrow> authenticated_user \<Rightarrow> db \<Rightarrow> (nat + toggle_cell) \<times> db" where
  "toggle_bypass_limit_handler target_user_id admin d =
     toggle_reply ''bypass_limit'' target_user_id (toggle_bypass_alias_limit target_user_id d)"

definition toggle_disable_autoclean_handler :: "uuid \<Rightarrow> authenticated_user \<Rightarrow> db \<Rightarrow> (nat + toggle_cell) \<times> db" where
  "toggle_disable_autoclean_handler target_user_id admin d =
     toggle_reply ''disable_autoclean'' target_user_id (toggle_disable_autoclean target_user_id d)"

definition toggle_can_send_firsthand_handler :: "uuid \<Rightarrow> authenticated_user \<Rightarrow> db \<Rightarrow> (nat + toggle_cell) \<times> db" where
  "toggle_can_send_firsthand_handler target_user_id admin d =
     toggle_reply ''can_send_firsthand'' target_user_id (toggle_can_send_firsthand target_user_id d)"



section \<open>Generated names are aliases\<close>

definition lower_word :: "string \<Rightarrow> bool" where
  "lower_word w = (w \<noteq> [] \<and> length w \<le> 13 \<and> list_all (\<lambda>c. 97 \<le> code_point c \<and> code_point c \<le> 122) w)"

lemma left_lower: "list_all lower_word left_words"
  by (simp add: lower_word_def left_words_def code_point_def)

lemma right_lower_1: "list_all lower_word right_words_1"
  by (simp add: lower_word_def right_words_1_def code_point_def)

lemma right_lower_2: "list_all lower_word right_words_2"
  by (simp add: lower_word_def right_words_2_def code_point_def)

lemma pick_in: "xs \<noteq> [] \<Longrightarrow> pick xs i \<in> set xs"
  by (simp add: pick_def)

lemma picked_words: "lower_word (pick left_words i)" "lower_word (pick right_words i)"
proof -
  have "left_words \<noteq> []" "right_words \<noteq> []" by (simp_all add: left_words_def right_words_def right_words_1_def)
  then have "pick left_words i \<in> set left_words" "pick right_words i \<in> set right_words" by (simp_all add: pick_in)
  then show "lower_word (pick left_words i)" "lower_word (pick right_words i)"
    using left_lower right_lower_1 right_lower_2 by (auto simp: right_words_def list_all_iff)
qed

lemma picked_left: "pick left_words i \<in> set left_words"
  by (rule pick_in) (simp add: left_words_def)

lemma no_reply_word: "list_all (\<lambda>w. \<not> starts_with ''reply-'' (w @ s)) left_words"
  by (simp add: left_words_def)

lemma length_show_nat: "n < 10 ^ k \<Longrightarrow> 0 < k \<Longrightarrow> length (show_nat n) \<le> k"
proof (induction n arbitrary: k rule: show_nat.induct)
  case (1 n)
  show ?case
  proof (cases "n < 10")
    case True
    then show ?thesis using 1(3) by (subst show_nat.simps) simp
  next
    case False
    obtain j where "k = Suc j" using 1(3) by (cases k) auto
    then have k: "k = Suc j" "0 < j" using 1(2) False by (auto intro: Nat.gr0I)
    have "n div 10 < 10 ^ j" using 1(2) k by (simp add: div_less_iff_less_mult mult.commute)
    from 1(1) [OF False this k(2)] False k show ?thesis by (subst show_nat.simps) simp
  qed
qed

lemma banned_end_in_letters: "list_all (\<lambda>w. \<not> is_digit (last w)) banned_aliases"
  by (simp add: banned_aliases_def is_digit_def code_point_def)

lemma lower_alnum_iff: "lower_alnum c \<longleftrightarrow> is_lower c \<or> is_digit c"
  by (simp add: lower_alnum_def is_lower_def is_digit_def)

definition name_of :: "string \<Rightarrow> string \<Rightarrow> string \<Rightarrow> nat \<Rightarrow> string" where
  "name_of left sep right num = left @ sep @ right @ sep @ show_nat num"

lemma name_of_valid:
  assumes l: "lower_word l" and r: "lower_word r" and sep: "sep = ''.'' \<or> sep = ''-''" and num: "num \<le> 9999"
  shows "length (name_of l sep r num) \<le> 32" "validate_alias (name_of l sep r num) adm = Inr ()"
proof -
  let ?n = "name_of l sep r num"
  have "length (show_nat num) \<le> 4" using num by (intro length_show_nat) simp_all
  then show len: "length ?n \<le> 32" using l r sep by (auto simp: name_of_def lower_word_def)
  have last: "is_digit (last ?n)"
    using show_nat_digits [of "last (show_nat num)" num] by (simp add: name_of_def)
  have chars: "lower_alnum c \<or> c = CHR ''.'' \<or> c = CHR ''-''" if "c \<in> set ?n" for c
    using that l r sep show_nat_digits
    by (auto simp: name_of_def lower_word_def lower_alnum_iff is_lower_def list_all_iff)
  obtain c cs where n: "?n = c # cs" and c: "is_lower c"
    using l by (cases l) (auto simp: name_of_def lower_word_def is_lower_def)
  have rx: "alias_regex ?n"
    using last c chars unfolding n by (simp add: alias_regex_def lower_alnum_iff list_all_iff)
  have "lower_char c' = c'" if "c' \<in> set ?n" for c'
    using chars [OF that] by (elim disjE) (simp_all add: lower_char_def lower_alnum_iff is_upper_def is_lower_def is_digit_def code_point_def, linarith?)
  then have "to_lowercase ?n = ?n" by (simp add: to_lowercase_def map_idI)
  then have "to_lowercase ?n \<notin> set banned_aliases" using last banned_end_in_letters by (auto simp: list_all_iff)
  with len rx n show "validate_alias ?n adm = Inr ()" by (simp add: validate_alias_def)
qed

lemma generate_name_form:
  "generate_name rs = Some (name, rest) \<Longrightarrow>
   \<exists>l r sep num. name = name_of l sep r num \<and> lower_word l \<and> lower_word r \<and> (sep = ''.'' \<or> sep = ''-'') \<and>
     num \<le> 9999 \<and> l \<in> set left_words"
proof (induction rs rule: generate_name.induct)
  case (2 d rs)
  let ?l = "pick left_words (nd_left d)" and ?r = "pick right_words (nd_right d)" and ?num = "1 + nd_num d mod 9999"
  let ?sep = "if nd_dot d then ''.'' else ''-''"
  show ?case
  proof (cases "?l = ''boring'' \<and> ?r = ''wozniak''")
    case True
    with 2 show ?thesis by simp
  next
    case False
    have num: "?num \<le> 9999" by (simp add: Suc_le_eq)
    have "length (name_of ?l ?sep ?r ?num) \<le> 32"
      by (rule name_of_valid(1) [OF picked_words(1) picked_words(2) _ num]) simp
    then have "name = name_of ?l ?sep ?r ?num"
      using 2(3) False by (simp add: Let_def name_of_def split: if_splits)
    then show ?thesis using num picked_words picked_left by (intro exI [of _ ?l] exI [of _ ?r] exI [of _ ?sep] exI [of _ ?num]) simp
  qed
qed simp


section \<open>What creating an alias does\<close>

lemma or_default_calm:
  "db_faults d = [] \<Longrightarrow> or_default x (query f) d = (f d, d)"
  by (simp add: or_default_def no_fault_simps)

lemma suggestions_calm: "db_faults d = [] \<Longrightarrow> snd (generate_corporate_suggestions generated i d) = d"
  by (simp add: generate_corporate_suggestions_def taken_subdomains_def or_default_calm Let_def)

lemma refuse_alias_calm:
  "db_faults d = [] \<Longrightarrow> refuse_alias generated user i err d = (AliasRefused (fst (refused_alias generated user i err d)), d)"
  by (simp add: refuse_alias_def refused_alias_def get_aliases_by_user_id_def get_domains_def or_default_calm
      suggestions_calm case_prod_unfold)

lemma inserted_alias_found:
  "violation (alias_constraints a d) = None \<Longrightarrow> filter (\<lambda>(b, m). al_id b = al_id a) (alias_domains (add_alias a d)) \<noteq> []"
  by (auto simp: alias_domains_def add_alias_def alias_constraints_def has_iff filter_empty_conv split: if_splits)

lemma insert_alias_calm:
  assumes "db_faults d = []" "insert_alias i now u m sub dest fwd d = (r, d')"
  shows "case r of Inl _ \<Rightarrow> d' = d \<and> violation (alias_constraints (new_alias i now u m sub dest fwd) d) \<noteq> None
    | Inr _ \<Rightarrow> d' = add_alias (new_alias i now u m sub dest fwd) d \<and>
    violation (alias_constraints (new_alias i now u m sub dest fwd) d) = None"
proof -
  let ?a = "new_alias i now u m sub dest fwd"
  have same: "d\<lparr>db_faults := []\<rparr> = d" "tl (db_faults d) = []" using assms(1) by (cases d, simp)+
  show ?thesis
  proof (cases "violation (alias_constraints ?a d)")
    case (Some e)
    with assms show ?thesis
      by (cases "backend d") (auto simp: insert_alias_def Let_def no_fault_simps db_bind_def stmt_def same)
  next
    case None
    from inserted_alias_found [OF None] have "filter (\<lambda>(b, m). al_id b = i) (alias_domains (add_alias ?a d)) \<noteq> []"
      by (simp add: new_alias_def)
    then obtain x xs where f: "filter (\<lambda>(b, m). al_id b = i) (alias_domains (add_alias ?a d)) = x # xs" by (meson list.exhaust)
    have "has dm_id (t_domains d) m" using None by (simp add: alias_constraints_def new_alias_def split: if_splits)
    then have "alias_domains_of d ?a \<noteq> []" by (auto simp: alias_domains_of_def has_iff filter_empty_conv new_alias_def)
    then obtain y ys where g: "alias_domains_of d ?a = y # ys" by (meson list.exhaust)
    have calm: "db_faults (add_alias ?a d) = []" using assms(1) by (simp add: add_alias_def)
    show ?thesis
    proof (cases "backend d")
      case Postgres
      with assms None g show ?thesis by (auto simp: insert_alias_def Let_def stmt_def same)
    next
      case Sqlite
      with assms None f show ?thesis
        by (auto simp: insert_alias_def Let_def no_fault_simps [OF assms(1)] no_fault_simps [OF calm] db_bind_def)
    qed
  qed
qed

text \<open>C35: What creating an alias does, without failures of the database: on success there is exactly one more alias, of
  the user, active, under the requested name, forwarding to the user's own address; the name is valid for the user and
  was free in its domain, and a user without the permission had fewer than four aliases. Whatever else the answer is,
  the database is as before.\<close>
theorem create_alias_outcome:
  assumes calm: "db_faults d = []"
    and run: "create_alias_handler generated fresh now user payload d = (r, d')"
  shows "case r of
      AliasCreated \<Rightarrow>
        (\<exists>row sub. row \<in> set (t_users d) \<and> us_id row = au_user_id user \<and> sub = requested_subdomain payload \<and>
           d' = add_alias (new_alias fresh now (au_user_id user) (ca_domain_id payload) sub (us_email row) (ca_auto_forward payload)) d \<and>
           validate_alias sub (au_is_admin user) = Inr () \<and>
           \<not> list_ex (\<lambda>a. al_domain_id a = ca_domain_id payload \<and> al_subdomain a = sub) (t_aliases d)) \<and>
        (can_bypass_alias_limit user \<or> length (filter (\<lambda>a. al_user_id a = au_user_id user) (t_aliases d)) < 4)
    | _ \<Rightarrow> d' = d"
proof -
  have check: "(case x of Inl _ \<Rightarrow> True | Inr sub \<Rightarrow> sub = requested_subdomain payload \<and>
        validate_alias sub (au_is_admin user) = Inr () \<and>
        \<not> list_ex (\<lambda>a. al_domain_id a = ca_domain_id payload \<and> al_subdomain a = sub) (t_aliases d) \<and>
        (can_bypass_alias_limit user \<or> length (filter (\<lambda>a. al_user_id a = au_user_id user) (t_aliases d)) < 4)) \<and>
      (\<forall>refusal. x = Inl refusal \<longrightarrow> refusal \<noteq> AliasCreated) \<and> d1 = d"
    if c: "check_alias generated user payload d = (x, d1)" for x d1
  proof -
    show ?thesis
      using c calm by (auto simp: check_alias_def get_alias_count_def is_subdomain_available_def or_default_calm refuse_alias_calm [OF calm] Let_def
          split: if_splits sum.splits)
  qed
  obtain x d1 where c: "check_alias generated user payload d = (x, d1)" by fastforce
  note chk = check [OF c]
  show ?thesis
  proof (cases x)
    case (Inl refusal)
    with chk run c show ?thesis by (cases refusal) (auto simp: create_alias_handler_def)
  next
    case (Inr sub)
    obtain ur d2 where g: "get_user_by_id (au_user_id user) d = (ur, d2)" by fastforce
    have d2: "d2 = d" using g calm by (simp add: get_user_by_id_def no_fault_simps)
    show ?thesis
    proof (cases "\<exists>row. ur = Inr (Some row)")
      case False
      then have "store_alias generated fresh now user payload sub d = (AliasUserMissing, d)"
        using g d2 by (auto simp: store_alias_def split: sum.splits option.splits)
      with Inr chk run c show ?thesis by (auto simp: create_alias_handler_def)
    next
      case True
      then obtain row where ur: "ur = Inr (Some row)" by blast
      from user_by_id_Ok [OF g [unfolded ur]] have row: "row \<in> set (t_users d)" "us_id row = au_user_id user" by auto
      obtain r1 d3 where i: "insert_alias fresh now (au_user_id user) (ca_domain_id payload) sub (us_email row) (ca_auto_forward payload) d = (r1, d3)"
        by fastforce
      note ins = insert_alias_calm [OF calm i]
      from Inr chk run c g ur d2 i ins row show ?thesis
        by (cases r1) (auto simp: create_alias_handler_def store_alias_def refuse_alias_calm [OF calm])
    qed
  qed
qed

definition own_aliases :: "uuid \<Rightarrow> db \<Rightarrow> nat" where
  "own_aliases user_id d = length (filter (\<lambda>a. al_user_id a = user_id) (t_aliases d))"

lemma store_alias_calm:
  assumes "db_faults d = []" "store_alias generated i now user payload sub d = (AliasCreated, d')"
  shows "db_faults d' = [] \<and> own_aliases (au_user_id user) d' = Suc (own_aliases (au_user_id user) d)"
proof -
  obtain row d1 where g: "get_user_by_id (au_user_id user) d = (Inr (Some row), d1)" and
    i: "\<exists>v. insert_alias i now (au_user_id user) (ca_domain_id payload) sub (us_email row) (ca_auto_forward payload) d1 = (Inr v, d')"
    using assms(2) refuse_alias_calm
    by (auto simp: store_alias_def refuse_alias_def split: prod.splits sum.splits option.splits)
  have d1: "d1 = d" using g assms(1) by (simp add: get_user_by_id_def no_fault_simps)
  from i obtain v where v: "insert_alias i now (au_user_id user) (ca_domain_id payload) sub (us_email row) (ca_auto_forward payload) d = (Inr v, d')"
    unfolding d1 by blast
  from insert_alias_calm [OF assms(1) v] assms(1) show ?thesis by (simp add: own_aliases_def add_alias_def new_alias_def)
qed

lemma check_alias_calm: "db_faults d = [] \<Longrightarrow> check_alias generated user payload d = (x, d') \<Longrightarrow> d' = d"
  by (auto simp: check_alias_def get_alias_count_def is_subdomain_available_def or_default_calm refuse_alias_calm Let_def
      split: if_splits sum.splits)

text \<open>The limit of aliases holds for one request at a time only. The handler counts before it inserts; two requests of
  one user that both count before either inserts are both served, so a user with three aliases ends up with five.\<close>
theorem alias_limit_can_be_raced:
  assumes "db_faults d = []"
    and "check_alias g1 user p1 d = (Inr s1, d1)" "check_alias g2 user p2 d1 = (Inr s2, d2)"
    and "store_alias g1 i1 now1 user p1 s1 d2 = (AliasCreated, d3)" "store_alias g2 i2 now2 user p2 s2 d3 = (AliasCreated, d4)"
  shows "own_aliases (au_user_id user) d4 = own_aliases (au_user_id user) d + 2"
proof -
  have 1: "d1 = d" by (rule check_alias_calm [OF assms(1,2)])
  have 2: "d2 = d" using check_alias_calm [OF assms(1) assms(3) [unfolded 1]] .
  note s = store_alias_calm [OF assms(1) assms(4) [unfolded 2]]
  with store_alias_calm [OF conjunct1 [OF s] assms(5)] show ?thesis by simp
qed

section \<open>Samples\<close>

definition alias_user :: authenticated_user where
  "alias_user = \<lparr>au_user_id = ''u1'', au_is_admin = False, au_bypass_alias_limit = False, au_can_send_firsthand = False\<rparr>"

definition three_aliases :: db where
  "three_aliases = (sample_db Sqlite)\<lparr>t_aliases := [sample_alias ''a1'' ''u1'' ''shop'', sample_alias ''b1'' ''u1'' ''bank'',
     sample_alias ''b2'' ''u1'' ''club'', sample_alias ''a2'' ''u2'' ''news'']\<rparr>"

definition ask_for :: "string \<Rightarrow> create_alias_request" where
  "ask_for s = \<lparr>ca_domain_id = ''d1'', ca_subdomain = Some s, ca_custom_subdomain = None, ca_auto_forward = True\<rparr>"

definition more_aliases :: "alias_row list \<Rightarrow> db" where
  "more_aliases xs = three_aliases\<lparr>t_aliases := t_aliases three_aliases @ xs\<rparr>"

lemmas alias_samples = alias_user_def three_aliases_def ask_for_def more_aliases_def sample_defs

lemma more_calm: "db_faults (more_aliases xs) = []"
  by (simp add: alias_samples)

lemma sample_requests:
  "requested_subdomain (ask_for s) = s" "validate_alias ''one'' False = Inr ()" "validate_alias ''two'' False = Inr ()"
  by (simp_all add: requested_subdomain_def ask_for_def unwrap_or_def validate_alias_def alias_regex_def lower_alnum_def
      to_lowercase_def char_eval banned_aliases_def code_point_def)

lemma sample_check:
  "s = ''one'' \<or> s = ''two'' \<Longrightarrow> check_alias g alias_user (ask_for s) (more_aliases []) = (Inr s, more_aliases [])"
  by (elim disjE) (simp_all add: check_alias_def can_bypass_alias_limit_def get_alias_count_def is_subdomain_available_def
      or_default_calm more_calm sample_requests Let_def, simp_all add: alias_samples)

lemma sample_store:
  assumes "\<not> list_ex (\<lambda>a. al_id a = i \<or> al_subdomain a = s) (t_aliases (more_aliases xs))"
  shows "store_alias g i now alias_user (ask_for s) s (more_aliases xs) =
    (AliasCreated, more_aliases (xs @ [new_alias i now ''u1'' ''d1'' s ''u@x.org'' True]))"
proof -
  let ?a = "new_alias i now ''u1'' ''d1'' s ''u@x.org'' True"
  have u: "get_user_by_id ''u1'' (more_aliases xs) = (Inr (Some (sample_user ''u1'' ''u@x.org'')), more_aliases xs)"
    by (simp add: get_user_by_id_def no_fault_simps more_calm) (simp add: alias_samples)
  have v: "violation (alias_constraints ?a (more_aliases xs)) = None"
    using assms by (auto simp: alias_constraints_def has_iff new_alias_def list_ex_iff) (simp_all add: alias_samples)
  obtain r d' where i: "insert_alias i now ''u1'' ''d1'' s ''u@x.org'' True (more_aliases xs) = (r, d')" by fastforce
  have "\<exists>v. r = Inr v \<and> d' = more_aliases (xs @ [?a])"
    using insert_alias_calm [OF more_calm i] v by (cases r) (simp_all add: add_alias_def more_aliases_def)
  with u i show ?thesis by (auto simp: store_alias_def) (auto simp: alias_user_def ask_for_def sample_user_def)
qed

theorem create_alias_outcome_witness:
  "create_alias_handler [] ''n1'' 9 alias_user (ask_for ''one'') (more_aliases []) =
     (AliasCreated, more_aliases [new_alias ''n1'' 9 ''u1'' ''d1'' ''one'' ''u@x.org'' True]) \<and>
   own_aliases ''u1'' (more_aliases []) < 4"
proof -
  have "store_alias [] ''n1'' 9 alias_user (ask_for ''one'') ''one'' (more_aliases []) =
      (AliasCreated, more_aliases [new_alias ''n1'' 9 ''u1'' ''d1'' ''one'' ''u@x.org'' True])"
    using sample_store [of "''n1''" "''one''" "[]"] by (simp add: alias_samples)
  then have run: "create_alias_handler [] ''n1'' 9 alias_user (ask_for ''one'') (more_aliases []) =
      (AliasCreated, more_aliases [new_alias ''n1'' 9 ''u1'' ''d1'' ''one'' ''u@x.org'' True])"
    by (simp add: create_alias_handler_def sample_check)
  from create_alias_outcome [OF more_calm this] have "own_aliases ''u1'' (more_aliases []) < 4"
    by (simp add: can_bypass_alias_limit_def own_aliases_def alias_user_def)
  with run show ?thesis by simp
qed

theorem alias_limit_can_be_raced_witness:
  "\<exists>d. own_aliases ''u1'' (more_aliases []) = 3 \<and> own_aliases ''u1'' d = 5 \<and>
     (\<exists>d1. store_alias [] ''n1'' 9 alias_user (ask_for ''one'') ''one'' (more_aliases []) = (AliasCreated, d1) \<and>
        store_alias [] ''n2'' 9 alias_user (ask_for ''two'') ''two'' d1 = (AliasCreated, d))"
proof -
  let ?x = "new_alias ''n1'' 9 ''u1'' ''d1'' ''one'' ''u@x.org'' True" and ?y = "new_alias ''n2'' 9 ''u1'' ''d1'' ''two'' ''u@x.org'' True"
  have 1: "store_alias [] ''n1'' 9 alias_user (ask_for ''one'') ''one'' (more_aliases []) = (AliasCreated, more_aliases [?x])"
    using sample_store [of "''n1''" "''one''" "[]"] by (simp add: alias_samples)
  have 2: "store_alias [] ''n2'' 9 alias_user (ask_for ''two'') ''two'' (more_aliases [?x]) = (AliasCreated, more_aliases [?x, ?y])"
    using sample_store [of "''n2''" "''two''" "[?x]"] by (simp add: alias_samples new_alias_def)
  have "own_aliases ''u1'' (more_aliases []) = 3" by (simp add: own_aliases_def alias_samples)
  moreover have "own_aliases ''u1'' (more_aliases [?x, ?y]) = own_aliases ''u1'' (more_aliases []) + 2"
    using alias_limit_can_be_raced [OF more_calm sample_check sample_check 1 2] by (simp add: alias_user_def)
  ultimately show ?thesis using 1 2 by auto
qed
end
