(* ===== verification/Web_Mail.thy ===== *)
theory Web_Mail
  imports Web_Send_Guarantees Web_Aliases Smtp_Session
begin

text \<open>
  Reading and deleting mail: the dashboard (\<open>src/src/web/dashboard.rs\<close>), the page of a mail and its thread
  (\<open>get_email\<close>, \<open>fetch_thread_messages\<close> and \<open>merge_thread_messages\<close> of \<open>web/mod.rs\<close>), the clean-up of bodies
  (\<open>email_body.rs\<close>), downloads, and the reading half of \<open>api.rs\<close>.

  Arguments are what the mail parser says of a message's date, the sanitizer \<open>ammonia\<close>, and the text of a time.
  A handler that panics is a value of its own.
\<close>

section \<open>The dashboard\<close>

record pagination_params =
  pp_page :: "int option"
  pp_alias :: "string option"
  pp_q :: "string option"
  pp_folder :: "string option"
  pp_label :: "string option"

record display_email =
  de_id :: uuid
  de_alias_address :: string
  de_correspondent :: string
  de_subject :: string
  de_date :: time
  de_is_sent_folder :: bool
  de_is_viewed :: bool
  de_status :: "email_status option"
  de_has_attachments :: bool
  de_labels :: "label_row list"
  de_is_favorite :: bool

record dashboard_template =
  dt_emails :: "display_email list"
  dt_user_aliases :: "alias_view list"
  dt_user_labels :: "label_row list"
  dt_current_alias :: "string option"
  dt_current_label :: "string option"
  dt_query :: "string option"
  dt_current_folder :: string
  dt_alias_count :: nat
  dt_domain_count :: nat
  dt_is_admin :: bool
  dt_can_send_firsthand :: bool
  dt_current_page :: int
  dt_total_pages :: nat
  dt_total_emails :: nat

definition nonempty :: "string option \<Rightarrow> string option" where
  "nonempty s = (case s of Some (c # cs) \<Rightarrow> Some (c # cs) | _ \<Rightarrow> None)"

abbreviation page_size :: nat where "page_size \<equiv> 10"

text \<open>An \<open>i64\<close> wraps in a release build. Postgres refuses a negative \<open>OFFSET\<close>; SQLite takes it for zero.\<close>

definition wrap_i64 :: "int \<Rightarrow> int" where
  "wrap_i64 n = (n + 2 ^ 63) mod 2 ^ 64 - 2 ^ 63"

definition page_number :: "int option \<Rightarrow> int" where
  "page_number p = max (unwrap_or 1 p) 1"

definition page_offset :: "int \<Rightarrow> int" where
  "page_offset n = wrap_i64 ((n - 1) * int page_size)"

definition at_offset :: "int \<Rightarrow> (nat \<Rightarrow> 'a dbm) \<Rightarrow> 'a dbm" where
  "at_offset offset f = (\<lambda>d. if offset < 0 \<and> backend d = Postgres then db_fail ProtocolError d else f (nat offset) d)"

text \<open>The quotient of two doubles, rounded up, is that of the numbers while they are below \<open>2 ^ 49\<close>.\<close>

definition calculate_total_pages :: "nat \<Rightarrow> nat \<Rightarrow> nat" where
  "calculate_total_pages total_items size_of_page =
     (if total_items = 0 then 1 else (total_items + size_of_page - 1) div size_of_page)"

fun status_of_text :: "string \<Rightarrow> email_status option" where
  "status_of_text s =
     (if s = ''draft'' then Some Draft else if s = ''sending'' then Some Sending
      else if s = ''sent'' then Some Sent else if s = ''failed'' then Some Failed else None)"

definition display_sent :: "sent_email_row \<Rightarrow> display_email" where
  "display_sent email = \<lparr>de_id = se_id (sv_row email), de_alias_address = sv_alias_address email,
     de_correspondent = se_to (sv_row email), de_subject = se_subject (sv_row email), de_date = se_updated_at (sv_row email),
     de_is_sent_folder = True, de_is_viewed = True, de_status = status_of_text (se_status (sv_row email)),
     de_has_attachments = se_has_attachments (sv_row email), de_labels = [], de_is_favorite = se_is_favorite (sv_row email)\<rparr>"

definition display_favorite :: "favorite_email_row \<Rightarrow> label_row list \<Rightarrow> display_email" where
  "display_favorite email labels = \<lparr>de_id = fv_id email, de_alias_address = fv_alias_address email,
     de_correspondent = fv_correspondent email, de_subject = fv_subject email, de_date = fv_date email,
     de_is_sent_folder = fv_is_sent_folder email, de_is_viewed = fv_is_viewed email,
     de_status = Option.bind (fv_outbound_status email) (\<lambda>s. status_of_text (to_lowercase s)),
     de_has_attachments = fv_has_attachments email, de_labels = labels, de_is_favorite = fv_is_favorite email\<rparr>"

definition display_received :: "received_email \<Rightarrow> label_row list \<Rightarrow> display_email" where
  "display_received email labels = \<lparr>de_id = rv_id email, de_alias_address = rv_alias_address email,
     de_correspondent = rv_sender email, de_subject = rv_subject email, de_date = rv_received_at email,
     de_is_sent_folder = False, de_is_viewed = rv_viewed email, de_status = None,
     de_has_attachments = rv_has_attachments email, de_labels = labels, de_is_favorite = rv_is_favorite email\<rparr>"

text \<open>\<open>labels_map.remove\<close>: each entry is handed out once.\<close>

fun with_labels ::
  "('a \<Rightarrow> uuid) \<Rightarrow> ('a \<Rightarrow> label_row list \<Rightarrow> display_email) \<Rightarrow> (uuid \<Rightarrow> label_row list option) \<Rightarrow> 'a list \<Rightarrow> display_email list" where
  "with_labels i f m [] = []"
| "with_labels i f m (x # xs) = f x (unwrap_or [] (m (i x))) # with_labels i f (m(i x := None)) xs"

definition sent_folder ::
  "uuid \<Rightarrow> email_status \<Rightarrow> int \<Rightarrow> string option \<Rightarrow> string option \<Rightarrow> db \<Rightarrow> (display_email list \<times> nat) \<times> db" where
  "sent_folder user_id status_filter offset alias_filter query_filter d =
     (case or_default [] (at_offset offset (\<lambda>o'. get_sent_emails_by_user_id user_id status_filter page_size o' alias_filter query_filter)) d of
        (sent_emails, d) \<Rightarrow>
      case or_default 0 (get_sent_email_count_by_user_id user_id status_filter alias_filter query_filter) d of
        (cnt, d) \<Rightarrow> ((map display_sent sent_emails, cnt), d))"

definition favorites_folder ::
  "uuid \<Rightarrow> int \<Rightarrow> string option \<Rightarrow> string option \<Rightarrow> db \<Rightarrow> (sqlx_error + display_email list \<times> nat) \<times> db" where
  "favorites_folder user_id offset alias_filter query_filter d =
     (case at_offset offset (\<lambda>o'. get_favorite_emails_by_user_id user_id page_size o' alias_filter query_filter) d of
        (Inl e, d) \<Rightarrow> (Err e, d)
      | (Inr fav_rows, d) \<Rightarrow>
         (case or_default 0 (get_favorite_email_count_by_user_id user_id alias_filter query_filter) d of (cnt, d) \<Rightarrow>
          case or_default (\<lambda>_. None) (get_labels_for_emails (map fv_id (filter (\<lambda>e. \<not> fv_is_sent_folder e) fav_rows))) d of
            (labels_map, d) \<Rightarrow> (Ok (with_labels fv_id display_favorite labels_map fav_rows, cnt), d)))"

definition inbox_folder ::
  "uuid \<Rightarrow> int \<Rightarrow> string option \<Rightarrow> string option \<Rightarrow> string option \<Rightarrow> db \<Rightarrow> (sqlx_error + display_email list \<times> nat) \<times> db" where
  "inbox_folder user_id offset alias_filter query_filter label_filter d =
     (case at_offset offset (\<lambda>o'. get_email_by_user_id user_id page_size o' alias_filter query_filter label_filter) d of
        (Inl e, d) \<Rightarrow> (Err e, d)
      | (Inr inbox_emails, d) \<Rightarrow>
         (case or_default 0 (get_email_count_by_user_id user_id alias_filter query_filter label_filter) d of (cnt, d) \<Rightarrow>
          case or_default (\<lambda>_. None) (get_labels_for_emails (map rv_id inbox_emails)) d of
            (labels_map, d) \<Rightarrow> (Ok (with_labels rv_id display_received labels_map inbox_emails, cnt), d)))"

text \<open>The page around the mails of a folder.\<close>

definition dashboard_page ::
  "authenticated_user \<Rightarrow> string option \<Rightarrow> string option \<Rightarrow> string option \<Rightarrow> string \<Rightarrow> int \<Rightarrow> display_email list \<Rightarrow> nat
   \<Rightarrow> db \<Rightarrow> dashboard_template \<times> db" where
  "dashboard_page user alias_filter query_filter label_filter current_folder current_page emails total_emails d =
     (case or_default [] (get_aliases_by_user_id (au_user_id user)) d of (user_aliases, d) \<Rightarrow>
      case or_default [] (get_labels_by_user (au_user_id user)) d of (user_labels, d) \<Rightarrow>
      case or_default 0 get_domain_count d of (domain_count, d) \<Rightarrow>
        (\<lparr>dt_emails = emails, dt_user_aliases = user_aliases, dt_user_labels = user_labels,
          dt_current_alias = alias_filter, dt_current_label = label_filter, dt_query = query_filter,
          dt_current_folder = current_folder, dt_alias_count = length user_aliases, dt_domain_count = domain_count,
          dt_is_admin = au_is_admin user, dt_can_send_firsthand = au_can_send_firsthand user,
          dt_current_page = current_page, dt_total_pages = calculate_total_pages total_emails page_size,
          dt_total_emails = total_emails\<rparr>, d))"

definition dashboard_handler ::
  "authenticated_user \<Rightarrow> pagination_params \<Rightarrow> db \<Rightarrow> (nat \<times> string + dashboard_template) \<times> db" where
  "dashboard_handler user pagination d =
     (let page = page_number (pp_page pagination);
          offset = page_offset page;
          alias_filter = nonempty (pp_alias pagination);
          query_filter = nonempty (pp_q pagination);
          label_filter = nonempty (pp_label pagination);
          current_folder = unwrap_or ''inbox'' (pp_folder pagination)
      in case (if current_folder = ''sent'' \<or> current_folder = ''drafts''
               then (case sent_folder (au_user_id user) (if current_folder = ''drafts'' then Draft else Sent) offset
                   alias_filter query_filter d of (r, d) \<Rightarrow> (Ok r, d))
               else if current_folder = ''favorites''
               then favorites_folder (au_user_id user) offset alias_filter query_filter d
               else inbox_folder (au_user_id user) offset alias_filter query_filter label_filter d) of
           (Inl _, d) \<Rightarrow> (Err (500, ''Database error''), d)
         | (Inr (emails, total_emails), d) \<Rightarrow>
             (case dashboard_page user alias_filter query_filter label_filter current_folder page emails total_emails d of
                (template, d) \<Rightarrow> (Ok template, d)))"

section \<open>Deleting\<close>

text \<open>The files go in a task of its own, the text of a draft first and then the message.\<close>

definition perform_smart_delete :: "app_state \<Rightarrow> uuid \<Rightarrow> uuid \<Rightarrow> web_state \<Rightarrow> (sqlx_error + bool) \<times> web_state" where
  "perform_smart_delete st email_id user_id w =
     (case web_run (on_db (get_any_email email_id user_id)) w of
        (Inl e, w) \<Rightarrow> (Err e, w)
      | (Inr None, w) \<Rightarrow> (Ok False, w)
      | (Inr (Some email), w) \<Rightarrow>
         (case web_run (on_db (db_bind (delete_email_by_id email_id user_id)
             (\<lambda>hit. if hit then db_return True else delete_sent_email_by_id email_id user_id))) w of
            (Inl e, w) \<Rightarrow> (Err e, w)
          | (Inr False, w) \<Rightarrow> (Ok False, w)
          | (Inr True, w) \<Rightarrow>
             (case web_run (on_db (delete_attachments_for_email email_id)) w of (_, w) \<Rightarrow>
                (Ok True, w\<lparr>wb_removals := wb_removals w @
                  [draft_path (as_storage_dir st) (any_body_key email), eml_path (as_storage_dir st) (any_body_key email)]\<rparr>))))"

definition create_delete_response :: "bool \<Rightarrow> nat \<times> string option" where
  "create_delete_response should_redirect = (200, if should_redirect then Some ''/dashboard'' else None)"

definition delete_email_handler ::
  "app_state \<Rightarrow> authenticated_user \<Rightarrow> string option \<Rightarrow> uuid \<Rightarrow> web_state \<Rightarrow> (nat \<times> string option) \<times> web_state" where
  "delete_email_handler st user redirect email_id w =
     (case perform_smart_delete st email_id (au_user_id user) w of
        (Inr True, w) \<Rightarrow> (create_delete_response (redirect = Some ''true''), w)
      | (Inr False, w) \<Rightarrow> ((404, None), w)
      | (Inl _, w) \<Rightarrow> ((500, None), w))"

definition batch_delete_emails_handler ::
  "app_state \<Rightarrow> authenticated_user \<Rightarrow> uuid list \<Rightarrow> web_state \<Rightarrow> (nat \<times> string option) \<times> web_state" where
  "batch_delete_emails_handler st user email_ids w =
     (create_delete_response True,
      fold (\<lambda>i w. snd (perform_smart_delete st i (au_user_id user) w)) email_ids w)"

section \<open>Flags\<close>

definition mark_email_unread_handler :: "authenticated_user \<Rightarrow> uuid \<Rightarrow> db \<Rightarrow> (nat \<times> string option) \<times> db" where
  "mark_email_unread_handler user email_id d = (case set_email_viewed email_id (au_user_id user) False d of
     (Inr _, d) \<Rightarrow> ((200, Some ''/dashboard''), d) | (Inl _, d) \<Rightarrow> ((500, None), d))"

definition batch_mark_unread_handler :: "authenticated_user \<Rightarrow> uuid list \<Rightarrow> db \<Rightarrow> (nat \<times> string option) \<times> db" where
  "batch_mark_unread_handler user email_ids d =
     (if email_ids = [] then ((200, Some ''/dashboard''), d)
      else (case batch_set_emails_viewed email_ids (au_user_id user) False d of
          (Inr _, d) \<Rightarrow> ((200, Some ''/dashboard''), d) | (Inl _, d) \<Rightarrow> ((500, None), d)))"

text \<open>On the page of a mail the answer is the star alone, elsewhere the row of the mail.\<close>

datatype favorite_reply = FavoriteButton uuid bool | FavoriteRow display_email | FavoriteError nat

definition toggle_favorite_handler :: "authenticated_user \<Rightarrow> uuid \<Rightarrow> string option \<Rightarrow> db \<Rightarrow> favorite_reply \<times> db" where
  "toggle_favorite_handler user email_id ctx d =
     (case toggle_email_favorite email_id (au_user_id user) d of
        (Inl _, d) \<Rightarrow> (FavoriteError 500, d)
      | (Inr None, d) \<Rightarrow> (FavoriteError 404, d)
      | (Inr (Some new_fav), d) \<Rightarrow>
         if ctx = Some ''detail'' then (FavoriteButton email_id new_fav, d)
         else (case get_any_email email_id (au_user_id user) d of
             (Inl _, d) \<Rightarrow> (FavoriteError 500, d)
           | (Inr None, d) \<Rightarrow> (FavoriteError 404, d)
           | (Inr (Some (AnyReceived e)), d) \<Rightarrow>
               (case or_default [] (get_labels_for_email email_id) d of (labels, d) \<Rightarrow> (FavoriteRow (display_received e labels), d))
           | (Inr (Some (AnySent e)), d) \<Rightarrow> (FavoriteRow (display_sent e), d)))"

text \<open>One event of the stream: a new mail of the user becomes a row of his dashboard.\<close>

definition dashboard_sse_event :: "authenticated_user \<Rightarrow> dashboard_event \<Rightarrow> db \<Rightarrow> display_email option \<times> db" where
  "dashboard_sse_event user event d = (case event of
     NewEmail user_id email_id \<Rightarrow>
       if user_id = au_user_id user
       then (case get_email_by_id email_id (au_user_id user) d of
           (Inr (Some email), d) \<Rightarrow>
             (case or_default [] (get_labels_for_email email_id) d of (labels, d) \<Rightarrow> (Some (display_received email labels), d))
         | (_, d) \<Rightarrow> (None, d))
       else (None, d)
   | EmailForwarded _ _ \<Rightarrow> (None, d))"


section \<open>Bodies\<close>

text \<open>The pattern of \<open>rewrite_cid_references\<close>: a quoted \<open>cid:\<close> source, of any quote, up to the next quote.\<close>

definition quote_char :: "char \<Rightarrow> bool" where
  "quote_char c = (c = CHR 0x22 \<or> c = CHR 0x27)"

definition cid_source :: "string \<Rightarrow> (string \<times> string) option" where
  "cid_source s =
     (case strip_prefix ''src='' s of
        Some (q # rest) \<Rightarrow>
          (case strip_prefix ''cid:'' rest of
             Some r \<Rightarrow>
               (let cid = takeWhile (\<lambda>c. \<not> quote_char c) r; after = dropWhile (\<lambda>c. \<not> quote_char c) r
                in if quote_char q \<and> cid \<noteq> [] \<and> after \<noteq> [] then Some (cid, tl after) else None)
           | None \<Rightarrow> None)
      | _ \<Rightarrow> None)"

lemma cid_source_shorter: "cid_source s = Some (cid, rest) \<Longrightarrow> length rest < length s"
proof -
  assume "cid_source s = Some (cid, rest)"
  then obtain q r where s: "s = ''src='' @ q # ''cid:'' @ r" and rest: "rest = tl (dropWhile (\<lambda>c. \<not> quote_char c) r)"
    by (auto simp: cid_source_def Let_def strip_prefix_Some_iff split: option.splits list.splits if_splits)
  have "length (dropWhile (\<lambda>c. \<not> quote_char c) r) \<le> length r" by (rule length_dropWhile_le)
  with s rest show ?thesis by simp
qed

function rewrite_cid_references :: "string \<Rightarrow> uuid \<Rightarrow> string" where
  "rewrite_cid_references html email_id =
     (case cid_source html of
        Some (cid, rest) \<Rightarrow> ''src='' @ [CHR 0x22] @ ''/dashboard/email/'' @ email_id @ ''/inline/'' @ cid @ [CHR 0x22] @
          rewrite_cid_references rest email_id
      | None \<Rightarrow> (case html of [] \<Rightarrow> [] | c # cs \<Rightarrow> c # rewrite_cid_references cs email_id))"
  by pat_completeness auto
termination
  by (relation "measure (\<lambda>(s, _). length s)") (auto dest: cid_source_shorter)

declare rewrite_cid_references.simps [simp del]

text \<open>Runs of three newlines and more become two.\<close>

fun collapse_newlines :: "nat \<Rightarrow> string \<Rightarrow> string" where
  "collapse_newlines n [] = replicate (min n 2) LF"
| "collapse_newlines n (c # cs) =
     (if c = LF then collapse_newlines (Suc n) cs else replicate (min n 2) LF @ c # collapse_newlines 0 cs)"

text \<open>What the crates say of a mail: its date, and the cleaned HTML.\<close>

record viewer =
  vw_date :: "string \<Rightarrow> string option"
  vw_clean :: "string \<Rightarrow> string"
  vw_show_time :: "time \<Rightarrow> string"

definition sanitize_email_body :: "viewer \<Rightarrow> string \<Rightarrow> uuid \<Rightarrow> string" where
  "sanitize_email_body vw raw_body email_id =
     collapse_newlines 0 (vw_clean vw (rewrite_cid_references raw_body email_id))"

text \<open>\<open>str::replace\<close>, for a pattern that is not empty.\<close>

function replace_str :: "string \<Rightarrow> string \<Rightarrow> string \<Rightarrow> string" where
  "replace_str pat new s =
     (case s of
        [] \<Rightarrow> []
      | c # cs \<Rightarrow> (if pat \<noteq> [] \<and> starts_with pat s then new @ replace_str pat new (drop (length pat) s)
                  else c # replace_str pat new cs))"
  by pat_completeness auto
termination
  by (relation "measure (\<lambda>(_, _, s). length s)") auto

declare replace_str.simps [simp del]

section \<open>The page of a mail\<close>

datatype thread_message =
    InboundMessage uuid string string time
  | OutboundMessage uuid string time "attachment_row list"

fun sent_at_of :: "thread_message \<Rightarrow> time" where
  "sent_at_of (InboundMessage _ _ _ t) = t"
| "sent_at_of (OutboundMessage _ _ t _) = t"

definition merge_thread_messages :: "thread_message list \<Rightarrow> thread_message list \<Rightarrow> thread_message list" where
  "merge_thread_messages inbound outbound = sort_key sent_at_of (inbound @ outbound)"

record email_detail =
  ed_id :: uuid
  ed_sender :: string
  ed_alias_address :: string
  ed_subject :: string
  ed_body :: string
  ed_date :: string
  ed_is_forwarded :: bool
  ed_is_outbound :: bool
  ed_replies :: "thread_message list"
  ed_attachments :: "attachment_row list"
  ed_labels :: "label_row list"
  ed_all_user_labels :: "label_row list"
  ed_is_favorite :: bool

text \<open>A stored message that the parser rejects makes \<open>unwrap\<close> panic.\<close>

datatype view_failure = ViewRefused nat string | ViewPanic

definition db_default :: "'a \<Rightarrow> 'a dbm \<Rightarrow> sys \<Rightarrow> 'a \<times> sys" where
  "db_default fallback m s = (case on_db m s of (r, s) \<Rightarrow> (case r of Inl _ \<Rightarrow> fallback | Inr a \<Rightarrow> a, s))"

fun fetch_replies :: "reply_row list \<Rightarrow> sys \<Rightarrow> thread_message list \<times> sys" where
  "fetch_replies [] s = ([], s)"
| "fetch_replies (r # rs) s =
     (case db_default [] (get_attachments_for_reply (rp_id r)) s of (attachments, s) \<Rightarrow>
      case fetch_replies rs s of (ms, s) \<Rightarrow> (OutboundMessage (rp_id r) (rp_body_text r) (rp_sent_at r) attachments # ms, s))"

definition preferred_body :: "parsed_message \<Rightarrow> string option" where
  "preferred_body message = (case pm_body_html message of Some h \<Rightarrow> Some h | None \<Rightarrow> pm_body_text message)"

fun fetch_children :: "app_state \<Rightarrow> viewer \<Rightarrow> received_email list \<Rightarrow> sys \<Rightarrow> (view_failure + thread_message list) \<times> sys" where
  "fetch_children st vw [] s = (Ok [], s)"
| "fetch_children st vw (child # cs) s =
     (case on_fs (fs_read (eml_path (as_storage_dir st) (rv_body_key child))) s of
        (Inl _, s) \<Rightarrow> fetch_children st vw cs s
      | (Inr child_bytes, s) \<Rightarrow> (case ob_parse (as_outbound st) child_bytes of
          None \<Rightarrow> (Err ViewPanic, s)
        | Some child_msg \<Rightarrow>
            (let body = sanitize_email_body vw (unwrap_or [] (preferred_body child_msg)) (rv_id child);
                 body = (if contains_str '' src='' body then replace_str '' src='' '' data-remote-src='' body else body)
             in case fetch_children st vw cs s of
                  (Inl e, s) \<Rightarrow> (Err e, s)
                | (Inr ms, s) \<Rightarrow> (Ok (InboundMessage (rv_id child) (rv_sender child) body (rv_received_at child) # ms), s))))"

definition fetch_thread_messages :: "app_state \<Rightarrow> viewer \<Rightarrow> uuid \<Rightarrow> sys \<Rightarrow> (view_failure + thread_message list) \<times> sys" where
  "fetch_thread_messages st vw email_id s =
     (case db_default [] (get_replies_for_email email_id) s of (rs, s) \<Rightarrow>
      case fetch_replies rs s of (outbound_replies, s) \<Rightarrow>
      case db_default [] (get_child_emails email_id) s of (child_emails, s) \<Rightarrow>
      case fetch_children st vw child_emails s of
        (Inl e, s) \<Rightarrow> (Err e, s)
      | (Inr inbound_replies, s) \<Rightarrow> (Ok (merge_thread_messages inbound_replies outbound_replies), s))"

definition sender_of :: "parsed_message \<Rightarrow> string" where
  "sender_of message = (case pm_from message of
     Some ((_, Some address) # _) \<Rightarrow> address
   | _ \<Rightarrow> ''Unknown'')"

definition get_received :: "app_state \<Rightarrow> viewer \<Rightarrow> uuid \<Rightarrow> uuid \<Rightarrow> received_email \<Rightarrow> sys \<Rightarrow> (view_failure + email_detail) \<times> sys" where
  "get_received st vw user_id email_id email s =
     (case on_db (mark_email_as_viewed email_id user_id) s of (_, s) \<Rightarrow>
      case on_fs (fs_read (eml_path (as_storage_dir st) (rv_body_key email))) s of
        (Inl _, s) \<Rightarrow> (Err (ViewRefused 404 ''Email content not found''), s)
      | (Inr bytes, s) \<Rightarrow> (case ob_parse (as_outbound st) bytes of
          None \<Rightarrow> (Err ViewPanic, s)
        | Some message \<Rightarrow>
           (case db_default None (get_alias_details_for_email email_id user_id) s of (details, s) \<Rightarrow>
            case fetch_thread_messages st vw email_id s of
              (Inl e, s) \<Rightarrow> (Err e, s)
            | (Inr replies, s) \<Rightarrow>
               (case db_default [] (get_attachments_for_email email_id) s of (attachments, s) \<Rightarrow>
                case db_default [] (get_labels_for_email email_id) s of (labels, s) \<Rightarrow>
                case db_default [] (get_labels_by_user user_id) s of (all_user_labels, s) \<Rightarrow>
                  (Ok \<lparr>ed_id = email_id, ed_sender = sender_of message,
                    ed_alias_address = (case details of Some (sub, dmn) \<Rightarrow> sub @ ''@'' @ dmn | None \<Rightarrow> ''Unknown''),
                    ed_subject = unwrap_or ''No Subject'' (pm_subject message),
                    ed_body = sanitize_email_body vw (unwrap_or [] (preferred_body message)) email_id,
                    ed_date = unwrap_or [] (vw_date vw bytes), ed_is_forwarded = rv_forwarded email, ed_is_outbound = False,
                    ed_replies = replies, ed_attachments = attachments, ed_labels = labels,
                    ed_all_user_labels = all_user_labels, ed_is_favorite = rv_is_favorite email\<rparr>, s)))))"

definition get_sent :: "app_state \<Rightarrow> viewer \<Rightarrow> uuid \<Rightarrow> sent_email_row \<Rightarrow> sys \<Rightarrow> (view_failure + email_detail) \<times> sys" where
  "get_sent st vw email_id email s =
     (let row = sv_row email;
          eml = eml_path (as_storage_dir st) (se_body_key row);
          path = (if files (sy_fs s) eml \<noteq> None then eml else draft_path (as_storage_dir st) (se_body_key row))
      in case on_fs (fs_read path) s of
           (Inl _, s) \<Rightarrow> (Err (ViewRefused 404 ''Email content not found''), s)
         | (Inr bytes, s) \<Rightarrow> (case ob_parse (as_outbound st) bytes of
             None \<Rightarrow> (Err ViewPanic, s)
           | Some message \<Rightarrow>
              (case db_default [] (get_attachments_for_email email_id) s of (attachments, s) \<Rightarrow>
                (Ok \<lparr>ed_id = email_id, ed_sender = sv_alias_address email, ed_alias_address = se_to row,
                  ed_subject = se_subject row,
                  ed_body = sanitize_email_body vw (unwrap_or (from_utf8_lossy bytes) (preferred_body message)) email_id,
                  ed_date = take 16 (vw_show_time vw (unwrap_or (se_created_at row) (se_sent_at row))),
                  ed_is_forwarded = False, ed_is_outbound = True, ed_replies = [], ed_attachments = attachments,
                  ed_labels = [], ed_all_user_labels = [], ed_is_favorite = se_is_favorite row\<rparr>, s))))"

definition get_email :: "app_state \<Rightarrow> viewer \<Rightarrow> authenticated_user \<Rightarrow> uuid \<Rightarrow> sys \<Rightarrow> (view_failure + email_detail) \<times> sys" where
  "get_email st vw user email_id s =
     (case on_db (get_any_email email_id (au_user_id user)) s of
        (Inl _, s) \<Rightarrow> (Err (ViewRefused 500 ''Server error''), s)
      | (Inr None, s) \<Rightarrow> (Err (ViewRefused 404 ''Email not found''), s)
      | (Inr (Some (AnyReceived email)), s) \<Rightarrow> get_received st vw (au_user_id user) email_id email s
      | (Inr (Some (AnySent email)), s) \<Rightarrow> get_sent st vw email_id email s)"

section \<open>Downloads\<close>

record download =
  dl_disposition :: "string option"
  dl_content_type :: string
  dl_data :: string

definition attachment_part :: "app_state \<Rightarrow> uuid \<Rightarrow> nat \<Rightarrow> sys \<Rightarrow> (nat \<times> string + string) \<times> sys" where
  "attachment_part st body_key index s =
     (case on_fs (fs_read (eml_path (as_storage_dir st) body_key)) s of
        (Inl _, s) \<Rightarrow> (Err (404, ''File not found''), s)
      | (Inr bytes, s) \<Rightarrow> (case ob_parse (as_outbound st) bytes of
          None \<Rightarrow> (Err (500, ''Failed to parse email''), s)
        | Some message \<Rightarrow>
            (if index < length (pm_attachments message) then (Ok (mp_contents (pm_attachments message ! index)), s)
             else (Err (404, ''Attachment part not found in file''), s))))"

text \<open>A header value with a control character is refused by the builder.\<close>

definition header_value_ok :: "string \<Rightarrow> bool" where
  "header_value_ok v = list_all (\<lambda>c. c = CHR 0x09 \<or> 32 \<le> code_point c \<and> code_point c \<noteq> 127) v"

definition download_response :: "attachment_row \<Rightarrow> string \<Rightarrow> nat \<times> string + download" where
  "download_response attachment data =
     (let raw = unwrap_or ''attachment'' (at_filename attachment);
          ascii = filter (\<lambda>c. c \<noteq> CHR 0x22) (sanitize_header raw);
          disposition = ''attachment; filename='' @ [CHR 0x22] @ ascii @ [CHR 0x22]
      in if header_value_ok disposition
         then Ok \<lparr>dl_disposition = Some disposition, dl_content_type = ''application/octet-stream'', dl_data = data\<rparr>
         else Err (500, ''bad header''))"

definition download_attachment_handler ::
  "app_state \<Rightarrow> authenticated_user \<Rightarrow> uuid \<Rightarrow> uuid \<Rightarrow> sys \<Rightarrow> (nat \<times> string + download) \<times> sys" where
  "download_attachment_handler st user email_id attachment_id s =
     (case on_db (get_any_email email_id (au_user_id user)) s of
        (Inr (Some email), s) \<Rightarrow>
          (case on_db (get_attachment_by_id attachment_id) s of
             (Inr (Some a), s) \<Rightarrow>
               if at_email_id a = email_id
               then (case attachment_part st (any_body_key email) (at_part_index a) s of
                   (Inl e, s) \<Rightarrow> (Err e, s)
                 | (Inr data, s) \<Rightarrow> (download_response a data, s))
               else (Err (404, ''Attachment not found''), s)
           | (_, s) \<Rightarrow> (Err (404, ''Attachment not found''), s))
      | (_, s) \<Rightarrow> (Err (404, ''Email not found''), s))"

definition inline_image_handler ::
  "app_state \<Rightarrow> authenticated_user \<Rightarrow> uuid \<Rightarrow> string \<Rightarrow> sys \<Rightarrow> (nat \<times> string + download) \<times> sys" where
  "inline_image_handler st user email_id content_id s =
     (case on_db (get_any_email email_id (au_user_id user)) s of
        (Inr (Some email), s) \<Rightarrow>
          (case on_db (get_attachments_for_email email_id) s of
             (Inl _, s) \<Rightarrow> (Err (500, ''DB Error''), s)
           | (Inr attachments, s) \<Rightarrow>
               (case find (\<lambda>a. at_content_id a = Some content_id \<and> at_is_inline a) attachments of
                  None \<Rightarrow> (Err (404, ''Inline image not found''), s)
                | Some a \<Rightarrow>
                   (case attachment_part st (any_body_key email) (at_part_index a) s of
                      (Inl e, s) \<Rightarrow> (Err e, s)
                    | (Inr data, s) \<Rightarrow>
                       (let content_type = sanitize_header (unwrap_or ''application/octet-stream'' (at_content_type a))
                        in if \<not> starts_with ''image/'' content_type then (Err (400, ''Not an image: '' @ content_type), s)
                           else if header_value_ok content_type
                           then (Ok \<lparr>dl_disposition = None, dl_content_type = content_type, dl_data = data\<rparr>, s)
                           else (Err (500, ''bad header''), s)))))
      | (_, s) \<Rightarrow> (Err (404, ''Email not found''), s))"

definition download_reply_attachment_handler ::
  "app_state \<Rightarrow> authenticated_user \<Rightarrow> uuid \<Rightarrow> uuid \<Rightarrow> sys \<Rightarrow> (nat \<times> string + download) \<times> sys" where
  "download_reply_attachment_handler st user reply_id attachment_id s =
     (case on_db (get_reply_by_id reply_id) s of
        (Inr (Some reply), s) \<Rightarrow>
          (case on_db (get_email_by_id (rp_email_id reply) (au_user_id user)) s of
             (Inr (Some _), s) \<Rightarrow>
               (case on_db (get_attachments_for_reply reply_id) s of
                  (Inr rows, s) \<Rightarrow>
                    (case find (\<lambda>a. at_id a = attachment_id) rows of
                       None \<Rightarrow> (Err (404, ''Attachment not found''), s)
                     | Some a \<Rightarrow>
                        (case rp_body_key reply of
                           None \<Rightarrow> (Err (404, ''Reply content not found''), s)
                         | Some body_key \<Rightarrow>
                            (case attachment_part st body_key (at_part_index a) s of
                               (Inl e, s) \<Rightarrow> (Err e, s)
                             | (Inr data, s) \<Rightarrow> (download_response a data, s))))
                | (Inl _, s) \<Rightarrow> (Err (404, ''Attachment not found''), s))
           | (_, s) \<Rightarrow> (Err (404, ''Email not found''), s))
      | (_, s) \<Rightarrow> (Err (404, ''Reply not found''), s))"

section \<open>The API\<close>

record email_list =
  el_emails :: "received_email list"
  el_total :: nat
  el_page :: int
  el_total_pages :: nat

definition list_emails_handler :: "user_row \<Rightarrow> pagination_params \<Rightarrow> db \<Rightarrow> (nat \<times> string + email_list) \<times> db" where
  "list_emails_handler user pagination d =
     (let page = page_number (pp_page pagination);
          alias_filter = nonempty (pp_alias pagination)
      in case at_offset (page_offset page)
            (\<lambda>o'. get_email_by_user_id (us_id user) page_size o' alias_filter (pp_q pagination) None) d of
           (Inl _, d) \<Rightarrow> (Err (500, ''Database error''), d)
         | (Inr emails, d) \<Rightarrow>
            (case or_default 0 (get_email_count_by_user_id (us_id user) alias_filter (pp_q pagination) None) d of (total_emails, d) \<Rightarrow>
              (Ok \<lparr>el_emails = emails, el_total = total_emails, el_page = page,
                el_total_pages = (total_emails + page_size - 1) div page_size\<rparr>, d)))"

record api_email =
  ae_id :: uuid
  ae_subject :: string
  ae_is_sent :: bool
  ae_body :: string
  ae_date :: string
  ae_attachments :: "attachment_row list"

definition get_email_api :: "app_state \<Rightarrow> viewer \<Rightarrow> user_row \<Rightarrow> uuid \<Rightarrow> sys \<Rightarrow> (nat \<times> string + api_email) \<times> sys" where
  "get_email_api st vw user email_id s =
     (case on_db (get_any_email email_id (us_id user)) s of
        (Inr (Some email), s) \<Rightarrow>
          (case on_fs (fs_read (eml_path (as_storage_dir st) (any_body_key email))) s of (read_result, s) \<Rightarrow>
           let (body, date) = (case read_result of
                 Inl _ \<Rightarrow> ([], [])
               | Inr bytes \<Rightarrow> (case ob_parse (as_outbound st) bytes of
                   None \<Rightarrow> ([], [])
                 | Some m \<Rightarrow> (sanitize_email_body vw (unwrap_or [] (preferred_body m)) email_id, unwrap_or [] (vw_date vw bytes))))
           in case db_default [] (get_attachments_for_email email_id) s of (attachments, s) \<Rightarrow>
                (Ok \<lparr>ae_id = email_id, ae_subject = any_subject email,
                  ae_is_sent = (case email of AnySent _ \<Rightarrow> True | AnyReceived _ \<Rightarrow> False), ae_body = body, ae_date = date,
                  ae_attachments = attachments\<rparr>, s))
      | (_, s) \<Rightarrow> (Err (404, ''Email not found''), s))"

end
