(* ===== verification/Web_Mail_Guarantees.thy ===== *)
theory Web_Mail_Guarantees
  imports Web_Mail
begin

section \<open>Pages\<close>

lemma pages_take: "concat (map (\<lambda>p. take k (drop (p * k) xs)) [0..<n]) = take (n * k) xs"
proof (induction n)
  case (Suc n)
  have "take (n * k) xs @ take k (drop (n * k) xs) = take (n * k + k) xs" by (simp add: take_add)
  with Suc show ?case by (simp add: add.commute)
qed simp

lemma enough_pages: "length xs \<le> calculate_total_pages (length xs) page_size * page_size"
  by (auto simp: calculate_total_pages_def)

lemma map_with_labels: "(\<And>x ls. g (f x ls) = h x) \<Longrightarrow> map g (with_labels i f m xs) = map h xs"
  by (induction xs arbitrary: m) simp_all

definition inbox_of :: "db \<Rightarrow> uuid \<Rightarrow> string option \<Rightarrow> string option \<Rightarrow> string option \<Rightarrow> received_email list" where
  "inbox_of d user_id al q lb = sort_key (\<lambda>v. - rv_last_activity v) (filter (inbox_matches d user_id al q lb) (received_views d))"

definition inbox_request :: "string option \<Rightarrow> string option \<Rightarrow> string option \<Rightarrow> nat \<Rightarrow> pagination_params" where
  "inbox_request al q lb n = \<lparr>pp_page = Some (int n), pp_alias = al, pp_q = q, pp_folder = None, pp_label = lb\<rparr>"

lemma page_offset_small:
  assumes "0 < n" "n < 2 ^ 59"
  shows "page_offset (int n) = int ((n - 1) * page_size)"
proof -
  have "int (n - 1) * 10 + 2 ^ 63 < 2 ^ 64" using assms by simp
  then show ?thesis using assms by (simp add: page_offset_def wrap_i64_def of_nat_diff)
qed

lemma labels_for_emails_calm:
  "db_faults d = [] \<Longrightarrow> \<exists>m. get_labels_for_emails is d = (Inr m, d)"
  by (auto simp: get_labels_for_emails_def db_bind_def db_return_def no_fault_simps)

lemma inbox_page:
  assumes calm: "db_faults d = []" and n: "0 < n" "n < 2 ^ 59"
  shows "\<exists>t. dashboard_handler user (inbox_request al q lb n) d = (Inr t, d) \<and>
    map de_id (dt_emails t) = map rv_id (take page_size (drop ((n - Suc 0) * page_size)
      (inbox_of d (au_user_id user) (nonempty al) (nonempty q) (nonempty lb)))) \<and>
    dt_total_emails t = length (inbox_of d (au_user_id user) (nonempty al) (nonempty q) (nonempty lb)) \<and>
    dt_total_pages t = calculate_total_pages (dt_total_emails t) page_size"
proof -
  let ?mails = "take page_size (drop ((n - Suc 0) * page_size) (inbox_of d (au_user_id user) (nonempty al) (nonempty q) (nonempty lb)))"
  obtain m where "get_labels_for_emails (map rv_id ?mails) d = (Inr m, d)"
    using labels_for_emails_calm [OF calm] by blast
  then have m: "or_default (\<lambda>_. None) (get_labels_for_emails (map rv_id ?mails)) d = (m, d)" by (simp add: or_default_def)
  have pn: "page_number (Some (int n)) = int n" using n by (simp add: page_number_def)
  have got: "at_offset (page_offset (int n)) (\<lambda>o'. get_email_by_user_id (au_user_id user) page_size o' (nonempty al) (nonempty q) (nonempty lb)) d
      = (Inr ?mails, d)"
    using calm by (simp add: at_offset_def page_offset_small [OF n] get_email_by_user_id_def no_fault_simps page_def inbox_of_def
        del: of_nat_mult)
  have cnt: "or_default 0 (get_email_count_by_user_id (au_user_id user) (nonempty al) (nonempty q) (nonempty lb)) d =
      (length (inbox_of d (au_user_id user) (nonempty al) (nonempty q) (nonempty lb)), d)"
    using calm by (simp add: or_default_def get_email_count_by_user_id_def no_fault_simps inbox_of_def)
  have folder: "inbox_folder (au_user_id user) (page_offset (int n)) (nonempty al) (nonempty q) (nonempty lb) d =
      (Inr (with_labels rv_id display_received m ?mails, length (inbox_of d (au_user_id user) (nonempty al) (nonempty q) (nonempty lb))), d)"
    by (simp add: inbox_folder_def got cnt m)
  have ids: "map de_id (with_labels rv_id display_received m ?mails) = map rv_id ?mails"
    by (rule map_with_labels) (simp add: display_received_def)
  obtain al' where al': "or_default [] (get_aliases_by_user_id (au_user_id user)) d = (al', d)"
    using calm by (auto simp: or_default_def get_aliases_by_user_id_def no_fault_simps)
  obtain lb' where lb': "or_default [] (get_labels_by_user (au_user_id user)) d = (lb', d)"
    using calm by (auto simp: or_default_def get_labels_by_user_def no_fault_simps)
  obtain dc where dc: "or_default 0 get_domain_count d = (dc, d)"
    using calm by (auto simp: or_default_def get_domain_count_def no_fault_simps)
  show ?thesis
    using ids by (simp add: dashboard_handler_def dashboard_page_def inbox_request_def pn folder al' lb' dc Let_def unwrap_or_def)
qed

text \<open>C28: The pages of the dashboard are the inbox. Read one after the other, from the first to the last that the
  dashboard itself announces, they show every conversation of the user that matches the filters, once, the
  most recently active first; each page announces the same number of pages and mails.\<close>
theorem pages_show_the_whole_inbox:
  assumes calm: "db_faults d = []"
    and small: "length (inbox_of d (au_user_id user) (nonempty al) (nonempty q) (nonempty lb)) < 2 ^ 58"
  shows "\<exists>ts. map (\<lambda>n. dashboard_handler user (inbox_request al q lb n) d) [1..<Suc (length ts)] = map (\<lambda>t. (Inr t, d)) ts \<and>
    concat (map (\<lambda>t. map de_id (dt_emails t)) ts) = map rv_id (inbox_of d (au_user_id user) (nonempty al) (nonempty q) (nonempty lb)) \<and>
    list_all (\<lambda>t. dt_total_pages t = length ts \<and>
      dt_total_emails t = length (inbox_of d (au_user_id user) (nonempty al) (nonempty q) (nonempty lb))) ts"
proof -
  let ?xs = "inbox_of d (au_user_id user) (nonempty al) (nonempty q) (nonempty lb)"
  let ?n = "calculate_total_pages (length ?xs) page_size"
  define t where "t = (\<lambda>p. SOME t. dashboard_handler user (inbox_request al q lb (Suc p)) d = (Inr t, d))"
  have n: "?n < 2 ^ 59" using small by (auto simp: calculate_total_pages_def)
  have page: "dashboard_handler user (inbox_request al q lb (Suc p)) d = (Inr (t p), d) \<and>
      map de_id (dt_emails (t p)) = map rv_id (take page_size (drop (p * page_size) ?xs)) \<and>
      dt_total_emails (t p) = length ?xs \<and> dt_total_pages (t p) = ?n" if "p < ?n" for p
  proof -
    have "Suc p < 2 ^ 59" using that n by simp
    from inbox_page [OF calm _ this, of user al q lb] obtain u where
      u: "dashboard_handler user (inbox_request al q lb (Suc p)) d = (Inr u, d)"
      "map de_id (dt_emails u) = map rv_id (take page_size (drop (p * page_size) ?xs))"
      "dt_total_emails u = length ?xs" "dt_total_pages u = ?n" by auto
    then have "t p = u" by (simp add: t_def)
    with u show ?thesis by simp
  qed
  let ?ts = "map t [0..<?n]"
  have "map (\<lambda>n. dashboard_handler user (inbox_request al q lb n) d) [1..<Suc ?n] =
      map (\<lambda>p. dashboard_handler user (inbox_request al q lb (Suc p)) d) [0..<?n]"
    by (simp add: map_Suc_upt [symmetric] del: upt_Suc)
  also have "\<dots> = map (\<lambda>t. (Inr t, d)) ?ts" using page by simp
  finally have 1: "map (\<lambda>n. dashboard_handler user (inbox_request al q lb n) d) [1..<Suc (length ?ts)] = map (\<lambda>t. (Inr t, d)) ?ts"
    by simp
  have "concat (map (\<lambda>t. map de_id (dt_emails t)) ?ts) =
      concat (map (\<lambda>p. take page_size (drop (p * page_size) (map rv_id ?xs))) [0..<?n])"
    using page by (intro arg_cong [where f = concat]) (simp add: take_map drop_map)
  also have "\<dots> = take (?n * page_size) (map rv_id ?xs)" by (rule pages_take)
  also have "\<dots> = map rv_id ?xs" using enough_pages [of ?xs] by simp
  finally have 2: "concat (map (\<lambda>t. map de_id (dt_emails t)) ?ts) = map rv_id ?xs" .
  have 3: "list_all (\<lambda>t. dt_total_pages t = length ?ts \<and> dt_total_emails t = length ?xs) ?ts"
    using page by (simp add: list_all_iff)
  from 1 2 3 show ?thesis by blast
qed

section \<open>Downloads\<close>

lemma received_view_row: "v \<in> set (received_views d) \<Longrightarrow> \<exists>e \<in> set (t_emails d). rv_id v = re_id e \<and> rv_body_key v = re_body_key e"
  by (auto simp: received_views_def views_of_def view_email_def)

lemma uniq_first: "uniq f xs \<Longrightarrow> x \<in> set xs \<Longrightarrow> filter (\<lambda>y. f y = f x) xs = [x]"
  by (rule uniq_filter_eq) simp_all

text \<open>What a download serves when nothing fails: the part of the mail's file that the row's index names, under the
  row's file name.\<close>

lemma download_by_row:
  assumes calm: "db_faults (sy_db s) = []" "io_faults (sy_fs s) = []"
    and own: "list_ex (\<lambda>v. rv_id v = eid \<and> rv_user_id v = au_user_id user) (received_views (sy_db s))"
    and mail: "uniq re_id (t_emails (sy_db s))" "e \<in> set (t_emails (sy_db s))" "re_id e = eid"
    and row: "uniq at_id (t_attachments (sy_db s))" "a \<in> set (t_attachments (sy_db s))" "at_email_id a = eid"
    and eml: "files (sy_fs s) (eml_path (as_storage_dir st) (re_body_key e)) = Some f"
      "ob_parse (as_outbound st) (file_bytes f) = Some msg" "at_part_index a < length (pm_attachments msg)"
  shows "fst (download_attachment_handler st user eid (at_id a) s) =
    download_response a (mp_contents (pm_attachments msg ! at_part_index a))"
proof -
  let ?d = "sy_db s"
  let ?vs = "filter (\<lambda>v. rv_id v = eid \<and> rv_user_id v = au_user_id user) (received_views ?d)"
  obtain v vs where v: "?vs = v # vs" using own by (cases ?vs) (auto simp: list_ex_iff filter_empty_conv)
  then have "v \<in> set (received_views ?d)" "rv_id v = eid" by (auto dest: filter_ConsD)
  then obtain e' where "e' \<in> set (t_emails ?d)" "re_id e' = eid" "rv_body_key v = re_body_key e'"
    using received_view_row by fastforce
  with mail have key: "rv_body_key v = re_body_key e" using uniq_eq [of re_id "t_emails ?d" e' e] by simp
  have got: "on_db (get_any_email eid (au_user_id user)) s = (Inr (Some (AnyReceived v)), s)"
    using calm by (simp add: on_db_def get_any_email_def get_email_by_id_def db_bind_def no_fault_simps v db_return_def)
  have att: "on_db (get_attachment_by_id (at_id a)) s = (Inr (Some a), s)"
    using calm uniq_first [OF row(1,2)] by (simp add: on_db_def get_attachment_by_id_def no_fault_simps)
  have rd: "on_fs (fs_read (eml_path (as_storage_dir st) (re_body_key e))) s = (Inr (file_bytes f), s)"
    using calm eml(1) by (simp add: on_fs_def fs_read_def syscall_def)
  show ?thesis
    using row(3) eml(2,3) by (simp add: download_attachment_handler_def got att attachment_part_def any_body_key_def key rd)
qed

lemma stored_tables:
  assumes run: "insert_email_with_attachments eid aids now alias_id sender subject key received_at mid tid atts d = (Inr v, d')"
  shows "\<exists>e. re_id e = eid \<and> re_body_key e = key \<and> e \<in> set (t_emails d') \<and>
    t_attachments d' = t_attachments d @ map2 (\<lambda>aid m. attachment_of aid eid (unwrap_or now received_at) m) aids atts"
proof -
  have "same_tables
      (d\<lparr>t_emails := t_emails (bump_opt tid (unwrap_or now received_at) d) @
           [new_email eid alias_id sender subject key (unwrap_or now received_at) mid tid (list_ex (\<lambda>a. \<not> am_is_inline a) atts)],
         t_attachments := t_attachments d @ map2 (\<lambda>aid m. attachment_of aid eid (unwrap_or now received_at) m) aids atts\<rparr>) d'"
    using stored_or_same [OF run] by (simp add: Let_def)
  then have "t_emails d' = t_emails (bump_opt tid (unwrap_or now received_at) d) @
        [new_email eid alias_id sender subject key (unwrap_or now received_at) mid tid (list_ex (\<lambda>a. \<not> am_is_inline a) atts)]"
    "t_attachments d' = t_attachments d @ map2 (\<lambda>aid m. attachment_of aid eid (unwrap_or now received_at) m) aids atts"
    by (auto simp: same_tables_def dest: arg_cong [where f = t_emails] arg_cong [where f = t_attachments])
  then show ?thesis
    by (intro exI [of _ "new_email eid alias_id sender subject key (unwrap_or now received_at) mid tid
        (list_ex (\<lambda>a. \<not> am_is_inline a) atts)"]) (auto simp: new_email_def)
qed

text \<open>C31: Attachments survive the way from SMTP to the browser. When a mail has been stored with the metadata its
  parser reports, its owner downloads, under the id of the \<open>i\<close>-th metadata row, the contents of the \<open>i\<close>-th
  attachment, under the name the message gives it.\<close>
theorem attachments_round_trip:
  assumes run: "insert_email_with_attachments eid aids now alias_id sender subject key received_at mid tid
      (snd (extract_full_metadata (ob_parse (as_outbound st)) bytes envelope)) d = (Inr v, sy_db s)"
    and wf: "db_wf d" and calm: "db_faults (sy_db s) = []" "io_faults (sy_fs s) = []"
    and own: "list_ex (\<lambda>v. rv_id v = eid \<and> rv_user_id v = au_user_id user) (received_views (sy_db s))"
    and eml: "files (sy_fs s) (eml_path (as_storage_dir st) key) = Some \<lparr>file_bytes = bytes, file_mode = mode\<rparr>"
    and msg: "ob_parse (as_outbound st) bytes = Some msg" "length aids = length (pm_attachments msg)"
      "i < length (pm_attachments msg)"
  shows "\<exists>row. at_filename row = mp_name (pm_attachments msg ! i) \<and>
    fst (download_attachment_handler st user eid (aids ! i) s) = download_response row (mp_contents (pm_attachments msg ! i))"
proof -
  let ?ms = "map (\<lambda>(i, p). part_metadata i p) (enumerate 0 (pm_attachments msg))"
  have ms: "snd (extract_full_metadata (ob_parse (as_outbound st)) bytes envelope) = ?ms"
    by (simp add: extract_full_metadata_def Let_def msg(1))
  have "db_wf (sy_db s)" using keepsD [OF keeps_insert_email_with_attachments wf run] .
  then have u: "uniq re_id (t_emails (sy_db s))" "uniq at_id (t_attachments (sy_db s))"
    by (simp_all add: wf_defs)
  from stored_tables [OF run [unfolded ms]] obtain e where e: "re_id e = eid" "re_body_key e = key" "e \<in> set (t_emails (sy_db s))"
    and rows: "t_attachments (sy_db s) = t_attachments d @ map2 (\<lambda>aid m. attachment_of aid eid (unwrap_or now received_at) m) aids ?ms"
    by blast
  let ?row = "attachment_of (aids ! i) eid (unwrap_or now received_at) (part_metadata i (pm_attachments msg ! i))"
  have "?ms ! i = part_metadata i (pm_attachments msg ! i)" using msg(3) by (simp add: nth_enumerate_eq)
  then have "map2 (\<lambda>aid m. attachment_of aid eid (unwrap_or now received_at) m) aids ?ms ! i = ?row"
    using msg(2,3) by simp
  moreover have "i < length (map2 (\<lambda>aid m. attachment_of aid eid (unwrap_or now received_at) m) aids ?ms)"
    using msg(2,3) by simp
  ultimately have "?row \<in> set (t_attachments (sy_db s))" unfolding rows by (metis in_set_conv_nth set_append UnI2)
  moreover have p: "at_id ?row = aids ! i" "at_email_id ?row = eid" "at_part_index ?row = i"
    "at_filename ?row = mp_name (pm_attachments msg ! i)" by (simp_all add: attachment_of_def part_metadata_def)
  ultimately have "fst (download_attachment_handler st user eid (aids ! i) s) =
      download_response ?row (mp_contents (pm_attachments msg ! i))"
    using download_by_row [OF calm own u(1) e(3,1) u(2), of ?row] e(2) eml msg by simp
  with p(4) show ?thesis by blast
qed

text \<open>The attachment of a reply poses as one of the mail it answers. Its row carries the id of the mail, so the page
  of the mail lists it there; and the link it gets downloads, under the name of the reply's file, whatever
  part the received mail has at that position.\<close>
theorem reply_attachment_poses_as_the_mails:
  assumes calm: "db_faults (sy_db s) = []" "io_faults (sy_fs s) = []"
    and own: "list_ex (\<lambda>v. rv_id v = eid \<and> rv_user_id v = au_user_id user) (received_views (sy_db s))"
    and mail: "uniq re_id (t_emails (sy_db s))" "list_ex (\<lambda>e. re_id e = eid \<and> re_body_key e = key) (t_emails (sy_db s))"
    and row: "uniq at_id (t_attachments (sy_db s))" "list_ex (\<lambda>x. x = a) (t_attachments (sy_db s))" "at_email_id a = eid"
      "at_reply_id a = Some reply_id"
    and eml: "files (sy_fs s) (eml_path (as_storage_dir st) key) = Some f"
      "ob_parse (as_outbound st) (file_bytes f) = Some msg" "at_part_index a < length (pm_attachments msg)"
  shows "list_ex (\<lambda>x. x = a) (fst (db_default [] (get_attachments_for_email eid) s)) \<and>
    fst (download_attachment_handler st user eid (at_id a) s) =
      download_response a (mp_contents (pm_attachments msg ! at_part_index a))"
proof -
  obtain e where e: "e \<in> set (t_emails (sy_db s))" "re_id e = eid" "re_body_key e = key" using mail(2) by (auto simp: list_ex_iff)
  have a: "a \<in> set (t_attachments (sy_db s))" using row(2) by (simp add: list_ex_iff)
  have "a \<in> set (fst (db_default [] (get_attachments_for_email eid) s))"
    using a row(3) calm by (simp add: db_default_def on_db_def get_attachments_for_email_def no_fault_simps)
  then show ?thesis
    using download_by_row [OF calm own mail(1) e(1,2) row(1) a row(3)] e(3) eml by (simp add: list_ex_iff)
qed

section \<open>Whose mail\<close>

definition owns_mail :: "db \<Rightarrow> uuid \<Rightarrow> uuid \<Rightarrow> any_email \<Rightarrow> bool" where
  "owns_mail d uid eid e = (case e of
     AnyReceived v \<Rightarrow> list_ex (\<lambda>x. x = v \<and> rv_id x = eid \<and> rv_user_id x = uid) (received_views d)
   | AnySent v \<Rightarrow> list_ex (\<lambda>x. x = v \<and> se_id (sv_row x) = eid \<and> se_user_id (sv_row x) = uid) (sent_views d))"

lemma sent_views_faults [simp]: "sent_views (d\<lparr>db_faults := fs\<rparr>) = sent_views d"
  by (simp add: sent_views_def alias_domains_def)

lemma query_optional_first:
  assumes "query_optional (\<lambda>d. filter P (h d)) d = (Inr (Some v), d')" "\<And>fs. h (d\<lparr>db_faults := fs\<rparr>) = h d"
  shows "v \<in> set (h d) \<and> P v"
proof -
  from query_optional_Ok [OF assms(1)] assms(2) have "(case filter P (h d) of [] \<Rightarrow> None | a # _ \<Rightarrow> Some a) = Some v" by auto
  then show ?thesis by (auto split: list.splits dest!: filter_ConsD)
qed

lemma any_email_owned:
  assumes "get_any_email eid uid d = (Inr (Some e), d')"
  shows "owns_mail d uid eid e \<and> same_tables d d'"
proof -
  from assms obtain r d1 where r: "get_email_by_id eid uid d = (Inr r, d1)"
    and rest: "(case r of Some e \<Rightarrow> db_return (Some (AnyReceived e))
      | None \<Rightarrow> db_bind (get_sent_email_by_id_and_user eid uid) (\<lambda>s. case s of
          Some e \<Rightarrow> db_return (Some (AnySent e)) | None \<Rightarrow> db_return None)) d1 = (Inr (Some e), d')"
    by (auto simp: get_any_email_def db_bind_Ok_iff)
  have d1: "d1 = d\<lparr>db_faults := tl (db_faults d)\<rparr>" using r unfolding get_email_by_id_def by (rule query_optional_db)
  show ?thesis
  proof (cases r)
    case (Some v)
    from query_optional_first [OF r [unfolded Some get_email_by_id_def]] have
      "v \<in> set (received_views d) \<and> rv_id v = eid \<and> rv_user_id v = uid" by simp
    with Some rest d1 show ?thesis by (auto simp: owns_mail_def list_ex_iff db_return_def same_tables_def)
  next
    case None
    with rest obtain v d2 where v: "get_sent_email_by_id_and_user eid uid d1 = (Inr (Some v), d2)" "e = AnySent v" "d' = d2"
      by (auto simp: db_bind_Ok_iff db_return_def split: option.splits)
    from query_optional_first [OF v(1) [unfolded get_sent_email_by_id_and_user_def]] have
      "v \<in> set (sent_views d1) \<and> se_id (sv_row v) = eid \<and> se_user_id (sv_row v) = uid" by simp
    moreover have "d2 = d1\<lparr>db_faults := tl (db_faults d1)\<rparr>"
      using v(1) unfolding get_sent_email_by_id_and_user_def by (rule query_optional_db)
    ultimately show ?thesis using v d1 by (auto simp: owns_mail_def list_ex_iff same_tables_def)
  qed
qed

text \<open>A header value no one can break out of: one line, and a quoted name with no quote in it.\<close>

definition safe_disposition :: "string option \<Rightarrow> bool" where
  "safe_disposition v = (case v of
     None \<Rightarrow> True
   | Some s \<Rightarrow> no_newline s \<and> length (filter (\<lambda>c. c = CHR 0x22) s) = 2)"

lemma download_response_safe:
  "download_response a data = Inr dl \<Longrightarrow> safe_disposition (dl_disposition dl) \<and> dl_data dl = data \<and>
     dl_content_type dl = ''application/octet-stream''"
  using no_newline_sanitize [of "unwrap_or ''attachment'' (at_filename a)"]
  by (auto simp: download_response_def Let_def safe_disposition_def no_newline_def filter_empty_conv split: if_splits)

text \<open>The contents a row's index names, in some message stored under the key.\<close>

definition part_of_file :: "app_state \<Rightarrow> (string \<Rightarrow> file_entry option) \<Rightarrow> uuid \<Rightarrow> nat \<Rightarrow> string \<Rightarrow> bool" where
  "part_of_file st fs key i data = (case fs (eml_path (as_storage_dir st) key) of
     None \<Rightarrow> False
   | Some f \<Rightarrow> (case ob_parse (as_outbound st) (file_bytes f) of
       None \<Rightarrow> False
     | Some msg \<Rightarrow> i < length (pm_attachments msg) \<and> data = mp_contents (pm_attachments msg ! i)))"

lemma attachment_part_Ok:
  "attachment_part st key i s = (Inr data, s') \<Longrightarrow> part_of_file st (files (sy_fs s)) key i data"
  by (auto simp: attachment_part_def on_fs_def fs_read_def syscall_eq part_of_file_def
      split: prod.splits sum.splits option.splits if_splits)

lemma attachment_download_owned:
  assumes run: "fst (download_attachment_handler st user eid aid s) = Inr dl"
  shows "safe_disposition (dl_disposition dl) \<and>
    (\<exists>e. owns_mail (sy_db s) (au_user_id user) eid e \<and>
      list_ex (\<lambda>a. at_id a = aid \<and> at_email_id a = eid \<and>
        part_of_file st (files (sy_fs s)) (any_body_key e) (at_part_index a) (dl_data dl)) (t_attachments (sy_db s)))"
proof -
  obtain q1 s1 where q1: "on_db (get_any_email eid (au_user_id user)) s = (q1, s1)" by fastforce
  obtain q2 s2 where q2: "on_db (get_attachment_by_id aid) s1 = (q2, s2)" by fastforce
  from run q1 q2 obtain e a data s3 where e: "q1 = Inr (Some e)" and a: "q2 = Inr (Some a)" "at_email_id a = eid"
    and p: "attachment_part st (any_body_key e) (at_part_index a) s2 = (Inr data, s3)" and dl: "download_response a data = Inr dl"
    by (auto simp: download_attachment_handler_def split: sum.splits option.splits if_splits prod.splits)
  obtain d1 where d1: "get_any_email eid (au_user_id user) (sy_db s) = (Inr (Some e), d1)" "s1 = s\<lparr>sy_db := d1\<rparr>"
    using q1 e by (auto simp: on_db_def split: prod.splits)
  note own = any_email_owned [OF d1(1)]
  obtain d2 where d2: "get_attachment_by_id aid d1 = (Inr (Some a), d2)" "s2 = s1\<lparr>sy_db := d2\<rparr>"
    using q2 a d1(2) by (auto simp: on_db_def split: prod.splits)
  have "a \<in> set (t_attachments d1)" "at_id a = aid"
    using query_optional_first [OF d2(1) [unfolded get_attachment_by_id_def]] by simp_all
  moreover have "t_attachments d1 = t_attachments (sy_db s)"
    using own by (auto simp: same_tables_def dest: arg_cong [where f = t_attachments])
  moreover have "files (sy_fs s2) = files (sy_fs s)" using d1(2) d2(2) by simp
  ultimately show ?thesis
    using own a(2) attachment_part_Ok [OF p] download_response_safe [OF dl] by (auto simp: list_ex_iff)
qed

lemma reply_download_owned:
  assumes run: "fst (download_reply_attachment_handler st user rid aid s) = Inr dl"
  shows "safe_disposition (dl_disposition dl) \<and>
    list_ex (\<lambda>r. rp_id r = rid \<and> list_ex (\<lambda>v. rv_id v = rp_email_id r \<and> rv_user_id v = au_user_id user) (received_views (sy_db s)))
      (t_replies (sy_db s))"
proof -
  obtain q1 s1 where q1: "on_db (get_reply_by_id rid) s = (q1, s1)" by fastforce
  from run q1 obtain r where r: "q1 = Inr (Some r)"
    by (auto simp: download_reply_attachment_handler_def split: sum.splits option.splits)
  obtain q2 s2 where q2: "on_db (get_email_by_id (rp_email_id r) (au_user_id user)) s1 = (q2, s2)" by fastforce
  from run q1 r q2 obtain v a data where v: "q2 = Inr (Some v)" and dl: "download_response a data = Inr dl"
    by (auto simp: download_reply_attachment_handler_def split: sum.splits option.splits if_splits prod.splits)
  obtain d1 where d1: "get_reply_by_id rid (sy_db s) = (Inr (Some r), d1)" "s1 = s\<lparr>sy_db := d1\<rparr>"
    using q1 r by (auto simp: on_db_def split: prod.splits)
  have row: "r \<in> set (t_replies (sy_db s))" "rp_id r = rid"
    using query_optional_first [OF d1(1) [unfolded get_reply_by_id_def]] by simp_all
  have d: "d1 = (sy_db s)\<lparr>db_faults := tl (db_faults (sy_db s))\<rparr>"
    using d1(1) unfolding get_reply_by_id_def by (rule query_optional_db)
  obtain d2 where d2: "get_email_by_id (rp_email_id r) (au_user_id user) d1 = (Inr (Some v), d2)"
    using q2 v d1(2) by (auto simp: on_db_def split: prod.splits)
  have "v \<in> set (received_views d1) \<and> rv_id v = rp_email_id r \<and> rv_user_id v = au_user_id user"
    using query_optional_first [OF d2 [unfolded get_email_by_id_def]] by simp
  with row d download_response_safe [OF dl] show ?thesis by (auto simp: list_ex_iff)
qed


section \<open>Deleting\<close>

lemma on_db_calm: "m (sy_db s) = (r, d) \<Longrightarrow> on_db m s = (r, s\<lparr>sy_db := d\<rparr>)"
  by (simp add: on_db_def)

text \<open>The mail found for its owner, the row that is deleted for him, and the child that goes with it.\<close>

lemma own_mail_found:
  assumes wf: "db_wf d" and calm: "db_faults d = []"
    and root: "list_ex (\<lambda>v. rv_id v = eid \<and> rv_user_id v = uid \<and> rv_body_key v = key) (received_views d)"
  obtains v where "get_any_email eid uid d = (Inr (Some (AnyReceived v)), d)" "rv_body_key v = key"
proof -
  let ?vs = "filter (\<lambda>v. rv_id v = eid \<and> rv_user_id v = uid) (received_views d)"
  obtain v vs where v: "?vs = v # vs" using root by (cases ?vs) (auto simp: list_ex_iff filter_empty_conv)
  from root obtain v' where "v' \<in> set (received_views d)" "rv_id v' = eid" "rv_body_key v' = key" by (auto simp: list_ex_iff)
  moreover from v have "v \<in> set (received_views d)" "rv_id v = eid" by (auto dest: filter_ConsD)
  moreover have "uniq re_id (t_emails d)" using wf by (simp add: wf_defs)
  ultimately have "rv_body_key v = key" using received_view_row [of v d] received_view_row [of v' d] uniq_eq by metis
  with calm v show ?thesis
    by (intro that [of v]) (simp_all add: get_any_email_def get_email_by_id_def db_bind_def no_fault_simps db_return_def)
qed

lemma view_is_own_email:
  "list_ex (\<lambda>v. rv_id v = eid \<and> rv_user_id v = uid \<and> rv_body_key v = key) (received_views d) \<Longrightarrow>
   list_ex (own_email eid uid d) (t_emails d)"
  by (fastforce simp: received_views_def views_of_def view_email_def list_ex_iff own_email_def owned_by_def opt_in_def
      aliases_of_user_def alias_domains_iff)

lemma child_goes:
  assumes u: "uniq re_id (t_emails d)" and child: "list_ex (\<lambda>e. re_id e = cid \<and> re_thread_id e = Some eid \<and> re_body_key e = ckey) (t_emails d)"
    and mails: "t_emails d1 = filter (\<lambda>e. \<not> (re_id e = eid \<or> re_thread_id e = Some eid)) (t_emails d)"
  shows "\<not> has re_id (t_emails d1) cid"
proof
  obtain c where c: "c \<in> set (t_emails d)" "re_id c = cid" "re_thread_id c = Some eid" using child by (auto simp: list_ex_iff)
  assume "has re_id (t_emails d1) cid"
  then obtain c' where c': "c' \<in> set (t_emails d)" "re_id c' = cid" "re_thread_id c' \<noteq> Some eid" by (auto simp: has_iff mails)
  have "c' = c" by (rule uniq_eq [OF u c'(1) c(1)]) (simp add: c'(2) c(2))
  with c'(3) c(3) show False by simp
qed

text \<open>C32: Deleting a conversation leaves files behind. When the owner deletes a mail that has later mails of its
  conversation below it, their rows go with it, through the cascade; but only the files of the mail itself are put down
  for removal, so the later bodies stay on disk with no row that knows of them.\<close>
theorem deleting_a_conversation_orphans_bodies:
  assumes wf: "db_wf (sy_db (wb_sys w))" and flat: "flat_threads (sy_db (wb_sys w))" and calm: "db_faults (sy_db (wb_sys w)) = []"
    and root: "list_ex (\<lambda>v. rv_id v = eid \<and> rv_user_id v = uid \<and> rv_body_key v = key) (received_views (sy_db (wb_sys w)))"
    and child: "list_ex (\<lambda>e. re_id e = cid \<and> re_thread_id e = Some eid \<and> re_body_key e = ckey) (t_emails (sy_db (wb_sys w)))"
    and keys: "ckey \<noteq> key" "key \<noteq> ckey @ ''.eml''" "wb_removals w = []"
  shows "case perform_smart_delete st eid uid w of (r, w') \<Rightarrow>
    (case r of Inr deleted \<Rightarrow> deleted | Inl _ \<Rightarrow> False) \<and> \<not> has re_id (t_emails (sy_db (wb_sys w'))) cid \<and>
    \<not> list_ex (\<lambda>p. p = eml_path (as_storage_dir st) ckey) (wb_removals w')"
proof -
  let ?s = "wb_sys w" let ?d = "sy_db ?s"
  from own_mail_found [OF wf calm root] obtain v where got: "get_any_email eid uid ?d = (Inr (Some (AnyReceived v)), ?d)"
    and v: "rv_body_key v = key" .
  obtain r d1 where del: "delete_email_by_id eid uid ?d = (r, d1)" by fastforce
  have "\<exists>b. r = Inr b \<and> db_faults d1 = []"
    using del calm by (auto simp: delete_email_by_id_def db_bind_def db_return_def exec_count_def stmt_no_fault purge_emails_def
        purge_replies_def Let_def)
  then obtain b where b: "r = Inr b" "db_faults d1 = []" by blast
  from delete_takes_the_thread [OF wf flat del [unfolded b(1)]] view_is_own_email [OF root]
  have b': b and mails: "t_emails d1 = filter (\<lambda>e. \<not> (re_id e = eid \<or> re_thread_id e = Some eid)) (t_emails ?d)" by auto
  have gone: "\<not> has re_id (t_emails d1) cid" using wf by (intro child_goes [OF _ child mails]) (simp add: wf_defs)
  obtain x d2 where att: "delete_attachments_for_email eid d1 = (x, d2)" "t_emails d2 = t_emails d1"
    using b(2) by (auto simp: delete_attachments_for_email_def no_fault_simps)
  have del': "db_bind (delete_email_by_id eid uid)
      (\<lambda>hit. if hit then db_return True else delete_sent_email_by_id eid uid) ?d = (Inr True, d1)"
    using del b(1) b' by (simp add: db_bind_def db_return_def)
  have "perform_smart_delete st eid uid w = (Inr True, w\<lparr>wb_sys := ?s\<lparr>sy_db := d2\<rparr>,
      wb_removals := [draft_path (as_storage_dir st) key, eml_path (as_storage_dir st) key]\<rparr>)"
    using keys(3) v by (simp add: perform_smart_delete_def web_run_def on_db_def got del' att any_body_key_def)
  then show ?thesis
    using gone att(2) keys(1,2) by (simp add: draft_path_def eml_path_def)
qed

text \<open>A draft is stored as the bare text of its body. If that is no message for the parser, opening the draft from the
  list panics.\<close>

theorem opening_a_plain_draft_panics:
  assumes calm: "db_faults (sy_db s) = []" "io_faults (sy_fs s) = []"
    and none: "\<not> list_ex (\<lambda>v. rv_id v = i) (received_views (sy_db s))"
    and own: "filter (\<lambda>v. se_id (sv_row v) = i \<and> se_user_id (sv_row v) = au_user_id user) (sent_views (sy_db s)) = [v]"
    and eml: "files (sy_fs s) (eml_path (as_storage_dir st) (se_body_key (sv_row v))) = None"
      "files (sy_fs s) (draft_path (as_storage_dir st) (se_body_key (sv_row v))) = Some f"
      "ob_parse (as_outbound st) (file_bytes f) = None"
  shows "fst (get_email st vw user i s) = Inl ViewPanic"
proof -
  have "filter (\<lambda>v. rv_id v = i \<and> rv_user_id v = au_user_id user) (received_views (sy_db s)) = []"
    using none by (auto simp: filter_empty_conv list_ex_iff)
  then have got: "on_db (get_any_email i (au_user_id user)) s = (Inr (Some (AnySent v)), s)"
    using calm own by (simp add: on_db_def get_any_email_def get_email_by_id_def get_sent_email_by_id_and_user_def db_bind_def
        no_fault_simps db_return_def)
  have rd: "on_fs (fs_read (draft_path (as_storage_dir st) (se_body_key (sv_row v)))) s = (Inr (file_bytes f), s)"
    using calm eml by (simp add: on_fs_def fs_read_def syscall_def)
  show ?thesis by (simp add: get_email_def got get_sent_def eml rd Let_def)
qed

section \<open>Live events\<close>

text \<open>The live view shows a user his own mail only, whatever event is broadcast.\<close>
theorem live_events_show_own_mail:
  "case fst (dashboard_sse_event user event d) of
     None \<Rightarrow> True
   | Some row \<Rightarrow> list_ex (\<lambda>v. rv_id v = de_id row \<and> rv_user_id v = au_user_id user \<and> de_subject row = rv_subject v) (received_views d)"
proof (cases event)
  case (NewEmail u i)
  obtain r d1 where r: "get_email_by_id i (au_user_id user) d = (r, d1)" by fastforce
  show ?thesis
  proof (cases "u = au_user_id user \<and> (\<exists>v. r = Inr (Some v))")
    case True
    then obtain v where v: "r = Inr (Some v)" "u = au_user_id user" by blast
    have "v \<in> set (received_views d) \<and> rv_id v = i \<and> rv_user_id v = au_user_id user"
      using query_optional_first [OF r [unfolded v get_email_by_id_def]] by simp
    with NewEmail v r show ?thesis
      by (auto simp: dashboard_sse_event_def display_received_def list_ex_iff split: prod.split)
  next
    case False
    with NewEmail r show ?thesis by (auto simp: dashboard_sse_event_def split: sum.splits option.splits)
  qed
qed (simp add: dashboard_sse_event_def)

section \<open>Samples\<close>

definition reader :: "uuid \<Rightarrow> authenticated_user" where
  "reader i = \<lparr>au_user_id = i, au_is_admin = False, au_bypass_alias_limit = False, au_can_send_firsthand = True\<rparr>"

definition sample_part :: mail_part where
  "sample_part = \<lparr>mp_inline_binary = False, mp_disposition_inline = None, mp_content_id = None, mp_name = Some ''a.txt'',
     mp_ctype = Some (''text'', Some ''plain''), mp_contents = ''abc''\<rparr>"

definition one_part :: parsed_message where
  "one_part = \<lparr>pm_subject = None, pm_from = None, pm_message_id = None, pm_in_reply_to = None, pm_references = None,
     pm_body_text = None, pm_body_html = None, pm_attachments = [sample_part]\<rparr>"

text \<open>A parser that knows one message.\<close>

definition mail_app :: app_state where
  "mail_app = sample_app\<lparr>as_outbound := sample_ob\<lparr>ob_parse := (\<lambda>b. if b = ''raw'' then Some one_part else None)\<rparr>\<rparr>"

definition mail_sys :: "db \<Rightarrow> (string \<Rightarrow> file_entry option) \<Rightarrow> sys" where
  "mail_sys d fs = sample_sys\<lparr>sy_db := d, sy_fs := empty_fs\<lparr>files := fs\<rparr>\<rparr>"

lemma mail_app_simps: "as_storage_dir mail_app = ''/m''" "ob_parse (as_outbound mail_app) ''raw'' = Some one_part"
    "ob_parse (as_outbound mail_app) ''hello'' = None"
  by (simp_all add: mail_app_def sample_app_def)

lemma mail_sys_simps: "sy_db (mail_sys d fs) = d" "files (sy_fs (mail_sys d fs)) = fs" "io_faults (sy_fs (mail_sys d fs)) = []"
  by (simp_all add: mail_sys_def empty_fs_def)

lemma sample_own: "list_ex (\<lambda>v. rv_id v = ''e1'' \<and> rv_user_id v = ''u1'') (received_views (sample_db b))"
  by (simp add: received_views_def views_of_def alias_domains_def view_email_def sample_defs)

theorem pages_show_the_whole_inbox_witness:
  "\<exists>t. dashboard_handler (reader ''u1'') (inbox_request None None None 1) (sample_db Sqlite) = (Inr t, sample_db Sqlite) \<and>
     map de_id (dt_emails t) = [''e1''] \<and> dt_total_pages t = 1"
proof -
  have i: "map rv_id (inbox_of (sample_db Sqlite) (au_user_id (reader ''u1'')) (nonempty None) (nonempty None) (nonempty None)) = [''e1'']"
    by (simp add: inbox_of_def inbox_matches_def opt_holds_def received_views_def views_of_def alias_domains_def view_email_def
        sample_defs reader_def nonempty_def)
  then have l: "length (inbox_of (sample_db Sqlite) (au_user_id (reader ''u1'')) (nonempty None) (nonempty None) (nonempty None)) = 1"
    by (metis One_nat_def length_map list.size(3,4) plus_nat.add_0 add.commute)
  have calm: "db_faults (sample_db Sqlite) = []" by (simp add: sample_defs)
  obtain ts where ts: "map (\<lambda>n. dashboard_handler (reader ''u1'') (inbox_request None None None n) (sample_db Sqlite)) [1..<Suc (length ts)] =
      map (\<lambda>t. (Inr t, sample_db Sqlite)) ts" "concat (map (\<lambda>t. map de_id (dt_emails t)) ts) = [''e1'']"
    "list_all (\<lambda>t. dt_total_pages t = length ts \<and> dt_total_emails t = 1) ts"
    using pages_show_the_whole_inbox [OF calm, of "reader ''u1''" None None None] i l by auto
  have n: "length ts = 1"
  proof (cases ts)
    case Nil
    with ts(2) show ?thesis by simp
  next
    case (Cons t us)
    from calm inbox_page [OF calm, of 1 "reader ''u1''" None None None] l obtain t' where
      t': "dashboard_handler (reader ''u1'') (inbox_request None None None 1) (sample_db Sqlite) = (Inr t', sample_db Sqlite)"
      "dt_total_pages t' = 1" by (auto simp: calculate_total_pages_def)
    have "dashboard_handler (reader ''u1'') (inbox_request None None None 1) (sample_db Sqlite) = (Inr t, sample_db Sqlite)"
      using arg_cong [OF ts(1), of hd] Cons by (simp add: hd_map del: upt_Suc)
    with t' ts(3) Cons show ?thesis by simp
  qed
  then obtain t where "ts = [t]" by (cases ts) auto
  with ts n show ?thesis by (auto simp: upt_rec)
qed

definition parted_db :: db where
  "parted_db = store_mail (new_email ''e2'' ''a2'' ''eve@y.org'' ''re'' ''k2'' 9 (Some ''m2'') None True)
     [attachment_of ''t1'' ''e2'' 9 (part_metadata 0 sample_part)] None 9 (sample_db Sqlite)"

lemma parted_run:
  "\<exists>v. insert_email_with_attachments ''e2'' [''t1''] 9 ''a2'' ''eve@y.org'' ''re'' ''k2'' None (Some ''m2'') None
     (snd (extract_full_metadata (ob_parse (as_outbound mail_app)) ''raw'' ''eve@y.org'')) (sample_db Sqlite) = (Inr v, parted_db)"
  by (simp add: extract_full_metadata_def mail_app_simps one_part_def part_metadata_def sample_part_def part_is_inline_def parted_db_def
      insert_email_with_attachments_def db_eval sample_defs
      bump_thread_def bump_root_def bump_opt_def insert_email_row_def add_email_def email_constraints_def
      insert_attachment_row_def attachment_constraints_def attachment_of_def
      store_mail_def add_attachments_def update_rows_def views_by_id_def received_views_def views_of_def
      alias_domains_def view_email_def db_bind_def)

definition one_file :: "string \<Rightarrow> string \<Rightarrow> string \<Rightarrow> file_entry option" where
  "one_file path bytes = (\<lambda>p. if p = path then Some \<lparr>file_bytes = bytes, file_mode = mode_0600\<rparr> else None)"

theorem attachments_round_trip_witness:
  "\<exists>dl. fst (download_attachment_handler mail_app (reader ''u2'') ''e2'' ''t1'' (mail_sys parted_db (one_file ''/m/k2.eml'' ''raw''))) =
     Inr dl \<and> dl_data dl = ''abc''"
proof -
  let ?s = "mail_sys parted_db (one_file ''/m/k2.eml'' ''raw'')"
  obtain v where run: "insert_email_with_attachments ''e2'' [''t1''] 9 ''a2'' ''eve@y.org'' ''re'' ''k2'' None (Some ''m2'') None
     (snd (extract_full_metadata (ob_parse (as_outbound mail_app)) ''raw'' ''eve@y.org'')) (sample_db Sqlite) = (Inr v, sy_db ?s)"
    using parted_run by (auto simp: mail_sys_simps)
  have calm: "db_faults (sy_db ?s) = []"
    by (simp add: mail_sys_simps parted_db_def store_mail_def add_attachments_def add_email_def bump_opt_def sample_defs)
  have own: "list_ex (\<lambda>v. rv_id v = ''e2'' \<and> rv_user_id v = au_user_id (reader ''u2'')) (received_views (sy_db ?s))"
    by (simp add: mail_sys_simps parted_db_def store_mail_def add_attachments_def add_email_def bump_opt_def sample_defs
        received_views_def views_of_def alias_domains_def view_email_def reader_def)
  have eml: "files (sy_fs ?s) (eml_path (as_storage_dir mail_app) ''k2'') = Some \<lparr>file_bytes = ''raw'', file_mode = mode_0600\<rparr>"
    by (simp add: mail_sys_simps mail_app_simps eml_path_def one_file_def)
  have len: "length [''t1''] = length (pm_attachments one_part)" "0 < length (pm_attachments one_part)"
    by (simp_all add: one_part_def)
  obtain row where row: "at_filename row = Some ''a.txt''"
    "fst (download_attachment_handler mail_app (reader ''u2'') ''e2'' ''t1'' ?s) = download_response row ''abc''"
    using attachments_round_trip [OF run sample_wf calm mail_sys_simps(3) own eml mail_app_simps(2) len]
    by (auto simp: one_part_def sample_part_def)
  have "\<exists>dl. download_response row ''abc'' = Inr dl \<and> dl_data dl = ''abc''"
    by (simp add: download_response_def row(1) sanitize_header_def header_value_ok_def code_point_def Let_def)
  with row(2) show ?thesis by simp
qed

definition reply_file :: attachment_row where
  "reply_file = \<lparr>at_id = ''t9'', at_email_id = ''e1'', at_filename = Some ''contract.pdf'', at_content_type = None, at_size_bytes = 9,
     at_part_index = 0, at_is_inline = False, at_content_id = None, at_created_at = 9, at_reply_id = Some ''r1''\<rparr>"

definition replied_db :: db where
  "replied_db = (sample_db Sqlite)\<lparr>t_replies := [\<lparr>rp_id = ''r1'', rp_email_id = ''e1'', rp_body_text = ''see file'', rp_sent_at = 9,
     rp_message_id = None, rp_body_key = Some ''k9''\<rparr>], t_attachments := [reply_file]\<rparr>"

theorem reply_attachment_poses_as_the_mails_witness:
  "\<exists>dl. fst (download_attachment_handler mail_app (reader ''u1'') ''e1'' ''t9'' (mail_sys replied_db (one_file ''/m/k1.eml'' ''raw''))) =
     Inr dl \<and> dl_data dl = ''abc'' \<and>
     dl_disposition dl = Some (''attachment; filename='' @ [CHR 0x22] @ ''contract.pdf'' @ [CHR 0x22])"
proof -
  let ?s = "mail_sys replied_db (one_file ''/m/k1.eml'' ''raw'')"
  have calm: "db_faults (sy_db ?s) = []" by (simp add: mail_sys_simps replied_db_def sample_defs)
  have own: "list_ex (\<lambda>v. rv_id v = ''e1'' \<and> rv_user_id v = au_user_id (reader ''u1'')) (received_views (sy_db ?s))"
    by (simp add: mail_sys_simps replied_db_def sample_defs received_views_def views_of_def alias_domains_def view_email_def reader_def)
  have mail: "uniq re_id (t_emails (sy_db ?s))" "list_ex (\<lambda>e. re_id e = ''e1'' \<and> re_body_key e = ''k1'') (t_emails (sy_db ?s))"
    by (simp_all add: mail_sys_simps replied_db_def sample_defs uniq_def)
  have row: "uniq at_id (t_attachments (sy_db ?s))" "list_ex (\<lambda>x. x = reply_file) (t_attachments (sy_db ?s))"
    "at_email_id reply_file = ''e1''" "at_reply_id reply_file = Some ''r1''"
    by (simp_all add: mail_sys_simps replied_db_def reply_file_def uniq_def)
  have eml: "files (sy_fs ?s) (eml_path (as_storage_dir mail_app) ''k1'') = Some \<lparr>file_bytes = ''raw'', file_mode = mode_0600\<rparr>"
    "ob_parse (as_outbound mail_app) (file_bytes \<lparr>file_bytes = ''raw'', file_mode = mode_0600\<rparr>) = Some one_part"
    "at_part_index reply_file < length (pm_attachments one_part)"
    by (simp_all add: mail_sys_simps mail_app_simps eml_path_def one_file_def reply_file_def one_part_def)
  have "fst (download_attachment_handler mail_app (reader ''u1'') ''e1'' ''t9'' ?s) = download_response reply_file ''abc''"
    using reply_attachment_poses_as_the_mails [OF calm mail_sys_simps(3) own mail row eml]
    by (simp add: reply_file_def one_part_def sample_part_def)
  then show ?thesis
    by (simp add: download_response_def reply_file_def sanitize_header_def header_value_ok_def code_point_def Let_def)
qed

theorem deleting_a_conversation_orphans_bodies_witness:
  "case perform_smart_delete mail_app ''e1'' ''u1'' \<lparr>wb_sys = mail_sys (stored_sample Sqlite (Some ''e1'')) (\<lambda>_. None), wb_removals = []\<rparr> of
     (r, w') \<Rightarrow> \<not> has re_id (t_emails (sy_db (wb_sys w'))) ''e2'' \<and> \<not> list_ex (\<lambda>p. p = ''/m/k2.eml'') (wb_removals w')"
proof -
  let ?w = "\<lparr>wb_sys = mail_sys (stored_sample Sqlite (Some ''e1'')) (\<lambda>_. None), wb_removals = []\<rparr>"
  have d: "sy_db (wb_sys ?w) = stored_sample Sqlite (Some ''e1'')" by (simp add: mail_sys_simps)
  have kept: "db_wf (sy_db (wb_sys ?w))" unfolding d by (rule stored_wf)
  have fl: "flat_threads (sy_db (wb_sys ?w))" unfolding d by (rule stored_flat)
  have calm: "db_faults (sy_db (wb_sys ?w)) = []" unfolding d by (simp add: stored_defs)
  have root: "list_ex (\<lambda>v. rv_id v = ''e1'' \<and> rv_user_id v = ''u1'' \<and> rv_body_key v = ''k1'') (received_views (sy_db (wb_sys ?w)))"
    unfolding d by (simp add: stored_defs received_views_def views_of_def alias_domains_def view_email_def)
  have child: "list_ex (\<lambda>e. re_id e = ''e2'' \<and> re_thread_id e = Some ''e1'' \<and> re_body_key e = ''k2'') (t_emails (sy_db (wb_sys ?w)))"
    unfolding d by (simp add: stored_defs)
  have keys: "''k2'' \<noteq> ''k1''" "''k1'' \<noteq> ''k2'' @ ''.eml''" "wb_removals ?w = []" by simp_all
  from deleting_a_conversation_orphans_bodies [OF kept fl calm root child keys,
      of mail_app]
  show ?thesis by (auto simp: mail_app_simps eml_path_def)
qed

definition drafted_db :: db where
  "drafted_db = (sample_db Sqlite)\<lparr>t_sent := [new_sent ''s1'' 9 ''u1'' ''a1'' ''bob@y.org'' ''Hi'' ''k7'' Draft None None]\<rparr>"

theorem opening_a_plain_draft_panics_witness:
  "fst (get_email mail_app vw (reader ''u1'') ''s1'' (mail_sys drafted_db (one_file ''/m/k7'' ''hello''))) = Inl ViewPanic"
  by (rule opening_a_plain_draft_panics [where f = "\<lparr>file_bytes = ''hello'', file_mode = mode_0600\<rparr>" and
        v = "\<lparr>sv_row = new_sent ''s1'' 9 ''u1'' ''a1'' ''bob@y.org'' ''Hi'' ''k7'' Draft None None, sv_alias_address = ''shop@x.org''\<rparr>"])
    (simp_all add: mail_sys_simps mail_app_simps drafted_db_def sample_defs received_views_def views_of_def alias_domains_def
      view_email_def sent_views_def new_sent_def address_of_def reader_def eml_path_def draft_path_def one_file_def)

end
