(* ===== verification/Web_Domains.thy ===== *)
theory Web_Domains
  imports Web_Auth "HOL-Library.List_Lexorder" "HOL-Library.Char_ord"
begin

text \<open>
  The administrator's domain pages (\<open>src/src/web/handlers.rs\<close>) and the rotation of DKIM keys
  (\<open>src/src/web/dkim.rs\<close>).

  Key generation, encryption and DNS are arguments.  The handlers of \<open>dkim.rs\<close> read the domain, act, and read it
  again; \<open>verify_dkim_handler\<close> asks DNS between its read and its write, so it is also given as its two halves.
\<close>

section \<open>Domain pages\<close>

record domain_with_status =
  ds_domain :: domain_row
  ds_dns_status :: "dns_check_result option"

text \<open>The checks run as tasks that finish in any order; the page is sorted by name.\<close>

definition domains_with_status :: "resolver \<Rightarrow> domain_row list \<Rightarrow> domain_with_status list" where
  "domains_with_status dns domains = sort_key (\<lambda>d. dm_name (ds_domain d))
     (map (\<lambda>m. \<lparr>ds_domain = m, ds_dns_status = Some (check_domain dns (dm_name m))\<rparr>) domains)"

definition domains_page :: "resolver \<Rightarrow> authenticated_user \<Rightarrow> db \<Rightarrow> domain_with_status list \<times> db" where
  "domains_page dns user d = (case or_default [] get_domains d of (domains, d) \<Rightarrow> (domains_with_status dns domains, d))"

definition dns_badge :: "dns_check_result option \<Rightarrow> string" where
  "dns_badge dns_status = (case dns_status of
     Some status \<Rightarrow>
       (let badge_html = (if dc_is_ok status
          then ''<span class='' @ [CHR 39] @ ''badge'' @ [CHR 39] @ '' style='' @ [CHR 39] @ ''background: #e6fffa; color: #2c7a7b;'' @ [CHR 39] @ ''>DNS OK</span>''
          else ''<span class='' @ [CHR 39] @ ''badge'' @ [CHR 39] @ '' style='' @ [CHR 39] @ ''background: #fff5f5; color: #c53030;'' @ [CHR 39] @ ''>DNS Issue</span>'')
        in ''<div class='' @ [CHR 39] @ ''maileroo-tooltip-container'' @ [CHR 39] @ ''>'' @ badge_html @
           ''<div class='' @ [CHR 39] @ ''maileroo-tooltip-text'' @ [CHR 39] @ ''><strong>MX:</strong> '' @ st_message (dc_mx_status status) @
           ''<br><strong>SPF:</strong> '' @ st_message (dc_spf_status status) @
           ''<br><strong>DMARC:</strong> '' @ st_message (dc_dmarc_status status) @ ''</div></div>'')
   | None \<Rightarrow> ''<span class='' @ [CHR 39] @ ''badge'' @ [CHR 39] @ '' style='' @ [CHR 39] @ ''background: #edf2f7; color: #4a5568;'' @ [CHR 39] @ ''>DNS Unknown</span>'')"

datatype dkim_badge = NoDkim | Rotating | NoBadge

definition dkim_badge_of :: "domain_row \<Rightarrow> dkim_badge" where
  "dkim_badge_of m = (if dm_dkim_public m = None then NoDkim else if dm_pending_public m \<noteq> None then Rotating else NoBadge)"

text \<open>A row of the answer: the identifier, the name as it stands (it is not escaped), the badges and the date.\<close>

record domain_html_row =
  dh_id :: uuid
  dh_name_html :: string
  dh_dns_badge :: string
  dh_dkim_badge :: dkim_badge
  dh_created :: string

definition domain_html_row_of :: "(time \<Rightarrow> string) \<Rightarrow> domain_with_status \<Rightarrow> domain_html_row" where
  "domain_html_row_of show_date v =
     (let m = ds_domain v
      in \<lparr>dh_id = dm_id m, dh_name_html = dm_name m, dh_dns_badge = dns_badge (ds_dns_status v),
          dh_dkim_badge = dkim_badge_of m, dh_created = take 10 (show_date (dm_created_at m))\<rparr>)"

definition create_domain_handler ::
  "cipher_lib \<Rightarrow> string \<Rightarrow> string \<Rightarrow> (string + string \<times> string) \<Rightarrow> resolver \<Rightarrow> (time \<Rightarrow> string) \<Rightarrow> uuid \<Rightarrow> time \<Rightarrow> string
   \<Rightarrow> authenticated_user \<Rightarrow> db \<Rightarrow> (nat + domain_html_row list) \<times> db" where
  "create_domain_handler lib config_key nonce key_pair dns show_date fresh now domain_name user d =
     (case insert_domain lib config_key nonce key_pair fresh now domain_name d of
        (Inl _, d) \<Rightarrow> (Err 500, d)
      | (Inr _, d) \<Rightarrow> (case or_default [] get_domains d of (domains, d) \<Rightarrow>
          (Ok (map (domain_html_row_of show_date) (domains_with_status dns domains)), d)))"

definition delete_domain_handler :: "uuid \<Rightarrow> authenticated_user \<Rightarrow> db \<Rightarrow> nat \<times> db" where
  "delete_domain_handler domain_id user d = (case delete_domain_by_id domain_id d of
     (Inr _, d) \<Rightarrow> (200, d) | (Inl _, d) \<Rightarrow> (500, d))"

section \<open>Rotating DKIM keys\<close>

record dkim_modal_template =
  km_domain :: domain_row
  km_error :: "string option"
  km_success_message :: "string option"

definition plain_modal :: "domain_row \<Rightarrow> dkim_modal_template" where
  "plain_modal m = \<lparr>km_domain = m, km_error = None, km_success_message = None\<rparr>"

text \<open>Every handler starts by fetching the domain.\<close>

definition with_domain ::
  "uuid \<Rightarrow> (domain_row \<Rightarrow> db \<Rightarrow> (nat \<times> string + 'a) \<times> db) \<Rightarrow> db \<Rightarrow> (nat \<times> string + 'a) \<times> db" where
  "with_domain domain_id f d = (case get_domain_by_id domain_id d of
     (Inr (Some m), d) \<Rightarrow> f m d
   | (Inr None, d) \<Rightarrow> (Err (404, ''Domain not found''), d)
   | (Inl _, d) \<Rightarrow> (Err (500, ''Database error''), d))"

text \<open>After its change a handler shows the domain as it is now, or as it was when that cannot be read.\<close>

definition updated_domain :: "uuid \<Rightarrow> domain_row \<Rightarrow> db \<Rightarrow> domain_row \<times> db" where
  "updated_domain domain_id m d = (case get_domain_by_id domain_id d of
     (Inr (Some m'), d) \<Rightarrow> (m', d) | (_, d) \<Rightarrow> (m, d))"

definition dkim_modal_handler :: "uuid \<Rightarrow> authenticated_user \<Rightarrow> db \<Rightarrow> (nat \<times> string + dkim_modal_template) \<times> db" where
  "dkim_modal_handler domain_id user = with_domain domain_id (\<lambda>m d. (Ok (plain_modal m), d))"

definition next_selector :: "domain_row \<Rightarrow> string" where
  "next_selector m = (if dm_dkim_selector m = ''maileroo'' then ''maileroo2'' else ''maileroo'')"

definition rotate_dkim_handler ::
  "cipher_lib \<Rightarrow> string \<Rightarrow> string \<Rightarrow> (string + string \<times> string) \<Rightarrow> uuid \<Rightarrow> authenticated_user \<Rightarrow> db
   \<Rightarrow> (nat \<times> string + dkim_modal_template) \<times> db" where
  "rotate_dkim_handler lib config_key nonce key_pair domain_id user = with_domain domain_id (\<lambda>m d.
     case key_pair of
       Inl _ \<Rightarrow> (Err (500, ''Failed to generate keys''), d)
     | Inr (private_pem, public_dns) \<Rightarrow>
        (case encrypt lib config_key nonce private_pem of
           Inl _ \<Rightarrow> (Err (500, ''Encryption error''), d)
         | Inr encrypted_private_key \<Rightarrow>
            (case update_pending_dkim domain_id (Some encrypted_private_key) (Some public_dns) (Some (next_selector m)) d of
               (Inl _, d) \<Rightarrow> (Err (500, ''Database save error''), d)
             | (Inr _, d) \<Rightarrow> (case updated_domain domain_id m d of (m, d) \<Rightarrow> (Ok (plain_modal m), d)))))"

text \<open>The half of a verification before its write: what it answers at once, or that DNS holds the pending key.\<close>

definition verify_check :: "resolver \<Rightarrow> domain_row \<Rightarrow> dkim_modal_template option" where
  "verify_check dns m = (case dm_pending_selector m of
     None \<Rightarrow> Some \<lparr>km_domain = m, km_error = Some ''No pending DKIM rotation in progress for this domain.'', km_success_message = None\<rparr>
   | Some pending_selector \<Rightarrow> (case dm_pending_public m of
       None \<Rightarrow> Some \<lparr>km_domain = m, km_error = Some ''Pending public key is missing.'', km_success_message = None\<rparr>
     | Some pending_public_key \<Rightarrow>
        (let status = check_dkim_record dns (dm_name m) pending_selector pending_public_key
         in if st_ok status then None
            else Some \<lparr>km_domain = m, km_error = Some (''DNS Verification failed: '' @ st_message status), km_success_message = None\<rparr>)))"

definition verify_promote :: "uuid \<Rightarrow> domain_row \<Rightarrow> db \<Rightarrow> (nat \<times> string + dkim_modal_template) \<times> db" where
  "verify_promote domain_id m d = (case promote_pending_dkim domain_id d of
     (Inl _, d) \<Rightarrow> (Err (500, ''Database promotion error''), d)
   | (Inr _, d) \<Rightarrow> (case updated_domain domain_id m d of (m, d) \<Rightarrow>
       (Ok \<lparr>km_domain = m, km_error = None, km_success_message = Some ''DKIM key successfully verified and activated!''\<rparr>, d)))"

definition verify_dkim_handler :: "resolver \<Rightarrow> uuid \<Rightarrow> authenticated_user \<Rightarrow> db \<Rightarrow> (nat \<times> string + dkim_modal_template) \<times> db" where
  "verify_dkim_handler dns domain_id user = with_domain domain_id (\<lambda>m d.
     case verify_check dns m of
       Some answer \<Rightarrow> (Ok answer, d)
     | None \<Rightarrow> verify_promote domain_id m d)"

definition cancel_dkim_rotation_handler :: "uuid \<Rightarrow> authenticated_user \<Rightarrow> db \<Rightarrow> (nat \<times> string + dkim_modal_template) \<times> db" where
  "cancel_dkim_rotation_handler domain_id user = with_domain domain_id (\<lambda>m d.
     case clear_pending_dkim domain_id d of
       (Inl _, d) \<Rightarrow> (Err (500, ''Database clear error''), d)
     | (Inr _, d) \<Rightarrow> (case updated_domain domain_id m d of (m, d) \<Rightarrow> (Ok (plain_modal m), d)))"

datatype dkim_event =
    RotateKey uuid string "string + string \<times> string"
  | VerifyKey uuid resolver
  | CancelRotation uuid

fun dkim_step :: "cipher_lib \<Rightarrow> string \<Rightarrow> authenticated_user \<Rightarrow> db \<Rightarrow> dkim_event \<Rightarrow> db" where
  "dkim_step lib config_key u d (RotateKey i nonce kp) = snd (rotate_dkim_handler lib config_key nonce kp i u d)"
| "dkim_step lib config_key u d (VerifyKey i dns) = snd (verify_dkim_handler dns i u d)"
| "dkim_step lib config_key u d (CancelRotation i) = snd (cancel_dkim_rotation_handler i u d)"

section \<open>Rotation is safe, one request at a time\<close>

definition signing_of :: "domain_row \<Rightarrow> string option \<times> string option \<times> string" where
  "signing_of m = (dm_dkim_private m, dm_dkim_public m, dm_dkim_selector m)"

text \<open>A pending key is complete, and waits under another selector than the active one.\<close>

definition pending_ok :: "domain_row \<Rightarrow> bool" where
  "pending_ok m = (case dm_pending_selector m of
     None \<Rightarrow> dm_pending_private m = None \<and> dm_pending_public m = None
   | Some s \<Rightarrow> dm_pending_private m \<noteq> None \<and> dm_pending_public m \<noteq> None \<and> s \<noteq> dm_dkim_selector m)"

definition published :: "resolver \<Rightarrow> domain_row \<Rightarrow> bool" where
  "published dns m = (case dm_dkim_public m of
     None \<Rightarrow> False
   | Some pub \<Rightarrow> dm_dkim_private m \<noteq> None \<and> st_ok (check_dkim_record dns (dm_name m) (dm_dkim_selector m) pub))"

text \<open>What one handler may make of a domain.\<close>

definition dkim_change :: "resolver option \<Rightarrow> domain_row \<Rightarrow> domain_row \<Rightarrow> bool" where
  "dkim_change dns m m' = (dm_id m' = dm_id m \<and> dm_name m' = dm_name m \<and> pending_ok m' \<and>
     (signing_of m' = signing_of m \<or> (case dns of None \<Rightarrow> False | Some dns \<Rightarrow> published dns m')))"

fun resolver_of :: "dkim_event \<Rightarrow> resolver option" where
  "resolver_of (VerifyKey i dns) = Some dns"
| "resolver_of _ = None"

definition domains_ok :: "db \<Rightarrow> bool" where
  "domains_ok d = (uniq dm_id (t_domains d) \<and> list_all pending_ok (t_domains d))"

lemma domain_by_id:
  assumes "get_domain_by_id i d = (r, d')"
  shows "t_domains d' = t_domains d"
    "r = Inr (Some m) \<Longrightarrow> m \<in> set (t_domains d) \<and> dm_id m = i"
proof -
  obtain fs where d': "d' = d\<lparr>db_faults := fs\<rparr>" using query_optional_db [OF assms [unfolded get_domain_by_id_def]] by blast
  then show "t_domains d' = t_domains d" by simp
  show "r = Inr (Some m) \<Longrightarrow> m \<in> set (t_domains d) \<and> dm_id m = i"
    using query_optional_Ok [of "\<lambda>d. filter (\<lambda>m. dm_id m = i) (t_domains d)" d "Some m" d'] assms
    by (auto simp: get_domain_by_id_def dest: filter_ConsD split: list.splits)
qed

lemma updated_domain_tables: "t_domains (snd (updated_domain i m d)) = t_domains d"
proof -
  obtain r d' where g: "get_domain_by_id i d = (r, d')" by fastforce
  with domain_by_id(1) [OF g] show ?thesis by (auto simp: updated_domain_def split: sum.splits option.splits)
qed

lemma exec_set_domains:
  "exec (set_domains i f) d = (r, d') \<Longrightarrow>
     t_domains d' = (case r of Inl _ \<Rightarrow> t_domains d | Inr _ \<Rightarrow> update_rows (\<lambda>m. dm_id m = i) f (t_domains d))"
  by (auto simp: exec_def stmt_def set_domains_def Let_def split: if_splits)

lemma change_refl: "list_all pending_ok ms \<Longrightarrow> list_all2 (dkim_change dns) ms ms"
  by (auto simp: list_all2_same list_all_iff dkim_change_def)

lemma change_update:
  assumes ok: "domains_ok d" and m: "m \<in> set (t_domains d)" "dm_id m = i" and f: "dkim_change dns m (f m)"
  shows "list_all2 (dkim_change dns) (t_domains d) (update_rows (\<lambda>m. dm_id m = i) f (t_domains d))"
proof -
  have "dkim_change dns x (if dm_id x = i then f x else x)" if "x \<in> set (t_domains d)" for x
  proof (cases "dm_id x = i")
    case True
    then have "x = m" using ok m that by (auto simp: domains_ok_def intro: uniq_eq [of dm_id "t_domains d"])
    with f True show ?thesis by simp
  next
    case False
    with ok that show ?thesis by (auto simp: domains_ok_def list_all_iff dkim_change_def)
  qed
  then show ?thesis by (simp add: update_rows_def list_all2_map2 list_all2_same)
qed

lemma with_domain_change:
  assumes ok: "domains_ok d"
    and f: "\<And>m d1. t_domains d1 = t_domains d \<Longrightarrow> m \<in> set (t_domains d) \<Longrightarrow> dm_id m = i \<Longrightarrow>
      list_all2 (dkim_change dns) (t_domains d) (t_domains (snd (f m d1)))"
  shows "list_all2 (dkim_change dns) (t_domains d) (t_domains (snd (with_domain i f d)))"
proof -
  obtain r d1 where g: "get_domain_by_id i d = (r, d1)" by fastforce
  note t = domain_by_id(1) [OF g]
  have same: "list_all2 (dkim_change dns) (t_domains d) (t_domains d)"
    using ok by (intro change_refl) (simp add: domains_ok_def)
  show ?thesis
  proof (cases "\<exists>m. r = Inr (Some m)")
    case True
    then obtain m where r: "r = Inr (Some m)" by blast
    from domain_by_id(2) [OF g r] f [OF t, of m] show ?thesis by (simp add: with_domain_def g r)
  next
    case False
    then have "t_domains (snd (with_domain i f d)) = t_domains d"
      using t by (auto simp: with_domain_def g split: sum.splits option.splits)
    with same show ?thesis by simp
  qed
qed

lemma rotate_change: "domains_ok d \<Longrightarrow> list_all2 (dkim_change None) (t_domains d) (t_domains (snd (rotate_dkim_handler lib ck nonce kp i u d)))"
  unfolding rotate_dkim_handler_def
proof (rule with_domain_change)
  fix m and d1 :: db
  assume ok: "domains_ok d" and t: "t_domains d1 = t_domains d" and m: "m \<in> set (t_domains d)" "dm_id m = i"
  have same: "list_all2 (dkim_change None) (t_domains d) (t_domains d)" using ok by (intro change_refl) (simp add: domains_ok_def)
  let ?f = "\<lambda>key pub. \<lambda>m'. m'\<lparr>dm_pending_private := Some key, dm_pending_public := Some pub, dm_pending_selector := Some (next_selector m)\<rparr>"
  have up: "list_all2 (dkim_change None) (t_domains d) (update_rows (\<lambda>m. dm_id m = i) (?f key pub) (t_domains d))" for key pub
    by (rule change_update [OF ok m]) (simp add: dkim_change_def signing_of_def pending_ok_def next_selector_def)
  have "list_all2 (dkim_change None) (t_domains d) (t_domains d2)"
    if "update_pending_dkim i (Some key) (Some pub) (Some (next_selector m)) d1 = (r, d2)" for key pub r d2
    using exec_set_domains [OF that [unfolded update_pending_dkim_def]] same up t by (cases r) simp_all
  then have pend: "list_all2 (dkim_change None) (t_domains d)
      (t_domains (snd (update_pending_dkim i (Some key) (Some pub) (Some (next_selector m)) d1)))" for key pub
    by (metis prod.collapse)
  show "list_all2 (dkim_change None) (t_domains d) (t_domains (snd (case kp of
       Inl _ \<Rightarrow> (Err (500, ''Failed to generate keys''), d1)
     | Inr (private_pem, public_dns) \<Rightarrow>
        (case encrypt lib ck nonce private_pem of
           Inl _ \<Rightarrow> (Err (500, ''Encryption error''), d1)
         | Inr encrypted_private_key \<Rightarrow>
            (case update_pending_dkim i (Some encrypted_private_key) (Some public_dns) (Some (next_selector m)) d1 of
               (Inl _, d) \<Rightarrow> (Err (500, ''Database save error''), d)
             | (Inr _, d) \<Rightarrow> (case updated_domain i m d of (m, d) \<Rightarrow> (Ok (plain_modal m), d)))))))"
    using same t pend by (auto simp: case_prod_unfold updated_domain_tables split: sum.splits)
qed

lemma verify_change: "domains_ok d \<Longrightarrow> list_all2 (dkim_change (Some dns)) (t_domains d) (t_domains (snd (verify_dkim_handler dns i u d)))"
  unfolding verify_dkim_handler_def
proof (rule with_domain_change)
  fix m and d1 :: db
  assume ok: "domains_ok d" and t: "t_domains d1 = t_domains d" and m: "m \<in> set (t_domains d)" "dm_id m = i"
  have same: "list_all2 (dkim_change (Some dns)) (t_domains d) (t_domains d)" using ok by (intro change_refl) (simp add: domains_ok_def)
  show "list_all2 (dkim_change (Some dns)) (t_domains d)
      (t_domains (snd (case verify_check dns m of Some answer \<Rightarrow> (Ok answer, d1) | None \<Rightarrow> verify_promote i m d1)))"
  proof (cases "verify_check dns m")
    case (Some a)
    with same t show ?thesis by simp
  next
    case None
    have p: "pending_ok m" using ok m(1) by (auto simp: domains_ok_def list_all_iff)
    have "dkim_change (Some dns) m (promote m)"
      using None p by (auto simp: verify_check_def dkim_change_def promote_def pending_ok_def published_def Let_def unwrap_or_def
          split: option.splits if_splits)
    note up = change_update [where f = promote, OF ok m this]
    obtain r d2 where e: "promote_pending_dkim i d1 = (r, d2)" by fastforce
    have "list_all2 (dkim_change (Some dns)) (t_domains d) (t_domains d2)"
      using exec_set_domains [OF e [unfolded promote_pending_dkim_def]] same up t by (cases r) simp_all
    with None e show ?thesis
      by (auto simp: verify_promote_def case_prod_unfold updated_domain_tables split: sum.splits)
  qed
qed

lemma cancel_change: "domains_ok d \<Longrightarrow> list_all2 (dkim_change None) (t_domains d) (t_domains (snd (cancel_dkim_rotation_handler i u d)))"
  unfolding cancel_dkim_rotation_handler_def
proof (rule with_domain_change)
  fix m and d1 :: db
  assume ok: "domains_ok d" and t: "t_domains d1 = t_domains d" and m: "m \<in> set (t_domains d)" "dm_id m = i"
  have same: "list_all2 (dkim_change None) (t_domains d) (t_domains d)" using ok by (intro change_refl) (simp add: domains_ok_def)
  have up: "list_all2 (dkim_change None) (t_domains d) (update_rows (\<lambda>m. dm_id m = i)
      (\<lambda>m. m\<lparr>dm_pending_private := None, dm_pending_public := None, dm_pending_selector := None\<rparr>) (t_domains d))"
    by (rule change_update [OF ok m]) (simp add: dkim_change_def signing_of_def pending_ok_def)
  obtain r d2 where e: "clear_pending_dkim i d1 = (r, d2)" by fastforce
  have "list_all2 (dkim_change None) (t_domains d) (t_domains d2)"
    using exec_set_domains [OF e [unfolded clear_pending_dkim_def]] same up t by (cases r) simp_all
  with e show "list_all2 (dkim_change None) (t_domains d) (t_domains (snd (case clear_pending_dkim i d1 of
       (Inl _, d) \<Rightarrow> (Err (500, ''Database clear error''), d)
     | (Inr _, d) \<Rightarrow> (case updated_domain i m d of (m, d) \<Rightarrow> (Ok (plain_modal m), d)))))"
    by (auto simp: case_prod_unfold updated_domain_tables split: sum.splits)
qed

lemma dkim_step_change:
  "domains_ok d \<Longrightarrow> list_all2 (dkim_change (resolver_of e)) (t_domains d) (t_domains (dkim_step lib ck u d e))"
  by (cases e) (simp_all add: rotate_change verify_change cancel_change)

lemma change_keeps_ok:
  assumes "domains_ok d" "list_all2 (dkim_change dns) (t_domains d) (t_domains d')"
  shows "domains_ok d'"
proof -
  have "map dm_id (t_domains d') = map dm_id (t_domains d) \<and> list_all pending_ok (t_domains d')"
    using assms(2) by (induction rule: list_all2_induct) (auto simp: dkim_change_def)
  with assms(1) show ?thesis by (simp add: domains_ok_def uniq_def)
qed

interpretation dkim_rotation: machine "dkim_step lib ck u" domains_ok for lib ck u
  by unfold_locales (rule change_keeps_ok [OF _ dkim_step_change])

text \<open>Over a run: a domain signs as before, or with a key that a verification of the run saw published.\<close>

definition resigned :: "dkim_event list \<Rightarrow> domain_row \<Rightarrow> domain_row \<Rightarrow> bool" where
  "resigned es m m' = (dm_id m' = dm_id m \<and> dm_name m' = dm_name m \<and>
     (signing_of m' = signing_of m \<or>
      list_ex (\<lambda>e. case resolver_of e of None \<Rightarrow> False | Some dns \<Rightarrow> published dns m') es))"

lemma published_signing: "signing_of a = signing_of b \<Longrightarrow> dm_name a = dm_name b \<Longrightarrow> published dns a = published dns b"
  by (simp add: signing_of_def published_def split: option.splits)

lemma resigned_step: "resigned es m m' \<Longrightarrow> dkim_change (resolver_of e) m' m'' \<Longrightarrow> resigned (es @ [e]) m m''"
  using published_signing [of m'' m'] by (auto simp: resigned_def dkim_change_def split: option.splits)

text \<open>C37: A domain signs only with keys it has published. Whatever rotations, verifications and cancellations run, one
  after the other and with whatever database failures, in the end every domain signs with the key it had or with
  a complete key that DNS showed under its selector when a verification activated it; a pending key always waits
  under the other selector.\<close>
theorem dkim_signs_with_published_keys:
  assumes "domains_ok d"
  shows "list_all2 (resigned es) (t_domains d) (t_domains (run_steps (dkim_step lib ck u) d es)) \<and>
    list_all pending_ok (t_domains (run_steps (dkim_step lib ck u) d es))"
proof (induction es rule: rev_induct)
  case Nil
  from assms show ?case by (simp add: resigned_def list_all2_same domains_ok_def)
next
  case (snoc e es)
  let ?d = "run_steps (dkim_step lib ck u) d es"
  have ok: "domains_ok ?d" "domains_ok (run_steps (dkim_step lib ck u) d (es @ [e]))"
    by (rule dkim_rotation.run_inv [OF assms])+
  have "list_all2 (resigned (es @ [e])) (t_domains d) (t_domains (dkim_step lib ck u ?d e))"
    by (rule list_all2_trans [OF _ conjunct1 [OF snoc] dkim_step_change [OF ok(1)]]) (rule resigned_step)
  with ok(2) show ?case by (simp add: domains_ok_def)
qed

text \<open>A cancellation between the two halves of a verification silences the domain. When the pending key has been seen
  in DNS but a cancellation clears it before it is promoted, the promotion still reports success, and the domain has no
  signing key left: its mail goes out unsigned.\<close>
theorem cancel_during_verification_drops_key:
  assumes calm: "db_faults d = []" and one: "filter (\<lambda>m. dm_id m = i) (t_domains d) = [m]"
    and seen: "verify_check dns m = None"
  shows "let d1 = snd (cancel_dkim_rotation_handler i u d)
    in fst (verify_promote i m d1) =
         Inr \<lparr>km_domain = m\<lparr>dm_dkim_private := None, dm_dkim_public := None, dm_pending_private := None,
             dm_pending_public := None, dm_pending_selector := None\<rparr>, km_error = None,
           km_success_message = Some ''DKIM key successfully verified and activated!''\<rparr> \<and>
       get_domain_by_id i (snd (verify_promote i m d1)) =
         (Inr (Some (m\<lparr>dm_dkim_private := None, dm_dkim_public := None, dm_pending_private := None,
             dm_pending_public := None, dm_pending_selector := None\<rparr>)), snd (verify_promote i m d1))"
proof -
  let ?c = "\<lambda>m. m\<lparr>dm_pending_private := None, dm_pending_public := None, dm_pending_selector := None\<rparr>"
  have up: "filter (\<lambda>m. dm_id m = i) (update_rows (\<lambda>m. dm_id m = i) f ms) = map f (filter (\<lambda>m. dm_id m = i) ms)"
    if "\<And>m. dm_id (f m) = dm_id m" for f ms
    using that by (induction ms) (simp_all add: update_rows_def)
  let ?d1 = "set_domains i ?c d"
  have f1: "filter (\<lambda>m. dm_id m = i) (t_domains ?d1) = [?c m]" using one by (simp add: set_domains_def up)
  have c1: "db_faults ?d1 = []" using calm by (simp add: set_domains_def)
  have 1: "snd (cancel_dkim_rotation_handler i u d) = ?d1"
    using calm one c1 f1
    by (simp add: cancel_dkim_rotation_handler_def with_domain_def get_domain_by_id_def no_fault_simps clear_pending_dkim_def updated_domain_def)
  let ?d2 = "set_domains i promote ?d1"
  have f2: "filter (\<lambda>m. dm_id m = i) (t_domains ?d2) = [promote (?c m)]"
    using f1 by (simp add: set_domains_def [of _ promote] up promote_def)
  have c2: "db_faults ?d2 = []" using c1 by (simp add: set_domains_def [of _ promote])
  have g2: "get_domain_by_id i ?d2 = (Inr (Some (promote (?c m))), ?d2)"
    using f2 c2 by (simp add: get_domain_by_id_def no_fault_simps)
  have "verify_promote i m ?d1 = (Inr \<lparr>km_domain = promote (?c m), km_error = None,
       km_success_message = Some ''DKIM key successfully verified and activated!''\<rparr>, ?d2)"
    using c1 g2 by (simp add: verify_promote_def promote_pending_dkim_def no_fault_simps updated_domain_def)
  moreover have "promote (?c m) = m\<lparr>dm_dkim_private := None, dm_dkim_public := None, dm_pending_private := None,
             dm_pending_public := None, dm_pending_selector := None\<rparr>"
    by (cases m) (simp add: promote_def unwrap_or_def)
  ultimately show ?thesis using g2 by (simp add: 1 Let_def)
qed

section \<open>Samples\<close>

definition domain_admin :: authenticated_user where
  "domain_admin = \<lparr>au_user_id = ''u1'', au_is_admin = True, au_bypass_alias_limit = False, au_can_send_firsthand = False\<rparr>"

definition publishing_dns :: resolver where
  "publishing_dns = \<lparr>mx_lookup = (\<lambda>_. Inl ''no''), txt_lookup = (\<lambda>_. Inr [TXT [''p=pub'']]), ipv4_lookup = (\<lambda>_. Inl ''no''),
     lookup_ip = (\<lambda>_. False)\<rparr>"

definition rotating_domain :: domain_row where
  "rotating_domain = sample_domain\<lparr>dm_dkim_private := Some ''old'', dm_dkim_public := Some ''oldpub'',
     dm_pending_private := Some ''new'', dm_pending_public := Some ''pub'', dm_pending_selector := Some ''maileroo''\<rparr>"

definition rotating_db :: db where
  "rotating_db = (sample_db Sqlite)\<lparr>t_domains := [rotating_domain]\<rparr>"

lemma rotating_seen: "verify_check publishing_dns rotating_domain = None"
proof -
  have "from_utf8_lossy ''p=pub'' = ''p=pub''" by (rule from_utf8_lossy_ascii) (simp add: code_point_def)
  then show ?thesis
    by (simp add: verify_check_def rotating_domain_def sample_domain_def check_dkim_record_def publishing_dns_def txt_data_def
        Let_def del: from_utf8_lossy.simps)
qed

lemma rotating_calm: "db_faults rotating_db = []" "filter (\<lambda>m. dm_id m = ''d1'') (t_domains rotating_db) = [rotating_domain]"
  by (simp_all add: rotating_db_def rotating_domain_def sample_defs)

theorem dkim_signs_with_published_keys_witness:
  "let d = run_steps (dkim_step plain_lib ''k'' domain_admin) rotating_db [VerifyKey ''d1'' publishing_dns, CancelRotation ''d1'']
   in list_all2 (resigned [VerifyKey ''d1'' publishing_dns, CancelRotation ''d1'']) (t_domains rotating_db) (t_domains d) \<and>
      map dm_dkim_selector (t_domains (dkim_step plain_lib ''k'' domain_admin rotating_db (VerifyKey ''d1'' publishing_dns))) = [''maileroo'']"
proof -
  have "domains_ok rotating_db"
    by (simp add: domains_ok_def rotating_db_def rotating_domain_def sample_domain_def uniq_def pending_ok_def)
  note run = dkim_signs_with_published_keys [OF this, of "[VerifyKey ''d1'' publishing_dns, CancelRotation ''d1'']" plain_lib "''k''" domain_admin]
  have c: "db_faults (set_domains ''d1'' promote rotating_db) = []" using rotating_calm by (simp add: set_domains_def)
  have "t_domains (dkim_step plain_lib ''k'' domain_admin rotating_db (VerifyKey ''d1'' publishing_dns)) = [promote rotating_domain]"
    using rotating_seen rotating_calm c
    by (simp add: verify_dkim_handler_def with_domain_def get_domain_by_id_def no_fault_simps verify_promote_def
        promote_pending_dkim_def updated_domain_def split: option.splits)
      (simp_all add: set_domains_def rotating_db_def update_rows_def rotating_domain_def sample_domain_def)
  with run show ?thesis by (simp add: promote_def rotating_domain_def unwrap_or_def Let_def del: dkim_step.simps)
qed

theorem cancel_during_verification_drops_key_witness:
  "\<exists>m. fst (verify_promote ''d1'' rotating_domain (snd (cancel_dkim_rotation_handler ''d1'' domain_admin rotating_db))) =
     Inr \<lparr>km_domain = m, km_error = None, km_success_message = Some ''DKIM key successfully verified and activated!''\<rparr> \<and>
   dm_dkim_private m = None \<and> verify_check publishing_dns rotating_domain = None \<and> dm_dkim_private rotating_domain = Some ''old''"
  using cancel_during_verification_drops_key [OF rotating_calm rotating_seen, of domain_admin] rotating_seen
  by (simp add: Let_def rotating_domain_def)

end
