(* ===== verification/Web_Routes.thy ===== *)
theory Web_Routes
  imports Web_Send
begin

text \<open>
  Which request reaches which handler, and as whom: the table of \<open>create_app\<close> (\<open>src/src/web/mod.rs\<close>) with its layers,
  the extractor each handler asks for, and the small handlers of the same file; the names and identifiers of
  \<open>audit.rs\<close>.

  The router of \<open>axum\<close> and the rate limiter are arguments.  Of the router the theorems use that it answers with a
  route of the table and one of its handlers, for the method of the request or GET for HEAD (\<open>router_ok\<close>); the
  matching it documents, literal segments before parameters before the rest of a path, is \<open>documented_router\<close>, on
  which the hypothesis holds.  A body is limited to two megabytes unless a route says otherwise.
\<close>

section \<open>Handlers and what they ask for\<close>

datatype (plugins only: code) endpoint =
    Root | HealthCheck | BatchDeleteEmails | BatchDeleteEmailsConfirm | BatchMarkUnread | GetEmail | DeleteEmail
  | ToggleFavorite | MarkEmailUnread | SubmitReply | DownloadReplyAttachment | LoginPage | Login | PasswordToggle
  | Logout | RegisterPage | Register | Dashboard | DashboardSse | ApiKeysPage | CreateApiKey | DeleteApiKey
  | DomainsPage | CreateDomain | DeleteDomain | RotateDkim | VerifyDkim | CancelDkimRotation | DkimModal | AdminUsers
  | ToggleBypassLimit | ToggleDisableAutoclean | ToggleCanSendFirsthand | AliasesPage | CreateAlias
  | AliasSuggestions | DeleteAlias | DeleteAliasConfirm | DeleteEmailConfirm | DownloadAttachment | InlineImage
  | ToggleAliasForward | ListEmailsApi | ComposeModal | SaveDraft | SubmitEmail | SendEmailApi | SubmitReplyApi
  | GetEmailApi | ListAliasesApi | ToggleAliasForwardApi | LabelsModal | CreateLabel | DeleteLabel | CreateFilter
  | DeleteFilter | AddEmailLabel | RemoveEmailLabel | HtmxJs | SseJs

datatype access = Anyone | SessionUser | SessionAdmin | SessionSender | KeyOwner

definition public_endpoints :: "endpoint list" where
  "public_endpoints = [Root, HealthCheck, LoginPage, Login, PasswordToggle, RegisterPage, Register, HtmxJs, SseJs]"

definition admin_endpoints :: "endpoint list" where
  "admin_endpoints = [ApiKeysPage, CreateApiKey, DeleteApiKey, DomainsPage, CreateDomain, DeleteDomain, RotateDkim,
     VerifyDkim, CancelDkimRotation, DkimModal, AdminUsers, ToggleBypassLimit, ToggleDisableAutoclean, ToggleCanSendFirsthand]"

definition sender_endpoints :: "endpoint list" where
  "sender_endpoints = [ComposeModal, SaveDraft, SubmitEmail]"

definition key_endpoints :: "endpoint list" where
  "key_endpoints = [ListEmailsApi, SendEmailApi, SubmitReplyApi, GetEmailApi, ListAliasesApi, ToggleAliasForwardApi]"

definition access_of :: "endpoint \<Rightarrow> access" where
  "access_of e = (if List.member public_endpoints e then Anyone
     else if List.member admin_endpoints e then SessionAdmin
     else if List.member sender_endpoints e then SessionSender
     else if List.member key_endpoints e then KeyOwner
     else SessionUser)"

section \<open>The routes\<close>

datatype segment = Lit string | Param | Rest

record route =
  rt_path :: "segment list"
  rt_handlers :: "(http_method \<times> endpoint) list"
  rt_rate_limited :: bool
  rt_body_limit :: nat

abbreviation default_body_limit :: nat where "default_body_limit \<equiv> 2 * 1024 * 1024"
abbreviation max_upload_request_bytes :: nat where "max_upload_request_bytes \<equiv> 30 * 1024 * 1024"

definition route_to :: "segment list \<Rightarrow> (http_method \<times> endpoint) list \<Rightarrow> route" where
  "route_to path handlers = \<lparr>rt_path = path, rt_handlers = handlers, rt_rate_limited = False, rt_body_limit = default_body_limit\<rparr>"

definition governed :: "route \<Rightarrow> route" where
  "governed r = r\<lparr>rt_rate_limited := True\<rparr>"

definition uploads :: "route \<Rightarrow> route" where
  "uploads r = r\<lparr>rt_body_limit := max_upload_request_bytes\<rparr>"

definition mail_routes :: "route list" where
  "mail_routes =
    [route_to [Lit []] [(GET, Root)],
     route_to [Lit ''health''] [(GET, HealthCheck)],
     route_to [Lit ''emails'', Lit ''batch-delete''] [(POST, BatchDeleteEmails)],
     route_to [Lit ''emails'', Lit ''batch-delete-confirm''] [(POST, BatchDeleteEmailsConfirm)],
     route_to [Lit ''emails'', Lit ''batch-mark-unread''] [(POST, BatchMarkUnread)],
     route_to [Lit ''emails'', Param] [(GET, GetEmail), (DELETE, DeleteEmail)],
     route_to [Lit ''emails'', Param, Lit ''toggle-favorite''] [(POST, ToggleFavorite)],
     route_to [Lit ''emails'', Param, Lit ''mark-unread''] [(POST, MarkEmailUnread)],
     route_to [Lit ''emails'', Param, Lit ''reply''] [(POST, SubmitReply)],
     route_to [Lit ''emails'', Lit ''replies'', Param, Lit ''attachment'', Param] [(GET, DownloadReplyAttachment)],
     governed (route_to [Lit ''login''] [(GET, LoginPage), (POST, Login)]),
     route_to [Lit ''auth'', Lit ''password-toggle''] [(POST, PasswordToggle)],
     route_to [Lit ''logout''] [(POST, Logout)],
     governed (route_to [Lit ''register''] [(GET, RegisterPage), (POST, Register)]),
     route_to [Lit ''dashboard''] [(GET, Dashboard)],
     route_to [Lit ''api'', Lit ''sse'', Lit ''dashboard''] [(GET, DashboardSse)]]"

definition settings_routes :: "route list" where
  "settings_routes =
    [route_to [Lit ''api-keys''] [(GET, ApiKeysPage), (POST, CreateApiKey)],
     route_to [Lit ''api-keys'', Param] [(DELETE, DeleteApiKey)],
     route_to [Lit ''domains''] [(GET, DomainsPage), (POST, CreateDomain)],
     route_to [Lit ''domains'', Param] [(DELETE, DeleteDomain)],
     route_to [Lit ''domains'', Param, Lit ''rotate-dkim''] [(POST, RotateDkim)],
     route_to [Lit ''domains'', Param, Lit ''verify-dkim''] [(POST, VerifyDkim)],
     route_to [Lit ''domains'', Param, Lit ''cancel-dkim-rotation''] [(POST, CancelDkimRotation)],
     route_to [Lit ''domains'', Param, Lit ''dkim-modal''] [(GET, DkimModal)],
     route_to [Lit ''admin'', Lit ''users''] [(GET, AdminUsers)],
     route_to [Lit ''admin'', Lit ''users'', Param, Lit ''bypass_limit''] [(POST, ToggleBypassLimit)],
     route_to [Lit ''admin'', Lit ''users'', Param, Lit ''disable_autoclean''] [(POST, ToggleDisableAutoclean)],
     route_to [Lit ''admin'', Lit ''users'', Param, Lit ''can_send_firsthand''] [(POST, ToggleCanSendFirsthand)],
     route_to [Lit ''aliases''] [(GET, AliasesPage), (POST, CreateAlias)],
     route_to [Lit ''aliases'', Lit ''suggestions''] [(GET, AliasSuggestions)],
     route_to [Lit ''aliases'', Param] [(DELETE, DeleteAlias)],
     route_to [Lit ''aliases'', Param, Lit ''delete-confirm''] [(GET, DeleteAliasConfirm)],
     route_to [Lit ''emails'', Param, Lit ''delete-confirm''] [(GET, DeleteEmailConfirm)],
     route_to [Lit ''dashboard'', Lit ''email'', Param, Lit ''attachment'', Param] [(GET, DownloadAttachment)],
     route_to [Lit ''dashboard'', Lit ''email'', Param, Lit ''inline'', Rest] [(GET, InlineImage)],
     route_to [Lit ''aliases'', Param, Lit ''toggle-forward''] [(POST, ToggleAliasForward)]]"

definition api_routes :: "route list" where
  "api_routes = map (\<lambda>r. r\<lparr>rt_path := [Lit ''api'', Lit ''v1''] @ rt_path r\<rparr>)
    [route_to [Lit ''emails''] [(GET, ListEmailsApi)],
     route_to [Lit ''emails'', Lit ''compose''] [(GET, ComposeModal)],
     route_to [Lit ''emails'', Lit ''drafts''] [(POST, SaveDraft)],
     uploads (route_to [Lit ''emails'', Lit ''compose-send''] [(POST, SubmitEmail)]),
     uploads (route_to [Lit ''emails'', Lit ''send''] [(POST, SendEmailApi)]),
     route_to [Lit ''emails'', Param, Lit ''reply''] [(POST, SubmitReplyApi)],
     route_to [Lit ''emails'', Param] [(GET, GetEmailApi)],
     route_to [Lit ''aliases''] [(GET, ListAliasesApi)],
     route_to [Lit ''aliases'', Param, Lit ''toggle''] [(POST, ToggleAliasForwardApi)],
     route_to [Lit ''labels'', Lit ''modal''] [(GET, LabelsModal)],
     route_to [Lit ''labels''] [(POST, CreateLabel)],
     route_to [Lit ''labels'', Param] [(DELETE, DeleteLabel)],
     route_to [Lit ''filters''] [(POST, CreateFilter)],
     route_to [Lit ''filters'', Param] [(DELETE, DeleteFilter)],
     route_to [Lit ''emails'', Param, Lit ''labels''] [(POST, AddEmailLabel)],
     route_to [Lit ''emails'', Param, Lit ''labels'', Param] [(DELETE, RemoveEmailLabel)]]"

definition routes :: "route list" where
  "routes = mail_routes @ settings_routes @ api_routes @
    [route_to [Lit ''static'', Lit ''htmx.min.js''] [(GET, HtmxJs)],
     route_to [Lit ''static'', Lit ''sse.js''] [(GET, SseJs)]]"

section \<open>A request on its way\<close>

type_synonym router = "route list \<Rightarrow> http_method \<Rightarrow> string \<Rightarrow> (route \<times> endpoint option) option"

definition serves :: "http_method \<Rightarrow> http_method \<Rightarrow> bool" where
  "serves m m' = (m' = m \<or> m = HEAD \<and> m' = GET)"

definition router_ok :: "router \<Rightarrow> bool" where
  "router_ok router = (\<forall>rs m path r h. router rs m path = Some (r, h) \<longrightarrow> r \<in> set rs \<and>
     (case h of None \<Rightarrow> True | Some e \<Rightarrow> list_ex (\<lambda>(m', e'). e' = e \<and> serves m m') (rt_handlers r)))"

datatype principal = Anonymous | SignedIn authenticated_user | KeyHolder user_row

datatype dispatched =
    CrawlerBlocked | RouteNotFound | MethodNotAllowed | RateLimited | RefusedSession auth_error | RefusedKey "nat \<times> string"
  | Run endpoint principal

definition admit :: "(string \<Rightarrow> string) \<Rightarrow> endpoint \<Rightarrow> request \<Rightarrow> db \<Rightarrow> dispatched \<times> db" where
  "admit sha256_hex e rq d =
     (let as_session = (\<lambda>(r, d). (case r of Inl err \<Rightarrow> RefusedSession err | Inr u \<Rightarrow> Run e (SignedIn u), d))
      in case access_of e of
           Anyone \<Rightarrow> (Run e Anonymous, d)
         | SessionUser \<Rightarrow> as_session (authenticated_user_from_request rq d)
         | SessionAdmin \<Rightarrow> as_session (admin_user_from_request rq d)
         | SessionSender \<Rightarrow> as_session (firsthand_sender_from_request rq d)
         | KeyOwner \<Rightarrow> (case api_user_from_request sha256_hex rq d of
             (Inl err, d) \<Rightarrow> (RefusedKey err, d)
           | (Inr u, d) \<Rightarrow> (Run e (KeyHolder u), d)))"

definition dispatch ::
  "router \<Rightarrow> (string \<Rightarrow> string) \<Rightarrow> ip_addr option \<Rightarrow> (ip_addr \<Rightarrow> bool) \<Rightarrow> request \<Rightarrow> db \<Rightarrow> dispatched \<times> db" where
  "dispatch router sha256_hex trusted_proxy limiter rq d =
     (if \<not> crawler_filter rq then (CrawlerBlocked, d)
      else (case router routes (rq_method rq) (rq_path rq) of
          None \<Rightarrow> (RouteNotFound, d)
        | Some (r, h) \<Rightarrow>
            if rt_rate_limited r \<and> \<not> limiter (extract_key trusted_proxy rq) then (RateLimited, d)
            else (case h of
                None \<Rightarrow> (MethodNotAllowed, d)
              | Some e \<Rightarrow> admit sha256_hex e rq d)))"

section \<open>Small handlers\<close>

definition root_handler :: "web_session \<Rightarrow> string" where
  "root_handler session = (case fst (session_read wn_user_id session) of
     Inr (Some _) \<Rightarrow> ''/dashboard'' | _ \<Rightarrow> ''/login'')"

definition health_check :: "app_state \<Rightarrow> string \<times> string" where
  "health_check st = (''ok'', as_storage_dir st)"

record password_toggle_request =
  pt_show :: bool
  pt_password :: "string option"
  pt_minlength :: "string option"
  pt_placeholder :: "string option"
  pt_autocomplete :: "string option"

record password_input_template =
  pi_show :: bool
  pi_value :: string
  pi_minlength :: "string option"
  pi_placeholder :: "string option"
  pi_autocomplete :: "string option"

definition password_toggle_handler :: "password_toggle_request \<Rightarrow> password_input_template" where
  "password_toggle_handler p = \<lparr>pi_show = pt_show p, pi_value = unwrap_or [] (pt_password p), pi_minlength = pt_minlength p,
     pi_placeholder = pt_placeholder p, pi_autocomplete = pt_autocomplete p\<rparr>"

section \<open>The audit log\<close>

datatype audit_event =
    UserRegistered | LoginSucceeded | LoginFailed | LoggedOut | AliasCreated | AliasDeleted | ApiKeyCreated | ApiKeyDeleted
  | FilterCreated | FilterDeleted | AdminUserPermissionChanged | RateLimitHit

fun audit_event_name :: "audit_event \<Rightarrow> string" where
  "audit_event_name UserRegistered = ''user_registered''"
| "audit_event_name LoginSucceeded = ''login_succeeded''"
| "audit_event_name LoginFailed = ''login_failed''"
| "audit_event_name LoggedOut = ''logout''"
| "audit_event_name AliasCreated = ''alias_created''"
| "audit_event_name AliasDeleted = ''alias_deleted''"
| "audit_event_name ApiKeyCreated = ''api_key_created''"
| "audit_event_name ApiKeyDeleted = ''api_key_deleted''"
| "audit_event_name FilterCreated = ''filter_created''"
| "audit_event_name FilterDeleted = ''filter_deleted''"
| "audit_event_name AdminUserPermissionChanged = ''admin_user_permission_changed''"
| "audit_event_name RateLimitHit = ''rate_limited''"

definition hash_email :: "(string \<Rightarrow> string) \<Rightarrow> string \<Rightarrow> string" where
  "hash_email digest email =
     concat (map (\<lambda>b. [hex_char (code_point b div 16), hex_char (code_point b mod 16)]) (take 8 (digest (to_lowercase (trim email)))))"

definition peer_addr :: "request \<Rightarrow> string" where
  "peer_addr rq = (case rq_peer rq of Some ip \<Rightarrow> show_ip ip | None \<Rightarrow> ''-'')"

definition forwarded_for :: "request \<Rightarrow> string" where
  "forwarded_for rq = unwrap_or ''-'' (header_text ''x-forwarded-for'' rq)"


section \<open>The table\<close>

text \<open>What may answer a request that carries no token.\<close>

definition reading_endpoints :: "endpoint list" where
  "reading_endpoints = [Root, HealthCheck, GetEmail, DownloadReplyAttachment, LoginPage, RegisterPage, Dashboard, DashboardSse,
     ApiKeysPage, DomainsPage, DkimModal, AdminUsers, AliasesPage, AliasSuggestions, DeleteAliasConfirm, DeleteEmailConfirm,
     DownloadAttachment, InlineImage, ListEmailsApi, ComposeModal, GetEmailApi, ListAliasesApi, LabelsModal, HtmxJs, SseJs]"

definition sound_handler :: "route \<Rightarrow> http_method \<times> endpoint \<Rightarrow> bool" where
  "sound_handler r h = ((case fst h of GET \<Rightarrow> snd h \<in> set reading_endpoints
      | HEAD \<Rightarrow> False | OPTIONS \<Rightarrow> False | _ \<Rightarrow> snd h \<notin> set reading_endpoints) \<and>
     (snd h = Login \<or> snd h = Register \<longrightarrow> rt_rate_limited r))"

lemmas route_table = routes_def mail_routes_def settings_routes_def api_routes_def route_to_def governed_def uploads_def

lemma routes_sound: "list_all (\<lambda>r. list_all (sound_handler r) (rt_handlers r)) routes"
  by (simp add: route_table sound_handler_def reading_endpoints_def)

lemma dispatch_Run:
  assumes "router_ok router" "dispatch router sha proxy limiter rq d = (Run e p, d')"
  obtains r m where "r \<in> set routes" "(m, e) \<in> set (rt_handlers r)" "serves (rq_method rq) m" "rt_rate_limited r \<longrightarrow> limiter (extract_key proxy rq)"
    "admit sha e rq d = (Run e p, d')"
proof -
  from assms(2) obtain r e' where f: "router routes (rq_method rq) (rq_path rq) = Some (r, Some e')"
    and l: "rt_rate_limited r \<longrightarrow> limiter (extract_key proxy rq)" and a: "admit sha e' rq d = (Run e p, d')"
    by (auto simp: dispatch_def split: if_splits option.splits)
  from a have "e' = e" by (auto simp: admit_def Let_def split: access.splits prod.splits sum.splits)
  moreover from assms(1) f have "r \<in> set routes" "list_ex (\<lambda>(m', x). x = e' \<and> serves (rq_method rq) m') (rt_handlers r)"
    unfolding router_ok_def by force+
  ultimately show ?thesis using that l a by (auto simp: list_ex_iff)
qed

lemma run_sound:
  assumes "router_ok router" "dispatch router sha proxy limiter rq d = (Run e p, d')"
  shows "if rq_method rq = GET \<or> rq_method rq = HEAD then e \<in> set reading_endpoints
     else e \<notin> set reading_endpoints \<and> rq_method rq \<noteq> OPTIONS"
    "e = Login \<or> e = Register \<Longrightarrow> limiter (extract_key proxy rq)"
proof -
  obtain r m where r: "r \<in> set routes" and m: "(m, e) \<in> set (rt_handlers r)" "serves (rq_method rq) m"
    and l: "rt_rate_limited r \<longrightarrow> limiter (extract_key proxy rq)"
    using assms by (rule dispatch_Run)
  have s: "sound_handler r (m, e)" using routes_sound r m(1) by (auto simp: list_all_iff)
  show "if rq_method rq = GET \<or> rq_method rq = HEAD then e \<in> set reading_endpoints
     else e \<notin> set reading_endpoints \<and> rq_method rq \<noteq> OPTIONS"
    using s m(2) by (auto simp: sound_handler_def serves_def split: http_method.splits)
  show "limiter (extract_key proxy rq)" if "e = Login \<or> e = Register"
    using s that l by (auto simp: sound_handler_def)
qed

section \<open>Authority\<close>

definition key_of_request :: "request \<Rightarrow> string \<Rightarrow> bool" where
  "key_of_request rq tok = (case header_text ''Authorization'' rq of Some h \<Rightarrow> extract_bearer_token h = Some tok | None \<Rightarrow> False)"

lemma key_owner:
  assumes "api_user_from_request sha rq d = (Inr u, d')"
  shows "u \<in> set (t_users d)"
    "\<exists>tok. key_of_request rq tok \<and>
       list_ex (\<lambda>k. ak_key_hash k = hash_api_key sha tok \<and> ak_user_id k = us_id u) (t_api_keys d)"
proof -
  from assms obtain tok where t: "key_of_request rq tok"
    and g: "get_user_by_api_key_hash (hash_api_key sha tok) d = (Inr (Some u), d')"
    by (auto simp: api_user_from_request_def key_of_request_def split: option.splits prod.splits sum.splits)
  from query_optional_Ok [OF g [unfolded get_user_by_api_key_hash_def]] obtain us where
    us: "concat (map (\<lambda>u. map (\<lambda>_. u) (filter (\<lambda>k. ak_user_id k = us_id u \<and>
      ak_key_hash k = hash_api_key sha tok) (t_api_keys d))) (t_users d)) = u # us"
    by (auto split: list.splits)
  have "u \<in> set (u # us)" by simp
  then have "u \<in> set (t_users d) \<and>
    list_ex (\<lambda>k. ak_key_hash k = hash_api_key sha tok \<and> ak_user_id k = us_id u) (t_api_keys d)"
    unfolding us [symmetric] by (auto simp: list_ex_iff)
  with t show "u \<in> set (t_users d)"
    "\<exists>tok. key_of_request rq tok \<and>
       list_ex (\<lambda>k. ak_key_hash k = hash_api_key sha tok \<and> ak_user_id k = us_id u) (t_api_keys d)"
    by blast+
qed

lemma admin_is_user: "admin_user_from_request rq d = (Inr u, d') \<Longrightarrow> authenticated_user_from_request rq d = (Inr u, d') \<and> au_is_admin u"
  by (auto simp: admin_user_from_request_def split: prod.splits sum.splits if_splits)

lemma sender_is_user: "firsthand_sender_from_request rq d = (Inr u, d') \<Longrightarrow>
    authenticated_user_from_request rq d = (Inr u, d') \<and> (au_can_send_firsthand u \<or> au_is_admin u)"
  by (auto simp: firsthand_sender_from_request_def split: prod.splits sum.splits if_splits)

lemma access_cases:
  "access_of e = Anyone \<longleftrightarrow> e \<in> set public_endpoints" "access_of e = SessionAdmin \<longleftrightarrow> e \<in> set admin_endpoints"
  "access_of e = SessionSender \<longleftrightarrow> e \<in> set sender_endpoints" "access_of e = KeyOwner \<longleftrightarrow> e \<in> set key_endpoints"
  by (cases e; simp add: access_of_def public_endpoints_def admin_endpoints_def sender_endpoints_def key_endpoints_def)+

text \<open>C30: No handler runs without the authority it asks for. A request that reaches a handler changes state only with
  another method than GET and HEAD; it runs for nobody only if the handler is public, for a session's user only if
  that user has a row in the database at that moment and the request carries the token of the session unless it only
  reads, administration only for administrators, sending only for those allowed to send, and the API only for the
  owner of a stored key. Guesses at passwords have passed the rate limiter.\<close>
theorem handlers_run_with_authority:
  assumes ok: "router_ok router" and run: "dispatch router sha proxy limiter rq d = (Run e p, d')"
  shows "(case p of
      Anonymous \<Rightarrow> e \<in> set public_endpoints
    | SignedIn u \<Rightarrow> list_ex (row_of_user u) (t_users d) \<and>
        (\<exists>ss. rq_session rq = Some ss \<and> wn_user_id ss = Some (au_user_id u) \<and>
          (e \<in> set reading_endpoints \<or> (\<exists>tok. header_text ''X-CSRF-Token'' rq = Some tok \<and> wn_csrf_token ss = Some tok \<and> tok \<noteq> []))) \<and>
        (e \<in> set admin_endpoints \<longrightarrow> au_is_admin u) \<and> (e \<in> set sender_endpoints \<longrightarrow> au_can_send_firsthand u \<or> au_is_admin u)
    | KeyHolder u \<Rightarrow> e \<in> set key_endpoints \<and> u \<in> set (t_users d) \<and>
        (\<exists>tok. key_of_request rq tok \<and> list_ex (\<lambda>k. ak_key_hash k = hash_api_key sha tok \<and> ak_user_id k = us_id u) (t_api_keys d))) \<and>
    (e = Login \<or> e = Register \<longrightarrow> limiter (extract_key proxy rq))"
proof -
  note sound = run_sound [OF ok run]
  obtain r m where a: "admit sha e rq d = (Run e p, d')" using ok run by (rule dispatch_Run)
  have session: "list_ex (row_of_user u) (t_users d) \<and>
        (\<exists>ss. rq_session rq = Some ss \<and> wn_user_id ss = Some (au_user_id u) \<and>
          (e \<in> set reading_endpoints \<or> (\<exists>tok. header_text ''X-CSRF-Token'' rq = Some tok \<and> wn_csrf_token ss = Some tok \<and> tok \<noteq> [])))"
    if "authenticated_user_from_request rq d = (Inr u, d')" for u
    using authenticated_genuine [OF that] sound(1) by (auto split: if_splits)
  show ?thesis
  proof (cases "access_of e")
    case Anyone
    then have "p = Anonymous" using a by (simp add: admit_def Let_def)
    with Anyone sound(2) show ?thesis by (simp add: access_cases)
  next
    case SessionUser
    then obtain u where u: "p = SignedIn u" "authenticated_user_from_request rq d = (Inr u, d')"
      using a by (auto simp: admit_def Let_def split: prod.splits sum.splits)
    have "e \<notin> set admin_endpoints" "e \<notin> set sender_endpoints"
      using SessionUser access_cases(2,3) [of e] by auto
    with u session sound(2) show ?thesis by simp
  next
    case SessionAdmin
    then obtain u where u: "p = SignedIn u" "admin_user_from_request rq d = (Inr u, d')"
      using a by (auto simp: admit_def Let_def split: prod.splits sum.splits)
    have "e \<notin> set sender_endpoints" using SessionAdmin access_cases(3) [of e] by auto
    with u session admin_is_user [OF u(2)] sound(2) show ?thesis by simp
  next
    case SessionSender
    then obtain u where u: "p = SignedIn u" "firsthand_sender_from_request rq d = (Inr u, d')"
      using a by (auto simp: admit_def Let_def split: prod.splits sum.splits)
    have "e \<notin> set admin_endpoints" using SessionSender access_cases(2) [of e] by auto
    with u session sender_is_user [OF u(2)] sound(2) show ?thesis by simp
  next
    case KeyOwner
    then obtain u where u: "p = KeyHolder u" "api_user_from_request sha rq d = (Inr u, d')"
      using a by (auto simp: admit_def Let_def split: prod.splits sum.splits)
    with KeyOwner key_owner [OF u(2)] sound(2) show ?thesis by (simp add: access_cases)
  qed
qed

section \<open>The documented matching\<close>

text \<open>A path begins with a slash; a parameter takes one segment that is not empty, the rest takes at least one
  character.\<close>

definition path_segments :: "string \<Rightarrow> string list" where
  "path_segments path = split_on (CHR ''/'') (unwrap_or path (strip_prefix ''/'' path))"

fun matches :: "segment list \<Rightarrow> string list \<Rightarrow> bool" where
  "matches [] ss = (ss = [])"
| "matches (Lit l # ps) ss = (case ss of s # ss \<Rightarrow> s = l \<and> matches ps ss | [] \<Rightarrow> False)"
| "matches (Param # ps) ss = (case ss of s # ss \<Rightarrow> s \<noteq> [] \<and> matches ps ss | [] \<Rightarrow> False)"
| "matches (Rest # ps) ss = (ss \<noteq> [] \<and> ss \<noteq> [[]])"

fun segment_rank :: "segment \<Rightarrow> nat" where
  "segment_rank (Lit _) = 0" | "segment_rank Param = 1" | "segment_rank Rest = 2"

fun more_specific :: "segment list \<Rightarrow> segment list \<Rightarrow> bool" where
  "more_specific (p # ps) (q # qs) =
     (segment_rank p < segment_rank q \<or> segment_rank p = segment_rank q \<and> more_specific ps qs)"
| "more_specific _ _ = False"

fun best_route :: "route option \<Rightarrow> string list \<Rightarrow> route list \<Rightarrow> route option" where
  "best_route best ss [] = best"
| "best_route best ss (r # rs) =
     best_route (if matches (rt_path r) ss \<and> (case best of None \<Rightarrow> True | Some b \<Rightarrow> more_specific (rt_path r) (rt_path b))
       then Some r else best) ss rs"

definition find_route :: "route list \<Rightarrow> string \<Rightarrow> route option" where
  "find_route rs path = best_route None (path_segments path) rs"

definition handler_for :: "http_method \<Rightarrow> route \<Rightarrow> endpoint option" where
  "handler_for m r = (case map_of (rt_handlers r) m of
     Some e \<Rightarrow> Some e
   | None \<Rightarrow> if m = HEAD then map_of (rt_handlers r) GET else None)"

definition documented_router :: router where
  "documented_router rs m path = map_option (\<lambda>r. (r, handler_for m r)) (find_route rs path)"

lemma best_route_in: "best_route best ss rs = Some r \<Longrightarrow> r \<in> set rs \<or> best = Some r"
  by (induction best ss rs rule: best_route.induct) (auto split: if_splits)

lemma documented_router_ok: "router_ok documented_router"
proof -
  have "r \<in> set rs" if "find_route rs path = Some r" for rs path r
    using that best_route_in unfolding find_route_def by fastforce
  moreover have "\<exists>m'. (m', e) \<in> set (rt_handlers r) \<and> serves m m'" if "handler_for m r = Some e" for m r e
    using that by (auto simp: handler_for_def serves_def split: option.splits if_splits dest: map_of_SomeD)
  ultimately show ?thesis
    unfolding router_ok_def documented_router_def by (simp add: list_ex_iff split: option.split) fast
qed

section \<open>No handler hides another\<close>

text \<open>A path made from a pattern.\<close>

fun example_segment :: "segment \<Rightarrow> string" where
  "example_segment (Lit l) = l"
| "example_segment Param = ''0b''"
| "example_segment Rest = ''logo''"

definition example_path :: "route \<Rightarrow> string" where
  "example_path r = ''/'' @ join_with ''/'' (map example_segment (rt_path r))"

definition plain_segment :: "segment \<Rightarrow> bool" where
  "plain_segment p = (CHR ''/'' \<notin> set (example_segment p))"

lemma split_joined:
  "ps \<noteq> [] \<Longrightarrow> list_all plain_segment ps \<Longrightarrow> split_on (CHR ''/'') (join_with ''/'' (map example_segment ps)) = map example_segment ps"
  by (induction ps rule: induct_list012) (simp_all add: plain_segment_def)

lemma find_example:
  "rt_path r \<noteq> [] \<Longrightarrow> list_all plain_segment (rt_path r) \<Longrightarrow>
    find_route routes (example_path r) = best_route None (map example_segment (rt_path r)) routes"
  by (simp add: find_route_def path_segments_def example_path_def strip_prefix_def split_joined)

lemma routes_plain: "list_all (\<lambda>r. rt_path r \<noteq> [] \<and> list_all plain_segment (rt_path r)) routes"
  by (simp add: route_table plain_segment_def)

lemma more_specific_asym: "more_specific ps qs \<Longrightarrow> \<not> more_specific qs ps"
  by (induction ps qs rule: more_specific.induct) auto

lemma best_route_wins:
  assumes "matches (rt_path r) ss" "r \<in> set rs \<or> best = Some r"
    and "list_all (\<lambda>q. matches (rt_path q) ss \<longrightarrow> q = r \<or> more_specific (rt_path r) (rt_path q)) rs"
    and "case best of None \<Rightarrow> True | Some b \<Rightarrow> b = r \<or> more_specific (rt_path r) (rt_path b)"
  shows "best_route best ss rs = Some r"
  using assms
proof (induction best ss rs rule: best_route.induct)
  case (1 best ss)
  then show ?case by simp
next
  case (2 best ss q qs)
  let ?b = "if matches (rt_path q) ss \<and> (case best of None \<Rightarrow> True | Some b \<Rightarrow> more_specific (rt_path q) (rt_path b)) then Some q else best"
  have "r \<in> set qs \<or> ?b = Some r" "case ?b of None \<Rightarrow> True | Some b \<Rightarrow> b = r \<or> more_specific (rt_path r) (rt_path b)"
    using "2.prems" more_specific_asym [of "rt_path r"] by (auto split: option.splits if_splits)
  with "2.IH" "2.prems"(1,3) show ?case by simp
qed

definition route_paths :: "segment list list" where
  "route_paths = map rt_path routes"

lemmas route_paths_eval = route_paths_def [unfolded route_table, simplified]

definition unshadowed :: "segment list \<Rightarrow> bool" where
  "unshadowed p = (matches p (map example_segment p) \<and>
     list_all (\<lambda>q. matches q (map example_segment p) \<longrightarrow> q = p \<or> more_specific p q) route_paths)"

text \<open>Only paths that begin alike can meet.\<close>

definition path_group :: "string \<Rightarrow> segment list list" where
  "path_group l = filter (\<lambda>p. hd p = Lit l) route_paths"

definition no_clash :: "segment list list \<Rightarrow> bool" where
  "no_clash ps = list_all (\<lambda>p. matches p (map example_segment p) \<and>
     list_all (\<lambda>q. matches q (map example_segment p) \<longrightarrow> q = p \<or> more_specific p q) ps) ps"

definition heads :: "string list" where
  "heads = [[], ''health'', ''emails'', ''login'', ''auth'', ''logout'', ''register'', ''dashboard'', ''api'', ''api-keys'', ''domains'',
     ''admin'', ''aliases'', ''static'']"

lemma groups_clean: "list_all (\<lambda>l. no_clash (path_group l)) heads"
  unfolding heads_def by (simp add: path_group_def route_paths_eval) (simp add: no_clash_def)

lemma paths_headed: "list_all (\<lambda>p. p \<noteq> [] \<and> hd p \<in> Lit ` set heads) route_paths"
  by (simp add: route_paths_eval heads_def)

lemma headed:
  assumes "p \<in> set route_paths"
  obtains l ps where "p = Lit l # ps" "l \<in> set heads"
proof -
  from assms have "p \<noteq> []" "hd p \<in> Lit ` set heads" using paths_headed by (auto simp: list_all_iff)
  with that show ?thesis by (cases p) auto
qed

lemma matches_same_head: "matches (Lit a # ps) (map example_segment (Lit b # qs)) \<Longrightarrow> a = b"
  by simp

lemma paths_unshadowed: "list_all unshadowed route_paths"
proof -
  have "unshadowed p" if p: "p \<in> set route_paths" for p
  proof -
    from p obtain l ps where l: "p = Lit l # ps" "l \<in> set heads" by (rule headed)
    with p have g: "p \<in> set (path_group l)" by (simp add: path_group_def)
    have c: "no_clash (path_group l)" using groups_clean l(2) by (simp add: list_all_iff)
    have "q = p \<or> more_specific p q" if q: "q \<in> set route_paths" "matches q (map example_segment p)" for q
    proof -
      from q(1) obtain k qs where k: "q = Lit k # qs" by (rule headed)
      with q l have "q \<in> set (path_group l)" by (simp add: path_group_def)
      with c g q(2) show ?thesis by (auto simp: no_clash_def list_all_iff)
    qed
    with c g show ?thesis by (auto simp: unshadowed_def no_clash_def list_all_iff)
  qed
  then show ?thesis by (simp add: list_all_iff)
qed

lemma paths_distinct: "distinct route_paths"
  by (simp add: route_paths_eval)

lemma routes_unshadowed:
  assumes "r \<in> set routes"
  shows "matches (rt_path r) (map example_segment (rt_path r))"
    "list_all (\<lambda>q. matches (rt_path q) (map example_segment (rt_path r)) \<longrightarrow> q = r \<or> more_specific (rt_path r) (rt_path q)) routes"
proof -
  have u: "unshadowed (rt_path r)" using assms paths_unshadowed by (simp add: list_all_iff route_paths_def)
  then show "matches (rt_path r) (map example_segment (rt_path r))" by (simp add: unshadowed_def)
  have same: "rt_path q = rt_path r \<Longrightarrow> q = r" if "q \<in> set routes" for q
    using assms that paths_distinct by (simp add: route_paths_def distinct_map inj_on_def)
  show "list_all (\<lambda>q. matches (rt_path q) (map example_segment (rt_path r)) \<longrightarrow> q = r \<or> more_specific (rt_path r) (rt_path q)) routes"
    using u same by (auto simp: list_all_iff unshadowed_def route_paths_def)
qed

lemma route_found:
  assumes "r \<in> set routes"
  shows "find_route routes (example_path r) = Some r"
proof -
  have "best_route None (map example_segment (rt_path r)) routes = Some r"
    using routes_unshadowed [OF assms] assms by (intro best_route_wins) simp_all
  with routes_plain assms show ?thesis by (simp add: list_all_iff find_example)
qed

text \<open>Every route is reachable. For each route of the table, the path made from its pattern is served by that
  route under the documented matching: none is hidden by an earlier one or by one with parameters.\<close>
theorem every_route_is_reachable: "list_all (\<lambda>r. find_route routes (example_path r) = Some r) routes"
  by (simp add: list_all_iff route_found)

lemma read_chunks_within:
  "length data + length (concat cs) \<le> max_attachment_bytes \<Longrightarrow> read_chunks cs data False = (data @ concat cs, False)"
  by (induction cs arbitrary: data) simp_all

lemma read_fields_append:
  "mf_error (read_fields guess fs r) = None \<Longrightarrow> mf_error r = None \<Longrightarrow> read_fields guess (fs @ gs) r = read_fields guess gs (read_fields guess fs r)"
  by (induction guess fs r rule: read_fields.induct) (auto simp: Let_def simp del: not_None_eq split_paired_All split_paired_Ex split: option.splits if_splits)

definition body_limits :: "endpoint \<Rightarrow> nat list" where
  "body_limits e = map rt_body_limit (filter (\<lambda>r. list_ex (\<lambda>h. snd h = e) (rt_handlers r)) routes)"

text \<open>Uploads in answers are cut. The two routes that send mail take bodies of 30 megabytes; the two that answer a
  mail take the default of 2 megabytes. Where reading an attachment breaks off, the bytes read before are taken for
  the whole file, and no error is noted.\<close>
theorem cut_upload_passes_for_whole:
  assumes name: "ff_name f = Some ''attachments''" and cut: "ff_chunks f = before @ rest" "rest \<noteq> []"
    and bounds: "mf_error (read_multipart_fields guess earlier) = None" "0 < length (concat before)"
      "check_attachment_limits (length (mf_attachments (read_multipart_fields guess earlier)))
         (total_bytes (mf_attachments (read_multipart_fields guess earlier))) (length (concat before)) = Ok ()"
  shows "body_limits SubmitReply = [default_body_limit] \<and>
    body_limits SubmitReplyApi = [default_body_limit] \<and>
    body_limits SendEmailApi = [max_upload_request_bytes] \<and>
    mf_error (read_multipart_fields guess (earlier @ [f\<lparr>ff_chunks := before\<rparr>])) = None \<and>
    map ma_data (mf_attachments (read_multipart_fields guess (earlier @ [f\<lparr>ff_chunks := before\<rparr>]))) =
      map ma_data (mf_attachments (read_multipart_fields guess earlier)) @ [concat before]"
proof -
  have routes: "body_limits SubmitReply = [default_body_limit]"
    "body_limits SubmitReplyApi = [default_body_limit]"
    "body_limits SendEmailApi = [max_upload_request_bytes]"
    by (simp_all add: body_limits_def route_table)
  let ?g = "f\<lparr>ff_chunks := before\<rparr>"
  let ?m = "read_multipart_fields guess earlier"
  have short: "length (concat before) \<le> max_attachment_bytes" using bounds(3) by (auto simp: check_attachment_limits_def split: if_splits)
  have chunks: "read_chunks before [] False = (concat before, False)"
    using read_chunks_within [of "[]" before] short by simp
  have "mf_error no_fields = None" by (simp add: no_fields_def)
  from read_fields_append [OF bounds(1) [unfolded read_multipart_fields_def] this, of "[?g]"]
  have "read_multipart_fields guess (earlier @ [?g]) = read_fields guess [?g] ?m"
    by (simp only: read_multipart_fields_def)
  also have "\<dots> = attachment_field guess ?g ?m" using name by (simp add: Let_def)
  finally have "read_multipart_fields guess (earlier @ [?g]) = attachment_field guess ?g ?m" .
  then show ?thesis using routes bounds chunks by (simp add: attachment_field_def Let_def)
qed

text \<open>The crawler filter also stops images of mails whose identifier holds one of its patterns.\<close>
lemma crawler_filter_stops_images:
  "rq_path rq = ''/dashboard/email/0b/inline/wordpress-logo'' \<Longrightarrow> dispatch router sha proxy limiter rq d = (CrawlerBlocked, d)"
  by (simp add: dispatch_def crawler_filter_def crawler_patterns_def to_lowercase_def char_eval)

lemma audit_event_name_inj: "audit_event_name a = audit_event_name b \<Longrightarrow> a = b"
  by (cases a; cases b; simp)

section \<open>Samples\<close>

definition key_route :: route where
  "key_route = route_to [Lit ''api-keys''] [(GET, ApiKeysPage), (POST, CreateApiKey)]"

lemma key_route_found: "find_route routes ''/api-keys'' = Some key_route"
proof -
  have "key_route \<in> set routes" by (simp add: routes_def settings_routes_def key_route_def)
  from route_found [OF this] show ?thesis by (simp add: example_path_def key_route_def route_to_def)
qed

theorem handlers_run_with_authority_witness:
  "\<exists>u. dispatch documented_router id None (\<lambda>_. True) ((sample_request POST)\<lparr>rq_path := ''/api-keys''\<rparr>) admin_db = (Run CreateApiKey (SignedIn u), admin_db) \<and>
     au_is_admin u \<and> list_ex (row_of_user u) (t_users admin_db)"
proof -
  let ?rq = "(sample_request POST)\<lparr>rq_path := ''/api-keys''\<rparr>"
  have same: "authenticated_user_from_request ?rq d = authenticated_user_from_request (sample_request POST) d" for d
  proof -
    have h: "header_text n ?rq = header_text n (sample_request POST)" for n by (simp add: header_text_def)
    have "rq_session ?rq = rq_session (sample_request POST)" "rq_method ?rq = rq_method (sample_request POST)" by simp_all
    then show ?thesis unfolding authenticated_user_from_request_def h by (simp only:)
  qed
  have filter: "crawler_filter ?rq" by (simp add: crawler_filter_def crawler_patterns_def to_lowercase_def char_eval)
  have handler: "handler_for POST key_route = Some CreateApiKey" "\<not> rt_rate_limited key_route"
    by (simp_all add: handler_for_def key_route_def route_to_def)
  have access: "access_of CreateApiKey = SessionAdmin" by (simp add: access_of_def public_endpoints_def admin_endpoints_def)
  have m: "rq_method ?rq = POST" by (simp add: sample_request_def)
  obtain u where run: "dispatch documented_router id None (\<lambda>_. True) ?rq admin_db = (Run CreateApiKey (SignedIn u), admin_db)"
    unfolding dispatch_def
    by (simp add: filter documented_router_def key_route_found handler m admit_def access admin_user_from_request_def same sample_authenticated)
  from handlers_run_with_authority [OF documented_router_ok run] run show ?thesis by (auto simp: admin_endpoints_def)
qed

theorem cut_upload_passes_for_whole_witness:
  "map ma_data (mf_attachments (read_multipart_fields (\<lambda>_. None) [\<lparr>ff_name = Some ''attachments'', ff_file_name = None, ff_content_type = None,
     ff_chunks = [''ab''], ff_text = None\<rparr>])) = [''ab'']"
proof -
  let ?f = "\<lparr>ff_name = Some ''attachments'', ff_file_name = None, ff_content_type = None, ff_chunks = [''ab'', ''cd''], ff_text = None\<rparr>"
  have none: "read_multipart_fields (\<lambda>_. None) [] = no_fields" by (simp add: read_multipart_fields_def)
  have "ff_name ?f = Some ''attachments''" "ff_chunks ?f = [''ab''] @ [''cd'']" "[''cd''] \<noteq> []"
    "mf_error (read_multipart_fields (\<lambda>_. None) []) = None" "0 < length (concat [''ab''])"
    "check_attachment_limits (length (mf_attachments (read_multipart_fields (\<lambda>_. None) [])))
       (total_bytes (mf_attachments (read_multipart_fields (\<lambda>_. None) []))) (length (concat [''ab''])) = Ok ()"
    by (simp_all add: none no_fields_def check_attachment_limits_def total_bytes_def)
  from cut_upload_passes_for_whole [OF this] show ?thesis by (simp add: none no_fields_def)
qed

end
