(* ===== verification/Web_Locale.thy ===== *)
theory Web_Locale
  imports Web_Auth
begin

text \<open>
  The language of a page: \<open>Locale\<close> and \<open>parse_accept_language\<close> of \<open>src/src/web/i18n.rs\<close>, with the reading of a
  weight as a number of 32 bits.  The texts of the catalogue are named by their keys in the other theories.
\<close>

section \<open>Numbers of 32 bits\<close>

text \<open>A finite number is a count of the smallest positive one, \<open>2 ^ - 149\<close>; the bound is \<open>2 ^ 128\<close>.\<close>

datatype f32 = Finite int | Infinite bool | NaN

fun bit_length :: "nat \<Rightarrow> nat" where
  "bit_length n = (if n = 0 then 0 else Suc (bit_length (n div 2)))"

declare bit_length.simps [simp del]

text \<open>The nearest count of a quotient, to 24 bits and even on a tie.\<close>

definition round_f32 :: "nat \<Rightarrow> nat \<Rightarrow> nat" where
  "round_f32 num den =
     (let scaled = num * 2 ^ 149;
          quantum = 2 ^ (bit_length (scaled div den) - 24);
          unit = den * quantum;
          q = scaled div unit; r = scaled mod unit
      in (if 2 * r > unit \<or> 2 * r = unit \<and> odd q then q + 1 else q) * quantum)"

definition f32_of :: "bool \<Rightarrow> nat \<Rightarrow> nat \<Rightarrow> f32" where
  "f32_of negative num den =
     (let n = round_f32 num den
      in if n \<ge> 2 ^ 277 then Infinite negative else Finite (if negative then - int n else int n))"

definition digits_value :: "string \<Rightarrow> nat" where
  "digits_value ds = foldl (\<lambda>acc c. acc * 10 + (code_point c - 48)) 0 ds"

definition take_digits :: "string \<Rightarrow> string \<times> string" where
  "take_digits s = (takeWhile is_digit s, dropWhile is_digit s)"

definition take_sign :: "string \<Rightarrow> bool \<times> string" where
  "take_sign s = (case s of
     c # cs \<Rightarrow> if c = CHR ''-'' then (True, cs) else if c = CHR ''+'' then (False, cs) else (False, s)
   | [] \<Rightarrow> (False, s))"

definition parse_exponent :: "string \<Rightarrow> int option" where
  "parse_exponent s = (case s of
     [] \<Rightarrow> Some 0
   | c # cs \<Rightarrow>
       if c = CHR ''e'' \<or> c = CHR ''E''
       then (case take_sign cs of (negative, ds) \<Rightarrow>
         if ds \<noteq> [] \<and> list_all is_digit ds
         then Some (if negative then - int (digits_value ds) else int (digits_value ds)) else None)
       else None)"

definition parse_f32 :: "string \<Rightarrow> f32 option" where
  "parse_f32 s =
     (case take_sign s of (negative, u) \<Rightarrow>
        let name = to_lowercase u
        in if name = ''inf'' \<or> name = ''infinity'' then Some (Infinite negative)
           else if name = ''nan'' then Some NaN
           else (case take_digits u of (whole, rest) \<Rightarrow>
             case (case rest of c # cs \<Rightarrow> if c = CHR ''.'' then take_digits cs else ([], rest) | [] \<Rightarrow> ([], rest)) of
               (fraction, rest) \<Rightarrow>
                 if whole = [] \<and> fraction = [] then None
                 else map_option (\<lambda>e.
                   let value = digits_value (whole @ fraction); k = e - int (length fraction)
                   in f32_of negative (value * 10 ^ nat k) (10 ^ nat (- k))) (parse_exponent rest)))"

section \<open>The header\<close>

datatype locale_tag = En | Es | Fr | Pt

fun locale_as_str :: "locale_tag \<Rightarrow> string" where
  "locale_as_str En = ''en''" | "locale_as_str Es = ''es''" | "locale_as_str Fr = ''fr''" | "locale_as_str Pt = ''pt''"

definition locale_of_tag :: "string \<Rightarrow> locale_tag option" where
  "locale_of_tag tag =
     (let primary = to_lowercase (hd (split_on (CHR ''-'') (trim tag)))
      in if primary = ''en'' then Some En else if primary = ''es'' then Some Es
         else if primary = ''fr'' then Some Fr else if primary = ''pt'' then Some Pt else None)"

text \<open>The last parameter \<open>q\<close> that is a number counts.\<close>

fun weight_of :: "f32 \<Rightarrow> string list \<Rightarrow> f32" where
  "weight_of q [] = q"
| "weight_of q (param # params) =
     weight_of (case strip_prefix ''q='' (trim param) of
        Some v \<Rightarrow> (case parse_f32 (trim v) of Some parsed \<Rightarrow> parsed | None \<Rightarrow> q)
      | None \<Rightarrow> q) params"

abbreviation f32_one :: int where "f32_one \<equiv> 2 ^ 149"

definition language_item :: "string \<Rightarrow> (locale_tag \<times> int) option" where
  "language_item raw_item =
     (case split_on (CHR '';'') raw_item of
        tag # params \<Rightarrow>
          (case locale_of_tag tag of
             Some l \<Rightarrow> (case weight_of (Finite f32_one) params of
                 Finite q \<Rightarrow> if q \<le> 0 \<or> q > f32_one then None else Some (l, q)
               | _ \<Rightarrow> None)
           | None \<Rightarrow> None)
      | [] \<Rightarrow> None)"

fun best_language :: "(locale_tag \<times> int) option \<Rightarrow> string list \<Rightarrow> (locale_tag \<times> int) option" where
  "best_language best [] = best"
| "best_language best (raw_item # items) =
     best_language (case language_item raw_item of
        Some (l, q) \<Rightarrow> if (case best of None \<Rightarrow> True | Some (_, best_q) \<Rightarrow> q > best_q) then Some (l, q) else best
      | None \<Rightarrow> best) items"

definition parse_accept_language :: "string \<Rightarrow> locale_tag" where
  "parse_accept_language accept_language =
     (case best_language None (split_on (CHR '','') accept_language) of Some (l, _) \<Rightarrow> l | None \<Rightarrow> En)"

definition locale_from_request :: "request \<Rightarrow> locale_tag" where
  "locale_from_request rq = parse_accept_language (unwrap_or [] (header_text ''accept-language'' rq))"

section \<open>The choice\<close>

definition weight_below :: "int \<Rightarrow> string \<Rightarrow> bool" where
  "weight_below q i = (case language_item i of None \<Rightarrow> True | Some (_, p) \<Rightarrow> p < q)"

definition weight_at_most :: "int \<Rightarrow> string \<Rightarrow> bool" where
  "weight_at_most q i = (case language_item i of None \<Rightarrow> True | Some (_, p) \<Rightarrow> p \<le> q)"

text \<open>What the loop has found: the best so far stays, or an item further on beats it.\<close>

definition picked :: "(locale_tag \<times> int) option \<Rightarrow> string list \<Rightarrow> locale_tag \<times> int \<Rightarrow> bool" where
  "picked best items w = (\<exists>before i after. items = before @ i # after \<and> language_item i = Some w \<and>
     (case best of None \<Rightarrow> True | Some (_, p) \<Rightarrow> p < snd w) \<and>
     list_all (weight_below (snd w)) before \<and> list_all (weight_at_most (snd w)) after)"

lemma picked_here:
  "language_item i = Some w \<Longrightarrow> (case best of None \<Rightarrow> True | Some (_, p) \<Rightarrow> p < snd w) \<Longrightarrow> list_all (weight_at_most (snd w)) items \<Longrightarrow>
   picked best (i # items) w"
  unfolding picked_def by (intro exI [of _ "[]"] exI [of _ i] exI [of _ items]) simp

lemma picked_later:
  assumes "picked best' items w" "weight_below (snd w) i"
    and "(case best' of None \<Rightarrow> True | Some (_, p) \<Rightarrow> p < snd w) \<Longrightarrow> (case best of None \<Rightarrow> True | Some (_, p) \<Rightarrow> p < snd w)"
  shows "picked best (i # items) w"
proof -
  from assms(1) obtain before j after where p: "items = before @ j # after" "language_item j = Some w"
    "case best' of None \<Rightarrow> True | Some (_, p) \<Rightarrow> p < snd w" "list_all (weight_below (snd w)) before" "list_all (weight_at_most (snd w)) after"
    by (auto simp: picked_def)
  with assms(2,3) show ?thesis
    unfolding picked_def by (intro exI [of _ "i # before"] exI [of _ j] exI [of _ after]) simp
qed

lemma best_language_spec:
  "case best_language best items of
     None \<Rightarrow> best = None \<and> list_all (\<lambda>i. language_item i = None) items
   | Some w \<Rightarrow> (best = Some w \<and> list_all (weight_at_most (snd w)) items) \<or> picked best items w"
proof (induction items arbitrary: best)
  case Nil
  show ?case by (simp split: option.split)
next
  case (Cons i items)
  show ?case
  proof (cases "language_item i")
    case None
    then have below: "weight_below q i" "weight_at_most q i" for q by (simp_all add: weight_below_def weight_at_most_def)
    from None Cons.IH [of best] below show ?thesis by (auto split: option.splits intro: picked_later)
  next
    case (Some w)
    obtain l q where w: "w = (l, q)" by fastforce
    show ?thesis
    proof (cases "case best of None \<Rightarrow> True | Some (_, p) \<Rightarrow> q > p")
      case True
      have step: "best_language best (i # items) = best_language (Some (l, q)) items" using Some w True by simp
      from Cons.IH [of "Some (l, q)"] obtain v where v: "best_language (Some (l, q)) items = Some v"
        "(v = (l, q) \<and> list_all (weight_at_most (snd v)) items) \<or> picked (Some (l, q)) items v"
        by (auto split: option.splits)
      from v(2) have "picked best (i # items) v"
      proof
        assume "v = (l, q) \<and> list_all (weight_at_most (snd v)) items"
        with Some w True show ?thesis by (intro picked_here) (auto split: option.splits)
      next
        assume p: "picked (Some (l, q)) items v"
        then have "q < snd v" by (auto simp: picked_def)
        with p Some w True show ?thesis
          by (intro picked_later [OF p]) (auto simp: weight_below_def split: option.splits)
      qed
      with step v(1) show ?thesis by simp
    next
      case False
      then obtain m p where b: "best = Some (m, p)" "q \<le> p" by (auto split: option.splits)
      have step: "best_language best (i # items) = best_language best items" using Some w b by simp
      from Cons.IH [of best] b obtain v where v: "best_language best items = Some v"
        "(v = (m, p) \<and> list_all (weight_at_most (snd v)) items) \<or> picked best items v"
        by (auto split: option.splits)
      from v(2) show ?thesis
      proof
        assume "v = (m, p) \<and> list_all (weight_at_most (snd v)) items"
        with step v(1) b Some w show ?thesis by (auto simp: weight_at_most_def)
      next
        assume p: "picked best items v"
        then have "p < snd v" using b by (auto simp: picked_def)
        with p b Some w have "picked best (i # items) v" by (intro picked_later [OF p]) (auto simp: weight_below_def)
        with step v(1) show ?thesis by simp
      qed
    qed
  qed
qed

text \<open>The language served is the one the client likes best. A header without a supported language of positive
  weight gives English; otherwise the language comes from an item of the header whose weight no other item exceeds
  and no earlier item reaches.\<close>
theorem accept_language_picks_best:
  "(list_all (\<lambda>i. language_item i = None) (split_on (CHR '','') header) \<and> parse_accept_language header = En) \<or>
   (\<exists>before i after q. split_on (CHR '','') header = before @ i # after \<and> language_item i = Some (parse_accept_language header, q) \<and>
      list_all (weight_below q) before \<and> list_all (weight_at_most q) after)"
  using best_language_spec [of None "split_on (CHR '','') header"]
  by (auto simp: parse_accept_language_def picked_def split: option.splits prod.splits)

text \<open>A header of the code's own tests.\<close>

lemma bit_length_eq: "2 ^ k \<le> n \<Longrightarrow> n < 2 ^ Suc k \<Longrightarrow> bit_length n = Suc k"
proof (induction k arbitrary: n)
  case 0
  then have "n = 1" by simp
  then show ?case by (simp add: bit_length.simps)
next
  case (Suc k)
  then have "bit_length (n div 2) = Suc k" by (intro Suc.IH) simp_all
  moreover have "0 < n" using Suc.prems(1) by (metis less_le_trans zero_less_numeral zero_less_power)
  ultimately show ?case by (subst bit_length.simps) simp
qed

lemma round_f32_tenths: "round_f32 7 10 = 11744051 * 2 ^ 125" "round_f32 9 10 = 15099494 * 2 ^ 125"
proof -
  have b: "bit_length (7 * 2 ^ 149 div 10) = Suc 148" "bit_length (9 * 2 ^ 149 div 10) = Suc 148"
    by (rule bit_length_eq; simp)+
  show "round_f32 7 10 = 11744051 * 2 ^ 125" "round_f32 9 10 = 15099494 * 2 ^ 125"
    by (simp_all add: round_f32_def b [simplified] Let_def)
qed

lemma accept_language_test: "parse_accept_language ''de-DE,es;q=0.7,fr;q=0.9'' = Fr"
proof -
  have q: "parse_f32 ''0.7'' = Some (Finite (11744051 * 2 ^ 125))" "parse_f32 ''0.9'' = Some (Finite (15099494 * 2 ^ 125))"
    by (simp_all add: parse_f32_def take_sign_def take_digits_def is_digit_def code_point_def to_lowercase_def char_eval digits_value_def
        parse_exponent_def f32_of_def round_f32_tenths Let_def)
  show ?thesis
    by (simp add: parse_accept_language_def language_item_def locale_of_tag_def trim_eval char_eval to_lowercase_def cons_first_def
        strip_prefix_def q Let_def)
qed

end
