(* ===== verification/Web_Messages.thy ===== *)
theory Web_Messages
  imports Web_Locale
begin

text \<open>
  The catalogue of texts, \<open>impl Messages for Locale\<close> of \<open>src/src/web/i18n.rs\<close>: one text per key and language, in
  the bytes the page sends.  Two texts hold data of the user and escape it first; the escaper \<open>clean\<close> is
  \<open>ammonia::clean_text\<close>, a parameter.  The tags a browser reads in a text are those of \<open>tags_of\<close>.
\<close>

section \<open>Texts\<close>

type_synonym text_of = "locale_tag \<Rightarrow> string"

definition by_locale :: "string \<Rightarrow> string \<Rightarrow> string \<Rightarrow> string \<Rightarrow> text_of" where
  "by_locale en es fr pt l = (case l of En \<Rightarrow> en | Es \<Rightarrow> es | Fr \<Rightarrow> fr | Pt \<Rightarrow> pt)"

definition show_int :: "int \<Rightarrow> string" where
  "show_int i = (if i < 0 then ''-'' @ show_nat (nat (- i)) else show_nat (nat i))"

text \<open>The letters beyond ASCII, in UTF-8.\<close>

abbreviation inv_excl :: string where "inv_excl \<equiv> [CHR 0xC2, CHR 0xA1]"
abbreviation inv_quest :: string where "inv_quest \<equiv> [CHR 0xC2, CHR 0xBF]"
abbreviation cap_a_grave :: string where "cap_a_grave \<equiv> [CHR 0xC3, CHR 0x80]"
abbreviation cap_e_acute :: string where "cap_e_acute \<equiv> [CHR 0xC3, CHR 0x89]"
abbreviation cap_e_circ :: string where "cap_e_circ \<equiv> [CHR 0xC3, CHR 0x8A]"
abbreviation cap_u_acute :: string where "cap_u_acute \<equiv> [CHR 0xC3, CHR 0x9A]"
abbreviation a_grave :: string where "a_grave \<equiv> [CHR 0xC3, CHR 0xA0]"
abbreviation a_acute :: string where "a_acute \<equiv> [CHR 0xC3, CHR 0xA1]"
abbreviation a_tilde :: string where "a_tilde \<equiv> [CHR 0xC3, CHR 0xA3]"
abbreviation c_cedil :: string where "c_cedil \<equiv> [CHR 0xC3, CHR 0xA7]"
abbreviation e_grave :: string where "e_grave \<equiv> [CHR 0xC3, CHR 0xA8]"
abbreviation e_acute :: string where "e_acute \<equiv> [CHR 0xC3, CHR 0xA9]"
abbreviation e_circ :: string where "e_circ \<equiv> [CHR 0xC3, CHR 0xAA]"
abbreviation i_acute :: string where "i_acute \<equiv> [CHR 0xC3, CHR 0xAD]"
abbreviation i_circ :: string where "i_circ \<equiv> [CHR 0xC3, CHR 0xAE]"
abbreviation n_tilde :: string where "n_tilde \<equiv> [CHR 0xC3, CHR 0xB1]"
abbreviation o_acute :: string where "o_acute \<equiv> [CHR 0xC3, CHR 0xB3]"
abbreviation o_circ :: string where "o_circ \<equiv> [CHR 0xC3, CHR 0xB4]"
abbreviation o_tilde :: string where "o_tilde \<equiv> [CHR 0xC3, CHR 0xB5]"
abbreviation u_acute :: string where "u_acute \<equiv> [CHR 0xC3, CHR 0xBA]"
abbreviation u_circ :: string where "u_circ \<equiv> [CHR 0xC3, CHR 0xBB]"
abbreviation em_dash :: string where "em_dash \<equiv> [CHR 0xE2, CHR 0x80, CHR 0x94]"
abbreviation quote :: string where "quote \<equiv> [CHR 39]"

subsection \<open>Signing in\<close>

definition login_title :: text_of where
  "login_title = by_locale
     ''Login''
     (''Iniciar Sesi'' @ o_acute @ ''n'')
     ''Connexion''
     ''Entrar''"

definition email_label :: text_of where
  "email_label = by_locale
     ''Email:''
     (''Correo electr'' @ o_acute @ ''nico:'')
     ''E-mail:''
     ''E-mail:''"

definition password_label :: text_of where
  "password_label = by_locale
     ''Password:''
     (''Contrase'' @ n_tilde @ ''a:'')
     ''Mot de passe:''
     ''Senha:''"

definition login_button :: text_of where
  "login_button = by_locale ''Login'' ''Entrar'' ''Se connecter'' ''Entrar''"

definition register_link_prompt :: text_of where
  "register_link_prompt = by_locale
     (''Don'' @ quote @ ''t have an account?'')
     (inv_quest @ ''No tienes una cuenta?'')
     (''Vous n'' @ quote @ ''avez pas de compte ?'')
     (''N'' @ a_tilde @ ''o tem uma conta?'')"

definition register_link_text :: text_of where
  "register_link_text = by_locale
     ''Register here''
     (''Reg'' @ i_acute @ ''strate aqu'' @ i_acute)
     ''Inscrivez-vous ici''
     ''Registe-se aqui''"

definition invalid_credentials_text :: text_of where
  "invalid_credentials_text = by_locale
     ''Invalid email or password''
     (''Correo o contrase'' @ n_tilde @ ''a inv'' @ a_acute @ ''lidos'')
     ''E-mail ou mot de passe invalide''
     (''E-mail ou senha inv'' @ a_acute @ ''lidos'')"

definition register_title :: text_of where
  "register_title = by_locale ''Register'' ''Registro'' ''Inscription'' ''Registo''"

definition register_button :: text_of where
  "register_button = by_locale
     ''Register''
     ''Registrarse''
     (''S'' @ quote @ ''inscrire'')
     ''Registar''"

definition login_link_prompt :: text_of where
  "login_link_prompt = by_locale
     ''Already have an account?''
     (inv_quest @ ''Ya tienes una cuenta?'')
     (''Vous avez d'' @ e_acute @ ''j'' @ a_grave @ '' un compte ?'')
     (''J'' @ a_acute @ '' tem uma conta?'')"

definition login_link_text :: text_of where
  "login_link_text = by_locale
     ''Login here''
     (''Inicia sesi'' @ o_acute @ ''n aqu'' @ i_acute)
     ''Connectez-vous ici''
     ''Entre aqui''"

definition error_invalid_email :: text_of where
  "error_invalid_email = by_locale
     ''Invalid email''
     (''Correo inv'' @ a_acute @ ''lido'')
     ''E-mail invalide''
     (''E-mail inv'' @ a_acute @ ''lido'')"

definition error_invalid_domain :: text_of where
  "error_invalid_domain = by_locale
     ''Invalid domain''
     (''Dominio inv'' @ a_acute @ ''lido'')
     ''Domaine invalide''
     (''Dom'' @ i_acute @ ''nio inv'' @ a_acute @ ''lido'')"

definition error_email_taken :: text_of where
  "error_email_taken = by_locale
     ''Email already registered''
     (''Este correo ya est'' @ a_acute @ '' registrado'')
     (''E-mail d'' @ e_acute @ ''j'' @ a_grave @ '' enregistr'' @ e_acute)
     (''E-mail j'' @ a_acute @ '' registado'')"

subsection \<open>The dashboard and the composer\<close>

definition dashboard_title :: text_of where
  "dashboard_title = by_locale
     ''Dashboard''
     ''Panel de Control''
     ''Tableau de bord''
     ''Painel de Controlo''"

definition compose_button :: text_of where
  "compose_button = by_locale ''Compose'' ''Redactar'' ''Nouveau message'' ''Compor''"

definition compose_from :: text_of where
  "compose_from = by_locale ''From'' ''De'' ''De'' ''De''"

definition compose_to :: text_of where
  "compose_to = by_locale ''To'' ''Para'' cap_a_grave ''Para''"

definition compose_subject :: text_of where
  "compose_subject = by_locale ''Subject'' ''Asunto'' ''Sujet'' ''Assunto''"

definition compose_body :: text_of where
  "compose_body = by_locale ''Message'' ''Mensaje'' ''Message'' ''Mensagem''"

definition compose_attachments :: text_of where
  "compose_attachments = by_locale
     ''Attachments''
     ''Adjuntos''
     (''Pi'' @ e_grave @ ''ces jointes'')
     ''Anexos''"

definition compose_send :: text_of where
  "compose_send = by_locale ''Send Email'' ''Enviar Correo'' ''Envoyer'' ''Enviar Email''"

definition compose_sending :: text_of where
  "compose_sending = by_locale
     ''Sending...''
     ''Enviando...''
     ''Envoi en cours...''
     ''A enviar...''"

definition logout_button :: text_of where
  "logout_button = by_locale
     ''Logout''
     (''Cerrar Sesi'' @ o_acute @ ''n'')
     (''D'' @ e_acute @ ''connexion'')
     ''Sair''"

definition stats_aliases :: text_of where
  "stats_aliases = by_locale
     ''Active Aliases''
     ''Alias Activos''
     ''Alias actifs''
     ''Alias Ativos''"

definition stats_domains :: text_of where
  "stats_domains = by_locale
     ''Connected Domains''
     ''Dominios Conectados''
     (''Domaines connect'' @ e_acute @ ''s'')
     (''Dom'' @ i_acute @ ''nios Conectados'')"

definition stats_emails :: text_of where
  "stats_emails = by_locale
     ''Total Emails Received''
     ''Correos Recibidos''
     (''Total des e-mails re'' @ c_cedil @ ''us'')
     ''Total de E-mails Recebidos''"

definition manage_aliases :: text_of where
  "manage_aliases = by_locale
     ''Manage Aliases''
     ''Gestionar Alias''
     (''G'' @ e_acute @ ''rer les alias'')
     ''Gerir alias''"

definition manage_domains :: text_of where
  "manage_domains = by_locale
     ''Manage Domains''
     ''Gestionar Dominios''
     (''G'' @ e_acute @ ''rer les domaines'')
     (''Gerir dom'' @ i_acute @ ''nios'')"

definition table_sender :: text_of where
  "table_sender = by_locale
     ''Sender''
     ''Remitente''
     (''Exp'' @ e_acute @ ''diteur'')
     ''Remetente''"

definition table_subject :: text_of where
  "table_subject = by_locale ''Subject'' ''Asunto'' ''Objet'' ''Assunto''"

definition table_received :: text_of where
  "table_received = by_locale
     ''Received At''
     ''Recibido el''
     (''Re'' @ c_cedil @ ''u le'')
     ''Recebido em''"

definition table_forwarded :: text_of where
  "table_forwarded = by_locale
     ''Forwarded''
     ''Reenviado''
     (''Transf'' @ e_acute @ ''r'' @ e_acute)
     ''Reencaminhado''"

definition table_header_to :: text_of where
  "table_header_to = by_locale
     ''Recipient''
     ''Destinatario''
     ''Destinataire''
     (''Destinat'' @ a_acute @ ''rio'')"

definition table_header_outbound_status :: text_of where
  "table_header_outbound_status = by_locale ''Status'' ''Estado'' ''Statut'' ''Estado''"

definition table_header_outbound_sent :: text_of where
  "table_header_outbound_sent = by_locale
     ''Sent At''
     ''Enviado el''
     (''Envoy'' @ e_acute @ '' le'')
     ''Enviado em''"

definition table_header_outbound_updated :: text_of where
  "table_header_outbound_updated = by_locale
     ''Last Updated''
     (cap_u_acute @ ''ltima Edici'' @ o_acute @ ''n'')
     (''Derni'' @ e_grave @ ''re modification'')
     (cap_u_acute @ ''ltima Edi'' @ c_cedil @ a_tilde @ ''o'')"

definition table_actions :: text_of where
  "table_actions = by_locale
     ''Actions''
     ''Acciones''
     ''Actions''
     (''A'' @ c_cedil @ o_tilde @ ''es'')"

definition no_emails :: text_of where
  "no_emails = by_locale
     ''No emails received yet.''
     (''No se han recibido correos a'' @ u_acute @ ''n.'')
     (''Aucun e-mail re'' @ c_cedil @ ''u pour le moment.'')
     ''Nenhum e-mail recebido ainda.''"

definition recent_emails_title :: text_of where
  "recent_emails_title = by_locale
     ''Recent Emails''
     ''Correos Recientes''
     (''E-mails r'' @ e_acute @ ''cents'')
     ''E-mails Recentes''"

definition sent_emails_title :: text_of where
  "sent_emails_title = by_locale
     ''Sent Emails''
     ''Correos Enviados''
     (''E-mails envoy'' @ e_acute @ ''s'')
     ''E-mails Enviados''"

definition draft_emails_title :: text_of where
  "draft_emails_title = by_locale ''Draft Emails'' ''Borradores'' ''Brouillons'' ''Rascunhos''"

subsection \<open>Folders and flags\<close>

definition folder_inbox :: text_of where
  "folder_inbox = by_locale
     ''Inbox''
     ''Bandeja de Entrada''
     (''Bo'' @ i_circ @ ''te de r'' @ e_acute @ ''ception'')
     ''Caixa de Entrada''"

definition folder_sent :: text_of where
  "folder_sent = by_locale ''Sent'' ''Enviados'' (''Envoy'' @ e_acute @ ''s'') ''Enviados''"

definition folder_drafts :: text_of where
  "folder_drafts = by_locale ''Drafts'' ''Borradores'' ''Brouillons'' ''Rascunhos''"

definition folder_favorites :: text_of where
  "folder_favorites = by_locale ''Favorites'' ''Favoritos'' ''Favoris'' ''Favoritos''"

definition favorite_emails_title :: text_of where
  "favorite_emails_title = by_locale
     ''Favorite Emails''
     ''Correos Favoritos''
     ''E-mails favoris''
     ''E-mails Favoritos''"

definition mark_unread_button :: text_of where
  "mark_unread_button = by_locale
     ''Mark as Unread''
     (''Marcar como no le'' @ i_acute @ ''do'')
     ''Marquer comme non lu''
     (''Marcar como n'' @ a_tilde @ ''o lido'')"

definition batch_mark_unread_button :: text_of where
  "batch_mark_unread_button = by_locale
     ''Mark Unread''
     (''Marcar no le'' @ i_acute @ ''do'')
     ''Marquer non lu''
     (''Marcar n'' @ a_tilde @ ''o lido'')"

definition favorite_button :: text_of where
  "favorite_button = by_locale ''Favorite'' ''Favorito'' ''Favori'' ''Favorito''"

definition unfavorite_button :: text_of where
  "unfavorite_button = by_locale
     ''Remove Favorite''
     ''Quitar de Favoritos''
     ''Retirer des favoris''
     ''Remover dos Favoritos''"

definition search_placeholder :: text_of where
  "search_placeholder = by_locale
     ''Search emails...''
     ''Buscar correos...''
     ''Rechercher des emails...''
     ''Pesquisar e-mails...''"

definition pagination_previous :: text_of where
  "pagination_previous = by_locale
     ''Previous''
     ''Anterior''
     (''Pr'' @ e_acute @ ''c'' @ e_acute @ ''dent'')
     ''Anterior''"

definition pagination_next :: text_of where
  "pagination_next = by_locale ''Next'' ''Siguiente'' ''Suivant'' ''Seguinte''"

definition pagination_info :: "int \<Rightarrow> int \<Rightarrow> text_of" where
  "pagination_info current pages = by_locale
     (''Page '' @ show_int current @ '' of '' @ show_int pages)
     (''P'' @ a_acute @ ''gina '' @ show_int current @ '' de '' @ show_int pages)
     (''Page '' @ show_int current @ '' sur '' @ show_int pages)
     (''P'' @ a_acute @ ''gina '' @ show_int current @ '' de '' @ show_int pages)"

definition from_all_aliases_label :: text_of where
  "from_all_aliases_label = by_locale
     ''From all aliases''
     ''De todos los alias''
     ''De tous les alias''
     ''De todos os alias''"

definition filter_all_aliases :: text_of where
  "filter_all_aliases = by_locale
     ''All Aliases''
     ''Todos los Alias''
     ''Tous les alias''
     ''Todos os Alias''"

definition site_title :: text_of where
  "site_title = by_locale
     ''Maileroo - Email Forwarder for Privacy''
     (''Maileroo - Reenv'' @ i_acute @ ''o de Email para Privacidad'')
     (''Maileroo - Redirection d'' @ quote @ ''emails pour la confidentialit'' @ e_acute)
     ''Maileroo - Redirecionamento de Email para Privacidade''"

definition site_description :: text_of where
  "site_description = by_locale
     ''Protect your identity with temporary and permanent email aliases. Forward emails securely and stay private.''
     (''Protege tu identidad con alias de email temporales y permanentes. Reenv'' @ i_acute @ ''a correos de forma segura y mant'' @ e_acute @ ''n tu privacidad.'')
     (''Prot'' @ e_acute @ ''gez votre identit'' @ e_acute @ '' avec des alias d'' @ quote @ ''e-mail temporaires et permanents. Redirigez vos e-mails en toute s'' @ e_acute @ ''curit'' @ e_acute @ '' et restez anonyme.'')
     (''Proteja a sua identidade com alias de e-mail tempor'' @ a_acute @ ''rios e permanentes. Redirecione e-mails de forma segura e mantenha a sua privacidade.'')"

subsection \<open>Replies\<close>

definition replies_title :: text_of where
  "replies_title = by_locale
     ''Replies''
     ''Respuestas''
     (''R'' @ e_acute @ ''ponses'')
     ''Respostas''"

definition reply_form_title :: text_of where
  "reply_form_title = by_locale
     ''Send a Reply''
     ''Enviar una Respuesta''
     (''Envoyer une r'' @ e_acute @ ''ponse'')
     ''Enviar uma Resposta''"

definition reply_placeholder :: text_of where
  "reply_placeholder = by_locale
     ''Type your reply here...''
     (''Escribe tu respuesta aqu'' @ i_acute @ ''...'')
     (''Tapez votre r'' @ e_acute @ ''ponse ici...'')
     ''Digite sua resposta aqui...''"

definition send_reply_button :: text_of where
  "send_reply_button = by_locale
     ''Send Reply''
     ''Enviar Respuesta''
     (''Envoyer la r'' @ e_acute @ ''ponse'')
     ''Enviar Resposta''"

definition you_replied :: text_of where
  "you_replied = by_locale
     ''You replied''
     ''Respondiste''
     (''Vous avez r'' @ e_acute @ ''pondu'')
     (''Voc'' @ e_circ @ '' respondeu'')"

definition reply_attachments_label :: text_of where
  "reply_attachments_label = by_locale
     ''Attachments''
     ''Archivos adjuntos''
     (''Pi'' @ e_grave @ ''ces jointes'')
     ''Anexos''"

definition reply_empty_body_error :: text_of where
  "reply_empty_body_error = by_locale
     ''Reply body cannot be empty.''
     (''El cuerpo de la respuesta no puede estar vac'' @ i_acute @ ''o.'')
     (''Le corps de la r'' @ e_acute @ ''ponse ne peut pas '' @ e_circ @ ''tre vide.'')
     (''O corpo da resposta n'' @ a_tilde @ ''o pode estar vazio.'')"

subsection \<open>API keys\<close>

definition api_keys_title :: text_of where
  "api_keys_title = by_locale
     ''API Keys''
     ''Claves de API''
     (''Cl'' @ e_acute @ ''s API'')
     ''Chaves de API''"

definition api_keys_subtitle :: text_of where
  "api_keys_subtitle = by_locale
     ''Manage your API keys for programmatic access to Maily.''
     (''Gestiona tus claves de API para el acceso program'' @ a_acute @ ''tico a Maily.'')
     (''G'' @ e_acute @ ''rez vos cl'' @ e_acute @ ''s API pour un acc'' @ e_grave @ ''s programmatique '' @ a_grave @ '' Maily.'')
     (''Gira as suas chaves de API para acesso program'' @ a_acute @ ''tico ao Maily.'')"

definition api_key_success :: text_of where
  "api_key_success = by_locale
     ''Success!''
     (inv_excl @ cap_e_acute @ ''xito!'')
     (''Succ'' @ e_grave @ ''s !'')
     ''Sucesso!''"

definition api_key_copy_warning :: text_of where
  "api_key_copy_warning = by_locale
     (''Your new API key has been generated. Copy it now - you won'' @ quote @ ''t be able to see it again!'')
     (''Tu nueva clave de API ha sido generada. Copiala ahora - '' @ inv_excl @ ''no podr'' @ a_acute @ ''s volver a verla!'')
     (''Votre nouvelle cl'' @ e_acute @ '' API a '' @ e_acute @ ''t'' @ e_acute @ '' g'' @ e_acute @ ''n'' @ e_acute @ ''r'' @ e_acute @ ''e. Copiez-la maintenant - vous ne pourrez plus la revoir !'')
     (''A sua nova chave de API foi gerada. Copie-a agora - n'' @ a_tilde @ ''o poder'' @ a_acute @ '' v'' @ e_circ @ ''-la novamente!'')"

definition create_key_title :: text_of where
  "create_key_title = by_locale
     ''Create New Key''
     ''Crear Nueva Clave''
     (''Cr'' @ e_acute @ ''er une nouvelle cl'' @ e_acute)
     ''Criar Nova Chave''"

definition key_name_label :: text_of where
  "key_name_label = by_locale
     ''Key Name''
     ''Nombre de la Clave''
     (''Nom de la cl'' @ e_acute)
     ''Nome da Chave''"

definition key_name_placeholder :: text_of where
  "key_name_placeholder = by_locale
     ''e.g. CI/CD Pipeline''
     ''ej. CI/CD Pipeline''
     ''ex. Pipeline CI/CD''
     ''ex. Pipeline CI/CD''"

definition generate_key_button :: text_of where
  "generate_key_button = by_locale
     ''Generate API Key''
     ''Generar Clave de API''
     (''G'' @ e_acute @ ''n'' @ e_acute @ ''rer la cl'' @ e_acute @ '' API'')
     ''Gerar Chave de API''"

definition created_on_label :: "string \<Rightarrow> text_of" where
  "created_on_label day = by_locale
     (''Created on '' @ day)
     (''Creada el '' @ day)
     (''Cr'' @ e_acute @ e_acute @ ''e le '' @ day)
     (''Criada em '' @ day)"

definition revoke_button :: text_of where
  "revoke_button = by_locale
     ''Revoke''
     ''Revocar''
     (''R'' @ e_acute @ ''voquer'')
     ''Revogar''"

definition revoke_confirm :: text_of where
  "revoke_confirm = by_locale
     ''Are you sure you want to revoke this API key?''
     (inv_quest @ ''Est'' @ a_acute @ ''s seguro de que quieres revocar esta clave de API?'')
     (cap_e_circ @ ''tes-vous s'' @ u_circ @ ''r de vouloir r'' @ e_acute @ ''voquer cette cl'' @ e_acute @ '' API ?'')
     ''Tem a certeza que deseja revogar esta chave de API?''"

definition no_keys_found :: text_of where
  "no_keys_found = by_locale
     ''No API keys found.''
     ''No se encontraron claves de API.''
     (''Aucune cl'' @ e_acute @ '' API trouv'' @ e_acute @ ''e.'')
     ''Nenhuma chave de API encontrada.''"

subsection \<open>Dialogs\<close>

definition modal_cancel :: text_of where
  "modal_cancel = by_locale ''Cancel'' ''Cancelar'' ''Annuler'' ''Cancelar''"

definition modal_delete_confirm :: text_of where
  "modal_delete_confirm = by_locale
     ''Yes, Delete''
     (''S'' @ i_acute @ '', Eliminar'')
     ''Oui, supprimer''
     ''Sim, Eliminar''"

definition delete_alias_title :: text_of where
  "delete_alias_title = by_locale
     ''Delete Alias''
     ''Eliminar Alias''
     (''Supprimer l'' @ quote @ ''alias'')
     ''Eliminar Alias''"

definition delete_alias_message :: "(string \<Rightarrow> string) \<Rightarrow> string \<Rightarrow> text_of" where
  "delete_alias_message clean name = by_locale
     (''Are you sure you want to delete the alias <strong>'' @ clean name @ ''</strong>?<br><br>You will no longer receive emails that are sent to this alias (and other users may use this address)'')
     (inv_quest @ ''Est'' @ a_acute @ ''s seguro de que quieres eliminar el alias <strong>'' @ clean name @ ''</strong>?<br><br>Ya no recibir'' @ a_acute @ ''s los correos enviados a este alias (y otros usuarios podr'' @ a_acute @ ''n usar esta direcci'' @ o_acute @ ''n)'')
     (cap_e_circ @ ''tes-vous s'' @ u_circ @ ''r de vouloir supprimer l'' @ quote @ ''alias <strong>'' @ clean name @ ''</strong> ?<br><br>Vous ne recevrez plus les e-mails envoy'' @ e_acute @ ''s '' @ a_grave @ '' cet alias (et d'' @ quote @ ''autres utilisateurs pourront utiliser cette adresse)'')
     (''Tem a certeza que deseja eliminar o alias <strong>'' @ clean name @ ''</strong>?<br><br>Deixar'' @ a_acute @ '' de receber e-mails enviados para este alias (e outros utilizadores poder'' @ a_tilde @ ''o utilizar este endere'' @ c_cedil @ ''o)'')"

definition delete_email_title :: text_of where
  "delete_email_title = by_locale
     ''Delete Email''
     ''Eliminar Correo''
     (''Supprimer l'' @ quote @ ''e-mail'')
     ''Eliminar E-mail''"

definition delete_email_message :: "(string \<Rightarrow> string) \<Rightarrow> string \<Rightarrow> text_of" where
  "delete_email_message clean subject = by_locale
     (''Are you sure you want to delete the email with subject: <strong>'' @ clean subject @ ''</strong>?'')
     (inv_quest @ ''Est'' @ a_acute @ ''s seguro de que quieres eliminar el correo con asunto: <strong>'' @ clean subject @ ''</strong>?'')
     (cap_e_circ @ ''tes-vous s'' @ u_circ @ ''r de vouloir supprimer l'' @ quote @ ''e-mail avec l'' @ quote @ ''objet : <strong>'' @ clean subject @ ''</strong> ?'')
     (''Tem a certeza que deseja eliminar o e-mail com o assunto: <strong>'' @ clean subject @ ''</strong>?'')"

subsection \<open>Errors of an alias\<close>

definition error_alias_limit_reached :: "int \<Rightarrow> text_of" where
  "error_alias_limit_reached most = by_locale
     (''You have reached the maximum limit of '' @ show_int most @ '' aliases.'')
     (''Has alcanzado el l'' @ i_acute @ ''mite m'' @ a_acute @ ''ximo de '' @ show_int most @ '' alias.'')
     (''Vous avez atteint la limite maximale de '' @ show_int most @ '' alias.'')
     (''Atingiu o limite m'' @ a_acute @ ''ximo de '' @ show_int most @ '' alias.'')"

definition error_alias_taken :: text_of where
  "error_alias_taken = by_locale
     ''Sorry, this alias was just taken. Please choose another one.''
     ''Lo sentimos, este alias acaba de ser ocupado. Por favor elige otro.''
     (''D'' @ e_acute @ ''sol'' @ e_acute @ '', cet alias vient d'' @ quote @ e_circ @ ''tre pris. Veuillez en choisir un autre.'')
     (''Desculpe, este alias j'' @ a_acute @ '' foi ocupado. Por favor, escolha outro.'')"

definition error_alias_reserved :: text_of where
  "error_alias_reserved = by_locale
     ''This alias is reserved and cannot be registered.''
     (''Este alias est'' @ a_acute @ '' reservado y no puede ser registrado.'')
     (''Cet alias est r'' @ e_acute @ ''serv'' @ e_acute @ '' et ne peut pas '' @ e_circ @ ''tre enregistr'' @ e_acute @ ''.'')
     (''Este alias est'' @ a_acute @ '' reservado e n'' @ a_tilde @ ''o pode ser registado.'')"

definition error_alias_invalid_format :: text_of where
  "error_alias_invalid_format = by_locale
     ''Alias can only contain lowercase letters, numbers, hyphens, and dots.''
     (''El alias solo puede contener letras min'' @ u_acute @ ''sculas, n'' @ u_acute @ ''meros, guiones y puntos.'')
     (''L'' @ quote @ ''alias ne peut contenir que des lettres minuscules, des chiffres, des tirets et des points.'')
     (''O alias s'' @ o_acute @ '' pode conter letras min'' @ u_acute @ ''sculas, n'' @ u_acute @ ''meros, h'' @ i_acute @ ''fenes e pontos.'')"

definition error_alias_too_long :: "nat \<Rightarrow> text_of" where
  "error_alias_too_long most = by_locale
     (''Alias name is too long (maximum '' @ show_nat most @ '' characters).'')
     (''El nombre del alias es demasiado largo (m'' @ a_acute @ ''ximo '' @ show_nat most @ '' caracteres).'')
     (''Le nom de l'' @ quote @ ''alias est trop long (maximum '' @ show_nat most @ '' caract'' @ e_grave @ ''res).'')
     (''O nome do alias '' @ e_acute @ '' demasiado longo (m'' @ a_acute @ ''ximo de '' @ show_nat most @ '' caracteres).'')"

subsection \<open>The page of a mail\<close>

definition email_detail_title :: text_of where
  "email_detail_title = by_locale
     ''Email Detail''
     ''Detalle del Correo''
     (''D'' @ e_acute @ ''tails de l'' @ quote @ ''e-mail'')
     ''Detalhe do E-mail''"

definition back_to_dashboard :: text_of where
  "back_to_dashboard = by_locale
     ''Back to Dashboard''
     ''Volver al Panel''
     ''Retour au tableau de bord''
     ''Voltar ao Painel''"

definition delete_email_button :: text_of where
  "delete_email_button = by_locale
     ''Delete Email''
     ''Eliminar Correo''
     (''Supprimer l'' @ quote @ ''e-mail'')
     ''Eliminar E-mail''"

definition from_label :: text_of where
  "from_label = by_locale ''From:'' ''De:'' ''De :'' ''De:''"

definition to_label :: text_of where
  "to_label = by_locale ''To:'' ''Para:'' (cap_a_grave @ '' :'') ''Para:''"

definition date_label :: text_of where
  "date_label = by_locale ''Date:'' ''Fecha:'' ''Date :'' ''Data:''"

definition forwarded_label :: text_of where
  "forwarded_label = by_locale
     ''Forwarded:''
     ''Reenviado:''
     (''Redirig'' @ e_acute @ '' :'')
     ''Reencaminhado:''"

subsection \<open>Aliases\<close>

definition alias_address_header :: text_of where
  "alias_address_header = by_locale
     ''Alias Address''
     (''Direcci'' @ o_acute @ ''n del Alias'')
     (''Adresse de l'' @ quote @ ''alias'')
     (''Endere'' @ c_cedil @ ''o do Alias'')"

definition destination_header :: text_of where
  "destination_header = by_locale ''Destination'' ''Destino'' ''Destination'' ''Destino''"

definition auto_forward_header :: text_of where
  "auto_forward_header = by_locale
     ''Auto-Forward''
     (''Reenv'' @ i_acute @ ''o Autom'' @ a_acute @ ''tico'')
     ''Redirection auto''
     (''Redirecionamento Autom'' @ a_acute @ ''tico'')"

definition create_alias_form_title :: text_of where
  "create_alias_form_title = by_locale
     ''Create New Corporate Alias''
     ''Crear Nuevo Alias Corporativo''
     (''Cr'' @ e_acute @ ''er un nouvel alias d'' @ quote @ ''entreprise'')
     ''Criar Novo Alias Corporativo''"

definition select_domain_label :: text_of where
  "select_domain_label = by_locale
     ''Select Domain''
     ''Seleccionar Dominio''
     (''S'' @ e_acute @ ''lectionner le domaine'')
     (''Selecionar Dom'' @ i_acute @ ''nio'')"

definition choose_subdomain_label :: text_of where
  "choose_subdomain_label = by_locale
     ''Choose a Subdomain''
     ''Elegir un Subdominio''
     ''Choisir un sous-domaine''
     (''Escolher um Subdom'' @ i_acute @ ''nio'')"

definition custom_subdomain_label :: text_of where
  "custom_subdomain_label = by_locale
     ''Or enter custom''
     ''O introducir personalizado''
     (''Ou saisir un nom personnalis'' @ e_acute)
     ''Ou introduzir personalizado''"

definition auto_forward_checkbox_label :: text_of where
  "auto_forward_checkbox_label = by_locale
     ''Auto-forward emails to my inbox''
     ''Reenviar correos a mi bandeja de entrada''
     (''Rediriger les e-mails vers ma bo'' @ i_circ @ ''te de r'' @ e_acute @ ''ception'')
     ''Redirecionar e-mails para a minha caixa de entrada''"

definition create_alias_button :: text_of where
  "create_alias_button = by_locale
     ''Create Alias''
     ''Crear Alias''
     (''Cr'' @ e_acute @ ''er l'' @ quote @ ''alias'')
     ''Criar Alias''"

definition limit_reached_text :: "int \<Rightarrow> text_of" where
  "limit_reached_text most = by_locale
     (''Limit of '' @ show_int most @ '' aliases reached.'')
     (''L'' @ i_acute @ ''mite de '' @ show_int most @ '' alias alcanzado.'')
     (''Limite de '' @ show_int most @ '' alias atteinte.'')
     (''Limite de '' @ show_int most @ '' alias atingido.'')"

definition copy_tooltip :: text_of where
  "copy_tooltip = by_locale
     ''Copy to clipboard''
     ''Copiar al portapapeles''
     ''Copier dans le presse-papiers''
     (''Copiar para a '' @ a_acute @ ''rea de transfer'' @ e_circ @ ''ncia'')"

definition view_button :: text_of where
  "view_button = by_locale ''View'' ''Ver'' ''Voir'' ''Ver''"

definition delete_button :: text_of where
  "delete_button = by_locale ''Delete'' ''Eliminar'' ''Supprimer'' ''Eliminar''"

definition status_enabled :: text_of where
  "status_enabled = by_locale ''Enabled'' ''Activado'' (''Activ'' @ e_acute) ''Ativado''"

definition status_disabled :: text_of where
  "status_disabled = by_locale
     ''Disabled''
     ''Desactivado''
     (''D'' @ e_acute @ ''sactiv'' @ e_acute)
     ''Desativado''"

definition status_yes :: text_of where
  "status_yes = by_locale ''Yes'' (''S'' @ i_acute) ''Oui'' ''Sim''"

definition status_no :: text_of where
  "status_no = by_locale ''No'' ''No'' ''Non'' (''N'' @ a_tilde @ ''o'')"

subsection \<open>Deletion of several mails\<close>

definition batch_delete_button :: text_of where
  "batch_delete_button = by_locale
     ''Delete Selected''
     ''Eliminar Seleccionados''
     (''Supprimer la s'' @ e_acute @ ''lection'')
     ''Eliminar Selecionados''"

definition batch_delete_modal_title :: text_of where
  "batch_delete_modal_title = by_locale
     ''Delete Multiple Emails''
     (''Eliminar M'' @ u_acute @ ''ltiples Correos'')
     ''Supprimer plusieurs e-mails''
     (''Eliminar M'' @ u_acute @ ''ltiplos E-mails'')"

definition batch_delete_modal_message :: "nat \<Rightarrow> text_of" where
  "batch_delete_modal_message number = by_locale
     (''Are you sure you want to delete <strong>'' @ show_nat number @ ''</strong> selected emails?'')
     (inv_quest @ ''Est'' @ a_acute @ ''s seguro de que quieres eliminar <strong>'' @ show_nat number @ ''</strong> correos seleccionados?'')
     (cap_e_circ @ ''tes-vous s'' @ u_circ @ ''r de vouloir supprimer <strong>'' @ show_nat number @ ''</strong> e-mails s'' @ e_acute @ ''lectionn'' @ e_acute @ ''s ?'')
     (''Tem a certeza que deseja eliminar <strong>'' @ show_nat number @ ''</strong> e-mails selecionados?'')"

subsection \<open>Administration\<close>

definition admin_panel_title :: text_of where
  "admin_panel_title = by_locale
     ''Admin Panel''
     (''Panel de Administraci'' @ o_acute @ ''n'')
     (''Panneau d'' @ quote @ ''administration'')
     (''Painel de Administra'' @ c_cedil @ a_tilde @ ''o'')"

definition user_management_title :: text_of where
  "user_management_title = by_locale
     ''User Management''
     (''Gesti'' @ o_acute @ ''n de Usuarios'')
     ''Gestion des Utilisateurs''
     (''Gest'' @ a_tilde @ ''o de Utilizadores'')"

definition admin_total_users :: text_of where
  "admin_total_users = by_locale
     ''Total Users''
     ''Usuarios Totales''
     ''Total des utilisateurs''
     ''Total de Utilizadores''"

definition admin_table_user :: text_of where
  "admin_table_user = by_locale
     ''User / Email''
     ''Usuario / Correo''
     ''Utilisateur / E-mail''
     ''Utilizador / E-mail''"

definition admin_table_registered :: text_of where
  "admin_table_registered = by_locale ''Registered'' ''Registrado'' ''Inscrit'' ''Registado''"

definition admin_table_aliases :: text_of where
  "admin_table_aliases = by_locale ''Aliases'' ''Alias'' ''Alias'' ''Alias''"

definition admin_table_emails :: text_of where
  "admin_table_emails = by_locale ''Emails'' ''Correos'' ''E-mails'' ''E-mails''"

definition admin_table_last_login_ip :: text_of where
  "admin_table_last_login_ip = by_locale
     ''Last Login IP''
     (''IP '' @ cap_u_acute @ ''ltimo Ingreso'')
     (''Derni'' @ e_grave @ ''re IP de connexion'')
     (''IP '' @ cap_u_acute @ ''ltimo In'' @ i_acute @ ''cio'')"

definition admin_table_last_login_at :: text_of where
  "admin_table_last_login_at = by_locale
     ''Last Login At''
     (cap_u_acute @ ''ltimo Ingreso el'')
     (''Derni'' @ e_grave @ ''re connexion le'')
     (cap_u_acute @ ''ltimo In'' @ i_acute @ ''cio em'')"

definition admin_table_bypass_limit :: text_of where
  "admin_table_bypass_limit = by_locale
     ''Bypass Limit''
     (''Ignorar L'' @ i_acute @ ''mite'')
     ''Ignorer la Limite''
     ''Ignorar Limite''"

definition admin_table_disable_autoclean :: text_of where
  "admin_table_disable_autoclean = by_locale
     ''Keep All Emails''
     ''Conservar Emails''
     ''Conserver Emails''
     ''Manter Emails''"

definition admin_table_outbound_email :: text_of where
  "admin_table_outbound_email = by_locale
     ''Outbound Email''
     (''Env'' @ i_acute @ ''o de Correos'')
     (''Envoi d'' @ quote @ ''E-mails'')
     ''Envio de Emails''"

definition admin_bypass_limit_tooltip :: text_of where
  "admin_bypass_limit_tooltip = by_locale
     ''Toggle to bypass the maximum aliases limit for this user''
     (''Alternar para ignorar el l'' @ i_acute @ ''mite de alias m'' @ a_acute @ ''ximos para este usuario'')
     (''Basculer pour ignorer la limite d'' @ quote @ ''alias maximum pour cet utilisateur'')
     ''Alternar para ignorar o limite de aliases para este utilizador''"

definition admin_disable_autoclean_tooltip :: text_of where
  "admin_disable_autoclean_tooltip = by_locale
     ''Toggle to prevent emails in this account from being automatically deleted based on retention settings.''
     (''Alternar para evitar que los correos de esta cuenta sean eliminados autom'' @ a_acute @ ''ticamente.'')
     (''Basculer pour emp'' @ e_circ @ ''cher la suppression automatique des emails de ce compte.'')
     ''Alternar para impedir que os emails desta conta sejam eliminados automaticamente.''"

definition admin_outbound_email_tooltip :: text_of where
  "admin_outbound_email_tooltip = by_locale
     ''Toggle to allow this user to send outbound emails.''
     (''Alternar para permitir que este usuario env'' @ i_acute @ ''e correos electr'' @ o_acute @ ''nicos.'')
     (''Basculer pour permettre '' @ a_grave @ '' cet utilisateur d'' @ quote @ ''envoyer des e-mails.'')
     ''Alternar para permitir que este utilizador envie emails.''"

definition admin_badge_admin :: text_of where
  "admin_badge_admin = by_locale ''ADMIN'' ''ADMIN'' ''ADMIN'' ''ADMIN''"

definition admin_never :: text_of where
  "admin_never = by_locale ''Never'' ''Nunca'' ''Jamais'' ''Nunca''"

definition load_remote_content :: text_of where
  "load_remote_content = by_locale
     ''Load Remote Content''
     ''Cargar contenido remoto''
     ''Charger le contenu distant''
     (''Carregar Conte'' @ u_acute @ ''do Remoto'')"

subsection \<open>Notices\<close>

definition toast_email_sent_success :: text_of where
  "toast_email_sent_success = by_locale
     ''Email sent successfully!''
     (inv_excl @ ''Correo enviado con '' @ e_acute @ ''xito!'')
     (''E-mail envoy'' @ e_acute @ '' avec succ'' @ e_grave @ ''s !'')
     ''E-mail enviado com sucesso!''"

definition toast_email_send_failed :: text_of where
  "toast_email_send_failed = by_locale
     ''Failed to send email. Check logs.''
     ''Error al enviar correo. Revise los logs.''
     (cap_e_acute @ ''chec de l'' @ quote @ ''envoi. V'' @ e_acute @ ''rifiez les journaux.'')
     ''Falha ao enviar e-mail. Verifique os logs.''"

definition toast_invalid_email :: text_of where
  "toast_invalid_email = by_locale
     ''Invalid recipient email address.''
     (''Direcci'' @ o_acute @ ''n de correo destinatario no v'' @ a_acute @ ''lida.'')
     ''Adresse e-mail du destinataire invalide.''
     (''Endere'' @ c_cedil @ ''o de e-mail do destinat'' @ a_acute @ ''rio inv'' @ a_acute @ ''lido.'')"

definition toast_empty_subject :: text_of where
  "toast_empty_subject = by_locale
     ''Subject cannot be empty.''
     (''El asunto no puede estar vac'' @ i_acute @ ''o.'')
     (''Le sujet ne peut pas '' @ e_circ @ ''tre vide.'')
     (''O assunto n'' @ a_tilde @ ''o pode estar vazio.'')"

definition toast_alias_unauthorized :: text_of where
  "toast_alias_unauthorized = by_locale
     ''Alias not found or you do not have permission to use it.''
     ''Alias no encontrado o no tiene permisos para usarlo.''
     (''Alias introuvable ou vous n'' @ quote @ ''avez pas la permission de l'' @ quote @ ''utiliser.'')
     (''Alias n'' @ a_tilde @ ''o encontrado ou voc'' @ e_circ @ '' n'' @ a_tilde @ ''o tem permiss'' @ a_tilde @ ''o para us'' @ a_acute @ ''-lo.'')"

subsection \<open>DKIM\<close>

definition dkim_modal_title :: "string \<Rightarrow> text_of" where
  "dkim_modal_title name = by_locale
     (''DKIM Configuration '' @ em_dash @ '' '' @ name)
     (''Configuraci'' @ o_acute @ ''n de DKIM '' @ em_dash @ '' '' @ name)
     (''Configuration DKIM '' @ em_dash @ '' '' @ name)
     (''Configura'' @ c_cedil @ a_tilde @ ''o DKIM '' @ em_dash @ '' '' @ name)"

definition dkim_no_key_warning :: text_of where
  "dkim_no_key_warning = by_locale
     ''No DKIM Signature Key Configured''
     ''Sin Clave de Firma DKIM Configurada''
     (''Aucune cl'' @ e_acute @ '' de signature DKIM configur'' @ e_acute @ ''e'')
     ''Nenhuma Chave de Assinatura DKIM Configurada''"

definition dkim_no_key_desc :: text_of where
  "dkim_no_key_desc = by_locale
     ''This domain was created without DKIM keys. Generating a DKIM key pair is highly recommended to authenticate outgoing emails and ensure high inbox deliverability.''
     ''Este dominio fue creado sin claves DKIM. Se recomienda encarecidamente generar un par de claves DKIM para autenticar los correos salientes y garantizar una alta entrega en la bandeja de entrada.''
     (''Ce domaine a '' @ e_acute @ ''t'' @ e_acute @ '' cr'' @ e_acute @ e_acute @ '' sans cl'' @ e_acute @ ''s DKIM. La g'' @ e_acute @ ''n'' @ e_acute @ ''ration d'' @ quote @ ''une paire de cl'' @ e_acute @ ''s DKIM est fortement recommand'' @ e_acute @ ''e pour authentifier les e-mails sortants et garantir une d'' @ e_acute @ ''livrabilit'' @ e_acute @ '' '' @ e_acute @ ''lev'' @ e_acute @ ''e.'')
     (''Este dom'' @ i_acute @ ''nio foi criado sem chaves DKIM. Recomenda-se fortemente a gera'' @ c_cedil @ a_tilde @ ''o de um par de chaves DKIM para autenticar e-mails de sa'' @ i_acute @ ''da e garantir uma alta entrega na caixa de entrada.'')"

definition dkim_generate_button :: text_of where
  "dkim_generate_button = by_locale
     ''Generate DKIM Key''
     ''Generar Clave DKIM''
     (''G'' @ e_acute @ ''n'' @ e_acute @ ''rer la cl'' @ e_acute @ '' DKIM'')
     ''Gerar Chave DKIM''"

definition dkim_pending_title :: text_of where
  "dkim_pending_title = by_locale
     ''Pending DKIM Key Verification''
     (''Verificaci'' @ o_acute @ ''n de Clave DKIM Pendiente'')
     (''V'' @ e_acute @ ''rification de la cl'' @ e_acute @ '' DKIM en attente'')
     (''Verifica'' @ c_cedil @ a_tilde @ ''o de Chave DKIM Pendente'')"

definition dkim_rotation_active_badge :: text_of where
  "dkim_rotation_active_badge = by_locale
     ''Rotation Active''
     (''Rotaci'' @ o_acute @ ''n Activa'')
     ''Rotation active''
     (''Rota'' @ c_cedil @ a_tilde @ ''o Ativa'')"

definition dkim_pending_desc :: text_of where
  "dkim_pending_desc = by_locale
     ''To complete key rotation, publish this new TXT record. Old record must remain active in parallel!''
     (''Para completar la rotaci'' @ o_acute @ ''n de la clave, publique este nuevo registro TXT. '' @ inv_excl @ ''El registro anterior debe permanecer activo en paralelo!'')
     (''Pour terminer la rotation des cl'' @ e_acute @ ''s, publiez ce nouvel enregistrement TXT. L'' @ quote @ ''ancien enregistrement doit rester actif en parall'' @ e_grave @ ''le !'')
     (''Para concluir a rota'' @ c_cedil @ a_tilde @ ''o da chave, publique este novo registo TXT. O registo antigo deve permanecer ativo em paralelo!'')"

definition dkim_active_title :: text_of where
  "dkim_active_title = by_locale
     ''Active DKIM Configuration''
     (''Configuraci'' @ o_acute @ ''n DKIM Activa'')
     ''Configuration DKIM active''
     (''Configura'' @ c_cedil @ a_tilde @ ''o DKIM Ativa'')"

definition dkim_active_desc :: text_of where
  "dkim_active_desc = by_locale
     (''Publish this TXT record on your domain'' @ quote @ ''s DNS management console (e.g. Cloudflare, Route53, GoDaddy):'')
     (''Publique este registro TXT en la consola de administraci'' @ o_acute @ ''n de DNS de su dominio (por ejemplo, Cloudflare, Route53, GoDaddy):'')
     ''Publiez cet enregistrement TXT sur la console de gestion DNS de votre domaine (ex. Cloudflare, Route53, GoDaddy) :''
     (''Publique este registo TXT na consola de administra'' @ c_cedil @ a_tilde @ ''o de DNS do seu dom'' @ i_acute @ ''nio (por exemplo, Cloudflare, Route53, GoDaddy):'')"

definition dkim_rotate_button :: text_of where
  "dkim_rotate_button = by_locale
     ''Rotate DKIM Key''
     ''Rotar Clave DKIM''
     (''Faire pivote la cl'' @ e_acute @ '' DKIM'')
     ''Rodar Chave DKIM''"

definition dkim_rotate_confirm :: text_of where
  "dkim_rotate_confirm = by_locale
     ''Rotating your DKIM key will generate a new key pair and selector. Your current active key will remain active until you verify the new one. Do you want to proceed?''
     (''Rotar su clave DKIM generar'' @ a_acute @ '' un nuevo par de claves y selector. Su clave activa actual permanecer'' @ a_acute @ '' activa hasta que verifique la nueva. '' @ inv_quest @ ''Desea continuar?'')
     (''La rotation de votre cl'' @ e_acute @ '' DKIM g'' @ e_acute @ ''n'' @ e_acute @ ''rera une nouvelle paire de cl'' @ e_acute @ ''s et un nouveau s'' @ e_acute @ ''lecteur. Votre cl'' @ e_acute @ '' active actuelle restera active jusqu'' @ quote @ a_grave @ '' ce que vous v'' @ e_acute @ ''rifiiez la nouvelle. Voulez-vous continuer ?'')
     (''Rodar a sua chave DKIM ir'' @ a_acute @ '' gerar um novo par de chaves e seletor. A sua chave ativa atual permanecer'' @ a_acute @ '' ativa at'' @ e_acute @ '' verificar a nova. Deseja continuar?'')"

definition dkim_type_label :: text_of where
  "dkim_type_label = by_locale ''Type'' ''Tipo'' ''Type'' ''Tipo''"

definition dkim_host_label :: text_of where
  "dkim_host_label = by_locale ''Host'' ''Host'' (''H'' @ o_circ @ ''te'') ''Host''"

definition dkim_value_label :: text_of where
  "dkim_value_label = by_locale ''Value'' ''Valor'' ''Valeur'' ''Valor''"

definition dkim_copy_button :: text_of where
  "dkim_copy_button = by_locale ''Copy'' ''Copiar'' ''Copier'' ''Copiar''"

definition dkim_ttl_notice :: text_of where
  "dkim_ttl_notice = by_locale
     ''DNS updates can take time to propagate. If verification fails initially, please check your registrar and try again shortly.''
     (''Las actualizaciones de DNS pueden tardar en propagarse. Si la verificaci'' @ o_acute @ ''n falla inicialmente, verifique su proveedor e int'' @ e_acute @ ''ntelo de nuevo en unos minutos.'')
     (''Les mises '' @ a_grave @ '' jour DNS peuvent prendre du temps '' @ a_grave @ '' se propager. Si la v'' @ e_acute @ ''rification '' @ e_acute @ ''choue initialement, veuillez v'' @ e_acute @ ''rifier votre bureau d'' @ quote @ ''enregistrement et r'' @ e_acute @ ''essayer sous peu.'')
     (''As atualiza'' @ c_cedil @ o_tilde @ ''es de DNS podem demorar a propagar-se. Se a verifica'' @ c_cedil @ a_tilde @ ''o falhar inicialmente, verifique o seu registador e tente novamente em breve.'')"

definition dkim_verify_button :: text_of where
  "dkim_verify_button = by_locale
     ''Verify & Activate''
     ''Verificar y Activar''
     (''V'' @ e_acute @ ''rifier & Activer'')
     ''Verificar e Ativar''"

definition dkim_cancel_button :: text_of where
  "dkim_cancel_button = by_locale
     ''Cancel Rotation''
     (''Cancelar Rotaci'' @ o_acute @ ''n'')
     ''Annuler la rotation''
     (''Cancelar Rota'' @ c_cedil @ a_tilde @ ''o'')"

definition dkim_cancel_confirm :: text_of where
  "dkim_cancel_confirm = by_locale
     ''Are you sure you want to cancel the pending DKIM rotation? Any DNS record you published for this selector will no longer be used.''
     (inv_quest @ ''Est'' @ a_acute @ '' seguro de que desea cancelar la rotaci'' @ o_acute @ ''n de DKIM pendiente? Cualquier registro DNS que haya publicado para este selector ya no se utilizar'' @ a_acute @ ''.'')
     (cap_e_circ @ ''tes-vous s'' @ u_circ @ ''r de vouloir annuler la rotation DKIM en attente ? Tout enregistrement DNS que vous avez publi'' @ e_acute @ '' pour ce s'' @ e_acute @ ''lecteur ne sera plus utilis'' @ e_acute @ ''.'')
     (''Tem a certeza de que deseja cancelar a rota'' @ c_cedil @ a_tilde @ ''o de DKIM pendente? Qualquer registo DNS que tenha publicado para este seletor deixar'' @ a_acute @ '' de ser utilizado.'')"

subsection \<open>Labels and filters\<close>

definition manage_filters_and_labels :: text_of where
  "manage_filters_and_labels = by_locale
     ''Filters & Labels''
     ''Filtros y Etiquetas''
     (''Filtres & '' @ cap_e_acute @ ''tiquettes'')
     ''Filtros e Etiquetas''"

definition filter_all_labels :: text_of where
  "filter_all_labels = by_locale ''All'' ''Todos'' ''Tous'' ''Todos''"

definition labels_modal_title :: text_of where
  "labels_modal_title = by_locale
     ''Manage Filters & Labels''
     ''Administrar Filtros y Etiquetas''
     (''G'' @ e_acute @ ''rer les Filtres et '' @ cap_e_acute @ ''tiquettes'')
     ''Gerenciar Filtros e Etiquetas''"

definition tab_filter_rules :: text_of where
  "tab_filter_rules = by_locale
     ''Filter Rules''
     ''Reglas de Filtrado''
     (''R'' @ e_grave @ ''gles de Filtrage'')
     ''Regras de Filtragem''"

definition tab_manage_labels :: text_of where
  "tab_manage_labels = by_locale
     ''Labels''
     ''Etiquetas''
     (cap_e_acute @ ''tiquettes'')
     ''Etiquetas''"

definition create_filter_rule_title :: text_of where
  "create_filter_rule_title = by_locale
     ''New Filter Rule''
     ''Nueva Regla de Filtrado''
     (''Nouvelle R'' @ e_grave @ ''gle de Filtrage'')
     ''Nova Regra de Filtragem''"

definition filter_body_contains_label :: text_of where
  "filter_body_contains_label = by_locale
     ''If email body contains:''
     ''Si el cuerpo del correo contiene:''
     (''Si le corps de l'' @ quote @ ''e-mail contient :'')
     ''Se o corpo do e-mail contiver:''"

definition filter_body_contains_placeholder :: text_of where
  "filter_body_contains_placeholder = by_locale
     ''e.g. invoice, receipt, urgent''
     ''ej. factura, recibo, urgente''
     (''ex. facture, re'' @ c_cedil @ ''u, urgent'')
     ''ex. fatura, recibo, urgente''"

definition filter_apply_label :: text_of where
  "filter_apply_label = by_locale
     ''Apply Label:''
     ''Aplicar Etiqueta:''
     (''Appliquer l'' @ quote @ cap_e_acute @ ''tiquette :'')
     ''Aplicar Etiqueta:''"

definition filter_select_label_placeholder :: text_of where
  "filter_select_label_placeholder = by_locale
     ''Select a label...''
     ''Seleccionar una etiqueta...''
     (''S'' @ e_acute @ ''lectionner une '' @ e_acute @ ''tiquette...'')
     ''Selecione uma etiqueta...''"

definition filter_submit_button :: text_of where
  "filter_submit_button = by_locale
     ''Add Filter''
     ''Agregar Filtro''
     ''Ajouter le Filtre''
     ''Adicionar Filtro''"

definition filter_active_rules_title :: text_of where
  "filter_active_rules_title = by_locale
     ''Active Filter Rules''
     ''Reglas de Filtrado Activas''
     (''R'' @ e_grave @ ''gles de Filtrage Actives'')
     ''Regras de Filtragem Ativas''"

definition filter_no_rules :: text_of where
  "filter_no_rules = by_locale
     ''No filter rules created yet.''
     (''A'' @ u_acute @ ''n no se han creado reglas de filtrado.'')
     (''Aucune r'' @ e_grave @ ''gle de filtrage cr'' @ e_acute @ e_acute @ ''e pour l'' @ quote @ ''instant.'')
     ''Nenhuma regra de filtragem criada ainda.''"

definition create_label_title :: text_of where
  "create_label_title = by_locale
     ''Create New Label''
     ''Crear Nueva Etiqueta''
     (''Cr'' @ e_acute @ ''er une Nouvelle '' @ cap_e_acute @ ''tiquette'')
     ''Criar Nova Etiqueta''"

definition label_name_label :: text_of where
  "label_name_label = by_locale
     ''Label Name:''
     ''Nombre de la Etiqueta:''
     (''Nom de l'' @ quote @ cap_e_acute @ ''tiquette :'')
     ''Nome da Etiqueta:''"

definition label_name_placeholder :: text_of where
  "label_name_placeholder = by_locale
     ''e.g. Billing, Receipts, Work''
     (''ej. Facturaci'' @ o_acute @ ''n, Recibos, Trabajo'')
     (''ex. Facturation, Re'' @ c_cedil @ ''us, Travail'')
     (''ex. Cobran'' @ c_cedil @ ''a, Recibos, Trabalho'')"

definition label_color_label :: text_of where
  "label_color_label = by_locale ''Color:'' ''Color:'' ''Couleur :'' ''Cor:''"

definition label_submit_button :: text_of where
  "label_submit_button = by_locale
     ''Create Label''
     ''Crear Etiqueta''
     (''Cr'' @ e_acute @ ''er l'' @ quote @ cap_e_acute @ ''tiquette'')
     ''Criar Etiqueta''"

definition label_your_labels_title :: text_of where
  "label_your_labels_title = by_locale
     ''Your Labels''
     ''Tus Etiquetas''
     (''Vos '' @ cap_e_acute @ ''tiquettes'')
     ''Suas Etiquetas''"

definition label_no_labels :: text_of where
  "label_no_labels = by_locale
     ''No labels created yet.''
     (''A'' @ u_acute @ ''n no se han creado etiquetas.'')
     (''Aucune '' @ e_acute @ ''tiquette cr'' @ e_acute @ e_acute @ ''e pour l'' @ quote @ ''instant.'')
     ''Nenhuma etiqueta criada ainda.''"

definition delete_filter_button :: text_of where
  "delete_filter_button = by_locale ''Delete'' ''Eliminar'' ''Supprimer'' ''Excluir''"

definition delete_label_button :: text_of where
  "delete_label_button = by_locale ''Delete'' ''Eliminar'' ''Supprimer'' ''Excluir''"

definition add_label_to_email :: text_of where
  "add_label_to_email = by_locale
     ''+ Label''
     ''+ Etiqueta''
     (''+ '' @ cap_e_acute @ ''tiquette'')
     ''+ Etiqueta''"

definition remove_label_from_email_text :: text_of where
  "remove_label_from_email_text = by_locale
     ''Remove label''
     ''Quitar etiqueta''
     (''Retirer l'' @ quote @ e_acute @ ''tiquette'')
     ''Remover etiqueta''"

definition error_label_name_required :: text_of where
  "error_label_name_required = by_locale
     ''Label name is required''
     ''El nombre de la etiqueta es requerido''
     (''Le nom de l'' @ quote @ e_acute @ ''tiquette est requis'')
     (''O nome da etiqueta '' @ e_acute @ '' obrigat'' @ o_acute @ ''rio'')"

definition error_filter_keyword_required :: text_of where
  "error_filter_keyword_required = by_locale
     ''Filter keyword is required''
     ''La palabra clave del filtro es requerida''
     (''Le mot-cl'' @ e_acute @ '' du filtre est requis'')
     (''A palavra-chave do filtro '' @ e_acute @ '' obrigat'' @ o_acute @ ''ria'')"

definition filter_apply_to_existing_label :: text_of where
  "filter_apply_to_existing_label = by_locale
     ''Apply to existing emails''
     ''Aplicar a correos existentes''
     ''Appliquer aux e-mails existants''
     ''Aplicar aos e-mails existentes''"

definition filter_apply_to_existing_tooltip :: text_of where
  "filter_apply_to_existing_tooltip = by_locale
     ''This will run in the background. Applied labels will appear in your inbox as emails are processed.''
     (''Esto se ejecutar'' @ a_acute @ '' en segundo plano. Las etiquetas aparecer'' @ a_acute @ ''n en tu bandeja a medida que se procesen.'')
     (''Cela s'' @ quote @ ''ex'' @ e_acute @ ''cutera en arri'' @ e_grave @ ''re-plan. Les '' @ e_acute @ ''tiquettes appara'' @ i_circ @ ''tront dans votre bo'' @ i_circ @ ''te au fur et '' @ a_grave @ '' mesure.'')
     (''Isto ser'' @ a_acute @ '' executado em segundo plano. Os marcadores aparecer'' @ a_tilde @ ''o na sua caixa '' @ a_grave @ '' medida que forem processados.'')"

section \<open>What the texts hold\<close>

definition plain_string :: "string \<Rightarrow> bool" where
  "plain_string s \<longleftrightarrow> s \<noteq> [] \<and> list_all (\<lambda>c. c \<noteq> CHR ''<'' \<and> c \<noteq> CHR ''>'') s"

definition plain_text :: "text_of \<Rightarrow> bool" where
  "plain_text t \<longleftrightarrow> plain_string (t En) \<and> plain_string (t Es) \<and> plain_string (t Fr) \<and> plain_string (t Pt)"

text \<open>The keys that take nothing from their caller.\<close>

definition fixed_texts :: "text_of list" where
  "fixed_texts =
    [login_title, email_label, password_label, login_button, register_link_prompt, register_link_text,
     invalid_credentials_text, register_title, register_button, login_link_prompt, login_link_text,
     error_invalid_email, error_invalid_domain, error_email_taken, dashboard_title, compose_button,
     compose_from, compose_to, compose_subject, compose_body, compose_attachments, compose_send,
     compose_sending, logout_button, stats_aliases, stats_domains, stats_emails, manage_aliases, manage_domains,
     table_sender, table_subject, table_received, table_forwarded, table_header_to,
     table_header_outbound_status, table_header_outbound_sent, table_header_outbound_updated, table_actions,
     no_emails, recent_emails_title, sent_emails_title, draft_emails_title, folder_inbox, folder_sent,
     folder_drafts, folder_favorites, favorite_emails_title, mark_unread_button, batch_mark_unread_button,
     favorite_button, unfavorite_button, search_placeholder, pagination_previous, pagination_next,
     from_all_aliases_label, filter_all_aliases, site_title, site_description, replies_title, reply_form_title,
     reply_placeholder, send_reply_button, you_replied, reply_attachments_label, reply_empty_body_error,
     api_keys_title, api_keys_subtitle, api_key_success, api_key_copy_warning, create_key_title, key_name_label,
     key_name_placeholder, generate_key_button, revoke_button, revoke_confirm, no_keys_found, modal_cancel,
     modal_delete_confirm, delete_alias_title, delete_email_title, error_alias_taken, error_alias_reserved,
     error_alias_invalid_format, email_detail_title, back_to_dashboard, delete_email_button, from_label,
     to_label, date_label, forwarded_label, alias_address_header, destination_header, auto_forward_header,
     create_alias_form_title, select_domain_label, choose_subdomain_label, custom_subdomain_label,
     auto_forward_checkbox_label, create_alias_button, copy_tooltip, view_button, delete_button, status_enabled,
     status_disabled, status_yes, status_no, batch_delete_button, batch_delete_modal_title, admin_panel_title,
     user_management_title, admin_total_users, admin_table_user, admin_table_registered, admin_table_aliases,
     admin_table_emails, admin_table_last_login_ip, admin_table_last_login_at, admin_table_bypass_limit,
     admin_table_disable_autoclean, admin_table_outbound_email, admin_bypass_limit_tooltip,
     admin_disable_autoclean_tooltip, admin_outbound_email_tooltip, admin_badge_admin, admin_never,
     load_remote_content, toast_email_sent_success, toast_email_send_failed, toast_invalid_email,
     toast_empty_subject, toast_alias_unauthorized, dkim_no_key_warning, dkim_no_key_desc, dkim_generate_button,
     dkim_pending_title, dkim_rotation_active_badge, dkim_pending_desc, dkim_active_title, dkim_active_desc,
     dkim_rotate_button, dkim_rotate_confirm, dkim_type_label, dkim_host_label, dkim_value_label,
     dkim_copy_button, dkim_ttl_notice, dkim_verify_button, dkim_cancel_button, dkim_cancel_confirm,
     manage_filters_and_labels, filter_all_labels, labels_modal_title, tab_filter_rules, tab_manage_labels,
     create_filter_rule_title, filter_body_contains_label, filter_body_contains_placeholder, filter_apply_label,
     filter_select_label_placeholder, filter_submit_button, filter_active_rules_title, filter_no_rules,
     create_label_title, label_name_label, label_name_placeholder, label_color_label, label_submit_button,
     label_your_labels_title, label_no_labels, delete_filter_button, delete_label_button, add_label_to_email,
     remove_label_from_email_text, error_label_name_required, error_filter_keyword_required,
     filter_apply_to_existing_label, filter_apply_to_existing_tooltip]"

text \<open>Every fixed text is there in every language and holds no markup, so it may stand in a page unescaped.\<close>

theorem fixed_texts_are_plain: "list_all plain_text fixed_texts"
  by (simp add: fixed_texts_def plain_text_def plain_string_def by_locale_def
  login_title_def email_label_def password_label_def login_button_def register_link_prompt_def
  register_link_text_def invalid_credentials_text_def register_title_def register_button_def
  login_link_prompt_def login_link_text_def error_invalid_email_def error_invalid_domain_def
  error_email_taken_def dashboard_title_def compose_button_def compose_from_def compose_to_def
  compose_subject_def compose_body_def compose_attachments_def compose_send_def compose_sending_def
  logout_button_def stats_aliases_def stats_domains_def stats_emails_def manage_aliases_def manage_domains_def
  table_sender_def table_subject_def table_received_def table_forwarded_def table_header_to_def
  table_header_outbound_status_def table_header_outbound_sent_def table_header_outbound_updated_def
  table_actions_def no_emails_def recent_emails_title_def sent_emails_title_def draft_emails_title_def
  folder_inbox_def folder_sent_def folder_drafts_def folder_favorites_def favorite_emails_title_def
  mark_unread_button_def batch_mark_unread_button_def favorite_button_def unfavorite_button_def
  search_placeholder_def pagination_previous_def pagination_next_def from_all_aliases_label_def
  filter_all_aliases_def site_title_def site_description_def replies_title_def reply_form_title_def
  reply_placeholder_def send_reply_button_def you_replied_def reply_attachments_label_def
  reply_empty_body_error_def api_keys_title_def api_keys_subtitle_def api_key_success_def
  api_key_copy_warning_def create_key_title_def key_name_label_def key_name_placeholder_def
  generate_key_button_def revoke_button_def revoke_confirm_def no_keys_found_def modal_cancel_def
  modal_delete_confirm_def delete_alias_title_def delete_email_title_def error_alias_taken_def
  error_alias_reserved_def error_alias_invalid_format_def email_detail_title_def back_to_dashboard_def
  delete_email_button_def from_label_def to_label_def date_label_def forwarded_label_def
  alias_address_header_def destination_header_def auto_forward_header_def create_alias_form_title_def
  select_domain_label_def choose_subdomain_label_def custom_subdomain_label_def auto_forward_checkbox_label_def
  create_alias_button_def copy_tooltip_def view_button_def delete_button_def status_enabled_def
  status_disabled_def status_yes_def status_no_def batch_delete_button_def batch_delete_modal_title_def
  admin_panel_title_def user_management_title_def admin_total_users_def admin_table_user_def
  admin_table_registered_def admin_table_aliases_def admin_table_emails_def admin_table_last_login_ip_def
  admin_table_last_login_at_def admin_table_bypass_limit_def admin_table_disable_autoclean_def
  admin_table_outbound_email_def admin_bypass_limit_tooltip_def admin_disable_autoclean_tooltip_def
  admin_outbound_email_tooltip_def admin_badge_admin_def admin_never_def load_remote_content_def
  toast_email_sent_success_def toast_email_send_failed_def toast_invalid_email_def toast_empty_subject_def
  toast_alias_unauthorized_def dkim_no_key_warning_def dkim_no_key_desc_def dkim_generate_button_def
  dkim_pending_title_def dkim_rotation_active_badge_def dkim_pending_desc_def dkim_active_title_def
  dkim_active_desc_def dkim_rotate_button_def dkim_rotate_confirm_def dkim_type_label_def dkim_host_label_def
  dkim_value_label_def dkim_copy_button_def dkim_ttl_notice_def dkim_verify_button_def dkim_cancel_button_def
  dkim_cancel_confirm_def manage_filters_and_labels_def filter_all_labels_def labels_modal_title_def
  tab_filter_rules_def tab_manage_labels_def create_filter_rule_title_def filter_body_contains_label_def
  filter_body_contains_placeholder_def filter_apply_label_def filter_select_label_placeholder_def
  filter_submit_button_def filter_active_rules_title_def filter_no_rules_def create_label_title_def
  label_name_label_def label_name_placeholder_def label_color_label_def label_submit_button_def
  label_your_labels_title_def label_no_labels_def delete_filter_button_def delete_label_button_def
  add_label_to_email_def remove_label_from_email_text_def error_label_name_required_def
  error_filter_keyword_required_def filter_apply_to_existing_label_def filter_apply_to_existing_tooltip_def)

end
