(* ===== verification/Web_Dialogs.thy ===== *)
theory Web_Dialogs
  imports Web_Messages Web_Mail_Guarantees
begin

text \<open>
  The dialogs that ask before something is deleted: the three confirmation handlers of \<open>src/src/web/handlers.rs\<close> and
  \<open>src/src/web/dashboard.rs\<close>.  \<open>src/templates/modal.html\<close> prints their message as it is (\<open>message|safe\<close>), so
  what stands in it is markup; the other parts of the dialog are escaped by the template.
\<close>

section \<open>The dialogs\<close>

definition batch_delete_emails_confirm_handler :: "locale_tag \<Rightarrow> uuid list \<Rightarrow> modal_template option" where
  "batch_delete_emails_confirm_handler l email_ids =
     (if email_ids = [] then None
      else Some \<lparr>mt_title = batch_delete_modal_title l,
        mt_message = batch_delete_modal_message (length email_ids) l,
        mt_action_label = modal_delete_confirm l, mt_cancel_label = modal_cancel l,
        mt_action_url = ''/emails/batch-delete'', mt_action_method = ''post'', mt_action_color = ''danger'',
        mt_target = ''body'', mt_swap = ''outerHTML'', mt_include_target = Some ''#batch-delete-form''\<rparr>)"

definition delete_email_confirm_handler ::
  "(string \<Rightarrow> string) \<Rightarrow> locale_tag \<Rightarrow> authenticated_user \<Rightarrow> (string \<Rightarrow> string option) \<Rightarrow> uuid \<Rightarrow> db
   \<Rightarrow> (nat \<times> string + modal_template) \<times> db" where
  "delete_email_confirm_handler clean l user params email_id d =
     (case get_any_email email_id (au_user_id user) d of
        (Inl _, d) \<Rightarrow> (Err (500, ''Database error''), d)
      | (Inr None, d) \<Rightarrow> (Err (404, ''Email not found''), d)
      | (Inr (Some email), d) \<Rightarrow>
         (Ok \<lparr>mt_title = delete_email_title l, mt_message = delete_email_message clean (any_subject email) l,
            mt_action_label = modal_delete_confirm l, mt_cancel_label = modal_cancel l,
            mt_action_url = ''/emails/'' @ email_id @ (if params ''redirect'' = Some ''true'' then ''?redirect=true'' else []),
            mt_action_method = ''delete'', mt_action_color = ''danger'',
            mt_target = unwrap_or (''#email-'' @ email_id) (params ''target''),
            mt_swap = unwrap_or ''outerHTML'' (params ''swap''), mt_include_target = None\<rparr>, d))"

definition delete_alias_confirm_handler ::
  "(string \<Rightarrow> string) \<Rightarrow> locale_tag \<Rightarrow> authenticated_user \<Rightarrow> uuid \<Rightarrow> db \<Rightarrow> (nat \<times> string + modal_template) \<times> db" where
  "delete_alias_confirm_handler clean l user alias_id d =
     (case or_default [] (get_aliases_by_user_id (au_user_id user)) d of (aliases, d) \<Rightarrow>
      case find (\<lambda>a. av_id a = alias_id) aliases of
        None \<Rightarrow> (Err (404, ''Alias not found''), d)
      | Some alias \<Rightarrow> (Ok \<lparr>mt_title = delete_alias_title l,
          mt_message = delete_alias_message clean (av_subdomain alias @ ''@'' @ av_domain_name alias) l,
          mt_action_label = modal_delete_confirm l, mt_cancel_label = modal_cancel l,
          mt_action_url = ''/aliases/'' @ alias_id, mt_action_method = ''delete'', mt_action_color = ''danger'',
          mt_target = ''#alias-'' @ alias_id, mt_swap = ''outerHTML'', mt_include_target = None\<rparr>, d))"

section \<open>The tags of a text\<close>

function tags_of :: "string \<Rightarrow> string list" where
  "tags_of [] = []"
| "tags_of (c # cs) =
     (if c = CHR ''<'' then takeWhile (\<lambda>x. x \<noteq> CHR ''>'') cs # tags_of (dropWhile (\<lambda>x. x \<noteq> CHR ''>'') cs)
      else tags_of cs)"
  by pat_completeness auto
termination by (relation "measure length") (auto simp: le_imp_less_Suc length_dropWhile_le)

lemma tags_of_plain [simp]: "CHR ''<'' \<notin> set s \<Longrightarrow> tags_of (s @ t) = tags_of t"
  by (induction s) auto

lemma tags_of_plain_only: "CHR ''<'' \<notin> set s \<Longrightarrow> tags_of s = []"
  using tags_of_plain [of s "[]"] by simp

lemma digits_are_plain [simp]: "CHR ''<'' \<notin> set (show_nat n)"
  using show_nat_digits [of "CHR ''<''" n] by (auto simp: is_digit_def code_point_def)

text \<open>What the documentation of \<open>clean_text\<close> says of the escaper, as far as it matters here.\<close>

definition cleans :: "(string \<Rightarrow> string) \<Rightarrow> bool" where
  "cleans clean \<longleftrightarrow> (\<forall>s. CHR ''<'' \<notin> set (clean s))"

lemma email_message_tags: "cleans clean \<Longrightarrow> tags_of (delete_email_message clean s l) = [''strong'', ''/strong'']"
  by (cases l) (simp_all add: delete_email_message_def by_locale_def cleans_def)

lemma alias_message_tags:
  "cleans clean \<Longrightarrow> tags_of (delete_alias_message clean s l) = [''strong'', ''/strong'', ''br'', ''br'']"
  by (cases l) (simp_all add: delete_alias_message_def by_locale_def cleans_def)

lemma batch_message_tags: "tags_of (batch_delete_modal_message n l) = [''strong'', ''/strong'']"
  by (cases l) (simp_all add: batch_delete_modal_message_def by_locale_def)


section \<open>What a dialog shows\<close>

text \<open>C38: Whatever the sender of a mail wrote as its subject, and whatever the name of an alias, the dialog that asks
  before a deletion shows exactly the markup of its own text: the emphasis, and for an alias the two line breaks.\<close>

theorem dialogs_keep_their_markup:
  assumes "cleans clean"
  shows "(case fst (delete_email_confirm_handler clean l user params i d) of
            Inr m \<Rightarrow> tags_of (mt_message m) = [''strong'', ''/strong''] | Inl e \<Rightarrow> fst e = 404 \<or> fst e = 500)
       \<and> (case fst (delete_alias_confirm_handler clean l user j d) of
            Inr m \<Rightarrow> tags_of (mt_message m) = [''strong'', ''/strong'', ''br'', ''br''] | Inl e \<Rightarrow> fst e = 404)
       \<and> (case batch_delete_emails_confirm_handler l ks of
            Some m \<Rightarrow> tags_of (mt_message m) = [''strong'', ''/strong''] | None \<Rightarrow> ks = [])"
  by (auto simp: delete_email_confirm_handler_def delete_alias_confirm_handler_def batch_delete_emails_confirm_handler_def
        email_message_tags [OF assms] alias_message_tags [OF assms] batch_message_tags
      split: prod.splits sum.splits option.splits)

text \<open>An escaper to see it with, and a mail whose subject carries a script.\<close>

definition escape_all :: "string \<Rightarrow> string" where
  "escape_all s = concat (map (\<lambda>c. if c = CHR ''<'' then ''&lt;'' else if c = CHR ''>'' then ''&gt;'' else [c]) s)"

lemma escape_all_cleans: "cleans escape_all"
  by (auto simp: cleans_def escape_all_def split: if_splits)

definition scripted_db :: db where
  "scripted_db = (sample_db Sqlite)\<lparr>t_sent := [new_sent ''s1'' 9 ''u1'' ''a1'' ''bob@y.org'' ''<script>x</script>'' ''k7'' Draft None None]\<rparr>"

theorem dialogs_keep_their_markup_witness:
  "(case fst (delete_email_confirm_handler escape_all En (reader ''u1'') (\<lambda>_. None) ''s1'' scripted_db) of
      Inr m \<Rightarrow> mt_message m = ''Are you sure you want to delete the email with subject: <strong>&lt;script&gt;x&lt;/script&gt;</strong>?''
        \<and> tags_of (mt_message m) = [''strong'', ''/strong'']
    | Inl e \<Rightarrow> False)"
proof -
  have got: "get_any_email ''s1'' ''u1'' scripted_db = (Inr (Some (AnySent
      \<lparr>sv_row = new_sent ''s1'' 9 ''u1'' ''a1'' ''bob@y.org'' ''<script>x</script>'' ''k7'' Draft None None, sv_alias_address = ''shop@x.org''\<rparr>)), scripted_db)"
    by (simp add: get_any_email_def get_email_by_id_def get_sent_email_by_id_and_user_def db_bind_def no_fault_simps db_return_def
        scripted_db_def sample_defs received_views_def views_of_def alias_domains_def view_email_def sent_views_def new_sent_def address_of_def)
  have "case fst (delete_email_confirm_handler escape_all En (reader ''u1'') (\<lambda>_. None) ''s1'' scripted_db) of
      Inr m \<Rightarrow> mt_message m = ''Are you sure you want to delete the email with subject: <strong>&lt;script&gt;x&lt;/script&gt;</strong>?''
    | Inl e \<Rightarrow> False"
    by (simp add: delete_email_confirm_handler_def reader_def got any_subject_def new_sent_def delete_email_message_def by_locale_def
        escape_all_def)
  with dialogs_keep_their_markup [OF escape_all_cleans, of En "reader ''u1''" "\<lambda>_. None" "''s1''" scripted_db undefined "[]"]
  show ?thesis by (auto split: sum.splits)
qed

end
