(* ===== verification/Server.thy ===== *)
theory Server
  imports Web_Send Smtp_Session Db_Mail
begin

text \<open>
  Start and upkeep of the server: configuration and start-up (\<open>src/src/server.rs\<close>, \<open>config.rs\<close>), the opening of
  the database (\<open>init_pool\<close>, \<open>run_migrations\<close> of \<open>db/mod.rs\<close>), the certificate that is reloaded when its file
  changes (\<open>inbound/acceptor.rs\<close>), the paths of \<open>web/autotls.rs\<close>, and the daily clean-up of old mail.

  Arguments are the environment, the drivers of the databases, the PEM reader and the certificate check of
  \<open>rustls\<close>, the hash of a cached certificate's name, and the reader of socket addresses.  A panic is a value.
\<close>

section \<open>Configuration\<close>

definition missing_envs :: "string \<Rightarrow> string \<Rightarrow> string \<Rightarrow> string list" where
  "missing_envs database_url srs_secret prod_domain =
     (if trim database_url = [] then [''DATABASE_URL''] else []) @
     (if trim srs_secret = [] then [''SRS_SECRET''] else []) @
     (if trim prod_domain = [] then [''PROD_DOMAIN (web portal domain, e.g., example.com)''] else [])"

definition validate_required_startup_env :: "string \<Rightarrow> string \<Rightarrow> string \<Rightarrow> string + unit" where
  "validate_required_startup_env database_url srs_secret prod_domain =
     (let missing = missing_envs database_url srs_secret prod_domain
      in if missing \<noteq> []
         then Err (''Configuration error: missing required environment variables: '' @ join_with '', '' missing @
           ''. Set these in your environment or .env file.'')
         else Ok ())"

text \<open>\<open>str::parse\<close> for a signed number of 64 bits and for a port.\<close>

definition parse_i64 :: "string \<Rightarrow> int option" where
  "parse_i64 s = (case s of
     c # cs \<Rightarrow>
       if c = CHR ''-''
       then (case cs of
           d # _ \<Rightarrow> if d = CHR ''+'' then None else map_option (\<lambda>n. - int n) (parse_uint (2 ^ 63 + 1) cs)
         | [] \<Rightarrow> None)
       else map_option int (parse_uint (2 ^ 63) s)
   | [] \<Rightarrow> None)"

definition parse_u16 :: "string \<Rightarrow> nat option" where
  "parse_u16 = parse_uint (2 ^ 16)"

record auto_tls_config =
  at_domain :: string
  at_email :: string
  at_cache_dir :: string
  at_acme_directory :: string
  at_http_port :: nat
  at_https_port :: nat

type_synonym environment = "string \<Rightarrow> string option"

abbreviation lets_encrypt :: string where
  "lets_encrypt \<equiv> ''https://acme-v02.api.letsencrypt.org/directory''"

definition auto_tls_enabled :: "environment \<Rightarrow> bool" where
  "auto_tls_enabled env = (get_config env ''AUTO_TLS'' ''false'' = ''true'')"

definition auto_tls_of :: "environment \<Rightarrow> string \<Rightarrow> auto_tls_config option" where
  "auto_tls_of env prod_domain =
     (if auto_tls_enabled env
      then Some \<lparr>at_domain = prod_domain, at_email = get_config env ''ACME_EMAIL'' [],
        at_cache_dir = get_config env ''ACME_CACHE_DIR'' ''./storage/certs/acme'',
        at_acme_directory = get_config env ''ACME_DIRECTORY'' lets_encrypt,
        at_http_port = unwrap_or 80 (parse_u16 (get_config env ''AUTO_TLS_HTTP_PORT'' ''80'')),
        at_https_port = unwrap_or 443 (parse_u16 (get_config env ''AUTO_TLS_HTTPS_PORT'' ''443''))\<rparr>
      else None)"

definition email_retention_days :: "environment \<Rightarrow> int" where
  "email_retention_days env = unwrap_or 30 (parse_i64 (get_config env ''EMAIL_RETENTION_DAYS'' ''30''))"

record admin_config =
  ac_email :: string
  ac_password :: string

definition admin_config_from_env :: "environment \<Rightarrow> admin_config" where
  "admin_config_from_env env =
     \<lparr>ac_email = get_config env ''ADMIN_EMAIL'' [], ac_password = get_config env ''ADMIN_PASSWORD'' []\<rparr>"

text \<open>The file in which \<open>rustls-acme\<close> keeps a certificate: named by the hash of the domain, a null and the directory.\<close>

definition resolve_acme_cert_path :: "(string \<Rightarrow> string) \<Rightarrow> string \<Rightarrow> string \<Rightarrow> string \<Rightarrow> string" where
  "resolve_acme_cert_path url_safe_sha256 cache_dir domain acme_directory =
     cache_dir @ ''/cached_cert_'' @ url_safe_sha256 (domain @ [CHR 0x00] @ acme_directory)"

definition cert_paths :: "(string \<Rightarrow> string) \<Rightarrow> environment \<Rightarrow> string \<Rightarrow> string \<times> string" where
  "cert_paths url_safe_sha256 env prod_domain =
     (if auto_tls_enabled env
      then (let path = resolve_acme_cert_path url_safe_sha256 (get_config env ''ACME_CACHE_DIR'' ''./storage/certs/acme'')
              prod_domain (get_config env ''ACME_DIRECTORY'' lets_encrypt)
            in (path, path))
      else (let certs_path = get_config env ''CERTS_PATH'' ''.''
            in (certs_path @ ''/smtp_cert.pem'', certs_path @ ''/smtp_key.pem'')))"

text \<open>Where plain HTTP is sent to: the query of the address is not part of \<open>uri.path()\<close>.\<close>

definition redirect_url :: "auto_tls_config \<Rightarrow> string \<Rightarrow> string" where
  "redirect_url auto_tls path =
     (if at_https_port auto_tls = 443 then ''https://'' @ at_domain auto_tls @ path
      else ''https://'' @ at_domain auto_tls @ '':'' @ show_nat (at_https_port auto_tls) @ path)"

section \<open>The certificate\<close>

text \<open>What the disk holds at a path: whether it opens, when it was written, and its bytes.\<close>

record cert_entry =
  ce_opens :: bool
  ce_modified :: "time option"
  ce_bytes :: string

type_synonym cert_disk = "string \<Rightarrow> cert_entry option"

record 'c tls_env =
  te_certs :: "string \<Rightarrow> string + string list"
  te_private_key :: "string \<Rightarrow> string + string option"
  te_single_cert :: "string list \<Rightarrow> string \<Rightarrow> string + 'c"

definition load_config :: "'c tls_env \<Rightarrow> string \<Rightarrow> string \<Rightarrow> cert_disk \<Rightarrow> string + 'c option" where
  "load_config te cert_path key_path disk =
     (case (disk cert_path, disk key_path) of
        (Some cert_file, Some key_file) \<Rightarrow>
          if \<not> ce_opens cert_file \<or> \<not> ce_opens key_file then Ok None
          else rbind (te_certs te (ce_bytes cert_file)) (\<lambda>certs.
            rbind (te_private_key te (ce_bytes key_file)) (\<lambda>key.
              case key of
                None \<Rightarrow> Err ''No private key found''
              | Some k \<Rightarrow> rbind (te_single_cert te certs k) (\<lambda>config. Ok (Some config))))
      | _ \<Rightarrow> Ok None)"

text \<open>The watcher is a task of its own: until it has run, it has seen no time of the certificate.\<close>

record 'c acceptor =
  hr_config :: "'c option"
  hr_cert_path :: string
  hr_key_path :: string
  hr_last_modified :: "time option"

definition acceptor_new :: "'c tls_env \<Rightarrow> string \<Rightarrow> string \<Rightarrow> cert_disk \<Rightarrow> string + 'c acceptor" where
  "acceptor_new te cert_path key_path disk =
     rbind (load_config te cert_path key_path disk) (\<lambda>initial_config.
       Ok \<lparr>hr_config = initial_config, hr_cert_path = cert_path, hr_key_path = key_path, hr_last_modified = None\<rparr>)"

definition modified_of :: "cert_disk \<Rightarrow> string \<Rightarrow> time option" where
  "modified_of disk path = Option.bind (disk path) ce_modified"

abbreviation unix_epoch :: time where "unix_epoch \<equiv> 0"

definition watcher_start :: "cert_disk \<Rightarrow> 'c acceptor \<Rightarrow> 'c acceptor" where
  "watcher_start disk a = a\<lparr>hr_last_modified := Some (unwrap_or unix_epoch (modified_of disk (hr_cert_path a)))\<rparr>"

text \<open>One turn of the loop; the disk may change between the look at the time and the reading of the files.\<close>

definition watcher_tick :: "'c tls_env \<Rightarrow> cert_disk \<times> cert_disk \<Rightarrow> 'c acceptor \<Rightarrow> 'c acceptor" where
  "watcher_tick te disks a =
     (case (hr_last_modified a, modified_of (fst disks) (hr_cert_path a)) of
        (Some last_modified, Some modified) \<Rightarrow>
          if modified > last_modified \<or> last_modified = unix_epoch
          then (let a = a\<lparr>hr_last_modified := Some modified\<rparr>
                in case load_config te (hr_cert_path a) (hr_key_path a) (snd disks) of
                     Inr (Some new_config) \<Rightarrow> a\<lparr>hr_config := Some new_config\<rparr>
                   | _ \<Rightarrow> a)
          else a
      | _ \<Rightarrow> a)"

definition watch :: "'c tls_env \<Rightarrow> (cert_disk \<times> cert_disk) list \<Rightarrow> 'c acceptor \<Rightarrow> 'c acceptor" where
  "watch te ticks a = fold (watcher_tick te) ticks a"

definition acceptor_accept :: "('c \<Rightarrow> io_error + 's) \<Rightarrow> 'c acceptor \<Rightarrow> io_error + 's" where
  "acceptor_accept handshake a = (case hr_config a of Some config \<Rightarrow> handshake config | None \<Rightarrow> Err NotConnected)"

text \<open>What the SMTP sessions see of it.\<close>

definition tls_setup_of :: "'c acceptor option \<Rightarrow> tls_setup" where
  "tls_setup_of tls_acceptor = (case tls_acceptor of
     None \<Rightarrow> NoAcceptor
   | Some a \<Rightarrow> if hr_config a = None then NoCertificate else Certificate)"

section \<open>The database\<close>

record db_drivers =
  dd_sqlite :: "string \<Rightarrow> sqlx_error + db"
  dd_postgres :: "string \<Rightarrow> sqlx_error + db"
  dd_migrate_sqlite :: "db \<Rightarrow> string + db"
  dd_migrate_postgres :: "db \<Rightarrow> string + db"

definition init_pool :: "db_drivers \<Rightarrow> string \<Rightarrow> sqlx_error + db" where
  "init_pool dd database_url =
     (if starts_with ''sqlite:'' database_url then dd_sqlite dd database_url else dd_postgres dd database_url)"

definition run_migrations :: "db_drivers \<Rightarrow> environment \<Rightarrow> db \<Rightarrow> string + db" where
  "run_migrations dd env d =
     (if unwrap_or [] (env ''SKIP_MIGRATIONS'') = ''true'' then Ok d
      else (case backend d of Postgres \<Rightarrow> dd_migrate_postgres dd d | Sqlite \<Rightarrow> dd_migrate_sqlite dd d))"

section \<open>Start-up\<close>

record 'c boot_env =
  be_environment :: environment
  be_disk :: cert_disk
  be_tls :: "'c tls_env"
  be_url_safe_sha256 :: "string \<Rightarrow> string"
  be_drivers :: db_drivers
  be_hash_password :: "string \<Rightarrow> string + string"
  be_resolver_ok :: bool
  be_root_certs_ok :: bool

datatype boot_error =
    BootConfig string | BootTls string | BootIo io_error | BootDb sqlx_error | BootMigration string
  | BootAdmin seed_error | BootPanic string

record 'c maileroo_server =
  ml_smtp_addr :: string
  ml_web_addr :: string
  ml_auto_tls :: "auto_tls_config option"
  ml_tls_acceptor :: "'c acceptor option"
  ml_storage_dir :: string
  ml_srs_secret :: string
  ml_identity_domain :: string
  ml_retention_days :: int

definition boot_acceptor :: "'c boot_env \<Rightarrow> string \<Rightarrow> boot_error + 'c acceptor option" where
  "boot_acceptor be prod_domain =
     (case cert_paths (be_url_safe_sha256 be) (be_environment be) prod_domain of
        (cert_path, key_path) \<Rightarrow>
          if be_disk be cert_path \<noteq> None \<and> be_disk be key_path \<noteq> None \<or> auto_tls_enabled (be_environment be)
          then (case acceptor_new (be_tls be) cert_path key_path (be_disk be) of
              Inl e \<Rightarrow> Err (BootTls e)
            | Inr a \<Rightarrow> Ok (Some a))
          else Ok None)"

definition path_exists :: "string \<Rightarrow> fs \<Rightarrow> bool" where
  "path_exists path \<sigma> = (dirs \<sigma> path \<noteq> None \<or> files \<sigma> path \<noteq> None)"

definition boot_storage :: "string \<Rightarrow> sys \<Rightarrow> (io_error + unit) \<times> sys" where
  "boot_storage storage_dir s =
     (if path_exists storage_dir (sy_fs s) then (Ok (), s)
      else on_fs (create_dir_all_sync_with_permissions storage_dir) s)"

text \<open>From the database on: connect, migrate, and make sure of the administrator.\<close>

definition boot_database :: "'c boot_env \<Rightarrow> string \<Rightarrow> sys \<Rightarrow> (boot_error + unit) \<times> sys" where
  "boot_database be database_url s =
     (case init_pool (be_drivers be) database_url of
        Inl e \<Rightarrow> (Err (BootDb e), s)
      | Inr d \<Rightarrow> (case run_migrations (be_drivers be) (be_environment be) d of
          Inl e \<Rightarrow> (Err (BootMigration e), s)
        | Inr d \<Rightarrow>
           (let admin = admin_config_from_env (be_environment be)
            in case fresh_uuid (s\<lparr>sy_db := d\<rparr>) of (u, s) \<Rightarrow>
              (case seed_admin_on_startup (be_hash_password be) u (sy_now s) (ac_email admin) (ac_password admin) (sy_db s) of
                 (Inl e, d) \<Rightarrow> (Err (BootAdmin e), s\<lparr>sy_db := d\<rparr>)
               | (Inr _, d) \<Rightarrow> (Ok (), s\<lparr>sy_db := d\<rparr>)))))"

definition bootstrap :: "'c boot_env \<Rightarrow> sys \<Rightarrow> (boot_error + 'c maileroo_server) \<times> sys" where
  "bootstrap be s =
     (let env = be_environment be;
          database_url = get_config env ''DATABASE_URL'' [];
          srs_secret = get_config env ''SRS_SECRET'' [];
          prod_domain = get_config env ''PROD_DOMAIN'' [];
          storage_dir = get_config env ''STORAGE_DIR'' ''./storage/emails''
      in case validate_required_startup_env database_url srs_secret prod_domain of
           Inl msg \<Rightarrow> (Err (BootConfig msg), s)
         | Inr _ \<Rightarrow> (case boot_acceptor be prod_domain of
             Inl e \<Rightarrow> (Err e, s)
           | Inr tls_acceptor \<Rightarrow>
              if \<not> be_resolver_ok be then (Err (BootPanic ''Failed to build resolver''), s)
              else (case boot_storage storage_dir s of
                (Inl e, s) \<Rightarrow> (Err (BootIo e), s)
              | (Inr _, s) \<Rightarrow> (case boot_database be database_url s of
                  (Inl e, s) \<Rightarrow> (Err e, s)
                | (Inr _, s) \<Rightarrow>
                   if \<not> be_root_certs_ok be then (Err (BootPanic ''could not load platform certs''), s)
                   else (Ok \<lparr>ml_smtp_addr = get_config env ''SMTP_ADDR'' ''0.0.0.0:2525'',
                     ml_web_addr = get_config env ''WEB_ADDR'' ''0.0.0.0:3000'', ml_auto_tls = auto_tls_of env prod_domain,
                     ml_tls_acceptor = tls_acceptor, ml_storage_dir = storage_dir, ml_srs_secret = srs_secret,
                     ml_identity_domain = prod_domain, ml_retention_days = email_retention_days env\<rparr>, s)))))"

text \<open>How the web server is served; the configuration is taken once.\<close>

datatype 'c web_mode =
    ServeAutoTls auto_tls_config | ServeHttps 'c | ServeHttp | ServePanic string | ServeBadAddress

definition web_mode_of :: "(string \<Rightarrow> bool) \<Rightarrow> 'c maileroo_server \<Rightarrow> 'c acceptor option \<Rightarrow> 'c web_mode" where
  "web_mode_of socket_addr_ok srv tls_acceptor =
     (case ml_auto_tls srv of
        Some auto_tls \<Rightarrow> ServeAutoTls auto_tls
      | None \<Rightarrow> (case tls_acceptor of
          Some acceptor \<Rightarrow> (case hr_config acceptor of
              None \<Rightarrow> ServePanic ''Manual TLS mode requires active certificates on boot''
            | Some config \<Rightarrow> if socket_addr_ok (ml_web_addr srv) then ServeHttps config else ServeBadAddress)
        | None \<Rightarrow> ServeHttp))"

section \<open>The daily clean-up\<close>

text \<open>The file is looked for under the bare key.\<close>

definition remove_old_body :: "string \<Rightarrow> uuid \<Rightarrow> sys \<Rightarrow> sys" where
  "remove_old_body storage_dir key s = run_removal (draft_path storage_dir key) s"

definition cleanup_tick :: "int \<Rightarrow> string \<Rightarrow> sys \<Rightarrow> sys" where
  "cleanup_tick retention_days storage_dir s =
     (if retention_days \<le> 0 then s
      else (case on_db (delete_old_emails (sy_now s) retention_days) s of
          (Inr body_keys, s) \<Rightarrow> fold (remove_old_body storage_dir) body_keys s
        | (Inl _, s) \<Rightarrow> s))"


section \<open>The watched certificate\<close>

lemma tick_paths [simp]:
  "hr_cert_path (watcher_tick te disks a) = hr_cert_path a" "hr_key_path (watcher_tick te disks a) = hr_key_path a"
  by (simp_all add: watcher_tick_def Let_def split: option.split sum.split)

lemma watch_simps [simp]: "watch te [] a = a" "watch te (disks # ticks) a = watch te ticks (watcher_tick te disks a)"
  by (simp_all add: watch_def)

lemma tick_config:
  "hr_config (watcher_tick te disks a) = hr_config a \<or>
   (\<exists>c. load_config te (hr_cert_path a) (hr_key_path a) (snd disks) = Ok (Some c) \<and> hr_config (watcher_tick te disks a) = Some c)"
  by (auto simp: watcher_tick_def Let_def split: option.splits sum.splits)

text \<open>A served certificate stays served. Whatever the disk goes through while the watcher looks at it, missing,
  unreadable or broken files included, a certificate that is served is only ever replaced by another one that was
  complete on disk, with its key, when the files were read.\<close>
theorem certificate_stays_served:
  "case hr_config (watch te ticks a) of
     None \<Rightarrow> hr_config a = None
   | Some c \<Rightarrow> hr_config a = Some c \<or>
       list_ex (\<lambda>disks. load_config te (hr_cert_path a) (hr_key_path a) (snd disks) = Ok (Some c)) ticks"
proof (induction ticks arbitrary: a)
  case Nil
  show ?case by (simp split: option.split)
next
  case (Cons disks ticks)
  from Cons.IH [of "watcher_tick te disks a"] tick_config [of te disks a] show ?case
    by (auto split: option.splits)
qed

lemma settled_watch:
  assumes "hr_last_modified a = Some m" "m \<noteq> unix_epoch"
    and "list_all (\<lambda>disks. modified_of (fst disks) (hr_cert_path a) = Some m) ticks"
  shows "watch te ticks a = a"
  using assms(3)
proof (induction ticks)
  case (Cons disks ticks)
  then have "watcher_tick te disks a = a" using assms(1,2) by (simp add: watcher_tick_def)
  with Cons show ?case by simp
qed simp

text \<open>A renewal counts only as it stands when the watcher notices it. Once a newer certificate is noticed, the
  pair of files found then is served if it is complete; if it is not, the old certificate stays for as long as the
  certificate file keeps its time, also when the matching key is written a moment later.\<close>
theorem renewal_counts_when_noticed:
  assumes seen: "hr_last_modified a = Some m0"
    and newer: "modified_of (fst noticed) (hr_cert_path a) = Some m" "m0 < m" "m \<noteq> unix_epoch"
    and later: "list_all (\<lambda>disks. modified_of (fst disks) (hr_cert_path a) = Some m) ticks"
  shows "hr_config (watch te (noticed # ticks) a) =
    (case load_config te (hr_cert_path a) (hr_key_path a) (snd noticed) of Inr (Some c) \<Rightarrow> Some c | _ \<Rightarrow> hr_config a)"
proof -
  have m: "hr_last_modified (watcher_tick te noticed a) = Some m"
    and c: "hr_config (watcher_tick te noticed a) =
      (case load_config te (hr_cert_path a) (hr_key_path a) (snd noticed) of Inr (Some c) \<Rightarrow> Some c | _ \<Rightarrow> hr_config a)"
    using seen newer by (simp_all add: watcher_tick_def Let_def split: option.split sum.split)
  have "watch te ticks (watcher_tick te noticed a) = watcher_tick te noticed a"
    by (rule settled_watch [OF m newer(3)]) (use later in simp)
  with c show ?thesis by simp
qed

section \<open>Start-up\<close>

lemma make_dirs_exist:
  "make_dirs mode ps \<sigma> = (Ok u, \<sigma>') \<Longrightarrow> list_all (\<lambda>p. dirs \<sigma>' p \<noteq> None) ps \<and> (\<forall>p. dirs \<sigma> p \<noteq> None \<longrightarrow> dirs \<sigma>' p \<noteq> None)"
proof (induction ps arbitrary: \<sigma>)
  case Nil
  then show ?case by (simp add: io_return_def)
next
  case (Cons p ps)
  show ?case
  proof (cases "dirs \<sigma> p")
    case None
    with Cons.prems obtain \<tau> where \<tau>: "make_dirs mode ps \<tau> = (Ok u, \<sigma>')" "dirs \<tau> = (dirs \<sigma>)(p := Some mode)"
      by (auto simp: io_bind_def syscall_def next_fault_def split: list.splits bool.splits if_splits)
    from Cons.IH [OF \<tau>(1)] \<tau>(2) show ?thesis by (auto split: if_splits)
  next
    case (Some x)
    with Cons show ?thesis by auto
  qed
qed

lemma boot_storage_exists: "boot_storage path s = (Ok u, s') \<Longrightarrow> path_exists path (sy_fs s')"
  by (auto simp: boot_storage_def on_fs_def create_dir_all_sync_with_permissions_def path_exists_def
      dest!: make_dirs_exist split: if_splits prod.splits)

lemma boot_storage_db: "boot_storage path s = (r, s') \<Longrightarrow> sy_db s' = sy_db s"
  by (auto simp: boot_storage_def on_fs_def split: if_splits prod.splits)

lemma stmt_OkD: "stmt f d = (Ok a, d') \<Longrightarrow> \<exists>fs. f (d\<lparr>db_faults := fs\<rparr>) = Inr (a, d')"
  by (auto simp: stmt_def Let_def split: if_splits sum.splits)

lemma seeded_admin:
  assumes run: "seed_admin_on_startup hash fresh now email pw d = (Ok u, d')"
  shows "8 \<le> length pw" "list_ex (\<lambda>x. us_email x = trim email \<and> us_is_admin x \<and> hash pw = Ok (us_password_hash x)) (t_users d')"
proof -
  from run obtain ph where v: "validate_admin_credentials (trim email) pw = Ok ()" and h: "hash pw = Ok ph"
    and up: "upsert_admin fresh now (trim email) ph d = (Ok (), d')"
    by (auto simp: seed_admin_on_startup_def Let_def split: sum.splits prod.splits)
  from v show "8 \<le> length pw" by (auto simp: validate_admin_credentials_def Let_def split: if_splits)
  have adm: "us_email (as_admin now ph x) = us_email x" "us_is_admin (as_admin now ph x)" "us_password_hash (as_admin now ph x) = ph" for x
    by (simp_all add: as_admin_def)
  let ?u = "as_admin now ph (new_user fresh now (trim email) ph)"
  from up [unfolded upsert_admin_def Let_def] obtain fs where step:
    "(if has us_email (t_users (d\<lparr>db_faults := fs\<rparr>)) (trim email)
      then Inr ((), set_users (\<lambda>u. us_email u = trim email) (as_admin now ph) (d\<lparr>db_faults := fs\<rparr>))
      else (case violation (user_constraints ?u (d\<lparr>db_faults := fs\<rparr>)) of
          Some e \<Rightarrow> Inl e
        | None \<Rightarrow> Inr ((), d\<lparr>db_faults := fs, t_users := t_users (d\<lparr>db_faults := fs\<rparr>) @ [?u]\<rparr>))) = Inr ((), d')"
    by (blast dest: stmt_OkD)
  define d0 where "d0 = d\<lparr>db_faults := fs\<rparr>"
  have d': "if has us_email (t_users d0) (trim email)
      then d' = set_users (\<lambda>u. us_email u = trim email) (as_admin now ph) d0
      else d' = d0\<lparr>t_users := t_users d0 @ [?u]\<rparr>"
    using step unfolding d0_def by (simp split: if_splits option.splits)
  show "list_ex (\<lambda>x. us_email x = trim email \<and> us_is_admin x \<and> hash pw = Ok (us_password_hash x)) (t_users d')"
  proof (cases "has us_email (t_users d0) (trim email)")
    case True
    then obtain x where "x \<in> set (t_users d0)" "us_email x = trim email" by (auto simp: has_def list_ex_iff)
    with True d' adm show ?thesis
      by (auto simp: list_ex_iff set_users_def update_rows_def h intro!: bexI [of _ "as_admin now ph x"] imageI)
  next
    case False
    with d' adm show ?thesis by (simp add: h new_user_def as_admin_def)
  qed
qed

text \<open>A server that starts is ready. The three settings it cannot do without are there, the directory for
  mails exists, and the database knows an administrator by the configured address whose password, of eight
  characters at least, hashes to what is stored.\<close>
theorem started_server_is_ready:
  assumes run: "bootstrap be s = (Ok srv, s')"
  shows "missing_envs (get_config (be_environment be) ''DATABASE_URL'' []) (ml_srs_secret srv) (ml_identity_domain srv) = [] \<and>
    path_exists (ml_storage_dir srv) (sy_fs s') \<and>
    8 \<le> length (ac_password (admin_config_from_env (be_environment be))) \<and>
    list_ex (\<lambda>u. us_email u = trim (ac_email (admin_config_from_env (be_environment be))) \<and> us_is_admin u \<and>
      be_hash_password be (ac_password (admin_config_from_env (be_environment be))) = Ok (us_password_hash u)) (t_users (sy_db s'))"
proof -
  let ?env = "be_environment be"
  let ?admin = "admin_config_from_env ?env"
  from run obtain t where v: "validate_required_startup_env (get_config ?env ''DATABASE_URL'' []) (get_config ?env ''SRS_SECRET'' [])
        (get_config ?env ''PROD_DOMAIN'' []) = Ok ()"
    and dir: "boot_storage (get_config ?env ''STORAGE_DIR'' ''./storage/emails'') s = (Ok (), t)"
    and data: "boot_database be (get_config ?env ''DATABASE_URL'' []) t = (Ok (), s')"
    and srv: "ml_srs_secret srv = get_config ?env ''SRS_SECRET'' []" "ml_identity_domain srv = get_config ?env ''PROD_DOMAIN'' []"
      "ml_storage_dir srv = get_config ?env ''STORAGE_DIR'' ''./storage/emails''"
    by (auto simp: bootstrap_def Let_def split: sum.splits prod.splits if_splits)
  from data obtain d e u t2 where u: "fresh_uuid (t\<lparr>sy_db := d\<rparr>) = (u, t2)"
    and seed: "seed_admin_on_startup (be_hash_password be) u (sy_now t2) (ac_email ?admin) (ac_password ?admin) (sy_db t2) = (Ok (), e)"
    and s': "s' = t2\<lparr>sy_db := e\<rparr>"
    by (auto simp: boot_database_def Let_def split: sum.splits prod.splits)
  have "sy_fs s' = sy_fs t" using u s' by (auto simp: fresh_uuid_def)
  moreover have "missing_envs (get_config ?env ''DATABASE_URL'' []) (get_config ?env ''SRS_SECRET'' []) (get_config ?env ''PROD_DOMAIN'' []) = []"
    using v by (simp add: validate_required_startup_env_def Let_def split: if_splits)
  ultimately show ?thesis using srv boot_storage_exists [OF dir] seeded_admin [OF seed] s' by simp
qed

text \<open>A certificate that cannot be opened stops the web server, not the start. With both files there, but one of
  them not readable for the process, the server starts, its SMTP sessions refuse STARTTLS, and serving the web
  panics.\<close>
theorem unreadable_certificate_panics:
  assumes run: "bootstrap be s = (Ok srv, s')" and plain: "\<not> auto_tls_enabled (be_environment be)"
    and paths: "cert_paths (be_url_safe_sha256 be) (be_environment be) (ml_identity_domain srv) = (cert_path, key_path)"
    and files: "be_disk be cert_path = Some cert_file" "be_disk be key_path = Some key_file"
      "\<not> ce_opens cert_file \<or> \<not> ce_opens key_file"
  shows "tls_setup_of (ml_tls_acceptor srv) = NoCertificate \<and>
    web_mode_of socket_addr_ok srv (ml_tls_acceptor srv) = ServePanic ''Manual TLS mode requires active certificates on boot''"
proof -
  from run have b: "boot_acceptor be (ml_identity_domain srv) = Ok (ml_tls_acceptor srv)"
    and auto: "ml_auto_tls srv = auto_tls_of (be_environment be) (ml_identity_domain srv)"
    by (auto simp: bootstrap_def Let_def split: sum.splits prod.splits if_splits)
  have none: "load_config (be_tls be) cert_path key_path (be_disk be) = Ok None" using files by (simp add: load_config_def)
  with b paths files have "ml_tls_acceptor srv = Some \<lparr>hr_config = None, hr_cert_path = cert_path, hr_key_path = key_path, hr_last_modified = None\<rparr>"
    by (auto simp: boot_acceptor_def acceptor_new_def rbind_def)
  with plain auto show ?thesis by (simp add: tls_setup_of_def web_mode_of_def auto_tls_of_def)
qed

section \<open>The clean-up\<close>

lemma eml_not_draft:
  assumes "\<not> ends_with ''.eml'' key"
  shows "draft_path dir key \<noteq> eml_path dir k"
proof
  assume "draft_path dir key = eml_path dir k"
  then have "key = k @ ''.eml''" by (simp add: draft_path_def eml_path_def)
  with assms show False by (simp add: ends_with_def)
qed

lemma remove_old_body_file: "draft_path dir key \<noteq> p \<Longrightarrow> files (sy_fs (remove_old_body dir key s)) p = files (sy_fs s) p"
  by (auto simp: remove_old_body_def run_removal_def on_fs_def remove_file_def syscall_def next_fault_def
      split: prod.split option.split list.split bool.split)

lemma remove_old_body_db: "sy_db (remove_old_body dir key s) = sy_db s"
  by (simp add: remove_old_body_def run_removal_def on_fs_def split: prod.split)

lemma remove_old_bodies:
  "list_all (\<lambda>k. draft_path dir k \<noteq> p) ks \<Longrightarrow> files (sy_fs (fold (remove_old_body dir) ks s)) p = files (sy_fs s) p"
  "sy_db (fold (remove_old_body dir) ks s) = sy_db s"
  by (induction ks arbitrary: s) (simp_all add: remove_old_body_file remove_old_body_db)

lemma calm_delete_old_emails:
  assumes "db_faults d = []"
  shows "\<exists>keys d'. delete_old_emails now n d = (Ok keys, d')"
proof -
  have "db_faults (x\<lparr>db_faults := fs\<rparr>) = fs" for x :: db and fs by simp
  show ?thesis using assms
    by (cases "backend d") (simp_all add: delete_old_emails_def Let_def query_def exec_def stmt_def db_bind_def db_return_def)
qed

text \<open>C29: The daily clean-up drops the rows of old mails and keeps their messages. The mails left are those that are
  neither expired nor part of a conversation whose first mail is; and whatever the file system does, every stored
  message is still on disk, since the files are looked for without their extension.\<close>
theorem cleanup_keeps_messages:
  assumes kept: "db_wf (sy_db s)" and flat: "flat_threads (sy_db s)" and calm: "db_faults (sy_db s) = []"
    and keys: "list_all (\<lambda>e. \<not> ends_with ''.eml'' (re_body_key e)) (t_emails (sy_db s))" and days: "0 < retention"
  shows "t_emails (sy_db (cleanup_tick retention dir s)) = filter (\<lambda>e. \<not> expired (sy_now s - retention * 86400) (sy_db s) e \<and>
        \<not> root_expired (sy_now s - retention * 86400) (sy_db s) e) (t_emails (sy_db s)) \<and>
    files (sy_fs (cleanup_tick retention dir s)) (eml_path dir key) = files (sy_fs s) (eml_path dir key)"
proof -
  obtain ks d' where run: "delete_old_emails (sy_now s) retention (sy_db s) = (Ok ks, d')"
    using calm_delete_old_emails [OF calm] by blast
  have t: "cleanup_tick retention dir s = fold (remove_old_body dir) ks (s\<lparr>sy_db := d'\<rparr>)"
    using days run by (simp add: cleanup_tick_def on_db_def)
  note out = retention_deletes_and_returns [OF kept flat run]
  have "list_all (\<lambda>k. draft_path dir k \<noteq> eml_path dir key) ks"
    using keys out by (auto simp: list_all_iff dest: eml_not_draft)
  then show ?thesis using out remove_old_bodies(1) [of dir "eml_path dir key" ks "s\<lparr>sy_db := d'\<rparr>"]
    remove_old_bodies(2) [of dir ks "s\<lparr>sy_db := d'\<rparr>"] by (simp add: t)
qed

section \<open>Samples\<close>

definition entry :: "time \<Rightarrow> string \<Rightarrow> cert_entry" where
  "entry modified bytes = \<lparr>ce_opens = True, ce_modified = Some modified, ce_bytes = bytes\<rparr>"

text \<open>A reader for which a certificate goes with the key of the same bytes.\<close>

definition sample_tls :: "string tls_env" where
  "sample_tls = \<lparr>te_certs = (\<lambda>b. Ok [b]), te_private_key = (\<lambda>b. Ok (Some b)),
     te_single_cert = (\<lambda>certs k. if certs = [k] then Ok k else Err ''KeyMismatch'')\<rparr>"

definition pair_disk :: "time \<Rightarrow> string \<Rightarrow> string \<Rightarrow> cert_disk" where
  "pair_disk modified cert key = (\<lambda>_. None)(''c'' := Some (entry modified cert), ''k'' := Some (entry modified key))"

lemma pair_disk_simps: "modified_of (pair_disk m c k) ''c'' = Some m"
    "load_config sample_tls ''c'' ''k'' (pair_disk m c k) = (if c = k then Ok (Some k) else Err ''KeyMismatch'')"
  by (simp_all add: pair_disk_def entry_def modified_of_def load_config_def sample_tls_def rbind_def)

text \<open>The renewed certificate is noticed before its key is written, and the complete pair is never served.\<close>

theorem renewal_counts_when_noticed_witness:
  "hr_config (watch sample_tls [(pair_disk 9 ''new'' ''old'', pair_disk 9 ''new'' ''old''), (pair_disk 9 ''new'' ''new'', pair_disk 9 ''new'' ''new'')]
     \<lparr>hr_config = Some ''old'', hr_cert_path = ''c'', hr_key_path = ''k'', hr_last_modified = Some 5\<rparr>) = Some ''old'' \<and>
   load_config sample_tls ''c'' ''k'' (pair_disk 9 ''new'' ''new'') = Ok (Some ''new'')"
proof -
  let ?a = "\<lparr>hr_config = Some ''old'', hr_cert_path = ''c'', hr_key_path = ''k'', hr_last_modified = Some 5\<rparr>"
  have "hr_last_modified ?a = Some 5" "modified_of (fst (pair_disk 9 ''new'' ''old'', pair_disk 9 ''new'' ''old'')) (hr_cert_path ?a) = Some 9"
    "(5::int) < 9" "(9::int) \<noteq> unix_epoch"
    "list_all (\<lambda>disks. modified_of (fst disks) (hr_cert_path ?a) = Some 9) [(pair_disk 9 ''new'' ''new'', pair_disk 9 ''new'' ''new'')]"
    by (simp_all add: pair_disk_simps)
  from renewal_counts_when_noticed [OF this, of sample_tls] show ?thesis by (simp add: pair_disk_simps)
qed

definition sample_environment :: environment where
  "sample_environment = (\<lambda>_. None)(''DATABASE_URL'' := Some ''sqlite:m'', ''SRS_SECRET'' := Some ''s'', ''PROD_DOMAIN'' := Some ''x.org'',
     ''STORAGE_DIR'' := Some ''/m'', ''SKIP_MIGRATIONS'' := Some ''true'',
     ''ADMIN_EMAIL'' := Some ''root@x.org'', ''ADMIN_PASSWORD'' := Some ''password'')"

definition sample_boot :: "cert_disk \<Rightarrow> string boot_env" where
  "sample_boot disk = \<lparr>be_environment = sample_environment, be_disk = disk, be_tls = sample_tls, be_url_safe_sha256 = (\<lambda>s. s),
     be_drivers = \<lparr>dd_sqlite = (\<lambda>_. Ok (sample_db Sqlite)), dd_postgres = (\<lambda>_. Err ProtocolError),
       dd_migrate_sqlite = Ok, dd_migrate_postgres = Ok\<rparr>,
     be_hash_password = (\<lambda>p. Ok (CHR ''#'' # p)), be_resolver_ok = True, be_root_certs_ok = True\<rparr>"

definition locked_disk :: cert_disk where
  "locked_disk = (\<lambda>_. None)(''./smtp_cert.pem'' := Some (entry 5 ''c''),
     ''./smtp_key.pem'' := Some ((entry 5 ''c'')\<lparr>ce_opens := False\<rparr>))"

definition storage_sys :: sys where
  "storage_sys = sample_sys\<lparr>sy_fs := empty_fs\<lparr>dirs := (\<lambda>_. None)(''/m'' := Some mode_0700)\<rparr>\<rparr>"

lemma sample_config: "get_config sample_environment ''DATABASE_URL'' [] = ''sqlite:m''" "get_config sample_environment ''SRS_SECRET'' [] = ''s''"
    "get_config sample_environment ''PROD_DOMAIN'' [] = ''x.org''" "get_config sample_environment ''STORAGE_DIR'' v = ''/m''"
    "get_config sample_environment ''AUTO_TLS'' ''false'' = ''false''" "get_config sample_environment ''CERTS_PATH'' ''.'' = ''.''"
    "get_config sample_environment ''ADMIN_EMAIL'' [] = ''root@x.org''" "get_config sample_environment ''ADMIN_PASSWORD'' [] = ''password''"
  by (simp_all add: get_config_def sample_environment_def)

lemma sample_boot_simps: "be_environment (sample_boot disk) = sample_environment" "be_resolver_ok (sample_boot disk)"
    "be_root_certs_ok (sample_boot disk)" "be_disk (sample_boot disk) = disk" "be_tls (sample_boot disk) = sample_tls"
    "be_hash_password (sample_boot disk) p = Ok (CHR ''#'' # p)"
    "init_pool (be_drivers (sample_boot disk)) ''sqlite:m'' = Ok (sample_db Sqlite)"
    "run_migrations (be_drivers (sample_boot disk)) sample_environment d = Ok d"
  by (simp_all add: sample_boot_def init_pool_def run_migrations_def sample_environment_def)

lemma sample_paths: "cert_paths (be_url_safe_sha256 (sample_boot disk)) sample_environment ''x.org'' = (''./smtp_cert.pem'', ''./smtp_key.pem'')"
    "\<not> auto_tls_enabled sample_environment"
  by (simp_all add: cert_paths_def auto_tls_enabled_def sample_config)

lemma locked_entries: "locked_disk ''./smtp_cert.pem'' = Some (entry 5 ''c'')"
    "locked_disk ''./smtp_key.pem'' = Some ((entry 5 ''c'')\<lparr>ce_opens := False\<rparr>)"
  by (simp_all add: locked_disk_def)

lemma sample_seed:
  assumes "u \<noteq> ''u1''" "u \<noteq> ''u2''"
  shows "\<exists>e. seed_admin_on_startup (\<lambda>p. Ok (CHR ''#'' # p)) u now ''root@x.org'' ''password'' (sample_db Sqlite) = (Ok (), e)"
proof -
  have t: "trim ''root@x.org'' = ''root@x.org''" by (simp add: trim_eval char_eval)
  have v: "validate_admin_credentials ''root@x.org'' ''password'' = Ok ()"
    by (simp add: validate_admin_credentials_def t)
  have "\<exists>e. upsert_admin u now ''root@x.org'' (CHR ''#'' # ''password'') (sample_db Sqlite) = (Ok (), e)"
    by (simp add: upsert_admin_def stmt_def sample_defs has_def user_constraints_def Let_def new_user_def as_admin_def assms [symmetric])
  then show ?thesis by (auto simp: seed_admin_on_startup_def t v Let_def)
qed

lemma sample_boots_with:
  assumes a: "boot_acceptor (sample_boot disk) ''x.org'' = Ok a"
  shows "\<exists>srv s'. bootstrap (sample_boot disk) storage_sys = (Ok srv, s') \<and> ml_identity_domain srv = ''x.org'' \<and>
    ml_tls_acceptor srv = a \<and> ml_auto_tls srv = None"
proof -
  have v: "validate_required_startup_env ''sqlite:m'' ''s'' ''x.org'' = Ok ()"
    by (simp add: validate_required_startup_env_def missing_envs_def trim_eval char_eval)
  have d: "boot_storage ''/m'' storage_sys = (Ok (), storage_sys)"
    by (simp add: boot_storage_def path_exists_def storage_sys_def)
  obtain e where e: "seed_admin_on_startup (\<lambda>p. Ok (CHR ''#'' # p)) (sy_uuids storage_sys (sy_next_uuid storage_sys)) (sy_now storage_sys)
      ''root@x.org'' ''password'' (sample_db Sqlite) = (Ok (), e)"
    using sample_seed [of "sy_uuids storage_sys (sy_next_uuid storage_sys)"] by (auto simp: storage_sys_def sample_sys_def)
  have h: "be_hash_password (sample_boot disk) = (\<lambda>p. Ok (CHR ''#'' # p))" by (simp add: sample_boot_def)
  have "\<exists>t. boot_database (sample_boot disk) ''sqlite:m'' storage_sys = (Ok (), t)"
    by (simp add: boot_database_def sample_boot_simps(1-5,7,8) h admin_config_from_env_def sample_config fresh_uuid_def e)
  then obtain t where b: "boot_database (sample_boot disk) ''sqlite:m'' storage_sys = (Ok (), t)" by blast
  show ?thesis unfolding bootstrap_def Let_def by (simp add: sample_boot_simps sample_config v a b d auto_tls_of_def sample_paths)
qed

lemma sample_boots:
  "\<exists>srv s'. bootstrap (sample_boot locked_disk) storage_sys = (Ok srv, s') \<and> ml_identity_domain srv = ''x.org''"
proof -
  have "load_config sample_tls ''./smtp_cert.pem'' ''./smtp_key.pem'' locked_disk = Ok None"
    by (simp add: load_config_def locked_entries)
  then have "\<exists>a. boot_acceptor (sample_boot locked_disk) ''x.org'' = Ok a"
    by (simp add: boot_acceptor_def sample_boot_simps sample_paths acceptor_new_def rbind_def)
  then show ?thesis using sample_boots_with by blast
qed

theorem started_server_is_ready_witness:
  "\<exists>srv s'. bootstrap (sample_boot locked_disk) storage_sys = (Ok srv, s') \<and>
     list_ex (\<lambda>u. us_email u = ''root@x.org'' \<and> us_is_admin u \<and> us_password_hash u = ''#password'') (t_users (sy_db s'))"
proof -
  obtain srv s' where run: "bootstrap (sample_boot locked_disk) storage_sys = (Ok srv, s')" using sample_boots by blast
  have t: "trim ''root@x.org'' = ''root@x.org''" by (simp add: trim_eval char_eval)
  have "list_ex (\<lambda>u. us_email u = ''root@x.org'' \<and> us_is_admin u \<and> us_password_hash u = ''#password'') (t_users (sy_db s'))"
    using started_server_is_ready [OF run] by (auto simp: sample_boot_simps sample_config admin_config_from_env_def t list_ex_iff)
  with run show ?thesis by blast
qed

theorem unreadable_certificate_panics_witness:
  "\<exists>srv s'. bootstrap (sample_boot locked_disk) storage_sys = (Ok srv, s') \<and> tls_setup_of (ml_tls_acceptor srv) = NoCertificate \<and>
     web_mode_of (\<lambda>_. True) srv (ml_tls_acceptor srv) = ServePanic ''Manual TLS mode requires active certificates on boot''"
proof -
  obtain srv s' where run: "bootstrap (sample_boot locked_disk) storage_sys = (Ok srv, s')" and i: "ml_identity_domain srv = ''x.org''"
    using sample_boots by blast
  have "\<not> auto_tls_enabled (be_environment (sample_boot locked_disk))"
    "cert_paths (be_url_safe_sha256 (sample_boot locked_disk)) (be_environment (sample_boot locked_disk)) (ml_identity_domain srv) =
       (''./smtp_cert.pem'', ''./smtp_key.pem'')"
    "be_disk (sample_boot locked_disk) ''./smtp_cert.pem'' = Some (entry 5 ''c'')"
    "be_disk (sample_boot locked_disk) ''./smtp_key.pem'' = Some ((entry 5 ''c'')\<lparr>ce_opens := False\<rparr>)"
    "\<not> ce_opens (entry 5 ''c'') \<or> \<not> ce_opens ((entry 5 ''c'')\<lparr>ce_opens := False\<rparr>)"
    by (simp_all add: sample_boot_simps sample_paths locked_entries i)
  from unreadable_certificate_panics [OF run this] run show ?thesis by blast
qed

text \<open>The first user's old mail and the answer to it are gone; both messages are still there.\<close>

theorem cleanup_keeps_messages_witness:
  "let s = sample_sys\<lparr>sy_db := stored_sample Postgres (Some ''e1''), sy_now := 86405,
         sy_fs := empty_fs\<lparr>files := (\<lambda>_. Some \<lparr>file_bytes = ''raw'', file_mode = mode_0600\<rparr>)\<rparr>\<rparr>
   in t_emails (sy_db (cleanup_tick 1 ''/m'' s)) = [] \<and> files (sy_fs (cleanup_tick 1 ''/m'' s)) (eml_path ''/m'' ''k1'') \<noteq> None"
proof -
  let ?s = "sample_sys\<lparr>sy_db := stored_sample Postgres (Some ''e1''), sy_now := 86405,
         sy_fs := empty_fs\<lparr>files := (\<lambda>_. Some \<lparr>file_bytes = ''raw'', file_mode = mode_0600\<rparr>)\<rparr>\<rparr>"
  have d: "sy_db ?s = stored_sample Postgres (Some ''e1'')" by simp
  have kept: "db_wf (sy_db ?s)" unfolding d by (rule stored_wf)
  have flat: "flat_threads (sy_db ?s)" unfolding d by (rule stored_flat)
  have calm: "db_faults (sy_db ?s) = []" unfolding d by (simp add: stored_defs)
  have keys: "list_all (\<lambda>e. \<not> ends_with ''.eml'' (re_body_key e)) (t_emails (sy_db ?s))"
    unfolding d by (simp add: stored_defs ends_with_def)
  have none: "filter (\<lambda>e. \<not> expired 5 (stored_sample Postgres (Some ''e1'')) e \<and> \<not> root_expired 5 (stored_sample Postgres (Some ''e1'')) e)
      (t_emails (stored_sample Postgres (Some ''e1''))) = []"
    by (simp add: stored_defs expired_def root_expired_def received_before_def alias_user_with_def)
  from cleanup_keeps_messages [OF kept flat calm keys, of 1 "''/m''" "''k1''"] none show ?thesis by (simp add: Let_def)
qed

end
