(* ===== verification/Dev_Seed.thy ===== *)
theory Dev_Seed
  imports Server Smtp_Session
begin

text \<open>
  The development data: \<open>src/src/bin/setup_db.rs\<close> and the seeding of \<open>src/src/bin/smtp_test.rs\<close>.  Both insert a user,
  a domain and an alias unless they are there, and the first adds mails with their files.  A step is a function of the
  world that fails by an early return; the statements fail by the schedule of faults, as everywhere.
\<close>

section \<open>Steps\<close>

datatype seeding_error = SeedingIo io_error | SeedingSql sqlx_error | SeedingText string | SeedingPanic string

type_synonym 'a seeding = "sys \<Rightarrow> (seeding_error + 'a) \<times> sys"

definition seeding_return :: "'a \<Rightarrow> 'a seeding" where
  "seeding_return a = (\<lambda>s. (Ok a, s))"

definition seeding_bind :: "'a seeding \<Rightarrow> ('a \<Rightarrow> 'b seeding) \<Rightarrow> 'b seeding" where
  "seeding_bind m f = (\<lambda>s. case m s of (Inl e, s) \<Rightarrow> (Err e, s) | (Inr a, s) \<Rightarrow> f a s)"

definition on_pool :: "'a dbm \<Rightarrow> 'a seeding" where
  "on_pool m = (\<lambda>s. case on_db m s of (Inl e, s) \<Rightarrow> (Err (SeedingSql e), s) | (Inr a, s) \<Rightarrow> (Ok a, s))"

definition on_disk :: "'a io \<Rightarrow> 'a seeding" where
  "on_disk m = (\<lambda>s. case on_fs m s of (Inl e, s) \<Rightarrow> (Err (SeedingIo e), s) | (Inr a, s) \<Rightarrow> (Ok a, s))"

definition new_v4 :: "uuid seeding" where
  "new_v4 = (\<lambda>s. case fresh_uuid s of (i, s) \<Rightarrow> (Ok i, s))"

definition now_utc :: "time seeding" where
  "now_utc = (\<lambda>s. (Ok (sy_now s), s))"

section \<open>The account\<close>

text \<open>\<open>ON CONFLICT (email) DO UPDATE\<close> changes the password and the role only.\<close>

definition upsert_test_user :: "user_row \<Rightarrow> unit dbm" where
  "upsert_test_user u = stmt (\<lambda>d.
     if has us_email (t_users d) (us_email u)
     then Inr ((), set_users (\<lambda>v. us_email v = us_email u)
       (\<lambda>v. v\<lparr>us_password_hash := us_password_hash u, us_is_admin := us_is_admin u\<rparr>) d)
     else (case violation (user_constraints u d) of
         Some e \<Rightarrow> Inl e | None \<Rightarrow> Inr ((), d\<lparr>t_users := t_users d @ [u]\<rparr>)))"

definition user_id_of_email :: "string \<Rightarrow> uuid dbm" where
  "user_id_of_email email = query_one (\<lambda>d. map us_id (filter (\<lambda>u. us_email u = email) (t_users d)))"

definition plain_domain :: "uuid \<Rightarrow> time \<Rightarrow> string \<Rightarrow> domain_row" where
  "plain_domain fresh now domain_name =
     \<lparr>dm_id = fresh, dm_name = domain_name, dm_active = True, dm_created_at = now,
      dm_dkim_private = None, dm_dkim_public = None, dm_dkim_selector = ''maileroo'',
      dm_pending_private = None, dm_pending_public = None, dm_pending_selector = None\<rparr>"

definition insert_domain_or_nothing :: "domain_row \<Rightarrow> unit dbm" where
  "insert_domain_or_nothing m = stmt (\<lambda>d.
     if has dm_name (t_domains d) (dm_name m) then Inr ((), d)
     else (case violation (domain_constraints m d) of
         Some e \<Rightarrow> Inl e | None \<Rightarrow> Inr ((), d\<lparr>t_domains := t_domains d @ [m]\<rparr>)))"

definition domain_id_of_name :: "string \<Rightarrow> uuid dbm" where
  "domain_id_of_name domain_name = query_one (\<lambda>d. map dm_id (filter (\<lambda>m. dm_name m = domain_name) (t_domains d)))"

text \<open>The address of an alias: its name and its domain.\<close>

definition alias_address :: "alias_row \<Rightarrow> string \<times> uuid" where
  "alias_address a = (al_subdomain a, al_domain_id a)"

definition insert_alias_or_nothing :: "alias_row \<Rightarrow> unit dbm" where
  "insert_alias_or_nothing a = stmt (\<lambda>d.
     if has alias_address (t_aliases d) (alias_address a) then Inr ((), d)
     else (case violation (alias_constraints a d) of
         Some e \<Rightarrow> Inl e | None \<Rightarrow> Inr ((), add_alias a d)))"

definition alias_id_of_address :: "string \<Rightarrow> uuid \<Rightarrow> uuid dbm" where
  "alias_id_of_address subdomain domain_id =
     query_one (\<lambda>d. map al_id (filter (\<lambda>a. alias_address a = (subdomain, domain_id)) (t_aliases d)))"

abbreviation test_domain :: string where "test_domain \<equiv> ''maileroo.test''"
abbreviation test_subdomain :: string where "test_subdomain \<equiv> ''hello''"

definition seed_user :: "(string \<Rightarrow> string + string) \<Rightarrow> string \<Rightarrow> string \<Rightarrow> uuid seeding" where
  "seed_user hash email password =
     seeding_bind new_v4 (\<lambda>fresh.
     case hash password of
       Inl e \<Rightarrow> (\<lambda>s. (Err (SeedingText e), s))
     | Inr password_hash \<Rightarrow>
         seeding_bind now_utc (\<lambda>now.
         seeding_bind (on_pool (upsert_test_user (as_admin now password_hash (new_user fresh now email password_hash)))) (\<lambda>_.
         on_pool (user_id_of_email email))))"

definition seed_domain :: "uuid seeding" where
  "seed_domain =
     seeding_bind new_v4 (\<lambda>fresh.
     seeding_bind now_utc (\<lambda>now.
     seeding_bind (on_pool (insert_domain_or_nothing (plain_domain fresh now test_domain))) (\<lambda>_.
     on_pool (domain_id_of_name test_domain))))"

definition seed_alias :: "uuid \<Rightarrow> uuid \<Rightarrow> string \<Rightarrow> uuid seeding" where
  "seed_alias user_id domain_id email =
     seeding_bind new_v4 (\<lambda>fresh.
     seeding_bind now_utc (\<lambda>now.
     seeding_bind (on_pool (insert_alias_or_nothing (new_alias fresh now user_id domain_id test_subdomain email True))) (\<lambda>_.
     on_pool (alias_id_of_address test_subdomain domain_id))))"

section \<open>The mails\<close>

definition mail_content :: "string \<Rightarrow> string \<Rightarrow> string" where
  "mail_content sender subject =
     ''From: '' @ sender @ CRLF @ ''To: hello@maileroo.test'' @ CRLF @ ''Subject: '' @ subject @ CRLF @
     ''Date: Mon, 9 Feb 2026 12:00:00 +0000'' @ CRLF @ CRLF @
     ''This is a seeded test email for the subject: '' @ subject @ CRLF"

definition messy_content :: string where
  "messy_content =
     ''From: messy@stylebreaker.com'' @ CRLF @ ''To: hello@maileroo.test'' @ CRLF @
     ''Subject: TEST: Messy global CSS!'' @ CRLF @ ''Content-Type: text/html; charset=utf-8'' @ CRLF @ CRLF @
     ''<html>'' @ [LF] @ ''<head>'' @ [LF] @ ''<style>'' @ [LF] @
     ''body { margin: 0 !important; padding: 0 !important; background-color: purple !important; }'' @ [LF] @
     ''h1, h2, h3 { color: red !important; font-size: 100px !important; }'' @ [LF] @
     ''nav, header, .header { display: none !important; }'' @ [LF] @ ''* { border: 5px solid lime !important; }'' @
     [LF] @ ''</style>'' @ [LF] @ ''</head>'' @ [LF] @ ''<body>'' @ [LF] @ ''<h1>MESSY EMAIL</h1>'' @ [LF] @
     ''<p>If Shadow DOM is working, this won'' @ [CHR 39] @ ''t break your app'' @ [CHR 39] @
     ''s main layout.</p>'' @ [LF] @ ''</body>'' @ [LF] @ ''</html>'' @ [LF]"

definition mock_eml_content :: string where
  "mock_eml_content =
     ''From: files@example.com'' @ CRLF @ ''To: hello@maileroo.test'' @ CRLF @ ''Subject: UI Attachment Test'' @
     CRLF @ ''Content-Type: multipart/mixed; boundary=mixed123'' @ CRLF @ CRLF @ ''--mixed123'' @ CRLF @
     ''Content-Type: multipart/related; boundary=related123'' @ CRLF @ CRLF @ ''--related123'' @ CRLF @
     ''Content-Type: text/html; charset=utf-8'' @ CRLF @ CRLF @
     ''<html><body><p>Here is an inline company logo!</p><img src='' @ [CHR 0x22] @ ''cid:company-logo'' @
     [CHR 0x22] @ '' style='' @ [CHR 0x22] @ ''max-width: 200px; border: 1px solid #ccc;'' @ [CHR 0x22] @
     ''/><p>Also see the attached invoice.</p></body></html>'' @ CRLF @ ''--related123'' @ CRLF @
     ''Content-Type: image/png'' @ CRLF @ ''Content-ID: <company-logo>'' @ CRLF @ ''Content-Disposition: inline'' @
     CRLF @ CRLF @ [CHR 0x89] @ ''PNG'' @ CRLF @ [CHR 0x1A] @ [LF] @ [CHR 0x00, CHR 0x00, CHR 0x00, CHR 0x0D] @
     ''IHDR'' @
     [CHR 0x00, CHR 0x00, CHR 0x00, CHR 0x01, CHR 0x00, CHR 0x00, CHR 0x00, CHR 0x01, CHR 0x08, CHR 0x06, CHR 0x00, CHR 0x00, CHR 0x00, CHR 0x1F, CHR 0x15, CHR 0xC4, CHR 0x89, CHR 0x00, CHR 0x00, CHR 0x00, CHR 0x0D] @
     ''IDATx'' @ [CHR 0xDA] @ ''cddd`'' @ [CHR 0x00, CHR 0x00, CHR 0x00, CHR 0x0E, CHR 0x00, CHR 0x02] @ ''B3'' @
     [CHR 0xF8] @ ''A'' @ [CHR 0x00, CHR 0x00, CHR 0x00, CHR 0x00] @ ''IEND'' @ [CHR 0xAE] @ ''B`'' @ [CHR 0x82] @
     CRLF @ ''--related123--'' @ CRLF @ ''--mixed123'' @ CRLF @ ''Content-Type: application/pdf; name=invoice.pdf'' @
     CRLF @ ''Content-Disposition: attachment; filename=invoice.pdf'' @ CRLF @ CRLF @ ''%PDF-1.4'' @ [LF] @
     ''1 0 obj'' @ [LF] @ ''<< /Type /Catalog /Pages 2 0 R >>'' @ [LF] @ ''endobj'' @ [LF] @ ''2 0 obj'' @ [LF] @
     ''<< /Type /Pages /Kids [3 0 R] /Count 1 >>'' @ [LF] @ ''endobj'' @ [LF] @ ''3 0 obj'' @ [LF] @
     ''<< /Type /Page /Parent 2 0 R /MediaBox [0 0 612 792] /Contents 4 0 R /Resources << /Font << /F1 << /Type /Font /Subtype /Type1 /BaseFont /Helvetica >> >> >> >>'' @
     [LF] @ ''endobj'' @ [LF] @ ''4 0 obj'' @ [LF] @ ''<< /Length 53 >>'' @ [LF] @ ''stream'' @ [LF] @ ''BT'' @
     [LF] @ ''/F1 24 Tf'' @ [LF] @ ''100 700 Td'' @ [LF] @ ''(Fake Invoice PDF Content) Tj'' @ [LF] @ ''ET'' @ [LF] @
     ''endstream'' @ [LF] @ ''endobj'' @ [LF] @ ''xref'' @ [LF] @ ''0 5'' @ [LF] @ ''0000000000 65535 f '' @ [LF] @
     ''0000000009 00000 n '' @ [LF] @ ''0000000058 00000 n '' @ [LF] @ ''0000000115 00000 n '' @ [LF] @
     ''0000000289 00000 n '' @ [LF] @ ''trailer'' @ [LF] @ ''<< /Size 5 /Root 1 0 R >>'' @ [LF] @ ''startxref'' @
     [LF] @ ''391'' @ [LF] @ ''%%EOF'' @ [LF] @ CRLF @ ''--mixed123--'' @ CRLF"

definition seed_row :: "uuid \<Rightarrow> string \<Rightarrow> string \<Rightarrow> uuid seeding" where
  "seed_row alias_id sender subject =
     seeding_bind new_v4 (\<lambda>email_id.
     seeding_bind new_v4 (\<lambda>body_key.
     seeding_bind now_utc (\<lambda>now.
     seeding_bind (on_pool (insert_email_row (new_email email_id alias_id sender subject body_key now None None False))) (\<lambda>_.
     seeding_return body_key))))"

definition seed_mail :: "string \<Rightarrow> uuid \<Rightarrow> string \<times> string \<times> string \<Rightarrow> unit seeding" where
  "seed_mail storage_dir alias_id = (\<lambda>(sender, subject, content).
     seeding_bind (seed_row alias_id sender subject) (\<lambda>body_key.
     on_disk (write_file_async_with_permissions (eml_path storage_dir body_key) content)))"

primrec seed_mails :: "string \<Rightarrow> uuid \<Rightarrow> (string \<times> string \<times> string) list \<Rightarrow> unit seeding" where
  "seed_mails storage_dir alias_id [] = seeding_return ()"
| "seed_mails storage_dir alias_id (m # ms) =
     seeding_bind (seed_mail storage_dir alias_id m) (\<lambda>_. seed_mails storage_dir alias_id ms)"

definition test_mails :: "(string \<times> string \<times> string) list" where
  "test_mails = map (\<lambda>(sender, subject). (sender, subject, mail_content sender subject))
     [(''alice@example.net'', ''Welcome to Maileroo!''), (''bob@work.com'', ''Project Update''),
      (''newsletter@tech.io'', ''Weekly Tech News''), (''support@service.com'', ''Your ticket has been resolved'')]
     @ [(''messy@stylebreaker.com'', ''TEST: Messy global CSS!'', messy_content)]"

definition seed_attachment_mail :: "mail_parser \<Rightarrow> string \<Rightarrow> uuid \<Rightarrow> unit seeding" where
  "seed_attachment_mail parse storage_dir alias_id =
     seeding_bind new_v4 (\<lambda>body_key.
     seeding_bind (on_disk (write_file_async_with_permissions (eml_path storage_dir body_key)
         (from_utf8_lossy mock_eml_content))) (\<lambda>_.
     case extract_full_metadata parse mock_eml_content ''files@example.com'' of (metadata, attachments) \<Rightarrow>
       seeding_bind now_utc (\<lambda>now.
       seeding_bind new_v4 (\<lambda>email_id.
       seeding_bind (\<lambda>s. case fresh_uuids (length attachments) s of (is, s) \<Rightarrow> (Ok is, s)) (\<lambda>attachment_ids.
       seeding_bind (on_pool (insert_email_with_attachments email_id attachment_ids now alias_id (em_sender metadata)
           (em_subject metadata) body_key (Some now) (em_message_id metadata) None attachments)) (\<lambda>_.
       seeding_return ()))))))"

section \<open>The tool\<close>

definition seed_email :: "environment \<Rightarrow> string" where
  "seed_email env = unwrap_or ''admin@maileroo.test'' (env ''ADMIN_EMAIL'')"

definition seed_storage_dir :: "environment \<Rightarrow> string" where
  "seed_storage_dir env = unwrap_or ''storage/emails'' (env ''STORAGE_DIR'')"

definition seed_data :: "environment \<Rightarrow> (string \<Rightarrow> string + string) \<Rightarrow> mail_parser \<Rightarrow> unit seeding" where
  "seed_data env hash parse =
     (let storage_dir = seed_storage_dir env;
          email = seed_email env;
          password = unwrap_or ''admin123'' (env ''ADMIN_PASSWORD'')
      in seeding_bind (on_disk (create_dir_all_async_with_permissions storage_dir)) (\<lambda>_.
         seeding_bind (seed_user hash email password) (\<lambda>user_id.
         seeding_bind seed_domain (\<lambda>domain_id.
         seeding_bind (seed_alias user_id domain_id email) (\<lambda>alias_id.
         seeding_bind (seed_mails storage_dir alias_id test_mails) (\<lambda>_.
         seed_attachment_mail parse storage_dir alias_id))))))"

definition setup_db_main :: "db_drivers \<Rightarrow> environment \<Rightarrow> (string \<Rightarrow> string + string) \<Rightarrow> mail_parser \<Rightarrow> unit seeding" where
  "setup_db_main dd env hash parse = (\<lambda>s.
     case env ''DATABASE_URL'' of
       None \<Rightarrow> (Err (SeedingPanic ''DATABASE_URL must be set''), s)
     | Some database_url \<Rightarrow> (case init_pool dd database_url of
         Inl e \<Rightarrow> (Err (SeedingSql e), s)
       | Inr d \<Rightarrow> (case run_migrations dd env d of
           Inl e \<Rightarrow> (Err (SeedingText e), s)
         | Inr d \<Rightarrow> seed_data env hash parse (s\<lparr>sy_db := d\<rparr>))))"

text \<open>\<open>smtp_test\<close> seeds on its own: it overwrites the target of the alias.\<close>

definition upsert_alias :: "alias_row \<Rightarrow> unit dbm" where
  "upsert_alias a = stmt (\<lambda>d.
     if has alias_address (t_aliases d) (alias_address a)
     then Inr ((), d\<lparr>t_aliases := update_rows (\<lambda>b. alias_address b = alias_address a)
       (\<lambda>b. b\<lparr>al_destination := al_destination a, al_auto_forward := al_auto_forward a\<rparr>) (t_aliases d)\<rparr>)
     else (case violation (alias_constraints a d) of
         Some e \<Rightarrow> Inl e | None \<Rightarrow> Inr ((), add_alias a d)))"

definition seed_db :: "(string \<Rightarrow> string + string) \<Rightarrow> unit seeding" where
  "seed_db hash =
     (let user_email = ''admin@admin.com''; password = ''b3a6fa7e64458ccb''
      in case hash password of
           Inl e \<Rightarrow> (\<lambda>s. (Err (SeedingText e), s))
         | Inr password_hash \<Rightarrow>
             seeding_bind now_utc (\<lambda>now.
             seeding_bind new_v4 (\<lambda>fresh.
             seeding_bind (on_pool (upsert_test_user ((new_user fresh now user_email password_hash)\<lparr>us_is_admin := True\<rparr>))) (\<lambda>_.
             seeding_bind (on_pool (user_id_of_email user_email)) (\<lambda>user_id.
             seeding_bind new_v4 (\<lambda>fresh.
             seeding_bind (on_pool (insert_domain_or_nothing (plain_domain fresh now test_domain))) (\<lambda>_.
             seeding_bind (on_pool (domain_id_of_name test_domain)) (\<lambda>domain_id.
             seeding_bind new_v4 (\<lambda>fresh.
             on_pool (upsert_alias (new_alias fresh now user_id domain_id test_subdomain user_email True)))))))))))"

section \<open>Rules of steps\<close>

definition yields :: "(sys \<Rightarrow> bool) \<Rightarrow> 'a seeding \<Rightarrow> ('a \<Rightarrow> sys \<Rightarrow> bool) \<Rightarrow> (sys \<Rightarrow> bool) \<Rightarrow> bool" where
  "yields P m Q E = (\<forall>s r s'. P s \<longrightarrow> m s = (r, s') \<longrightarrow> (case r of Inr a \<Rightarrow> Q a s' | Inl _ \<Rightarrow> E s'))"

named_theorems yields_rules \<open>introduction rules of yields\<close>

lemma yieldsD: "yields P m Q E \<Longrightarrow> P s \<Longrightarrow> m s = (r, s') \<Longrightarrow> (case r of Inr a \<Rightarrow> Q a s' | Inl _ \<Rightarrow> E s')"
  by (simp add: yields_def)

lemma yields_bind [yields_rules]:
  "yields P m R E \<Longrightarrow> (\<And>a. yields (R a) (f a) Q E) \<Longrightarrow> yields P (seeding_bind m f) Q E"
  unfolding yields_def seeding_bind_def by (fastforce split: prod.splits sum.splits)

lemma yields_return [yields_rules]: "(\<And>s. P s \<Longrightarrow> Q a s) \<Longrightarrow> yields P (seeding_return a) Q E"
  by (simp add: yields_def seeding_return_def)

lemma yields_weaken: "yields P m Q E \<Longrightarrow> (\<And>a s. Q a s \<Longrightarrow> Q' a s) \<Longrightarrow> yields P m Q' E"
  unfolding yields_def by (metis (mono_tags, lifting) sum.case_eq_if)

lemma yields_new_v4: "(\<And>s f. P (s\<lparr>sy_next_uuid := f\<rparr>) = P s) \<Longrightarrow> yields P new_v4 (\<lambda>_. P) E"
  by (auto simp: yields_def new_v4_def fresh_uuid_def)

lemma yields_now: "yields P now_utc (\<lambda>_. P) E"
  by (auto simp: yields_def now_utc_def)

lemma yields_pool:
  assumes "\<And>s r d'. P s \<Longrightarrow> m (sy_db s) = (r, d') \<Longrightarrow>
    (case r of Inr a \<Rightarrow> Q a (s\<lparr>sy_db := d'\<rparr>) | Inl _ \<Rightarrow> E (s\<lparr>sy_db := d'\<rparr>))"
  shows "yields P (on_pool m) Q E"
  unfolding yields_def on_pool_def on_db_def using assms by (fastforce split: prod.splits sum.splits)

lemma yields_disk:
  assumes "\<And>s r \<sigma>. P s \<Longrightarrow> m (sy_fs s) = (r, \<sigma>) \<Longrightarrow>
    (case r of Inr a \<Rightarrow> Q a (s\<lparr>sy_fs := \<sigma>\<rparr>) | Inl _ \<Rightarrow> E (s\<lparr>sy_fs := \<sigma>\<rparr>))"
  shows "yields P (on_disk m) Q E"
  unfolding yields_def on_disk_def on_fs_def using assms by (fastforce split: prod.splits sum.splits)

lemma yields_db_only: "yields (\<lambda>s. K (sy_db s)) (on_disk m) (\<lambda>_ s. K (sy_db s)) (\<lambda>s. K (sy_db s))"
  by (rule yields_disk) (simp split: sum.split)

lemma yields_keeps: "keeps K m \<Longrightarrow> yields (\<lambda>s. K (sy_db s)) (on_pool m) (\<lambda>_ s. K (sy_db s)) (\<lambda>s. K (sy_db s))"
  by (rule yields_pool) (auto dest: keepsD split: sum.split)

section \<open>Seeding again\<close>

text \<open>The accounts are there: the user, the domain and the alias of the test data.\<close>

definition settled :: "string \<Rightarrow> db \<Rightarrow> bool" where
  "settled email d \<longleftrightarrow> has us_email (t_users d) email \<and>
     list_ex (\<lambda>m. has alias_address (t_aliases d) (test_subdomain, dm_id m))
       (take 1 (filter (\<lambda>m. dm_name m = test_domain) (t_domains d)))"

definition accounts :: "db \<Rightarrow> (uuid \<times> string) list \<times> domain_row list \<times> alias_row list" where
  "accounts d = (map (\<lambda>u. (us_id u, us_email u)) (t_users d), t_domains d, t_aliases d)"

definition seeded_as :: "db \<Rightarrow> string \<Rightarrow> db \<Rightarrow> bool" where
  "seeded_as d0 email d \<longleftrightarrow> accounts d = accounts d0 \<and> settled email d"

lemma on_tables_seeded [simp]: "on_tables (seeded_as d0 email)" "on_tables (settled email)"
  by (simp_all add: on_tables_def seeded_as_def settled_def accounts_def)

lemma has_email_pairs: "has us_email us e \<longleftrightarrow> e \<in> snd ` set (map (\<lambda>u. (us_id u, us_email u)) us)"
  by (force simp: has_iff)

lemma settled_accounts: "accounts d = accounts d0 \<Longrightarrow> settled email d = settled email d0"
  unfolding settled_def has_email_pairs by (simp only: accounts_def prod.inject)

lemma seeded_as_emails [simp]:
  "seeded_as d0 email (add_email e d) = seeded_as d0 email d" "settled email (add_email e d) = settled email d"
  by (simp_all add: seeded_as_def settled_def accounts_def add_email_def)

lemma accounts_set_users:
  "(\<And>u. us_id (f u) = us_id u) \<Longrightarrow> (\<And>u. us_email (f u) = us_email u) \<Longrightarrow> accounts (set_users p f d) = accounts d"
  by (simp add: accounts_def set_users_def update_rows_def)

lemma keeps_upsert_user:
  assumes "us_email u = email"
  shows "keeps (seeded_as d0 email) (upsert_test_user u)"
  unfolding upsert_test_user_def
proof (rule keeps_stmt)
  fix d d' :: db and a :: unit
  assume s: "seeded_as d0 email d"
    and run: "(if has us_email (t_users d) (us_email u)
       then Inr ((), set_users (\<lambda>v. us_email v = us_email u)
         (\<lambda>v. v\<lparr>us_password_hash := us_password_hash u, us_is_admin := us_is_admin u\<rparr>) d)
       else (case violation (user_constraints u d) of
         Some e \<Rightarrow> Inl e | None \<Rightarrow> Inr ((), d\<lparr>t_users := t_users d @ [u]\<rparr>))) = Inr (a, d')"
  from s have h: "has us_email (t_users d) (us_email u)" by (simp add: seeded_as_def settled_def assms)
  with run have "accounts d' = accounts d" by (auto simp: accounts_set_users)
  with s settled_accounts [of d' d] show "seeded_as d0 email d'" by (simp add: seeded_as_def)
qed simp

lemma keeps_no_domain: "dm_name m = test_domain \<Longrightarrow> keeps (seeded_as d0 email) (insert_domain_or_nothing m)"
  unfolding insert_domain_or_nothing_def
  by (rule keeps_stmt) (auto simp: seeded_as_def settled_def has_iff list_ex_iff split: if_splits
      dest!: in_set_takeD)

lemma keeps_no_alias:
  "alias_address a = (test_subdomain, i) \<Longrightarrow>
   keeps (\<lambda>d. seeded_as d0 email d \<and> map dm_id (take 1 (filter (\<lambda>m. dm_name m = test_domain) (t_domains d))) = [i])
     (insert_alias_or_nothing a)"
  unfolding insert_alias_or_nothing_def
  by (rule keeps_stmt) (auto simp: on_tables_def seeded_as_def settled_def accounts_def split: if_splits)

lemma store_mail_tables:
  assumes "insert_email_with_attachments i is now aid sender subject key at mid None atts d = (r, d')"
  shows "t_users d' = t_users d \<and> t_domains d' = t_domains d \<and> t_aliases d' = t_aliases d \<and>
    (case r of Inl _ \<Rightarrow> t_emails d' = t_emails d
     | Inr _ \<Rightarrow> t_emails d' = t_emails d @ [new_email i aid sender subject key (unwrap_or now at) mid None
         (list_ex (\<lambda>a. \<not> am_is_inline a) atts)])"
proof -
  have t: "t_users x = t_users y \<and> t_domains x = t_domains y \<and> t_aliases x = t_aliases y \<and> t_emails x = t_emails y"
    if "same_tables y x" for x y
    using that by (cases x; cases y) (simp add: same_tables_def)
  from stored_or_same [OF assms] show ?thesis
    by (cases r) (auto simp: Let_def bump_opt_def dest!: t)
qed

abbreviation remains :: "(db \<Rightarrow> bool) \<Rightarrow> 'a seeding \<Rightarrow> bool" where
  "remains K m \<equiv> yields (\<lambda>s. K (sy_db s)) m (\<lambda>_ s. K (sy_db s)) (\<lambda>s. K (sy_db s))"

named_theorems remains_rules \<open>introduction rules of remains\<close>

lemma remains_bind [remains_rules]:
  "remains K m \<Longrightarrow> (\<And>a. remains K (f a)) \<Longrightarrow> remains K (seeding_bind m f)"
  by (rule yields_bind)

lemma remains_return [remains_rules]: "remains K (seeding_return a)"
  by (rule yields_return)

lemma remains_new_v4 [remains_rules]: "remains K new_v4"
  by (auto simp: yields_def new_v4_def fresh_uuid_def)

lemma remains_now [remains_rules]: "remains K now_utc"
  by (auto simp: yields_def now_utc_def)

lemma remains_uuids [remains_rules]: "remains K (\<lambda>s. case fresh_uuids n s of (is, s) \<Rightarrow> (Ok is, s))"
  by (auto simp: yields_def dest: fresh_uuids_sys split: prod.splits)

lemmas remains_db_rules [remains_rules] = yields_keeps yields_db_only

lemma keeps_seeded_mail:
  "keeps (seeded_as d0 email) (insert_email_row e)"
  "keeps (seeded_as d0 email) (insert_email_with_attachments i is now aid sender subject key at mid None atts)"
proof -
  show "keeps (seeded_as d0 email) (insert_email_row e)"
    unfolding insert_email_row_def by (intro keeps_rules) simp_all
  show "keeps (seeded_as d0 email) (insert_email_with_attachments i is now aid sender subject key at mid None atts)"
    unfolding keeps_def
  proof (intro allI impI)
    fix d r d'
    assume s: "seeded_as d0 email d"
      and "insert_email_with_attachments i is now aid sender subject key at mid None atts d = (r, d')"
    from store_mail_tables [OF this(2)] have "accounts d' = accounts d" by (simp add: accounts_def)
    with s settled_accounts [of d' d] show "seeded_as d0 email d'" by (simp add: seeded_as_def)
  qed
qed

lemma remains_seed_mail: "remains (seeded_as d0 email) (seed_mail dir aid m)"
  unfolding seed_mail_def seed_row_def
  by (cases m) (simp, intro remains_rules keeps_seeded_mail)

lemma remains_seed_mails: "remains (seeded_as d0 email) (seed_mails dir aid ms)"
  by (induction ms) (auto intro!: remains_rules remains_seed_mail)

lemma remains_seed_attachment_mail: "remains (seeded_as d0 email) (seed_attachment_mail parse dir aid)"
  unfolding seed_attachment_mail_def
  by (cases "extract_full_metadata parse mock_eml_content ''files@example.com''")
    (simp, intro remains_rules keeps_seeded_mail)

lemma remains_then:
  "remains K m \<Longrightarrow> (\<And>a. yields (\<lambda>s. K (sy_db s)) (f a) Q (\<lambda>s. K (sy_db s))) \<Longrightarrow>
   yields (\<lambda>s. K (sy_db s)) (seeding_bind m f) Q (\<lambda>s. K (sy_db s))"
  by (rule yields_bind)

lemma remains_drop:
  assumes "remains (\<lambda>d. J d \<and> K d) m"
  shows "yields (\<lambda>s. J (sy_db s) \<and> K (sy_db s)) m (\<lambda>_ s. J (sy_db s)) (\<lambda>s. J (sy_db s))"
  unfolding yields_def
proof (intro allI impI)
  fix s r s'
  assume "J (sy_db s) \<and> K (sy_db s)" "m s = (r, s')"
  from yieldsD [OF assms this] show "case r of Inl _ \<Rightarrow> J (sy_db s') | Inr _ \<Rightarrow> J (sy_db s')" by (cases r) simp_all
qed

definition test_domain_is :: "uuid \<Rightarrow> db \<Rightarrow> bool" where
  "test_domain_is i d \<longleftrightarrow> map dm_id (take 1 (filter (\<lambda>m. dm_name m = test_domain) (t_domains d))) = [i]"

lemma on_tables_domain_is [simp]: "on_tables (\<lambda>d. seeded_as d0 email d \<and> test_domain_is i d)"
  using on_tables_seeded(1) [of d0 email] by (simp add: on_tables_def test_domain_is_def)

lemma domain_id_found:
  "yields (\<lambda>s. seeded_as d0 email (sy_db s)) (on_pool (domain_id_of_name test_domain))
     (\<lambda>i s. seeded_as d0 email (sy_db s) \<and> test_domain_is i (sy_db s)) (\<lambda>s. seeded_as d0 email (sy_db s))"
proof (rule yields_pool)
  fix s :: sys and r :: "sqlx_error + uuid" and d'
  assume k: "seeded_as d0 email (sy_db s)" and run: "domain_id_of_name test_domain (sy_db s) = (r, d')"
  have d: "seeded_as d0 email d'"
    by (rule keepsD [where P = "seeded_as d0 email" and m = "domain_id_of_name test_domain" and d = "sy_db s" and r = r])
      (simp_all add: k run, simp add: domain_id_of_name_def keeps_query_one)
  show "case r of Inl x \<Rightarrow> seeded_as d0 email (sy_db (s\<lparr>sy_db := d'\<rparr>))
     | Inr i \<Rightarrow> seeded_as d0 email (sy_db (s\<lparr>sy_db := d'\<rparr>)) \<and> test_domain_is i (sy_db (s\<lparr>sy_db := d'\<rparr>))"
  proof (cases r)
    case (Inr i)
    with run have "test_domain_is i d'"
      by (auto simp: domain_id_of_name_def query_one_def stmt_Ok_iff test_domain_is_def split: list.splits)
    with d Inr show ?thesis by simp
  qed (simp add: d)
qed

lemma remains_seed_user: "remains (seeded_as d0 email) (seed_user hash email password)"
proof (cases "hash password")
  case (Inl e)
  have "remains (seeded_as d0 email) (\<lambda>s. (Err (SeedingText e), s))" by (simp add: yields_def)
  with Inl show ?thesis unfolding seed_user_def by (simp, intro remains_rules)
next
  case (Inr h)
  then show ?thesis
    unfolding seed_user_def by (simp, intro remains_rules keeps_upsert_user)
      (simp_all add: as_admin_def new_user_def user_id_of_email_def keeps_query_one)
qed

lemma seed_domain_again:
  "yields (\<lambda>s. seeded_as d0 email (sy_db s)) seed_domain
     (\<lambda>i s. seeded_as d0 email (sy_db s) \<and> test_domain_is i (sy_db s)) (\<lambda>s. seeded_as d0 email (sy_db s))"
  unfolding seed_domain_def
  by (intro remains_then remains_new_v4 remains_now yields_keeps keeps_no_domain domain_id_found) (simp add: plain_domain_def)

lemma seed_alias_again:
  "yields (\<lambda>s. seeded_as d0 email (sy_db s) \<and> test_domain_is i (sy_db s)) (seed_alias u i target)
     (\<lambda>_ s. seeded_as d0 email (sy_db s)) (\<lambda>s. seeded_as d0 email (sy_db s))"
proof -
  let ?K = "\<lambda>d. seeded_as d0 email d \<and> test_domain_is i d"
  have "remains ?K (seed_alias u i target)"
    unfolding seed_alias_def
    by (intro remains_rules keeps_no_alias [folded test_domain_is_def])
      (simp_all add: alias_address_def new_alias_def alias_id_of_address_def keeps_query_one)
  then show ?thesis by (rule remains_drop)
qed

lemma seed_data_again:
  assumes "email = seed_email env"
  shows "remains (seeded_as d0 email) (seed_data env hash parse)"
  unfolding seed_data_def Let_def assms [symmetric]
  by (intro yields_bind [OF yields_db_only] yields_bind [OF remains_seed_user] yields_bind [OF seed_domain_again]
      yields_bind [OF seed_alias_again] yields_bind [OF remains_seed_mails] remains_seed_attachment_mail)

text \<open>Seeding again makes no second account. Once user, domain and alias of the test data are there, a further run of
  the tool, whatever fails in it, leaves the users with their identifiers and addresses, the domains and the aliases as
  they are.\<close>

theorem seeding_again_keeps_accounts:
  assumes "settled (seed_email env) (sy_db s)"
  shows "accounts (sy_db (snd (seed_data env hash parse s))) = accounts (sy_db s)"
proof -
  obtain r s' where run: "seed_data env hash parse s = (r, s')" by fastforce
  from assms have "seeded_as (sy_db s) (seed_email env) (sy_db s)"
    by (simp add: seeded_as_def)
  from yieldsD [OF seed_data_again [OF refl] this run] show ?thesis by (simp add: run seeded_as_def split: sum.splits)
qed

section \<open>What a run sets up\<close>

abbreviation returns :: "(sys \<Rightarrow> bool) \<Rightarrow> 'a seeding \<Rightarrow> ('a \<Rightarrow> sys \<Rightarrow> bool) \<Rightarrow> bool" where
  "returns P m Q \<equiv> yields P m Q (\<lambda>_. True)"

text \<open>\<open>k\<close> mails were added to the first \<open>n\<close>, all for the alias and all with their file; and the same with one mail more
  that still lacks its file.\<close>

definition has_file :: "string \<Rightarrow> uuid \<Rightarrow> sys \<Rightarrow> email_row \<Rightarrow> bool" where
  "has_file dir aid s e \<longleftrightarrow> re_alias_id e = Some aid \<and> files (sy_fs s) (eml_path dir (re_body_key e)) \<noteq> None"

definition mails_added :: "string \<Rightarrow> nat \<Rightarrow> nat \<Rightarrow> uuid \<Rightarrow> sys \<Rightarrow> bool" where
  "mails_added dir n k aid s \<longleftrightarrow> length (t_emails (sy_db s)) = n + k \<and> list_all (has_file dir aid s) (drop n (t_emails (sy_db s)))"

definition mail_waiting :: "string \<Rightarrow> nat \<Rightarrow> nat \<Rightarrow> uuid \<Rightarrow> uuid \<Rightarrow> sys \<Rightarrow> bool" where
  "mail_waiting dir n k aid key s \<longleftrightarrow> (\<exists>es e. t_emails (sy_db s) = es @ [e] \<and> re_alias_id e = Some aid \<and>
     re_body_key e = key \<and> length es = n + k \<and> list_all (has_file dir aid s) (drop n es))"

lemma added_ignores [simp]:
  "mails_added dir n k aid (s\<lparr>sy_next_uuid := i\<rparr>) = mails_added dir n k aid s"
  "mail_waiting dir n k aid key (s\<lparr>sy_next_uuid := i\<rparr>) = mail_waiting dir n k aid key s"
  by (simp_all add: mails_added_def mail_waiting_def has_file_def [abs_def])

lemma returns_row: "returns (mails_added dir n k aid) (seed_row aid sender subject) (\<lambda>key. mail_waiting dir n k aid key)"
proof -
  have w: "returns (mails_added dir n k aid) (on_pool (insert_email_row (new_email i aid sender subject key at None None False)))
     (\<lambda>_. mail_waiting dir n k aid key)" for i key at
    by (rule yields_pool)
      (auto simp: mails_added_def mail_waiting_def insert_email_row_def insert_stmt_def stmt_Ok_iff add_email_def
        new_email_def has_file_def [abs_def] split: sum.splits option.splits)
  show ?thesis
    unfolding seed_row_def
    by (rule yields_bind [OF yields_new_v4], simp, rule yields_bind [OF yields_new_v4], simp,
        rule yields_bind [OF yields_now], rule yields_bind [OF w], rule yields_return)
qed

lemma write_files:
  assumes "write_file_async_with_permissions p c \<sigma> = (Inr (), \<sigma>')"
  shows "files \<sigma>' p \<noteq> None \<and> (files \<sigma> q \<noteq> None \<longrightarrow> files \<sigma>' q \<noteq> None)"
  using write_file_Ok [of p c \<sigma> \<sigma>'] assms
  by (simp add: write_file_async_with_permissions_def write_file_sync_with_permissions_def)

lemma has_file_written:
  assumes "write_file_async_with_permissions p c (sy_fs s) = (Inr (), \<sigma>)" "has_file dir aid s e"
  shows "has_file dir aid (s\<lparr>sy_fs := \<sigma>\<rparr>) e"
  using write_files [OF assms(1)] assms(2) by (simp add: has_file_def)

lemma returns_seed_mail: "returns (mails_added dir n k aid) (seed_mail dir aid m) (\<lambda>_. mails_added dir n (Suc k) aid)"
proof -
  have w: "returns (mail_waiting dir n k aid key) (on_disk (write_file_async_with_permissions (eml_path dir key) content))
      (\<lambda>_. mails_added dir n (Suc k) aid)" for key content
  proof (rule yields_disk)
    fix s r \<sigma>
    assume p: "mail_waiting dir n k aid key s"
      and run: "write_file_async_with_permissions (eml_path dir key) content (sy_fs s) = (r, \<sigma>)"
    show "case r of Inl _ \<Rightarrow> True | Inr _ \<Rightarrow> mails_added dir n (Suc k) aid (s\<lparr>sy_fs := \<sigma>\<rparr>)"
    proof (cases r)
      case (Inr u)
      with run have run: "write_file_async_with_permissions (eml_path dir key) content (sy_fs s) = (Inr (), \<sigma>)" by simp
      from p obtain es e where e: "t_emails (sy_db s) = es @ [e]" "re_alias_id e = Some aid" "re_body_key e = key"
        "length es = n + k" "list_all (has_file dir aid s) (drop n es)" by (auto simp: mail_waiting_def)
      have "list_all (has_file dir aid (s\<lparr>sy_fs := \<sigma>\<rparr>)) (drop n es)"
        using e(5) has_file_written [OF run] by (auto simp: list_all_iff)
      moreover have "has_file dir aid (s\<lparr>sy_fs := \<sigma>\<rparr>) e" using e write_files [OF run] by (simp add: has_file_def)
      ultimately show ?thesis using Inr e by (simp add: mails_added_def)
    qed simp
  qed
  show ?thesis
    unfolding seed_mail_def by (cases m) (simp, rule yields_bind [OF returns_row w])
qed

lemma returns_seed_mails:
  "returns (mails_added dir n k aid) (seed_mails dir aid ms) (\<lambda>_. mails_added dir n (k + length ms) aid)"
proof (induction ms arbitrary: k)
  case (Cons m ms)
  from yields_bind [OF returns_seed_mail Cons.IH [of "Suc k"]] show ?case by simp
qed (auto intro: yields_return)

lemma returns_attachment_mail:
  "returns (mails_added dir n k aid) (seed_attachment_mail parse dir aid) (\<lambda>_. mails_added dir n (Suc k) aid)"
proof -
  let ?ready = "\<lambda>key s. mails_added dir n k aid s \<and> files (sy_fs s) (eml_path dir key) \<noteq> None"
  have w: "returns (mails_added dir n k aid) (on_disk (write_file_async_with_permissions (eml_path dir key) content))
      (\<lambda>_. ?ready key)" for key content
  proof (rule yields_disk)
    fix s r \<sigma>
    assume p: "mails_added dir n k aid s"
      and run: "write_file_async_with_permissions (eml_path dir key) content (sy_fs s) = (r, \<sigma>)"
    show "case r of Inl _ \<Rightarrow> True | Inr _ \<Rightarrow> ?ready key (s\<lparr>sy_fs := \<sigma>\<rparr>)"
    proof (cases r)
      case (Inr u)
      with run have run: "write_file_async_with_permissions (eml_path dir key) content (sy_fs s) = (Inr (), \<sigma>)" by simp
      from p Inr write_files [OF run] has_file_written [OF run] show ?thesis by (auto simp: mails_added_def list_all_iff)
    qed simp
  qed
  have i: "returns (?ready key) (on_pool (insert_email_with_attachments eid is now aid sender subject key (Some now) mid None atts))
      (\<lambda>_. mails_added dir n (Suc k) aid)" for key eid "is" now sender subject mid atts
    by (rule yields_pool)
      (auto simp: mails_added_def new_email_def has_file_def [abs_def] split: sum.splits dest!: store_mail_tables)
  have u: "returns (?ready key) (\<lambda>s. case fresh_uuids m s of (is, s) \<Rightarrow> (Ok is, s)) (\<lambda>_. ?ready key)" for key m
    by (auto simp: yields_def mails_added_def has_file_def [abs_def] dest!: fresh_uuids_sys split: prod.splits)
  have f: "returns (?ready key) new_v4 (\<lambda>_. ?ready key)" for key by (rule yields_new_v4) simp
  have g: "returns (mails_added dir n k aid) new_v4 (\<lambda>_. mails_added dir n k aid)" by (rule yields_new_v4) simp
  have e: "returns (mails_added dir n (Suc k) aid) (seeding_return ()) (\<lambda>_. mails_added dir n (Suc k) aid)"
    by (rule yields_return)
  show ?thesis
    unfolding seed_attachment_mail_def
    by (cases "extract_full_metadata parse mock_eml_content ''files@example.com''")
      (simp, rule yields_bind [OF g], rule yields_bind [OF w], rule yields_bind [OF yields_now], rule yields_bind [OF f],
        rule yields_bind [OF u], rule yields_bind [OF i], rule e)
qed

text \<open>The accounts, when every step succeeds.\<close>

lemma query_one_OkD:
  "query_one h d = (Inr a, d') \<Longrightarrow> \<exists>fs rest. d' = d\<lparr>db_faults := fs\<rparr> \<and> h d' = a # rest"
  by (auto simp: query_one_def stmt_Ok_iff split: list.splits)

lemma user_found:
  "returns (\<lambda>s. K (length (t_emails (sy_db s)))) (seed_user hash email password)
     (\<lambda>_ s. K (length (t_emails (sy_db s))) \<and> has us_email (t_users (sy_db s)) email)"
proof -
  have q: "returns (\<lambda>s. K (length (t_emails (sy_db s)))) (on_pool (user_id_of_email email))
     (\<lambda>_ s. K (length (t_emails (sy_db s))) \<and> has us_email (t_users (sy_db s)) email)"
  proof (rule yields_pool)
    fix s :: sys and r :: "sqlx_error + uuid" and d'
    assume k: "K (length (t_emails (sy_db s)))" and run: "user_id_of_email email (sy_db s) = (r, d')"
    show "case r of Inl _ \<Rightarrow> True | Inr _ \<Rightarrow> K (length (t_emails (sy_db (s\<lparr>sy_db := d'\<rparr>)))) \<and>
        has us_email (t_users (sy_db (s\<lparr>sy_db := d'\<rparr>))) email"
    proof (cases r)
      case (Inr i)
      from query_one_OkD [OF run [unfolded Inr user_id_of_email_def]] k show ?thesis
        by (fastforce simp: Inr has_iff Cons_eq_map_conv dest!: filter_ConsD)
    qed simp
  qed
  have u: "returns (\<lambda>s. K (length (t_emails (sy_db s)))) (on_pool (upsert_test_user u)) (\<lambda>_ s. K (length (t_emails (sy_db s))))" for u
    by (rule yields_pool) (auto simp: upsert_test_user_def stmt_Ok_iff set_users_def split: sum.splits if_splits option.splits)
  show ?thesis
  proof (cases "hash password")
    case (Inr h)
    then show ?thesis
      unfolding seed_user_def
      by (simp, intro yields_bind [OF yields_new_v4] yields_bind [OF yields_now] yields_bind [OF u] q) simp
  qed (simp add: seed_user_def yields_def seeding_bind_def split: prod.splits sum.splits)
qed

text \<open>What holds of users and mails while the domain and the alias are made.\<close>

definition begun :: "string \<Rightarrow> nat \<Rightarrow> db \<Rightarrow> bool" where
  "begun email n d \<longleftrightarrow> length (t_emails d) = n \<and> has us_email (t_users d) email"

lemma begun_simps [simp]:
  "begun email n (d\<lparr>db_faults := fs\<rparr>) = begun email n d" "begun email n (d\<lparr>t_domains := ms\<rparr>) = begun email n d"
  "begun email n (d\<lparr>t_aliases := as\<rparr>) = begun email n d" "on_tables (begun email n)"
  by (simp_all add: begun_def on_tables_def)

lemma domain_made: "returns (\<lambda>s. begun email n (sy_db s)) seed_domain (\<lambda>i s. begun email n (sy_db s) \<and> test_domain_is i (sy_db s))"
proof -
  have q: "returns (\<lambda>s. begun email n (sy_db s)) (on_pool (domain_id_of_name test_domain))
     (\<lambda>i s. begun email n (sy_db s) \<and> test_domain_is i (sy_db s))"
    by (rule yields_pool)
      (auto simp: domain_id_of_name_def test_domain_is_def split: sum.splits list.splits dest!: query_one_OkD)
  have w: "returns (\<lambda>s. begun email n (sy_db s)) (on_pool (insert_domain_or_nothing m)) (\<lambda>_ s. begun email n (sy_db s))" for m
    by (rule yields_pool) (auto simp: insert_domain_or_nothing_def stmt_Ok_iff split: sum.splits if_splits option.splits)
  show ?thesis
    unfolding seed_domain_def
    by (intro yields_bind [OF yields_new_v4] yields_bind [OF yields_now] yields_bind [OF w] q) simp
qed

definition alias_made :: "string \<Rightarrow> nat \<Rightarrow> uuid \<Rightarrow> db \<Rightarrow> bool" where
  "alias_made email n aid d \<longleftrightarrow> length (t_emails d) = n \<and> settled email d \<and>
     list_ex (\<lambda>a. al_id a = aid \<and> al_subdomain a = test_subdomain) (t_aliases d)"

lemma alias_found:
  assumes "query_one (\<lambda>d. map al_id (filter (\<lambda>a. alias_address a = (test_subdomain, i)) (t_aliases d))) d = (Inr aid, d')"
    and "begun email n d" "test_domain_is i d"
  shows "alias_made email n aid d'"
proof -
  from query_one_OkD [OF assms(1)] obtain fs rest where d': "d' = d\<lparr>db_faults := fs\<rparr>"
    and m: "map al_id (filter (\<lambda>a. alias_address a = (test_subdomain, i)) (t_aliases d')) = aid # rest" by auto
  from m obtain a as where "filter (\<lambda>a. alias_address a = (test_subdomain, i)) (t_aliases d') = a # as" "al_id a = aid"
    by (auto simp: Cons_eq_map_conv)
  then have a: "a \<in> set (t_aliases d')" "alias_address a = (test_subdomain, i)" "al_id a = aid" by (auto dest!: filter_ConsD)
  from assms(3) obtain m where "take 1 (filter (\<lambda>m. dm_name m = test_domain) (t_domains d)) = [m]" "dm_id m = i"
    by (auto simp: test_domain_is_def)
  with a assms(2) show ?thesis
    by (auto simp: alias_made_def settled_def begun_def d' has_iff list_ex_iff alias_address_def intro!: bexI [of _ a])
qed

lemma alias_set_up:
  "returns (\<lambda>s. begun email n (sy_db s) \<and> test_domain_is i (sy_db s)) (seed_alias u i target)
     (\<lambda>aid s. alias_made email n aid (sy_db s))"
proof -
  let ?P = "\<lambda>s. begun email n (sy_db s) \<and> test_domain_is i (sy_db s)"
  have q: "returns ?P (on_pool (alias_id_of_address test_subdomain i)) (\<lambda>aid s. alias_made email n aid (sy_db s))"
    by (rule yields_pool) (auto simp: alias_id_of_address_def alias_found split: sum.split)
  have w: "returns ?P (on_pool (insert_alias_or_nothing a)) (\<lambda>_. ?P)" for a
    by (rule yields_pool)
      (auto simp: insert_alias_or_nothing_def stmt_Ok_iff add_alias_def test_domain_is_def split: sum.splits if_splits option.splits)
  show ?thesis
    unfolding seed_alias_def
    by (intro yields_bind [OF yields_new_v4] yields_bind [OF yields_now] yields_bind [OF w] q) simp
qed

lemma seeding_bind_Ok_iff:
  "seeding_bind m f s = (Inr b, s') \<longleftrightarrow> (\<exists>a s1. m s = (Inr a, s1) \<and> f a s1 = (Inr b, s'))"
  by (auto simp: seeding_bind_def split: prod.splits sum.splits)

lemma returnsD: "returns P m Q \<Longrightarrow> P s \<Longrightarrow> m s = (Inr a, s') \<Longrightarrow> Q a s'"
  using yieldsD [of P m Q "\<lambda>_. True" s "Inr a" s'] by simp

lemma seed_data_run:
  assumes "seed_data env hash parse s = (Inr (), s')"
  shows "settled (seed_email env) (sy_db s') \<and>
    list_ex (\<lambda>a. al_subdomain a = test_subdomain \<and>
      mails_added (seed_storage_dir env) (length (t_emails (sy_db s))) 6 (al_id a) s')
     (t_aliases (sy_db s'))"
proof -
  let ?email = "seed_email env" and ?dir = "seed_storage_dir env"
  let ?n = "length (t_emails (sy_db s))"
  from assms obtain s1 uid s2 did s3 aid s4 s5 where
    1: "on_disk (create_dir_all_async_with_permissions ?dir) s = (Inr (), s1)" and
    2: "seed_user hash ?email (unwrap_or ''admin123'' (env ''ADMIN_PASSWORD'')) s1 = (Inr uid, s2)" and
    3: "seed_domain s2 = (Inr did, s3)" and 4: "seed_alias uid did ?email s3 = (Inr aid, s4)" and
    5: "seed_mails ?dir aid test_mails s4 = (Inr (), s5)" and 6: "seed_attachment_mail parse ?dir aid s5 = (Inr (), s')"
    by (auto simp: seed_data_def Let_def seeding_bind_Ok_iff)
  from yieldsD [OF yields_db_only [of "\<lambda>d. length (t_emails d) = ?n"] refl 1] have n: "length (t_emails (sy_db s1)) = ?n" by simp
  from returnsD [OF user_found [where K = "\<lambda>k. k = ?n"] n 2] have "begun ?email ?n (sy_db s2)" by (simp add: begun_def)
  from returnsD [OF domain_made this 3] have d: "begun ?email ?n (sy_db s3) \<and> test_domain_is did (sy_db s3)" .
  from returnsD [OF alias_set_up d 4] have a: "alias_made ?email ?n aid (sy_db s4)" .
  then have "mails_added ?dir ?n 0 aid s4" and k: "seeded_as (sy_db s4) ?email (sy_db s4)"
    by (simp_all add: alias_made_def mails_added_def seeded_as_def)
  from returnsD [OF returns_seed_mails this(1) 5] have "mails_added ?dir ?n 5 aid s5" by (simp add: test_mails_def numeral_eq_Suc)
  from returnsD [OF returns_attachment_mail this 6] have m: "mails_added ?dir ?n 6 aid s'" by simp
  from yieldsD [OF remains_seed_mails k 5] have "seeded_as (sy_db s4) ?email (sy_db s5)" by simp
  from yieldsD [OF remains_seed_attachment_mail this 6] have "seeded_as (sy_db s4) ?email (sy_db s')" by simp
  with a m show ?thesis by (auto simp: seeded_as_def accounts_def alias_made_def list_ex_iff)
qed

text \<open>A run that ends well has set up a mailbox: the user, the domain and the alias of the test data are there, and
  the database has six mails more than before, each of that alias and each with its file on disk.\<close>

theorem seeding_sets_up_a_mailbox:
  assumes "seed_data env hash parse s = (Inr (), s')"
  shows "settled (seed_email env) (sy_db s') \<and>
    list_ex (\<lambda>a. al_subdomain a = test_subdomain \<and>
      mails_added (seed_storage_dir env) (length (t_emails (sy_db s))) 6 (al_id a) s')
     (t_aliases (sy_db s'))"
  by (rule seed_data_run [OF assms])

text \<open>A run on an empty database, and a second one.\<close>

definition seed_env :: environment where
  "seed_env = (\<lambda>_. None)"

definition seed_hash :: "string \<Rightarrow> string + string" where
  "seed_hash password = Ok (''hashed-'' @ password)"

definition no_parser :: mail_parser where
  "no_parser = (\<lambda>_. None)"

definition seed_sys :: sys where
  "seed_sys = \<lparr>sy_db = empty_db Sqlite, sy_fs = empty_fs, sy_now = 9, sy_uuids = (\<lambda>n. replicate n (CHR ''i'')), sy_next_uuid = 0,
     sy_connects = [], sy_used = []\<rparr>"

lemmas seed_run_simps = seeding_bind_def seeding_return_def new_v4_def now_utc_def fresh_uuid_def on_pool_def on_db_def on_disk_def
  on_fs_def stmt_def query_one_def insert_stmt_def seed_hash_def seed_user_def seed_domain_def seed_alias_def upsert_test_user_def
  user_id_of_email_def user_constraints_def as_admin_def new_user_def insert_domain_or_nothing_def domain_id_of_name_def
  domain_constraints_def plain_domain_def insert_alias_or_nothing_def alias_constraints_def new_alias_def add_alias_def
  alias_address_def alias_id_of_address_def create_dir_all_async_with_permissions_def io_bind_def io_return_def syscall_def

lemmas seed_mail_simps = seed_mail_def seed_row_def insert_email_row_def email_constraints_def new_email_def add_email_def
  write_file_async_with_permissions_def fs_write_def set_permissions_def store_file_def chmod_def Let_def

lemma seed_run: "\<exists>s'. seed_data seed_env seed_hash no_parser seed_sys = (Inr (), s')"
  by (simp add: seed_data_def seed_email_def seed_storage_dir_def seed_env_def seed_sys_def empty_db_def empty_fs_def seed_run_simps
    seed_mail_simps test_mails_def seed_attachment_mail_def extract_full_metadata_def no_parser_def
    insert_email_with_attachments_def transaction_def bump_thread_def exec_def views_by_id_def received_views_def views_of_def alias_domains_def
    view_email_def db_bind_def db_return_def)

theorem seeding_sets_up_a_mailbox_witness:
  "case seed_data seed_env seed_hash no_parser seed_sys of
     (Inr _, s') \<Rightarrow> settled ''admin@maileroo.test'' (sy_db s') \<and> length (t_emails (sy_db s')) = 6
   | (Inl _, _) \<Rightarrow> False"
proof -
  obtain s' where run: "seed_data seed_env seed_hash no_parser seed_sys = (Inr (), s')" using seed_run by blast
  have "seed_email seed_env = ''admin@maileroo.test''" "t_emails (sy_db seed_sys) = []"
    by (simp_all add: seed_email_def seed_env_def seed_sys_def empty_db_def)
  with seeding_sets_up_a_mailbox [OF run] show ?thesis by (auto simp: run list_ex_iff mails_added_def)
qed

theorem seeding_again_keeps_accounts_witness:
  "accounts (sy_db (snd (seed_data seed_env seed_hash no_parser (snd (seed_data seed_env seed_hash no_parser seed_sys))))) =
   accounts (sy_db (snd (seed_data seed_env seed_hash no_parser seed_sys)))"
proof -
  obtain s' where run: "seed_data seed_env seed_hash no_parser seed_sys = (Inr (), s')" using seed_run by blast
  have "settled (seed_email seed_env) (sy_db s')" using seed_data_run [OF run] by blast
  from seeding_again_keeps_accounts [OF this, of seed_hash no_parser] show ?thesis by (simp add: run)
qed

end
