(* ===== verification/Server_Run.thy ===== *)
theory Server_Run
  imports Server Outbound_Queue
begin

text \<open>
  The running process: \<open>MailerooServer::start\<close> and the background tasks of \<open>src/src/server.rs\<close>, the accept loop of
  \<open>run_server\<close> (\<open>src/src/inbound/mod.rs\<close>), and \<open>src/src/main.rs\<close> with the exit code of the process.
\<close>

section \<open>The accept loop\<close>

text \<open>What \<open>accept\<close> gives, with the block list as it is at that moment.  A session is spawned for every address that
  is not blocked; an error ends the loop by its early return.\<close>

type_synonym accepted = "io_error + ip_addr \<times> blocklist"

fun accept_loop :: "accepted list \<Rightarrow> io_error option \<times> ip_addr list" where
  "accept_loop [] = (None, [])"
| "accept_loop (Inl e # events) = (Some e, [])"
| "accept_loop (Inr (peer, bl) # events) = (case accept_loop events of
     (ending, sessions) \<Rightarrow> (ending, if is_blocked peer bl then sessions else peer # sessions))"

definition smtp_listener :: "io_error + unit \<Rightarrow> accepted list \<Rightarrow> io_error option \<times> ip_addr list" where
  "smtp_listener bound events = (case bound of Inl e \<Rightarrow> (Some e, []) | Inr _ \<Rightarrow> accept_loop events)"

section \<open>The two servers\<close>

text \<open>\<open>tokio::select!\<close> ends with whichever server ends first and logs its error; with none ended, the process runs.  A
  panic of the web server is one of the process, unless the SMTP server had ended before the web server was polled.\<close>

datatype start_result = Finished | Panicked string

definition web_ending :: "'c web_mode \<Rightarrow> string option \<Rightarrow> string option" where
  "web_ending mode web = (case mode of ServeBadAddress \<Rightarrow> Some ''invalid socket address syntax'' | _ \<Rightarrow> web)"

definition start :: "'c web_mode \<Rightarrow> io_error option \<Rightarrow> bool \<Rightarrow> string option \<Rightarrow> start_result option" where
  "start mode smtp smtp_first web =
     (if smtp \<noteq> None \<and> smtp_first then Some Finished
      else (case mode of
          ServePanic msg \<Rightarrow> Some (Panicked msg)
        | _ \<Rightarrow> if smtp \<noteq> None \<or> web_ending mode web \<noteq> None then Some Finished else None))"

text \<open>\<open>main\<close> answers with the error of \<open>bootstrap\<close>, which the runtime turns into exit code 1; a panic exits with 101.\<close>

definition exit_code :: "boot_error + start_result option \<Rightarrow> nat option" where
  "exit_code r = (case r of
     Inl (BootPanic _) \<Rightarrow> Some 101
   | Inl _ \<Rightarrow> Some 1
   | Inr None \<Rightarrow> None
   | Inr (Some Finished) \<Rightarrow> Some 0
   | Inr (Some (Panicked _)) \<Rightarrow> Some 101)"

definition main_process ::
  "'c boot_env \<Rightarrow> (string \<Rightarrow> bool) \<Rightarrow> io_error + unit \<Rightarrow> accepted list \<Rightarrow> bool \<Rightarrow> string option \<Rightarrow> sys
   \<Rightarrow> (nat option \<times> ip_addr list) \<times> sys" where
  "main_process be socket_addr_ok bound events smtp_first web s =
     (case bootstrap be s of
        (Inl e, s) \<Rightarrow> ((exit_code (Inl e), []), s)
      | (Inr srv, s) \<Rightarrow> (case smtp_listener bound events of (smtp, sessions) \<Rightarrow>
          ((exit_code (Inr (start (web_mode_of socket_addr_ok srv (ml_tls_acceptor srv)) smtp smtp_first web)), sessions), s)))"

section \<open>One failed accept\<close>

lemma accept_loop_stops:
  "accept_loop (map Inr peers @ Inl e # later) =
     (Some e, map fst (filter (\<lambda>(peer, bl). \<not> is_blocked peer bl) peers))"
  by (induction peers) auto

text \<open>One failed \<open>accept\<close> ends the whole process, and ends it as a success: the connections that come later get no
  session, the web server stops too, and the process exits with code 0, so that a supervisor which restarts on failure
  does not restart it.\<close>

theorem one_failed_accept_ends_the_process:
  assumes run: "bootstrap be s = (Inr srv, s')"
    and web: "case web_mode_of socket_addr_ok srv (ml_tls_acceptor srv) of ServePanic _ \<Rightarrow> False | _ \<Rightarrow> True"
  shows "main_process be socket_addr_ok (Ok ()) (map Inr peers @ Inl e # later) smtp_first None s =
    ((Some 0, map fst (filter (\<lambda>(peer, bl). \<not> is_blocked peer bl) peers)), s')"
  using web by (cases "web_mode_of socket_addr_ok srv (ml_tls_acceptor srv)")
    (simp_all add: main_process_def run smtp_listener_def accept_loop_stops start_def exit_code_def)

text \<open>A port that cannot be bound ends the process in the same way.\<close>

theorem unbound_port_exits_with_success:
  assumes run: "bootstrap be s = (Inr srv, s')"
    and web: "case web_mode_of socket_addr_ok srv (ml_tls_acceptor srv) of ServePanic _ \<Rightarrow> False | _ \<Rightarrow> True"
  shows "main_process be socket_addr_ok (Err e) events smtp_first None s = ((Some 0, []), s')"
  using web by (cases "web_mode_of socket_addr_ok srv (ml_tls_acceptor srv)")
    (simp_all add: main_process_def run smtp_listener_def start_def exit_code_def)

section \<open>The background tasks\<close>

text \<open>The periodic tasks that \<open>bootstrap\<close> spawns, with their periods in seconds.  An error of a tick is logged.\<close>

datatype periodic_task = QueueDaemon | DailyCleanup

definition period :: "periodic_task \<Rightarrow> nat" where
  "period task = (case task of QueueDaemon \<Rightarrow> 30 | DailyCleanup \<Rightarrow> 86400)"

definition queue_daemon_tick :: "outbound \<Rightarrow> string \<Rightarrow> sys \<Rightarrow> sys" where
  "queue_daemon_tick ob storage_dir s = snd (process_queue_tick ob storage_dir s)"

definition periodic_tick :: "outbound \<Rightarrow> 'c maileroo_server \<Rightarrow> periodic_task \<Rightarrow> sys \<Rightarrow> sys" where
  "periodic_tick ob srv task s = (case task of
     QueueDaemon \<Rightarrow> queue_daemon_tick ob (ml_storage_dir srv) s
   | DailyCleanup \<Rightarrow> cleanup_tick (ml_retention_days srv) (ml_storage_dir srv) s)"

text \<open>A tick at some time, with what the network will answer.\<close>

definition background_step :: "outbound \<Rightarrow> 'c maileroo_server \<Rightarrow> sys \<Rightarrow> periodic_task \<times> time \<times> (string + conn) list \<Rightarrow> sys" where
  "background_step ob srv s = (\<lambda>(task, now, answers). periodic_tick ob srv task (s\<lparr>sy_now := now, sy_connects := answers\<rparr>))"

lemma queue_daemon_tick_wf: "db_wf (sy_db s) \<Longrightarrow> db_wf (sy_db (queue_daemon_tick ob dir s))"
proof -
  assume wf: "db_wf (sy_db s)"
  obtain r s1 where f: "on_db (fetch_next_retryable_jobs (sy_now s) 10) s = (r, s1)" by fastforce
  have "keeps db_wf (fetch_next_retryable_jobs (sy_now s) 10)"
    unfolding fetch_next_retryable_jobs_def by (intro keeps_rules) simp
  from on_db_keeps [OF this wf] f have s1: "db_wf (sy_db s1)" by simp
  then have "db_wf (sy_db (foldl (\<lambda>s job. process_job ob dir job s) s1 jobs))" for jobs
    by (intro process_jobs_keeps [where P = db_wf] keeps_queue) simp_all
  with s1 f show ?thesis by (simp add: queue_daemon_tick_def process_queue_tick_def split: sum.split)
qed

lemma fold_removals_db: "sy_db (fold (remove_old_body dir) ks s) = sy_db s"
  by (induction ks arbitrary: s) (simp_all add: remove_old_body_def run_removal_def)

lemma cleanup_tick_wf: "db_wf (sy_db s) \<Longrightarrow> db_wf (sy_db (cleanup_tick retention dir s))"
proof -
  assume wf: "db_wf (sy_db s)"
  obtain r s1 where f: "on_db (delete_old_emails (sy_now s) retention) s = (r, s1)" by fastforce
  from on_db_keeps [OF keeps_delete_old_emails wf] f have "db_wf (sy_db s1)" by (metis snd_conv)
  with wf f show ?thesis by (simp add: cleanup_tick_def fold_removals_db split: sum.split)
qed

interpretation background: machine "background_step ob srv" "\<lambda>s. db_wf (sy_db s)" for ob srv
  by unfold_locales
    (auto simp: background_step_def periodic_tick_def queue_daemon_tick_wf cleanup_tick_wf split: periodic_task.split)

text \<open>What the server relies on of the drivers: a database they open, migrated, satisfies the constraints it declares.\<close>

definition drivers_sound :: "db_drivers \<Rightarrow> environment \<Rightarrow> bool" where
  "drivers_sound dd env \<longleftrightarrow> (\<forall>url d d'. init_pool dd url = Ok d \<longrightarrow> run_migrations dd env d = Ok d' \<longrightarrow> db_wf d')"

text \<open>The tables of a server that starts are well-formed and stay so: under every interleaving of the ticks of the
  queue daemon and of the daily clean-up, at whatever times, with whatever answers of the network and whatever
  statements and file operations fail, no constraint of the schema is broken.\<close>

theorem background_keeps_tables_sound:
  assumes run: "bootstrap be s = (Inr srv, s')" and drivers: "drivers_sound (be_drivers be) (be_environment be)"
  shows "db_wf (sy_db (run_steps (background_step ob srv) s' ticks))"
proof (rule background.run_inv)
  let ?env = "be_environment be" and ?admin = "admin_config_from_env (be_environment be)"
  from run obtain t where "boot_database be (get_config ?env ''DATABASE_URL'' []) t = (Ok (), s')"
    by (auto simp: bootstrap_def Let_def split: sum.splits prod.splits if_splits)
  then obtain d0 d u t2 e where d: "init_pool (be_drivers be) (get_config ?env ''DATABASE_URL'' []) = Ok d0"
      "run_migrations (be_drivers be) ?env d0 = Ok d"
    and u: "fresh_uuid (t\<lparr>sy_db := d\<rparr>) = (u, t2)"
    and seed: "seed_admin_on_startup (be_hash_password be) u (sy_now t2) (ac_email ?admin) (ac_password ?admin) (sy_db t2) = (Ok (), e)"
    and s': "s' = t2\<lparr>sy_db := e\<rparr>"
    by (auto simp: boot_database_def Let_def split: sum.splits prod.splits)
  from d drivers have "db_wf d" by (auto simp: drivers_sound_def)
  with u have "db_wf (sy_db t2)" by (auto simp: fresh_uuid_def)
  then have "db_wf e"
    using seed by (auto simp: seed_admin_on_startup_def Let_def dest: keepsD [OF keeps_user_updates(3)] split: sum.splits prod.splits)
  with s' show "db_wf (sy_db s')" by simp
qed

text \<open>C40: A server that starts has what it needs, and its tables stay sound. The required settings are there, the
  storage directory exists, the administrator is in the table with the configured password, which has eight characters
  or more; and under every interleaving of the ticks of the queue daemon and of the daily clean-up, at whatever times,
  with whatever answers of the network and whatever statements and file operations fail, no constraint of the schema is
  broken.\<close>

theorem started_server_is_ready_and_stays_sound:
  assumes run: "bootstrap be s = (Inr srv, s')" and drivers: "drivers_sound (be_drivers be) (be_environment be)"
  shows "missing_envs (get_config (be_environment be) ''DATABASE_URL'' []) (ml_srs_secret srv) (ml_identity_domain srv) = [] \<and>
    path_exists (ml_storage_dir srv) (sy_fs s') \<and>
    8 \<le> length (ac_password (admin_config_from_env (be_environment be))) \<and>
    list_ex (\<lambda>u. us_email u = trim (ac_email (admin_config_from_env (be_environment be))) \<and> us_is_admin u \<and>
      be_hash_password be (ac_password (admin_config_from_env (be_environment be))) = Ok (us_password_hash u)) (t_users (sy_db s')) \<and>
    db_wf (sy_db (run_steps (background_step ob srv) s' ticks))"
  using started_server_is_ready [OF run] background_keeps_tables_sound [OF run drivers] by blast

section \<open>Witnesses\<close>

lemma plain_boots:
  "\<exists>srv s'. bootstrap (sample_boot (\<lambda>_. None)) storage_sys = (Inr srv, s') \<and>
     web_mode_of (\<lambda>_. True) srv (ml_tls_acceptor srv) = ServeHttp"
proof -
  have "boot_acceptor (sample_boot (\<lambda>_. None)) ''x.org'' = Ok None"
    by (simp add: boot_acceptor_def sample_boot_simps sample_paths)
  from sample_boots_with [OF this] show ?thesis by (fastforce simp: web_mode_of_def)
qed

definition open_list :: blocklist where
  "open_list = \<lparr>bl_ips = {}, bl_subnets = [], bl_path = ''b''\<rparr>"

theorem one_failed_accept_ends_the_process_witness:
  "fst (main_process (sample_boot (\<lambda>_. None)) (\<lambda>_. True) (Ok ())
     [Inr (V4 1, open_list), Inl (OtherIo ''too many open files''), Inr (V4 2, open_list)] True None storage_sys) = (Some 0, [V4 1])"
proof -
  obtain srv s' where run: "bootstrap (sample_boot (\<lambda>_. None)) storage_sys = (Inr srv, s')"
    and m: "web_mode_of (\<lambda>_. True) srv (ml_tls_acceptor srv) = ServeHttp" using plain_boots by blast
  have "case web_mode_of (\<lambda>_. True) srv (ml_tls_acceptor srv) of ServePanic _ \<Rightarrow> False | _ \<Rightarrow> True" by (simp add: m)
  from one_failed_accept_ends_the_process [OF run this, of "[(V4 1, open_list)]" "OtherIo ''too many open files''" "[Inr (V4 2, open_list)]" True]
  show ?thesis by (simp add: open_list_def is_blocked_def)
qed

theorem unbound_port_exits_with_success_witness:
  "fst (main_process (sample_boot (\<lambda>_. None)) (\<lambda>_. True) (Err (OtherIo ''address in use'')) [] True None storage_sys) = (Some 0, [])"
proof -
  obtain srv s' where run: "bootstrap (sample_boot (\<lambda>_. None)) storage_sys = (Inr srv, s')"
    and m: "web_mode_of (\<lambda>_. True) srv (ml_tls_acceptor srv) = ServeHttp" using plain_boots by blast
  have "case web_mode_of (\<lambda>_. True) srv (ml_tls_acceptor srv) of ServePanic _ \<Rightarrow> False | _ \<Rightarrow> True" by (simp add: m)
  from unbound_port_exits_with_success [OF run this, of "OtherIo ''address in use''" "[]" True] show ?thesis by simp
qed

theorem started_server_is_ready_and_stays_sound_witness:
  "\<exists>srv s'. bootstrap (sample_boot (\<lambda>_. None)) storage_sys = (Inr srv, s') \<and>
     list_ex (\<lambda>u. us_email u = ''root@x.org'' \<and> us_is_admin u \<and> us_password_hash u = ''#password'') (t_users (sy_db s')) \<and>
     db_wf (sy_db (run_steps (background_step sample_ob srv) s' [(DailyCleanup, 90000, []), (QueueDaemon, 90030, [Err ''refused''])]))"
proof -
  obtain srv s' where run: "bootstrap (sample_boot (\<lambda>_. None)) storage_sys = (Inr srv, s')" using plain_boots by blast
  have d: "drivers_sound (be_drivers (sample_boot (\<lambda>_. None))) (be_environment (sample_boot (\<lambda>_. None)))"
    by (auto simp: drivers_sound_def sample_boot_def init_pool_def run_migrations_def sample_wf split: if_splits backend.splits)
  have t: "trim ''root@x.org'' = ''root@x.org''" by (simp add: trim_eval char_eval)
  note started = started_server_is_ready_and_stays_sound [OF run d, of sample_ob "[(DailyCleanup, 90000, []), (QueueDaemon, 90030, [Err ''refused''])]"]
  from started have "list_ex (\<lambda>u. us_email u = ''root@x.org'' \<and> us_is_admin u \<and> us_password_hash u = ''#password'') (t_users (sy_db s'))"
    by (auto simp: sample_boot_simps sample_config admin_config_from_env_def t list_ex_iff)
  with started run show ?thesis by blast
qed

end
