(* ===== verification/Web_Accounts.thy ===== *)
theory Web_Accounts
  imports Web_Auth Server_Run
begin

text \<open>
  Passwords from end to end: the functions of \<open>src/src/web/auth.rs\<close> over the crate \<open>argon2\<close>, and what registration,
  start-up and login make of them together.  The crate is a parameter; what is relied on is that a hash it has made can
  be read again and verifies the password it was made of.
\<close>

section \<open>Hashing\<close>

text \<open>\<open>Argon2::hash_password\<close> with a salt, \<open>PasswordHash::new\<close> and \<open>Argon2::verify_password\<close>.\<close>

record 'p argon2_crate =
  a2_hash :: "string \<Rightarrow> string \<Rightarrow> string + string"
  a2_parse :: "string \<Rightarrow> string + 'p"
  a2_verify :: "string \<Rightarrow> 'p \<Rightarrow> bool"

definition hash_password :: "'p argon2_crate \<Rightarrow> string \<Rightarrow> string \<Rightarrow> string + string" where
  "hash_password crate salt password = (case a2_hash crate salt password of Inr h \<Rightarrow> Ok h | Inl e \<Rightarrow> Err e)"

definition verify_password :: "'p argon2_crate \<Rightarrow> string \<Rightarrow> string \<Rightarrow> bool" where
  "verify_password crate password hash =
     (case a2_parse crate hash of Inl _ \<Rightarrow> False | Inr parsed_hash \<Rightarrow> a2_verify crate password parsed_hash)"

text \<open>The hash for addresses that nobody has is made once per process, in the cell \<open>DUMMY_PASSWORD_HASH\<close>; the left
  side is the panic of its \<open>expect\<close>.\<close>

definition dummy_password_hash :: "'p argon2_crate \<Rightarrow> string \<Rightarrow> string option \<Rightarrow> (string + string) \<times> string option" where
  "dummy_password_hash crate salt cell = (case cell of
     Some h \<Rightarrow> (Ok h, cell)
   | None \<Rightarrow> (case hash_password crate salt ''dummy-password-for-constant-time-login'' of
       Inl _ \<Rightarrow> (Err ''failed to generate dummy Argon2 hash'', None)
     | Inr h \<Rightarrow> (Ok h, Some h)))"

lemma dummy_is_made_once:
  "dummy_password_hash crate salt cell = (Ok h, cell') \<Longrightarrow> dummy_password_hash crate salt' cell' = (Ok h, cell')"
  by (auto simp: dummy_password_hash_def split: option.splits sum.splits)

text \<open>What the handlers are given, with the salt of the next hash and the hash in the cell.\<close>

definition argon_of :: "'p argon2_crate \<Rightarrow> string \<Rightarrow> string \<Rightarrow> argon_lib" where
  "argon_of crate salt dummy =
     \<lparr>argon_verify = verify_password crate, argon_hash = (\<lambda>password. ok_opt (hash_password crate salt password)), argon_dummy = dummy\<rparr>"

definition argon2_documented :: "'p argon2_crate \<Rightarrow> bool" where
  "argon2_documented crate \<longleftrightarrow>
     (\<forall>salt password h. a2_hash crate salt password = Ok h \<longrightarrow> (\<exists>p. a2_parse crate h = Ok p \<and> a2_verify crate password p))"

lemma hash_verifies:
  "argon2_documented crate \<Longrightarrow> hash_password crate salt password = Ok h \<Longrightarrow> verify_password crate password h"
  unfolding argon2_documented_def hash_password_def verify_password_def by (fastforce split: sum.splits)

section \<open>Login with a known row\<close>

text \<open>What identifies an account at login.\<close>

definition credentials :: "db \<Rightarrow> (uuid \<times> string \<times> string) list" where
  "credentials d = map (\<lambda>u. (us_id u, us_email u, us_password_hash u)) (t_users d)"

lemma credentials_row: "(i, e, h) \<in> set (credentials d) \<longleftrightarrow> (\<exists>u\<in>set (t_users d). us_id u = i \<and> us_email u = e \<and> us_password_hash u = h)"
  by (auto simp: credentials_def)

text \<open>A login of an address that is there: the row is found, so the outcome is the length and the hash.\<close>

lemma login_with_row:
  assumes wf: "db_wf d" "db_faults d = []" and ss: "wn_faults ss = []"
    and row: "(i, email, h) \<in> set (credentials d)"
  shows "case login_handler lib env fresh csrf now rq email password (ss, d) of (out, ss', d') \<Rightarrow>
    if length password \<le> 128 \<and> argon_verify lib password h
    then out = LoggedIn (csrf_cookie_header env csrf) \<and> wn_user_id ss' = Some i \<and> wn_id ss' = fresh
    else out = LoginRefused invalid_credentials \<and> ss' = ss \<and> d' = d"
proof -
  from row obtain u where u: "u \<in> set (t_users d)" "us_id u = i" "us_email u = email" "us_password_hash u = h"
    by (auto simp: credentials_row)
  have "filter (\<lambda>v. us_email v = us_email u) (t_users d) = [u]"
    using wf(1) u(1) by (intro uniq_filter_eq) (simp_all add: wf_defs)
  with u wf(2) have g: "get_user_by_email email d = (Inr (Some u), d)"
    by (simp add: get_user_by_email_def no_fault_simps)
  show ?thesis
    by (cases "argon_verify lib password h")
      (simp_all add: login_handler_def g verify_password_constant_time_def establish_no_fault [OF ss] u)
qed

section \<open>Registration\<close>

lemma update_last_login_credentials: "credentials (snd (update_last_login now i ip d)) = credentials d"
  by (auto simp: update_last_login_def exec_def stmt_def set_users_def update_rows_def Let_def credentials_def
      split: if_splits list.splits)

text \<open>What a registration that succeeds has checked and stored.\<close>

lemma registered_row:
  assumes "register_handler lib dns env fresh_user i csrf now rq email password (ss, d) = (Registered cookie, ss', d')"
  shows "\<exists>h. argon_hash lib password = Some h \<and> 8 \<le> length password \<and> length password \<le> 128 \<and>
    credentials d' = credentials d @ [(fresh_user, email, h)] \<and> \<not> has us_email (t_users d) email"
proof -
  obtain h user d1 where h: "argon_hash lib password = Some h" "8 \<le> length password" "length password \<le> 128"
    and ins: "insert_user fresh_user now email h d = (Inr user, d1)"
    and d': "d' = snd (update_last_login now (us_id user) (Some (extract_client_ip env rq)) d1)"
    using assms by (auto simp: register_handler_def split: option.splits if_splits sum.splits prod.splits)
  have "credentials d1 = credentials d @ [(fresh_user, email, h)] \<and> \<not> has us_email (t_users d) email"
    using ins by (auto simp: insert_user_def insert_stmt_def stmt_def Let_def user_constraints_def new_user_def credentials_def
        split: if_splits option.splits list.splits)
  with h show ?thesis by (simp add: d' update_last_login_credentials)
qed

lemma taken_address_is_refused:
  assumes "(i, email, h) \<in> set (credentials d)"
  shows "fst (register_handler lib dns env fresh_user j csrf now rq email password (ss, d)) \<noteq> Registered cookie"
proof
  assume "fst (register_handler lib dns env fresh_user j csrf now rq email password (ss, d)) = Registered cookie"
  then obtain ss' d' where "register_handler lib dns env fresh_user j csrf now rq email password (ss, d) = (Registered cookie, ss', d')"
    by (metis prod.collapse)
  from registered_row [OF this] have "\<not> has us_email (t_users d) email" by blast
  with assms show False by (auto simp: credentials_row has_def list_ex_iff)
qed

text \<open>C33: Who has registered can log in. After a registration has succeeded, and as long as the row keeps its address
  and its hash, the same address and password log in from anywhere, with a session of a new identifier that speaks for
  the new user; and nobody else can register under that address.\<close>

theorem registered_user_can_log_in:
  assumes crate: "argon2_documented crate"
    and reg: "register_handler (argon_of crate salt dummy) dns env u i csrf now rq email password (ss, d) = (Registered cookie, ss', d')"
    and later: "set (credentials d') \<subseteq> set (credentials d2)" "db_wf d2" "db_faults d2 = []" and ss2: "wn_faults ss2 = []"
  shows "(\<exists>ss3 d3. login_handler (argon_of crate salt' dummy') env' i' csrf' now' rq' email password (ss2, d2) =
      (LoggedIn (csrf_cookie_header env' csrf'), ss3, d3) \<and> wn_user_id ss3 = Some u \<and> wn_id ss3 = i') \<and>
    fst (register_handler (argon_of crate salt' dummy') dns' env' u' i' csrf' now' rq' email password' (ss2, d2)) \<noteq> Registered cookie'"
proof -
  from registered_row [OF reg] obtain h where h: "hash_password crate salt password = Ok h" "length password \<le> 128"
    "(u, email, h) \<in> set (credentials d')"
    by (auto simp: argon_of_def ok_opt_def split: sum.splits)
  then have row: "(u, email, h) \<in> set (credentials d2)" and v: "verify_password crate password h"
    using later(1) hash_verifies [OF crate] by auto
  let ?lib = "argon_of crate salt' dummy'"
  have "argon_verify ?lib password h" using v by (simp add: argon_of_def)
  with h(2) login_with_row [OF later(2,3) ss2 row, where lib = ?lib and env = env' and fresh = i' and csrf = csrf' and now = now'
      and rq = rq' and password = password]
  have "\<exists>ss3 d3. login_handler ?lib env' i' csrf' now' rq' email password (ss2, d2) =
      (LoggedIn (csrf_cookie_header env' csrf'), ss3, d3) \<and> wn_user_id ss3 = Some u \<and> wn_id ss3 = i'"
    by (auto split: prod.splits)
  with taken_address_is_refused [OF row] show ?thesis by blast
qed

section \<open>The administrator\<close>

text \<open>C17: The administrator of a started server can log in with the configured address and password, and so gets a
  session of an administrator, as long as the row keeps its address and its hash - unless the configured password has
  more than 128 bytes: the start accepts it, and no login ever does.\<close>

theorem administrator_logs_in_up_to_128_bytes:
  assumes crate: "argon2_documented crate" and boot: "bootstrap be s = (Inr srv, s')"
    and hashing: "be_hash_password be = hash_password crate salt"
    and admin: "admin_config_from_env (be_environment be) = admin"
    and later: "set (credentials (sy_db s')) \<subseteq> set (credentials d)" "db_wf d" "db_faults d = []" and ss: "wn_faults ss = []"
  shows "case login_handler (argon_of crate salt' dummy) env i csrf now rq (trim (ac_email admin)) (ac_password admin) (ss, d) of
    (out, ss', d') \<Rightarrow>
      if length (ac_password admin) \<le> 128
      then out = LoggedIn (csrf_cookie_header env csrf) \<and> wn_id ss' = i \<and>
        list_ex (\<lambda>row. us_is_admin row \<and> wn_user_id ss' = Some (us_id row)) (t_users (sy_db s'))
      else out = LoginRefused invalid_credentials \<and> ss' = ss \<and> d' = d"
proof -
  from started_server_is_ready [OF boot] admin hashing obtain row where row: "row \<in> set (t_users (sy_db s'))"
    "us_email row = trim (ac_email admin)" "us_is_admin row" "hash_password crate salt (ac_password admin) = Ok (us_password_hash row)"
    by (auto simp: list_ex_iff)
  let ?lib = "argon_of crate salt' dummy"
  have "(us_id row, trim (ac_email admin), us_password_hash row) \<in> set (credentials (sy_db s'))"
    using row(1,2) unfolding credentials_row by blast
  with later(1) have known: "(us_id row, trim (ac_email admin), us_password_hash row) \<in> set (credentials d)" by blast
  note login = login_with_row [OF later(2,3) ss known, where lib = ?lib and env = env and fresh = i and csrf = csrf and now = now
      and rq = rq and password = "ac_password admin"]
  have "argon_verify ?lib (ac_password admin) (us_password_hash row)" using hash_verifies [OF crate row(4)] by (simp add: argon_of_def)
  with login row(1,3) show ?thesis by (auto simp: list_ex_iff split: prod.splits if_splits)
qed

section \<open>Witnesses\<close>

definition plain_argon2 :: "string argon2_crate" where
  "plain_argon2 = \<lparr>a2_hash = (\<lambda>_ password. Ok (CHR ''#'' # password)), a2_parse = (\<lambda>h. Ok (tl h)), a2_verify = (\<lambda>password p. p = password)\<rparr>"

lemma plain_argon2_documented: "argon2_documented plain_argon2"
  by (simp add: argon2_documented_def plain_argon2_def)

lemma plain_hash: "hash_password plain_argon2 salt = (\<lambda>p. Ok (CHR ''#'' # p))"
  by (simp add: hash_password_def plain_argon2_def fun_eq_iff)

definition mail_dns :: resolver where
  "mail_dns = \<lparr>mx_lookup = (\<lambda>_. Ok [MX 10 ''mx'']), txt_lookup = (\<lambda>_. Err ''no''), ipv4_lookup = (\<lambda>_. Err ''no''), lookup_ip = (\<lambda>_. False)\<rparr>"

theorem registered_user_can_log_in_witness:
  "\<exists>cookie ss' d'. register_handler (argon_of plain_argon2 ''s1'' ''#d'') mail_dns (\<lambda>_. None) ''u9'' ''w2'' ''t1'' 5 (sample_request POST)
      ''new@y.org'' ''password'' (sample_web_session, sample_db Sqlite) = (Registered cookie, ss', d') \<and>
    (\<exists>ss3 d3. login_handler (argon_of plain_argon2 ''s2'' ''#d'') (\<lambda>_. None) ''w3'' ''t2'' 9 (sample_request POST)
      ''new@y.org'' ''password'' (sample_web_session, d') = (LoggedIn (csrf_cookie_header (\<lambda>_. None) ''t2''), ss3, d3) \<and>
      wn_user_id ss3 = Some ''u9'')"
proof -
  let ?rq = "sample_request POST"
  let ?u = "new_user ''u9'' 5 ''new@y.org'' ''#password''"
  let ?d = "(sample_db Sqlite)\<lparr>t_users := t_users (sample_db Sqlite) @ [?u]\<rparr>"
  let ?d' = "snd (update_last_login 5 ''u9'' (Some (extract_client_ip (\<lambda>_. None) ?rq)) ?d)"
  have e: "extract_domain ''new@y.org'' = Some ''y.org''" "is_valid_email ''new@y.org''" "is_domain_deliverable mail_dns ''y.org''"
    by (simp_all add: extract_domain_def is_valid_email_def is_domain_deliverable_def mail_dns_def mx_records_def trim_eval char_eval
        cons_first_def is_whitespace_def)
  have f: "wn_faults sample_web_session = []" by (simp add: sample_web_session_def)
  have n: "db_faults (sample_db Sqlite) = []" by (simp add: sample_defs)
  have c: "violation (user_constraints ?u (sample_db Sqlite)) = None"
    by (simp add: user_constraints_def has_def new_user_def sample_defs)
  have ins: "insert_user ''u9'' 5 ''new@y.org'' ''#password'' (sample_db Sqlite) = (Inr ?u, ?d)"
    unfolding insert_user_def Let_def no_fault_simps(6) [OF n] by (simp add: c)
  have i: "us_id ?u = ''u9''" by (simp add: new_user_def)
  have reg: "register_handler (argon_of plain_argon2 ''s1'' ''#d'') mail_dns (\<lambda>_. None) ''u9'' ''w2'' ''t1'' 5 ?rq
      ''new@y.org'' ''password'' (sample_web_session, sample_db Sqlite) =
      (Registered (csrf_cookie_header (\<lambda>_. None) ''t1''), snd (establish_session ''w2'' ''t1'' ?u sample_web_session), ?d')"
    by (simp add: register_handler_def e disposable_sample argon_of_def plain_hash ins establish_no_fault [OF f] i)
  have "db_wf ?d" using keepsD [OF keeps_user_updates(2) _ ins] sample_wf by simp
  then have wf: "db_wf ?d'" using keepsD [OF keeps_user_updates(1)] by (metis prod.collapse)
  have d: "db_faults ?d' = []" by (simp add: update_last_login_def no_fault_simps sample_defs set_users_def)
  note login = registered_user_can_log_in [OF plain_argon2_documented reg subset_refl wf d f, where salt' = "''s2''" and dummy' = "''#d''"
      and env' = "\<lambda>_. None" and i' = "''w3''" and csrf' = "''t2''" and now' = 9 and rq' = ?rq]
  from login reg show ?thesis by blast
qed

theorem administrator_logs_in_up_to_128_bytes_witness:
  "\<exists>srv s'. bootstrap (sample_boot (\<lambda>_. None)) storage_sys = (Inr srv, s') \<and>
     (case login_handler (argon_of plain_argon2 ''s2'' ''#d'') (\<lambda>_. None) ''w3'' ''t2'' 9 (sample_request POST)
        ''root@x.org'' ''password'' (sample_web_session, (sy_db s')\<lparr>db_faults := []\<rparr>) of (out, ss', d') \<Rightarrow>
        out = LoggedIn (csrf_cookie_header (\<lambda>_. None) ''t2'') \<and>
        list_ex (\<lambda>row. us_is_admin row \<and> wn_user_id ss' = Some (us_id row)) (t_users (sy_db s')))"
proof -
  let ?be = "sample_boot (\<lambda>_. None)"
  obtain srv s' where run: "bootstrap ?be storage_sys = (Inr srv, s')" using plain_boots by blast
  have "drivers_sound (be_drivers ?be) (be_environment ?be)"
    by (auto simp: drivers_sound_def sample_boot_def init_pool_def run_migrations_def sample_wf split: if_splits backend.splits)
  from background_keeps_tables_sound [OF run this, of sample_ob "[]"] have wf: "db_wf ((sy_db s')\<lparr>db_faults := []\<rparr>)" by simp
  have a: "admin_config_from_env (be_environment ?be) = \<lparr>ac_email = ''root@x.org'', ac_password = ''password''\<rparr>"
    by (simp add: admin_config_from_env_def sample_boot_simps sample_config)
  have h: "be_hash_password ?be = hash_password plain_argon2 ''s1''" by (simp add: plain_hash sample_boot_def)
  have t: "trim ''root@x.org'' = ''root@x.org''" by (simp add: trim_eval char_eval)
  have c: "set (credentials (sy_db s')) \<subseteq> set (credentials ((sy_db s')\<lparr>db_faults := []\<rparr>))" by (simp add: credentials_def)
  have f: "wn_faults sample_web_session = []" by (simp add: sample_web_session_def)
  have n: "db_faults ((sy_db s')\<lparr>db_faults := []\<rparr>) = []" by simp
  note login = administrator_logs_in_up_to_128_bytes [OF plain_argon2_documented run h a c wf n f, where salt' = "''s2''" and dummy = "''#d''"
      and env = "\<lambda>_. None" and i = "''w3''" and csrf = "''t2''" and now = 9 and rq = "sample_request POST"]
  from login [simplified t admin_config.select_convs] run show ?thesis by (auto split: prod.splits)
qed

end
