(* ===== verification/Tls_Policy.thy ===== *)
theory Tls_Policy
  imports Outbound
begin

text \<open>
  Whose certificates the outbound service believes: \<open>OutboundService::new\<close> and \<open>OpportunisticVerifier\<close> of
  \<open>src/src/outbound/mod.rs\<close>.  The relay is reached with the configuration that checks the chain against the platform's
  roots, an MX with the one that takes any certificate and checks the signature only.  The checks themselves
  (\<open>webpki\<close>, the signature algorithms) and the handshake are rustls: they are parameters.
\<close>

section \<open>Verifiers\<close>

text \<open>\<open>CryptoProvider\<close> and the trait \<open>ServerCertVerifier\<close>: a certificate is its bytes, a signature its bytes and scheme.\<close>

record crypto_provider =
  cp_tls12_signature :: "string \<Rightarrow> string \<Rightarrow> string \<Rightarrow> string + unit"
  cp_tls13_signature :: "string \<Rightarrow> string \<Rightarrow> string \<Rightarrow> string + unit"
  cp_schemes :: "string list"

record cert_verifier =
  vf_server_cert :: "string list \<Rightarrow> string \<Rightarrow> string + unit"
  vf_tls12_signature :: "string \<Rightarrow> string \<Rightarrow> string \<Rightarrow> string + unit"
  vf_tls13_signature :: "string \<Rightarrow> string \<Rightarrow> string \<Rightarrow> string + unit"
  vf_schemes :: "string list"

definition opportunistic_verifier :: "crypto_provider \<Rightarrow> cert_verifier" where
  "opportunistic_verifier provider =
     \<lparr>vf_server_cert = (\<lambda>_ _. Ok ()), vf_tls12_signature = cp_tls12_signature provider,
      vf_tls13_signature = cp_tls13_signature provider, vf_schemes = cp_schemes provider\<rparr>"

text \<open>The service keeps one verifier for the relay and one for MX hosts.  \<open>webpki\<close> gives the verifier of a store of roots;
  a platform without readable roots makes the constructor panic.\<close>

record tls_policy =
  tp_client :: cert_verifier
  tp_mx :: cert_verifier

definition tls_policy_new ::
  "(string list \<Rightarrow> cert_verifier) \<Rightarrow> crypto_provider \<Rightarrow> string + string list \<Rightarrow> (string \<Rightarrow> bool) \<Rightarrow> string + tls_policy" where
  "tls_policy_new webpki provider native_certs root_ok =
     (case native_certs of
        Inl _ \<Rightarrow> Err ''could not load platform certs''
      | Inr certs \<Rightarrow>
          if \<not> list_all root_ok certs then Err ''Failed to add certificate''
          else Ok \<lparr>tp_client = webpki certs, tp_mx = opportunistic_verifier provider\<rparr>)"

definition with_relay_override :: "relay_config \<Rightarrow> outbound \<Rightarrow> outbound" where
  "with_relay_override config ob = ob\<lparr>ob_relay_override := Some config\<rparr>"

definition with_mx_port :: "nat \<Rightarrow> outbound \<Rightarrow> outbound" where
  "with_mx_port port ob = ob\<lparr>ob_mx_port := port\<rparr>"

section \<open>Handshakes\<close>

text \<open>What rustls documents of a client handshake with a verifier: it succeeds only when the verifier has taken the
  chain for the host, and the signature over the transcript with the key of the first certificate.\<close>

record tls_peer =
  pe_chain :: "string list"
  pe_message :: string
  pe_signature :: string
  pe_tls13 :: bool

type_synonym handshake = "cert_verifier \<Rightarrow> string \<Rightarrow> tls_peer \<Rightarrow> string + string list"

definition signature_taken :: "cert_verifier \<Rightarrow> tls_peer \<Rightarrow> string + unit" where
  "signature_taken v p =
     (if pe_tls13 p then vf_tls13_signature v else vf_tls12_signature v) (pe_message p) (hd (pe_chain p)) (pe_signature p)"

definition consults_verifier :: "handshake \<Rightarrow> bool" where
  "consults_verifier shake \<longleftrightarrow> (\<forall>v host p ls. shake v host p = Ok ls \<longrightarrow>
     vf_server_cert v (pe_chain p) host = Ok () \<and> signature_taken v p = Ok ())"

section \<open>A relay that is not believed\<close>

text \<open>Reading and commands leave the outcome of a handshake to come as it is.\<close>

lemma net_step_script: "net_step c = (f, c') \<Longrightarrow> tls_script c' = tls_script c"
  by (auto simp: net_step_def split: list.splits)

lemma write_all_script: "write_all b c = (r, c') \<Longrightarrow> tls_script c' = tls_script c"
  by (auto simp: write_all_def split: if_splits prod.splits option.splits dest: net_step_script)

lemma read_line_script: "read_line c = (r, c') \<Longrightarrow> tls_script c' = tls_script c"
  by (auto simp: read_line_def split: prod.splits option.splits list.splits dest: net_step_script)

lemma read_full_response_script: "read_full_response acc c = (r, c') \<Longrightarrow> tls_script c' = tls_script c"
proof (induction acc c rule: read_full_response.induct)
  case (1 acc c)
  obtain r0 c0 where l: "read_line c = (r0, c0)" by fastforce
  note s = read_line_script [OF l]
  show ?case
  proof (cases r0)
    case (Inl e)
    with "1.prems" l s show ?thesis by (subst (asm) read_full_response.simps) simp
  next
    case (Inr response)
    show ?thesis
    proof (cases "response = [] \<or> length response < 4 \<or> response ! 3 \<noteq> CHR ''-''")
      case True
      with "1.prems" l Inr s show ?thesis by (subst (asm) read_full_response.simps) (auto simp: Let_def split: if_splits)
    next
      case False
      then have "read_full_response (acc @ [trim response]) c0 = (r, c')"
        using "1.prems" l Inr by (subst (asm) read_full_response.simps) (simp add: Let_def)
      with "1.IH" [OF l [symmetric] Inr] False s show ?thesis by simp
    qed
  qed
qed

lemma send_cmd_script: "send_cmd cmd delay c = (r, c') \<Longrightarrow> tls_script c' = tls_script c"
  by (auto simp: send_cmd_def Let_def split: if_splits prod.splits sum.splits
      dest!: write_all_script read_full_response_script)

lemma send_cmd_plain:
  assumes "send_cmd cmd delay c = (r, c')" "\<not> tls c"
  shows "\<not> tls c' \<and> (\<exists>ws. wire c' = wire c @ map (Pair False) ws)"
proof -
  from follows_send_cmd assms(1) obtain ws where "tls c' = tls c" "wire c' = wire c @ map (Pair (tls c)) ws"
    by (rule followsD) blast
  with assms(2) show ?thesis by auto
qed

text \<open>The roots of the platform, as far as they could be read.\<close>

definition roots_of :: "string + string list \<Rightarrow> string list" where
  "roots_of native_certs = (case native_certs of Inl _ \<Rightarrow> [] | Inr certs \<Rightarrow> certs)"

text \<open>Everything written so far went out unencrypted.\<close>

definition all_plain :: "conn \<Rightarrow> conn \<Rightarrow> bool" where
  "all_plain c c' \<longleftrightarrow> \<not> tls c' \<and> (\<exists>ws. wire c' = wire c @ map (Pair False) ws)"

lemma all_plain_trans: "all_plain c1 c2 \<Longrightarrow> all_plain c2 c3 \<Longrightarrow> all_plain c1 c3"
  by (auto simp: all_plain_def simp flip: map_append)

lemma all_plain_refl: "\<not> tls c \<Longrightarrow> all_plain c c"
  by (auto simp: all_plain_def intro: exI [of _ "[]"])

lemma refused_channel:
  assumes run: "relay_channel server_name me config caps c = (r, c')" and refused: "tls_script c = Inl e" and plain: "\<not> tls c"
  shows "all_plain c c' \<and> (is_ok r \<longrightarrow> \<not> list_ex (contains_str ''STARTTLS'') caps \<and> c' = c)"
proof (cases "list_ex (contains_str ''STARTTLS'') caps")
  case True
  obtain r1 c1 where s: "send_cmd ''STARTTLS'' False c = (r1, c1)" by fastforce
  have p: "all_plain c c1" "tls_script c1 = Inl e"
    using send_cmd_plain [OF s plain] send_cmd_script [OF s] refused by (simp_all add: all_plain_def)
  have u: "\<exists>e. upgrade server_name (relay_host config) m c1 = (Inl e, c1)" for m
    using p(2) by (simp add: upgrade_def split: option.split)
  from run True s p u [of "''TLS handshake with relay failed: ''"] show ?thesis
    by (cases r1) (auto simp: relay_channel_def and_then_def)
next
  case False
  with run plain show ?thesis by (auto simp: relay_channel_def all_plain_refl)
qed

lemma refused_relay:
  assumes run: "relay_session b64 server_name me config recipient from_envelope body c = (r, c')"
    and cred: "relay_user config \<noteq> []" "relay_pass config \<noteq> []" "\<not> allow_plaintext_auth config"
    and plain: "\<not> tls c" and refused: "tls_script c = Inl e"
  shows "\<not> is_ok r \<and> all_plain c c'"
proof -
  obtain r1 c1 where s1: "read_full_response [] c = (r1, c1)" by fastforce
  have p1: "all_plain c c1" "tls_script c1 = Inl e" "\<not> tls c1"
    using read_full_response_wire [OF s1] read_full_response_script [OF s1] plain refused
    by (auto simp: all_plain_def intro: exI [of _ "[]"])
  obtain r2 c2 where s2: "send_cmd (''EHLO '' @ me) False c1 = (r2, c2)" by fastforce
  have q2: "all_plain c1 c2" "tls_script c2 = Inl e" "\<not> tls c2"
    using send_cmd_plain [OF s2 p1(3)] send_cmd_script [OF s2] p1(2) by (simp_all add: all_plain_def)
  have p2: "all_plain c c2" by (rule all_plain_trans [OF p1(1) q2(1)])
  show ?thesis
  proof (cases "is_ok r1 \<and> is_ok r2")
    case True
    then obtain g caps where ok: "r1 = Inr g" "r2 = Inr caps" by (cases r1; cases r2) (auto simp: is_ok_def)
    obtain r3 c3 where s3: "relay_channel server_name me config caps c2 = (r3, c3)" by fastforce
    note p3 = refused_channel [OF s3 q2(2,3)]
    then have "all_plain c c3" using all_plain_trans [OF p2] by blast
    then show ?thesis
      using run s1 s2 s3 ok p3 cred
      by (cases r3) (auto simp: relay_session_def relay_submit_def check_relay_auth_security_def is_ok_def)
  next
    case False
    with run s1 s2 p1 p2 show ?thesis by (cases r1; cases r2) (auto simp: relay_session_def is_ok_def)
  qed
qed


text \<open>To an MX host any certificate will do, but the host must hold the key of the one it shows.\<close>

lemma mx_takes_any_certificate:
  "tls_policy_new webpki provider native_certs root_ok = Ok tp \<Longrightarrow> vf_server_cert (tp_mx tp) chain host = Ok ()"
  by (auto simp: tls_policy_new_def opportunistic_verifier_def split: sum.splits if_splits)

lemma mx_checks_signature:
  assumes "consults_verifier shake" "tls_policy_new webpki provider native_certs root_ok = Ok tp" "shake (tp_mx tp) host p = Ok ls"
  shows "(if pe_tls13 p then cp_tls13_signature provider else cp_tls12_signature provider)
    (pe_message p) (hd (pe_chain p)) (pe_signature p) = Ok ()"
proof -
  have "tp_mx tp = opportunistic_verifier provider" using assms(2) by (auto simp: tls_policy_new_def split: sum.splits if_splits)
  moreover have "signature_taken (tp_mx tp) p = Ok ()" using assms(1,3) by (auto simp: consults_verifier_def)
  ultimately show ?thesis by (simp add: signature_taken_def opportunistic_verifier_def split: if_splits)
qed

text \<open>A handshake that does as documented, and a relay with a certificate of another host.\<close>

definition plain_shake :: handshake where
  "plain_shake v host p =
     (case vf_server_cert v (pe_chain p) host of
        Inl e \<Rightarrow> Err e
      | Inr _ \<Rightarrow> (case signature_taken v p of Inl e \<Rightarrow> Err e | Inr _ \<Rightarrow> Ok [''250 ok'']))"

lemma plain_shake_consults: "consults_verifier plain_shake"
  by (auto simp: consults_verifier_def plain_shake_def split: sum.splits)

definition no_signatures :: crypto_provider where
  "no_signatures = \<lparr>cp_tls12_signature = (\<lambda>_ _ _. Ok ()), cp_tls13_signature = (\<lambda>_ _ _. Ok ()), cp_schemes = []\<rparr>"

definition by_name :: "string list \<Rightarrow> cert_verifier" where
  "by_name roots = (opportunistic_verifier no_signatures)\<lparr>vf_server_cert := (\<lambda>chain host. if chain = [host] then Ok () else Err ''UnknownIssuer'')\<rparr>"

definition impostor :: tls_peer where
  "impostor = \<lparr>pe_chain = [''evil''], pe_message = [], pe_signature = [], pe_tls13 = True\<rparr>"

definition impostor_conn :: conn where
  "impostor_conn = (plain_conn [''220 hi'', ''250 STARTTLS'', ''220 go''])\<lparr>tls_script := plain_shake (by_name []) ''relay'' impostor\<rparr>"


end
