(* ===== verification/Relay_Probe.thy ===== *)
theory Relay_Probe
  imports Tls_Policy Server
begin

text \<open>
  The tool that tries the relay with the settings of the environment, \<open>src/src/bin/smtp_relay_test.rs\<close>: what it reads,
  in which order it gives up, and the one mail it sends through \<open>send_via_relay\<close>.
\<close>

section \<open>Settings\<close>

text \<open>A chain of \<open>std::env::var(..).or_else(..)\<close>.\<close>

primrec first_set :: "environment \<Rightarrow> string list \<Rightarrow> string option" where
  "first_set env [] = None"
| "first_set env (name # names) = (case env name of Some v \<Rightarrow> Some v | None \<Rightarrow> first_set env names)"

text \<open>A missing password or recipient is a panic, a port that is no number an error of \<open>main\<close>.\<close>

datatype probe_failure = ProbePanic string | ProbeError string

definition probe_relay :: "environment \<Rightarrow> probe_failure + relay_config" where
  "probe_relay env =
     (case first_set env [''TEST_SMTP_RELAY_TOKEN'', ''TEST_SMTP_RELAY_PASSWORD'', ''SMTP_RELAY_TOKEN'', ''SMTP_RELAY_PASSWORD'', ''SMTP_TOKEN''] of
        None \<Rightarrow> Err (ProbePanic ''TEST_SMTP_RELAY_PASSWORD must be set in your .env file'')
      | Some pass \<Rightarrow>
         (case parse_u16 (unwrap_or ''2525'' (first_set env [''TEST_SMTP_RELAY_PORT'', ''SMTP_RELAY_PORT''])) of
            None \<Rightarrow> Err (ProbeError ''invalid digit found in string'')
          | Some port \<Rightarrow> Ok
              \<lparr>relay_host = unwrap_or ''sandbox.smtp.mailtrap.io'' (first_set env [''TEST_SMTP_RELAY_HOST'', ''SMTP_RELAY_HOST'']),
               relay_port = port,
               relay_user = unwrap_or [] (first_set env [''TEST_SMTP_RELAY_USER'', ''SMTP_RELAY_USER'']),
               relay_pass = pass,
               allow_plaintext_auth =
                 first_set env [''TEST_SMTP_RELAY_ALLOW_PLAINTEXT_AUTH'', ''SMTP_RELAY_ALLOW_PLAINTEXT_AUTH''] = Some ''true''\<rparr>))"

definition probe_roots :: "string + string list \<Rightarrow> (string \<Rightarrow> bool) \<Rightarrow> probe_failure + string list" where
  "probe_roots native_certs root_ok = (case native_certs of
     Inl _ \<Rightarrow> Err (ProbePanic ''could not load platform certs'')
   | Inr certs \<Rightarrow> if list_all root_ok certs then Ok certs else Err (ProbeError ''invalid certificate''))"

definition probe_body :: "string \<Rightarrow> string \<Rightarrow> string" where
  "probe_body from_email to_email =
     ''Subject: Maileroo Relay Live Test'' @ CRLF @ ''From: '' @ from_email @ CRLF @ ''To: '' @ to_email @ CRLF @ CRLF @
     ''This is a real-world live integration test from Maileroo!''"

section \<open>The run\<close>

text \<open>What the relay made of the mail is printed; the exit code is 101 for a panic and 1 for an error of \<open>main\<close>.\<close>

definition probe_code :: "probe_failure \<Rightarrow> nat" where
  "probe_code failure = (case failure of ProbePanic _ \<Rightarrow> 101 | ProbeError _ \<Rightarrow> 1)"

definition probe_main ::
  "environment \<Rightarrow> (string \<Rightarrow> string) \<Rightarrow> (string \<Rightarrow> string option) \<Rightarrow> string + string list \<Rightarrow> (string \<Rightarrow> bool)
   \<Rightarrow> (string list \<Rightarrow> string \<Rightarrow> nat \<Rightarrow> string + conn) \<Rightarrow> nat \<times> ((string + unit) \<times> conn option) option" where
  "probe_main env b64 server_name native_certs root_ok connect =
     (case probe_relay env of
        Inl failure \<Rightarrow> (probe_code failure, None)
      | Inr config \<Rightarrow> (case env ''TEST_RECIPIENT_EMAIL'' of
          None \<Rightarrow> (101, None)
        | Some to_email \<Rightarrow> (case probe_roots native_certs root_ok of
            Inl failure \<Rightarrow> (probe_code failure, None)
          | Inr roots \<Rightarrow>
              (let from_email = unwrap_or ''hello@example.com'' (env ''TEST_SENDER_EMAIL'')
               in (0, Some (send_via_relay b64 server_name (connect roots) ''example.com'' config to_email from_email
                    (probe_body from_email to_email)))))))"

text \<open>The exit code says whether the settings were complete, never whether the relay took the mail.\<close>

theorem probe_code_is_about_settings:
  "fst (probe_main env b64 server_name native_certs root_ok connect) = 0 \<longleftrightarrow>
     (\<exists>config roots. probe_relay env = Ok config \<and> env ''TEST_RECIPIENT_EMAIL'' \<noteq> None \<and> probe_roots native_certs root_ok = Ok roots)"
  "fst (probe_main env b64 server_name native_certs root_ok connect) = fst (probe_main env b64 server_name native_certs root_ok connect')"
  by (auto simp: probe_main_def probe_code_def Let_def split: sum.splits option.splits probe_failure.splits)

text \<open>A mail that is tried at all is tried under the rules of the relay: with a user set and plaintext authentication
  not asked for, the password leaves on an encrypted channel only.\<close>

theorem probe_keeps_its_password:
  assumes run: "snd (probe_main env b64 server_name native_certs root_ok connect) = Some (r, Some c')"
    and config: "probe_relay env = Ok config" "relay_user config \<noteq> []" "relay_pass config \<noteq> []"
      "first_set env [''TEST_SMTP_RELAY_ALLOW_PLAINTEXT_AUTH'', ''SMTP_RELAY_ALLOW_PLAINTEXT_AUTH''] \<noteq> Some ''true''"
    and fresh: "\<forall>roots host port c. connect roots host port = Ok c \<longrightarrow> \<not> tls c \<and> wire c = []"
  shows "\<forall>w. (False, w) \<in> set (wire c') \<longrightarrow> w = ''EHLO example.com'' @ CRLF \<or> w = ''STARTTLS'' @ CRLF"
proof -
  have plain: "\<not> allow_plaintext_auth config"
    using config(1,4) by (auto simp: probe_relay_def simp del: first_set.simps split: option.splits)
  obtain roots from_email to_email body c where c: "connect roots (relay_host config) (relay_port config) = Ok c"
    and session: "relay_session b64 server_name ''example.com'' config to_email from_email body c = (r, c')"
    using run config(1) by (auto simp: probe_main_def send_via_relay_def Let_def split: option.splits sum.splits prod.splits)
  from fresh c have "\<not> tls c" "wire c = []" by auto
  with relay_session_plain [OF session config(2,3) plain] show ?thesis by (auto simp: plain_writes_def)
qed

text \<open>A relay without STARTTLS.\<close>

definition probe_env :: environment where
  "probe_env = [''SMTP_TOKEN'' \<mapsto> ''secret'', ''SMTP_RELAY_USER'' \<mapsto> ''api'', ''TEST_RECIPIENT_EMAIL'' \<mapsto> ''me@home.org'']"

theorem probe_keeps_its_password_witness:
  "\<exists>r c'. probe_main probe_env (\<lambda>s. s) (\<lambda>_. None) (Ok []) (\<lambda>_. True) (\<lambda>_ _ _. Ok (plain_conn [''220 hi'', ''250 ok''])) =
      (0, Some (r, Some c')) \<and>
    (\<forall>w. (False, w) \<in> set (wire c') \<longrightarrow> w = ''EHLO example.com'' @ CRLF \<or> w = ''STARTTLS'' @ CRLF)"
proof -
  have port: "parse_u16 ''2525'' = Some 2525" by (simp add: parse_u16_def parse_uint_def num_eval)
  have relay: "probe_relay probe_env = Ok \<lparr>relay_host = ''sandbox.smtp.mailtrap.io'', relay_port = 2525, relay_user = ''api'',
      relay_pass = ''secret'', allow_plaintext_auth = False\<rparr>" (is "_ = Ok ?config")
    by (simp add: probe_relay_def probe_env_def port)
  have roots: "probe_roots (Ok []) (\<lambda>_. True) = Ok []" by (simp add: probe_roots_def)
  have to: "probe_env ''TEST_RECIPIENT_EMAIL'' = Some ''me@home.org''" "probe_env ''TEST_SENDER_EMAIL'' = None" by (simp_all add: probe_env_def)
  obtain r c' where session: "relay_session (\<lambda>s. s) (\<lambda>_. None) ''example.com'' ?config ''me@home.org'' ''hello@example.com''
      (probe_body ''hello@example.com'' ''me@home.org'') (plain_conn [''220 hi'', ''250 ok'']) = (r, c')" by fastforce
  have run: "probe_main probe_env (\<lambda>s. s) (\<lambda>_. None) (Ok []) (\<lambda>_. True) (\<lambda>_ _ _. Ok (plain_conn [''220 hi'', ''250 ok''])) =
      (0, Some (r, Some c'))"
    by (simp add: probe_main_def relay roots to send_via_relay_def session)
  have plain: "first_set probe_env [''TEST_SMTP_RELAY_ALLOW_PLAINTEXT_AUTH'', ''SMTP_RELAY_ALLOW_PLAINTEXT_AUTH''] \<noteq> Some ''true''"
    by (simp add: probe_env_def)
  have sent: "snd (probe_main probe_env (\<lambda>s. s) (\<lambda>_. None) (Ok []) (\<lambda>_. True) (\<lambda>_ _ _. Ok (plain_conn [''220 hi'', ''250 ok'']))) =
      Some (r, Some c')" unfolding run by simp
  have cred: "relay_user ?config \<noteq> []" "relay_pass ?config \<noteq> []" by simp_all
  have fresh: "\<forall>(roots :: string list) (host :: string) (port :: nat) c.
      (Ok (plain_conn [''220 hi'', ''250 ok'']) :: string + conn) = Ok c \<longrightarrow> \<not> tls c \<and> wire c = []"
    by (simp add: plain_conn_def)
  from probe_keeps_its_password [OF sent relay cred plain fresh] run show ?thesis by blast
qed

end
