(* ===== verification/Auto_Tls.thy ===== *)
theory Auto_Tls
  imports Server_Run
begin

text \<open>
  The web server with certificates of its own, \<open>run_auto_tls_web_server\<close> of \<open>src/src/web/autotls.rs\<close>: what it asks of the
  ACME client, the two ports it binds, and what its HTTP port answers.  The client and the sockets are parameters.
\<close>

section \<open>The two listeners\<close>

record acme_settings =
  ac_domains :: "string list"
  ac_contact :: string
  ac_cache :: string
  ac_url :: string

definition acme_settings_of :: "auto_tls_config \<Rightarrow> acme_settings" where
  "acme_settings_of auto_tls =
     \<lparr>ac_domains = [at_domain auto_tls], ac_contact = ''mailto:'' @ at_email auto_tls, ac_cache = at_cache_dir auto_tls,
      ac_url = at_acme_directory auto_tls\<rparr>"

definition any_addr :: "nat \<Rightarrow> string" where
  "any_addr port = ''0.0.0.0:'' @ show_nat port"

text \<open>The HTTP port has no route, only a fallback: a permanent redirect of every path.\<close>

definition redirect_app :: "auto_tls_config \<Rightarrow> string \<Rightarrow> nat \<times> string" where
  "redirect_app auto_tls path = (308, redirect_url auto_tls path)"

text \<open>The addresses that are bound, and how the server ends: \<open>None\<close> while both listeners serve, else the result of the
  one that ends first.\<close>

definition run_auto_tls_web_server ::
  "(string \<Rightarrow> string + unit) \<Rightarrow> (string + unit) option \<Rightarrow> auto_tls_config \<Rightarrow> string list \<times> (string + unit) option" where
  "run_auto_tls_web_server bind first_end auto_tls =
     (let https_addr = any_addr (at_https_port auto_tls); http_addr = any_addr (at_http_port auto_tls)
      in case bind https_addr of
           Inl e \<Rightarrow> ([], Some (Err e))
         | Inr _ \<Rightarrow> (case bind http_addr of
             Inl e \<Rightarrow> ([https_addr], Some (Err e))
           | Inr _ \<Rightarrow> ([https_addr, http_addr], first_end)))"

text \<open>What the race in \<open>start\<close> sees of it.\<close>

definition web_end_of :: "(string + unit) option \<Rightarrow> string option" where
  "web_end_of ending = map_option (\<lambda>r. case r of Inl e \<Rightarrow> e | Inr _ \<Rightarrow> []) ending"

section \<open>What follows\<close>

text \<open>Both ports are needed: when one of them is taken, the process ends, its SMTP server included, and with the exit
  code of success.\<close>

theorem auto_tls_needs_both_ports:
  assumes "bind (any_addr (at_https_port auto_tls)) = Err e \<or> bind (any_addr (at_http_port auto_tls)) = Err e"
  shows "exit_code (Inr (start (ServeAutoTls auto_tls) None smtp_first
    (web_end_of (snd (run_auto_tls_web_server bind first_end auto_tls))))) = Some 0"
  using assms by (cases "bind (any_addr (at_https_port auto_tls))")
    (auto simp: run_auto_tls_web_server_def web_end_of_def start_def web_ending_def exit_code_def)

text \<open>With both ports free, the server ends only when one of its listeners does.\<close>

theorem auto_tls_serves_until_a_listener_ends:
  assumes "bind (any_addr (at_https_port auto_tls)) = Ok ()" "bind (any_addr (at_http_port auto_tls)) = Ok ()"
  shows "start (ServeAutoTls auto_tls) None smtp_first (web_end_of (snd (run_auto_tls_web_server bind first_end auto_tls))) = None
    \<longleftrightarrow> first_end = None"
  using assms by (simp add: run_auto_tls_web_server_def web_end_of_def start_def web_ending_def)

text \<open>The challenge of HTTP-01 is redirected like every other path, so a certificate can only be had by TLS-ALPN-01.\<close>

lemma challenge_is_redirected:
  "at_https_port auto_tls = 443 \<Longrightarrow>
   redirect_app auto_tls (''/.well-known/acme-challenge/'' @ token) = (308, ''https://'' @ at_domain auto_tls @ ''/.well-known/acme-challenge/'' @ token)"
  by (simp add: redirect_app_def redirect_url_def)

end
