(* ===== verification/Test_Dialogue.thy ===== *)
theory Test_Dialogue
  imports Tls_Policy Dev_Seed
begin

text \<open>
  The client that tries a running server, \<open>src/src/bin/smtp_test.rs\<close>: the mail it sends in plain and after STARTTLS.
  Connections are those of \<open>Smtp_Client\<close>; what the client prints is left out.
\<close>

section \<open>The dialogue\<close>

text \<open>One line is read after each command, whatever it says.\<close>

definition test_send_cmd :: "string \<Rightarrow> conn \<Rightarrow> (string + unit) \<times> conn" where
  "test_send_cmd cmd c = (case write_all (cmd @ CRLF) c of
     (Inl e, c) \<Rightarrow> (Err e, c)
   | (Inr _, c) \<Rightarrow> (case read_line c of
       (Inl e, c) \<Rightarrow> (Err e, c)
     | (Inr _, c) \<Rightarrow> (Ok (), c)))"

fun test_send_cmds :: "string list \<Rightarrow> conn \<Rightarrow> (string + unit) \<times> conn" where
  "test_send_cmds [] c = (Ok (), c)"
| "test_send_cmds (cmd # cmds) c = (case test_send_cmd cmd c of
     (Inl e, c) \<Rightarrow> (Err e, c)
   | (Inr _, c) \<Rightarrow> test_send_cmds cmds c)"

definition test_email_body :: string where
  "test_email_body =
     ''From: sender@example.com'' @ CRLF @ ''To: hello@maileroo.test'' @ CRLF @ ''Subject: Realistic Test Email'' @ CRLF @ CRLF @
     ''This is the body of the email.'' @ CRLF @ ''It can have multiple lines.'' @ CRLF @ ''.''"

definition test_email_domain :: "(string \<Rightarrow> string option) \<Rightarrow> string" where
  "test_email_domain env = (case split_on (CHR '','') (unwrap_or ''example.com'' (env ''EMAIL_DOMAINS'')) of
     [] \<Rightarrow> ''example.com''
   | d # _ \<Rightarrow> d)"

definition test_commands :: "(string \<Rightarrow> string option) \<Rightarrow> string list" where
  "test_commands env =
     [''EHLO localhost'', ''MAIL FROM:<SRS0+EVHV=21=gmail.com=megannhl99@'' @ test_email_domain env @ ''>'',
      ''RCPT TO:<hello@maileroo.test>'', ''DATA'', test_email_body, ''QUIT'']"

definition run_plain_test :: "(string \<Rightarrow> string option) \<Rightarrow> conn \<Rightarrow> (string + unit) \<times> conn" where
  "run_plain_test env c = (case read_line c of
     (Inl e, c) \<Rightarrow> (Err e, c)
   | (Inr _, c) \<Rightarrow> test_send_cmds (test_commands env) c)"

text \<open>The verifier of the test takes every certificate and every signature.\<close>

definition dummy_verifier :: cert_verifier where
  "dummy_verifier = \<lparr>vf_server_cert = (\<lambda>_ _. Ok ()), vf_tls12_signature = (\<lambda>_ _ _. Ok ()), vf_tls13_signature = (\<lambda>_ _ _. Ok ()),
     vf_schemes = [''RSA_PKCS1_SHA1'', ''ECDSA_NISTP256_SHA256'', ''ECDSA_NISTP384_SHA384'', ''ECDSA_NISTP521_SHA512'',
       ''RSA_PSS_SHA256'', ''RSA_PSS_SHA384'', ''RSA_PSS_SHA512'', ''ED25519'', ''ED448'']\<rparr>"

text \<open>\<open>roots\<close> is the outcome of reading the file of certificates, \<open>seeded\<close> that of seeding again.\<close>

definition run_tls_test ::
  "(string \<Rightarrow> string option) \<Rightarrow> string + unit \<Rightarrow> string + unit \<Rightarrow> conn \<Rightarrow> (string + unit) \<times> conn" where
  "run_tls_test env roots seeded c = (case read_line c of
     (Inl e, c) \<Rightarrow> (Err e, c)
   | (Inr _, c) \<Rightarrow> (case test_send_cmds [''EHLO localhost'', ''STARTTLS''] c of
       (Inl e, c) \<Rightarrow> (Err e, c)
     | (Inr _, c) \<Rightarrow> (case (roots, seeded) of
         (Inl e, _) \<Rightarrow> (Err e, c)
       | (_, Inl e) \<Rightarrow> (Err e, c)
       | _ \<Rightarrow> (case tls_script c of
           Inl e \<Rightarrow> (Err e, c)
         | Inr ls \<Rightarrow> test_send_cmds (test_commands env) (c\<lparr>inbox := ls, tls := True\<rparr>)))))"

text \<open>Only a failed seeding is an error of \<open>main\<close>; a test that fails is printed.\<close>

definition smtp_test_main ::
  "string + unit \<Rightarrow> (string + unit) \<times> conn \<Rightarrow> (string + unit) \<times> conn \<Rightarrow> string + unit" where
  "smtp_test_main seeded plain tls_test = (case seeded of
     Inl e \<Rightarrow> Err e
   | Inr _ \<Rightarrow> (case (plain, tls_test) of _ \<Rightarrow> Ok ()))"

section \<open>What it says, whatever it hears\<close>

lemma calm_send:
  assumes "net_faults c = []"
  shows "\<exists>ls. test_send_cmd cmd c = (Ok (), c\<lparr>inbox := ls, wire := wire c @ [(tls c, cmd @ CRLF)]\<rparr>)"
proof -
  have "cmd @ CRLF \<noteq> []" by simp
  with assms show ?thesis
    by (cases "inbox c"; cases c) (simp_all add: test_send_cmd_def write_all_def net_step_def read_line_def)
qed

lemma calm_sends:
  "net_faults c = [] \<Longrightarrow>
   \<exists>ls. test_send_cmds cmds c = (Ok (), c\<lparr>inbox := ls, wire := wire c @ map (\<lambda>cmd. (tls c, cmd @ CRLF)) cmds\<rparr>)"
proof (induction cmds arbitrary: c)
  case Nil
  show ?case by (intro exI [of _ "inbox c"]) simp
next
  case (Cons cmd cmds)
  from calm_send [OF Cons.prems] obtain ls where s: "test_send_cmd cmd c = (Ok (), c\<lparr>inbox := ls, wire := wire c @ [(tls c, cmd @ CRLF)]\<rparr>)"
    by blast
  have "net_faults (c\<lparr>inbox := ls, wire := wire c @ [(tls c, cmd @ CRLF)]\<rparr>) = []" using Cons.prems by simp
  from Cons.IH [OF this] s show ?case by fastforce
qed

text \<open>The test never looks at an answer. On a connection that does not break it says its whole script and succeeds, be
  the server silent or be every answer a refusal; the test after STARTTLS as well, once the handshake is done.\<close>

theorem test_ignores_every_answer:
  assumes calm: "net_faults c = []"
  shows "run_plain_test env c = (r, c') \<Longrightarrow>
      r = Ok () \<and> wire c' = wire c @ map (\<lambda>cmd. (tls c, cmd @ CRLF)) (test_commands env)"
    and "run_tls_test env (Ok ()) (Ok ()) c = (r2, c2) \<Longrightarrow> tls_script c = Ok ls \<Longrightarrow> \<not> tls c \<Longrightarrow>
      r2 = Ok () \<and> wire c2 = wire c @ [(False, ''EHLO localhost'' @ CRLF), (False, ''STARTTLS'' @ CRLF)] @
        map (\<lambda>cmd. (True, cmd @ CRLF)) (test_commands env)"
proof -
  obtain l ls0 where g: "read_line c = (Ok l, c\<lparr>inbox := ls0\<rparr>)"
    using calm by (cases "inbox c"; cases c) (auto simp: read_line_def net_step_def)
  have calm0: "net_faults (c\<lparr>inbox := ls0\<rparr>) = []" using calm by simp
  { assume "run_plain_test env c = (r, c')"
    with g calm_sends [OF calm0, of "test_commands env"]
    show "r = Ok () \<and> wire c' = wire c @ map (\<lambda>cmd. (tls c, cmd @ CRLF)) (test_commands env)"
      by (auto simp: run_plain_test_def) }
  { assume run: "run_tls_test env (Ok ()) (Ok ()) c = (r2, c2)" and tls: "tls_script c = Ok ls" "\<not> tls c"
    from calm_sends [OF calm0, of "[''EHLO localhost'', ''STARTTLS'']"] obtain ls1 where
      s: "test_send_cmds [''EHLO localhost'', ''STARTTLS''] (c\<lparr>inbox := ls0\<rparr>) =
        (Ok (), c\<lparr>inbox := ls1, wire := wire c @ [(tls c, ''EHLO localhost'' @ CRLF), (tls c, ''STARTTLS'' @ CRLF)]\<rparr>)" by auto
    define c1 where "c1 = c\<lparr>inbox := ls1, wire := wire c @ [(tls c, ''EHLO localhost'' @ CRLF), (tls c, ''STARTTLS'' @ CRLF)]\<rparr>"
    have c1: "net_faults c1 = []" "tls_script c1 = Ok ls"
      "wire c1 = wire c @ [(False, ''EHLO localhost'' @ CRLF), (False, ''STARTTLS'' @ CRLF)]"
      using calm tls by (simp_all add: c1_def)
    have "run_tls_test env (Ok ()) (Ok ()) c = test_send_cmds (test_commands env) (c1\<lparr>inbox := ls, tls := True\<rparr>)"
      by (simp only: run_tls_test_def g s [folded c1_def] prod.case sum.case c1(2))
    moreover have "net_faults (c1\<lparr>inbox := ls, tls := True\<rparr>) = []" using c1(1) by simp
    from calm_sends [OF this, of "test_commands env"] obtain c3 where
      "test_send_cmds (test_commands env) (c1\<lparr>inbox := ls, tls := True\<rparr>) = (Ok (), c3)"
      "wire c3 = wire c1 @ map (\<lambda>cmd. (True, cmd @ CRLF)) (test_commands env)" by fastforce
    ultimately have "r2 = Ok ()" "wire c2 = wire c1 @ map (\<lambda>cmd. (True, cmd @ CRLF)) (test_commands env)" using run by auto
    then show "r2 = Ok () \<and> wire c2 = wire c @ [(False, ''EHLO localhost'' @ CRLF), (False, ''STARTTLS'' @ CRLF)] @
        map (\<lambda>cmd. (True, cmd @ CRLF)) (test_commands env)"
      unfolding c1(3) by simp }
qed

end
