(* ===== verification/Between_Servers.thy ===== *)
theory Between_Servers
  imports Smtp_Guarantees
begin

text \<open>
  One server sends to another: the client of \<open>outbound/mod.rs\<close> on the answers of the session of \<open>inbound/protocol.rs\<close>.
\<close>

text \<open>What a new session says to a client that greets it.\<close>

definition first_words :: "string \<Rightarrow> unit session" where
  "first_words cmd = s_bind (write_line ''220 Welcome to my Email Server'') (\<lambda>_. handle_greet cmd)"

lemma first_words_lines:
  assumes "first_words (''EHLO '' @ me) (session_new peer_ip faults handshakes, w) = (Ok (), ss, w')"
  shows "ss_written ss = [''220 Welcome to my Email Server'' @ CRLF, ''250 Hello'' @ CRLF]"
proof -
  have "starts_with ''EHLO'' (to_uppercase (''EHLO '' @ me))"
    by (simp add: to_uppercase_def char_eval)
  with assms show ?thesis
    by (auto simp: first_words_def handle_greet_def s_bind_def write_line_def set_state_def s_update_def session_new_def
        split: if_splits list.splits bool.splits prod.splits sum.splits)
qed

text \<open>An answer of one line is read as that line.\<close>

lemma read_full_response_line:
  assumes "read_full_response [] c = (Inr ls, c')" "inbox c = l # rest" "4 \<le> length l" "l ! 3 \<noteq> CHR ''-''"
  shows "ls = [trim l] \<and> inbox c' = rest"
proof -
  obtain r c1 where r: "read_line c = (r, c1)" by fastforce
  have "r = Inr l \<and> inbox c1 = rest \<or> (\<exists>e. r = Inl e)"
    using r assms(2) by (auto simp: read_line_def dest!: net_step_inbox split: prod.splits option.splits)
  with r assms show ?thesis by (subst (asm) read_full_response.simps) (auto simp: Let_def split: if_splits)
qed

lemma send_cmd_line:
  assumes "send_cmd cmd delay c = (Inr ls, c')" "inbox c = l # rest" "4 \<le> length l" "l ! 3 \<noteq> CHR ''-''"
  shows "ls = [trim l]"
proof -
  define c0 where "c0 = (if delay then c\<lparr>slept_ms := slept_ms c + 100\<rparr> else c)"
  have "\<exists>c1. write_all (cmd @ CRLF) c0 = (Inr (), c1) \<and> read_full_response [] c1 = (Inr ls, c')"
    using assms(1) by (auto simp: c0_def send_cmd_def Let_def split: if_splits prod.splits sum.splits)
  then obtain c1 where c1: "write_all (cmd @ CRLF) c0 = (Inr (), c1)" "read_full_response [] c1 = (Inr ls, c')"
    by blast
  have "inbox c0 = inbox c" by (simp add: c0_def)
  moreover have "inbox c1 = inbox c0" using c1(1) by (auto simp: write_all_def dest!: net_step_inbox split: if_splits prod.splits option.splits)
  ultimately show ?thesis using c1(2) read_full_response_line [of c1 ls c' l rest] assms(2-4) by auto
qed

lemma first_words_trimmed: "trim (''250 Hello'' @ CRLF) = ''250 Hello''"
  by (simp add: trim_eval char_eval)

text \<open>C13: Mail between two of these servers crosses the net in plain text. A session answers EHLO with one line that
  does not offer STARTTLS, whatever certificate its server has; so a client that is the other server's, and encrypts
  whenever it is offered, says EHLO and then the envelope and the message in the clear.\<close>

theorem mail_between_servers_is_plain:
  assumes server: "first_words (''EHLO '' @ ob_identity_domain ob) (session_new peer_ip faults handshakes, w) = (Ok (), ss, w')"
    and client: "inbox c = ss_written ss @ later" "\<not> tls c"
    and run: "mx_session ob host recipient from_envelope body c = (r, c')"
  shows "\<exists>ws. wire c' = wire c @ map (Pair False) ws \<and>
    (is_ok r \<longrightarrow> ws = (''EHLO '' @ ob_identity_domain ob @ CRLF) # mail_script from_envelope recipient body)"
proof -
  have lines: "inbox c = (''220 Welcome to my Email Server'' @ CRLF) # (''250 Hello'' @ CRLF) # later"
    using client(1) first_words_lines [OF server] by simp
  obtain r1 c1 where g: "read_full_response [] c = (r1, c1)" by fastforce
  have g': "wire c1 = wire c" "\<not> tls c1" using read_full_response_wire [OF g] client(2) by auto
  obtain r2 c2 where e: "send_cmd (''EHLO '' @ ob_identity_domain ob) False c1 = (r2, c2)" by fastforce
  from follows_send_cmd e obtain ws where ws: "\<not> tls c2" "wire c2 = wire c1 @ map (Pair False) ws"
    "is_ok r2 \<Longrightarrow> ws = [''EHLO '' @ ob_identity_domain ob @ CRLF]"
    by (rule followsD) (use g'(2) in auto)
  show ?thesis
  proof (cases "is_ok r1 \<and> is_ok r2")
    case True
    then obtain l1 caps where ok: "r1 = Inr l1" "r2 = Inr caps" by (cases r1; cases r2) (auto simp: is_ok_def)
    have "inbox c1 = (''250 Hello'' @ CRLF) # later" using read_full_response_line [OF g [unfolded ok] lines] by simp
    from send_cmd_line [OF e [unfolded ok] this] have "caps = [trim (''250 Hello'' @ CRLF)]" by simp
    then have "caps = [''250 Hello'']" unfolding first_words_trimmed .
    then have "send_mail_flow caps from_envelope recipient body c2 = (r, c')"
      using run g e ok by (simp add: mx_session_def)
    with follows_mail_flow obtain vs where "wire c' = wire c2 @ map (Pair False) vs" "is_ok r \<Longrightarrow> vs = mail_script from_envelope recipient body"
      by (rule followsD) (use ws(1) in auto)
    with ws True g' show ?thesis by (intro exI [of _ "ws @ vs"]) simp
  next
    case False
    with run g e ws(2) g' show ?thesis
      by (cases r1; cases r2) (auto simp: mx_session_def is_ok_def intro: exI [of _ "[]"] exI [of _ ws])
  qed
qed

section \<open>Witness\<close>

text \<open>A peer that takes the mail, and a net that does not fail.\<close>

definition taken :: "string \<Rightarrow> string list \<Rightarrow> conn \<Rightarrow> bool" where
  "taken l rest c \<longleftrightarrow> net_faults c = [] \<and> inbox c = (l @ CRLF) # rest \<and> 4 \<le> length l \<and> l ! 3 \<noteq> CHR ''-'' \<and> trim (l @ CRLF) = l \<and>
     (starts_with ''2'' l \<or> starts_with ''3'' l)"

lemma taken_response: "taken l rest c \<Longrightarrow> read_full_response [] c = (Inr [l], c\<lparr>inbox := rest\<rparr>)"
  by (subst read_full_response.simps) (auto simp: taken_def read_line_def net_step_def nth_append)

lemma taken_cmd:
  assumes "taken l rest c" "CR \<notin> set cmd" "LF \<notin> set cmd"
  obtains c' where "send_cmd cmd delay c = (Inr [l], c')" "net_faults c' = []" "inbox c' = rest"
proof -
  define c1 where "c1 = (if delay then c\<lparr>slept_ms := slept_ms c + 100\<rparr> else c)\<lparr>wire := wire c @ [(tls c, cmd @ CRLF)]\<rparr>"
  have t: "taken l rest c1" using assms(1) by (simp add: taken_def c1_def)
  have "send_cmd cmd delay c = (Inr [l], c1\<lparr>inbox := rest\<rparr>)"
    using assms taken_response [OF t] by (auto simp: send_cmd_def write_all_def net_step_def taken_def c1_def Let_def)
  moreover have "net_faults (c1\<lparr>inbox := rest\<rparr>) = []" "inbox (c1\<lparr>inbox := rest\<rparr>) = rest" using t by (auto simp: taken_def)
  ultimately show thesis by (rule that)
qed

definition taking_conn :: conn where
  "taking_conn = plain_conn (map (\<lambda>l. l @ CRLF) [''220 Welcome to my Email Server'', ''250 Hello'', ''250 OK'',
     ''250 OK'', ''354 End data'', ''250 OK'', ''221 Bye''])"

lemma takenI:
  "trim (l @ CRLF) = l \<Longrightarrow> net_faults c = [] \<Longrightarrow> inbox c = (l @ CRLF) # rest \<Longrightarrow> 4 \<le> length l \<Longrightarrow> l ! 3 \<noteq> CHR ''-'' \<Longrightarrow>
   starts_with ''2'' l \<or> starts_with ''3'' l \<Longrightarrow> taken l rest c"
  unfolding taken_def by blast

lemma trimmed_answers:
  "trim (''220 Welcome to my Email Server'' @ CRLF) = ''220 Welcome to my Email Server''" "trim (''250 OK'' @ CRLF) = ''250 OK''"
  "trim (''354 End data'' @ CRLF) = ''354 End data''" "trim (''221 Bye'' @ CRLF) = ''221 Bye''"
  by (simp_all add: trim_eval char_eval)

lemma calm_write: "net_faults c = [] \<Longrightarrow> bytes \<noteq> [] \<Longrightarrow> write_all bytes c = (Ok (), c\<lparr>wire := wire c @ [(tls c, bytes)]\<rparr>)"
  by (simp add: write_all_def net_step_def)

lemma taken_flow:
  assumes "net_faults c = []"
    "inbox c = [''250 OK'' @ CRLF, ''250 OK'' @ CRLF, ''354 End data'' @ CRLF, ''250 OK'' @ CRLF, ''221 Bye'' @ CRLF]"
  shows "is_ok (fst (send_mail_flow [''250 Hello''] ''bob@y.org'' ''shop@x.org'' ''hi'' c))"
proof -
  note t = trimmed_answers
  have body: "apply_dot_stuffing ''hi'' = ''hi''" "\<not> ends_with CRLF ''hi''" by (simp_all add: apply_dot_stuffing_def ends_with_def)
  have ok: "taken ''250 OK'' rest c" if "net_faults c = []" "inbox c = (''250 OK'' @ CRLF) # rest" for c rest
    by (rule takenI [OF t(2) that]) simp_all
  obtain c1 where c1: "send_cmd ''MAIL FROM:<bob@y.org>'' False c = (Inr [''250 OK''], c1)" "net_faults c1 = []" "inbox c1 = tl (inbox c)"
    by (rule taken_cmd [OF ok [OF assms], of "''MAIL FROM:<bob@y.org>''" False]) (simp_all add: assms(2))
  obtain c2 where c2: "send_cmd ''RCPT TO:<shop@x.org>'' True c1 = (Inr [''250 OK''], c2)" "net_faults c2 = []" "inbox c2 = tl (inbox c1)"
    by (rule taken_cmd [OF ok [OF c1(2)], of _ "''RCPT TO:<shop@x.org>''" True]) (simp_all add: assms(2) c1(3))
  have "taken ''354 End data'' (tl (inbox c2)) c2" by (rule takenI [OF t(3) c2(2)]) (simp_all add: c2(3) c1(3) assms(2))
  then obtain c3 where c3: "send_cmd ''DATA'' True c2 = (Inr [''354 End data''], c3)" "net_faults c3 = []" "inbox c3 = tl (inbox c2)"
    by (rule taken_cmd [where cmd = "''DATA''" and delay = True]) simp_all
  define c4 where "c4 = c3\<lparr>wire := wire c3 @ [(tls c3, ''hi''), (tls c3, CRLF)]\<rparr>"
  have w: "write_all ''hi'' c3 = (Ok (), c3\<lparr>wire := wire c3 @ [(tls c3, ''hi'')]\<rparr>)"
    "write_all CRLF (c3\<lparr>wire := wire c3 @ [(tls c3, ''hi'')]\<rparr>) = (Ok (), c4)"
    using c3(2) by (simp_all add: calm_write c4_def)
  have c4: "net_faults c4 = []" "inbox c4 = tl (inbox c2)" using c3 by (simp_all add: c4_def)
  obtain c5 where c5: "send_cmd ''.'' True c4 = (Inr [''250 OK''], c5)" "net_faults c5 = []" "inbox c5 = tl (inbox c4)"
    by (rule taken_cmd [OF ok [OF c4(1)], of _ "''.''" True]) (simp_all add: assms(2) c1(3) c2(3) c4(2))
  have "taken ''221 Bye'' (tl (inbox c5)) c5" by (rule takenI [OF t(4) c5(2)]) (simp_all add: c5(3) c4(2) c2(3) c1(3) assms(2))
  then obtain c6 where c6: "send_cmd ''QUIT'' True c5 = (Inr [''221 Bye''], c6)"
    by (rule taken_cmd [where cmd = "''QUIT''" and delay = True]) simp_all
  show ?thesis using c1(1) c2(1) c3(1) w c5(1) c6 by (simp add: send_mail_flow_def and_then_def body Let_def is_ok_def)
qed

lemma calm_write_line:
  "ss_stream ss \<noteq> EmptyStream \<Longrightarrow> ss_write_faults ss = [] \<Longrightarrow>
   write_line msg (ss, w) = (Ok (), ss\<lparr>ss_written := ss_written ss @ [msg @ CRLF], ss_write_faults := []\<rparr>, w)"
  by (simp add: write_line_def)

lemma calm_first_words:
  assumes "starts_with ''EHLO'' (to_uppercase cmd)"
  shows "\<exists>ss. first_words cmd (session_new peer_ip [] handshakes, w) = (Ok (), ss, w)"
proof -
  define s0 where "s0 = session_new peer_ip [] handshakes"
  have s0: "ss_stream s0 \<noteq> EmptyStream" "ss_write_faults s0 = []" by (simp_all add: s0_def session_new_def)
  define s1 where "s1 = s0\<lparr>ss_written := ss_written s0 @ [''220 Welcome to my Email Server'' @ CRLF], ss_write_faults := []\<rparr>"
  have s1: "ss_stream s1 \<noteq> EmptyStream" "ss_write_faults s1 = []" using s0 by (simp_all add: s1_def)
  show ?thesis unfolding s0_def [symmetric]
    by (simp only: first_words_def handle_greet_def s_bind_def assms simp_thms if_True prod.case sum.case
        calm_write_line [OF s0] s1_def [symmetric] calm_write_line [OF s1] set_state_def s_update_def) blast
qed

theorem mail_between_servers_is_plain_witness:
  "\<exists>c'. mx_session sample_ob ''mx'' ''shop@x.org'' ''bob@y.org'' ''hi'' taking_conn = (Ok (), c') \<and>
     wire c' = map (Pair False) ((''EHLO x.org'' @ CRLF) # mail_script ''bob@y.org'' ''shop@x.org'' ''hi'')"
proof -
  obtain c1 where c1: "read_full_response [] taking_conn = (Inr [''220 Welcome to my Email Server''], c1)" "net_faults c1 = []"
      "inbox c1 = tl (inbox taking_conn)"
  proof -
    have "taken ''220 Welcome to my Email Server'' (tl (inbox taking_conn)) taking_conn"
      by (rule takenI [OF trimmed_answers(1)]) (simp_all add: taking_conn_def plain_conn_def)
    from taken_response [OF this] show thesis by (rule that) (simp_all add: taking_conn_def plain_conn_def)
  qed
  have "taken ''250 Hello'' (tl (inbox c1)) c1"
    by (rule takenI [OF first_words_trimmed c1(2)]) (simp_all add: c1(3) taking_conn_def plain_conn_def)
  then obtain c2 where c2: "send_cmd ''EHLO x.org'' False c1 = (Inr [''250 Hello''], c2)" "net_faults c2 = []" "inbox c2 = tl (inbox c1)"
    by (rule taken_cmd [where cmd = "''EHLO x.org''" and delay = False]) simp_all
  have me: "ob_identity_domain sample_ob = ''x.org''" by (simp add: sample_ob_def)
  have "is_ok (fst (send_mail_flow [''250 Hello''] ''bob@y.org'' ''shop@x.org'' ''hi'' c2))"
    by (rule taken_flow [OF c2(2)]) (simp add: c2(3) c1(3) taking_conn_def plain_conn_def)
  then obtain c' where run: "mx_session sample_ob ''mx'' ''shop@x.org'' ''bob@y.org'' ''hi'' taking_conn = (Ok (), c')"
    using c1(1) c2(1) by (cases "send_mail_flow [''250 Hello''] ''bob@y.org'' ''shop@x.org'' ''hi'' c2")
      (auto simp: mx_session_def me is_ok_def split: sum.splits)
  have greet: "starts_with ''EHLO'' (to_uppercase ''EHLO x.org'')" by (simp add: to_uppercase_def char_eval)
  have ehlo: "''EHLO '' @ ob_identity_domain sample_ob = ''EHLO x.org''" by (simp add: me)
  obtain ss where server: "first_words (''EHLO '' @ ob_identity_domain sample_ob) (session_new (V4 1) [] [], sample_world) = (Ok (), ss, sample_world)"
    unfolding ehlo using calm_first_words [OF greet] by blast
  have heard: "inbox taking_conn = ss_written ss @ drop 2 (inbox taking_conn)"
    unfolding first_words_lines [OF server] by (simp add: taking_conn_def plain_conn_def)
  have plain: "\<not> tls taking_conn" "wire taking_conn = []" by (simp_all add: taking_conn_def plain_conn_def)
  from mail_between_servers_is_plain [OF server heard plain(1) run] run plain(2) show ?thesis by (simp add: me is_ok_def)
qed

end
