(* ===== verification/Spec2Isabelle.thy ===== *)
theory Spec2Isabelle
  imports Smtp_Guarantees Web_Labels Web_Mail_Guarantees Web_Domains Web_Routes Web_Dialogs Dev_Seed Web_Accounts Relay_Probe Auto_Tls Test_Dialogue Between_Servers
begin

text \<open>
  A verification development for maileroo, a mail server and alias service written in Rust (\<open>src/src\<close>).

  The program. Mail for an alias arrives by SMTP (\<open>inbound/\<close>), is stored as a file and a row (\<open>db/\<close>, \<open>fs.rs\<close>), labelled
  by the rules of its owner (\<open>filter.rs\<close>), and forwarded to the owner under a rewritten sender (\<open>outbound/srs.rs\<close>,
  \<open>outbound/mime.rs\<close>) by the outbound service (\<open>outbound/mod.rs\<close>, \<open>relay.rs\<close>), which puts what it cannot deliver
  into a queue (\<open>outbound/queue.rs\<close>). The owner answers through a reply token or SRS address and the server relays the
  answer. A web application and a JSON API (\<open>web/\<close>) manage users, aliases, domains, DKIM keys, labels and filters, and
  send mail and replies of their own.

  How the model is built. Functions are translated one by one under the names of the source. A Rust \<open>Result\<close> is a sum,
  \<open>Err\<close> on the left; \<open>Option\<close> is \<open>option\<close>; \<open>String\<close> and byte vectors are lists of characters, one per byte; a UUID is a
  string drawn from a supply; time is an integer of seconds. State is passed explicitly. I/O fails by schedules in
  the state: \<open>db_faults\<close> (statements), \<open>io_faults\<close> (system calls), the scripts of network connections; so every theorem
  without a hypothesis on a schedule holds whatever fails. Parameters stand for crates and services: the mail parser,
  base64, the MAC of SRS, SHA-256, Argon2 and the cipher (\<open>cipher_lib\<close>), DKIM signing, DNS (\<open>resolver\<close>), TLS
  handshakes, Aho-Corasick (\<open>lib\<close>, with the documented laws of a matcher), the UUID parser, MIME guesses, the
  multipart decoder and the router of axum (\<open>router_ok\<close>), the rate limiter, the sanitizer \<open>ammonia\<close>, the readers of
  PEM files, the database drivers, the environment, and the clock.

  Theories, in order.

  \<^item> \<open>Rust_Prelude\<close>: the string functions of the standard library with their lemmas; \<open>Contracts\<close>: the interfaces
  (\<open>machine\<close>, \<open>ranked_machine\<close>, \<open>byte_sink\<close>, \<open>bounded_sink\<close>) as locales, interpreted by the components below.
  \<^item> \<open>File_Store\<close> (\<open>fs.rs\<close> and the calls of \<open>std::fs\<close>): files, modes and faults. \<open>Body_Buffer\<close>
  (\<open>SmartBodyBuffer\<close> of \<open>inbound/protocol.rs\<close>, \<open>inbound/parser.rs\<close>): the message body in memory or spilled to a
  temporary file through a \<open>BufWriter\<close>; it refines a byte sequence of limited size.
  \<^item> \<open>Mime\<close> (\<open>outbound/mime.rs\<close>), \<open>Srs\<close> (\<open>outbound/srs.rs\<close>), \<open>Ip_Addr\<close> and \<open>Dns\<close> (\<open>dns.rs\<close>), \<open>Crypto\<close>
  (\<open>crypto.rs\<close>), \<open>Abuse_Guard\<close> (\<open>inbound/blocklist.rs\<close>, \<open>rate_limit.rs\<close>).
  \<^item> \<open>Db_Schema\<close>, \<open>Db_Tables\<close>, \<open>Db_Integrity\<close>: the tables of \<open>migrations/sqlite\<close>, one record per row, their unique keys
  and foreign keys as \<open>*_constraints\<close>, cascades as \<open>purge_*\<close>, statements and transactions; \<open>db_wf\<close> is the integrity
  that the constraints keep, and \<open>keeps db_wf m\<close> is proved for every operation. \<open>Db_Mail\<close>, \<open>Db_Aliases\<close>,
  \<open>Db_Accounts\<close>, \<open>Db_Labels\<close>, \<open>Db_Sent\<close> (\<open>db/*.rs\<close>): one definition per query; where the two back ends differ the
  definition asks \<open>backend\<close>.
  \<^item> \<open>Smtp_Client\<close> (\<open>read_full_response\<close>, \<open>send_cmd\<close>, dot stuffing, \<open>send_mail_flow\<close>, \<open>relay.rs\<close>), \<open>Outbound\<close>
  (signing, delivery, \<open>send_raw\<close> and the sending operations, \<open>enqueue_job\<close>), \<open>Outbound_Queue\<close> (\<open>process_queue_tick\<close>;
  one job implements the abstract \<open>queue_after\<close>, and the daemon is a ranked machine that drains).
  \<^item> \<open>Filter_Engine\<close> (\<open>filter.rs\<close>): searchable text, compiled rules, the cache and the backfill worker.
  \<^item> \<open>Smtp_Session\<close> (\<open>SmtpSession\<close>): every command, the body, STARTTLS, the loop of a session, in a monad of one
  session over the service; \<open>Smtp_Guarantees\<close>: \<open>run_server\<close> (\<open>inbound/mod.rs\<close>) as the machine \<open>inbound\<close>, whose events
  interleave clients, spawned tasks and sweeps, and the guarantees of sessions.
  \<^item> \<open>Disposable_Domains\<close>, \<open>Web_Auth\<close> (\<open>web/mod.rs\<close>, \<open>session.rs\<close>, \<open>auth.rs\<close>, \<open>api_auth.rs\<close>, login, registration and
  API keys of \<open>handlers.rs\<close>), \<open>Web_Labels\<close> (\<open>labels.rs\<close>, machine \<open>label_events\<close>), \<open>Web_Names\<close> and \<open>Web_Aliases\<close>
  (\<open>names.rs\<close>, \<open>alias_api.rs\<close>, the alias and user pages), \<open>Web_Domains\<close> (domain pages, \<open>dkim.rs\<close>, machine
  \<open>dkim_rotation\<close>), \<open>Web_Send\<close> and \<open>Web_Send_Guarantees\<close> (\<open>attachments_form.rs\<close>, \<open>send_email.rs\<close>, \<open>replies.rs\<close>, the
  sending half of \<open>api.rs\<close>), \<open>Web_Mail\<close> and \<open>Web_Mail_Guarantees\<close> (\<open>dashboard.rs\<close>, \<open>get_email\<close> and the threads of
  \<open>web/mod.rs\<close>, \<open>email_body.rs\<close>, downloads, the reading half of \<open>api.rs\<close>), \<open>Web_Routes\<close> (the table of \<open>create_app\<close>, its
  layers and the extractors of the handlers, \<open>audit.rs\<close>), \<open>Web_Locale\<close> (the choice of a language in \<open>i18n.rs\<close>, with
  the rounding of numbers of 32 bits), \<open>Web_Messages\<close> (the catalogue of \<open>i18n.rs\<close>: every text in the four languages),
  \<open>Web_Dialogs\<close> (the dialogs that ask before a deletion, with their texts). Templates are records of the data they
  show; in the other theories of the web a text of the catalogue is its key.

  \<^item> \<open>Server\<close> (\<open>server.rs\<close>, \<open>config.rs\<close>, \<open>init_pool\<close> and
  \<open>run_migrations\<close>, \<open>inbound/acceptor.rs\<close>, the paths of \<open>web/autotls.rs\<close>):
  configuration, start-up with every early return, the certificate and its watcher as a state with ticks over changing
  disks, and the daily clean-up. \<open>Server_Run\<close> (\<open>start\<close> of \<open>server.rs\<close>,
  \<open>run_server\<close> of \<open>inbound/mod.rs\<close>, \<open>main.rs\<close>): the accept loop, the race of the
  two servers, the exit code of the process, and the machine \<open>background\<close> of the periodic tasks.
  \<open>Tls_Policy\<close> (\<open>OutboundService::new\<close> and \<open>OpportunisticVerifier\<close> of
  \<open>outbound/mod.rs\<close>): which verifier decides about the certificate of a relay and of an MX host.
  \<open>Dev_Seed\<close> (\<open>bin/setup_db.rs\<close>, the seeding of \<open>bin/smtp_test.rs\<close>): the data for
  development. \<open>Relay_Probe\<close> (\<open>bin/smtp_relay_test.rs\<close>): the tool that tries a relay.
  \<open>Test_Dialogue\<close> (\<open>bin/smtp_test.rs\<close>): the client that tries a server.
  \<open>Between_Servers\<close>: the client of \<open>outbound/mod.rs\<close> on the answers of a session of
  \<open>inbound/protocol.rs\<close>. \<open>Auto_Tls\<close> (\<open>run_auto_tls_web_server\<close>): the two ports of
  the web server with certificates of its own. \<open>Web_Accounts\<close> (\<open>auth.rs\<close> over the crate
  \<open>argon2\<close>): registration and start-up on one side, login on the other.

  What is shown, by part. Inbound: a 250 means the mail is on disk and on record, for any fault; no input panics a
  session; the server invariant holds under every interleaving; guessing recipients ends in a block; only the owner of an
  alias gets a reply mapping. Outbound: success means accepted or queued; a queue job follows its abstract outcome and
  the queue drains; secrets stay off unencrypted channels and away from a relay whose certificate is not believed;
  stuffing, SRS, reply tokens and API keys round-trip; the retry delays have a closed form. Database: storing is atomic,
  conversations stay flat, retention deletes what it should and returns the keys. Filters: evaluation agrees with the
  rules, changes reach the cache, a backfill labels what matches. Web: a request speaks for its session user,
  administrators' handlers run for administrators, creating an alias has the stated outcome on every branch, DKIM keys
  change only to published ones, a firsthand send is accountable, the answer to a reply tells whether it left,
  attachments stay within bounds; the pages of the dashboard are the inbox, what was attached to a stored mail is what
  its download gives, downloads go to the owner alone, and no handler runs without the session, token, flag or key it
  asks for; a dialog shows the markup of its own text only, whatever it quotes. Server: a server that starts has its
  settings, directory and administrator, and its background tasks keep the tables sound; who has registered can log in,
  and the administrator too; a served certificate is only replaced by a complete one. Development data: seeding sets up a
  mailbox, and seeding again keeps the accounts.

  Bounds and termination. Loops over data are structural. Loops the code leaves open are bounded by what they consume:
  the session by its input (\<open>handle\<close> counts rounds), the SPF loop by its ten lookups, the queue by the
  attempts left (\<open>queue_work\<close>), \<open>generate_name\<close> by the random draws, the watcher of the
  certificate by the list of its ticks. The backfill loop is \<open>partial_function (option)\<close>: it is proved to
  end when labels can be stored and not to end when they cannot (\<open>backfill_never_ends_for_missing_label\<close>).
  Machine integers keep their width where it matters (SRS timestamps, IP masks).

  What proving showed of the code. A body that went to disk is empty when filters and forwarding read it, and its
  metadata lack the unflushed tail (\<open>Body_Buffer\<close>); a reply mapping stays for the connection
  (\<open>Smtp_Guarantees\<close>); EHLO is answered without the offer of STARTTLS, so mail between two of these servers
  is plain (\<open>Between_Servers\<close>); the verdict on a delivered mail hangs on the answer to QUIT
  (\<open>mail_flow_verdict_hangs_on_quit\<close>); SRS tags do not separate their fields and RCPT lowercases them
  (\<open>srs_hash_does_not_separate\<close>, \<open>srs_lowercased_address\<close>); SPF qualifiers are ignored
  (\<open>spf_fail_authorizes\<close>); threads cross users (\<open>threads_cross_users\<close>); a full backfill channel
  locks a tenant out (\<open>full_queue_locks_tenant_out\<close>); the alias limit can be raced
  (\<open>alias_limit_can_be_raced\<close>); cancelling a rotation during its verification drops the key
  (\<open>Web_Domains\<close>); a sent draft goes out again without a record (\<open>sent_draft_goes_out_again\<close>);
  the API misses the limit of a single file (\<open>api_skips_the_single_file_limit\<close>); an attachment to a reply
  that the body limit cuts goes out cut (\<open>Web_Routes\<close>); the attachment of a reply is listed as the mail's,
  deleting a conversation leaves files behind, and opening a draft in plain text panics
  (\<open>Web_Mail_Guarantees\<close>); the daily clean-up removes no file, a key written after its certificate was
  noticed is not served, and a certificate without read permission panics the web server (\<open>Server\<close>); one
  failed \<open>accept\<close> ends the process with the exit code of success
  (\<open>one_failed_accept_ends_the_process\<close>); a password of more than 128 bytes locks the administrator out
  (\<open>Web_Accounts\<close>); the HTTP port redirects the challenge of HTTP-01 too
  (\<open>challenge_is_redirected\<close>).

  Not modelled. The HTML of templates; the sockets, the ACME client and the TLS streams (\<open>AnyStream\<close>); log
  lines and spans; the store of sessions and the layers of compression and tracing; the Postgres migrations, which
  declare the same tables. Concurrency is interleaving of whole handlers or, where the text says so, of their halves.
\<close>

end
